(* ===== verification/Fetch_Prelude.thy ===== *)
theory Fetch_Prelude
  imports Main "HOL-Library.AList"
begin

text \<open>
  Prelude of the development: what the components share.

  \<^item> Go values. A Go \<^verbatim>\<open>string\<close> and a Go \<^verbatim>\<open>[]byte\<close> are both \<^typ>\<open>string\<close>: an Isabelle
    \<^typ>\<open>char\<close> is a byte. A Go \<^verbatim>\<open>map\<close> is an association list with distinct keys
    (\<^theory_text>\<open>gomap\<close>); the order of the list is one of the iteration orders that Go leaves
    unspecified, so a property that must hold of the code has to hold for every order.
  \<^item> Go errors. \<^verbatim>\<open>errors.New\<close> variables are compared by identity: \<^theory_text>\<open>ErrVar\<close> carries the
    variable's qualified name and its text; \<^verbatim>\<open>fmt.Errorf\<close> without \<^verbatim>\<open>%w\<close> is \<^theory_text>\<open>Errorf\<close>, with
    \<^verbatim>\<open>%w\<close> it is \<^theory_text>\<open>ErrWrap\<close>, which \<^verbatim>\<open>errors.Is\<close> looks through.
  \<^item> The functions of \<^verbatim>\<open>strings\<close> and \<^verbatim>\<open>path/filepath\<close> that the sources call, on bytes
    (white space and letter case are the ASCII ones).
\<close>

named_theorems go_simps
named_theorems map_laws

section \<open>Errors\<close>

datatype go_error =
    ErrVar string string
  | Errorf string
  | ErrWrap string go_error

type_synonym 'a result = "go_error + 'a"

fun err_Error :: "go_error \<Rightarrow> string" where
  "err_Error (ErrVar _ msg) = msg"
| "err_Error (Errorf msg) = msg"
| "err_Error (ErrWrap msg e) = msg @ '': '' @ err_Error e"

fun errors_Is :: "go_error \<Rightarrow> go_error \<Rightarrow> bool" where
  "errors_Is (ErrWrap msg e) t = (ErrWrap msg e = t \<or> errors_Is e t)"
| "errors_Is e t = (e = t)"

definition os_ErrNotExist :: go_error where
  "os_ErrNotExist = ErrVar ''os.ErrNotExist'' ''file does not exist''"

lemma errors_Is_refl [simp]: "errors_Is e e"
  by (cases e) auto

lemma errors_Is_ErrVar [simp]: "errors_Is (ErrVar n m) t \<longleftrightarrow> t = ErrVar n m"
  by auto

lemma errors_Is_Errorf [simp]: "errors_Is (Errorf m) t \<longleftrightarrow> t = Errorf m"
  by auto

lemma errors_Is_wrapped: "errors_Is e t \<Longrightarrow> errors_Is (ErrWrap m e) t"
  by simp

section \<open>Go maps\<close>

type_synonym ('k, 'v) gomap = "('k \<times> 'v) list"

abbreviation wf_map :: "('k, 'v) gomap \<Rightarrow> bool" where
  "wf_map m \<equiv> distinct (map fst m)"

abbreviation map_get :: "('k, 'v) gomap \<Rightarrow> 'k \<Rightarrow> 'v option" where
  "map_get \<equiv> map_of"

abbreviation map_set :: "'k \<Rightarrow> 'v \<Rightarrow> ('k, 'v) gomap \<Rightarrow> ('k, 'v) gomap" where
  "map_set \<equiv> AList.update"

abbreviation map_del :: "'k \<Rightarrow> ('k, 'v) gomap \<Rightarrow> ('k, 'v) gomap" where
  "map_del \<equiv> AList.delete"

lemma map_get_set [simp, map_laws]: "map_get (map_set k v m) = (map_get m)(k \<mapsto> v)"
  by (rule update_conv')

lemma map_get_del [simp, map_laws]: "map_get (map_del k m) = (map_get m)(k := None)"
  by (rule delete_conv')

lemma wf_map_set [simp, intro, map_laws]: "wf_map m \<Longrightarrow> wf_map (map_set k v m)"
  by (rule distinct_update)

lemma wf_map_del [simp, intro, map_laws]: "wf_map m \<Longrightarrow> wf_map (map_del k m)"
  by (rule distinct_delete)

lemma map_del_fresh [simp]: "k \<notin> fst ` set m \<Longrightarrow> map_del k m = m"
  by (induction m) auto

lemma map_set_fresh: "k \<notin> fst ` set m \<Longrightarrow> map_set k v m = m @ [(k, v)]"
  by (induction m) auto

text \<open>
  A loop over the values of a map that looks for one with a given property does not depend on
  the iteration order: it sees exactly the values that some key is bound to.
\<close>

lemma ex_value_iff_get:
  "wf_map m \<Longrightarrow> (\<exists>x \<in> set (map snd m). P x) \<longleftrightarrow> (\<exists>k x. map_get m k = Some x \<and> P x)"
proof
  assume wf: "wf_map m" and "\<exists>x \<in> set (map snd m). P x"
  then obtain k x where "(k, x) \<in> set m" and "P x" by auto
  with wf show "\<exists>k x. map_get m k = Some x \<and> P x" by auto
next
  assume "\<exists>k x. map_get m k = Some x \<and> P x"
  then obtain k x where "map_get m k = Some x" and "P x" by auto
  then have "(k, x) \<in> set m" by (simp add: map_of_SomeD)
  with \<open>P x\<close> show "\<exists>x \<in> set (map snd m). P x" by force
qed

text \<open>The last element with a property is the first of the reversed list.\<close>

lemma find_append: "find P (xs @ ys) = (case find P xs of None \<Rightarrow> find P ys | Some x \<Rightarrow> Some x)"
  by (induction xs) auto

lemma map_get_fold_set:
  "map_get (fold (\<lambda>x m. map_set (key x) x m) xs m) k =
     (case find (\<lambda>x. key x = k) (rev xs) of Some x \<Rightarrow> Some x | None \<Rightarrow> map_get m k)"
  by (induction xs arbitrary: m) (auto simp: find_append split: option.splits)

lemma set_map_set: "p \<in> set (map_set k v m) \<Longrightarrow> p \<in> set m \<or> p = (k, v)"
  by (induction m) (auto split: if_splits)

lemma map_get_in: "map_get m k = Some v \<Longrightarrow> (k, v) \<in> set m"
  by (induction m) (auto split: if_splits)

lemma map_get_fold_pairs: "map_get (fold (\<lambda>(k, v) m. map_set k v m) xs m) k = Some v \<Longrightarrow> map_get m k = Some v \<or> (k, v) \<in> set xs"
proof (induction xs arbitrary: m)
  case (Cons x xs)
  obtain k' v' where x: "x = (k', v')" by fastforce
  from Cons.IH [of "map_set k' v' m"] Cons.prems show ?case by (auto simp: x split: if_splits)
qed simp

section \<open>Strings\<close>

definition strings_HasPrefix :: "string \<Rightarrow> string \<Rightarrow> bool" where
  "strings_HasPrefix s p \<longleftrightarrow> take (length p) s = p"

definition strings_HasSuffix :: "string \<Rightarrow> string \<Rightarrow> bool" where
  "strings_HasSuffix s p \<longleftrightarrow> length p \<le> length s \<and> drop (length s - length p) s = p"

text \<open>\<^verbatim>\<open>strings.Cut(s, sep)\<close> for a one-byte separator: the parts around its first occurrence.\<close>

definition strings_Cut :: "string \<Rightarrow> char \<Rightarrow> (string \<times> string) option" where
  "strings_Cut s c =
     (if c \<in> set s then Some (takeWhile (\<lambda>x. x \<noteq> c) s, tl (dropWhile (\<lambda>x. x \<noteq> c) s)) else None)"

text \<open>\<^verbatim>\<open>strings.SplitN(s, sep, 2)\<close> for a one-byte separator.\<close>

definition strings_SplitN2 :: "string \<Rightarrow> char \<Rightarrow> string list" where
  "strings_SplitN2 s c = (case strings_Cut s c of None \<Rightarrow> [s] | Some (a, b) \<Rightarrow> [a, b])"

text \<open>\<^verbatim>\<open>strings.Split(s, sep)\<close> for a one-byte separator.\<close>

fun strings_Split :: "string \<Rightarrow> char \<Rightarrow> string list" where
  "strings_Split [] c = [[]]"
| "strings_Split (x # xs) c =
     (if x = c then [] # strings_Split xs c
      else (case strings_Split xs c of [] \<Rightarrow> [[x]] | p # ps \<Rightarrow> (x # p) # ps))"

definition strings_ReplaceAll1 :: "string \<Rightarrow> char \<Rightarrow> char \<Rightarrow> string" where
  "strings_ReplaceAll1 s a b = map (\<lambda>x. if x = a then b else x) s"

definition is_space :: "char \<Rightarrow> bool" where
  "is_space c \<longleftrightarrow> of_char c \<in> {9, 10, 11, 12, 13, 32 :: nat}"

definition strings_TrimSpace :: "string \<Rightarrow> string" where
  "strings_TrimSpace s = rev (dropWhile is_space (rev (dropWhile is_space s)))"

definition lower_char :: "char \<Rightarrow> char" where
  "lower_char c = (let n = of_char c :: nat in if 65 \<le> n \<and> n \<le> 90 then char_of (n + 32) else c)"

definition strings_ToLower :: "string \<Rightarrow> string" where
  "strings_ToLower s = map lower_char s"

fun strings_Join :: "string list \<Rightarrow> string \<Rightarrow> string" where
  "strings_Join [] sep = []"
| "strings_Join [x] sep = x"
| "strings_Join (x # xs) sep = x @ sep @ strings_Join xs sep"

lemma strings_Cut_append [go_simps]:
  "c \<notin> set a \<Longrightarrow> strings_Cut (a @ c # b) c = Some (a, b)"
  by (induction a) (auto simp: strings_Cut_def)

lemma strings_Cut_None [go_simps]: "c \<notin> set s \<Longrightarrow> strings_Cut s c = None"
  by (simp add: strings_Cut_def)

lemma strings_Cut_SomeD:
  assumes "strings_Cut s c = Some (a, b)"
  shows "s = a @ c # b \<and> c \<notin> set a"
proof -
  from assms have c: "c \<in> set s" and a: "a = takeWhile (\<lambda>x. x \<noteq> c) s"
    and b: "b = tl (dropWhile (\<lambda>x. x \<noteq> c) s)"
    by (auto simp: strings_Cut_def split: if_splits)
  let ?d = "dropWhile (\<lambda>x. x \<noteq> c) s"
  from c have "?d \<noteq> []" by simp
  then obtain x xs where d: "?d = x # xs" by (cases ?d) auto
  moreover from d have "x = c" by (simp add: dropWhile_eq_Cons_conv)
  ultimately have "?d = c # b" using b by simp
  then have "s = a @ c # b" using a by (metis takeWhile_dropWhile_id)
  moreover have "c \<notin> set a" using a by (auto dest: set_takeWhileD)
  ultimately show ?thesis by simp
qed

lemma strings_SplitN2_append [go_simps]:
  "c \<notin> set a \<Longrightarrow> strings_SplitN2 (a @ c # b) c = [a, b]"
  by (simp add: strings_SplitN2_def strings_Cut_append)

lemma strings_SplitN2_length2:
  "strings_SplitN2 s c = [a, b] \<longleftrightarrow> s = a @ c # b \<and> c \<notin> set a"
proof
  assume "strings_SplitN2 s c = [a, b]"
  then have "strings_Cut s c = Some (a, b)"
    by (auto simp: strings_SplitN2_def split: option.splits)
  then show "s = a @ c # b \<and> c \<notin> set a" by (rule strings_Cut_SomeD)
qed (auto simp: strings_SplitN2_append)

lemma strings_Split_nonempty [simp]: "strings_Split s c \<noteq> []"
  by (induction s) (auto split: list.splits)

lemma strings_Split_no_sep: "c \<notin> set s \<Longrightarrow> strings_Split s c = [s]"
  by (induction s) auto

lemma strings_Split_append:
  "c \<notin> set a \<Longrightarrow> strings_Split (a @ c # b) c = a # strings_Split b c"
  by (induction a) auto

lemma strings_Split_Join:
  "xs \<noteq> [] \<Longrightarrow> \<forall>x \<in> set xs. c \<notin> set x \<Longrightarrow> strings_Split (strings_Join xs [c]) c = xs"
  by (induction xs "[c]" rule: strings_Join.induct)
     (auto simp: strings_Split_no_sep strings_Split_append)

lemma strings_HasPrefix_append [simp]: "strings_HasPrefix (p @ s) p"
  by (simp add: strings_HasPrefix_def)

lemma strings_HasPrefix_iff: "strings_HasPrefix s p \<longleftrightarrow> (\<exists>t. s = p @ t)"
proof
  assume "strings_HasPrefix s p"
  then have "s = p @ drop (length p) s"
    by (metis append_take_drop_id strings_HasPrefix_def)
  then show "\<exists>t. s = p @ t" by blast
qed auto

section \<open>Numbers in text\<close>

text \<open>Decimal formatting (\<^verbatim>\<open>%d\<close>, \<^verbatim>\<open>strconv.Itoa\<close>) and hexadecimal digits.\<close>

definition digit_char :: "nat \<Rightarrow> char" where
  "digit_char d = char_of (if d < 10 then d + 48 else d + 87)"

fun fmt_nat :: "nat \<Rightarrow> string" where
  "fmt_nat n = (if n < 10 then [digit_char n] else fmt_nat (n div 10) @ [digit_char (n mod 10)])"

declare fmt_nat.simps [simp del]

definition fmt_int :: "int \<Rightarrow> string" where
  "fmt_int i = (if i < 0 then ''-'' @ fmt_nat (nat (- i)) else fmt_nat (nat i))"

text \<open>The value of a hexadecimal digit of either case; \<^const>\<open>None\<close> for any other byte.\<close>

definition from_hex :: "char \<Rightarrow> nat option" where
  "from_hex c = (let n = of_char c :: nat in
     if 48 \<le> n \<and> n \<le> 57 then Some (n - 48)
     else if 97 \<le> n \<and> n \<le> 102 then Some (n - 87)
     else if 65 \<le> n \<and> n \<le> 70 then Some (n - 55)
     else None)"

lemma from_hex_digit_char [simp]: "d < 16 \<Longrightarrow> from_hex (digit_char d) = Some d"
  by (auto simp: from_hex_def digit_char_def Let_def)

lemma from_hex_bound: "from_hex c = Some d \<Longrightarrow> d < 16"
  by (auto simp: from_hex_def Let_def split: if_splits)

lemma from_hex_not_quote: "from_hex c = Some d \<Longrightarrow> c \<noteq> CHR 0x22 \<and> c \<noteq> CHR 0x5C \<and> c \<noteq> CHR 0x0A"
  by (auto simp: from_hex_def Let_def split: if_splits)

definition dquote :: char where
  "dquote = CHR 0x22"

definition quoted :: "string \<Rightarrow> string" where
  "quoted s = [dquote] @ s @ [dquote]"

lemma quoted_inj [simp]: "quoted s = quoted t \<longleftrightarrow> s = t"
  by (simp add: quoted_def)

section \<open>Paths\<close>

text \<open>
  \<^verbatim>\<open>filepath.Clean\<close> and \<^verbatim>\<open>filepath.Join\<close> on Unix. The elements already written are kept in
  reverse in the accumulator, as Go's \<^verbatim>\<open>lazybuf\<close> backtracks over them.
\<close>

fun clean_elems :: "bool \<Rightarrow> string list \<Rightarrow> string list \<Rightarrow> string list" where
  "clean_elems rooted acc [] = rev acc"
| "clean_elems rooted acc (e # es) =
     (if e = [] \<or> e = ''.'' then clean_elems rooted acc es
      else if e = ''..'' then
        (case acc of
           [] \<Rightarrow> (if rooted then clean_elems rooted [] es else clean_elems rooted [''..''] es)
         | a # as \<Rightarrow> (if a = ''..'' then clean_elems rooted (''..'' # acc) es
                     else clean_elems rooted as es))
      else clean_elems rooted (e # acc) es)"

definition filepath_Clean :: "string \<Rightarrow> string" where
  "filepath_Clean p =
     (if p = [] then ''.''
      else let rooted = strings_HasPrefix p ''/'';
               es = clean_elems rooted [] (strings_Split p CHR ''/'');
               body = strings_Join es ''/''
           in if rooted then ''/'' @ body else if es = [] then ''.'' else body)"

definition filepath_Join :: "string list \<Rightarrow> string" where
  "filepath_Join elems =
     (let ne = filter (\<lambda>e. e \<noteq> []) elems
      in if ne = [] then [] else filepath_Clean (strings_Join ne ''/''))"

text \<open>An ordinary path element: no separator, not a dot element.\<close>

definition plain_elem :: "string \<Rightarrow> bool" where
  "plain_elem e \<longleftrightarrow> e \<noteq> [] \<and> e \<noteq> ''.'' \<and> e \<noteq> ''..'' \<and> CHR ''/'' \<notin> set e"

lemma clean_elems_plain:
  "\<forall>e \<in> set es. plain_elem e \<Longrightarrow> clean_elems r acc es = rev acc @ es"
  by (induction r acc es rule: clean_elems.induct) (auto simp: plain_elem_def)

text \<open>A cleaned absolute directory: \<^verbatim>\<open>/\<close> followed by ordinary elements.\<close>

definition abs_dir :: "string list \<Rightarrow> string" where
  "abs_dir es = ''/'' @ strings_Join es ''/''"

lemma strings_Join_append:
  "xs \<noteq> [] \<Longrightarrow> ys \<noteq> [] \<Longrightarrow> strings_Join (xs @ ys) s = strings_Join xs s @ s @ strings_Join ys s"
  by (induction xs s rule: strings_Join.induct) (auto simp: neq_Nil_conv)

lemma strings_Join_Cons:
  "ys \<noteq> [] \<Longrightarrow> strings_Join (x # ys) s = x @ s @ strings_Join ys s"
  by (cases ys) auto

lemma filepath_Clean_abs_dir:
  assumes "\<forall>e \<in> set es. plain_elem e"
  shows "filepath_Clean (abs_dir es) = abs_dir es"
proof (cases "es = []")
  case True
  then show ?thesis by (simp add: abs_dir_def filepath_Clean_def strings_HasPrefix_def)
next
  case False
  have "strings_Split (strings_Join es ''/'') CHR ''/'' = es"
    using False assms by (intro strings_Split_Join) (auto simp: plain_elem_def)
  then have "strings_Split (abs_dir es) CHR ''/'' = [] # es"
    by (simp add: abs_dir_def)
  with assms show ?thesis
    by (simp add: filepath_Clean_def clean_elems_plain abs_dir_def strings_HasPrefix_def)
qed

lemma filepath_Join_abs_dir:
  assumes "es \<noteq> []" and "ns \<noteq> []" and "\<forall>e \<in> set es. plain_elem e" and "\<forall>n \<in> set ns. plain_elem n"
  shows "filepath_Join (abs_dir es # ns) = abs_dir (es @ ns)"
proof -
  have "filter (\<lambda>e. e \<noteq> []) (abs_dir es # ns) = abs_dir es # ns"
    using assms(4) by (auto simp: abs_dir_def plain_elem_def intro!: filter_True)
  then have "filepath_Join (abs_dir es # ns) = filepath_Clean (strings_Join (abs_dir es # ns) ''/'')"
    by (simp only: filepath_Join_def Let_def list.distinct if_False)
  moreover have "strings_Join (abs_dir es # ns) ''/'' = abs_dir (es @ ns)"
    using assms(1,2) by (simp add: abs_dir_def strings_Join_Cons strings_Join_append)
  moreover have "\<forall>e \<in> set (es @ ns). plain_elem e" using assms(3,4) by auto
  ultimately show ?thesis by (simp add: filepath_Clean_abs_dir)
qed

end
