(* ===== verification/Opinions.thy ===== *)
theory Opinions
  imports Fetch_Prelude
begin

text \<open>
  \<^verbatim>\<open>metadata/opinions/opinions.go\<close>: the opinion an inspector gives, its text and its JSON form.
  The Go type is an \<^verbatim>\<open>int\<close>; a value other than the four constants is \<^theory_text>\<open>InvalidOpinion\<close>.
\<close>

datatype OpinionKind =
    Unknown
  | Rejected
  | Approved
  | Pending
  | InvalidOpinion int

fun OpinionKind_String :: "OpinionKind \<Rightarrow> string" where
  "OpinionKind_String Unknown = ''Unknown''"
| "OpinionKind_String Rejected = ''Rejected''"
| "OpinionKind_String Approved = ''Approved''"
| "OpinionKind_String Pending = ''Pending''"
| "OpinionKind_String (InvalidOpinion n) = ''invalid opinion '' @ fmt_int n"

definition ErrInvalidOpinionKind :: go_error where
  "ErrInvalidOpinionKind = Errorf ''invalid opinion kind''"

fun OpinionKind_MarshalJSON :: "OpinionKind \<Rightarrow> string result" where
  "OpinionKind_MarshalJSON Unknown = Inr (quoted ''Unknown'')"
| "OpinionKind_MarshalJSON Rejected = Inr (quoted ''Rejected'')"
| "OpinionKind_MarshalJSON Approved = Inr (quoted ''Approved'')"
| "OpinionKind_MarshalJSON Pending = Inr (quoted ''Pending'')"
| "OpinionKind_MarshalJSON (InvalidOpinion _) = Inl ErrInvalidOpinionKind"

definition OpinionKind_UnmarshalJSON :: "string \<Rightarrow> OpinionKind result" where
  "OpinionKind_UnmarshalJSON data =
     (if data = quoted ''Unknown'' then Inr Unknown
      else if data = quoted ''Rejected'' then Inr Rejected
      else if data = quoted ''Approved'' then Inr Approved
      else if data = quoted ''Pending'' then Inr Pending
      else Inl ErrInvalidOpinionKind)"

lemma OpinionKind_marshal_unmarshal:
  "OpinionKind_MarshalJSON k = Inr j \<longleftrightarrow> OpinionKind_UnmarshalJSON j = Inr k"
  by (cases k) (auto simp: OpinionKind_UnmarshalJSON_def ErrInvalidOpinionKind_def)

end
