(* ===== verification/Digests.thy ===== *)
theory Digests
  imports Fetch_Prelude
begin

text \<open>
  \<^verbatim>\<open>metadata/digests/digests.go\<close>: SHA1 and SHA256 digests, their hexadecimal text and their JSON
  form, over the parts of \<^verbatim>\<open>encoding/hex\<close> and \<^verbatim>\<open>strconv\<close> they use. A digest is its bytes; the
  Go types \<^verbatim>\<open>[20]byte\<close> and \<^verbatim>\<open>[32]byte\<close> fix the length, which \<^theory_text>\<open>wf_sha1\<close> and \<^theory_text>\<open>wf_sha256\<close>
  state. \<^verbatim>\<open>strconv.Unquote\<close> covers interpreted literals with every escape and raw literals;
  bytes outside ASCII are passed through, and a one-rune literal in single quotes is an error
  (either of them is refused by the length check or by the hexadecimal decoder afterwards).
\<close>

type_synonym Sha1Digest = string
type_synonym Sha256Digest = string

definition wf_sha1 :: "Sha1Digest \<Rightarrow> bool" where
  "wf_sha1 d \<longleftrightarrow> length d = 20"

definition wf_sha256 :: "Sha256Digest \<Rightarrow> bool" where
  "wf_sha256 d \<longleftrightarrow> length d = 32"

section \<open>encoding/hex\<close>

definition hex_ErrLength :: go_error where
  "hex_ErrLength = ErrVar ''hex.ErrLength'' ''encoding/hex: odd length hex string''"

definition hex_InvalidByte :: "char \<Rightarrow> go_error" where
  "hex_InvalidByte c = ErrVar ''hex.InvalidByteError'' (''encoding/hex: invalid byte: '' @ [c])"

fun hex_EncodeToString :: "string \<Rightarrow> string" where
  "hex_EncodeToString [] = []"
| "hex_EncodeToString (c # cs) =
     digit_char (of_char c div 16) # digit_char (of_char c mod 16) # hex_EncodeToString cs"

fun hex_DecodeString :: "string \<Rightarrow> string result" where
  "hex_DecodeString [] = Inr []"
| "hex_DecodeString [a] = Inl (if from_hex a = None then hex_InvalidByte a else hex_ErrLength)"
| "hex_DecodeString (a # b # r) =
     (case from_hex a of None \<Rightarrow> Inl (hex_InvalidByte a)
      | Some x \<Rightarrow> (case from_hex b of None \<Rightarrow> Inl (hex_InvalidByte b)
         | Some y \<Rightarrow> (case hex_DecodeString r of Inl e \<Rightarrow> Inl e
            | Inr t \<Rightarrow> Inr (char_of (16 * x + y) # t))))"

lemma length_hex_EncodeToString [simp]: "length (hex_EncodeToString d) = 2 * length d"
  by (induction d) auto

lemma hex_decode_encode [simp]: "hex_DecodeString (hex_EncodeToString d) = Inr d"
proof (induction d)
  case (Cons c cs)
  have "(of_char c :: nat) < 256" by (rule nat_of_char_less_256)
  then have "(of_char c :: nat) div 16 < 16" by (simp add: less_mult_imp_div_less)
  with Cons show ?case by simp
qed simp

lemma length_hex_DecodeString: "hex_DecodeString s = Inr d \<Longrightarrow> length s = 2 * length d"
  by (induction s arbitrary: d rule: hex_DecodeString.induct)
     (auto split: option.splits sum.splits)

lemma hex_digits_encode: "\<forall>c \<in> set (hex_EncodeToString d). from_hex c \<noteq> None"
proof (induction d)
  case (Cons c cs)
  have "(of_char c :: nat) < 256" by (rule nat_of_char_less_256)
  then have "(of_char c :: nat) div 16 < 16" by (simp add: less_mult_imp_div_less)
  with Cons show ?case by auto
qed simp

section \<open>strconv.Unquote\<close>

definition strconv_ErrSyntax :: go_error where
  "strconv_ErrSyntax = ErrVar ''strconv.ErrSyntax'' ''invalid syntax''"

fun hex_value :: "nat \<Rightarrow> string \<Rightarrow> nat option" where
  "hex_value acc [] = Some acc"
| "hex_value acc (c # cs) = (case from_hex c of None \<Rightarrow> None | Some d \<Rightarrow> hex_value (16 * acc + d) cs)"

definition utf8_encode :: "nat \<Rightarrow> string" where
  "utf8_encode r = map char_of
     (if r < 128 then [r]
      else if r < 2048 then [192 + r div 64, 128 + r mod 64]
      else if r < 65536 then [224 + r div 4096, 128 + r div 64 mod 64, 128 + r mod 64]
      else [240 + r div 262144, 128 + r div 4096 mod 64, 128 + r div 64 mod 64, 128 + r mod 64])"

definition valid_rune :: "nat \<Rightarrow> bool" where
  "valid_rune r \<longleftrightarrow> r < 55296 \<or> (57343 < r \<and> r \<le> 1114111)"

definition simple_escape :: "char \<Rightarrow> char option" where
  "simple_escape c = map_of
     [(CHR ''a'', CHR 0x07), (CHR ''b'', CHR 0x08), (CHR ''f'', CHR 0x0C), (CHR ''n'', CHR 0x0A),
      (CHR ''r'', CHR 0x0D), (CHR ''t'', CHR 0x09), (CHR ''v'', CHR 0x0B), (CHR 0x5C, CHR 0x5C),
      (dquote, dquote)] c"

definition octal_digit :: "char \<Rightarrow> bool" where
  "octal_digit c \<longleftrightarrow> 48 \<le> (of_char c :: nat) \<and> (of_char c :: nat) \<le> 55"

text \<open>One escape sequence, after its backslash: the bytes it stands for and how many it uses.\<close>

definition unescape :: "string \<Rightarrow> (string \<times> nat) option" where
  "unescape s = (case s of [] \<Rightarrow> None | e # r \<Rightarrow>
     (case simple_escape e of Some c \<Rightarrow> Some ([c], 1)
      | None \<Rightarrow>
        if e = CHR ''x'' then
          (if length r < 2 then None
           else map_option (\<lambda>v. ([char_of v], 3)) (hex_value 0 (take 2 r)))
        else if e = CHR ''u'' \<or> e = CHR ''U'' then
          (let n = (if e = CHR ''u'' then 4 else 8) in
           if length r < n then None
           else (case hex_value 0 (take n r) of None \<Rightarrow> None
                 | Some v \<Rightarrow> if valid_rune v then Some (utf8_encode v, Suc n) else None))
        else if length s \<ge> 3 \<and> list_all octal_digit (take 3 s) then
          (let v = 64 * (of_char (s ! 0) - 48) + 8 * (of_char (s ! 1) - 48) + (of_char (s ! 2) - 48) :: nat
           in if v > 255 then None else Some ([char_of v], 3))
        else None))"

function unquote_body :: "string \<Rightarrow> string option" where
  "unquote_body s = (case s of [] \<Rightarrow> None | c # r \<Rightarrow>
     if c = dquote then (if r = [] then Some [] else None)
     else if c = CHR 0x0A then None
     else if c = CHR 0x5C then
       (case unescape r of None \<Rightarrow> None
        | Some (bs, n) \<Rightarrow> map_option ((@) bs) (unquote_body (drop n r)))
     else map_option ((#) c) (unquote_body r))"
  by pat_completeness auto
termination
  by (relation "measure length") auto

declare unquote_body.simps [simp del]

definition strconv_Unquote :: "string \<Rightarrow> string result" where
  "strconv_Unquote s =
     (if length s < 2 then Inl strconv_ErrSyntax
      else if hd s = dquote then
        (case unquote_body (tl s) of None \<Rightarrow> Inl strconv_ErrSyntax | Some t \<Rightarrow> Inr t)
      else if hd s = CHR 0x60 \<and> last s = CHR 0x60 \<and> CHR 0x60 \<notin> set (butlast (tl s)) then
        Inr (filter (\<lambda>c. c \<noteq> CHR 0x0D) (butlast (tl s)))
      else Inl strconv_ErrSyntax)"

lemma unquote_body_plain:
  "\<forall>c \<in> set s. c \<noteq> dquote \<and> c \<noteq> CHR 0x5C \<and> c \<noteq> CHR 0x0A \<Longrightarrow> unquote_body (s @ [dquote]) = Some s"
  by (induction s) (simp_all add: unquote_body.simps)

lemma strconv_Unquote_quoted:
  "\<forall>c \<in> set s. c \<noteq> dquote \<and> c \<noteq> CHR 0x5C \<and> c \<noteq> CHR 0x0A \<Longrightarrow> strconv_Unquote (quoted s) = Inr s"
  by (simp add: strconv_Unquote_def quoted_def unquote_body_plain)

section \<open>Digests\<close>

definition NewSha1Digest :: "string \<Rightarrow> Sha1Digest result" where
  "NewSha1Digest digest = (case hex_DecodeString digest of Inl e \<Rightarrow> Inl e
     | Inr h \<Rightarrow> if length h \<noteq> 20
         then Inl (Errorf (''SHA1 digest length ('' @ fmt_nat (length h) @ '') is invalid''))
         else Inr h)"

definition Sha1Digest_String :: "Sha1Digest \<Rightarrow> string" where
  "Sha1Digest_String h = hex_EncodeToString h"

text \<open>
  \<^verbatim>\<open>strconv.Quote\<close> of a hexadecimal text, which has nothing to escape, is the text in quotes.
\<close>

definition Sha1Digest_MarshalJSON :: "Sha1Digest \<Rightarrow> string result" where
  "Sha1Digest_MarshalJSON h = Inr (quoted (Sha1Digest_String h))"

definition Sha1Digest_UnmarshalJSON :: "string \<Rightarrow> Sha1Digest result" where
  "Sha1Digest_UnmarshalJSON data = (case strconv_Unquote data of Inl e \<Rightarrow> Inl e
     | Inr d \<Rightarrow> if length d \<noteq> 40 then Inl (Errorf ''invalid SHA1 digest'') else hex_DecodeString d)"

definition NewSha256Digest :: "string \<Rightarrow> Sha256Digest result" where
  "NewSha256Digest digest = (case hex_DecodeString digest of Inl e \<Rightarrow> Inl e
     | Inr h \<Rightarrow> if length h \<noteq> 32
         then Inl (Errorf (''SHA256 digest length ('' @ fmt_nat (length h) @ '') is invalid''))
         else Inr h)"

definition Sha256Digest_String :: "Sha256Digest \<Rightarrow> string" where
  "Sha256Digest_String h = hex_EncodeToString h"

definition Sha256Digest_MarshalJSON :: "Sha256Digest \<Rightarrow> string result" where
  "Sha256Digest_MarshalJSON h = Inr (quoted (Sha256Digest_String h))"

definition Sha256Digest_UnmarshalJSON :: "string \<Rightarrow> Sha256Digest result" where
  "Sha256Digest_UnmarshalJSON data = (case strconv_Unquote data of Inl e \<Rightarrow> Inl e
     | Inr d \<Rightarrow> if length d \<noteq> 64 then Inl (Errorf ''invalid SHA256 digest'') else hex_DecodeString d)"

text \<open>
  The contract of a digest type, met by both: its text and its JSON form read back to the same
  digest, and whatever the readers accept has the type's length.
\<close>

locale digest_codec =
  fixes len :: nat
    and new :: "string \<Rightarrow> string result"
    and to_string :: "string \<Rightarrow> string"
    and marshal :: "string \<Rightarrow> string result"
    and unmarshal :: "string \<Rightarrow> string result"
  assumes new_string: "length d = len \<Longrightarrow> new (to_string d) = Inr d"
    and new_length: "new s = Inr d \<Longrightarrow> length d = len"
    and unmarshal_marshal: "length d = len \<Longrightarrow> \<exists>j. marshal d = Inr j \<and> unmarshal j = Inr d"
    and unmarshal_length: "unmarshal j = Inr d \<Longrightarrow> length d = len"
begin

lemma to_string_inj: "length a = len \<Longrightarrow> length b = len \<Longrightarrow> to_string a = to_string b \<Longrightarrow> a = b"
  by (metis new_string sum.inject(2))

lemma marshal_inj: "length a = len \<Longrightarrow> length b = len \<Longrightarrow> marshal a = marshal b \<Longrightarrow> a = b"
  by (metis unmarshal_marshal sum.inject(2))

end

lemma hex_text_plain:
  "\<forall>c \<in> set (hex_EncodeToString d). c \<noteq> dquote \<and> c \<noteq> CHR 0x5C \<and> c \<noteq> CHR 0x0A"
  using hex_digits_encode [of d] by (fastforce simp: dquote_def dest: from_hex_not_quote)

lemma strconv_Unquote_hex [simp]:
  "strconv_Unquote (quoted (hex_EncodeToString d)) = Inr (hex_EncodeToString d)"
  by (rule strconv_Unquote_quoted) (rule hex_text_plain)

lemmas digest_defs =
  NewSha1Digest_def Sha1Digest_String_def Sha1Digest_MarshalJSON_def Sha1Digest_UnmarshalJSON_def
  NewSha256Digest_def Sha256Digest_String_def Sha256Digest_MarshalJSON_def
  Sha256Digest_UnmarshalJSON_def

interpretation sha1: digest_codec 20 NewSha1Digest Sha1Digest_String
    Sha1Digest_MarshalJSON Sha1Digest_UnmarshalJSON
  by unfold_locales
     (auto simp: digest_defs split: sum.splits if_splits dest: length_hex_DecodeString)

interpretation sha256: digest_codec 32 NewSha256Digest Sha256Digest_String
    Sha256Digest_MarshalJSON Sha256Digest_UnmarshalJSON
  by unfold_locales
     (auto simp: digest_defs split: sum.splits if_splits dest: length_hex_DecodeString)

end
