(* ===== verification/Http.thy ===== *)
theory Http
  imports Fetch_Prelude
begin

text \<open>
  The parts of \<^verbatim>\<open>net/http\<close> and \<^verbatim>\<open>net/url\<close> that the sources read and write: header maps,
  requests and responses. Every header key in the sources is already in canonical form, so
  \<^verbatim>\<open>Header.Get\<close> is a lookup of the key as written. A body is the bytes it would yield, with the
  error its reader ends with when it does not end cleanly; a nil body is \<^const>\<open>None\<close>.
\<close>

type_synonym header = "(string, string list) gomap"

definition header_Get :: "header \<Rightarrow> string \<Rightarrow> string" where
  "header_Get h k = (case map_get h k of Some (v # _) \<Rightarrow> v | _ \<Rightarrow> [])"

definition header_Set :: "header \<Rightarrow> string \<Rightarrow> string \<Rightarrow> header" where
  "header_Set h k v = map_set k [v] h"

definition header_Del :: "header \<Rightarrow> string \<Rightarrow> header" where
  "header_Del h k = map_del k h"

record url =
  u_Scheme :: string
  u_Host :: string
  u_Path :: string
  u_RawQuery :: string

record body_reader =
  br_data :: string
  br_err :: "go_error option"

record http_request =
  req_Method :: string
  req_URL :: url
  req_Header :: header
  req_Body :: "body_reader option"
  req_ContentLength :: int
  req_TransferEncoding :: "string list"
  req_RemoteAddr :: string

record http_response =
  resp_Status :: string
  resp_StatusCode :: int
  resp_Header :: header
  resp_Body :: "body_reader option"
  resp_ContentLength :: int
  resp_TransferEncoding :: "string list"
  resp_Trailer :: header
  resp_Request :: http_request

abbreviation StatusOK :: int where "StatusOK \<equiv> 200"
abbreviation StatusBadRequest :: int where "StatusBadRequest \<equiv> 400"
abbreviation StatusUnauthorized :: int where "StatusUnauthorized \<equiv> 401"
abbreviation StatusForbidden :: int where "StatusForbidden \<equiv> 403"
abbreviation StatusNotFound :: int where "StatusNotFound \<equiv> 404"
abbreviation StatusProxyAuthRequired :: int where "StatusProxyAuthRequired \<equiv> 407"
abbreviation StatusRequestEntityTooLarge :: int where "StatusRequestEntityTooLarge \<equiv> 413"
abbreviation StatusInternalServerError :: int where "StatusInternalServerError \<equiv> 500"

lemma header_Get_Set [simp]:
  "header_Get (header_Set h k v) k' = (if k' = k then v else header_Get h k')"
  by (simp add: header_Get_def header_Set_def)

lemma header_Get_Del [simp]:
  "header_Get (header_Del h k) k' = (if k' = k then [] else header_Get h k')"
  by (simp add: header_Get_def header_Del_def)

lemma wf_header_Set [simp, intro]: "wf_map h \<Longrightarrow> wf_map (header_Set h k v)"
  by (simp add: header_Set_def)

lemma wf_header_Del [simp, intro]: "wf_map h \<Longrightarrow> wf_map (header_Del h k)"
  by (simp add: header_Del_def)

end
