(* ===== verification/Artifact.thy ===== *)
theory Artifact
  imports Opinions Digests Http
begin

text \<open>
  \<^verbatim>\<open>inspectors/common/common.go\<close>, \<^verbatim>\<open>metadata/metadata.go\<close> and \<^verbatim>\<open>metadata/artifact.go\<close>: what the
  service knows of a download. An artifact carries two maps from inspector ids to opinions, one
  for the request and one for the response; the maps decide whether the download is approved.

  The setters return a pointer to the inspection they store, on which the callers call
  \<^verbatim>\<open>Annotate\<close>; here the annotation of the entry of an inspector is an update of the artifact
  (\<^theory_text>\<open>annotate_request\<close>, \<^theory_text>\<open>annotate_response\<close>). A nil annotation map and an empty one are the same
  (the field is \<^verbatim>\<open>omitempty\<close> and reading a nil map finds nothing). The MIME type comes from a
  third-party package: \<^theory_text>\<open>mime\<close> holds its two methods the code calls. Log output is not modelled.
\<close>

section \<open>Opinions of inspectors (common.go)\<close>

datatype any =
    AnyNil
  | AnyString string
  | AnyBool bool
  | AnyInt int
  | AnyStrings "string list"
  | AnyList "any list"
  | AnyMap "(string \<times> any) list"

type_synonym Annotation = "(string, any) gomap"

definition Annotation_Add :: "Annotation \<Rightarrow> string \<Rightarrow> any \<Rightarrow> Annotation" where
  "Annotation_Add ann key val = map_set key val ann"

definition Annotation_Append :: "Annotation \<Rightarrow> Annotation \<Rightarrow> Annotation" where
  "Annotation_Append ann other = fold (\<lambda>(key, val) m. map_set key val m) other ann"

record Inspection =
  in_Opinion :: OpinionKind
  in_Reason :: string
  in_Annotations :: Annotation

definition Inspection_Annotate :: "Annotation \<Rightarrow> Inspection \<Rightarrow> Inspection" where
  "Inspection_Annotate a i =
     i\<lparr>in_Annotations := fold (\<lambda>(key, val) m. map_set key val m) a (in_Annotations i)\<rparr>"

type_synonym InspectionMap = "(string, Inspection) gomap"

definition ErrRejectedRequest :: go_error where
  "ErrRejectedRequest = ErrVar ''common.ErrRejectedRequest'' ''request rejected by inspectors''"

definition ErrRejectedArtifact :: go_error where
  "ErrRejectedArtifact = ErrVar ''common.ErrRejectedArtifact'' ''artifact rejected by inspectors''"

record ArtifactMetadata =
  am_Type :: string
  am_Name :: string
  am_Version :: string
  am_Vendor :: string
  am_Description :: string
  am_Author :: string
  am_AuthorEmail :: string
  am_Architecture :: string
  am_License :: string
  am_Copyright :: string
  am_SourcePackage :: string
  am_StoreRevision :: string
  am_AptSuite :: string
  am_ContentID :: string

definition NoMetadata :: ArtifactMetadata where
  "NoMetadata = \<lparr>am_Type = [], am_Name = [], am_Version = [], am_Vendor = [], am_Description = [],
     am_Author = [], am_AuthorEmail = [], am_Architecture = [], am_License = [], am_Copyright = [],
     am_SourcePackage = [], am_StoreRevision = [], am_AptSuite = [], am_ContentID = []\<rparr>"

section \<open>Metadata (metadata.go)\<close>

record Metadata =
  md_Type :: string
  md_Sha1 :: Sha1Digest
  md_Sha256 :: Sha256Digest
  md_Size :: int
  md_Name :: string
  md_Version :: string
  md_Vendor :: string
  md_Description :: string
  md_Author :: string
  md_AuthorEmail :: string
  md_Architecture :: string
  md_License :: string
  md_Copyright :: string
  md_SourcePackage :: string
  md_StoreRevision :: string
  md_AptSuite :: string
  md_ContentID :: string

definition zero_Metadata :: Metadata where
  "zero_Metadata = \<lparr>md_Type = [], md_Sha1 = replicate 20 (char_of (0::nat)),
     md_Sha256 = replicate 32 (char_of (0::nat)), md_Size = 0, md_Name = [], md_Version = [],
     md_Vendor = [], md_Description = [], md_Author = [], md_AuthorEmail = [], md_Architecture = [],
     md_License = [], md_Copyright = [], md_SourcePackage = [], md_StoreRevision = [],
     md_AptSuite = [], md_ContentID = []\<rparr>"

record Download =
  dl_StartTime :: int
  dl_EndTime :: int
  dl_Method :: string
  dl_URL :: string
  dl_Address :: string
  dl_UserAgent :: string
  dl_RequestHeader :: header
  dl_StatusCode :: int
  dl_Status :: string
  dl_ContentType :: string
  dl_ResponseHeader :: header
  dl_Sha256 :: Sha256Digest

definition zero_Download :: Download where
  "zero_Download = \<lparr>dl_StartTime = 0, dl_EndTime = 0, dl_Method = [], dl_URL = [], dl_Address = [],
     dl_UserAgent = [], dl_RequestHeader = [], dl_StatusCode = 0, dl_Status = [],
     dl_ContentType = [], dl_ResponseHeader = [],
     dl_Sha256 = replicate 32 (char_of (0::nat))\<rparr>"

section \<open>Artifacts (artifact.go)\<close>

record mime =
  mime_String :: string
  mime_Is :: "string \<Rightarrow> bool"

record Artifact =
  a_MetadataVersion :: string
  a_RequestInspection :: InspectionMap
  a_ResponseInspection :: InspectionMap
  a_Result :: OpinionKind
  a_Metadata :: Metadata
  a_Downloads :: "Download list"
  a_CurrentDownload :: Download
  a_AssetDir :: string
  a_Tempfile :: string
  a_SessionID :: string
  a_SessionCacheDir :: string
  a_MimeType :: "mime option"
  a_Request :: "http_request option"

definition NewArtifact :: Artifact where
  "NewArtifact = \<lparr>a_MetadataVersion = ''0.3'', a_RequestInspection = [], a_ResponseInspection = [],
     a_Result = Unknown, a_Metadata = zero_Metadata, a_Downloads = [],
     a_CurrentDownload = zero_Download, a_AssetDir = [], a_Tempfile = [], a_SessionID = [],
     a_SessionCacheDir = [], a_MimeType = None, a_Request = None\<rparr>"

definition RequestHeader :: "Artifact \<Rightarrow> string \<Rightarrow> string list option" where
  "RequestHeader a key = map_get (dl_RequestHeader (a_CurrentDownload a)) key"

definition RequestHeaderContains :: "Artifact \<Rightarrow> string \<Rightarrow> string \<Rightarrow> bool" where
  "RequestHeaderContains a h s = (case RequestHeader a h of None \<Rightarrow> False | Some value \<Rightarrow> s \<in> set value)"

definition ContentType :: "Artifact \<Rightarrow> string" where
  "ContentType a = dl_ContentType (a_CurrentDownload a)"

definition DownloadURL :: "Artifact \<Rightarrow> string" where
  "DownloadURL a = dl_URL (a_CurrentDownload a)"

definition setArtifactMetadata :: "ArtifactMetadata \<Rightarrow> Artifact \<Rightarrow> Artifact" where
  "setArtifactMetadata m a =
     (let d = a_Metadata a;
          d1 = (if am_Type m \<noteq> [] then d\<lparr>md_Type := am_Type m\<rparr> else d)
      in a\<lparr>a_Metadata := d1\<lparr>md_Name := am_Name m, md_Version := am_Version m,
           md_Vendor := am_Vendor m, md_Description := am_Description m, md_Author := am_Author m,
           md_AuthorEmail := am_AuthorEmail m, md_Architecture := am_Architecture m,
           md_License := am_License m, md_Copyright := am_Copyright m,
           md_SourcePackage := am_SourcePackage m, md_StoreRevision := am_StoreRevision m,
           md_AptSuite := am_AptSuite m, md_ContentID := am_ContentID m\<rparr>\<rparr>)"

definition MimetypeIs :: "Artifact \<Rightarrow> string \<Rightarrow> bool" where
  "MimetypeIs a t \<longleftrightarrow>
     (if md_Type (a_Metadata a) = t then True
      else (case a_MimeType a of None \<Rightarrow> False | Some m \<Rightarrow> mime_Is m t))"

definition Artifact_Size :: "Artifact \<Rightarrow> int" where
  "Artifact_Size a = md_Size (a_Metadata a)"

definition Artifact_Sha256 :: "Artifact \<Rightarrow> Sha256Digest" where
  "Artifact_Sha256 a = md_Sha256 (a_Metadata a)"

definition addInspection ::
  "InspectionMap \<Rightarrow> string \<Rightarrow> OpinionKind \<Rightarrow> string \<Rightarrow> InspectionMap" where
  "addInspection insp iid op reason =
     map_set iid \<lparr>in_Opinion = op, in_Reason = reason, in_Annotations = []\<rparr> insp"

definition SetRequestPending :: "string \<Rightarrow> string \<Rightarrow> Artifact \<Rightarrow> Artifact" where
  "SetRequestPending ins reason a =
     a\<lparr>a_RequestInspection := addInspection (a_RequestInspection a) ins Pending reason\<rparr>"

definition SetRequestRejected :: "string \<Rightarrow> string \<Rightarrow> Artifact \<Rightarrow> Artifact" where
  "SetRequestRejected ins reason a =
     a\<lparr>a_RequestInspection := addInspection (a_RequestInspection a) ins Rejected reason\<rparr>"

definition SetRequestUnknown :: "string \<Rightarrow> string \<Rightarrow> Artifact \<Rightarrow> Artifact" where
  "SetRequestUnknown ins reason a =
     a\<lparr>a_RequestInspection := addInspection (a_RequestInspection a) ins Unknown reason\<rparr>"

text \<open>The loop of \<^verbatim>\<open>SetResponseRejected\<close> and \<^verbatim>\<open>SetResponseUnknown\<close> that looks for an approval.\<close>

fun has_approval :: "Inspection list \<Rightarrow> bool" where
  "has_approval [] = False"
| "has_approval (insp # rest) = (if in_Opinion insp = Approved then True else has_approval rest)"

definition SetResponseApproved :: "string \<Rightarrow> string \<Rightarrow> ArtifactMetadata \<Rightarrow> Artifact \<Rightarrow> Artifact" where
  "SetResponseApproved ins reason m a =
     (let a1 = (if m \<noteq> NoMetadata then setArtifactMetadata m a else a)
      in a1\<lparr>a_ResponseInspection := addInspection (a_ResponseInspection a1) ins Approved reason\<rparr>)"

definition SetResponseRejected :: "string \<Rightarrow> string \<Rightarrow> ArtifactMetadata \<Rightarrow> Artifact \<Rightarrow> Artifact" where
  "SetResponseRejected ins reason m a =
     (let approved = has_approval (map snd (a_ResponseInspection a));
          a1 = (if \<not> approved \<and> m \<noteq> NoMetadata then setArtifactMetadata m a else a)
      in a1\<lparr>a_ResponseInspection := addInspection (a_ResponseInspection a1) ins Rejected reason\<rparr>)"

definition SetResponseUnknown :: "string \<Rightarrow> string \<Rightarrow> ArtifactMetadata \<Rightarrow> Artifact \<Rightarrow> Artifact" where
  "SetResponseUnknown ins reason m a =
     (let approved = has_approval (map snd (a_ResponseInspection a));
          a1 = (if \<not> approved \<and> m \<noteq> NoMetadata then setArtifactMetadata m a else a)
      in a1\<lparr>a_ResponseInspection := addInspection (a_ResponseInspection a1) ins Unknown reason\<rparr>)"

definition annotate_request :: "string \<Rightarrow> Annotation \<Rightarrow> Artifact \<Rightarrow> Artifact" where
  "annotate_request ins ann a = (case map_get (a_RequestInspection a) ins of None \<Rightarrow> a
     | Some i \<Rightarrow> a\<lparr>a_RequestInspection := map_set ins (Inspection_Annotate ann i) (a_RequestInspection a)\<rparr>)"

definition annotate_response :: "string \<Rightarrow> Annotation \<Rightarrow> Artifact \<Rightarrow> Artifact" where
  "annotate_response ins ann a = (case map_get (a_ResponseInspection a) ins of None \<Rightarrow> a
     | Some i \<Rightarrow> a\<lparr>a_ResponseInspection := map_set ins (Inspection_Annotate ann i) (a_ResponseInspection a)\<rparr>)"

text \<open>The two shapes of loop over an inspection map, in one of its iteration orders.\<close>

fun any_rejected :: "Inspection list \<Rightarrow> bool" where
  "any_rejected [] = False"
| "any_rejected (i # rest) = (if in_Opinion i = Rejected then True else any_rejected rest)"

fun unanimous :: "OpinionKind \<Rightarrow> bool \<Rightarrow> Inspection list \<Rightarrow> bool" where
  "unanimous k res [] = res"
| "unanimous k res (i # rest) =
     (if in_Opinion i = Rejected then False
      else unanimous k (if in_Opinion i = k then True else res) rest)"

definition RequestRejected :: "Artifact \<Rightarrow> bool" where
  "RequestRejected a = any_rejected (map snd (a_RequestInspection a))"

definition RequestPending :: "Artifact \<Rightarrow> bool" where
  "RequestPending a = unanimous Pending False (map snd (a_RequestInspection a))"

definition ResponseRejected :: "Artifact \<Rightarrow> bool" where
  "ResponseRejected a = any_rejected (map snd (a_ResponseInspection a))"

definition ResponseApproved :: "Artifact \<Rightarrow> bool" where
  "ResponseApproved a = unanimous Approved False (map snd (a_ResponseInspection a))"

definition InspectorRequestOpinionPending :: "Artifact \<Rightarrow> string \<Rightarrow> bool" where
  "InspectorRequestOpinionPending a ins =
     (case map_get (a_RequestInspection a) ins of None \<Rightarrow> False | Some i \<Rightarrow> in_Opinion i = Pending)"

text \<open>
  \<^verbatim>\<open>inspectionAnnotation[T]\<close>: the type assertion \<^verbatim>\<open>ann.(T)\<close> is the argument \<^theory_text>\<open>assert_T\<close>. An
  assertion to the interface type \<^verbatim>\<open>any\<close> fails on a nil value.
\<close>

definition inspectionAnnotation ::
  "(any \<Rightarrow> 't option) \<Rightarrow> InspectionMap \<Rightarrow> string \<Rightarrow> string \<Rightarrow> 't \<Rightarrow> 't \<times> bool" where
  "inspectionAnnotation assert_T insp iid key def =
     (case map_get insp iid of None \<Rightarrow> (def, False)
      | Some i \<Rightarrow> (case map_get (in_Annotations i) key of None \<Rightarrow> (def, False)
         | Some ann \<Rightarrow> (case assert_T ann of None \<Rightarrow> (def, False) | Some v \<Rightarrow> (v, True))))"

definition assert_any :: "any \<Rightarrow> any option" where
  "assert_any v = (if v = AnyNil then None else Some v)"

fun assert_string :: "any \<Rightarrow> string option" where
  "assert_string (AnyString s) = Some s"
| "assert_string _ = None"

fun assert_bool :: "any \<Rightarrow> bool option" where
  "assert_bool (AnyBool b) = Some b"
| "assert_bool _ = None"

definition RequestAnnotation :: "Artifact \<Rightarrow> string \<Rightarrow> string \<Rightarrow> any \<times> bool" where
  "RequestAnnotation a iid key = inspectionAnnotation assert_any (a_RequestInspection a) iid key AnyNil"

definition RequestStringAnnotation :: "Artifact \<Rightarrow> string \<Rightarrow> string \<Rightarrow> string \<times> bool" where
  "RequestStringAnnotation a iid key =
     inspectionAnnotation assert_string (a_RequestInspection a) iid key []"

definition RequestBoolAnnotation :: "Artifact \<Rightarrow> string \<Rightarrow> string \<Rightarrow> bool \<times> bool" where
  "RequestBoolAnnotation a iid key =
     inspectionAnnotation assert_bool (a_RequestInspection a) iid key False"

definition ResponseAnnotation :: "Artifact \<Rightarrow> string \<Rightarrow> string \<Rightarrow> any \<times> bool" where
  "ResponseAnnotation a iid key =
     inspectionAnnotation assert_any (a_ResponseInspection a) iid key AnyNil"

definition ResponseStringAnnotation :: "Artifact \<Rightarrow> string \<Rightarrow> string \<Rightarrow> string \<times> bool" where
  "ResponseStringAnnotation a iid key =
     inspectionAnnotation assert_string (a_ResponseInspection a) iid key []"

definition ResponseBoolAnnotation :: "Artifact \<Rightarrow> string \<Rightarrow> string \<Rightarrow> bool \<times> bool" where
  "ResponseBoolAnnotation a iid key =
     inspectionAnnotation assert_bool (a_ResponseInspection a) iid key False"

definition Artifact_Approved :: "Artifact \<Rightarrow> bool" where
  "Artifact_Approved a \<longleftrightarrow> (if \<not> RequestPending a then False else ResponseApproved a)"

definition Artifact_Rejected :: "Artifact \<Rightarrow> bool" where
  "Artifact_Rejected a \<longleftrightarrow> \<not> Artifact_Approved a"

section \<open>The verdict as a function of the opinions\<close>

text \<open>
  The specification the loops implement: only the set of opinions of a map matters, not the
  order it is iterated in. One rejection vetoes, and at least one opinion of the kind asked for
  is needed.
\<close>

definition opinion_of :: "InspectionMap \<Rightarrow> string \<Rightarrow> OpinionKind option" where
  "opinion_of m iid = map_option in_Opinion (map_get m iid)"

definition carried :: "OpinionKind \<Rightarrow> InspectionMap \<Rightarrow> bool" where
  "carried k m \<longleftrightarrow> (\<forall>i. opinion_of m i \<noteq> Some Rejected) \<and> (\<exists>i. opinion_of m i = Some k)"

definition wf_artifact :: "Artifact \<Rightarrow> bool" where
  "wf_artifact a \<longleftrightarrow> wf_map (a_RequestInspection a) \<and> wf_map (a_ResponseInspection a)"

lemma any_rejected_iff: "any_rejected l \<longleftrightarrow> (\<exists>i \<in> set l. in_Opinion i = Rejected)"
  by (induction l) auto

lemma has_approval_iff: "has_approval l \<longleftrightarrow> (\<exists>i \<in> set l. in_Opinion i = Approved)"
  by (induction l) auto

lemma unanimous_iff:
  "k \<noteq> Rejected \<Longrightarrow> unanimous k res l \<longleftrightarrow>
     (\<forall>i \<in> set l. in_Opinion i \<noteq> Rejected) \<and> (res \<or> (\<exists>i \<in> set l. in_Opinion i = k))"
  by (induction l arbitrary: res) auto

lemma ex_opinion_iff:
  "wf_map m \<Longrightarrow> (\<exists>i \<in> set (map snd m). in_Opinion i = k) \<longleftrightarrow> (\<exists>i. opinion_of m i = Some k)"
  by (simp only: ex_value_iff_get) (auto simp: opinion_of_def)

lemma rejected_iff_opinion:
  "wf_map m \<Longrightarrow> any_rejected (map snd m) \<longleftrightarrow> (\<exists>i. opinion_of m i = Some Rejected)"
  by (simp only: any_rejected_iff ex_opinion_iff)

lemma approval_iff_opinion:
  "wf_map m \<Longrightarrow> has_approval (map snd m) \<longleftrightarrow> (\<exists>i. opinion_of m i = Some Approved)"
  by (simp only: has_approval_iff ex_opinion_iff)

lemma unanimous_iff_carried:
  assumes "wf_map m" and "k \<noteq> Rejected"
  shows "unanimous k False (map snd m) \<longleftrightarrow> carried k m"
  unfolding unanimous_iff [OF assms(2)] carried_def
  using ex_opinion_iff [OF assms(1), of Rejected] ex_opinion_iff [OF assms(1), of k] by blast

lemma RequestPending_iff: "wf_artifact a \<Longrightarrow> RequestPending a \<longleftrightarrow> carried Pending (a_RequestInspection a)"
  by (simp add: RequestPending_def wf_artifact_def unanimous_iff_carried del: list.set_map)

lemma ResponseApproved_iff: "wf_artifact a \<Longrightarrow> ResponseApproved a \<longleftrightarrow> carried Approved (a_ResponseInspection a)"
  by (simp add: ResponseApproved_def wf_artifact_def unanimous_iff_carried del: list.set_map)

lemma RequestRejected_iff:
  "wf_artifact a \<Longrightarrow> RequestRejected a \<longleftrightarrow> (\<exists>i. opinion_of (a_RequestInspection a) i = Some Rejected)"
  by (simp only: RequestRejected_def wf_artifact_def rejected_iff_opinion)

lemma ResponseRejected_iff:
  "wf_artifact a \<Longrightarrow> ResponseRejected a \<longleftrightarrow> (\<exists>i. opinion_of (a_ResponseInspection a) i = Some Rejected)"
  by (simp only: ResponseRejected_def wf_artifact_def rejected_iff_opinion)

lemmas verdict_iffs =
  RequestPending_iff ResponseApproved_iff RequestRejected_iff ResponseRejected_iff

lemma Artifact_Approved_iff:
  "wf_artifact a \<Longrightarrow> Artifact_Approved a \<longleftrightarrow>
     carried Pending (a_RequestInspection a) \<and> carried Approved (a_ResponseInspection a)"
  by (simp add: Artifact_Approved_def verdict_iffs)

section \<open>Laws of the setters\<close>

lemma opinion_of_addInspection [simp]:
  "opinion_of (addInspection m i k r) = (opinion_of m)(i \<mapsto> k)"
  by (auto simp: opinion_of_def addInspection_def fun_eq_iff)

lemma opinion_of_annotated [simp]:
  "map_get m i = Some x \<Longrightarrow> opinion_of (map_set i (Inspection_Annotate ann x) m) = opinion_of m"
  by (auto simp: opinion_of_def Inspection_Annotate_def fun_eq_iff)

lemma wf_addInspection [simp, intro]: "wf_map m \<Longrightarrow> wf_map (addInspection m i k r)"
  by (simp add: addInspection_def)

lemma setArtifactMetadata_frame [simp]:
  "a_RequestInspection (setArtifactMetadata m a) = a_RequestInspection a"
  "a_ResponseInspection (setArtifactMetadata m a) = a_ResponseInspection a"
  "a_CurrentDownload (setArtifactMetadata m a) = a_CurrentDownload a"
  "a_Result (setArtifactMetadata m a) = a_Result a"
  "a_SessionID (setArtifactMetadata m a) = a_SessionID a"
  "a_Downloads (setArtifactMetadata m a) = a_Downloads a"
  "md_Sha256 (a_Metadata (setArtifactMetadata m a)) = md_Sha256 (a_Metadata a)"
  "md_Size (a_Metadata (setArtifactMetadata m a)) = md_Size (a_Metadata a)"
  by (simp_all add: setArtifactMetadata_def Let_def)

text \<open>One step of an inspector on an artifact, as the interfaces allow it.\<close>

datatype inspection_op =
    OpRequestPending string
  | OpRequestRejected string
  | OpRequestUnknown string
  | OpResponseApproved string ArtifactMetadata
  | OpResponseRejected string ArtifactMetadata
  | OpResponseUnknown string ArtifactMetadata
  | OpAnnotateRequest Annotation
  | OpAnnotateResponse Annotation

fun run_op :: "string \<Rightarrow> inspection_op \<Rightarrow> Artifact \<Rightarrow> Artifact" where
  "run_op i (OpRequestPending r) a = SetRequestPending i r a"
| "run_op i (OpRequestRejected r) a = SetRequestRejected i r a"
| "run_op i (OpRequestUnknown r) a = SetRequestUnknown i r a"
| "run_op i (OpResponseApproved r m) a = SetResponseApproved i r m a"
| "run_op i (OpResponseRejected r m) a = SetResponseRejected i r m a"
| "run_op i (OpResponseUnknown r m) a = SetResponseUnknown i r m a"
| "run_op i (OpAnnotateRequest ann) a = annotate_request i ann a"
| "run_op i (OpAnnotateResponse ann) a = annotate_response i ann a"

lemmas setter_defs =
  SetRequestPending_def SetRequestRejected_def SetRequestUnknown_def
  SetResponseApproved_def SetResponseRejected_def SetResponseUnknown_def
  annotate_request_def annotate_response_def

lemma run_op_frame [simp]:
  "a_CurrentDownload (run_op i x a) = a_CurrentDownload a"
  "a_Result (run_op i x a) = a_Result a"
  "a_SessionID (run_op i x a) = a_SessionID a"
  "a_Downloads (run_op i x a) = a_Downloads a"
  "md_Sha256 (a_Metadata (run_op i x a)) = md_Sha256 (a_Metadata a)"
  "md_Size (a_Metadata (run_op i x a)) = md_Size (a_Metadata a)"
  by (cases x; simp add: setter_defs Let_def split: option.splits)+

lemma run_op_wf [intro]: "wf_artifact a \<Longrightarrow> wf_artifact (run_op i x a)"
  by (cases x) (auto simp: wf_artifact_def setter_defs Let_def split: option.splits)

text \<open>An inspector writes its own opinions only.\<close>

lemma run_op_other:
  "j \<noteq> i \<Longrightarrow> opinion_of (a_RequestInspection (run_op i x a)) j = opinion_of (a_RequestInspection a) j"
  "j \<noteq> i \<Longrightarrow> opinion_of (a_ResponseInspection (run_op i x a)) j = opinion_of (a_ResponseInspection a) j"
  by (cases x; simp add: setter_defs Let_def split: option.splits)+

definition run_ops :: "(string \<times> inspection_op) list \<Rightarrow> Artifact \<Rightarrow> Artifact" where
  "run_ops ops a = fold (\<lambda>(i, x). run_op i x) ops a"

lemma run_ops_simps [simp]:
  "run_ops [] a = a"
  "run_ops ((i, x) # ops) a = run_ops ops (run_op i x a)"
  by (simp_all add: run_ops_def)

lemma run_ops_wf [intro]: "wf_artifact a \<Longrightarrow> wf_artifact (run_ops ops a)"
  by (induction ops arbitrary: a) (auto simp: run_op_wf)

lemma run_ops_other:
  "j \<notin> fst ` set ops \<Longrightarrow>
     opinion_of (a_RequestInspection (run_ops ops a)) j = opinion_of (a_RequestInspection a) j"
  "j \<notin> fst ` set ops \<Longrightarrow>
     opinion_of (a_ResponseInspection (run_ops ops a)) j = opinion_of (a_ResponseInspection a) j"
  by (induction ops arbitrary: a) (auto simp: run_op_other)

fun approves :: "inspection_op \<Rightarrow> bool" where
  "approves (OpResponseApproved _ _) = True"
| "approves _ = False"

lemma run_op_metadata_kept:
  assumes "wf_artifact a" and "opinion_of (a_ResponseInspection a) j = Some Approved" and "\<not> approves x"
  shows "a_Metadata (run_op i x a) = a_Metadata a"
  using assms
  by (cases x)
     (auto simp: setter_defs Let_def wf_artifact_def approval_iff_opinion simp del: list.set_map split: option.splits)

lemma run_ops_metadata_kept:
  assumes "wf_artifact a" and "opinion_of (a_ResponseInspection a) j = Some Approved"
    and "\<forall>(i, x) \<in> set ops. i \<noteq> j \<and> \<not> approves x"
  shows "a_Metadata (run_ops ops a) = a_Metadata a"
  using assms
proof (induction ops arbitrary: a)
  case (Cons p ops)
  obtain i x where p: "p = (i, x)" by force
  with Cons.prems have "a_Metadata (run_op i x a) = a_Metadata a"
    by (auto intro: run_op_metadata_kept)
  moreover have "a_Metadata (run_ops ops (run_op i x a)) = a_Metadata (run_op i x a)"
    using Cons.prems p by (intro Cons.IH) (auto simp: run_op_other intro: run_op_wf)
  ultimately show ?case using p by simp
qed simp

lemma carried_Approved_needs: "carried k m \<Longrightarrow> opinion_of m i \<noteq> Some Rejected"
  by (simp add: carried_def)

lemma wf_NewArtifact [simp]: "wf_artifact NewArtifact"
  by (simp add: wf_artifact_def NewArtifact_def)

end
