(* ===== verification/Inspection_Engine.thy ===== *)
theory Inspection_Engine
  imports Artifact
begin

text \<open>
  \<^verbatim>\<open>inspectors/inspectors.go\<close>: the registry of inspectors and the two loops that run them over a
  request and over a downloaded file.

  An inspector is the record of its \<^verbatim>\<open>Inspector\<close> methods. Inspection of a file may read and write
  the session's cache directory; that state is the type parameter \<^typ>\<open>'w\<close>. The registry is
  built from a list of inspectors, in the order they run. Opening the file and detecting its
  MIME type (a third-party package) are arguments (\<^theory_text>\<open>insp_env\<close>). A nil inspector fetched from the
  map, on which Go would panic, is the error \<^theory_text>\<open>nil_inspector\<close>; \<open>run_request_no_panic\<close> and
  \<open>run_artifact_no_panic\<close> show that a registry built by \<^theory_text>\<open>newInspectors\<close> never produces it.
\<close>

record 'w Inspector =
  ins_ID :: string
  ins_InspectRequest :: "Artifact \<Rightarrow> go_error option \<times> Artifact"
  ins_InspectArtifact :: "string \<Rightarrow> 'w \<Rightarrow> Artifact \<Rightarrow> go_error option \<times> Artifact \<times> 'w"

record 'w Inspectors =
  insmap :: "(string, 'w Inspector) gomap"
  insp_ids :: "string list"
  insp_permissive :: bool

definition newInspectors :: "bool \<Rightarrow> 'w Inspector list \<Rightarrow> 'w Inspectors" where
  "newInspectors perm insList =
     \<lparr>insmap = fold (\<lambda>ins m. map_set (ins_ID ins) ins m) insList [],
      insp_ids = map ins_ID insList,
      insp_permissive = perm\<rparr>"

definition nil_inspector :: go_error where
  "nil_inspector = ErrVar ''runtime.panic'' ''nil inspector''"

fun run_request ::
  "(string, 'w Inspector) gomap \<Rightarrow> string list \<Rightarrow> Artifact \<Rightarrow> go_error option \<times> Artifact" where
  "run_request insm [] a = (None, a)"
| "run_request insm (i # ids) a =
     (case map_get insm i of None \<Rightarrow> (Some nil_inspector, a)
      | Some ins \<Rightarrow>
        (case ins_InspectRequest ins a of
           (Some err, a') \<Rightarrow>
             (Some err, annotate_request (ins_ID ins) [(''error-message'', AnyString (err_Error err))]
                (SetRequestRejected (ins_ID ins) ''error inspecting request'' a'))
         | (None, a') \<Rightarrow> run_request insm ids a'))"

definition RunRequestInspectors :: "'w Inspectors \<Rightarrow> Artifact \<Rightarrow> go_error option \<times> Artifact" where
  "RunRequestInspectors insps a = run_request (insmap insps) (insp_ids insps) a"

record insp_env =
  env_open :: "string \<Rightarrow> string result"
  env_detect :: "string \<Rightarrow> mime result"
  env_seek :: "string \<Rightarrow> go_error option"

definition skips :: "bool \<Rightarrow> Artifact \<Rightarrow> string \<Rightarrow> bool" where
  "skips perm a i \<longleftrightarrow> \<not> perm \<and> i \<noteq> ''default'' \<and>
     (case map_get (a_RequestInspection a) i of None \<Rightarrow> True | Some reqin \<Rightarrow> in_Opinion reqin \<noteq> Pending)"

fun run_artifact ::
  "insp_env \<Rightarrow> (string, 'w Inspector) gomap \<Rightarrow> bool \<Rightarrow> string \<Rightarrow> string list \<Rightarrow> 'w \<Rightarrow> Artifact
     \<Rightarrow> go_error option \<times> Artifact \<times> 'w" where
  "run_artifact env insm perm f [] w a = (None, a, w)"
| "run_artifact env insm perm f (i # ids) w a =
     (if skips perm a i then run_artifact env insm perm f ids w a
      else (case map_get insm i of None \<Rightarrow> (Some nil_inspector, a, w)
        | Some ins \<Rightarrow>
          (case env_seek env i of Some err \<Rightarrow> (Some err, a, w)
           | None \<Rightarrow>
             (case ins_InspectArtifact ins f w a of
                (Some err, a', w') \<Rightarrow>
                  (Some err, annotate_response (ins_ID ins) [(''error-message'', AnyString (err_Error err))]
                     (SetResponseRejected (ins_ID ins) ''error inspecting artifact'' NoMetadata a'), w')
              | (None, a', w') \<Rightarrow> run_artifact env insm perm f ids w' a'))))"

definition RunArtifactInspectors ::
  "insp_env \<Rightarrow> 'w Inspectors \<Rightarrow> string \<Rightarrow> 'w \<Rightarrow> Artifact \<Rightarrow> go_error option \<times> Artifact \<times> 'w" where
  "RunArtifactInspectors env insps dir w a =
     (let filename = filepath_Join [dir, Sha256Digest_String (md_Sha256 (a_Metadata a)) @ ''.data'']
      in case env_open env filename of Inl err \<Rightarrow> (Some err, a, w)
         | Inr f \<Rightarrow>
           (case env_detect env f of Inl err \<Rightarrow> (Some err, a, w)
            | Inr mtype \<Rightarrow>
              run_artifact env (insmap insps) (insp_permissive insps) f (insp_ids insps) w
                (a\<lparr>a_Metadata := (a_Metadata a)\<lparr>md_Type := mime_String mtype\<rparr>, a_MimeType := Some mtype\<rparr>)))"

definition GetInspector :: "'w Inspectors \<Rightarrow> string \<Rightarrow> 'w Inspector result" where
  "GetInspector insps i = (case map_get (insmap insps) i of
     None \<Rightarrow> Inl (Errorf (''inspector '' @ [CHR 0x27] @ i @ [CHR 0x27] @ '' not registered''))
   | Some ins \<Rightarrow> Inr ins)"

definition Inspectors_List :: "'w Inspectors \<Rightarrow> string list" where
  "Inspectors_List insps = insp_ids insps"

section \<open>The default inspector\<close>

definition Default_InspectRequest :: "Artifact \<Rightarrow> go_error option \<times> Artifact" where
  "Default_InspectRequest a =
     (if \<not> RequestRejected a \<and> \<not> RequestPending a
      then (None, SetRequestUnknown ''default'' ''the request was not recognized by any format inspector'' a)
      else (None, a))"

definition Default_InspectArtifact :: "string \<Rightarrow> 'w \<Rightarrow> Artifact \<Rightarrow> go_error option \<times> Artifact \<times> 'w" where
  "Default_InspectArtifact f w a =
     (if \<not> ResponseRejected a \<and> \<not> ResponseApproved a
      then (None, SetResponseUnknown ''default''
              ''the artifact file content was not recognized by any format inspector'' NoMetadata a, w)
      else (None, a, w))"

definition DefaultInspector :: "'w Inspector" where
  "DefaultInspector = \<lparr>ins_ID = ''default'', ins_InspectRequest = Default_InspectRequest,
     ins_InspectArtifact = Default_InspectArtifact\<rparr>"

text \<open>The ids of the inspectors that \<^verbatim>\<open>New\<close> registers, in the order it registers them.\<close>

definition registered_ids :: "string list" where
  "registered_ids =
     [''snap'', ''snap.assertion'', ''snap.info'', ''snap.refresh'', ''snap.sections'',
      ''snap.auth-sessions'', ''snap.auth-nonce'', ''snap.auth-request-id'', ''snap.names'',
      ''store.info-api'', ''store.resolve-api'', ''store.transforms-api'', ''store.appmedia'',
      ''bld.bin'',
      ''pip.simple-index'', ''pip.wheel'', ''pip.sdist'', ''pip.metadata'',
      ''apt.release'', ''apt.packages'', ''apt.translations'', ''apt.commands'', ''deb'',
      ''chisel.release'',
      ''git.smart-query'', ''git.upload-pack'',
      ''go.module.git'',
      ''craft.rockcraft'', ''craft.charmcraft'', ''craft.snapcraft'', ''craft.sourcecraft'',
      ''craft.bincraft'',
      ''cargo.index'', ''cargo.crate'',
      ''maven.jar'', ''maven.pom'',
      ''lxd.simple-streams.index'', ''lxd.simple-streams.download'', ''lxd.rootfs'',
      ''lxd.instance-types'',
      ''default'']"

section \<open>What an inspector may do\<close>

text \<open>
  An inspector sees an artifact through \<^verbatim>\<open>RequestArtifact\<close> or \<^verbatim>\<open>ResponseArtifact\<close> only, and passes
  itself to the setters: a request inspection changes its own request opinion and the body of
  the request, a response inspection its own response opinion and the descriptive metadata.
\<close>

definition same_context :: "Artifact \<Rightarrow> Artifact \<Rightarrow> bool" where
  "same_context a a' \<longleftrightarrow> a_MetadataVersion a' = a_MetadataVersion a \<and> a_Result a' = a_Result a \<and>
     a_Downloads a' = a_Downloads a \<and> a_CurrentDownload a' = a_CurrentDownload a \<and>
     a_AssetDir a' = a_AssetDir a \<and> a_Tempfile a' = a_Tempfile a \<and> a_SessionID a' = a_SessionID a \<and>
     a_SessionCacheDir a' = a_SessionCacheDir a \<and> a_MimeType a' = a_MimeType a"

definition request_frame :: "string set \<Rightarrow> Artifact \<Rightarrow> Artifact \<Rightarrow> bool" where
  "request_frame I a a' \<longleftrightarrow>
     (wf_artifact a \<longrightarrow> wf_artifact a') \<and>
     (\<forall>j. j \<notin> I \<longrightarrow> opinion_of (a_RequestInspection a') j = opinion_of (a_RequestInspection a) j) \<and>
     a_ResponseInspection a' = a_ResponseInspection a \<and> a_Metadata a' = a_Metadata a \<and> same_context a a'"

definition response_frame :: "string set \<Rightarrow> Artifact \<Rightarrow> Artifact \<Rightarrow> bool" where
  "response_frame I a a' \<longleftrightarrow>
     (wf_artifact a \<longrightarrow> wf_artifact a') \<and>
     (\<forall>j. j \<notin> I \<longrightarrow> opinion_of (a_ResponseInspection a') j = opinion_of (a_ResponseInspection a) j) \<and>
     a_RequestInspection a' = a_RequestInspection a \<and> a_Request a' = a_Request a \<and>
     md_Sha1 (a_Metadata a') = md_Sha1 (a_Metadata a) \<and>
     md_Sha256 (a_Metadata a') = md_Sha256 (a_Metadata a) \<and>
     md_Size (a_Metadata a') = md_Size (a_Metadata a) \<and> same_context a a'"

locale inspector =
  fixes ins :: "'w Inspector"
  assumes request_framed: "request_frame {ins_ID ins} a (snd (ins_InspectRequest ins a))"
    and response_framed: "response_frame {ins_ID ins} a (fst (snd (ins_InspectArtifact ins f w a)))"

lemma same_context_refl [simp]: "same_context a a"
  by (simp add: same_context_def)

lemma same_context_trans: "same_context a b \<Longrightarrow> same_context b c \<Longrightarrow> same_context a c"
  by (simp add: same_context_def)

lemma request_frame_refl [simp, intro]: "request_frame I a a"
  by (simp add: request_frame_def)

lemma response_frame_refl [simp, intro]: "response_frame I a a"
  by (simp add: response_frame_def)

lemma request_frame_trans: "request_frame I a b \<Longrightarrow> request_frame J b c \<Longrightarrow> request_frame (I \<union> J) a c"
  by (auto simp: request_frame_def intro: same_context_trans)

lemma response_frame_trans: "response_frame I a b \<Longrightarrow> response_frame J b c \<Longrightarrow> response_frame (I \<union> J) a c"
  by (auto simp: response_frame_def intro: same_context_trans)

lemma request_frame_mono: "request_frame I a b \<Longrightarrow> I \<subseteq> J \<Longrightarrow> request_frame J a b"
  by (auto simp: request_frame_def)

lemma response_frame_mono: "response_frame I a b \<Longrightarrow> I \<subseteq> J \<Longrightarrow> response_frame J a b"
  by (auto simp: response_frame_def)

lemma request_frame_SetRequest [simp, intro]:
  "i \<in> I \<Longrightarrow> request_frame I a (SetRequestPending i r a)"
  "i \<in> I \<Longrightarrow> request_frame I a (SetRequestRejected i r a)"
  "i \<in> I \<Longrightarrow> request_frame I a (SetRequestUnknown i r a)"
  "i \<in> I \<Longrightarrow> request_frame I a (annotate_request i ann a)"
  by (auto simp: request_frame_def same_context_def wf_artifact_def setter_defs split: option.splits)

lemma setArtifactMetadata_frame' [simp]:
  "md_Sha1 (a_Metadata (setArtifactMetadata m a)) = md_Sha1 (a_Metadata a)"
  "same_context a (setArtifactMetadata m a)" "a_Request (setArtifactMetadata m a) = a_Request a"
  by (simp_all add: setArtifactMetadata_def same_context_def Let_def)

lemma response_frame_SetResponse [simp, intro]:
  "i \<in> I \<Longrightarrow> response_frame I a (SetResponseApproved i r m a)"
  "i \<in> I \<Longrightarrow> response_frame I a (SetResponseRejected i r m a)"
  "i \<in> I \<Longrightarrow> response_frame I a (SetResponseUnknown i r m a)"
  "i \<in> I \<Longrightarrow> response_frame I a (annotate_response i ann a)"
  by (auto simp: response_frame_def wf_artifact_def setter_defs setArtifactMetadata_def same_context_def
      Let_def split: option.splits)

lemma opinion_of_SetRequest [simp]:
  "opinion_of (a_RequestInspection (SetRequestPending i r a)) = (opinion_of (a_RequestInspection a))(i \<mapsto> Pending)"
  "opinion_of (a_RequestInspection (SetRequestRejected i r a)) = (opinion_of (a_RequestInspection a))(i \<mapsto> Rejected)"
  "opinion_of (a_RequestInspection (SetRequestUnknown i r a)) = (opinion_of (a_RequestInspection a))(i \<mapsto> Unknown)"
  "opinion_of (a_RequestInspection (annotate_request i ann a)) = opinion_of (a_RequestInspection a)"
  by (auto simp: setter_defs split: option.splits)

lemma opinion_of_SetResponse [simp]:
  "opinion_of (a_ResponseInspection (SetResponseApproved i r m a)) = (opinion_of (a_ResponseInspection a))(i \<mapsto> Approved)"
  "opinion_of (a_ResponseInspection (SetResponseRejected i r m a)) = (opinion_of (a_ResponseInspection a))(i \<mapsto> Rejected)"
  "opinion_of (a_ResponseInspection (SetResponseUnknown i r m a)) = (opinion_of (a_ResponseInspection a))(i \<mapsto> Unknown)"
  "opinion_of (a_ResponseInspection (annotate_response i ann a)) = opinion_of (a_ResponseInspection a)"
  by (auto simp: setter_defs Let_def split: option.splits)

lemma request_frame_error:
  "request_frame {i} a b \<Longrightarrow> request_frame {i} a (annotate_request i ann (SetRequestRejected i r b))"
  by (drule request_frame_trans [OF _ request_frame_SetRequest(2) [of i "{i}" _ r]], simp,
      drule request_frame_trans [OF _ request_frame_SetRequest(4) [of i "{i}" _ ann]], simp_all)

lemma response_frame_error:
  "response_frame {i} a b \<Longrightarrow> response_frame {i} a (annotate_response i ann (SetResponseRejected i r m b))"
  by (drule response_frame_trans [OF _ response_frame_SetResponse(2) [of i "{i}" _ r m]], simp,
      drule response_frame_trans [OF _ response_frame_SetResponse(4) [of i "{i}" _ ann]], simp_all)

interpretation default_inspector: inspector DefaultInspector
  by unfold_locales
     (auto simp: DefaultInspector_def Default_InspectRequest_def Default_InspectArtifact_def)

section \<open>The registry\<close>

lemma fold_map_set_get:
  "distinct (map key xs) \<Longrightarrow> x \<in> set xs \<Longrightarrow>
     map_get (fold (\<lambda>y m. map_set (key y) y m) xs m) (key x) = Some x"
proof (induction xs arbitrary: m)
  case (Cons y ys)
  have keep: "k \<notin> key ` set ys \<Longrightarrow> map_get (fold (\<lambda>y m. map_set (key y) y m) ys n) k = map_get n k" for k n
    by (induction ys arbitrary: n) auto
  show ?case using Cons keep [of "key y"] by auto
qed simp

lemma newInspectors_get:
  "distinct (map ins_ID insList) \<Longrightarrow> ins \<in> set insList \<Longrightarrow>
     map_get (insmap (newInspectors p insList)) (ins_ID ins) = Some ins"
  by (simp add: newInspectors_def fold_map_set_get)

text \<open>
  A registry in which every id is bound to an inspector that keeps the contract and answers to
  that id: what \<^verbatim>\<open>New\<close> builds.
\<close>

definition registry_ok :: "(string, 'w Inspector) gomap \<Rightarrow> string list \<Rightarrow> bool" where
  "registry_ok insm ids \<longleftrightarrow>
     (\<forall>i \<in> set ids. \<exists>ins. map_get insm i = Some ins \<and> ins_ID ins = i \<and> inspector ins)"

lemma registry_okD:
  "registry_ok insm (i # ids) \<Longrightarrow>
     \<exists>ins. map_get insm i = Some ins \<and> ins_ID ins = i \<and> inspector ins \<and> registry_ok insm ids"
  by (auto simp: registry_ok_def)

lemma registry_ok_new:
  assumes "distinct (map ins_ID insList)" and "\<forall>ins \<in> set insList. inspector ins"
  shows "registry_ok (insmap (newInspectors p insList)) (insp_ids (newInspectors p insList))"
  unfolding registry_ok_def
proof
  fix i assume "i \<in> set (insp_ids (newInspectors p insList))"
  then obtain ins where "ins \<in> set insList" and "i = ins_ID ins" by (auto simp: newInspectors_def)
  with assms show "\<exists>ins. map_get (insmap (newInspectors p insList)) i = Some ins \<and> ins_ID ins = i \<and> inspector ins"
    using newInspectors_get by blast
qed

section \<open>The request loop\<close>

lemma run_request_frame:
  "registry_ok insm ids \<Longrightarrow> request_frame (set ids) a (snd (run_request insm ids a))"
proof (induction insm ids a rule: run_request.induct)
  case (2 insm i ids a)
  then obtain ins where ins: "map_get insm i = Some ins" "ins_ID ins = i" "inspector ins" "registry_ok insm ids"
    using registry_okD by blast
  obtain e b where eb: "ins_InspectRequest ins a = (e, b)" by fastforce
  have ab: "request_frame {i} a b"
    using inspector.request_framed [OF ins(3), of a] eb ins(2) by simp
  show ?case
  proof (cases e)
    case None
    with 2 ins eb have "request_frame (set ids) b (snd (run_request insm ids b))" by simp
    with ab have "request_frame ({i} \<union> set ids) a (snd (run_request insm ids b))" by (rule request_frame_trans)
    with None ins eb show ?thesis by simp
  next
    case (Some err)
    with request_frame_error [OF ab] ins eb show ?thesis by (auto intro: request_frame_mono)
  qed
qed simp

lemma run_request_error:
  assumes "registry_ok insm ids" and "run_request insm ids a = (Some err, a')"
  shows "\<exists>i \<in> set ids. opinion_of (a_RequestInspection a') i = Some Rejected"
  using assms
proof (induction insm ids a rule: run_request.induct)
  case (2 insm i ids a)
  then obtain ins where ins: "map_get insm i = Some ins" "ins_ID ins = i" "registry_ok insm ids"
    using registry_okD by blast
  with 2 show ?case by (fastforce split: prod.splits option.splits)
qed simp

lemma run_request_no_panic:
  assumes "registry_ok insm ids"
    and "\<forall>i ins b. map_get insm i = Some ins \<longrightarrow> fst (ins_InspectRequest ins b) \<noteq> Some nil_inspector"
  shows "fst (run_request insm ids a) \<noteq> Some nil_inspector"
  using assms
proof (induction insm ids a rule: run_request.induct)
  case (2 insm i ids a)
  then obtain ins where ins: "map_get insm i = Some ins" "registry_ok insm ids"
    using registry_okD by blast
  obtain e b where eb: "ins_InspectRequest ins a = (e, b)" by fastforce
  with 2(3) ins have "e \<noteq> Some nil_inspector" by (metis fst_conv)
  with eb 2 ins show ?case by (cases e) auto
qed simp

lemma run_request_append:
  "run_request insm (xs @ ys) a =
     (case run_request insm xs a of (Some e, b) \<Rightarrow> (Some e, b) | (None, b) \<Rightarrow> run_request insm ys b)"
  by (induction insm xs a rule: run_request.induct) (auto split: option.splits prod.splits)

section \<open>The response loop\<close>

lemma run_artifact_frame:
  "registry_ok insm ids \<Longrightarrow>
     response_frame {i \<in> set ids. \<not> skips perm a i} a (fst (snd (run_artifact env insm perm f ids w a)))"
proof (induction env insm perm f ids w a rule: run_artifact.induct)
  case (2 env insm perm f i ids w a)
  then obtain ins where ins: "map_get insm i = Some ins" "ins_ID ins = i" "inspector ins" "registry_ok insm ids"
    using registry_okD by blast
  let ?I = "{j \<in> set (i # ids). \<not> skips perm a j}"
  consider (skip) "skips perm a i" | (seek) err where "\<not> skips perm a i" "env_seek env i = Some err"
    | (run) e b w' where "\<not> skips perm a i" "env_seek env i = None" "ins_InspectArtifact ins f w a = (e, b, w')"
    by (metis option.exhaust prod_cases3)
  then show ?case
  proof cases
    case skip
    with 2 ins show ?thesis by (auto elim!: response_frame_mono)
  next
    case seek
    with ins show ?thesis by simp
  next
    case run
    have ab: "response_frame {i} a b"
      using inspector.response_framed [OF ins(3), of a f w] run(3) ins(2) by simp
    then have same: "skips perm b j = skips perm a j" for j
      by (simp add: skips_def response_frame_def)
    show ?thesis
    proof (cases e)
      case None
      have "response_frame {j \<in> set ids. \<not> skips perm b j} b (fst (snd (run_artifact env insm perm f ids w' b)))"
        using "2.IH"(2) ins run None by force
      then have "response_frame {j \<in> set ids. \<not> skips perm a j} b
          (fst (snd (run_artifact env insm perm f ids w' b)))" by (simp add: same)
      with ab have "response_frame ({i} \<union> {j \<in> set ids. \<not> skips perm a j}) a
          (fst (snd (run_artifact env insm perm f ids w' b)))" by (rule response_frame_trans)
      then have "response_frame ?I a (fst (snd (run_artifact env insm perm f ids w' b)))"
        using run(1) by (elim response_frame_mono) auto
      with None run ins show ?thesis by simp
    next
      case (Some err)
      have "response_frame ?I a (annotate_response i [(''error-message'', AnyString (err_Error err))]
          (SetResponseRejected i ''error inspecting artifact'' NoMetadata b))"
        by (rule response_frame_mono [OF response_frame_error [OF ab]]) (use run(1) in auto)
      with Some run ins show ?thesis by simp
    qed
  qed
qed simp

lemma run_artifact_append:
  "run_artifact env insm perm f (xs @ ys) w a =
     (case run_artifact env insm perm f xs w a of
        (Some e, b, w') \<Rightarrow> (Some e, b, w') | (None, b, w') \<Rightarrow> run_artifact env insm perm f ys w' b)"
  by (induction env insm perm f xs w a rule: run_artifact.induct) (auto split: option.splits prod.splits)

text \<open>An error is either a failure to read the file again or leaves a rejection behind.\<close>

lemma run_artifact_error:
  assumes "registry_ok insm ids" and "run_artifact env insm perm f ids w a = (Some err, a', w')"
  shows "(\<exists>i \<in> set ids. env_seek env i = Some err) \<or>
         (\<exists>i \<in> set ids. opinion_of (a_ResponseInspection a') i = Some Rejected)"
  using assms
proof (induction env insm perm f ids w a rule: run_artifact.induct)
  case (2 env insm perm f i ids w a)
  then obtain ins where ins: "map_get insm i = Some ins" "ins_ID ins = i" "registry_ok insm ids"
    using registry_okD by blast
  with 2 show ?case by (fastforce split: prod.splits option.splits if_splits)
qed simp

lemma run_artifact_no_panic:
  assumes "registry_ok insm ids"
    and "\<forall>i ins f w b. map_get insm i = Some ins \<longrightarrow> fst (ins_InspectArtifact ins f w b) \<noteq> Some nil_inspector"
    and "\<forall>i. env_seek env i \<noteq> Some nil_inspector"
  shows "fst (run_artifact env insm perm f ids w a) \<noteq> Some nil_inspector"
  using assms
proof (induction env insm perm f ids w a rule: run_artifact.induct)
  case (2 env insm perm f i ids w a)
  then obtain ins where ins: "map_get insm i = Some ins" "registry_ok insm ids"
    using registry_okD by blast
  obtain e b w' where eb: "ins_InspectArtifact ins f w a = (e, b, w')" by (metis prod_cases3)
  with "2.prems"(2) ins have "e \<noteq> Some nil_inspector" by (metis fst_conv)
  with eb 2 ins show ?case by (cases e; cases "env_seek env i") auto
qed simp

text \<open>The default inspector never approves, whatever ran before it.\<close>

lemma run_artifact_default:
  assumes "registry_ok insm ids" and "map_get insm ''default'' = Some DefaultInspector"
    and "opinion_of (a_ResponseInspection a) ''default'' \<noteq> Some Approved"
  shows "opinion_of (a_ResponseInspection (fst (snd (run_artifact env insm perm f ids w a)))) ''default''
           \<noteq> Some Approved"
  using assms
proof (induction env insm perm f ids w a rule: run_artifact.induct)
  case (2 env insm perm f i ids w a)
  then obtain ins where ins: "map_get insm i = Some ins" "ins_ID ins = i" "inspector ins" "registry_ok insm ids"
    using registry_okD by blast
  obtain e b w' where eb: "ins_InspectArtifact ins f w a = (e, b, w')" by (metis prod_cases3)
  have b: "opinion_of (a_ResponseInspection b) ''default'' \<noteq> Some Approved"
  proof (cases "i = ''default''")
    case True
    with ins "2.prems" eb show ?thesis
      by (auto simp: DefaultInspector_def Default_InspectArtifact_def split: if_splits)
  next
    case False
    with inspector.response_framed [OF ins(3), of a f w] ins(2) eb "2.prems" show ?thesis
      by (simp add: response_frame_def)
  qed
  show ?case
  proof (cases "skips perm a i \<or> env_seek env i \<noteq> None")
    case True
    with 2 ins show ?thesis by (auto split: option.splits)
  next
    case False
    with b 2 ins eb show ?thesis by (cases e) auto
  qed
qed simp

section \<open>The registered inspectors\<close>

definition registered :: "'w Inspector list \<Rightarrow> bool" where
  "registered insList \<longleftrightarrow> map ins_ID insList = registered_ids \<and> last insList = DefaultInspector \<and>
     (\<forall>ins \<in> set insList. inspector ins)"

lemma distinct_registered_ids: "distinct registered_ids"
  by (simp add: registered_ids_def)

lemma last_registered_ids: "registered_ids \<noteq> [] \<and> last registered_ids = ''default''"
  by (simp add: registered_ids_def)

lemma registered_registry:
  assumes "registered insList"
  shows "registry_ok (insmap (newInspectors p insList)) registered_ids"
    and "insp_ids (newInspectors p insList) = registered_ids"
    and "map_get (insmap (newInspectors p insList)) ''default'' = Some DefaultInspector"
proof -
  have ids: "map ins_ID insList = registered_ids" and l: "last insList = DefaultInspector"
    and c: "\<forall>ins \<in> set insList. inspector ins"
    using assms by (auto simp: registered_def)
  show ids': "insp_ids (newInspectors p insList) = registered_ids"
    using ids by (simp add: newInspectors_def)
  show "registry_ok (insmap (newInspectors p insList)) registered_ids"
    using registry_ok_new [of insList p] ids ids' c distinct_registered_ids by simp
  have "DefaultInspector \<in> set insList"
    using l ids last_registered_ids by (metis last_in_set map_is_Nil_conv)
  then show "map_get (insmap (newInspectors p insList)) ''default'' = Some DefaultInspector"
    using newInspectors_get [of insList DefaultInspector p] ids distinct_registered_ids
    by (simp add: DefaultInspector_def)
qed

lemma run_artifact_registered:
  assumes "registered insList"
    and "RunArtifactInspectors env (newInspectors p insList) dir w a = (None, a', w')"
  obtains f mtype b where "b = a\<lparr>a_Metadata := (a_Metadata a)\<lparr>md_Type := mime_String mtype\<rparr>, a_MimeType := Some mtype\<rparr>"
    and "run_artifact env (insmap (newInspectors p insList)) p f registered_ids w b = (None, a', w')"
proof -
  have "insp_permissive (newInspectors p insList) = p" by (simp add: newInspectors_def)
  with assms registered_registry(2) [OF assms(1), of p] show ?thesis
    by (auto simp: RunArtifactInspectors_def Let_def intro!: that split: sum.splits)
qed

text \<open>
  In a strict session an artifact is approved only when some inspector other than the
  default one recognised both sides of the download: it left a pending opinion on the request,
  and it approved the file. No inspector that did not recognise the request can approve it.
\<close>

theorem strict_approval_needs_recognition:
  assumes reg: "registered insList" and wf: "wf_artifact a" and fresh: "a_ResponseInspection a = []"
    and run: "RunArtifactInspectors env (newInspectors False insList) dir w a = (None, a', w')"
    and approved: "Artifact_Approved a'"
  shows "\<exists>j \<in> set registered_ids. j \<noteq> ''default'' \<and>
           opinion_of (a_RequestInspection a) j = Some Pending \<and>
           opinion_of (a_ResponseInspection a') j = Some Approved"
proof -
  let ?m = "insmap (newInspectors False insList)"
  obtain f mtype b where b: "b = a\<lparr>a_Metadata := (a_Metadata a)\<lparr>md_Type := mime_String mtype\<rparr>, a_MimeType := Some mtype\<rparr>"
    and rb: "run_artifact env ?m False f registered_ids w b = (None, a', w')"
    using run_artifact_registered [OF reg run] by metis
  have none: "opinion_of (a_ResponseInspection b) j = None" for j
    using b fresh by (simp add: opinion_of_def)
  have fr: "response_frame {i \<in> set registered_ids. \<not> skips False b i} b a'"
    using run_artifact_frame [OF registered_registry(1) [OF reg, of False], of False b env f w] rb by simp
  then have "wf_artifact a'" using wf b by (simp add: response_frame_def wf_artifact_def)
  with approved obtain j where j: "opinion_of (a_ResponseInspection a') j = Some Approved"
    by (auto simp: Artifact_Approved_iff carried_def)
  have "opinion_of (a_ResponseInspection a') ''default'' \<noteq> Some Approved"
    using run_artifact_default [OF registered_registry(1,3) [OF reg, of False], of b env False f w] rb none by simp
  with j have "j \<noteq> ''default''" by auto
  moreover have "j \<in> set registered_ids" and "\<not> skips False b j"
    using fr j none by (fastforce simp: response_frame_def)+
  ultimately show ?thesis using j b by (fastforce simp: skips_def opinion_of_def split: option.splits)
qed

subsection \<open>A sample registry\<close>

text \<open>Inspectors for concrete runs: one that recognises nothing, one that recognises everything.\<close>

definition silent :: "string \<Rightarrow> 'w Inspector" where
  "silent i = \<lparr>ins_ID = i, ins_InspectRequest = (\<lambda>a. (None, a)), ins_InspectArtifact = (\<lambda>f w a. (None, a, w))\<rparr>"

definition accepting :: "string \<Rightarrow> 'w Inspector" where
  "accepting i = \<lparr>ins_ID = i, ins_InspectRequest = (\<lambda>a. (None, SetRequestPending i ''valid URL'' a)),
     ins_InspectArtifact = (\<lambda>f w a. (None, SetResponseApproved i ''valid file'' NoMetadata a, w))\<rparr>"

definition failing :: "string \<Rightarrow> 'w Inspector" where
  "failing i = \<lparr>ins_ID = i, ins_InspectRequest = (\<lambda>a. (Some (Errorf ''cannot parse URL''), a)),
     ins_InspectArtifact = (\<lambda>f w a. (Some (Errorf ''cannot read file''), a, w))\<rparr>"

definition sample_registry :: "(string \<Rightarrow> 'w Inspector) \<Rightarrow> 'w Inspector list" where
  "sample_registry g = map (\<lambda>i. if i = ''deb'' then g i else silent i) (butlast registered_ids) @ [DefaultInspector]"

definition sample_env :: insp_env where
  "sample_env = \<lparr>env_open = (\<lambda>_. Inr ''data''), env_detect = (\<lambda>_. Inr \<lparr>mime_String = ''text/plain'', mime_Is = (\<lambda>t. t = ''text/plain'')\<rparr>),
     env_seek = (\<lambda>_. None)\<rparr>"

definition sample_request :: Artifact where
  "sample_request = SetRequestPending ''deb'' ''valid URL'' NewArtifact"

lemma inspector_silent [simp]: "inspector (silent i)"
  by unfold_locales (auto simp: silent_def)

lemma inspector_accepting [simp]: "inspector (accepting i)"
  by unfold_locales (auto simp: accepting_def)

lemma inspector_failing [simp]: "inspector (failing i)"
  by unfold_locales (auto simp: failing_def)

lemma registered_sample:
  assumes "inspector (g ''deb'')" and "ins_ID (g ''deb'') = ''deb''"
  shows "registered (sample_registry g)"
proof -
  have "map (\<lambda>i. ins_ID (if i = ''deb'' then g i else silent i)) xs = xs" for xs
    using assms(2) by (induction xs) (auto simp: silent_def)
  then have "map ins_ID (sample_registry g) = butlast registered_ids @ [last registered_ids]"
    using last_registered_ids by (simp add: sample_registry_def DefaultInspector_def comp_def)
  then have "map ins_ID (sample_registry g) = registered_ids"
    using last_registered_ids by (metis append_butlast_last_id)
  then show ?thesis
    using assms(1) default_inspector.inspector_axioms by (auto simp: registered_def sample_registry_def)
qed

theorem strict_approval_needs_recognition_witness:
  "\<exists>j \<in> set registered_ids. j \<noteq> ''default'' \<and>
     opinion_of (a_RequestInspection sample_request) j = Some Pending \<and>
     opinion_of (a_ResponseInspection (fst (snd (RunArtifactInspectors sample_env
       (newInspectors False (sample_registry accepting)) ''/spool'' () sample_request)))) j = Some Approved"
proof (rule strict_approval_needs_recognition [of "sample_registry accepting" _ sample_env "''/spool''" "()" _ "()"])
  show "registered (sample_registry accepting)"
    by (rule registered_sample) (simp_all, simp add: accepting_def)
  show "wf_artifact sample_request" by code_simp
  show "a_ResponseInspection sample_request = []" by code_simp
  have "fst (RunArtifactInspectors sample_env (newInspectors False (sample_registry accepting)) ''/spool'' () sample_request) = None"
    by code_simp
  then show "RunArtifactInspectors sample_env (newInspectors False (sample_registry accepting)) ''/spool'' () sample_request
     = (None, fst (snd (RunArtifactInspectors sample_env (newInspectors False (sample_registry accepting)) ''/spool'' () sample_request)), ())"
    by (simp add: prod_eq_iff)
  show "Artifact_Approved (fst (snd (RunArtifactInspectors sample_env
     (newInspectors False (sample_registry accepting)) ''/spool'' () sample_request)))" by code_simp
qed

subsection \<open>The request verdict\<close>

lemma run_request_default_untouched:
  assumes "registry_ok insm ids" and "''default'' \<notin> set ids"
  shows "opinion_of (a_RequestInspection (snd (run_request insm ids a))) ''default'' =
           opinion_of (a_RequestInspection a) ''default''"
  using run_request_frame [OF assms(1), of a] assms(2) by (simp add: request_frame_def)

text \<open>
  The registered request inspectors always leave a verdict. When none of them fails, exactly
  one of two things holds: the request is rejected or pending, or the default inspector recorded
  that no format inspector recognised it. When one fails, the request is rejected.
\<close>

theorem request_inspection_verdict:
  assumes reg: "registered insList" and wf: "wf_artifact a" and fresh: "a_RequestInspection a = []"
    and run: "RunRequestInspectors (newInspectors p insList) a = (e, a')"
  shows "(case e of
            None \<Rightarrow> (RequestRejected a' \<or> RequestPending a') \<noteq>
                      (opinion_of (a_RequestInspection a') ''default'' = Some Unknown)
          | Some _ \<Rightarrow> RequestRejected a' \<and> \<not> RequestPending a')"
proof -
  let ?m = "insmap (newInspectors p insList)"
  have ok: "registry_ok ?m registered_ids" and def: "map_get ?m ''default'' = Some DefaultInspector"
    using registered_registry [OF reg] by auto
  have r: "run_request ?m registered_ids a = (e, a')"
    using run registered_registry(2) [OF reg, of p] by (simp add: RunRequestInspectors_def)
  have wf': "wf_artifact a'"
    using run_request_frame [OF ok, of a] r wf by (simp add: request_frame_def)
  show ?thesis
  proof (cases e)
    case (Some err)
    with run_request_error [OF ok, of a err a'] r have "RequestRejected a'"
      by (auto simp: RequestRejected_iff [OF wf'])
    moreover from this have "\<not> RequestPending a'"
      by (auto simp: RequestRejected_iff [OF wf'] RequestPending_iff [OF wf'] carried_def)
    ultimately show ?thesis using Some by simp
  next
    case None
    let ?pre = "butlast registered_ids"
    have split: "registered_ids = ?pre @ [''default'']"
      using last_registered_ids by (metis append_butlast_last_id)
    have notin: "''default'' \<notin> set ?pre"
      using split distinct_registered_ids by (metis distinct_append not_distinct_conv_prefix)
    have okpre: "registry_ok ?m ?pre" using ok by (auto simp: registry_ok_def dest: in_set_butlastD)
    obtain e0 b where b: "run_request ?m ?pre a = (e0, b)" by fastforce
    have "run_request ?m (?pre @ [''default'']) a = (None, a')" using r None split by simp
    then have a': "a' = snd (Default_InspectRequest b)" and "e0 = None"
      using b def by (auto simp: run_request_append DefaultInspector_def Default_InspectRequest_def split: option.splits if_splits)
    have "opinion_of (a_RequestInspection b) ''default'' = None"
      using run_request_default_untouched [OF okpre notin, of a] b fresh by (simp add: opinion_of_def)
    moreover have wfb: "wf_artifact b"
      using run_request_frame [OF okpre, of a] b wf by (simp add: request_frame_def)
    ultimately show ?thesis
      using a' None wf'
      by (auto simp: Default_InspectRequest_def RequestRejected_iff RequestPending_iff carried_def)
  qed
qed

definition unrecognised_run :: "go_error option \<times> Artifact" where
  "unrecognised_run =
     RunRequestInspectors (newInspectors True (sample_registry (silent :: string \<Rightarrow> unit Inspector))) NewArtifact"

theorem request_inspection_verdict_witness:
  "(RequestRejected (snd unrecognised_run) \<or> RequestPending (snd unrecognised_run)) \<noteq>
   (opinion_of (a_RequestInspection (snd unrecognised_run)) ''default'' = Some Unknown)"
proof -
  have e: "fst unrecognised_run = None" by code_simp
  have "registered (sample_registry (silent :: string \<Rightarrow> unit Inspector))"
    by (rule registered_sample) (simp_all, simp add: silent_def)
  moreover have "a_RequestInspection NewArtifact = []" by (simp add: NewArtifact_def)
  moreover have "RunRequestInspectors (newInspectors True (sample_registry (silent :: string \<Rightarrow> unit Inspector))) NewArtifact
      = (None, snd unrecognised_run)"
    using e by (simp add: prod_eq_iff unrecognised_run_def)
  ultimately show ?thesis
    using request_inspection_verdict [of "sample_registry silent" NewArtifact True None "snd unrecognised_run"] by simp
qed

end
