(* ===== verification/Artifact_Props.thy ===== *)
theory Artifact_Props
  imports Artifact
begin

text \<open>
  Properties of the artifact's opinions: the verdict does not depend on the order Go iterates a
  map in, a rejection is final, and the metadata of an approval is not overwritten by later
  rejections or unknown opinions.
\<close>

text \<open>
  Whether an artifact is approved, and whether its request is pending or rejected, depends
  only on which opinion each inspector holds: an artifact is approved exactly when no inspector
  rejected its request or its file, some inspector left the request pending, and some inspector
  approved the file. In particular the answers are the same for every iteration order of the maps.
\<close>

theorem verdict_depends_on_opinions_only:
  assumes "wf_artifact a"
  shows "(Artifact_Approved a \<longleftrightarrow>
           (\<forall>i. opinion_of (a_RequestInspection a) i \<noteq> Some Rejected) \<and>
           (\<forall>i. opinion_of (a_ResponseInspection a) i \<noteq> Some Rejected) \<and>
           (\<exists>i. opinion_of (a_RequestInspection a) i = Some Pending) \<and>
           (\<exists>i. opinion_of (a_ResponseInspection a) i = Some Approved)) \<and>
         (RequestRejected a \<longleftrightarrow> (\<exists>i. opinion_of (a_RequestInspection a) i = Some Rejected)) \<and>
         (RequestPending a \<longleftrightarrow> \<not> RequestRejected a \<and> (\<exists>i. opinion_of (a_RequestInspection a) i = Some Pending))"
  using assms
  by (auto simp: Artifact_Approved_iff carried_def RequestRejected_iff RequestPending_iff)

definition judged :: Artifact where
  "judged = SetResponseApproved ''deb'' ''valid package'' NoMetadata
     (SetRequestPending ''deb'' ''valid URL'' NewArtifact)"

lemma wf_judged: "wf_artifact judged"
  by code_simp

theorem verdict_depends_on_opinions_only_witness:
  "Artifact_Approved judged \<and> \<not> RequestRejected judged"
proof -
  have "opinion_of (a_RequestInspection judged) = [''deb'' \<mapsto> Pending]"
    and "opinion_of (a_ResponseInspection judged) = [''deb'' \<mapsto> Approved]"
    by (auto simp: judged_def setter_defs Let_def NewArtifact_def opinion_of_def addInspection_def fun_eq_iff)
  then show ?thesis
    using verdict_depends_on_opinions_only [OF wf_judged] by (auto simp: fun_upd_def)
qed

text \<open>
  C37. A rejection is a veto: once an inspector has rejected a file, no sequence of opinions and
  annotations by other inspectors makes the artifact approved.
\<close>

theorem response_rejection_is_final:
  assumes "wf_artifact a" and "i \<notin> fst ` set ops"
  shows "ResponseRejected (run_ops ops (SetResponseRejected i reason m a)) \<and>
         \<not> Artifact_Approved (run_ops ops (SetResponseRejected i reason m a))"
proof -
  let ?b = "SetResponseRejected i reason m a"
  have wf: "wf_artifact ?b"
    using run_op_wf [OF assms(1), of i "OpResponseRejected reason m"] by simp
  have "opinion_of (a_ResponseInspection ?b) i = Some Rejected"
    by (simp add: SetResponseRejected_def Let_def)
  then have "opinion_of (a_ResponseInspection (run_ops ops ?b)) i = Some Rejected"
    using run_ops_other(2) [OF assms(2)] by simp
  then show ?thesis
    using run_ops_wf [OF wf, of ops] by (auto simp: ResponseRejected_iff Artifact_Approved_iff carried_def)
qed

theorem response_rejection_is_final_witness:
  "ResponseRejected (run_ops [(''deb'', OpResponseApproved ''ok'' NoMetadata)] (SetResponseRejected ''snap'' ''bad'' NoMetadata judged)) \<and>
   \<not> Artifact_Approved (run_ops [(''deb'', OpResponseApproved ''ok'' NoMetadata)] (SetResponseRejected ''snap'' ''bad'' NoMetadata judged))"
  by (rule response_rejection_is_final [OF wf_judged]) simp

text \<open>
  The metadata recorded by an approval stays: rejections, unknown opinions and annotations of
  other inspectors that come later do not change it, so a report describes an artifact as the
  inspector that approved it did.
\<close>

theorem approval_metadata_is_kept:
  assumes "wf_artifact a" and "\<forall>(i, x) \<in> set ops. i \<noteq> j \<and> \<not> approves x"
  shows "a_Metadata (run_ops ops (SetResponseApproved j reason m a)) =
           a_Metadata (SetResponseApproved j reason m a)"
proof (rule run_ops_metadata_kept)
  show "wf_artifact (SetResponseApproved j reason m a)"
    using run_op_wf [OF assms(1), of j "OpResponseApproved reason m"] by simp
  show "opinion_of (a_ResponseInspection (SetResponseApproved j reason m a)) j = Some Approved"
    by (simp add: SetResponseApproved_def Let_def)
qed (use assms(2) in simp)

theorem approval_metadata_is_kept_witness:
  "a_Metadata (run_ops [(''snap'', OpResponseRejected ''bad'' (NoMetadata\<lparr>am_Name := ''other''\<rparr>))]
     (SetResponseApproved ''deb'' ''ok'' (NoMetadata\<lparr>am_Name := ''hello''\<rparr>) judged)) =
   a_Metadata (SetResponseApproved ''deb'' ''ok'' (NoMetadata\<lparr>am_Name := ''hello''\<rparr>) judged)"
  by (rule approval_metadata_is_kept [OF wf_judged]) simp

end
