(* ===== verification/Filesystem.thy ===== *)
theory Filesystem
  imports Fetch_Prelude
begin

text \<open>
  The file system as the sources use it through package \<^verbatim>\<open>os\<close>, and \<^verbatim>\<open>utils.MoveFile\<close>. The state
  is the content of each file and the list of existing directories. What the operating system
  may refuse (permissions, full disk) is the argument \<^theory_text>\<open>os_faults\<close>: for each call and path, the
  error it fails with. A write or copy that fails may have written a part of the data, which
  the fault gives too.
\<close>

record filesys =
  fs_files :: "(string, string) gomap"
  fs_dirs :: "string list"

record os_faults =
  fa_stat :: "string \<Rightarrow> go_error option"
  fa_mkdir :: "string \<Rightarrow> go_error option"
  fa_open :: "string \<Rightarrow> go_error option"
  fa_write :: "string \<Rightarrow> (go_error \<times> string option) option"
  fa_create :: "string \<Rightarrow> go_error option"
  fa_copy :: "string \<Rightarrow> (go_error \<times> string) option"
  fa_rename :: "string \<Rightarrow> go_error option"
  fa_remove :: "string \<Rightarrow> go_error option"
  fa_removeall :: "string \<Rightarrow> go_error option"

definition no_faults :: os_faults where
  "no_faults = \<lparr>fa_stat = (\<lambda>_. None), fa_mkdir = (\<lambda>_. None), fa_open = (\<lambda>_. None),
     fa_write = (\<lambda>_. None), fa_create = (\<lambda>_. None), fa_copy = (\<lambda>_. None), fa_rename = (\<lambda>_. None),
     fa_remove = (\<lambda>_. None), fa_removeall = (\<lambda>_. None)\<rparr>"

definition not_exist :: "string \<Rightarrow> go_error" where
  "not_exist p = ErrWrap p os_ErrNotExist"

definition not_dir :: "string \<Rightarrow> go_error" where
  "not_dir p = Errorf (p @ '': not a directory'')"

definition is_dir_err :: "string \<Rightarrow> go_error" where
  "is_dir_err p = Errorf (p @ '': is a directory'')"

text \<open>\<^verbatim>\<open>filepath.Dir\<close>: the path up to its last separator, cleaned.\<close>

definition filepath_Dir :: "string \<Rightarrow> string" where
  "filepath_Dir p = filepath_Clean (rev (dropWhile (\<lambda>c. c \<noteq> CHR ''/'') (rev p)))"

definition dir_exists :: "filesys \<Rightarrow> string \<Rightarrow> bool" where
  "dir_exists fs d \<longleftrightarrow> d = ''/'' \<or> d = ''.'' \<or> d \<in> set (fs_dirs fs)"

definition is_file :: "filesys \<Rightarrow> string \<Rightarrow> bool" where
  "is_file fs p \<longleftrightarrow> map_get (fs_files fs) p \<noteq> None"

text \<open>The directories \<^verbatim>\<open>os.MkdirAll\<close> creates for a path: the path and each of its ancestors.\<close>

definition path_prefixes :: "string \<Rightarrow> string list" where
  "path_prefixes p =
     (let rooted = strings_HasPrefix p ''/'';
          es = clean_elems rooted [] (strings_Split p CHR ''/'')
      in map (\<lambda>n. (if rooted then ''/'' else []) @ strings_Join (take n es) ''/'') [1..<Suc (length es)])"

definition os_Stat :: "os_faults \<Rightarrow> filesys \<Rightarrow> string \<Rightarrow> bool result" where
  "os_Stat os fs p = (case fa_stat os p of Some e \<Rightarrow> Inl e
     | None \<Rightarrow> if is_file fs p then Inr False else if dir_exists fs p then Inr True else Inl (not_exist p))"

definition os_MkdirAll :: "os_faults \<Rightarrow> string \<Rightarrow> filesys \<Rightarrow> go_error option \<times> filesys" where
  "os_MkdirAll os p fs = (case fa_mkdir os p of Some e \<Rightarrow> (Some e, fs)
     | None \<Rightarrow> (case find (is_file fs) (path_prefixes p) of Some q \<Rightarrow> (Some (not_dir q), fs)
        | None \<Rightarrow> (None, fs\<lparr>fs_dirs := fs_dirs fs @ filter (\<lambda>d. d \<notin> set (fs_dirs fs)) (path_prefixes p)\<rparr>)))"

definition os_ReadFile :: "os_faults \<Rightarrow> filesys \<Rightarrow> string \<Rightarrow> string result" where
  "os_ReadFile os fs p = (case fa_open os p of Some e \<Rightarrow> Inl e
     | None \<Rightarrow> (case map_get (fs_files fs) p of None \<Rightarrow> Inl (not_exist p) | Some d \<Rightarrow> Inr d))"

definition set_file :: "string \<Rightarrow> string \<Rightarrow> filesys \<Rightarrow> filesys" where
  "set_file p d fs = fs\<lparr>fs_files := map_set p d (fs_files fs)\<rparr>"

definition del_file :: "string \<Rightarrow> filesys \<Rightarrow> filesys" where
  "del_file p fs = fs\<lparr>fs_files := map_del p (fs_files fs)\<rparr>"

definition create_check :: "filesys \<Rightarrow> string \<Rightarrow> go_error option" where
  "create_check fs p = (if p \<in> set (fs_dirs fs) then Some (is_dir_err p)
     else if \<not> dir_exists fs (filepath_Dir p) then Some (not_exist p) else None)"

definition os_WriteFile :: "os_faults \<Rightarrow> string \<Rightarrow> string \<Rightarrow> filesys \<Rightarrow> go_error option \<times> filesys" where
  "os_WriteFile os p data fs = (case create_check fs p of Some e \<Rightarrow> (Some e, fs)
     | None \<Rightarrow> (case fa_write os p of
          Some (e, None) \<Rightarrow> (Some e, fs)
        | Some (e, Some part) \<Rightarrow> (Some e, set_file p part fs)
        | None \<Rightarrow> (None, set_file p data fs)))"

definition os_Rename :: "os_faults \<Rightarrow> string \<Rightarrow> string \<Rightarrow> filesys \<Rightarrow> go_error option \<times> filesys" where
  "os_Rename os old new fs = (case fa_rename os old of Some e \<Rightarrow> (Some e, fs)
     | None \<Rightarrow> (case map_get (fs_files fs) old of None \<Rightarrow> (Some (not_exist old), fs)
        | Some d \<Rightarrow> (case create_check fs new of Some e \<Rightarrow> (Some e, fs)
           | None \<Rightarrow> (None, if old = new then fs else set_file new d (del_file old fs)))))"

definition os_Remove :: "os_faults \<Rightarrow> string \<Rightarrow> filesys \<Rightarrow> go_error option \<times> filesys" where
  "os_Remove os p fs = (case fa_remove os p of Some e \<Rightarrow> (Some e, fs)
     | None \<Rightarrow> if is_file fs p then (None, del_file p fs) else (Some (not_exist p), fs))"

definition inside :: "string \<Rightarrow> string \<Rightarrow> bool" where
  "inside d p \<longleftrightarrow> p = d \<or> strings_HasPrefix p (d @ ''/'')"

definition os_RemoveAll :: "os_faults \<Rightarrow> string \<Rightarrow> filesys \<Rightarrow> go_error option \<times> filesys" where
  "os_RemoveAll os d fs = (case fa_removeall os d of Some e \<Rightarrow> (Some e, fs)
     | None \<Rightarrow> (None, fs\<lparr>fs_files := filter (\<lambda>(p, _). \<not> inside d p) (fs_files fs),
                         fs_dirs := filter (\<lambda>p. \<not> inside d p) (fs_dirs fs)\<rparr>))"

text \<open>
  \<^verbatim>\<open>utils.MoveFile\<close>: a rename, and when that is refused a copy followed by the removal of the old
  file. The permission bits it copies are not modelled.
\<close>

definition MoveFile :: "os_faults \<Rightarrow> string \<Rightarrow> string \<Rightarrow> filesys \<Rightarrow> go_error option \<times> filesys" where
  "MoveFile os oldpath newpath fs =
     (case os_Rename os oldpath newpath fs of (None, fs') \<Rightarrow> (None, fs')
      | (Some _, _) \<Rightarrow>
        (case os_ReadFile os fs oldpath of Inl e \<Rightarrow> (Some e, fs)
         | Inr data \<Rightarrow>
           (case fa_stat os oldpath of Some e \<Rightarrow> (Some e, fs)
            | None \<Rightarrow>
              (case create_check fs newpath of Some e \<Rightarrow> (Some e, fs)
               | None \<Rightarrow>
                 (case fa_create os newpath of Some e \<Rightarrow> (Some e, fs)
                  | None \<Rightarrow>
                    (case fa_copy os newpath of
                       Some (e, part) \<Rightarrow> (Some e, snd (os_Remove os newpath (set_file newpath part fs)))
                     | None \<Rightarrow> (case os_Remove os oldpath (set_file newpath data fs) of
                                  (Some e, fs') \<Rightarrow> (Some e, fs')
                                | (None, fs') \<Rightarrow> (None, fs'))))))))"

section \<open>Laws\<close>

lemma set_file_get [simp]: "map_get (fs_files (set_file p d fs)) = (map_get (fs_files fs))(p \<mapsto> d)"
  by (simp add: set_file_def)

lemma del_file_get [simp]: "map_get (fs_files (del_file p fs)) = (map_get (fs_files fs))(p := None)"
  by (simp add: del_file_def)

lemma set_file_dirs [simp]: "fs_dirs (set_file p d fs) = fs_dirs fs"
  by (simp add: set_file_def)

lemma del_file_dirs [simp]: "fs_dirs (del_file p fs) = fs_dirs fs"
  by (simp add: del_file_def)

lemma is_file_set [simp]: "is_file (set_file p d fs) q \<longleftrightarrow> q = p \<or> is_file fs q"
  by (simp add: is_file_def)

lemmas os_defs =
  os_Stat_def os_MkdirAll_def os_ReadFile_def os_WriteFile_def os_Rename_def os_Remove_def os_RemoveAll_def

lemma os_Rename_ok:
  assumes "os_Rename os old new fs = (None, fs')"
  shows "\<exists>d. map_get (fs_files fs) old = Some d \<and> map_get (fs_files fs') new = Some d \<and>
           (\<forall>q. q \<noteq> old \<longrightarrow> q \<noteq> new \<longrightarrow> map_get (fs_files fs') q = map_get (fs_files fs) q) \<and>
           (old \<noteq> new \<longrightarrow> map_get (fs_files fs') old = None) \<and> fs_dirs fs' = fs_dirs fs"
  using assms by (auto simp: os_Rename_def split: option.splits)

lemma os_MkdirAll_ok:
  assumes "os_MkdirAll os p fs = (None, fs')"
  shows "fs_files fs' = fs_files fs \<and> set (fs_dirs fs') = set (fs_dirs fs) \<union> set (path_prefixes p)"
  using assms by (auto simp: os_MkdirAll_def split: option.splits)

lemma os_MkdirAll_files [simp]: "fs_files (snd (os_MkdirAll os p fs)) = fs_files fs"
  by (auto simp: os_MkdirAll_def split: option.splits)

lemma MoveFile_ok:
  assumes "MoveFile os old new fs = (None, fs')" and "old \<noteq> new"
  shows "\<exists>d. map_get (fs_files fs) old = Some d \<and> map_get (fs_files fs') new = Some d \<and>
           map_get (fs_files fs') old = None \<and>
           (\<forall>q. q \<noteq> old \<longrightarrow> q \<noteq> new \<longrightarrow> map_get (fs_files fs') q = map_get (fs_files fs) q)"
proof (cases "fst (os_Rename os old new fs)")
  case None
  then obtain fs1 where r: "os_Rename os old new fs = (None, fs1)" by (metis prod.collapse)
  with assms(1) have "fs' = fs1" by (simp add: MoveFile_def)
  with os_Rename_ok [OF r] assms(2) show ?thesis by blast
next
  case (Some e)
  then obtain fs1 where "os_Rename os old new fs = (Some e, fs1)" by (metis prod.collapse)
  with assms show ?thesis
    by (auto simp: MoveFile_def os_ReadFile_def os_Remove_def split: option.splits sum.splits prod.splits if_splits)
qed

lemma MoveFile_err_keeps_old:
  assumes "MoveFile os old new fs = (Some e, fs')" and "old \<noteq> new"
  shows "map_get (fs_files fs') old = map_get (fs_files fs) old"
  using assms
  by (auto simp: MoveFile_def os_ReadFile_def os_Remove_def split: option.splits sum.splits prod.splits if_splits)

lemma os_RemoveAll_get:
  assumes "os_RemoveAll os d fs = (None, fs')"
  shows "map_get (fs_files fs') p = (if inside d p then None else map_get (fs_files fs) p)"
proof -
  have "map_of (filter (\<lambda>(p, _). \<not> inside d p) m) p = (if inside d p then None else map_of m p)" for m :: "(string \<times> string) list"
    by (induction m) auto
  with assms show ?thesis by (auto simp: os_RemoveAll_def split: option.splits)
qed

end
