(* ===== verification/Net_Addr.thy ===== *)
theory Net_Addr
  imports Fetch_Prelude "HOL-Library.Word"
begin

unbundle bit_operations_syntax

text \<open>
  IP addresses and networks, from packages \<^verbatim>\<open>net\<close> and \<^verbatim>\<open>net/netip\<close>: an address is its 4 or 16
  bytes, a network an address and a mask. \<^verbatim>\<open>ParseCIDR\<close> reads the texts of both families; its
  errors are one value, as no caller tells them apart.
\<close>

type_synonym IP = "8 word list"

record IPNet =
  net_IP :: IP
  net_Mask :: "8 word list"

text \<open>Package \<^verbatim>\<open>net\<close>: \<^verbatim>\<open>IP.To4\<close>, \<^verbatim>\<open>CIDRMask\<close>, \<^verbatim>\<open>IP.Mask\<close>, \<^verbatim>\<open>IPNet.Contains\<close>.\<close>

definition IP_To4 :: "IP \<Rightarrow> IP option" where
  "IP_To4 ip = (if length ip = 4 then Some ip
     else if length ip = 16 \<and> take 12 ip = replicate 10 0 @ [255, 255] then Some (drop 12 ip)
     else None)"

fun cidr_mask :: "nat \<Rightarrow> nat \<Rightarrow> 8 word list" where
  "cidr_mask n 0 = []"
| "cidr_mask n (Suc l) =
     (if n \<ge> 8 then 255 # cidr_mask (n - 8) l else NOT (drop_bit n 255) # cidr_mask 0 l)"

definition CIDRMask :: "nat \<Rightarrow> nat \<Rightarrow> 8 word list option" where
  "CIDRMask ones bits = (if bits \<noteq> 32 \<and> bits \<noteq> 128 then None
     else if ones > bits then None else Some (cidr_mask ones (bits div 8)))"

definition networkNumberAndMask :: "IPNet \<Rightarrow> (IP \<times> 8 word list)" where
  "networkNumberAndMask n =
     (let ip = (case IP_To4 (net_IP n) of Some x \<Rightarrow> x | None \<Rightarrow> net_IP n) in
      if IP_To4 (net_IP n) = None \<and> length ip \<noteq> 16 then ([], [])
      else let m = net_Mask n in
        if length m = 4 then (if length ip \<noteq> 4 then ([], []) else (ip, m))
        else if length m = 16 then (if length ip = 4 then (ip, drop 12 m) else (ip, m))
        else ([], []))"

definition IPNet_Contains :: "IPNet \<Rightarrow> IP \<Rightarrow> bool" where
  "IPNet_Contains n ip0 =
     (case networkNumberAndMask n of (nn, m) \<Rightarrow>
        let ip = (case IP_To4 ip0 of Some x \<Rightarrow> x | None \<Rightarrow> ip0)
        in length ip = length nn \<and> list_all (\<lambda>i. nn ! i AND m ! i = ip ! i AND m ! i) [0..<length ip])"

definition IP_Mask :: "IP \<Rightarrow> 8 word list \<Rightarrow> IP" where
  "IP_Mask ip0 mask0 =
     (let mask = (if length mask0 = 16 \<and> length ip0 = 4 \<and> take 12 mask0 = replicate 12 255 then drop 12 mask0 else mask0);
          ip = (if length mask = 4 \<and> length ip0 = 16 \<and> take 12 ip0 = replicate 10 0 @ [255, 255] then drop 12 ip0 else ip0)
      in if length ip \<noteq> length mask then [] else map2 (AND) ip mask)"

section \<open>Parsing\<close>

definition dec_digit :: "char \<Rightarrow> nat option" where
  "dec_digit c = (let n = of_char c :: nat in if 48 \<le> n \<and> n \<le> 57 then Some (n - 48) else None)"

fun dec_value :: "nat \<Rightarrow> string \<Rightarrow> nat option" where
  "dec_value acc [] = Some acc"
| "dec_value acc (c # cs) = (case dec_digit c of None \<Rightarrow> None | Some d \<Rightarrow> dec_value (10 * acc + d) cs)"

text \<open>A decimal octet: digits, no leading zero, at most 255.\<close>

definition parse_octet :: "string \<Rightarrow> 8 word option" where
  "parse_octet s = (if s = [] \<or> (length s > 1 \<and> hd s = CHR ''0'') then None
     else (case dec_value 0 s of None \<Rightarrow> None | Some v \<Rightarrow> if v > 255 then None else Some (of_nat v)))"

definition parseIPv4 :: "string \<Rightarrow> IP option" where
  "parseIPv4 s = (case map parse_octet (strings_Split s CHR ''.'') of
     [Some a, Some b, Some c, Some d] \<Rightarrow> Some [a, b, c, d] | _ \<Rightarrow> None)"

text \<open>
  The loop of \<^verbatim>\<open>parseIPv6\<close>: the bytes read so far, where the ellipsis was, and the text left. Each
  round adds two bytes or stops, so eight rounds reach sixteen bytes.
\<close>

fun parseIPv6_loop :: "nat \<Rightarrow> string \<Rightarrow> IP \<Rightarrow> nat option \<Rightarrow> (IP \<times> nat option \<times> string) option" where
  "parseIPv6_loop 0 s ip ell = Some (ip, ell, s)"
| "parseIPv6_loop (Suc n) s ip ell =
     (let grp = takeWhile (\<lambda>c. from_hex c \<noteq> None) s; s1 = dropWhile (\<lambda>c. from_hex c \<noteq> None) s in
      if grp = [] \<or> length grp > 4 then None
      else if s1 \<noteq> [] \<and> hd s1 = CHR ''.'' then
        (if (ell = None \<and> length ip \<noteq> 12) \<or> length ip + 4 > 16 then None
         else (case parseIPv4 s of None \<Rightarrow> None | Some q \<Rightarrow> Some (ip @ q, ell, [])))
      else
        (let acc = foldl (\<lambda>v c. 16 * v + the (from_hex c)) 0 grp;
             ip1 = ip @ [of_nat (acc div 256), of_nat (acc mod 256)] in
         if s1 = [] then Some (ip1, ell, [])
         else if hd s1 \<noteq> CHR '':'' \<or> length s1 = 1 then None
         else (let s2 = tl s1 in
           if hd s2 = CHR '':'' then
             (if ell \<noteq> None then None
              else if length s2 = 1 then Some (ip1, Some (length ip1), [])
              else parseIPv6_loop n (tl s2) ip1 (Some (length ip1)))
           else parseIPv6_loop n s2 ip1 ell)))"

definition parseIPv6 :: "string \<Rightarrow> IP option" where
  "parseIPv6 s =
     (if s = ''::'' then Some (replicate 16 0)
      else let start = (if strings_HasPrefix s ''::'' then (drop 2 s, Some 0) else (s, None)) in
        case parseIPv6_loop 8 (fst start) [] (snd start) of
          None \<Rightarrow> None
        | Some (ip, ell, rest) \<Rightarrow>
            if rest \<noteq> [] then None
            else if length ip < 16 then
              (case ell of None \<Rightarrow> None
               | Some e \<Rightarrow> Some (take e ip @ replicate (16 - length ip) 0 @ drop e ip))
            else if ell \<noteq> None then None else Some ip)"

text \<open>
  \<^verbatim>\<open>netip.ParseAddr\<close> as \<^verbatim>\<open>ParseCIDR\<close> uses it: the first of \<^verbatim>\<open>.\<close>, \<^verbatim>\<open>:\<close> and \<^verbatim>\<open>%\<close> decides the family, and
  an address with a zone is refused.
\<close>

definition parse_addr :: "string \<Rightarrow> IP option" where
  "parse_addr s = (case find (\<lambda>c. c = CHR ''.'' \<or> c = CHR '':'' \<or> c = CHR ''%'') s of
     None \<Rightarrow> None
   | Some c \<Rightarrow> if c = CHR ''.'' then parseIPv4 s
              else if c = CHR '':'' \<and> CHR ''%'' \<notin> set s then parseIPv6 s else None)"

definition ErrParseCIDR :: go_error where
  "ErrParseCIDR = ErrVar ''net.ParseError'' ''invalid CIDR address''"

definition ParseCIDR :: "string \<Rightarrow> IPNet result" where
  "ParseCIDR s = (case strings_Cut s CHR ''/'' of None \<Rightarrow> Inl ErrParseCIDR
     | Some (addr, len) \<Rightarrow>
       (case parse_addr addr of None \<Rightarrow> Inl ErrParseCIDR
        | Some ip \<Rightarrow>
          (case dec_value 0 len of None \<Rightarrow> Inl ErrParseCIDR
           | Some n \<Rightarrow> if len = [] \<or> n > 8 * length ip then Inl ErrParseCIDR
               else Inr \<lparr>net_IP = IP_Mask ip (cidr_mask n (length ip)), net_Mask = cidr_mask n (length ip)\<rparr>)))"

section \<open>Membership by prefix\<close>

text \<open>The \<^theory_text>\<open>k\<close>-th bit of an address, counted from its most significant one.\<close>

definition addr_bit :: "IP \<Rightarrow> nat \<Rightarrow> bool" where
  "addr_bit ip k = bit (ip ! (k div 8)) (7 - k mod 8)"

definition agree :: "nat \<Rightarrow> IP \<Rightarrow> IP \<Rightarrow> bool" where
  "agree n xs ys \<longleftrightarrow> (\<forall>k < n. addr_bit xs k = addr_bit ys k)"

lemma length_cidr_mask [simp]: "length (cidr_mask n l) = l"
  by (induction n l rule: cidr_mask.induct) auto

lemma byte_prefix_mask:
  fixes a b :: "8 word"
  assumes "n < 8"
  shows "a AND NOT (drop_bit n 255) = b AND NOT (drop_bit n 255) \<longleftrightarrow> (\<forall>k < n. bit a (7 - k) = bit b (7 - k))"
proof -
  have m: "bit (drop_bit n (255 :: 8 word)) j \<longleftrightarrow> j + n < 8" for j
  proof -
    have "(255 :: 8 word) = - 1" by simp
    then have "bit (255 :: 8 word) (n + j) = bit (- 1 :: 8 word) (n + j)" by (rule arg_cong)
    also have "\<dots> \<longleftrightarrow> n + j < 8" by (simp add: bit_minus_1_iff)
    finally show ?thesis by (simp only: bit_drop_bit_eq comp_def add.commute)
  qed
  have "a AND NOT (drop_bit n 255) = b AND NOT (drop_bit n 255) \<longleftrightarrow>
      (\<forall>j < 8. 8 \<le> j + n \<longrightarrow> bit a j = bit b j)"
    by (auto simp: bit_eq_iff bit_and_iff bit_not_iff m not_less)
  also have "\<dots> \<longleftrightarrow> (\<forall>k < n. bit a (7 - k) = bit b (7 - k))"
  proof
    assume l: "\<forall>j < 8. 8 \<le> j + n \<longrightarrow> bit a j = bit b j"
    show "\<forall>k < n. bit a (7 - k) = bit b (7 - k)" using l assms by auto
  next
    assume r: "\<forall>k < n. bit a (7 - k) = bit b (7 - k)"
    show "\<forall>j < 8. 8 \<le> j + n \<longrightarrow> bit a j = bit b j"
    proof (intro allI impI)
      fix j :: nat assume "j < 8" and "8 \<le> j + n"
      then have "7 - j < n" and "7 - (7 - j) = j" by auto
      with r show "bit a j = bit b j" by metis
    qed
  qed
  finally show ?thesis .
qed

text \<open>The comparison \<^verbatim>\<open>Contains\<close> makes byte by byte, as a recursion.\<close>

fun masked_eq :: "8 word list \<Rightarrow> IP \<Rightarrow> IP \<Rightarrow> bool" where
  "masked_eq (m # ms) (x # xs) (y # ys) \<longleftrightarrow> x AND m = y AND m \<and> masked_eq ms xs ys"
| "masked_eq _ _ _ \<longleftrightarrow> True"

lemma masked_eq_index:
  assumes "length ms = l" and "length xs = l" and "length ys = l"
  shows "list_all (\<lambda>i. xs ! i AND ms ! i = ys ! i AND ms ! i) [0..<l] \<longleftrightarrow> masked_eq ms xs ys"
  using assms
proof (induction l arbitrary: ms xs ys)
  case 0
  then show ?case by simp
next
  case (Suc l)
  then obtain m ms' x xs' y ys' where c: "ms = m # ms'" "xs = x # xs'" "ys = y # ys'"
    by (metis length_Suc_conv)
  have u: "[0..<Suc l] = 0 # map Suc [0..<l]" by (simp only: upt_conv_Cons map_Suc_upt zero_less_Suc)
  have "list_all (\<lambda>i. xs' ! i AND ms' ! i = ys' ! i AND ms' ! i) [0..<l] \<longleftrightarrow> masked_eq ms' xs' ys'"
    using Suc c by simp
  then show ?case unfolding u c by (simp add: list.pred_map comp_def)
qed

lemma agree_0 [simp]: "agree 0 xs ys"
  by (simp add: agree_def)

lemma agree_byte:
  assumes "n \<le> 8"
  shows "agree n (x # xs) (y # ys) \<longleftrightarrow> (\<forall>k < n. bit x (7 - k) = bit y (7 - k))"
  using assms by (auto simp: agree_def addr_bit_def)

lemma addr_bit_Cons: "8 \<le> k \<Longrightarrow> addr_bit (x # xs) k = addr_bit xs (k - 8)"
proof -
  assume k: "8 \<le> k"
  then have "k div 8 = Suc ((k - 8) div 8)" and "k mod 8 = (k - 8) mod 8"
    by (simp_all add: le_div_geq le_mod_geq)
  then show ?thesis by (simp add: addr_bit_def)
qed

lemma agree_Cons:
  "8 \<le> n \<Longrightarrow> agree n (x # xs) (y # ys) \<longleftrightarrow> agree 8 (x # xs) (y # ys) \<and> agree (n - 8) xs ys"
proof -
  assume n: "8 \<le> n"
  have "agree n (x # xs) (y # ys) \<longleftrightarrow>
     (\<forall>k < 8. addr_bit (x # xs) k = addr_bit (y # ys) k) \<and>
     (\<forall>k. 8 \<le> k \<and> k < n \<longrightarrow> addr_bit (x # xs) k = addr_bit (y # ys) k)"
    unfolding agree_def using n by (metis less_le_trans not_less)
  also have "(\<forall>k. 8 \<le> k \<and> k < n \<longrightarrow> addr_bit (x # xs) k = addr_bit (y # ys) k) \<longleftrightarrow> agree (n - 8) xs ys"
  proof
    assume a: "\<forall>k. 8 \<le> k \<and> k < n \<longrightarrow> addr_bit (x # xs) k = addr_bit (y # ys) k"
    show "agree (n - 8) xs ys"
      unfolding agree_def
    proof (intro allI impI)
      fix k assume "k < n - 8"
      with a have "addr_bit (x # xs) (k + 8) = addr_bit (y # ys) (k + 8)" by auto
      then show "addr_bit xs k = addr_bit ys k" by (simp add: addr_bit_Cons)
    qed
  qed (use n in \<open>auto simp: agree_def addr_bit_Cons\<close>)
  finally show ?thesis by (simp add: agree_def)
qed

lemma byte_eq_bits:
  fixes x y :: "8 word"
  shows "x = y \<longleftrightarrow> (\<forall>k < 8. bit x (7 - k) = bit y (7 - k))"
proof
  assume r: "\<forall>k < 8. bit x (7 - k) = bit y (7 - k)"
  show "x = y"
  proof (rule bit_word_eqI)
    fix j :: nat assume "j < LENGTH(8)"
    then have "7 - j < 8" and "7 - (7 - j) = j" by auto
    with r show "bit x j = bit y j" by metis
  qed
qed simp

lemma and_255 [simp]: "(x :: 8 word) AND 255 = x"
proof -
  have "(255 :: 8 word) = - 1" by simp
  then show ?thesis by (metis and.right_neutral)
qed

lemma masked_eq_cidr:
  "length xs = l \<Longrightarrow> length ys = l \<Longrightarrow> n \<le> 8 * l \<Longrightarrow> masked_eq (cidr_mask n l) xs ys \<longleftrightarrow> agree n xs ys"
proof (induction n l arbitrary: xs ys rule: cidr_mask.induct)
  case (2 n l)
  obtain x xs' y ys' where c: "xs = x # xs'" "ys = y # ys'" using 2(3,4) by (metis length_Suc_conv)
  show ?case
  proof (cases "n \<ge> 8")
    case True
    with 2 c have "masked_eq (cidr_mask (n - 8) l) xs' ys' \<longleftrightarrow> agree (n - 8) xs' ys'" by simp
    with True c show ?thesis
      by (simp add: agree_Cons [OF True] agree_byte byte_eq_bits [of x y])
  next
    case False
    then have "masked_eq (cidr_mask 0 l) xs' ys'" using 2 c by simp
    with False c show ?thesis by (simp add: agree_byte byte_prefix_mask)
  qed
qed simp

lemma map2_and_idem: "length ms = length xs \<Longrightarrow> masked_eq ms (map2 (AND) xs ms) ys \<longleftrightarrow> masked_eq ms xs ys"
  by (induction ms xs ys rule: masked_eq.induct) (auto simp: and.assoc)

text \<open>
  A network given by an address and a prefix length contains exactly the addresses of its family
  that agree with it on the prefix.
\<close>

lemma contains_prefix4:
  assumes "length ip = 4" and "length a = 4" and "n \<le> 32"
  shows "IPNet_Contains \<lparr>net_IP = IP_Mask a (cidr_mask n 4), net_Mask = cidr_mask n 4\<rparr> ip \<longleftrightarrow> agree n a ip"
proof -
  have m: "IP_Mask a (cidr_mask n 4) = map2 (AND) a (cidr_mask n 4)"
    using assms(2) by (simp add: IP_Mask_def)
  have "IPNet_Contains \<lparr>net_IP = map2 (AND) a (cidr_mask n 4), net_Mask = cidr_mask n 4\<rparr> ip \<longleftrightarrow>
      masked_eq (cidr_mask n 4) (map2 (AND) a (cidr_mask n 4)) ip"
    using assms by (simp add: IPNet_Contains_def networkNumberAndMask_def IP_To4_def masked_eq_index [symmetric])
  also have "\<dots> \<longleftrightarrow> agree n a ip"
    using assms by (simp add: map2_and_idem masked_eq_cidr)
  finally show ?thesis by (simp only: m)
qed

end
