(* ===== verification/Config.thy ===== *)
theory Config
  imports Filesystem Net_Addr
begin

text \<open>
  \<^verbatim>\<open>glob/glob.go\<close>, \<^verbatim>\<open>service/config/config.go\<close> and the configuration records of the inspectors.
  The global configuration variables, which the code guards with mutexes, are the record
  \<^theory_text>\<open>config_state\<close>. The glob compiler and the YAML decoder are third-party code: a compiled
  pattern is its \<^verbatim>\<open>Match\<close> method (\<^const>\<open>None\<close> is the nil pattern), and the decoders are arguments
  (\<^theory_text>\<open>yaml_codec\<close>). Slices and maps are values here; the copies the code makes are kept as the
  rebuilding of each field they are.
\<close>

section \<open>Globs\<close>

record Glob =
  G :: "(string \<Rightarrow> bool) option"

definition glob_nil :: go_error where
  "glob_nil = ErrVar ''runtime.panic'' ''nil pattern''"

definition Glob_MustCompile :: "(string \<Rightarrow> (string \<Rightarrow> bool) result) \<Rightarrow> string \<Rightarrow> Glob result" where
  "Glob_MustCompile compile pattern = (case compile pattern of Inl e \<Rightarrow> Inl e | Inr g \<Rightarrow> Inr \<lparr>G = Some g\<rparr>)"

text \<open>\<^verbatim>\<open>UnmarshalYAML\<close> and \<^verbatim>\<open>UnmarshalJSON\<close>: \<^theory_text>\<open>s\<close> is what the decoder finds for the string.\<close>

definition Glob_Unmarshal :: "(string \<Rightarrow> (string \<Rightarrow> bool) result) \<Rightarrow> string result \<Rightarrow> Glob result" where
  "Glob_Unmarshal compile s = (case s of Inl e \<Rightarrow> Inl e
     | Inr t \<Rightarrow> (case compile t of Inl e \<Rightarrow> Inl e | Inr g \<Rightarrow> Inr \<lparr>G = Some g\<rparr>))"

definition Glob_Match :: "Glob \<Rightarrow> string \<Rightarrow> bool" where
  "Glob_Match t s = (case G t of None \<Rightarrow> False | Some g \<Rightarrow> g s)"

section \<open>Access rules\<close>

datatype ACLPolicy = Allow | Deny | OtherPolicy int

definition ErrInvalidACLPolicy :: go_error where
  "ErrInvalidACLPolicy = Errorf ''invalid ACL policy''"

fun ACLPolicy_MarshalYAML :: "ACLPolicy \<Rightarrow> string result" where
  "ACLPolicy_MarshalYAML Allow = Inr ''allow''"
| "ACLPolicy_MarshalYAML Deny = Inr ''deny''"
| "ACLPolicy_MarshalYAML (OtherPolicy _) = Inl ErrInvalidACLPolicy"

definition ACLPolicy_UnmarshalYAML :: "string result \<Rightarrow> ACLPolicy result" where
  "ACLPolicy_UnmarshalYAML s = (case s of Inl e \<Rightarrow> Inl e
     | Inr t \<Rightarrow> if t = ''allow'' \<or> t = quoted ''allow'' then Inr Allow
               else if t = ''deny'' \<or> t = quoted ''deny'' then Inr Deny
               else Inl ErrInvalidACLPolicy)"

fun ACLPolicy_String :: "ACLPolicy \<Rightarrow> string" where
  "ACLPolicy_String Allow = ''allow''"
| "ACLPolicy_String Deny = ''deny''"
| "ACLPolicy_String (OtherPolicy _) = ''''"

text \<open>
  \<^verbatim>\<open>IPNet.UnmarshalYAML\<close>: the address text gets a prefix length if it has none.
\<close>

definition ensure_cidr :: "string \<Rightarrow> string" where
  "ensure_cidr s =
     (if CHR ''.'' \<in> set s \<and> CHR ''/'' \<notin> set s then s @ ''/32''
      else if CHR '':'' \<in> set s \<and> CHR ''/'' \<notin> set s then s @ ''/128''
      else s)"

definition IPNet_UnmarshalYAML :: "string result \<Rightarrow> IPNet result" where
  "IPNet_UnmarshalYAML s = (case s of Inl e \<Rightarrow> Inl e | Inr t \<Rightarrow> ParseCIDR (ensure_cidr t))"

record Rule =
  rule_Dst :: "IPNet list"
  rule_Access :: ACLPolicy

record HTTPProxyConfig =
  hp_Policy :: ACLPolicy
  hp_Rules :: "Rule list"

section \<open>Inspector configuration\<close>

record AptInspectorConfigRepository =
  repo_URLs :: "Glob list"
  repo_Suites :: "Glob list"
  repo_Components :: "Glob list"
  repo_PublicKey :: string
  repo_BaseURLAlias :: string

record AssertionFilter =
  af_Name :: string
  af_Value :: "string list"

record InspectorsConfig =
  cfg_Apt :: "(string, AptInspectorConfigRepository) gomap"
  cfg_Git :: "Glob list"
  cfg_Crafts :: "Glob list"
  cfg_Chisel :: "Glob list"
  cfg_Snap :: "AssertionFilter list"
  cfg_Store :: "Glob list"
  cfg_BldBin :: "Glob list"

definition zero_InspectorsConfig :: InspectorsConfig where
  "zero_InspectorsConfig = \<lparr>cfg_Apt = [], cfg_Git = [], cfg_Crafts = [], cfg_Chisel = [],
     cfg_Snap = [], cfg_Store = [], cfg_BldBin = []\<rparr>"

record OverrideInspectorsConfig =
  ov_Apt :: "(string, AptInspectorConfigRepository) gomap option"
  ov_Git :: "Glob list option"
  ov_Crafts :: "Glob list option"
  ov_Chisel :: "Glob list option"
  ov_Snap :: "AssertionFilter list option"
  ov_Store :: "Glob list option"
  ov_BldBin :: "Glob list option"

definition no_override :: OverrideInspectorsConfig where
  "no_override = \<lparr>ov_Apt = None, ov_Git = None, ov_Crafts = None, ov_Chisel = None,
     ov_Snap = None, ov_Store = None, ov_BldBin = None\<rparr>"

record config_state =
  globalACLConfig :: HTTPProxyConfig
  globalInspectorsConfig :: InspectorsConfig

definition zero_config :: config_state where
  "zero_config = \<lparr>globalACLConfig = \<lparr>hp_Policy = Allow, hp_Rules = []\<rparr>,
     globalInspectorsConfig = zero_InspectorsConfig\<rparr>"

definition GetHTTPProxyConfig :: "config_state \<Rightarrow> HTTPProxyConfig" where
  "GetHTTPProxyConfig st = \<lparr>hp_Policy = hp_Policy (globalACLConfig st), hp_Rules = hp_Rules (globalACLConfig st)\<rparr>"

definition SetHTTPProxyConfig :: "HTTPProxyConfig \<Rightarrow> config_state \<Rightarrow> config_state" where
  "SetHTTPProxyConfig cfg st =
     st\<lparr>globalACLConfig := (globalACLConfig st)\<lparr>hp_Policy := hp_Policy cfg, hp_Rules := hp_Rules cfg\<rparr>\<rparr>"

text \<open>The loops that rebuild the repository map, entry by entry, and the assertion filters.\<close>

definition copy_repository :: "AptInspectorConfigRepository \<Rightarrow> AptInspectorConfigRepository" where
  "copy_repository v = \<lparr>repo_URLs = repo_URLs v, repo_Suites = repo_Suites v,
     repo_Components = repo_Components v, repo_PublicKey = repo_PublicKey v,
     repo_BaseURLAlias = repo_BaseURLAlias v\<rparr>"

definition copy_repositories ::
  "(string, AptInspectorConfigRepository) gomap \<Rightarrow> (string, AptInspectorConfigRepository) gomap" where
  "copy_repositories m = fold (\<lambda>(k, v) acc. map_set k (copy_repository v) acc) m []"

definition copy_filters :: "AssertionFilter list \<Rightarrow> AssertionFilter list" where
  "copy_filters fs = map (\<lambda>v. \<lparr>af_Name = af_Name v, af_Value = af_Value v\<rparr>) fs"

definition GetInspectorsConfig :: "config_state \<Rightarrow> InspectorsConfig" where
  "GetInspectorsConfig st = (let g = globalInspectorsConfig st in
     \<lparr>cfg_Apt = copy_repositories (cfg_Apt g), cfg_Git = cfg_Git g, cfg_Crafts = cfg_Crafts g,
      cfg_Chisel = cfg_Chisel g, cfg_Snap = copy_filters (cfg_Snap g), cfg_Store = cfg_Store g,
      cfg_BldBin = cfg_BldBin g\<rparr>)"

definition SetInspectorsConfig :: "InspectorsConfig \<Rightarrow> config_state \<Rightarrow> config_state" where
  "SetInspectorsConfig cfg st = st\<lparr>globalInspectorsConfig := cfg\<rparr>"

definition Combine :: "InspectorsConfig \<Rightarrow> OverrideInspectorsConfig \<Rightarrow> InspectorsConfig" where
  "Combine i c =
     (let i1 = (case ov_Apt c of None \<Rightarrow> i | Some r \<Rightarrow> i\<lparr>cfg_Apt := copy_repositories r\<rparr>);
          i2 = (case ov_Git c of None \<Rightarrow> i1 | Some u \<Rightarrow> i1\<lparr>cfg_Git := u\<rparr>);
          i3 = (case ov_Crafts c of None \<Rightarrow> i2 | Some u \<Rightarrow> i2\<lparr>cfg_Crafts := u\<rparr>);
          i4 = (case ov_Chisel c of None \<Rightarrow> i3 | Some u \<Rightarrow> i3\<lparr>cfg_Chisel := u\<rparr>);
          i5 = (case ov_Snap c of None \<Rightarrow> i4 | Some u \<Rightarrow> i4\<lparr>cfg_Snap := u\<rparr>);
          i6 = (case ov_Store c of None \<Rightarrow> i5 | Some u \<Rightarrow> i5\<lparr>cfg_Store := u\<rparr>)
      in (case ov_BldBin c of None \<Rightarrow> i6 | Some u \<Rightarrow> i6\<lparr>cfg_BldBin := u\<rparr>))"

section \<open>Loading and updating\<close>

record yaml_codec =
  dec_HTTPProxyRules :: "string \<Rightarrow> HTTPProxyConfig result"
  dec_InspectorsConfig :: "string \<Rightarrow> InspectorsConfig result"
  dec_OverrideInspectorsConfig :: "string \<Rightarrow> OverrideInspectorsConfig result"

definition aclConfigFile :: string where "aclConfigFile = ''acl.yaml''"

definition inspectorsConfigFile :: string where "inspectorsConfigFile = ''inspectors.yaml''"

definition LoadHTTPProxyRules ::
  "os_faults \<Rightarrow> yaml_codec \<Rightarrow> filesys \<Rightarrow> string \<Rightarrow> config_state \<Rightarrow> go_error option \<times> config_state" where
  "LoadHTTPProxyRules os yc fs cfgdir st =
     (let cfgfile = filepath_Join [cfgdir, aclConfigFile] in
      case os_Stat os fs cfgfile of Inl e \<Rightarrow> (Some e, st)
      | Inr _ \<Rightarrow> (case os_ReadFile os fs cfgfile of Inl e \<Rightarrow> (Some e, st)
         | Inr data \<Rightarrow> (case dec_HTTPProxyRules yc data of Inl e \<Rightarrow> (Some e, st)
            | Inr cfg \<Rightarrow> (None, SetHTTPProxyConfig cfg st))))"

definition LoadInspectorsConfig ::
  "os_faults \<Rightarrow> yaml_codec \<Rightarrow> filesys \<Rightarrow> string \<Rightarrow> config_state \<Rightarrow> go_error option \<times> config_state" where
  "LoadInspectorsConfig os yc fs cfgdir st =
     (let cfgfile = filepath_Join [cfgdir, inspectorsConfigFile] in
      case os_Stat os fs cfgfile of Inl e \<Rightarrow> (Some e, st)
      | Inr _ \<Rightarrow> (case os_ReadFile os fs cfgfile of Inl e \<Rightarrow> (Some e, st)
         | Inr data \<Rightarrow> (case dec_InspectorsConfig yc data of Inl e \<Rightarrow> (Some e, st)
            | Inr cfg \<Rightarrow> (None, SetInspectorsConfig cfg st))))"

definition LoadOverrideInspectorsConfig ::
  "os_faults \<Rightarrow> yaml_codec \<Rightarrow> filesys \<Rightarrow> string \<Rightarrow> config_state \<Rightarrow> go_error option \<times> config_state" where
  "LoadOverrideInspectorsConfig os yc fs cfgdir st =
     (let cfgfile = filepath_Join [cfgdir, inspectorsConfigFile] in
      case os_Stat os fs cfgfile of Inl e \<Rightarrow> (Some e, st)
      | Inr _ \<Rightarrow> (case os_ReadFile os fs cfgfile of Inl e \<Rightarrow> (Some e, st)
         | Inr data \<Rightarrow> (case dec_OverrideInspectorsConfig yc data of Inl e \<Rightarrow> (Some e, st)
            | Inr ov \<Rightarrow> (None, SetInspectorsConfig (Combine (GetInspectorsConfig st) ov) st))))"

text \<open>\<^verbatim>\<open>updateConfigFile\<close>: the error of writing the temporary file is dropped, as in the source.\<close>

definition updateConfigFile ::
  "os_faults \<Rightarrow> string \<Rightarrow> string \<Rightarrow> string \<Rightarrow> filesys \<Rightarrow> go_error option \<times> filesys" where
  "updateConfigFile os cfgdir filename payload fs =
     (case os_MkdirAll os cfgdir fs of (Some e, fs1) \<Rightarrow> (Some e, fs1)
      | (None, fs1) \<Rightarrow>
        (let cfgfile = filepath_Join [cfgdir, filename]; tmpfile = cfgfile @ ''.new'' in
         case os_WriteFile os tmpfile payload fs1 of (Some _, fs2) \<Rightarrow> (None, fs2)
         | (None, fs2) \<Rightarrow> (case os_Rename os tmpfile cfgfile fs2 of (Some e, fs3) \<Rightarrow> (Some e, fs3)
             | (None, fs3) \<Rightarrow> (None, fs3))))"

definition UpdateConfig ::
  "os_faults \<Rightarrow> yaml_codec \<Rightarrow> string \<Rightarrow> bool \<Rightarrow> string \<Rightarrow> string \<Rightarrow> config_state \<Rightarrow> filesys
     \<Rightarrow> go_error option \<times> config_state \<times> filesys" where
  "UpdateConfig os yc optype dryRun payload cfgdir st fs =
     (if optype = ''acl'' then
        (case dec_HTTPProxyRules yc payload of Inl e \<Rightarrow> (Some e, st, fs)
         | Inr cfg \<Rightarrow> if dryRun then (None, st, fs)
             else (case updateConfigFile os cfgdir aclConfigFile payload fs of
                     (e, fs') \<Rightarrow> (e, SetHTTPProxyConfig cfg st, fs')))
      else if optype = ''inspectors'' then
        (case dec_InspectorsConfig yc payload of Inl e \<Rightarrow> (Some e, st, fs)
         | Inr cfg \<Rightarrow> if dryRun then (None, st, fs)
             else (case updateConfigFile os cfgdir inspectorsConfigFile payload fs of
                     (e, fs') \<Rightarrow> (e, SetInspectorsConfig cfg st, fs')))
      else (None, st, fs))"

end
