(* ===== verification/Config_Props.thy ===== *)
theory Config_Props
  imports Config
begin

text \<open>
  Properties of the configuration store: the copies lose nothing, an override replaces exactly
  the inspectors it names, and an update is validated before anything changes.
\<close>

section \<open>The store\<close>

text \<open>A global variable behind a getter and a setter that copy.\<close>

locale config_cell =
  fixes get :: "config_state \<Rightarrow> 'c"
    and set :: "'c \<Rightarrow> config_state \<Rightarrow> config_state"
    and valid :: "'c \<Rightarrow> bool"
  assumes get_set: "valid c \<Longrightarrow> get (set c st) = c"
    and set_set: "set c (set d st) = set c st"
begin

lemma last_write_wins: "valid c \<Longrightarrow> get (fold set (cs @ [c]) st) = c"
  by (simp add: get_set)

lemma fold_set_last: "fold set (cs @ [c]) st = set c st"
  by (induction cs arbitrary: st) (simp_all add: set_set)

end

lemma copy_repository_id [simp]: "copy_repository v = v"
  by (simp add: copy_repository_def)

lemma copy_filters_id [simp]: "copy_filters fs = fs"
  by (simp add: copy_filters_def map_idI)

lemma copy_repositories_fold:
  "distinct (map fst (acc @ m)) \<Longrightarrow> fold (\<lambda>(k, v). map_set k v) m acc = acc @ m"
proof (induction m arbitrary: acc)
  case (Cons p m)
  obtain k v where p: "p = (k, v)" by force
  from Cons.prems p have "map_set k v acc = acc @ [(k, v)]" by (auto intro!: map_set_fresh)
  with Cons.IH [of "acc @ [(k, v)]"] Cons.prems p show ?case by simp
qed simp

lemma copy_repositories_id: "wf_map m \<Longrightarrow> copy_repositories m = m"
  using copy_repositories_fold [of "[]" m] by (simp add: copy_repositories_def)

interpretation acl_cell: config_cell GetHTTPProxyConfig SetHTTPProxyConfig "\<lambda>_. True"
  by unfold_locales (simp_all add: GetHTTPProxyConfig_def SetHTTPProxyConfig_def)

interpretation insp_cell: config_cell GetInspectorsConfig SetInspectorsConfig "\<lambda>c. wf_map (cfg_Apt c)"
  by unfold_locales
     (simp_all add: GetInspectorsConfig_def SetInspectorsConfig_def copy_repositories_id Let_def)

text \<open>
  An override replaces the configuration of exactly the inspectors it names and leaves the
  others as they were, and what the store then hands out is that combination.
\<close>

theorem override_replaces_per_inspector:
  assumes "wf_map (cfg_Apt (globalInspectorsConfig st))" and "\<And>r. ov_Apt c = Some r \<Longrightarrow> wf_map r"
  shows "GetInspectorsConfig (SetInspectorsConfig (Combine (GetInspectorsConfig st) c) st) =
    \<lparr>cfg_Apt = (case ov_Apt c of Some r \<Rightarrow> r | None \<Rightarrow> cfg_Apt (globalInspectorsConfig st)),
     cfg_Git = (case ov_Git c of Some u \<Rightarrow> u | None \<Rightarrow> cfg_Git (globalInspectorsConfig st)),
     cfg_Crafts = (case ov_Crafts c of Some u \<Rightarrow> u | None \<Rightarrow> cfg_Crafts (globalInspectorsConfig st)),
     cfg_Chisel = (case ov_Chisel c of Some u \<Rightarrow> u | None \<Rightarrow> cfg_Chisel (globalInspectorsConfig st)),
     cfg_Snap = (case ov_Snap c of Some u \<Rightarrow> u | None \<Rightarrow> cfg_Snap (globalInspectorsConfig st)),
     cfg_Store = (case ov_Store c of Some u \<Rightarrow> u | None \<Rightarrow> cfg_Store (globalInspectorsConfig st)),
     cfg_BldBin = (case ov_BldBin c of Some u \<Rightarrow> u | None \<Rightarrow> cfg_BldBin (globalInspectorsConfig st))\<rparr>"
proof -
  let ?g = "GetInspectorsConfig st"
  have g: "?g = globalInspectorsConfig st"
    using assms(1) by (simp add: GetInspectorsConfig_def copy_repositories_id Let_def)
  have comb: "Combine ?g c =
    \<lparr>cfg_Apt = (case ov_Apt c of Some r \<Rightarrow> r | None \<Rightarrow> cfg_Apt ?g),
     cfg_Git = (case ov_Git c of Some u \<Rightarrow> u | None \<Rightarrow> cfg_Git ?g),
     cfg_Crafts = (case ov_Crafts c of Some u \<Rightarrow> u | None \<Rightarrow> cfg_Crafts ?g),
     cfg_Chisel = (case ov_Chisel c of Some u \<Rightarrow> u | None \<Rightarrow> cfg_Chisel ?g),
     cfg_Snap = (case ov_Snap c of Some u \<Rightarrow> u | None \<Rightarrow> cfg_Snap ?g),
     cfg_Store = (case ov_Store c of Some u \<Rightarrow> u | None \<Rightarrow> cfg_Store ?g),
     cfg_BldBin = (case ov_BldBin c of Some u \<Rightarrow> u | None \<Rightarrow> cfg_BldBin ?g)\<rparr>"
    using assms(2) by (simp add: Combine_def Let_def copy_repositories_id split: option.splits)
  have "wf_map (cfg_Apt (Combine ?g c))"
    using assms g unfolding comb by (simp split: option.splits)
  then have "GetInspectorsConfig (SetInspectorsConfig (Combine ?g c) st) = Combine ?g c"
    by (rule insp_cell.get_set)
  then show ?thesis using comb unfolding g by (rule trans)
qed

definition git_glob :: Glob where
  "git_glob = \<lparr>G = Some (\<lambda>s. strings_HasPrefix s ''https://git.example.com:443/'')\<rparr>"

theorem override_replaces_per_inspector_witness:
  "GetInspectorsConfig (SetInspectorsConfig (Combine (GetInspectorsConfig zero_config) (no_override\<lparr>ov_Git := Some [git_glob]\<rparr>)) zero_config) =
   zero_InspectorsConfig\<lparr>cfg_Git := [git_glob]\<rparr>"
  using override_replaces_per_inspector [of zero_config "no_override\<lparr>ov_Git := Some [git_glob]\<rparr>"]
  by (simp add: zero_config_def zero_InspectorsConfig_def no_override_def)

text \<open>
  A configuration payload is validated before anything changes: when it does not decode, or
  when only validation was asked for, neither the running configuration nor a file changes, and
  the error of the decoder is returned.
\<close>

theorem update_config_validates_first:
  "UpdateConfig os yc ''acl'' True payload dir st fs =
     ((case dec_HTTPProxyRules yc payload of Inl e \<Rightarrow> Some e | Inr _ \<Rightarrow> None), st, fs) \<and>
   UpdateConfig os yc ''inspectors'' True payload dir st fs =
     ((case dec_InspectorsConfig yc payload of Inl e \<Rightarrow> Some e | Inr _ \<Rightarrow> None), st, fs) \<and>
   (\<forall>e. dec_HTTPProxyRules yc payload = Inl e \<longrightarrow>
      UpdateConfig os yc ''acl'' dry payload dir st fs = (Some e, st, fs)) \<and>
   (\<forall>e. dec_InspectorsConfig yc payload = Inl e \<longrightarrow>
      UpdateConfig os yc ''inspectors'' dry payload dir st fs = (Some e, st, fs))"
  by (auto simp: UpdateConfig_def split: sum.splits)

definition strict_yaml :: yaml_codec where
  "strict_yaml = \<lparr>dec_HTTPProxyRules = (\<lambda>d. if d = ''policy: deny'' then Inr \<lparr>hp_Policy = Deny, hp_Rules = []\<rparr> else Inl (Errorf ''yaml'')),
     dec_InspectorsConfig = (\<lambda>d. Inl (Errorf ''yaml'')), dec_OverrideInspectorsConfig = (\<lambda>d. Inl (Errorf ''yaml''))\<rparr>"

definition etc_fs :: filesys where
  "etc_fs = \<lparr>fs_files = [(''/etc/fetch/acl.yaml'', ''policy: allow'')], fs_dirs = [''/etc'', ''/etc/fetch'']\<rparr>"

theorem update_config_validates_first_witness:
  "UpdateConfig no_faults strict_yaml ''acl'' False ''?'' ''/etc/fetch'' zero_config etc_fs = (Some (Errorf ''yaml''), zero_config, etc_fs)"
  using update_config_validates_first [of no_faults strict_yaml "''?''" "''/etc/fetch''" zero_config etc_fs False]
  by (simp add: strict_yaml_def)

text \<open>
  A write error of the new configuration file is not reported: when the temporary file cannot
  be written, the update answers success, the running configuration is replaced, and the
  configuration file on disk keeps its old content.
\<close>

theorem update_config_hides_write_error:
  assumes dec: "dec_HTTPProxyRules yc payload = Inr cfg"
    and mk: "os_MkdirAll os dir fs = (None, fs1)"
    and wr: "os_WriteFile os (filepath_Join [dir, aclConfigFile] @ ''.new'') payload fs1 = (Some e, fs2)"
  shows "UpdateConfig os yc ''acl'' False payload dir st fs = (None, SetHTTPProxyConfig cfg st, fs2) \<and>
         map_get (fs_files fs2) (filepath_Join [dir, aclConfigFile]) = map_get (fs_files fs) (filepath_Join [dir, aclConfigFile])"
proof -
  have "fs_files fs1 = fs_files fs" using os_MkdirAll_ok [OF mk] by simp
  moreover have "map_get (fs_files fs2) p = map_get (fs_files fs1) p"
    if "p \<noteq> filepath_Join [dir, aclConfigFile] @ ''.new''" for p
    using wr that by (auto simp: os_WriteFile_def split: option.splits prod.splits)
  ultimately show ?thesis
    using assms by (simp add: UpdateConfig_def updateConfigFile_def Let_def)
qed

theorem update_config_hides_write_error_witness:
  "fst (UpdateConfig (no_faults\<lparr>fa_write := (\<lambda>p. Some (Errorf ''no space left on device'', None))\<rparr>)
          strict_yaml ''acl'' False ''policy: deny'' ''/etc/fetch'' zero_config etc_fs) = None \<and>
   hp_Policy (globalACLConfig (fst (snd (UpdateConfig (no_faults\<lparr>fa_write := (\<lambda>p. Some (Errorf ''no space left on device'', None))\<rparr>)
          strict_yaml ''acl'' False ''policy: deny'' ''/etc/fetch'' zero_config etc_fs)))) = Deny"
proof -
  let ?os = "no_faults\<lparr>fa_write := (\<lambda>p. Some (Errorf ''no space left on device'', None))\<rparr>"
  have "UpdateConfig ?os strict_yaml ''acl'' False ''policy: deny'' ''/etc/fetch'' zero_config etc_fs =
      (None, SetHTTPProxyConfig \<lparr>hp_Policy = Deny, hp_Rules = []\<rparr> zero_config, etc_fs)"
  proof (rule conjunct1 [OF update_config_hides_write_error])
    show "dec_HTTPProxyRules strict_yaml ''policy: deny'' = Inr \<lparr>hp_Policy = Deny, hp_Rules = []\<rparr>"
      by (simp add: strict_yaml_def)
    show "os_MkdirAll ?os ''/etc/fetch'' etc_fs = (None, etc_fs)" by code_simp
    show "os_WriteFile ?os (filepath_Join [''/etc/fetch'', aclConfigFile] @ ''.new'') ''policy: deny'' etc_fs =
        (Some (Errorf ''no space left on device''), etc_fs)" by code_simp
  qed
  then show ?thesis by (simp add: SetHTTPProxyConfig_def zero_config_def)
qed

end
