(* ===== verification/Acl.thy ===== *)
theory Acl
  imports Config
begin

text \<open>
  \<^verbatim>\<open>proxy/acl/acl.go\<close>: which addresses the proxy may return data from. The configuration is read
  through \<^verbatim>\<open>GetHTTPProxyConfig\<close>; a nil address is \<^const>\<open>None\<close>.
\<close>

fun dst_matches :: "IPNet list \<Rightarrow> IP \<Rightarrow> bool" where
  "dst_matches [] ip = False"
| "dst_matches (dst # rest) ip = (if IPNet_Contains dst ip then True else dst_matches rest ip)"

fun check_rules :: "Rule list \<Rightarrow> IP \<Rightarrow> bool option" where
  "check_rules [] ip = None"
| "check_rules (rule # rest) ip =
     (let allowed = (rule_Access rule = Allow)
      in if dst_matches (rule_Dst rule) ip then Some allowed else check_rules rest ip)"

definition Allowed :: "config_state \<Rightarrow> IP option \<Rightarrow> bool" where
  "Allowed st ip = (case ip of None \<Rightarrow> False
     | Some a \<Rightarrow> (let cfg = GetHTTPProxyConfig st in
         case check_rules (hp_Rules cfg) a of Some b \<Rightarrow> b | None \<Rightarrow> hp_Policy cfg = Allow))"

lemma dst_matches_iff: "dst_matches ds ip \<longleftrightarrow> (\<exists>d \<in> set ds. IPNet_Contains d ip)"
  by (induction ds) auto

lemma check_rules_append:
  "check_rules (xs @ ys) ip = (case check_rules xs ip of None \<Rightarrow> check_rules ys ip | Some b \<Rightarrow> Some b)"
  by (induction xs) (auto simp: Let_def)

lemma check_rules_None: "check_rules rs ip = None \<longleftrightarrow> (\<forall>r \<in> set rs. \<not> dst_matches (rule_Dst r) ip)"
  by (induction rs) (auto simp: Let_def)

lemma check_rules_first:
  assumes "\<forall>q \<in> set before. \<not> dst_matches (rule_Dst q) ip" and "dst_matches (rule_Dst r) ip"
  shows "check_rules (before @ r # after) ip = Some (rule_Access r = Allow)"
proof -
  have "check_rules before ip = None" using assms(1) by (simp add: check_rules_None)
  with assms(2) show ?thesis by (simp add: check_rules_append)
qed

lemma check_rules_Some:
  "check_rules rs ip = Some b \<longleftrightarrow>
     (\<exists>before r after. rs = before @ r # after \<and> (\<forall>q \<in> set before. \<not> dst_matches (rule_Dst q) ip) \<and>
        dst_matches (rule_Dst r) ip \<and> b = (rule_Access r = Allow))" (is "_ \<longleftrightarrow> ?first")
proof
  assume b: "check_rules rs ip = Some b"
  then have "\<not> (\<forall>r \<in> set rs. \<not> dst_matches (rule_Dst r) ip)"
    unfolding check_rules_None [symmetric] by simp
  then have "\<exists>r \<in> set rs. dst_matches (rule_Dst r) ip" by blast
  then obtain before r after where f: "rs = before @ r # after" "dst_matches (rule_Dst r) ip"
    "\<forall>q \<in> set before. \<not> dst_matches (rule_Dst q) ip"
    using split_list_first_prop [of rs "\<lambda>r. dst_matches (rule_Dst r) ip"] by blast
  with b check_rules_first [OF f(3,2), of after] have "b = (rule_Access r = Allow)" by simp
  with f show ?first by blast
next
  assume ?first
  then show "check_rules rs ip = Some b" by (elim exE conjE) (simp only: check_rules_first)
qed

text \<open>
  C15. The access rules are first-match: an address is allowed exactly when the first rule with a
  network that contains it allows, or, if there is no such rule, when the policy allows. A nil
  address is never allowed.
\<close>

theorem acl_first_match:
  "\<not> Allowed st None \<and>
   (Allowed st (Some ip) \<longleftrightarrow>
      (\<exists>before r after. hp_Rules (GetHTTPProxyConfig st) = before @ r # after \<and>
         list_all (\<lambda>q. list_all (\<lambda>d. \<not> IPNet_Contains d ip) (rule_Dst q)) before \<and>
         list_ex (\<lambda>d. IPNet_Contains d ip) (rule_Dst r) \<and> rule_Access r = Allow) \<or>
      (list_all (\<lambda>q. list_all (\<lambda>d. \<not> IPNet_Contains d ip) (rule_Dst q)) (hp_Rules (GetHTTPProxyConfig st)) \<and>
         hp_Policy (GetHTTPProxyConfig st) = Allow))"
proof -
  have hit: "list_ex (\<lambda>d. IPNet_Contains d ip) (rule_Dst r) \<longleftrightarrow> dst_matches (rule_Dst r) ip" for r
    by (simp add: dst_matches_iff list_ex_iff)
  have miss: "list_all (\<lambda>q. list_all (\<lambda>d. \<not> IPNet_Contains d ip) (rule_Dst q)) rs \<longleftrightarrow>
      (\<forall>q \<in> set rs. \<not> dst_matches (rule_Dst q) ip)" for rs
    by (simp add: dst_matches_iff list_all_iff)
  have "Allowed st (Some ip) \<longleftrightarrow> check_rules (hp_Rules (GetHTTPProxyConfig st)) ip = Some True \<or>
      (check_rules (hp_Rules (GetHTTPProxyConfig st)) ip = None \<and> hp_Policy (GetHTTPProxyConfig st) = Allow)"
    by (auto simp: Allowed_def Let_def split: option.splits)
  then show ?thesis
    unfolding hit miss check_rules_None check_rules_Some by (simp add: Allowed_def)
qed

text \<open>
  A rule whose destination was read from a dotted IPv4 address and a prefix length applies
  to exactly the addresses that share the prefix: with such a rule alone, and the opposite
  policy, access follows the leading bits of the address.
\<close>

theorem acl_ipv4_prefix_rule:
  assumes parsed: "IPNet_UnmarshalYAML (Inr text) = Inr net"
    and spelled: "ensure_cidr text = addr @ ''/'' @ len" "CHR ''/'' \<notin> set addr"
    and addr: "parse_addr addr = Some a" "length a = 4" and n: "dec_value 0 len = Some n"
    and ip: "length ip = 4"
  shows "Allowed (SetHTTPProxyConfig \<lparr>hp_Policy = Deny, hp_Rules = [\<lparr>rule_Dst = [net], rule_Access = Allow\<rparr>]\<rparr> st) (Some ip)
           \<longleftrightarrow> agree n a ip"
proof -
  have cut: "strings_Cut (ensure_cidr text) CHR ''/'' = Some (addr, len)"
    using spelled by (simp add: strings_Cut_append)
  have "n \<le> 32 \<and> net = \<lparr>net_IP = IP_Mask a (cidr_mask n 4), net_Mask = cidr_mask n 4\<rparr>"
    using parsed cut addr n
    by (auto simp: IPNet_UnmarshalYAML_def ParseCIDR_def split: if_splits)
  then have "IPNet_Contains net ip \<longleftrightarrow> agree n a ip"
    using contains_prefix4 [OF ip addr(2)] by auto
  then show ?thesis
    by (simp add: Allowed_def GetHTTPProxyConfig_def SetHTTPProxyConfig_def Let_def)
qed

definition net_10_8 :: IPNet where
  "net_10_8 = \<lparr>net_IP = [10, 0, 0, 0], net_Mask = [255, 0, 0, 0]\<rparr>"

theorem acl_ipv4_prefix_rule_witness:
  "Allowed (SetHTTPProxyConfig \<lparr>hp_Policy = Deny, hp_Rules = [\<lparr>rule_Dst = [net_10_8], rule_Access = Allow\<rparr>]\<rparr> zero_config)
     (Some [10, 1, 2, 3]) \<longleftrightarrow> agree 8 [10, 2, 0, 0] [10, 1, 2, 3]"
proof (rule acl_ipv4_prefix_rule [of "''10.2.0.0/8''" _ "''10.2.0.0''" "''8''"])
  show "IPNet_UnmarshalYAML (Inr ''10.2.0.0/8'') = Inr net_10_8" by code_simp
  show "ensure_cidr ''10.2.0.0/8'' = ''10.2.0.0'' @ ''/'' @ ''8''" by code_simp
  show "CHR ''/'' \<notin> set ''10.2.0.0''" by code_simp
  show "parse_addr ''10.2.0.0'' = Some [10, 2, 0, 0]" by code_simp
  show "dec_value 0 ''8'' = Some 8" by code_simp
qed simp_all

end
