(* ===== verification/Base64.thy ===== *)
theory Base64
  imports Fetch_Prelude
begin

text \<open>
  \<^verbatim>\<open>base64.StdEncoding\<close>: the standard alphabet with padding. Encoding takes three bytes at a time;
  decoding drops carriage returns and line feeds, takes four characters at a time, and accepts
  padding in the last group only.
\<close>

definition b64_digit :: "nat \<Rightarrow> char" where
  "b64_digit d = (if d < 26 then char_of (d + 65) else if d < 52 then char_of (d + 71)
     else if d < 62 then char_of (d - 4) else if d = 62 then CHR ''+'' else CHR ''/'')"

definition b64_value :: "char \<Rightarrow> nat option" where
  "b64_value c = (let n = of_char c :: nat in
     if 65 \<le> n \<and> n \<le> 90 then Some (n - 65)
     else if 97 \<le> n \<and> n \<le> 122 then Some (n - 71)
     else if 48 \<le> n \<and> n \<le> 57 then Some (n + 4)
     else if n = 43 then Some 62
     else if n = 47 then Some 63
     else None)"

fun base64_EncodeToString :: "string \<Rightarrow> string" where
  "base64_EncodeToString [] = []"
| "base64_EncodeToString [a] =
     [b64_digit (of_char a div 4), b64_digit (of_char a mod 4 * 16), CHR ''='', CHR ''='']"
| "base64_EncodeToString [a, b] =
     [b64_digit (of_char a div 4), b64_digit (of_char a mod 4 * 16 + of_char b div 16),
      b64_digit (of_char b mod 16 * 4), CHR ''='']"
| "base64_EncodeToString (a # b # c # rest) =
     [b64_digit (of_char a div 4), b64_digit (of_char a mod 4 * 16 + of_char b div 16),
      b64_digit (of_char b mod 16 * 4 + of_char c div 64), b64_digit (of_char c mod 64)]
     @ base64_EncodeToString rest"

definition base64_CorruptInputError :: go_error where
  "base64_CorruptInputError = Errorf ''illegal base64 data''"

fun b64_groups :: "string \<Rightarrow> string option" where
  "b64_groups [] = Some []"
| "b64_groups (w # x # y # z # rest) =
     (case (b64_value w, b64_value x) of
        (Some i, Some j) \<Rightarrow>
          (if y = CHR ''='' then
             (if z = CHR ''='' \<and> rest = [] then Some [char_of (i * 4 + j div 16)] else None)
           else (case b64_value y of None \<Rightarrow> None
             | Some k \<Rightarrow>
               (if z = CHR ''='' then
                  (if rest = [] then Some [char_of (i * 4 + j div 16), char_of (j mod 16 * 16 + k div 4)] else None)
                else (case b64_value z of None \<Rightarrow> None
                  | Some l \<Rightarrow> (case b64_groups rest of None \<Rightarrow> None
                     | Some out \<Rightarrow> Some ([char_of (i * 4 + j div 16), char_of (j mod 16 * 16 + k div 4),
                                         char_of (k mod 4 * 64 + l)] @ out))))))
      | _ \<Rightarrow> None)"
| "b64_groups _ = None"

definition base64_DecodeString :: "string \<Rightarrow> string result" where
  "base64_DecodeString s =
     (case b64_groups (filter (\<lambda>c. c \<noteq> CHR 0x0A \<and> c \<noteq> CHR 0x0D) s) of
        None \<Rightarrow> Inl base64_CorruptInputError | Some d \<Rightarrow> Inr d)"

lemma b64_value_digit [simp]: "d < 64 \<Longrightarrow> b64_value (b64_digit d) = Some d"
  by (auto simp: b64_value_def b64_digit_def Let_def)

lemma b64_digit_neq [simp]:
  "d < 64 \<Longrightarrow> b64_digit d \<noteq> CHR ''=''"
  "d < 64 \<Longrightarrow> b64_digit d \<noteq> CHR 0x0A"
  "d < 64 \<Longrightarrow> b64_digit d \<noteq> CHR 0x0D"
  using b64_value_digit [of d] by (auto simp: b64_value_def simp del: b64_value_digit)

text \<open>The four six-bit digits of three bytes, and the bytes back from them.\<close>

lemma byte_div [simp]:
  "(of_char b :: nat) div 4 < 64" "(of_char b :: nat) div 16 < 16" "(of_char b :: nat) div 64 < 4"
  by (simp_all add: less_mult_imp_div_less)

lemma b64_bounds [simp]:
  "(of_char a :: nat) mod 4 * 16 < 64"
  "(of_char a :: nat) mod 4 * 16 + of_char b div 16 < 64"
  "(of_char b :: nat) mod 16 * 4 < 64"
  "(of_char b :: nat) mod 16 * 4 + of_char c div 64 < 64"
  "(of_char c :: nat) mod 64 < 64"
proof -
  have m: "(of_char a :: nat) mod 4 < 4" "(of_char b :: nat) mod 16 < 16" by simp_all
  show "(of_char a :: nat) mod 4 * 16 < 64" "(of_char b :: nat) mod 16 * 4 < 64"
    "(of_char c :: nat) mod 64 < 64"
    using m by simp_all
  show "(of_char a :: nat) mod 4 * 16 + of_char b div 16 < 64"
    using m(1) byte_div(2) [of b] by linarith
  show "(of_char b :: nat) mod 16 * 4 + of_char c div 64 < 64"
    using m(2) byte_div(3) [of c] by linarith
qed

lemma base64_no_newline:
  "filter (\<lambda>c. c \<noteq> CHR 0x0A \<and> c \<noteq> CHR 0x0D) (base64_EncodeToString s) = base64_EncodeToString s"
  by (induction s rule: base64_EncodeToString.induct) simp_all

lemma b64_groups_encode: "b64_groups (base64_EncodeToString s) = Some s"
  by (induction s rule: base64_EncodeToString.induct) simp_all

text \<open>Decoding is a left inverse of encoding.\<close>

lemma base64_round_trip: "base64_DecodeString (base64_EncodeToString s) = Inr s"
  by (simp add: base64_DecodeString_def base64_no_newline b64_groups_encode)

lemma base64_inj: "base64_EncodeToString s = base64_EncodeToString t \<longleftrightarrow> s = t"
  by (metis base64_round_trip sum.inject(2))

end
