(* ===== verification/Proxy_Auth.thy ===== *)
theory Proxy_Auth
  imports Base64 Http
begin

text \<open>
  \<^verbatim>\<open>proxy/auth/basic.go\<close>: proxy authentication. The function that checks a user and a password is
  the argument \<^theory_text>\<open>f\<close>; it gets the request by a pointer and may change it, so it returns the
  request too. Of goproxy's context, a third-party type, the code uses the field \<^verbatim>\<open>UserData\<close>
  (set to the session ID, \<^const>\<open>None\<close> before) and the response of a refused \<^verbatim>\<open>CONNECT\<close>.
\<close>

record ProxyCtx =
  ctx_UserData :: "string option"
  ctx_Resp :: "http_response option"

datatype ConnectAction = RejectConnect

definition unauthorizedMsg :: string where
  "unauthorizedMsg = ''407 Proxy Authentication Required''"

definition BasicUnauthorized :: "http_request \<Rightarrow> string \<Rightarrow> http_response" where
  "BasicUnauthorized req realm =
     \<lparr>resp_Status = [], resp_StatusCode = 407,
      resp_Header = [(''Proxy-Authenticate'', [''Basic realm='' @ realm]), (''Proxy-Connection'', [''close''])],
      resp_Body = Some \<lparr>br_data = unauthorizedMsg, br_err = None\<rparr>,
      resp_ContentLength = int (length unauthorizedMsg), resp_TransferEncoding = [], resp_Trailer = [],
      resp_Request = req\<rparr>"

definition proxyAuthorizationHeader :: string where
  "proxyAuthorizationHeader = ''Proxy-Authorization''"

text \<open>
  \<^verbatim>\<open>auth\<close> changes the request (the header is deleted) and, when a context is given, records the
  user in it before the password is checked.
\<close>

definition auth ::
  "(http_request \<Rightarrow> string \<Rightarrow> string \<Rightarrow> bool \<times> http_request) \<Rightarrow> http_request \<Rightarrow> ProxyCtx option
     \<Rightarrow> bool \<times> http_request \<times> ProxyCtx option" where
  "auth f req ctx =
     (let authheader = strings_SplitN2 (header_Get (req_Header req) proxyAuthorizationHeader) CHR '' '';
          req' = req\<lparr>req_Header := header_Del (req_Header req) proxyAuthorizationHeader\<rparr>
      in case authheader of
           [scheme, credentials] \<Rightarrow>
             (if scheme \<noteq> ''Basic'' then (False, req', ctx)
              else (case base64_DecodeString credentials of
                      Inl _ \<Rightarrow> (False, req', ctx)
                    | Inr userpassraw \<Rightarrow>
                      (case strings_SplitN2 userpassraw CHR '':'' of
                         [user, passwd] \<Rightarrow>
                           (case f req' user passwd of (ok, req'') \<Rightarrow>
                              (ok, req'', map_option (\<lambda>c. c\<lparr>ctx_UserData := Some user\<rparr>) ctx))
                       | _ \<Rightarrow> (False, req', ctx))))
         | _ \<Rightarrow> (False, req', ctx))"

definition Basic ::
  "string \<Rightarrow> (http_request \<Rightarrow> string \<Rightarrow> string \<Rightarrow> bool \<times> http_request) \<Rightarrow> http_request \<Rightarrow> ProxyCtx
     \<Rightarrow> http_request option \<times> http_response option" where
  "Basic realm f req ctx =
     (if ctx_UserData ctx = None
      then (case auth f req None of (ok, req', _) \<Rightarrow>
              if \<not> ok then (None, Some (BasicUnauthorized req' realm)) else (Some req', None))
      else (Some req, None))"

definition BasicConnect ::
  "string \<Rightarrow> (http_request \<Rightarrow> string \<Rightarrow> string \<Rightarrow> bool \<times> http_request) \<Rightarrow> string \<Rightarrow> http_request \<Rightarrow> ProxyCtx
     \<Rightarrow> ConnectAction option \<times> string \<times> http_request \<times> ProxyCtx" where
  "BasicConnect realm f host req ctx =
     (if ctx_UserData ctx = None
      then (case auth f req (Some ctx) of (ok, req', ctx') \<Rightarrow>
              let c = (case ctx' of Some c \<Rightarrow> c | None \<Rightarrow> ctx)
              in if \<not> ok then (Some RejectConnect, host, req', c\<lparr>ctx_Resp := Some (BasicUnauthorized req' realm)\<rparr>)
                 else (None, host, req', c))
      else (None, host, req, ctx))"

text \<open>The header a client sends for a user and a password.\<close>

definition basic_header :: "string \<Rightarrow> string \<Rightarrow> string" where
  "basic_header user passwd = ''Basic '' @ base64_EncodeToString (user @ '':'' @ passwd)"

text \<open>The request as \<^verbatim>\<open>auth\<close> hands it on: without the authorization header.\<close>

definition stripped :: "http_request \<Rightarrow> http_request" where
  "stripped req = req\<lparr>req_Header := header_Del (req_Header req) proxyAuthorizationHeader\<rparr>"

text \<open>The credentials of a request, when its header has any.\<close>

definition credentials :: "http_request \<Rightarrow> (string \<times> string) option" where
  "credentials req =
     (case strings_SplitN2 (header_Get (req_Header req) proxyAuthorizationHeader) CHR '' '' of
        [scheme, c] \<Rightarrow>
          if scheme \<noteq> ''Basic'' then None
          else (case base64_DecodeString c of Inl _ \<Rightarrow> None
            | Inr raw \<Rightarrow> (case strings_SplitN2 raw CHR '':'' of [user, passwd] \<Rightarrow> Some (user, passwd) | _ \<Rightarrow> None))
      | _ \<Rightarrow> None)"

lemma auth_credentials:
  "auth f req ctx =
     (case credentials req of
        None \<Rightarrow> (False, stripped req, ctx)
      | Some (user, passwd) \<Rightarrow>
          (case f (stripped req) user passwd of (ok, req') \<Rightarrow>
             (ok, req', map_option (\<lambda>c. c\<lparr>ctx_UserData := Some user\<rparr>) ctx)))"
  by (simp add: auth_def credentials_def stripped_def Let_def split: list.splits sum.splits)

lemma credentials_iff:
  "credentials req = Some (user, passwd) \<longleftrightarrow>
     (\<exists>c. header_Get (req_Header req) proxyAuthorizationHeader = ''Basic '' @ c \<and>
        base64_DecodeString c = Inr (user @ '':'' @ passwd) \<and> CHR '':'' \<notin> set user)" (is "?l = ?r")
proof
  let ?h = "header_Get (req_Header req) proxyAuthorizationHeader"
  assume ?l
  then obtain c raw where s: "strings_SplitN2 ?h CHR '' '' = [''Basic'', c]"
    and d: "base64_DecodeString c = Inr raw" and u: "strings_SplitN2 raw CHR '':'' = [user, passwd]"
    by (auto simp: credentials_def split: list.splits sum.splits if_splits)
  from s u have "?h = ''Basic '' @ c" and "raw = user @ '':'' @ passwd \<and> CHR '':'' \<notin> set user"
    by (auto simp: strings_SplitN2_length2)
  with d show ?r by blast
next
  assume ?r
  then obtain c where h: "header_Get (req_Header req) proxyAuthorizationHeader = ''Basic'' @ CHR '' '' # c"
    and d: "base64_DecodeString c = Inr (user @ CHR '':'' # passwd)" and u: "CHR '':'' \<notin> set user"
    by auto
  have "strings_SplitN2 (''Basic'' @ CHR '' '' # c) CHR '' '' = [''Basic'', c]"
    by (rule strings_SplitN2_append) simp
  with h d u show ?l by (simp add: credentials_def strings_SplitN2_append)
qed

lemma credentials_basic_header:
  assumes "header_Get (req_Header req) proxyAuthorizationHeader = basic_header user passwd" and "CHR '':'' \<notin> set user"
  shows "credentials req = Some (user, passwd)"
  using assms by (auto simp: credentials_iff basic_header_def base64_round_trip)

text \<open>
  A request that has not been authenticated yet is let through exactly when its
  \<^verbatim>\<open>Proxy-Authorization\<close> header is \<^verbatim>\<open>Basic\<close> credentials that decode to a user and a password
  (the user ends at the first colon) which the check accepts; the check sees the request without
  that header, and what it returns is forwarded. Any other request is answered with status 407.
\<close>

theorem proxy_basic_auth:
  "case Basic realm f req \<lparr>ctx_UserData = None, ctx_Resp = r\<rparr> of
     (Some req', None) \<Rightarrow>
        (\<exists>c user passwd. header_Get (req_Header req) proxyAuthorizationHeader = ''Basic '' @ c \<and>
           base64_DecodeString c = Inr (user @ '':'' @ passwd) \<and> CHR '':'' \<notin> set user \<and>
           f (req\<lparr>req_Header := header_Del (req_Header req) proxyAuthorizationHeader\<rparr>) user passwd = (True, req'))
   | (None, Some resp) \<Rightarrow> resp_StatusCode resp = StatusProxyAuthRequired \<and>
        (\<nexists>c user passwd. header_Get (req_Header req) proxyAuthorizationHeader = ''Basic '' @ c \<and>
           base64_DecodeString c = Inr (user @ '':'' @ passwd) \<and> CHR '':'' \<notin> set user \<and>
           fst (f (req\<lparr>req_Header := header_Del (req_Header req) proxyAuthorizationHeader\<rparr>) user passwd))
   | _ \<Rightarrow> False"
proof (cases "credentials req")
  case None
  then have "\<nexists>c user passwd. header_Get (req_Header req) proxyAuthorizationHeader = ''Basic '' @ c \<and>
      base64_DecodeString c = Inr (user @ '':'' @ passwd) \<and> CHR '':'' \<notin> set user \<and>
      fst (f (stripped req) user passwd)"
    using credentials_iff [of req] by simp
  with None show ?thesis by (simp add: Basic_def auth_credentials BasicUnauthorized_def stripped_def)
next
  case (Some up)
  obtain user passwd where up: "up = (user, passwd)" by force
  obtain ok req' where f: "f (stripped req) user passwd = (ok, req')" by force
  have u: "user' = user \<and> passwd' = passwd"
    if "header_Get (req_Header req) proxyAuthorizationHeader = ''Basic '' @ c"
      "base64_DecodeString c = Inr (user' @ '':'' @ passwd')" "CHR '':'' \<notin> set user'" for c user' passwd'
    using that Some up credentials_iff [of req user' passwd'] by auto
  obtain c where c: "header_Get (req_Header req) proxyAuthorizationHeader = ''Basic '' @ c"
    "base64_DecodeString c = Inr (user @ '':'' @ passwd)" "CHR '':'' \<notin> set user"
    using Some up credentials_iff [of req user passwd] by auto
  show ?thesis
  proof (cases ok)
    case True
    then show ?thesis using Some up f c by (auto simp: Basic_def auth_credentials stripped_def)
  next
    case False
    then have "\<not> fst (f (stripped req) user passwd)" using f by simp
    with u have "\<nexists>c user passwd. header_Get (req_Header req) proxyAuthorizationHeader = ''Basic '' @ c \<and>
           base64_DecodeString c = Inr (user @ '':'' @ passwd) \<and> CHR '':'' \<notin> set user \<and>
           fst (f (stripped req) user passwd)" by blast
    then show ?thesis using False Some up f by (simp add: Basic_def auth_credentials BasicUnauthorized_def stripped_def)
  qed
qed

text \<open>
  A client that sends the usual header for a user and a password is authenticated as that
  user with that password, whatever bytes the password holds, colons included, on a plain
  request and on \<^verbatim>\<open>CONNECT\<close>; an accepted \<^verbatim>\<open>CONNECT\<close> records the user as the session.
\<close>

theorem basic_header_round_trip:
  assumes h: "header_Get (req_Header req) proxyAuthorizationHeader = basic_header user passwd"
    and u: "CHR '':'' \<notin> set user" and c: "ctx_UserData ctx = None"
    and f: "f (req\<lparr>req_Header := header_Del (req_Header req) proxyAuthorizationHeader\<rparr>) user passwd = (ok, req')"
  shows "(fst (Basic realm f req ctx) = (if ok then Some req' else None)) \<and>
         BasicConnect realm f host req ctx =
           (if ok then (None, host, req', ctx\<lparr>ctx_UserData := Some user\<rparr>)
            else (Some RejectConnect, host, req',
                  ctx\<lparr>ctx_UserData := Some user, ctx_Resp := Some (BasicUnauthorized req' realm)\<rparr>))"
proof -
  have "auth f req x = (ok, req', map_option (\<lambda>c. c\<lparr>ctx_UserData := Some user\<rparr>) x)" for x
    using f by (simp add: auth_credentials credentials_basic_header [OF h u] stripped_def)
  then show ?thesis using c by (simp add: Basic_def BasicConnect_def)
qed

definition sample_http_request :: http_request where
  "sample_http_request = \<lparr>req_Method = ''GET'',
     req_URL = \<lparr>u_Scheme = ''http'', u_Host = ''archive.ubuntu.com'', u_Path = ''/ubuntu'', u_RawQuery = []\<rparr>,
     req_Header = [(''Proxy-Authorization'', [basic_header ''d7e0'' ''a:b''])], req_Body = None,
     req_ContentLength = 0, req_TransferEncoding = [], req_RemoteAddr = ''10.0.0.2:4711''\<rparr>"

theorem basic_header_round_trip_witness:
  "fst (Basic ''fetch-service'' (\<lambda>r user passwd. (user = ''d7e0'' \<and> passwd = ''a:b'', r)) sample_http_request
          \<lparr>ctx_UserData = None, ctx_Resp = None\<rparr>) = Some (sample_http_request\<lparr>req_Header := []\<rparr>)"
proof -
  have "header_Get (req_Header sample_http_request) proxyAuthorizationHeader = basic_header ''d7e0'' ''a:b''"
    by (simp add: sample_http_request_def header_Get_def proxyAuthorizationHeader_def)
  moreover have "sample_http_request\<lparr>req_Header := header_Del (req_Header sample_http_request) proxyAuthorizationHeader\<rparr> =
      sample_http_request\<lparr>req_Header := []\<rparr>"
    by (simp add: sample_http_request_def header_Del_def proxyAuthorizationHeader_def)
  ultimately show ?thesis
    using basic_header_round_trip [of sample_http_request "''d7e0''" "''a:b''" "\<lparr>ctx_UserData = None, ctx_Resp = None\<rparr>"
        "\<lambda>r user passwd. (user = ''d7e0'' \<and> passwd = ''a:b'', r)" True "sample_http_request\<lparr>req_Header := []\<rparr>" "''fetch-service''"]
    by simp
qed

end
