(* ===== verification/Secrets.thy ===== *)
theory Secrets
  imports Config Base64 Artifact
begin

text \<open>
  \<^verbatim>\<open>secrets/secrets.go\<close>: the credentials a session injects into the requests of its client. The
  bytes that \<^verbatim>\<open>encoding/json\<close> writes and reads are arguments (\<^theory_text>\<open>json_codec\<close>): a
  \<^verbatim>\<open>map[string]json.RawMessage\<close> is a map from names to the raw text of their values.
\<close>

record Secret =
  sec_Type :: string
  sec_URL :: Glob
  sec_BasicCreds :: string
  sec_MacaroonCreds :: string
  sec_KeystoneV3Creds :: string

definition BasicAuthType :: string where "BasicAuthType = ''basic-auth''"

definition MacaroonType :: string where "MacaroonType = ''macaroon''"

definition KeystoneV3Type :: string where "KeystoneV3Type = ''keystone-v3''"

definition getSecretTypes :: "string list" where
  "getSecretTypes = [BasicAuthType, MacaroonType, KeystoneV3Type]"

definition ErrMissingSecretType :: go_error where
  "ErrMissingSecretType = ErrVar ''secrets.ErrMissingSecretType'' ''Invalid secret: missing type''"

definition ErrInvalidSecretType :: go_error where
  "ErrInvalidSecretType = ErrVar ''secrets.ErrInvalidSecretType'' ''Invalid secret: invalid type''"

definition ErrMissingSecretURL :: go_error where
  "ErrMissingSecretURL = ErrVar ''secrets.ErrMissingSecretURL'' ''Invalid secret: missing url''"

definition ErrMissingBasicCreds :: go_error where
  "ErrMissingBasicCreds = ErrVar ''secrets.ErrMissingBasicCreds''
     (''Invalid secret: missing credentials for '' @ [CHR 0x27] @ ''basic-auth'' @ [CHR 0x27])"

definition ErrMissingMacaroonCreds :: go_error where
  "ErrMissingMacaroonCreds = ErrVar ''secrets.ErrMissingMacaroonCreds''
     (''Invalid secret: missing credentials for '' @ [CHR 0x27] @ ''macaroon'' @ [CHR 0x27])"

definition ErrMissingKeystoneV3Creds :: go_error where
  "ErrMissingKeystoneV3Creds = ErrVar ''secrets.ErrMissingKeystoneV3Creds''
     (''Invalid secret: missing credentials for '' @ [CHR 0x27] @ ''keystone-v3'' @ [CHR 0x27])"

definition validateCredentials :: "Secret \<Rightarrow> go_error option" where
  "validateCredentials sec =
     (if sec_Type sec = BasicAuthType then (if sec_BasicCreds sec = [] then Some ErrMissingBasicCreds else None)
      else if sec_Type sec = MacaroonType then (if sec_MacaroonCreds sec = [] then Some ErrMissingMacaroonCreds else None)
      else if sec_Type sec = KeystoneV3Type then (if sec_KeystoneV3Creds sec = [] then Some ErrMissingKeystoneV3Creds else None)
      else None)"

fun ValidateSecrets :: "Secret list \<Rightarrow> go_error option" where
  "ValidateSecrets [] = None"
| "ValidateSecrets (s # rest) =
     (if sec_Type s = [] then Some ErrMissingSecretType
      else if sec_Type s \<notin> set getSecretTypes then Some ErrInvalidSecretType
      else if G (sec_URL s) = None then Some ErrMissingSecretURL
      else (case validateCredentials s of Some err \<Rightarrow> Some err | None \<Rightarrow> ValidateSecrets rest))"

text \<open>What a session may rely on: every secret has a known type, a pattern and credentials.\<close>

definition usable :: "Secret \<Rightarrow> bool" where
  "usable s \<longleftrightarrow> G (sec_URL s) \<noteq> None \<and>
     (sec_Type s = BasicAuthType \<and> sec_BasicCreds s \<noteq> [] \<or>
      sec_Type s = MacaroonType \<and> sec_MacaroonCreds s \<noteq> [] \<or>
      sec_Type s = KeystoneV3Type \<and> sec_KeystoneV3Creds s \<noteq> [])"

lemmas secret_types = BasicAuthType_def MacaroonType_def KeystoneV3Type_def

lemma ValidateSecrets_None: "ValidateSecrets ss = None \<longleftrightarrow> (\<forall>s \<in> set ss. usable s)"
proof (induction ss)
  case (Cons s ss)
  have "(sec_Type s \<noteq> [] \<and> sec_Type s \<in> set getSecretTypes \<and> G (sec_URL s) \<noteq> None \<and> validateCredentials s = None) = usable s"
    by (auto simp: usable_def validateCredentials_def getSecretTypes_def secret_types)
  with Cons show ?case by (auto split: option.splits)
qed simp


section \<open>Keystone requests\<close>

definition ErrKeystoneV3BodyTooLarge :: go_error where
  "ErrKeystoneV3BodyTooLarge =
     ErrVar ''secrets.ErrKeystoneV3BodyTooLarge'' ''keystone-v3 request body exceeds maximum size''"

definition maxKeystoneV3BodySize :: nat where
  "maxKeystoneV3BodySize = 2 ^ 20"

record User =
  us_Name :: string
  us_Password :: string
  us_Domain :: any

record Identity =
  id_Methods :: "string list"
  id_Password :: "User option option"
  id_ApplicationCredential :: "(string \<times> string) option"

record json_codec =
  unmarshal_object :: "string \<Rightarrow> (string, string) gomap result"
  unmarshal_Identity :: "string \<Rightarrow> Identity result"
  marshal_any :: "any \<Rightarrow> string result"
  marshal_object :: "(string, string) gomap \<Rightarrow> string result"

text \<open>
  \<^verbatim>\<open>if err != nil { return nil, fmt.Errorf("...: %w", err) }\<close>: wrap an error, and go on without one.
  The text of a wrapped error is always put after the message here; only \<^verbatim>\<open>errors.Is\<close> looks at it.
\<close>

definition wrap :: "string \<Rightarrow> 'a result \<Rightarrow> 'a result" where
  "wrap m r = (case r of Inl e \<Rightarrow> Inl (ErrWrap m e) | Inr x \<Rightarrow> Inr x)"

definition res_bind :: "'a result \<Rightarrow> ('a \<Rightarrow> 'b result) \<Rightarrow> 'b result" where
  "res_bind r f = (case r of Inl e \<Rightarrow> Inl e | Inr x \<Rightarrow> f x)"

lemma res_bind_simps [simp]: "res_bind (Inl e) f = Inl e" "res_bind (Inr x) f = f x"
  by (simp_all add: res_bind_def)

lemma res_bind_Inr: "res_bind r f = Inr y \<longleftrightarrow> (\<exists>x. r = Inr x \<and> f x = Inr y)"
  by (simp add: res_bind_def split: sum.split)

lemma wrap_Inr [simp]: "wrap m r = Inr x \<longleftrightarrow> r = Inr x"
  by (simp add: wrap_def split: sum.split)

definition getKeystoneV3IdentityDomain :: "json_codec \<Rightarrow> (string, string) gomap \<Rightarrow> any result" where
  "getKeystoneV3IdentityDomain jc auth =
     (case map_get auth ''identity'' of
        None \<Rightarrow> Inl (Errorf ''cannot find identity in keystone-v3 auth request'')
      | Some identityData \<Rightarrow>
        (case unmarshal_Identity jc identityData of
           Inl err \<Rightarrow> Inl (ErrWrap ''cannot unmarshal identity data'' err)
         | Inr identity \<Rightarrow>
           (case id_Password identity of
              None \<Rightarrow> Inl (Errorf ''cannot find password in keystone-v3 auth request'')
            | Some None \<Rightarrow> Inl (Errorf ''cannot find user in keystone-v3 auth request'')
            | Some (Some u) \<Rightarrow> Inr (us_Domain u))))"

definition newKeystoneV3Identity ::
  "json_codec \<Rightarrow> (string, string) gomap \<Rightarrow> string \<Rightarrow> string \<Rightarrow> any result" where
  "newKeystoneV3Identity jc auth uid secret =
     (case map_get auth ''identity'' of
        None \<Rightarrow> Inl (Errorf ''cannot find identity in keystone-v3 auth request'')
      | Some identityData \<Rightarrow>
        (case unmarshal_Identity jc identityData of
           Inl err \<Rightarrow> Inl (ErrWrap ''cannot unmarshal identity data'' err)
         | Inr identity \<Rightarrow>
           (case id_Methods identity of
              [m] \<Rightarrow>
                (if m = ''application_credential'' then
                   (case id_ApplicationCredential identity of
                      None \<Rightarrow> Inl (Errorf ''keystone-v3 identity method is application_credential but application_credential object is missing'')
                    | Some _ \<Rightarrow>
                      Inr (AnyMap [(''methods'', AnyStrings [''application_credential'']),
                                   (''application_credential'', AnyMap [(''id'', AnyString uid), (''secret'', AnyString secret)])]))
                 else if m = ''password'' then
                   (case id_Password identity of
                      Some (Some _) \<Rightarrow>
                        (case getKeystoneV3IdentityDomain jc auth of
                           Inl err \<Rightarrow> Inl (ErrWrap ''cannot read keystone-v3 identity domain'' err)
                         | Inr domain \<Rightarrow>
                           Inr (AnyMap [(''methods'', AnyStrings [''password'']),
                                        (''password'', AnyMap [(''user'', AnyMap [(''name'', AnyString uid),
                                           (''password'', AnyString secret), (''domain'', domain)])])]))
                    | _ \<Rightarrow> Inl (Errorf (''keystone-v3 identity method is '' @ [CHR 0x27] @ ''password'' @ [CHR 0x27] @ '' but password.user object is missing'')))
                 else Inl (Errorf (''unsupported keystone-v3 auth method: '' @ quoted m)))
            | _ \<Rightarrow> Inl (Errorf (''unsupported keystone-v3 auth methods ['' @ strings_Join (id_Methods identity) '' '' @
                     '']: exactly one method is supported'')))))"

text \<open>
  \<^verbatim>\<open>io.ReadAll(io.LimitReader(body, n))\<close>: the first n bytes, or the error of the reader when it
  comes before them.
\<close>

definition read_limited :: "body_reader \<Rightarrow> nat \<Rightarrow> string result" where
  "read_limited b n =
     (if n \<le> length (br_data b) then Inr (take n (br_data b))
      else (case br_err b of Some e \<Rightarrow> Inl e | None \<Rightarrow> Inr (br_data b)))"

text \<open>\<^verbatim>\<open>injectKeystoneV3Secret\<close>: \<^const>\<open>None\<close> is the nil body that leaves the request alone.\<close>

definition injectKeystoneV3Secret :: "json_codec \<Rightarrow> Secret \<Rightarrow> http_request \<Rightarrow> string option result" where
  "injectKeystoneV3Secret jc s req =
     (case req_Body req of None \<Rightarrow> Inr None
      | Some b \<Rightarrow>
        res_bind (wrap ''cannot read keystone-v3 request body'' (read_limited b (maxKeystoneV3BodySize + 1))) (\<lambda>raw.
        if maxKeystoneV3BodySize < length raw
        then Inl (ErrWrap (''got at least '' @ fmt_nat (length raw) @ '' bytes'') ErrKeystoneV3BodyTooLarge)
        else case strings_Cut (sec_KeystoneV3Creds s) CHR '':'' of
          None \<Rightarrow> Inl (Errorf ''invalid keystone-v3 credentials format'')
        | Some (uid, secret) \<Rightarrow>
          res_bind (wrap ''cannot decode keystone-v3 request body'' (unmarshal_object jc raw)) (\<lambda>body.
          case map_get body ''auth'' of
            None \<Rightarrow> Inl (Errorf ''no auth field in keystone-v3 request body'')
          | Some authData \<Rightarrow>
            res_bind (wrap ''cannot unmarshal auth data'' (unmarshal_object jc authData)) (\<lambda>auth.
            res_bind (wrap ''cannot build keystone-v3 identity'' (newKeystoneV3Identity jc auth uid secret)) (\<lambda>newIdentity.
            res_bind (wrap ''cannot marshal keystone-v3 identity'' (marshal_any jc newIdentity)) (\<lambda>identityBytes.
            res_bind (wrap ''cannot marshal keystone-v3 auth'' (marshal_object jc (map_set ''identity'' identityBytes auth))) (\<lambda>authBytes.
            res_bind (wrap ''cannot marshal keystone-v3 request body'' (marshal_object jc (map_set ''auth'' authBytes body))) (\<lambda>bodyBytes.
            Inr (Some bodyBytes)))))))))"

section \<open>Injection\<close>

definition injectSecret :: "json_codec \<Rightarrow> Secret \<Rightarrow> http_request \<Rightarrow> http_request result" where
  "injectSecret jc s req =
     (if sec_Type s = BasicAuthType then
        Inr (req\<lparr>req_Header := header_Set (req_Header req) ''Authorization'' (''Basic '' @ base64_EncodeToString (sec_BasicCreds s))\<rparr>)
      else if sec_Type s = MacaroonType then
        Inr (req\<lparr>req_Header := header_Set (req_Header req) ''Authorization'' (''macaroon '' @ sec_MacaroonCreds s)\<rparr>)
      else if sec_Type s = KeystoneV3Type then
        (case injectKeystoneV3Secret jc s req of
           Inl err \<Rightarrow> Inl err
         | Inr None \<Rightarrow> Inr req
         | Inr (Some newBody) \<Rightarrow>
             Inr (req\<lparr>req_Body := Some \<lparr>br_data = newBody, br_err = None\<rparr>, req_ContentLength := int (length newBody),
                      req_Header := header_Set (req_Header req) ''Content-Length'' (fmt_nat (length newBody)),
                      req_TransferEncoding := []\<rparr>))
      else Inr req)"

text \<open>Whether a secret was applied, and the request with it.\<close>

fun InjectSecrets :: "json_codec \<Rightarrow> Secret list \<Rightarrow> string \<Rightarrow> http_request \<Rightarrow> (bool \<times> http_request) result" where
  "InjectSecrets jc [] url req = Inr (False, req)"
| "InjectSecrets jc (s # secs) url req =
     (if Glob_Match (sec_URL s) url
      then (case injectSecret jc s req of Inl err \<Rightarrow> Inl err | Inr req' \<Rightarrow> Inr (True, req'))
      else InjectSecrets jc secs url req)"

end
