(* ===== verification/Secrets_Props.thy ===== *)
theory Secrets_Props
  imports Secrets
begin

text \<open>
  Properties of secret injection: the first matching secret is applied and no other, a keystone
  secret replaces the identity of the request and nothing else, and a keystone request that
  cannot be rewritten is refused.
\<close>

lemma InjectSecrets_none:
  "\<forall>s \<in> set secs. \<not> Glob_Match (sec_URL s) url \<Longrightarrow> InjectSecrets jc secs url req = Inr (False, req)"
  by (induction secs) auto

lemma InjectSecrets_first:
  assumes "\<forall>s \<in> set pre. \<not> Glob_Match (sec_URL s) url" and "Glob_Match (sec_URL s) url"
  shows "InjectSecrets jc (pre @ s # post) url req = map_sum (\<lambda>e. e) (Pair True) (injectSecret jc s req)"
  using assms by (induction pre) (auto split: sum.split)

text \<open>
  Exactly the first secret whose pattern matches the address is applied: without a match the
  request is not changed, and with one the result is that of this secret alone, whatever other
  secrets follow. A basic secret makes the request carry the standard header, which decodes to the
  credentials, and leaves the rest of the request alone.
\<close>

theorem first_matching_secret:
  "(list_all (\<lambda>s. \<not> Glob_Match (sec_URL s) url) secs \<longrightarrow> InjectSecrets jc secs url req = Inr (False, req)) \<and>
   (\<forall>pre s post. secs = pre @ s # post \<longrightarrow> list_all (\<lambda>s. \<not> Glob_Match (sec_URL s) url) pre \<longrightarrow> Glob_Match (sec_URL s) url \<longrightarrow>
      InjectSecrets jc secs url req = InjectSecrets jc [s] url req \<and>
      (sec_Type s = BasicAuthType \<longrightarrow>
         (\<exists>h. InjectSecrets jc secs url req = Inr (True, req\<lparr>req_Header := header_Set (req_Header req) ''Authorization'' (''Basic '' @ h)\<rparr>) \<and>
              base64_DecodeString h = Inr (sec_BasicCreds s))))"
proof (intro conjI allI impI)
  show "InjectSecrets jc secs url req = Inr (False, req)" if "list_all (\<lambda>s. \<not> Glob_Match (sec_URL s) url) secs"
    using that by (simp add: InjectSecrets_none list_all_iff)
next
  fix pre s post
  assume "secs = pre @ s # post" and "list_all (\<lambda>s. \<not> Glob_Match (sec_URL s) url) pre" and m: "Glob_Match (sec_URL s) url"
  then have i: "InjectSecrets jc secs url req = map_sum (\<lambda>e. e) (Pair True) (injectSecret jc s req)"
    by (simp add: InjectSecrets_first list_all_iff)
  then show "InjectSecrets jc secs url req = InjectSecrets jc [s] url req"
    using m by (simp split: sum.split)
  show "\<exists>h. InjectSecrets jc secs url req = Inr (True, req\<lparr>req_Header := header_Set (req_Header req) ''Authorization'' (''Basic '' @ h)\<rparr>) \<and>
      base64_DecodeString h = Inr (sec_BasicCreds s)" if "sec_Type s = BasicAuthType"
    using i that by (auto simp: injectSecret_def base64_round_trip)
qed

text \<open>The identity that replaces the one of the client: its method, and the injected credentials.\<close>

lemma newKeystoneV3Identity_cases:
  assumes "newKeystoneV3Identity jc auth uid secret = Inr i"
  obtains "i = AnyMap [(''methods'', AnyStrings [''application_credential'']),
      (''application_credential'', AnyMap [(''id'', AnyString uid), (''secret'', AnyString secret)])]"
  | domain where "i = AnyMap [(''methods'', AnyStrings [''password'']),
      (''password'', AnyMap [(''user'', AnyMap [(''name'', AnyString uid), (''password'', AnyString secret), (''domain'', domain)])])]"
  using assms
  by (auto simp: newKeystoneV3Identity_def split: option.splits sum.splits list.splits if_splits)

lemma injectKeystoneV3Secret_body:
  assumes "injectKeystoneV3Secret jc s req = Inr (Some out)"
  obtains b uid secret body authData auth i identityBytes authBytes
  where "req_Body req = Some b" and "length (br_data b) \<le> maxKeystoneV3BodySize" and "br_err b = None"
    and "strings_Cut (sec_KeystoneV3Creds s) CHR '':'' = Some (uid, secret)"
    and "unmarshal_object jc (br_data b) = Inr body" and "map_get body ''auth'' = Some authData"
    and "unmarshal_object jc authData = Inr auth" and "newKeystoneV3Identity jc auth uid secret = Inr i"
    and "marshal_any jc i = Inr identityBytes"
    and "marshal_object jc (map_set ''identity'' identityBytes auth) = Inr authBytes"
    and "marshal_object jc (map_set ''auth'' authBytes body) = Inr out"
proof -
  obtain b raw where b: "req_Body req = Some b" and r: "read_limited b (maxKeystoneV3BodySize + 1) = Inr raw"
    and l: "\<not> maxKeystoneV3BodySize < length raw"
    using assms by (auto simp: injectKeystoneV3Secret_def res_bind_Inr split: option.splits if_splits)
  have "length (br_data b) \<le> maxKeystoneV3BodySize \<and> br_err b = None \<and> raw = br_data b"
    using r l by (auto simp: read_limited_def split: if_splits option.splits)
  with assms b r l that show ?thesis
    by (auto simp: injectKeystoneV3Secret_def res_bind_Inr split: option.splits if_splits)
qed

text \<open>
  When a keystone secret is applied to a request with a body, the body was read whole and had
  at most one mebibyte, and the new body differs from it only in \<^verbatim>\<open>auth.identity\<close>: every other
  member of the request and of its \<^verbatim>\<open>auth\<close> object keeps its text, and the identity holds the injected
  credentials (its only trace of the client's identity is the method and, for passwords, the
  domain). The hypotheses on the codec are that it reads back the two objects it has written.
\<close>

theorem keystone_replaces_identity:
  assumes inj: "injectKeystoneV3Secret jc s req = Inr (Some out)"
    and law: "\<And>m t. marshal_object jc m = Inr t \<Longrightarrow> \<exists>m'. unmarshal_object jc t = Inr m' \<and> map_get m' = map_get m"
  shows "\<exists>b uid secret body authData auth body' authData' auth' i t.
     req_Body req = Some b \<and> length (br_data b) \<le> maxKeystoneV3BodySize \<and> br_err b = None \<and>
     strings_Cut (sec_KeystoneV3Creds s) CHR '':'' = Some (uid, secret) \<and>
     unmarshal_object jc (br_data b) = Inr body \<and> unmarshal_object jc out = Inr body' \<and>
     map_get body ''auth'' = Some authData \<and> map_get body' = (map_get body)(''auth'' \<mapsto> authData') \<and>
     unmarshal_object jc authData = Inr auth \<and> unmarshal_object jc authData' = Inr auth' \<and>
     map_get auth' = (map_get auth)(''identity'' \<mapsto> t) \<and> marshal_any jc i = Inr t \<and>
     (i = AnyMap [(''methods'', AnyStrings [''application_credential'']),
            (''application_credential'', AnyMap [(''id'', AnyString uid), (''secret'', AnyString secret)])] \<or>
      (\<exists>domain. i = AnyMap [(''methods'', AnyStrings [''password'']),
            (''password'', AnyMap [(''user'', AnyMap [(''name'', AnyString uid), (''password'', AnyString secret), (''domain'', domain)])])]))"
proof -
  obtain b uid secret body authData auth i identityBytes authBytes
    where f: "req_Body req = Some b" "length (br_data b) \<le> maxKeystoneV3BodySize" "br_err b = None"
      "strings_Cut (sec_KeystoneV3Creds s) CHR '':'' = Some (uid, secret)"
      "unmarshal_object jc (br_data b) = Inr body" "map_get body ''auth'' = Some authData"
      "unmarshal_object jc authData = Inr auth" "newKeystoneV3Identity jc auth uid secret = Inr i"
      "marshal_any jc i = Inr identityBytes"
      "marshal_object jc (map_set ''identity'' identityBytes auth) = Inr authBytes"
      "marshal_object jc (map_set ''auth'' authBytes body) = Inr out"
    by (rule injectKeystoneV3Secret_body [OF inj]) blast
  obtain auth' where a: "unmarshal_object jc authBytes = Inr auth'" "map_get auth' = (map_get auth)(''identity'' \<mapsto> identityBytes)"
    using law [OF f(10)] by auto
  obtain body' where o: "unmarshal_object jc out = Inr body'" "map_get body' = (map_get body)(''auth'' \<mapsto> authBytes)"
    using law [OF f(11)] by auto
  have i: "i = AnyMap [(''methods'', AnyStrings [''application_credential'']),
            (''application_credential'', AnyMap [(''id'', AnyString uid), (''secret'', AnyString secret)])] \<or>
      (\<exists>domain. i = AnyMap [(''methods'', AnyStrings [''password'']),
            (''password'', AnyMap [(''user'', AnyMap [(''name'', AnyString uid), (''password'', AnyString secret), (''domain'', domain)])])])"
    by (rule newKeystoneV3Identity_cases [OF f(8)]) blast+
  show ?thesis
    by (rule exI [of _ b], rule exI [of _ uid], rule exI [of _ secret], rule exI [of _ body], rule exI [of _ authData],
        rule exI [of _ auth], rule exI [of _ body'], rule exI [of _ authBytes], rule exI [of _ auth'], rule exI [of _ i],
        rule exI [of _ identityBytes], intro conjI) (fact f a o i)+
qed

text \<open>
  C36. A keystone request fails closed: when its secret is the first to match and the request has a
  body, either the injection reports an error, so that the request is not forwarded, or the body
  that goes out is the rewritten one, with its length in the request and in the header. A body over
  one mebibyte is always refused, with the error that the proxy answers as too large.
\<close>

theorem keystone_fails_closed:
  assumes m: "Glob_Match (sec_URL s) url" and ty: "sec_Type s = KeystoneV3Type" and b: "req_Body req = Some b"
  shows "(case InjectSecrets jc (s # rest) url req of
            Inl e \<Rightarrow> maxKeystoneV3BodySize < length (br_data b) \<longrightarrow> errors_Is e ErrKeystoneV3BodyTooLarge
          | Inr (applied, req') \<Rightarrow> applied \<and> length (br_data b) \<le> maxKeystoneV3BodySize \<and>
              (\<exists>out. injectKeystoneV3Secret jc s req = Inr (Some out) \<and>
                 req_Body req' = Some \<lparr>br_data = out, br_err = None\<rparr> \<and> req_ContentLength req' = int (length out) \<and>
                 header_Get (req_Header req') ''Content-Length'' = fmt_nat (length out)))"
proof (cases "injectKeystoneV3Secret jc s req")
  case (Inl e)
  have "errors_Is e ErrKeystoneV3BodyTooLarge" if "maxKeystoneV3BodySize < length (br_data b)"
    using that Inl b by (auto simp: injectKeystoneV3Secret_def read_limited_def wrap_def Suc_le_eq min_def split: if_splits)
  then show ?thesis using m ty Inl by (simp add: injectSecret_def secret_types)
next
  case (Inr o1)
  then obtain out where o: "o1 = Some out"
    using b by (cases o1) (auto simp: injectKeystoneV3Secret_def res_bind_Inr split: if_splits option.splits prod.splits)
  have "length (br_data b) \<le> maxKeystoneV3BodySize"
    by (rule injectKeystoneV3Secret_body [OF Inr [unfolded o]]) (use b in simp)
  then show ?thesis using m ty Inr o by (simp add: injectSecret_def secret_types)
qed


section \<open>Concrete instances\<close>

text \<open>A codec that knows one request and its rewriting.\<close>

definition one_request_codec :: json_codec where
  "one_request_codec = \<lparr>
     unmarshal_object = (\<lambda>t. if t = ''REQ'' then Inr [(''auth'', ''AUTH'')]
        else if t = ''AUTH'' then Inr [(''identity'', ''ID''), (''scope'', ''S'')]
        else if t = ''NEWAUTH'' then Inr [(''identity'', ''NEWID''), (''scope'', ''S'')]
        else if t = ''NEWREQ'' then Inr [(''auth'', ''NEWAUTH'')] else Inl (Errorf ''json'')),
     unmarshal_Identity = (\<lambda>t. Inr \<lparr>id_Methods = [''application_credential''], id_Password = None,
        id_ApplicationCredential = Some (''client'', ''pw'')\<rparr>),
     marshal_any = (\<lambda>_. Inr ''NEWID''),
     marshal_object = (\<lambda>m. if m = [(''identity'', ''NEWID''), (''scope'', ''S'')] then Inr ''NEWAUTH''
        else if m = [(''auth'', ''NEWAUTH'')] then Inr ''NEWREQ'' else Inl (Errorf ''json''))\<rparr>"

definition any_url :: Glob where
  "any_url = \<lparr>G = Some (\<lambda>_. True)\<rparr>"

definition keystone_secret :: Secret where
  "keystone_secret = \<lparr>sec_Type = KeystoneV3Type, sec_URL = any_url, sec_BasicCreds = [], sec_MacaroonCreds = [],
     sec_KeystoneV3Creds = ''svc:k3y''\<rparr>"

definition basic_secret :: Secret where
  "basic_secret = keystone_secret\<lparr>sec_Type := BasicAuthType, sec_BasicCreds := ''u:p''\<rparr>"

definition keystone_request :: http_request where
  "keystone_request = \<lparr>req_Method = ''POST'',
     req_URL = \<lparr>u_Scheme = ''https'', u_Host = ''keystone.example.com'', u_Path = ''/v3/auth/tokens'', u_RawQuery = []\<rparr>,
     req_Header = [], req_Body = Some \<lparr>br_data = ''REQ'', br_err = None\<rparr>,
     req_ContentLength = 3, req_TransferEncoding = [], req_RemoteAddr = ''10.0.0.2:4711''\<rparr>"

theorem first_matching_secret_witness:
  "\<exists>h. InjectSecrets one_request_codec [basic_secret, keystone_secret] ''https://x/'' keystone_request =
     Inr (True, keystone_request\<lparr>req_Header := header_Set (req_Header keystone_request) ''Authorization'' (''Basic '' @ h)\<rparr>) \<and>
     base64_DecodeString h = Inr (sec_BasicCreds basic_secret)"
proof -
  have "Glob_Match (sec_URL basic_secret) ''https://x/''" and "sec_Type basic_secret = BasicAuthType"
    by (simp_all add: Glob_Match_def basic_secret_def keystone_secret_def any_url_def)
  then show ?thesis
    using first_matching_secret [of "''https://x/''" "[basic_secret, keystone_secret]" one_request_codec keystone_request,
        THEN conjunct2, rule_format, of "[]" basic_secret "[keystone_secret]"] by simp
qed

lemma keystone_sample: "injectKeystoneV3Secret one_request_codec keystone_secret keystone_request = Inr (Some ''NEWREQ'')"
  by (simp add: injectKeystoneV3Secret_def keystone_request_def keystone_secret_def read_limited_def maxKeystoneV3BodySize_def
      strings_Cut_def one_request_codec_def wrap_def newKeystoneV3Identity_def)

lemma keystone_codec_law:
  "marshal_object one_request_codec m = Inr t \<Longrightarrow>
     \<exists>m'. unmarshal_object one_request_codec t = Inr m' \<and> map_get m' = map_get m"
  by (auto simp: one_request_codec_def split: if_splits)

theorem keystone_replaces_identity_witness:
  "\<exists>body' auth'. unmarshal_object one_request_codec ''NEWREQ'' = Inr body' \<and>
     (\<exists>authData'. map_get body' ''auth'' = Some authData' \<and> unmarshal_object one_request_codec authData' = Inr auth' \<and>
        map_get auth' ''scope'' = Some ''S'')"
proof -
  obtain b body authData auth body' authData' auth' t where "req_Body keystone_request = Some b"
    and "unmarshal_object one_request_codec (br_data b) = Inr body"
    and o: "unmarshal_object one_request_codec ''NEWREQ'' = Inr body'" "map_get body' = (map_get body)(''auth'' \<mapsto> authData')"
    and "map_get body ''auth'' = Some authData" and "unmarshal_object one_request_codec authData = Inr auth"
    and a: "unmarshal_object one_request_codec authData' = Inr auth'" "map_get auth' = (map_get auth)(''identity'' \<mapsto> t)"
    using keystone_replaces_identity [OF keystone_sample keystone_codec_law] by metis
  then have "map_get auth ''scope'' = Some ''S''"
    by (auto simp: one_request_codec_def keystone_request_def)
  with o a show ?thesis by auto
qed

theorem keystone_fails_closed_witness:
  "errors_Is (projl (InjectSecrets one_request_codec [keystone_secret] ''https://x/''
     (keystone_request\<lparr>req_Body := Some \<lparr>br_data = replicate (maxKeystoneV3BodySize + 1) CHR ''x'', br_err = None\<rparr>\<rparr>))) ErrKeystoneV3BodyTooLarge"
proof -
  let ?b = "\<lparr>br_data = replicate (maxKeystoneV3BodySize + 1) CHR ''x'', br_err = None\<rparr>"
  have "Glob_Match (sec_URL keystone_secret) ''https://x/''" and "sec_Type keystone_secret = KeystoneV3Type"
    by (simp_all add: Glob_Match_def keystone_secret_def any_url_def)
  from keystone_fails_closed [OF this, of "keystone_request\<lparr>req_Body := Some ?b\<rparr>" ?b one_request_codec "[]"]
  show ?thesis by (auto split: sum.splits prod.splits)
qed

end
