(* ===== verification/Session.thy ===== *)
theory Session
  imports Inspection_Engine Filesystem Config_Props Secrets
begin

text \<open>
  \<^verbatim>\<open>session/session.go\<close>, \<^verbatim>\<open>session/timer.go\<close> and \<^verbatim>\<open>session/resources.go\<close>.

  The package-level state is the record \<^theory_text>\<open>gstate\<close>: the map of active sessions, the session timers
  (a session holds an index into them, as the code holds a pointer), the channel of expired
  session IDs, the file system and the configuration. A session map binds an ID to the session's
  current contents.

  A timer has a goroutine of its own, the monitor, that waits for the timer or for the end of
  the session. Sending on a full channel blocks: \<^theory_text>\<open>Cancel\<close>, \<^theory_text>\<open>Discard\<close> and \<^theory_text>\<open>Finish\<close> return
  \<^const>\<open>None\<close> when they would never return. Instants and durations are nanoseconds (\<^typ>\<open>int\<close>);
  where the code formats an instant as text the model keeps the instant.

  Arguments (\<^theory_text>\<open>session_env\<close>): the faults of the operating system, the inspectors that
  \<^verbatim>\<open>inspectors.New\<close> builds from a configuration, the bytes that \<^verbatim>\<open>encoding/json\<close> gives for a
  structure and the structure it reads back, and the version string that the build embeds.
  Log output and security events are not modelled.
\<close>

section \<open>Data\<close>

record SessionMetadata =
  sm_Generator :: string
  sm_Comment :: string
  sm_SessionID :: string
  sm_StartTime :: int
  sm_EndTime :: int
  sm_Inspectors :: "string list"
  sm_SpoolPath :: string
  sm_Policy :: string
  sm_Err :: "go_error option"

record SessionInfo =
  si_SessionID :: string
  si_StartTime :: int
  si_Policy :: string
  si_Age :: int
  si_Timeout :: int

datatype monitor = Watching | Sending | Ended

record sessionTimer =
  t_ID :: string
  t_armed :: bool
  t_done :: nat
  t_monitor :: monitor

record Session =
  s_ID :: string
  s_Token :: string
  s_Start :: int
  s_End :: int
  s_Insps :: "filesys Inspectors"
  s_A :: "(Sha256Digest, Artifact) gomap"
  s_Permissive :: bool
  s_SessionDir :: string
  s_CacheDir :: string
  s_Timeout :: int
  s_InspectorsCfg :: InspectorsConfig
  s_Secrets :: "Secret list"
  s_timer :: nat
  s_revoked :: bool

type_synonym SessionMap = "(string, Session) gomap"

record gstate =
  sessions :: SessionMap
  timers :: "sessionTimer list"
  ExpiredSessionID :: "string list"
  g_fs :: filesys
  g_config :: config_state

record session_env =
  env_os :: os_faults
  env_inspectors :: "InspectorsConfig \<Rightarrow> filesys Inspector list"
  enc_SessionMetadata :: "SessionMetadata \<Rightarrow> string result"
  enc_Artifact :: "Artifact \<Rightarrow> string result"
  dec_SessionMetadata :: "string \<Rightarrow> SessionMetadata result"
  env_Version :: string

definition DefaultSessionTimeout :: int where
  "DefaultSessionTimeout = 6 * 3600 * 1000000000"

definition ErrInvalidSessionPolicy :: go_error where
  "ErrInvalidSessionPolicy = ErrVar ''session.ErrInvalidSessionPolicy'' ''Invalid session policy''"

definition ErrInvalidSessionInspectorsConfiguration :: go_error where
  "ErrInvalidSessionInspectorsConfiguration =
     ErrVar ''session.ErrInvalidSessionInspectorsConfiguration'' ''Invalid inspectors configuration''"

section \<open>Timers\<close>

definition newSessionTimer :: "string \<Rightarrow> gstate \<Rightarrow> nat \<times> gstate" where
  "newSessionTimer sid g =
     (length (timers g),
      g\<lparr>timers := timers g @ [\<lparr>t_ID = sid, t_armed = True, t_done = 0, t_monitor = Watching\<rparr>]\<rparr>)"

definition upd_timer :: "nat \<Rightarrow> (sessionTimer \<Rightarrow> sessionTimer) \<Rightarrow> gstate \<Rightarrow> gstate" where
  "upd_timer i f g = g\<lparr>timers := (timers g)[i := f (timers g ! i)]\<rparr>"

text \<open>\<^verbatim>\<open>Stop\<close>: since Go 1.23 no stale value can be received from a stopped timer.\<close>

definition timer_Stop :: "nat \<Rightarrow> gstate \<Rightarrow> gstate" where
  "timer_Stop i g = upd_timer i (\<lambda>t. t\<lparr>t_armed := False\<rparr>) g"

definition Cancel :: "nat \<Rightarrow> gstate \<Rightarrow> gstate option" where
  "Cancel i g = (let g1 = timer_Stop i g in
     if t_done (timers g1 ! i) < 1 then Some (upd_timer i (\<lambda>t. t\<lparr>t_done := t_done t + 1\<rparr>) g1) else None)"

text \<open>The goroutine of a timer: it sees the timer fire, sends the ID, or is told to end.\<close>

definition monitor_fire :: "nat \<Rightarrow> gstate \<Rightarrow> gstate option" where
  "monitor_fire i g =
     (if i < length (timers g) \<and> t_armed (timers g ! i) \<and> t_monitor (timers g ! i) = Watching
      then Some (upd_timer i (\<lambda>t. t\<lparr>t_armed := False, t_monitor := Sending\<rparr>) g) else None)"

definition monitor_send :: "nat \<Rightarrow> gstate \<Rightarrow> gstate option" where
  "monitor_send i g =
     (if i < length (timers g) \<and> t_monitor (timers g ! i) = Sending \<and> length (ExpiredSessionID g) < 1
      then Some (upd_timer i (\<lambda>t. t\<lparr>t_monitor := Ended\<rparr>)
                   (g\<lparr>ExpiredSessionID := ExpiredSessionID g @ [t_ID (timers g ! i)]\<rparr>)) else None)"

definition monitor_done :: "nat \<Rightarrow> gstate \<Rightarrow> gstate option" where
  "monitor_done i g =
     (if i < length (timers g) \<and> t_monitor (timers g ! i) = Watching \<and> 0 < t_done (timers g ! i)
      then Some (upd_timer i (\<lambda>t. t\<lparr>t_monitor := Ended, t_done := t_done t - 1\<rparr>) g) else None)"

section \<open>Sessions\<close>

definition GetSession :: "gstate \<Rightarrow> string \<Rightarrow> Session option" where
  "GetSession g sid = map_get (sessions g) sid"

definition put_session :: "Session \<Rightarrow> gstate \<Rightarrow> gstate" where
  "put_session s g = g\<lparr>sessions := map_set (s_ID s) s (sessions g)\<rparr>"

text \<open>
  The random parts: the sixteen bytes of a UUID in hexadecimal, and a token of letters and digits
  chosen by random numbers below 62.
\<close>

definition makeSessionIDImpl :: "string \<Rightarrow> string" where
  "makeSessionIDImpl uuid = hex_EncodeToString uuid"

definition token_chars :: string where
  "token_chars = ''ABCDEFGHIJKLMNOPQRSTUVWXYZabcdefghijklmnopqrstuvwxyz0123456789''"

fun randomStringImpl :: "(nat \<Rightarrow> nat) \<Rightarrow> nat \<Rightarrow> string" where
  "randomStringImpl intn 0 = []"
| "randomStringImpl intn (Suc n) = randomStringImpl intn n @ [token_chars ! (intn n mod length token_chars)]"

definition NewWithID ::
  "session_env \<Rightarrow> int \<Rightarrow> string \<Rightarrow> string \<Rightarrow> string \<Rightarrow> string \<Rightarrow> int \<Rightarrow> bool \<Rightarrow> Secret list
     \<Rightarrow> OverrideInspectorsConfig \<Rightarrow> gstate \<Rightarrow> Session \<times> gstate" where
  "NewWithID env now uuid sessionID token spoolDir timeout permissive secs inspectorsConfig g =
     (let sid = (case map_get (sessions g) sessionID of
                   Some _ \<Rightarrow> makeSessionIDImpl uuid | None \<Rightarrow> sessionID);
          tmo = (if timeout = 0 then DefaultSessionTimeout else timeout);
          cfg = Combine (GetInspectorsConfig (g_config g)) inspectorsConfig;
          s = \<lparr>s_ID = sid, s_Token = token, s_Start = now, s_End = 0,
               s_Insps = newInspectors permissive (env_inspectors env cfg), s_A = [],
               s_Permissive = permissive, s_SessionDir = filepath_Join [spoolDir, sid],
               s_CacheDir = filepath_Join [spoolDir, sid, ''cache''], s_Timeout = tmo,
               s_InspectorsCfg = GetInspectorsConfig (g_config g), s_Secrets = secs,
               s_timer = 0, s_revoked = False\<rparr>
      in case newSessionTimer sid g of
           (i, g1) \<Rightarrow> (s\<lparr>s_timer := i\<rparr>, put_session (s\<lparr>s_timer := i\<rparr>) g1))"

definition New ::
  "session_env \<Rightarrow> int \<Rightarrow> string \<Rightarrow> string \<Rightarrow> (nat \<Rightarrow> nat) \<Rightarrow> string \<Rightarrow> int \<Rightarrow> bool \<Rightarrow> Secret list
     \<Rightarrow> OverrideInspectorsConfig \<Rightarrow> gstate \<Rightarrow> Session \<times> gstate" where
  "New env now uuid uuid2 intn spoolDir timeout permissive secs inspectorsConfig g =
     NewWithID env now uuid2 (makeSessionIDImpl uuid) (randomStringImpl intn 20) spoolDir timeout
       permissive secs inspectorsConfig g"

definition policy_name :: "Session \<Rightarrow> string" where
  "policy_name s = (if s_Permissive s then ''permissive'' else ''strict'')"

definition Session_Metadata :: "session_env \<Rightarrow> Session \<Rightarrow> SessionMetadata" where
  "Session_Metadata env s =
     \<lparr>sm_Generator = ''fetch-service '' @ env_Version env,
      sm_Comment = ''Metadata format is unstable and may change without prior notice.'',
      sm_SessionID = s_ID s, sm_StartTime = s_Start s, sm_EndTime = s_End s,
      sm_Inspectors = Inspectors_List (s_Insps s), sm_SpoolPath = s_SessionDir s,
      sm_Policy = policy_name s, sm_Err = None\<rparr>"

definition SaveMetadata ::
  "session_env \<Rightarrow> Session \<Rightarrow> Sha256Digest \<Rightarrow> filesys \<Rightarrow> go_error option \<times> filesys" where
  "SaveMetadata env s digest fs =
     (case map_get (s_A s) digest of
        None \<Rightarrow> (Some (Errorf (''metadata for artifact '' @ Sha256Digest_String digest @ '' not available'')), fs)
      | Some a \<Rightarrow>
        (case enc_Artifact env a of Inl err \<Rightarrow> (Some err, fs)
         | Inr j \<Rightarrow>
           os_WriteFile (env_os env)
             (filepath_Join [a_AssetDir a, Sha256Digest_String (md_Sha256 (a_Metadata a)) @ ''.json'']) j fs))"

fun save_all ::
  "session_env \<Rightarrow> Session \<Rightarrow> Sha256Digest list \<Rightarrow> filesys \<Rightarrow> go_error option \<times> filesys" where
  "save_all env s [] fs = (None, fs)"
| "save_all env s (k # ks) fs =
     (case SaveMetadata env s k fs of (Some err, fs') \<Rightarrow> (Some err, fs')
      | (None, fs') \<Rightarrow> save_all env s ks fs')"

definition SaveSessionMetadata ::
  "session_env \<Rightarrow> Session \<Rightarrow> SessionMetadata \<Rightarrow> filesys \<Rightarrow> go_error option \<times> filesys" where
  "SaveSessionMetadata env s sm fs =
     (case enc_SessionMetadata env sm of Inl err \<Rightarrow> (Some err, fs)
      | Inr j \<Rightarrow>
        (case os_MkdirAll (env_os env) (s_SessionDir s) fs of (Some err, fs1) \<Rightarrow> (Some err, fs1)
         | (None, fs1) \<Rightarrow> os_WriteFile (env_os env) (filepath_Join [s_SessionDir s, ''session.json'']) j fs1))"

definition Discard :: "Session \<Rightarrow> gstate \<Rightarrow> gstate option" where
  "Discard s g =
     (case map_get (sessions g) (s_ID s) of
        None \<Rightarrow> Some g
      | Some _ \<Rightarrow> Cancel (s_timer s) (g\<lparr>sessions := map_del (s_ID s) (sessions g)\<rparr>))"

definition clean_cache :: "session_env \<Rightarrow> Session \<Rightarrow> filesys \<Rightarrow> go_error option \<times> filesys" where
  "clean_cache env s fs =
     (case os_Stat (env_os env) fs (s_CacheDir s) of
        Inr True \<Rightarrow> os_RemoveAll (env_os env) (s_CacheDir s) fs
      | _ \<Rightarrow> (None, fs))"

definition Finish :: "session_env \<Rightarrow> Session \<Rightarrow> gstate \<Rightarrow> (go_error option \<times> gstate) option" where
  "Finish env s g =
     (let g1 = timer_Stop (s_timer s) g; sm = Session_Metadata env s in
      case save_all env s (map fst (s_A s)) (g_fs g1) of
        (Some err, fs1) \<Rightarrow> Some (Some err, g1\<lparr>g_fs := fs1\<rparr>)
      | (None, fs1) \<Rightarrow>
        (case SaveSessionMetadata env s sm fs1 of
           (Some err, fs2) \<Rightarrow> Some (Some err, g1\<lparr>g_fs := fs2\<rparr>)
         | (None, fs2) \<Rightarrow>
           (case clean_cache env s fs2 of
              (Some err, fs3) \<Rightarrow> Some (Some err, g1\<lparr>g_fs := fs3\<rparr>)
            | (None, fs3) \<Rightarrow>
              (case Discard s (g1\<lparr>g_fs := fs3\<rparr>) of None \<Rightarrow> None | Some g2 \<Rightarrow> Some (None, g2)))))"

definition Revoke :: "int \<Rightarrow> string \<Rightarrow> Session \<Rightarrow> bool \<times> Session" where
  "Revoke now token s =
     (if token \<noteq> s_Token s then (False, s) else (True, s\<lparr>s_revoked := True, s_End := now\<rparr>))"

definition IsRevoked :: "Session \<Rightarrow> bool" where
  "IsRevoked s = s_revoked s"

definition Session_Artifacts :: "Session \<Rightarrow> Artifact list" where
  "Session_Artifacts s = map snd (s_A s)"

definition HasArtifact :: "Session \<Rightarrow> Sha256Digest \<Rightarrow> bool" where
  "HasArtifact s sha256 \<longleftrightarrow> map_get (s_A s) sha256 \<noteq> None"

definition AddArtifact :: "Artifact \<Rightarrow> Session \<Rightarrow> Session" where
  "AddArtifact a s =
     (let digest = md_Sha256 (a_Metadata a)
      in if map_get (s_A s) digest = None then s\<lparr>s_A := map_set digest a (s_A s)\<rparr> else s)"

definition ArtifactResult :: "Session \<Rightarrow> Sha256Digest \<Rightarrow> OpinionKind" where
  "ArtifactResult s sha256 = (case map_get (s_A s) sha256 of None \<Rightarrow> Rejected | Some a \<Rightarrow> a_Result a)"

definition AddDownload :: "Download \<Rightarrow> Session \<Rightarrow> Session" where
  "AddDownload di s =
     (case map_get (s_A s) (dl_Sha256 di) of None \<Rightarrow> s
      | Some a \<Rightarrow> s\<lparr>s_A := map_set (dl_Sha256 di) (a\<lparr>a_Downloads := a_Downloads a @ [di]\<rparr>) (s_A s)\<rparr>)"

definition removeTempFile :: "session_env \<Rightarrow> string \<Rightarrow> filesys \<Rightarrow> filesys" where
  "removeTempFile env name fs = snd (os_Remove (env_os env) name fs)"

definition SaveData :: "session_env \<Rightarrow> Artifact \<Rightarrow> filesys \<Rightarrow> go_error option \<times> filesys" where
  "SaveData env a fs =
     (let dest = filepath_Join [a_AssetDir a, Sha256Digest_String (md_Sha256 (a_Metadata a)) @ ''.data''];
          (r, fs') =
            (case os_MkdirAll (env_os env) (filepath_Dir dest) fs of (Some err, fs1) \<Rightarrow> (Some err, fs1)
             | (None, fs1) \<Rightarrow>
               (case os_Stat (env_os env) fs1 dest of
                  Inr _ \<Rightarrow> (None, fs1)
                | Inl err \<Rightarrow>
                  if \<not> errors_Is err os_ErrNotExist then (Some err, fs1)
                  else MoveFile (env_os env) (a_Tempfile a) dest fs1))
      in (r, removeTempFile env (a_Tempfile a) fs'))"

section \<open>The session table\<close>

definition SessionMap_Size :: "SessionMap \<Rightarrow> nat" where
  "SessionMap_Size sm = fold (\<lambda>_ size. size + 1) sm 0"

definition NumSessions :: "gstate \<Rightarrow> nat" where
  "NumSessions g = SessionMap_Size (sessions g)"

definition CheckAuth :: "string \<Rightarrow> string \<Rightarrow> gstate \<Rightarrow> bool" where
  "CheckAuth sid pw g =
     (case GetSession g sid of None \<Rightarrow> False
      | Some s \<Rightarrow> if s_revoked s then False else if s_Token s \<noteq> pw then False else True)"

definition GetSessionSecrets :: "string \<Rightarrow> gstate \<Rightarrow> Secret list" where
  "GetSessionSecrets sid g = (case GetSession g sid of None \<Rightarrow> [] | Some s \<Rightarrow> s_Secrets s)"

text \<open>\<^verbatim>\<open>FinishAll\<close> over the sessions in the order that \<^verbatim>\<open>Range\<close> visits them.\<close>

fun finish_each :: "session_env \<Rightarrow> Session list \<Rightarrow> gstate \<Rightarrow> gstate option" where
  "finish_each env [] g = Some g"
| "finish_each env (s # rest) g =
     (case Finish env s g of None \<Rightarrow> None | Some (_, g') \<Rightarrow> finish_each env rest g')"

definition FinishAll :: "session_env \<Rightarrow> gstate \<Rightarrow> gstate option" where
  "FinishAll env g = finish_each env (map snd (sessions g)) g"

definition SessionInfos :: "int \<Rightarrow> gstate \<Rightarrow> SessionInfo list" where
  "SessionInfos now g =
     map (\<lambda>(sid, s). \<lparr>si_SessionID = sid, si_StartTime = s_Start s, si_Policy = policy_name s,
            si_Age = (now - s_Start s) div 1000000000, si_Timeout = s_Timeout s div 1000000000\<rparr>) (sessions g)"

section \<open>Resources\<close>

definition SessionMetadataWritten :: "session_env \<Rightarrow> filesys \<Rightarrow> string \<Rightarrow> string \<Rightarrow> bool" where
  "SessionMetadataWritten env fs spoolDir sessionID =
     (case os_Stat (env_os env) fs (filepath_Join [spoolDir, sessionID, ''session.json'']) of
        Inl _ \<Rightarrow> False | Inr _ \<Rightarrow> True)"

definition LoadSessionMetadata :: "session_env \<Rightarrow> filesys \<Rightarrow> string \<Rightarrow> string \<Rightarrow> SessionMetadata result" where
  "LoadSessionMetadata env fs spoolDir sessionID =
     (case os_ReadFile (env_os env) fs (filepath_Join [spoolDir, sessionID, ''session.json'']) of
        Inl err \<Rightarrow> Inl err | Inr data \<Rightarrow> dec_SessionMetadata env data)"

definition RemoveResources :: "session_env \<Rightarrow> string \<Rightarrow> string \<Rightarrow> filesys \<Rightarrow> go_error option \<times> filesys" where
  "RemoveResources env spoolDir sessionID fs =
     os_RemoveAll (env_os env) (filepath_Join [spoolDir, sessionID]) fs"

end
