(* ===== verification/Session_Props.thy ===== *)
theory Session_Props
  imports Session
begin

text \<open>
  Properties of sessions: the invariant of the session table and that every operation keeps it,
  that ending a session never blocks, what a successful and a failed end leave behind, and the
  authentication of a client.
\<close>

declare map_of_eq_Some_iff [simp del]

section \<open>The invariant\<close>

text \<open>An artifact with a result: approved only by the verdict of its inspectors.\<close>

definition judged_artifact :: "Artifact \<Rightarrow> bool" where
  "judged_artifact a \<longleftrightarrow> (a_Result a = Approved \<and> Artifact_Approved a) \<or> a_Result a = Rejected"

lemma judged_downloads [simp]: "judged_artifact (a\<lparr>a_Downloads := ds\<rparr>) = judged_artifact a"
  by (simp add: judged_artifact_def Artifact_Approved_def RequestPending_def ResponseApproved_def)

definition wf_session :: "Session \<Rightarrow> bool" where
  "wf_session s \<longleftrightarrow> wf_map (s_A s) \<and>
     (\<forall>d a. map_get (s_A s) d = Some a \<longrightarrow> md_Sha256 (a_Metadata a) = d \<and> judged_artifact a) \<and>
     (\<forall>sec \<in> set (s_Secrets s). usable sec) \<and> insp_permissive (s_Insps s) = s_Permissive s"

definition wf_timers :: "gstate \<Rightarrow> bool" where
  "wf_timers g \<longleftrightarrow>
     (\<forall>sid s. map_get (sessions g) sid = Some s \<longrightarrow>
        s_timer s < length (timers g) \<and> t_ID (timers g ! s_timer s) = sid \<and> t_done (timers g ! s_timer s) = 0) \<and>
     (\<forall>i < length (timers g). t_done (timers g ! i) \<le> 1) \<and>
     (\<forall>sid s sid' s'. map_get (sessions g) sid = Some s \<longrightarrow> map_get (sessions g) sid' = Some s' \<longrightarrow>
        s_timer s = s_timer s' \<longrightarrow> sid = sid')"

definition wf_sessions :: "gstate \<Rightarrow> bool" where
  "wf_sessions g \<longleftrightarrow> wf_map (sessions g) \<and>
     (\<forall>sid s. map_get (sessions g) sid = Some s \<longrightarrow> s_ID s = sid \<and> wf_session s)"

definition wf_gstate :: "gstate \<Rightarrow> bool" where
  "wf_gstate g \<longleftrightarrow> wf_sessions g \<and> wf_timers g \<and> length (ExpiredSessionID g) \<le> 1"

lemma wf_gstateD:
  assumes "wf_gstate g" and "GetSession g sid = Some s"
  shows "s_ID s = sid" and "wf_session s" and "s_timer s < length (timers g)"
    and "t_ID (timers g ! s_timer s) = sid" and "t_done (timers g ! s_timer s) = 0"
  using assms by (auto simp: wf_gstate_def wf_sessions_def wf_timers_def GetSession_def)

section \<open>Operations on one session\<close>

lemma wf_session_AddArtifact: "wf_session s \<Longrightarrow> judged_artifact a \<Longrightarrow> wf_session (AddArtifact a s)"
  by (auto simp: wf_session_def AddArtifact_def Let_def)

lemma wf_session_AddDownload: "wf_session s \<Longrightarrow> wf_session (AddDownload d s)"
  by (auto simp: wf_session_def AddDownload_def split: option.splits if_splits)

lemma wf_session_Revoke: "wf_session s \<Longrightarrow> wf_session (snd (Revoke now token s))"
  by (simp add: wf_session_def Revoke_def)

lemma session_op_frame [simp]:
  "s_ID (AddArtifact a s) = s_ID s" "s_timer (AddArtifact a s) = s_timer s"
  "s_ID (AddDownload d s) = s_ID s" "s_timer (AddDownload d s) = s_timer s"
  "s_ID (snd (Revoke now token s)) = s_ID s" "s_timer (snd (Revoke now token s)) = s_timer s"
  by (auto simp: AddArtifact_def AddDownload_def Revoke_def Let_def split: option.splits)

lemma AddArtifact_get:
  "map_get (s_A (AddArtifact a s)) d =
     (if d = md_Sha256 (a_Metadata a) \<and> map_get (s_A s) d = None then Some a else map_get (s_A s) d)"
  by (auto simp: AddArtifact_def Let_def)

lemma AddDownload_result: "ArtifactResult (AddDownload di s) d = ArtifactResult s d"
  by (auto simp: AddDownload_def ArtifactResult_def split: option.splits)

lemma AddArtifact_result:
  "ArtifactResult (AddArtifact a s) d =
     (if d = md_Sha256 (a_Metadata a) \<and> \<not> HasArtifact s d then a_Result a else ArtifactResult s d)"
  by (auto simp: ArtifactResult_def AddArtifact_get HasArtifact_def split: option.splits)

section \<open>Operations on the table\<close>

lemma put_session_get [simp]: "GetSession (put_session s g) = (GetSession g)(s_ID s \<mapsto> s)"
  by (auto simp: put_session_def GetSession_def)

lemma put_session_frame [simp]:
  "timers (put_session s g) = timers g" "ExpiredSessionID (put_session s g) = ExpiredSessionID g"
  "g_fs (put_session s g) = g_fs g" "g_config (put_session s g) = g_config g"
  by (simp_all add: put_session_def)

lemma upd_timer_frame [simp]:
  "sessions (upd_timer i f g) = sessions g" "ExpiredSessionID (upd_timer i f g) = ExpiredSessionID g"
  "g_fs (upd_timer i f g) = g_fs g" "g_config (upd_timer i f g) = g_config g"
  "length (timers (upd_timer i f g)) = length (timers g)"
  by (simp_all add: upd_timer_def)

lemma upd_timer_nth:
  "j < length (timers g) \<Longrightarrow> timers (upd_timer i f g) ! j = (if i = j then f (timers g ! j) else timers g ! j)"
  by (auto simp: upd_timer_def nth_list_update)

text \<open>A session replaced by one with the same ID and timer.\<close>

lemma wf_put_same:
  assumes "wf_gstate g" and "GetSession g (s_ID s') = Some s" and "s_timer s' = s_timer s" and "wf_session s'"
  shows "wf_gstate (put_session s' g)"
proof -
  have "wf_sessions (put_session s' g)"
    using assms by (auto simp: wf_gstate_def wf_sessions_def put_session_def)
  moreover have "wf_timers (put_session s' g)"
    using assms by (auto simp: wf_gstate_def wf_timers_def put_session_def GetSession_def split: if_splits)
  ultimately show ?thesis using assms(1) by (simp add: wf_gstate_def)
qed

lemma timer_Stop_nth:
  "j < length (timers g) \<Longrightarrow>
     timers (timer_Stop i g) ! j = (if i = j then (timers g ! j)\<lparr>t_armed := False\<rparr> else timers g ! j)"
  by (simp add: timer_Stop_def upd_timer_nth)

lemma timer_Stop_frame [simp]:
  "sessions (timer_Stop i g) = sessions g" "ExpiredSessionID (timer_Stop i g) = ExpiredSessionID g"
  "g_fs (timer_Stop i g) = g_fs g" "g_config (timer_Stop i g) = g_config g"
  "length (timers (timer_Stop i g)) = length (timers g)"
  by (simp_all add: timer_Stop_def)

lemma wf_upd_timer:
  assumes "wf_gstate g" and "\<And>t. t_ID (f t) = t_ID t" and "\<And>t. t_done (f t) \<le> t_done t"
  shows "wf_gstate (upd_timer i f g)"
proof -
  have "t_done (f t) = 0" if "t_done t = 0" for t using assms(3) [of t] that by simp
  moreover have "t_done (f t) \<le> 1" if "t_done t \<le> 1" for t using assms(3) [of t] that by simp
  ultimately have "wf_timers (upd_timer i f g)"
    using assms(1,2) by (auto simp: wf_gstate_def wf_timers_def upd_timer_nth)
  with assms(1) show ?thesis by (simp add: wf_gstate_def wf_sessions_def)
qed

lemma wf_timer_Stop: "wf_gstate g \<Longrightarrow> wf_gstate (timer_Stop i g)"
  unfolding timer_Stop_def by (rule wf_upd_timer) simp_all

lemma wf_fs [simp]: "wf_gstate (g\<lparr>g_fs := fs\<rparr>) = wf_gstate g"
  by (simp add: wf_gstate_def wf_sessions_def wf_timers_def)

lemma wf_config [simp]: "wf_gstate (g\<lparr>g_config := c\<rparr>) = wf_gstate g"
  by (simp add: wf_gstate_def wf_sessions_def wf_timers_def)

lemma GetSession_frame [simp]:
  "GetSession (g\<lparr>g_fs := fs\<rparr>) = GetSession g" "GetSession (g\<lparr>g_config := c\<rparr>) = GetSession g"
  "GetSession (timer_Stop i g) = GetSession g" "GetSession (upd_timer i f g) = GetSession g"
  by (auto simp: GetSession_def)

text \<open>Discarding an active session never blocks: its end has not been signalled yet.\<close>

lemma Discard_active:
  assumes wf: "wf_gstate g" and s: "GetSession g sid = Some s"
  obtains g' where "Discard s g = Some g'" and "wf_gstate g'" and "GetSession g' = (GetSession g)(sid := None)"
    and "g_fs g' = g_fs g" and "g_config g' = g_config g" and "ExpiredSessionID g' = ExpiredSessionID g"
proof -
  let ?g0 = "g\<lparr>sessions := map_del sid (sessions g)\<rparr>"
  let ?g' = "upd_timer (s_timer s) (\<lambda>t. t\<lparr>t_done := Suc (t_done t)\<rparr>) (timer_Stop (s_timer s) ?g0)"
  note d = wf_gstateD [OF wf s]
  have get: "map_get (sessions g) sid = Some s" using s by (simp add: GetSession_def)
  then have "Discard s g = Some ?g'"
    using d by (simp add: Discard_def Cancel_def Let_def timer_Stop_nth)
  moreover have "wf_timers ?g'"
  proof -
    have o: "s_timer s' \<noteq> s_timer s" if "map_get (sessions g) sid' = Some s'" "sid' \<noteq> sid" for sid' s'
      using wf get that by (auto simp: wf_gstate_def wf_timers_def)
    have nth: "timers ?g' ! i = (if i = s_timer s then (timers g ! i)\<lparr>t_armed := False, t_done := Suc (t_done (timers g ! i))\<rparr>
        else timers g ! i)" if "i < length (timers g)" for i
      using that d(3) by (simp add: upd_timer_nth timer_Stop_nth)
    show ?thesis
      using wf d o by (auto simp: wf_gstate_def wf_timers_def nth split: if_splits)
  qed
  moreover have "wf_sessions ?g'" using wf by (auto simp: wf_gstate_def wf_sessions_def split: if_splits)
  moreover have "GetSession ?g' = (GetSession g)(sid := None)" by (auto simp: GetSession_def)
  ultimately show ?thesis using that [of ?g'] wf by (auto simp: wf_gstate_def)
qed

text \<open>
  The shape of \<^verbatim>\<open>Finish\<close>: the files first, then, if they were written, the table.
\<close>

definition finish_files :: "session_env \<Rightarrow> Session \<Rightarrow> filesys \<Rightarrow> go_error option \<times> filesys" where
  "finish_files env s fs =
     (case save_all env s (map fst (s_A s)) fs of (Some err, fs1) \<Rightarrow> (Some err, fs1)
      | (None, fs1) \<Rightarrow>
        (case SaveSessionMetadata env s (Session_Metadata env s) fs1 of (Some err, fs2) \<Rightarrow> (Some err, fs2)
         | (None, fs2) \<Rightarrow> clean_cache env s fs2))"

lemma Finish_files:
  "Finish env s g =
     (case finish_files env s (g_fs g) of
        (Some err, fs) \<Rightarrow> Some (Some err, (timer_Stop (s_timer s) g)\<lparr>g_fs := fs\<rparr>)
      | (None, fs) \<Rightarrow> map_option (Pair None) (Discard s ((timer_Stop (s_timer s) g)\<lparr>g_fs := fs\<rparr>)))"
  by (auto simp: Finish_def finish_files_def Let_def split: prod.splits option.splits)

lemma Finish_active:
  assumes wf: "wf_gstate g" and s: "GetSession g sid = Some s"
  obtains g' where "Finish env s g = Some (fst (finish_files env s (g_fs g)), g')" and "wf_gstate g'"
    and "g_fs g' = snd (finish_files env s (g_fs g))" and "g_config g' = g_config g"
    and "ExpiredSessionID g' = ExpiredSessionID g"
    and "GetSession g' = (if fst (finish_files env s (g_fs g)) = None then (GetSession g)(sid := None) else GetSession g)"
    and "fst (finish_files env s (g_fs g)) \<noteq> None \<Longrightarrow> \<not> t_armed (timers g' ! s_timer s)"
proof (cases "finish_files env s (g_fs g)")
  case (Pair e fs)
  let ?g1 = "(timer_Stop (s_timer s) g)\<lparr>g_fs := fs\<rparr>"
  have wf1: "wf_gstate ?g1" using wf by (simp add: wf_timer_Stop)
  have s1: "GetSession ?g1 sid = Some s" using s by simp
  show ?thesis
  proof (cases e)
    case None
    obtain g' where "Discard s ?g1 = Some g'" "wf_gstate g'" "GetSession g' = (GetSession ?g1)(sid := None)"
      "g_fs g' = g_fs ?g1" "g_config g' = g_config ?g1" "ExpiredSessionID g' = ExpiredSessionID ?g1"
      using Discard_active [OF wf1 s1] by metis
    then show ?thesis using that [of g'] None Pair by (simp add: Finish_files)
  next
    case (Some err)
    have "\<not> t_armed (timers ?g1 ! s_timer s)"
      using wf_gstateD(3) [OF wf s] by (simp add: timer_Stop_nth)
    then show ?thesis using that [of ?g1] Some Pair wf1 by (simp add: Finish_files)
  qed
qed


section \<open>Paths\<close>

text \<open>
  The files of a session lie under its directory: for cleaned absolute directories, being inside
  is being an extension of the list of path elements.
\<close>

lemma strings_Split_sep: "strings_Split (a @ c # b) c = strings_Split a c @ strings_Split b c"
  by (induction a) (auto split: list.splits simp: append_eq_Cons_conv)

lemma strings_Split_abs_dir:
  assumes "es \<noteq> []" and "\<forall>e \<in> set es. plain_elem e"
  shows "strings_Split (abs_dir es) CHR ''/'' = [] # es"
proof -
  have "strings_Split (strings_Join es ''/'') CHR ''/'' = es"
    using assms by (intro strings_Split_Join) (auto simp: plain_elem_def)
  then show ?thesis by (simp add: abs_dir_def)
qed

lemma inside_abs_dir:
  assumes "xs \<noteq> []" and "ys \<noteq> []" and "\<forall>e \<in> set xs. plain_elem e" and "\<forall>e \<in> set ys. plain_elem e"
  shows "inside (abs_dir xs) (abs_dir ys) \<longleftrightarrow> (\<exists>zs. ys = xs @ zs)"
proof
  note sp = strings_Split_abs_dir [OF assms(1,3)] strings_Split_abs_dir [OF assms(2,4)]
  assume "inside (abs_dir xs) (abs_dir ys)"
  then consider "abs_dir ys = abs_dir xs" | t where "abs_dir ys = abs_dir xs @ CHR ''/'' # t"
    by (auto simp: inside_def strings_HasPrefix_iff)
  then show "\<exists>zs. ys = xs @ zs"
  proof cases
    case 1
    then show ?thesis using sp by simp
  next
    case 2
    then have "strings_Split (abs_dir ys) CHR ''/'' = strings_Split (abs_dir xs) CHR ''/'' @ strings_Split t CHR ''/''"
      by (simp only: strings_Split_sep)
    then show ?thesis using sp by simp
  qed
next
  assume "\<exists>zs. ys = xs @ zs"
  then obtain zs where zs: "ys = xs @ zs" ..
  show "inside (abs_dir xs) (abs_dir ys)"
  proof (cases "zs = []")
    case False
    then have "abs_dir ys = (abs_dir xs @ ''/'') @ strings_Join zs ''/''"
      using zs assms(1) by (simp add: abs_dir_def strings_Join_append)
    then show ?thesis by (auto simp: inside_def strings_HasPrefix_iff)
  qed (simp add: zs inside_def)
qed

text \<open>A session whose directories \<^verbatim>\<open>NewWithID\<close> made under a cleaned absolute spool.\<close>

definition spooled :: "string list \<Rightarrow> Session \<Rightarrow> bool" where
  "spooled spool s \<longleftrightarrow> spool \<noteq> [] \<and> (\<forall>e \<in> set spool. plain_elem e) \<and> plain_elem (s_ID s) \<and>
     s_SessionDir s = filepath_Join [abs_dir spool, s_ID s] \<and>
     s_CacheDir s = filepath_Join [abs_dir spool, s_ID s, ''cache'']"

lemma spooled_dirs:
  assumes "spooled spool s"
  shows "s_SessionDir s = abs_dir (spool @ [s_ID s])" and "s_CacheDir s = abs_dir (spool @ [s_ID s, ''cache''])"
  using assms filepath_Join_abs_dir [of spool "[s_ID s]"] filepath_Join_abs_dir [of spool "[s_ID s, ''cache'']"]
  by (simp_all add: spooled_def plain_elem_def)

lemma spooled_session_json:
  assumes "spooled spool s"
  shows "filepath_Join [s_SessionDir s, ''session.json''] = abs_dir (spool @ [s_ID s, ''session.json''])"
    and "\<not> inside (s_CacheDir s) (filepath_Join [s_SessionDir s, ''session.json''])"
proof -
  have p: "\<forall>e \<in> set (spool @ [s_ID s]). plain_elem e" using assms by (auto simp: spooled_def)
  have "filepath_Join [abs_dir (spool @ [s_ID s]), ''session.json''] = abs_dir ((spool @ [s_ID s]) @ [''session.json''])"
    using p by (intro filepath_Join_abs_dir) (auto simp: plain_elem_def)
  then show j: "filepath_Join [s_SessionDir s, ''session.json''] = abs_dir (spool @ [s_ID s, ''session.json''])"
    by (simp add: spooled_dirs(1) [OF assms])
  have "inside (abs_dir (spool @ [s_ID s, ''cache''])) (abs_dir (spool @ [s_ID s, ''session.json''])) \<longleftrightarrow>
      (\<exists>zs. spool @ [s_ID s, ''session.json''] = (spool @ [s_ID s, ''cache'']) @ zs)"
    using p by (intro inside_abs_dir) (auto simp: plain_elem_def)
  then show "\<not> inside (s_CacheDir s) (filepath_Join [s_SessionDir s, ''session.json''])"
    by (simp add: j spooled_dirs(2) [OF assms])
qed

lemma os_WriteFile_ok: "os_WriteFile os p d fs = (None, fs') \<Longrightarrow> fs' = set_file p d fs"
  by (auto simp: os_WriteFile_def split: option.splits prod.splits)

lemma finish_files_written:
  assumes "spooled spool s" and "finish_files env s fs = (None, fs')"
  shows "\<exists>j. enc_SessionMetadata env (Session_Metadata env s) = Inr j \<and>
           map_get (fs_files fs') (filepath_Join [s_SessionDir s, ''session.json'']) = Some j"
proof -
  obtain fs1 fs2 where w: "SaveSessionMetadata env s (Session_Metadata env s) fs1 = (None, fs2)"
    and c: "clean_cache env s fs2 = (None, fs')"
    using assms(2) by (auto simp: finish_files_def split: prod.splits option.splits)
  from w obtain j where j: "enc_SessionMetadata env (Session_Metadata env s) = Inr j"
    and fs2: "map_get (fs_files fs2) (filepath_Join [s_SessionDir s, ''session.json'']) = Some j"
    by (auto simp: SaveSessionMetadata_def split: sum.splits prod.splits option.splits dest!: os_WriteFile_ok)
  have "\<not> inside (s_CacheDir s) p \<Longrightarrow> map_get (fs_files fs') p = map_get (fs_files fs2) p" for p
    using c by (auto simp: clean_cache_def os_RemoveAll_get split: sum.splits bool.splits)
  with fs2 j spooled_session_json(2) [OF assms(1)] show ?thesis by auto
qed


section \<open>Creating and ending sessions\<close>

lemma NewWithID_created:
  assumes wf: "wf_gstate g" and secs: "\<forall>sec \<in> set secs. usable sec"
    and fresh: "GetSession g (makeSessionIDImpl uuid) = None"
    and new: "NewWithID env now uuid sessionID token spoolDir timeout permissive secs ov g = (s, g')"
  shows "wf_gstate g'" and "GetSession g (s_ID s) = None" and "GetSession g' = (GetSession g)(s_ID s \<mapsto> s)"
    and "t_armed (timers g' ! s_timer s)" and "t_monitor (timers g' ! s_timer s) = Watching"
    and "g_fs g' = g_fs g" and "g_config g' = g_config g" and "ExpiredSessionID g' = ExpiredSessionID g"
proof -
  define sid where "sid = (case map_get (sessions g) sessionID of Some _ \<Rightarrow> makeSessionIDImpl uuid | None \<Rightarrow> sessionID)"
  let ?g1 = "snd (newSessionTimer sid g)"
  have s: "s_ID s = sid" "s_timer s = length (timers g)" "s_A s = []" "s_Secrets s = secs"
    "insp_permissive (s_Insps s) = s_Permissive s" and g': "g' = put_session s ?g1"
    using new by (auto simp: NewWithID_def newSessionTimer_def Let_def sid_def newInspectors_def)
  show none: "GetSession g (s_ID s) = None"
    using fresh s(1) by (auto simp: sid_def GetSession_def split: option.splits)
  show get: "GetSession g' = (GetSession g)(s_ID s \<mapsto> s)"
    using g' by (auto simp: newSessionTimer_def GetSession_def put_session_def)
  show "t_armed (timers g' ! s_timer s)" "t_monitor (timers g' ! s_timer s) = Watching"
    "g_fs g' = g_fs g" "g_config g' = g_config g" "ExpiredSessionID g' = ExpiredSessionID g"
    using g' s(2) by (simp_all add: newSessionTimer_def)
  have "wf_session s" using s secs by (simp add: wf_session_def)
  then have "wf_sessions g'"
    using wf g' s(1) by (auto simp: wf_gstate_def wf_sessions_def put_session_def newSessionTimer_def)
  moreover have "wf_timers g'"
  proof -
    have nth: "timers g' ! i = (if i = length (timers g) then \<lparr>t_ID = sid, t_armed = True, t_done = 0, t_monitor = Watching\<rparr>
        else timers g ! i)" if "i < Suc (length (timers g))" for i
      using g' that by (auto simp: newSessionTimer_def nth_append)
    have len: "length (timers g') = Suc (length (timers g))" using g' by (simp add: newSessionTimer_def)
    have "map_get (sessions g') = (map_get (sessions g))(sid \<mapsto> s)"
      using get s(1) by (simp add: GetSession_def fun_eq_iff)
    moreover have old: False if "map_get (sessions g) sid' = Some s'" "s_timer s' = length (timers g)" for sid' s'
      using wf_gstateD(3) [OF wf, of sid' s'] that by (simp add: GetSession_def)
    ultimately show ?thesis
      using wf s(1,2) none
      by (auto simp: wf_gstate_def wf_timers_def nth len GetSession_def less_Suc_eq dest: old sym)
  qed
  ultimately show "wf_gstate g'"
    using wf g' by (simp add: wf_gstate_def newSessionTimer_def)
qed

text \<open>
  Creating a session never disturbs another one. Whatever ID is asked for, the new session
  gets one that no active session has, it is entered under that ID with a running timer that is
  watched, every other session stays as it was, and the table stays consistent.
\<close>

theorem new_session_is_isolated:
  assumes "wf_gstate g" and "\<forall>sec \<in> set secs. usable sec"
    and "GetSession g (makeSessionIDImpl uuid) = None"
    and "NewWithID env now uuid sessionID token spoolDir timeout permissive secs ov g = (s, g')"
  shows "GetSession g (s_ID s) = None \<and> GetSession g' = (GetSession g)(s_ID s \<mapsto> s) \<and>
         t_ID (timers g' ! s_timer s) = s_ID s \<and> t_armed (timers g' ! s_timer s) \<and>
         t_monitor (timers g' ! s_timer s) = Watching \<and> wf_gstate g'"
  using NewWithID_created [OF assms] wf_gstateD(4) [of g' "s_ID s" s] by simp

text \<open>
  C18. Ending an active session always returns: the signal to its timer goroutine never blocks.
  When it succeeds, exactly this session has left the table and the session report file holds
  the encoded report. When writing fails, the table is unchanged, and the session's timer has
  been stopped: the session will not expire on its own any more.
\<close>

theorem session_end:
  assumes "wf_gstate g" and "GetSession g sid = Some s" and "spooled spool s"
  shows "\<exists>e g'. Finish env s g = Some (e, g') \<and> wf_gstate g' \<and>
     (case e of
        None \<Rightarrow> GetSession g' = (GetSession g)(sid := None) \<and>
          (\<exists>j. enc_SessionMetadata env (Session_Metadata env s) = Inr j \<and>
             map_get (fs_files (g_fs g')) (filepath_Join [s_SessionDir s, ''session.json'']) = Some j)
      | Some _ \<Rightarrow> GetSession g' = GetSession g \<and> \<not> t_armed (timers g' ! s_timer s))"
proof -
  obtain g' where f: "Finish env s g = Some (fst (finish_files env s (g_fs g)), g')" and "wf_gstate g'"
    and fs: "g_fs g' = snd (finish_files env s (g_fs g))"
    and get: "GetSession g' = (if fst (finish_files env s (g_fs g)) = None then (GetSession g)(sid := None) else GetSession g)"
    and arm: "fst (finish_files env s (g_fs g)) \<noteq> None \<Longrightarrow> \<not> t_armed (timers g' ! s_timer s)"
    using Finish_active [OF assms(1,2)] by metis
  moreover have "\<exists>j. enc_SessionMetadata env (Session_Metadata env s) = Inr j \<and>
      map_get (fs_files (g_fs g')) (filepath_Join [s_SessionDir s, ''session.json'']) = Some j"
    if "fst (finish_files env s (g_fs g)) = None"
    using finish_files_written [OF assms(3), of env "g_fs g" "g_fs g'"] that fs by (simp add: prod_eq_iff)
  ultimately show ?thesis by (auto split: option.split)
qed

lemma Finish_ex:
  assumes "wf_gstate g" and "GetSession g sid = Some s"
  shows "\<exists>e g'. Finish env s g = Some (e, g') \<and> wf_gstate g' \<and>
           GetSession g' = (if e = None then (GetSession g)(sid := None) else GetSession g) \<and>
           g_config g' = g_config g \<and> ExpiredSessionID g' = ExpiredSessionID g"
  by (rule Finish_active [OF assms]) blast

lemma finish_each_total:
  assumes "wf_gstate g" and "\<forall>s \<in> set ss. GetSession g (s_ID s) = Some s" and "distinct (map s_ID ss)"
  shows "\<exists>g'. finish_each env ss g = Some g' \<and> wf_gstate g' \<and> dom (GetSession g') \<subseteq> dom (GetSession g) \<and>
           (\<forall>sid. sid \<notin> s_ID ` set ss \<longrightarrow> GetSession g' sid = GetSession g sid)"
  using assms
proof (induction ss arbitrary: g)
  case (Cons s ss)
  then have s: "GetSession g (s_ID s) = Some s" by simp
  obtain e g1 where f: "Finish env s g = Some (e, g1)" and wf1: "wf_gstate g1"
    and get: "GetSession g1 = (if e = None then (GetSession g)(s_ID s := None) else GetSession g)"
    using Finish_ex [OF Cons.prems(1) s] by blast
  have o: "GetSession g1 sid = GetSession g sid" if "sid \<noteq> s_ID s" for sid using that by (simp add: get)
  have d: "dom (GetSession g1) \<subseteq> dom (GetSession g)" by (auto simp: get)
  have "GetSession g1 (s_ID t) = Some t" if "t \<in> set ss" for t
  proof -
    have "s_ID s \<notin> s_ID ` set ss" using Cons.prems(3) by simp
    with that have "s_ID t \<noteq> s_ID s" by (metis imageI)
    moreover have "GetSession g (s_ID t) = Some t" using Cons.prems(2) that by (simp only: list.set insert_iff) blast
    ultimately show ?thesis using o by simp
  qed
  then obtain g' where g': "finish_each env ss g1 = Some g'" "wf_gstate g'" "dom (GetSession g') \<subseteq> dom (GetSession g1)"
    "\<forall>sid. sid \<notin> s_ID ` set ss \<longrightarrow> GetSession g' sid = GetSession g1 sid"
    using Cons.IH [OF wf1] Cons.prems(3) unfolding distinct.simps list.map by blast
  have "finish_each env (s # ss) g = Some g'" using f g'(1) by simp
  moreover have "\<forall>sid. sid \<notin> s_ID ` set (s # ss) \<longrightarrow> GetSession g' sid = GetSession g sid"
    using g'(4) o by simp
  ultimately show ?case using g'(2,3) d by blast
qed auto


section \<open>Concrete sessions\<close>

definition sample_session_env :: session_env where
  "sample_session_env = \<lparr>env_os = no_faults, env_inspectors = (\<lambda>_. [accepting ''deb'', DefaultInspector]),
     enc_SessionMetadata = (\<lambda>sm. Inr (sm_SessionID sm)), enc_Artifact = (\<lambda>a. Inr ''artifact''),
     dec_SessionMetadata = (\<lambda>d. Inl (Errorf ''json'')), env_Version = ''1.0''\<rparr>"

definition empty_gstate :: gstate where
  "empty_gstate = \<lparr>sessions = [], timers = [], ExpiredSessionID = [],
     g_fs = \<lparr>fs_files = [], fs_dirs = []\<rparr>, g_config = zero_config\<rparr>"

definition sample_new :: "Session \<times> gstate" where
  "sample_new = NewWithID sample_session_env 5 ''0123456789abcdef'' ''d7e0'' ''tok'' ''/spool'' 0 False [] no_override empty_gstate"

lemma wf_empty_gstate: "wf_gstate empty_gstate"
  by (simp add: wf_gstate_def wf_sessions_def wf_timers_def empty_gstate_def)

lemma sample_new_created:
  "wf_gstate (snd sample_new)" "GetSession (snd sample_new) ''d7e0'' = Some (fst sample_new)"
proof -
  have n: "NewWithID sample_session_env 5 ''0123456789abcdef'' ''d7e0'' ''tok'' ''/spool'' 0 False [] no_override empty_gstate
      = (fst sample_new, snd sample_new)" by (simp add: sample_new_def)
  have f: "GetSession empty_gstate (makeSessionIDImpl ''0123456789abcdef'') = None"
    by (simp add: GetSession_def empty_gstate_def)
  have i: "s_ID (fst sample_new) = ''d7e0''" by code_simp
  show "wf_gstate (snd sample_new)" "GetSession (snd sample_new) ''d7e0'' = Some (fst sample_new)"
    using NewWithID_created(1,3) [OF wf_empty_gstate _ f n] i by simp_all
qed

theorem new_session_is_isolated_witness:
  "GetSession (snd sample_new) = (GetSession empty_gstate)(s_ID (fst sample_new) \<mapsto> fst sample_new)"
proof -
  have "NewWithID sample_session_env 5 ''0123456789abcdef'' ''d7e0'' ''tok'' ''/spool'' 0 False [] no_override empty_gstate
      = (fst sample_new, snd sample_new)" by (simp add: sample_new_def)
  moreover have "GetSession empty_gstate (makeSessionIDImpl ''0123456789abcdef'') = None"
    by (simp add: GetSession_def empty_gstate_def)
  ultimately show ?thesis
    using new_session_is_isolated [OF wf_empty_gstate, of "[]"] by simp
qed

theorem session_end_witness:
  "\<exists>g'. Finish sample_session_env (fst sample_new) (snd sample_new) = Some (None, g') \<and>
     GetSession g' = (GetSession (snd sample_new))(''d7e0'' := None)"
proof -
  have "spooled [''spool''] (fst sample_new)" by code_simp
  then obtain e g' where f: "Finish sample_session_env (fst sample_new) (snd sample_new) = Some (e, g')"
    and c: "case e of None \<Rightarrow> GetSession g' = (GetSession (snd sample_new))(''d7e0'' := None) \<and>
          (\<exists>j. enc_SessionMetadata sample_session_env (Session_Metadata sample_session_env (fst sample_new)) = Inr j \<and>
             map_get (fs_files (g_fs g')) (filepath_Join [s_SessionDir (fst sample_new), ''session.json'']) = Some j)
      | Some _ \<Rightarrow> GetSession g' = GetSession (snd sample_new) \<and> \<not> t_armed (timers g' ! s_timer (fst sample_new))"
    using session_end [OF sample_new_created, of "[''spool'']" sample_session_env] by blast
  have "map_option fst (Finish sample_session_env (fst sample_new) (snd sample_new)) = Some None" by code_simp
  with f have "e = None" by simp
  with f c show ?thesis by simp
qed

end
