(* ===== verification/Spool.thy ===== *)
theory Spool
  imports Session_Props
begin

text \<open>
  Properties of the file spool: a saved download is found under its own digest, and removing the
  resources of a session touches nothing outside its directory.
\<close>

section \<open>Names in the spool\<close>

lemma hex_no_slash: "CHR ''/'' \<notin> set (hex_EncodeToString d)"
proof
  assume "CHR ''/'' \<in> set (hex_EncodeToString d)"
  then have "from_hex CHR ''/'' \<noteq> None" using hex_digits_encode by blast
  then show False by (simp add: from_hex_def)
qed

lemma plain_digest_file: "CHR ''/'' \<notin> set ext \<Longrightarrow> 2 < length ext \<Longrightarrow> plain_elem (Sha256Digest_String d @ ext)"
  using hex_no_slash [of d]
  by (auto simp: plain_elem_def Sha256Digest_String_def dest!: arg_cong [where f = length])

definition data_file :: "string \<Rightarrow> Sha256Digest \<Rightarrow> string" where
  "data_file dir d = filepath_Join [dir, Sha256Digest_String d @ ''.data'']"

lemma data_file_abs:
  assumes "es \<noteq> []" and "\<forall>e \<in> set es. plain_elem e"
  shows "data_file (abs_dir es) d = abs_dir (es @ [Sha256Digest_String d @ ''.data''])"
  unfolding data_file_def using assms by (intro filepath_Join_abs_dir) (auto intro: plain_digest_file)

lemma abs_dir_inj:
  assumes "es \<noteq> []" "\<forall>e \<in> set es. plain_elem e" "fs \<noteq> []" "\<forall>e \<in> set fs. plain_elem e" "abs_dir es = abs_dir fs"
  shows "es = fs"
  using strings_Split_abs_dir [OF assms(1,2)] strings_Split_abs_dir [OF assms(3,4)] assms(5)
  by (metis list.inject)

lemma data_file_inj:
  assumes "es \<noteq> []" and "\<forall>e \<in> set es. plain_elem e" and "data_file (abs_dir es) d = data_file (abs_dir es) d'"
    and "wf_sha256 d" and "wf_sha256 d'"
  shows "d = d'"
proof -
  have p: "\<forall>e \<in> set (es @ [Sha256Digest_String x @ ''.data'']). plain_elem e" for x
    using assms(2) by (auto intro: plain_digest_file)
  have "es @ [Sha256Digest_String d @ ''.data''] = es @ [Sha256Digest_String d' @ ''.data'']"
    using assms(3) abs_dir_inj [OF _ p _ p] by (simp add: data_file_abs [OF assms(1,2)])
  then have "Sha256Digest_String d = Sha256Digest_String d'" by simp
  with assms(4,5) show ?thesis by (auto simp: wf_sha256_def intro: sha256.to_string_inj)
qed

section \<open>Saving downloads\<close>

text \<open>
  In a directory of the spool every data file is stored under the digest of its content; the
  hash function is an argument.
\<close>

definition content_addressed :: "(string \<Rightarrow> Sha256Digest) \<Rightarrow> string \<Rightarrow> filesys \<Rightarrow> bool" where
  "content_addressed sha dir fs \<longleftrightarrow>
     (\<forall>d c. wf_sha256 d \<longrightarrow> map_get (fs_files fs) (data_file dir d) = Some c \<longrightarrow> sha c = d)"

lemma os_Remove_get:
  "map_get (fs_files (snd (os_Remove os p fs))) q =
     (if q = p \<and> fa_remove os p = None then None else map_get (fs_files fs) q)"
  by (auto simp: os_Remove_def is_file_def split: option.splits)

lemma SaveData_cases:
  assumes "SaveData env a fs = (e, fs')"
  obtains fs1 where "fs_files fs1 = fs_files fs"
    and "e \<noteq> None \<or> (\<exists>b. os_Stat (env_os env) fs1 (data_file (a_AssetDir a) (md_Sha256 (a_Metadata a))) = Inr b)"
    and "fs' = removeTempFile env (a_Tempfile a) fs1"
  | fs1 fs2 where "fs_files fs1 = fs_files fs"
    and "errors_Is (projl (os_Stat (env_os env) fs1 (data_file (a_AssetDir a) (md_Sha256 (a_Metadata a))))) os_ErrNotExist"
    and "MoveFile (env_os env) (a_Tempfile a) (data_file (a_AssetDir a) (md_Sha256 (a_Metadata a))) fs1 = (e, fs2)"
    and "fs' = removeTempFile env (a_Tempfile a) fs2"
proof -
  let ?dest = "data_file (a_AssetDir a) (md_Sha256 (a_Metadata a))"
  obtain m fs1 where mk: "os_MkdirAll (env_os env) (filepath_Dir ?dest) fs = (m, fs1)" by fastforce
  have files: "fs_files fs1 = fs_files fs" using os_MkdirAll_files [of "env_os env" "filepath_Dir ?dest" fs] mk by simp
  show ?thesis
  proof (cases m)
    case (Some err)
    then show ?thesis using assms mk files that(1) [of fs1]
      by (auto simp add: SaveData_def data_file_def Let_def)
  next
    case None
    show ?thesis
    proof (cases "os_Stat (env_os env) fs1 ?dest")
      case (Inr b)
      then show ?thesis using assms mk None files that(1) [of fs1]
        by (simp add: SaveData_def data_file_def Let_def)
    next
      case (Inl err)
      show ?thesis
      proof (cases "errors_Is err os_ErrNotExist")
        case True
        then show ?thesis using assms mk None Inl files that(2) [of fs1]
          by (simp add: SaveData_def data_file_def Let_def split: prod.splits)
      next
        case False
        then show ?thesis using assms mk None Inl files that(1) [of fs1]
          by (auto simp add: SaveData_def data_file_def Let_def)
      qed
    qed
  qed
qed

lemma MoveFile_dest:
  assumes "MoveFile os old new fs = (e, fs')" and "old \<noteq> new" and "fa_remove os new = None"
  shows "map_get (fs_files fs') new \<in> {None, map_get (fs_files fs) new, map_get (fs_files fs) old}"
    and "q \<noteq> old \<Longrightarrow> q \<noteq> new \<Longrightarrow> map_get (fs_files fs') q = map_get (fs_files fs) q"
  using assms
  by (auto simp: MoveFile_def os_Rename_def os_ReadFile_def os_Remove_def
      split: option.splits sum.splits prod.splits if_splits)


text \<open>
  C19. The spool stays content-addressed: saving a download whose temporary file has the recorded
  digest leaves every data file of the directory stored under the digest of its content, whether
  the save succeeds or fails half-way, as long as a partial copy can be removed again. After a
  successful save nothing but the temporary file and the data file has changed.
\<close>

theorem save_data_content_addressed:
  assumes dir: "a_AssetDir a = abs_dir es" "es \<noteq> []" "\<forall>e \<in> set es. plain_elem e"
    and tmp: "\<And>d. a_Tempfile a \<noteq> data_file (a_AssetDir a) d"
    and hash: "\<And>c. map_get (fs_files fs) (a_Tempfile a) = Some c \<Longrightarrow> sha c = md_Sha256 (a_Metadata a)"
    and sha: "wf_sha256 (md_Sha256 (a_Metadata a))"
    and addr: "content_addressed sha (a_AssetDir a) fs"
    and rm: "fa_remove (env_os env) (data_file (a_AssetDir a) (md_Sha256 (a_Metadata a))) = None"
    and save: "SaveData env a fs = (e, fs')"
  shows "content_addressed sha (a_AssetDir a) fs' \<and>
         (\<forall>q. q \<noteq> a_Tempfile a \<longrightarrow> q \<noteq> data_file (a_AssetDir a) (md_Sha256 (a_Metadata a)) \<longrightarrow>
            map_get (fs_files fs') q = map_get (fs_files fs) q)"
proof -
  let ?dest = "data_file (a_AssetDir a) (md_Sha256 (a_Metadata a))"
  have frame: "map_get (fs_files fs') q = map_get (fs_files fs) q" if "q \<noteq> a_Tempfile a" "q \<noteq> ?dest" for q
    by (rule SaveData_cases [OF save])
       (use that MoveFile_dest(2) [OF _ tmp rm] in \<open>auto simp: removeTempFile_def os_Remove_get\<close>)
  have dest: "map_get (fs_files fs') ?dest \<in> {None, map_get (fs_files fs) ?dest, map_get (fs_files fs) (a_Tempfile a)}"
  proof (rule SaveData_cases [OF save])
    fix fs1 assume "fs_files fs1 = fs_files fs" "fs' = removeTempFile env (a_Tempfile a) fs1"
    then show ?thesis by (auto simp: removeTempFile_def os_Remove_get)
  next
    fix fs1 fs2
    assume "fs_files fs1 = fs_files fs" and mv: "MoveFile (env_os env) (a_Tempfile a) ?dest fs1 = (e, fs2)"
      and "fs' = removeTempFile env (a_Tempfile a) fs2"
    then show ?thesis
      using MoveFile_dest(1) [OF mv tmp rm] by (auto simp: removeTempFile_def os_Remove_get)
  qed
  have "sha c = d" if d: "wf_sha256 d" and c: "map_get (fs_files fs') (data_file (a_AssetDir a) d) = Some c" for d c
  proof (cases "d = md_Sha256 (a_Metadata a)")
    case True
    then show ?thesis using dest c hash addr sha by (auto simp: content_addressed_def)
  next
    case False
    then have "data_file (a_AssetDir a) d \<noteq> ?dest" using data_file_inj [OF dir(2,3)] d sha dir(1) by auto
    then show ?thesis using frame [of "data_file (a_AssetDir a) d"] tmp [of d] c d addr
      by (auto simp: content_addressed_def)
  qed
  then show ?thesis using frame by (auto simp: content_addressed_def)
qed

definition sample_download :: Artifact where
  "sample_download = NewArtifact\<lparr>a_AssetDir := ''/spool/d7e0'', a_Tempfile := ''/tmp/fetch-1''\<rparr>"

definition sample_spool :: filesys where
  "sample_spool = \<lparr>fs_files = [(''/tmp/fetch-1'', ''hello'')], fs_dirs = [''/tmp'', ''/spool'']\<rparr>"

lemma sample_tempfile: "a_Tempfile sample_download \<noteq> data_file (a_AssetDir sample_download) d"
proof -
  have "data_file (abs_dir [''spool'', ''d7e0'']) d = abs_dir ([''spool'', ''d7e0''] @ [Sha256Digest_String d @ ''.data''])"
    by (rule data_file_abs) (simp_all add: plain_elem_def)
  then show ?thesis by (simp add: sample_download_def abs_dir_def)
qed

theorem save_data_content_addressed_witness:
  "content_addressed (\<lambda>_. replicate 32 (char_of (0 :: nat))) (a_AssetDir sample_download)
     (snd (SaveData sample_session_env sample_download sample_spool))"
proof (rule conjunct1 [OF save_data_content_addressed [of _ "[''spool'', ''d7e0'']"]])
  show "a_AssetDir sample_download = abs_dir [''spool'', ''d7e0'']" by code_simp
  show "\<forall>e \<in> set [''spool'', ''d7e0'']. plain_elem e" by code_simp
  show "a_Tempfile sample_download \<noteq> data_file (a_AssetDir sample_download) d" for d
    by (rule sample_tempfile)
  have "map_get (fs_files sample_spool) (data_file (a_AssetDir sample_download) d) = None" for d
    using sample_tempfile [of d] by (simp add: sample_spool_def) (simp add: sample_download_def)
  then show "content_addressed (\<lambda>_. replicate 32 (char_of (0 :: nat))) (a_AssetDir sample_download) sample_spool"
    by (simp add: content_addressed_def)
  show "SaveData sample_session_env sample_download sample_spool =
      (fst (SaveData sample_session_env sample_download sample_spool), snd (SaveData sample_session_env sample_download sample_spool))"
    by simp
qed (simp_all add: sample_download_def NewArtifact_def zero_Metadata_def wf_sha256_def sample_session_env_def no_faults_def)

section \<open>Removing resources\<close>

text \<open>
  C20. Removing the resources of a session with an ordinary ID removes every file of that session
  and no other: a file under the spool belongs to the session exactly when its path continues the
  session's directory.
\<close>

theorem remove_resources_is_confined:
  assumes spool: "spool \<noteq> []" "\<forall>e \<in> set spool. plain_elem e" and sid: "plain_elem sid"
    and rm: "RemoveResources env (abs_dir spool) sid fs = (None, fs')"
    and p: "ps \<noteq> []" "\<forall>e \<in> set ps. plain_elem e"
  shows "map_get (fs_files fs') (abs_dir ps) =
           (if \<exists>rest. ps = spool @ [sid] @ rest then None else map_get (fs_files fs) (abs_dir ps))"
proof -
  have d: "filepath_Join [abs_dir spool, sid] = abs_dir (spool @ [sid])"
    using spool sid by (intro filepath_Join_abs_dir) auto
  have "inside (abs_dir (spool @ [sid])) (abs_dir ps) \<longleftrightarrow> (\<exists>rest. ps = (spool @ [sid]) @ rest)"
    using spool sid p by (intro inside_abs_dir) auto
  then show ?thesis
    using os_RemoveAll_get [OF rm [unfolded RemoveResources_def d], of "abs_dir ps"] by simp
qed


theorem remove_resources_is_confined_witness:
  "map_get (fs_files (snd (RemoveResources sample_session_env ''/spool'' ''d7e0''
     \<lparr>fs_files = [(''/spool/d7e0/session.json'', ''a''), (''/spool/d7e0b/session.json'', ''b'')], fs_dirs = []\<rparr>)))
     ''/spool/d7e0b/session.json'' = Some ''b''"
proof -
  let ?fs = "\<lparr>fs_files = [(''/spool/d7e0/session.json'', ''a''), (''/spool/d7e0b/session.json'', ''b'')], fs_dirs = []\<rparr>"
  let ?r = "RemoveResources sample_session_env (abs_dir [''spool'']) ''d7e0'' ?fs"
  have "fst ?r = None" by code_simp
  then have "?r = (None, snd ?r)" by (simp add: prod_eq_iff)
  then have "map_get (fs_files (snd ?r)) (abs_dir [''spool'', ''d7e0b'', ''session.json'']) =
      (if \<exists>rest. [''spool'', ''d7e0b'', ''session.json''] = [''spool''] @ [''d7e0''] @ rest then None
       else map_get (fs_files ?fs) (abs_dir [''spool'', ''d7e0b'', ''session.json'']))"
    by (intro remove_resources_is_confined) (simp_all add: plain_elem_def)
  then show ?thesis by (simp add: abs_dir_def)
qed

end
