(* ===== verification/Regex.thy ===== *)
theory Regex
  imports Fetch_Prelude
begin

text \<open>
  The regular expressions the inspectors use, with the submatches of package \<^verbatim>\<open>regexp\<close>. A search
  returns the leftmost match and, among those that start there, the one a backtracking engine
  finds first (alternatives from left to right, repetitions greedy); a group that takes no part in
  the match is the empty string, and a group in a repetition has its last value.

  \<^theory_text>\<open>rx_match\<close> lists the ways to match a prefix, in that order, with the groups and the remaining
  text. The anchors \<^verbatim>\<open>^\<close> and \<^verbatim>\<open>$\<close> only occur at the ends of the patterns of the sources: they are
  arguments of the search.
\<close>

datatype rx =
    Eps
  | Cls "char \<Rightarrow> bool"
  | Seq rx rx
  | Alt rx rx
  | Star rx
  | Grp rx

fun rx_groups :: "rx \<Rightarrow> nat" where
  "rx_groups Eps = 0"
| "rx_groups (Cls p) = 0"
| "rx_groups (Seq a b) = rx_groups a + rx_groups b"
| "rx_groups (Alt a b) = rx_groups a + rx_groups b"
| "rx_groups (Star a) = rx_groups a"
| "rx_groups (Grp a) = Suc (rx_groups a)"

type_synonym rx_result = "(string list \<times> string) list"

text \<open>A greedy repetition; an iteration that consumes nothing is not repeated.\<close>

function rx_star :: "(string \<Rightarrow> rx_result) \<Rightarrow> string list \<Rightarrow> string \<Rightarrow> rx_result" where
  "rx_star f g s =
     concat (map (\<lambda>(g1, r). if length r < length s then rx_star f g1 r else []) (f s)) @ [(g, s)]"
  by pat_completeness auto
termination
  by (relation "measure (\<lambda>(f, g, s). length s)") auto

declare rx_star.simps [simp del]

fun rx_match :: "rx \<Rightarrow> string \<Rightarrow> rx_result" where
  "rx_match Eps s = [([], s)]"
| "rx_match (Cls p) s = (case s of c # r \<Rightarrow> if p c then [([], r)] else [] | [] \<Rightarrow> [])"
| "rx_match (Seq a b) s = concat (map (\<lambda>(g1, r1). map (\<lambda>(g2, r2). (g1 @ g2, r2)) (rx_match b r1)) (rx_match a s))"
| "rx_match (Alt a b) s =
     map (\<lambda>(g, r). (g @ replicate (rx_groups b) [], r)) (rx_match a s) @
     map (\<lambda>(g, r). (replicate (rx_groups a) [] @ g, r)) (rx_match b s)"
| "rx_match (Star a) s = rx_star (rx_match a) (replicate (rx_groups a) []) s"
| "rx_match (Grp a) s = map (\<lambda>(g, r). (take (length s - length r) s # g, r)) (rx_match a s)"

definition rx_at :: "bool \<Rightarrow> rx \<Rightarrow> string \<Rightarrow> string list option" where
  "rx_at to_end x s =
     (case filter (\<lambda>(g, r). \<not> to_end \<or> r = []) (rx_match x s) of
        [] \<Rightarrow> None | (g, r) # _ \<Rightarrow> Some (take (length s - length r) s # g))"

text \<open>The whole match followed by the groups; the empty list for no match, as in the library.\<close>

fun rx_search :: "bool \<Rightarrow> rx \<Rightarrow> string \<Rightarrow> string list option" where
  "rx_search to_end x s =
     (case rx_at to_end x s of Some m \<Rightarrow> Some m
      | None \<Rightarrow> (case s of [] \<Rightarrow> None | _ # r \<Rightarrow> rx_search to_end x r))"

declare rx_search.simps [simp del]

definition FindStringSubmatch :: "bool \<Rightarrow> rx \<Rightarrow> bool \<Rightarrow> string \<Rightarrow> string list" where
  "FindStringSubmatch from_start x to_end s =
     (case (if from_start then rx_at to_end x s else rx_search to_end x s) of None \<Rightarrow> [] | Some m \<Rightarrow> m)"

definition MatchString :: "bool \<Rightarrow> rx \<Rightarrow> bool \<Rightarrow> string \<Rightarrow> bool" where
  "MatchString from_start x to_end s \<longleftrightarrow> FindStringSubmatch from_start x to_end s \<noteq> []"

section \<open>Pieces of patterns\<close>

fun lit :: "string \<Rightarrow> rx" where
  "lit [] = Eps"
| "lit [c] = Cls (\<lambda>x. x = c)"
| "lit (c # cs) = Seq (Cls (\<lambda>x. x = c)) (lit cs)"

fun rx_seq :: "rx list \<Rightarrow> rx" where
  "rx_seq [] = Eps"
| "rx_seq [x] = x"
| "rx_seq (x # xs) = Seq x (rx_seq xs)"

definition rx_plus :: "rx \<Rightarrow> rx" where "rx_plus x = Seq x (Star x)"

fun rx_times :: "nat \<Rightarrow> rx \<Rightarrow> rx" where
  "rx_times 0 x = Eps"
| "rx_times (Suc n) x = Seq x (rx_times n x)"

definition between :: "char \<Rightarrow> int \<Rightarrow> int \<Rightarrow> bool" where
  "between c lo hi \<longleftrightarrow> lo \<le> of_char c \<and> of_char c \<le> hi"

definition is_lower :: "char \<Rightarrow> bool" where "is_lower c = between c 97 122"

definition is_upper :: "char \<Rightarrow> bool" where "is_upper c = between c 65 90"

definition is_digit :: "char \<Rightarrow> bool" where "is_digit c = between c 48 57"

definition is_word :: "char \<Rightarrow> bool" where
  "is_word c \<longleftrightarrow> is_lower c \<or> is_upper c \<or> is_digit c \<or> c = CHR ''_''"

definition is_hex :: "char \<Rightarrow> bool" where "is_hex c \<longleftrightarrow> is_digit c \<or> between c 97 102"

abbreviation word_or :: "string \<Rightarrow> rx" where
  "word_or cs \<equiv> Cls (\<lambda>c. is_word c \<or> c \<in> set cs)"

definition any_char :: rx where "any_char = Cls (\<lambda>c. c \<noteq> CHR 0x0A)"

section \<open>The language of a pattern\<close>

inductive rx_lang :: "rx \<Rightarrow> string \<Rightarrow> bool" where
  Eps: "rx_lang Eps []"
| Cls: "p c \<Longrightarrow> rx_lang (Cls p) [c]"
| Seq: "rx_lang a u \<Longrightarrow> rx_lang b v \<Longrightarrow> rx_lang (Seq a b) (u @ v)"
| Alt1: "rx_lang a u \<Longrightarrow> rx_lang (Alt a b) u"
| Alt2: "rx_lang b u \<Longrightarrow> rx_lang (Alt a b) u"
| Star0: "rx_lang (Star a) []"
| Star1: "rx_lang a u \<Longrightarrow> rx_lang (Star a) v \<Longrightarrow> rx_lang (Star a) (u @ v)"
| Grp: "rx_lang a u \<Longrightarrow> rx_lang (Grp a) u"

inductive_simps rx_lang_simps [simp]:
  "rx_lang Eps w" "rx_lang (Cls p) w" "rx_lang (Seq a b) w" "rx_lang (Alt a b) w" "rx_lang (Grp a) w"

lemma rx_lang_lit [simp]: "rx_lang (lit s) w \<longleftrightarrow> w = s"
  by (induction s arbitrary: w rule: lit.induct) auto

lemma rx_lang_Star_Cls: "rx_lang (Star (Cls p)) w \<longleftrightarrow> list_all p w"
proof
  have "rx_lang x w \<Longrightarrow> x = Star (Cls p) \<Longrightarrow> list_all p w" for x
    by (induction rule: rx_lang.induct) auto
  then show "rx_lang (Star (Cls p)) w \<Longrightarrow> list_all p w" by blast
next
  show "list_all p w \<Longrightarrow> rx_lang (Star (Cls p)) w"
  proof (induction w)
    case (Cons c w)
    then have "rx_lang (Star (Cls p)) ([c] @ w)" by (intro rx_lang.Star1) auto
    then show ?case by simp
  qed (rule rx_lang.Star0)
qed

lemma rx_lang_Seq_Cls: "rx_lang (Seq (Cls p) b) w \<longleftrightarrow> (\<exists>c v. w = c # v \<and> p c \<and> rx_lang b v)"
  by auto (metis append_Cons append_Nil)

lemma rx_lang_plus_Cls [simp]: "rx_lang (rx_plus (Cls p)) w \<longleftrightarrow> w \<noteq> [] \<and> list_all p w"
  unfolding rx_plus_def rx_lang_Seq_Cls rx_lang_Star_Cls by (cases w) auto

lemma rx_lang_times_Cls [simp]: "rx_lang (rx_times n (Cls p)) w \<longleftrightarrow> length w = n \<and> list_all p w"
proof (induction n arbitrary: w)
  case (Suc n)
  then show ?case unfolding rx_times.simps rx_lang_Seq_Cls by (cases w) auto
qed auto

lemma rx_lang_seq_Cons [simp]: "xs \<noteq> [] \<Longrightarrow> rx_lang (rx_seq (x # xs)) w \<longleftrightarrow> (\<exists>u v. w = u @ v \<and> rx_lang x u \<and> rx_lang (rx_seq xs) v)"
  by (cases xs) auto

text \<open>A non-empty iteration suffices for a repetition.\<close>

lemma rx_lang_Star_cases:
  assumes "rx_lang (Star a) w"
  shows "w = [] \<or> (\<exists>u v. u \<noteq> [] \<and> w = u @ v \<and> rx_lang a u \<and> rx_lang (Star a) v)"
proof -
  have "rx_lang x w \<Longrightarrow> x = Star a \<Longrightarrow> w = [] \<or> (\<exists>u v. u \<noteq> [] \<and> w = u @ v \<and> rx_lang a u \<and> rx_lang (Star a) v)" for x w
  proof (induction rule: rx_lang.induct)
    case (Star1 b u v)
    then show ?case by (cases "u = []") auto
  qed simp_all
  with assms show ?thesis by blast
qed

section \<open>The search is correct\<close>

lemma rx_star_sound:
  assumes f: "\<forall>s g r. (g, r) \<in> set (f s) \<longrightarrow> (\<exists>u. s = u @ r \<and> rx_lang a u)"
  shows "(g', r) \<in> set (rx_star f g s) \<Longrightarrow> \<exists>u. s = u @ r \<and> rx_lang (Star a) u"
  using f
proof (induction f g s rule: rx_star.induct)
  case (1 f g s)
  from "1.prems"(1) consider "(g', r) = (g, s)"
    | g1 r1 where "(g1, r1) \<in> set (f s)" "length r1 < length s" "(g', r) \<in> set (rx_star f g1 r1)"
    by (subst (asm) rx_star.simps) (auto split: if_splits)
  then show ?case
  proof cases
    case 2
    from "1.IH" [OF 2(1) refl 2(2,3) "1.prems"(2)] obtain v where v: "r1 = v @ r" "rx_lang (Star a) v" by blast
    from "1.prems"(2) 2(1) obtain u where "s = u @ r1" "rx_lang a u" by blast
    with v show ?thesis by (intro exI [of _ "u @ v"]) (auto intro: rx_lang.Star1)
  qed (auto intro: rx_lang.Star0)
qed

lemma rx_star_complete:
  assumes f: "\<And>u r. rx_lang a u \<Longrightarrow> \<exists>g. (g, r) \<in> set (f (u @ r))"
  shows "rx_lang (Star a) u \<Longrightarrow> \<exists>g'. (g', r) \<in> set (rx_star f g (u @ r))"
proof (induction "length u" arbitrary: u g rule: less_induct)
  case less
  show ?case
  proof (cases "u = []")
    case True
    then show ?thesis by (subst rx_star.simps) auto
  next
    case False
    with rx_lang_Star_cases [OF less.prems] obtain v w
      where v: "v \<noteq> []" "u = v @ w" "rx_lang a v" "rx_lang (Star a) w" by blast
    from f [OF v(3), of "w @ r"] obtain g1 where g1: "(g1, w @ r) \<in> set (f (v @ w @ r))" by blast
    from less.hyps [of w g1] v obtain g' where "(g', r) \<in> set (rx_star f g1 (w @ r))" by auto
    with g1 v(1,2) have "(g', r) \<in> set (concat (map (\<lambda>(g1, t). if length t < length (u @ r) then rx_star f g1 t else []) (f (u @ r))))"
      by (auto intro!: bexI [of _ "(g1, w @ r)"])
    then show ?thesis by (subst rx_star.simps, simp only: set_append Un_iff) blast
  qed
qed

lemma rx_match_sound: "(g, r) \<in> set (rx_match x s) \<Longrightarrow> \<exists>u. s = u @ r \<and> rx_lang x u"
proof (induction x arbitrary: g r s)
  case (Star a)
  then show ?case using rx_star_sound [of "rx_match a" a g r "replicate (rx_groups a) []" s] by simp
next
  case (Seq a b)
  then show ?case by fastforce
next
  case (Alt a b)
  then show ?case by fastforce
next
  case (Grp a)
  then show ?case by fastforce
qed (auto split: list.splits if_splits)

lemma rx_match_complete: "rx_lang x u \<Longrightarrow> \<exists>g. (g, r) \<in> set (rx_match x (u @ r))"
proof (induction x arbitrary: u r)
  case (Seq a b)
  from Seq.prems obtain v w where v: "u = v @ w" "rx_lang a v" "rx_lang b w" by auto
  from Seq.IH(1) [OF v(2), of "w @ r"] obtain g1 where "(g1, w @ r) \<in> set (rx_match a (v @ w @ r))" by blast
  moreover from Seq.IH(2) [OF v(3), of r] obtain g2 where "(g2, r) \<in> set (rx_match b (w @ r))" by blast
  ultimately show ?case using v(1) by force
next
  case (Alt a b)
  from Alt.prems consider "rx_lang a u" | "rx_lang b u" by auto
  then show ?case
  proof cases
    case 1
    from Alt.IH(1) [OF 1, of r] show ?thesis by force
  next
    case 2
    from Alt.IH(2) [OF 2, of r] show ?thesis by force
  qed
next
  case (Star a)
  from rx_star_complete [of a "rx_match a" u r "replicate (rx_groups a) []"] Star show ?case by simp
next
  case (Grp a)
  then have "rx_lang a u" by simp
  from Grp.IH [OF this, of r] show ?case by force
qed auto

lemma rx_at_end_iff: "rx_at True x s \<noteq> None \<longleftrightarrow> rx_lang x s"
proof -
  have "filter (\<lambda>(g, r). r = []) (rx_match x s) \<noteq> [] \<longleftrightarrow> (\<exists>g. (g, []) \<in> set (rx_match x s))"
    by (auto simp: filter_empty_conv)
  also have "\<dots> \<longleftrightarrow> rx_lang x s" using rx_match_sound [of _ "[]" x s] rx_match_complete [of x s "[]"] by auto
  finally show ?thesis by (auto simp: rx_at_def split: list.splits)
qed

text \<open>An anchored search decides the language; one that may start anywhere decides its suffixes.\<close>

lemma MatchString_whole: "MatchString True x True s \<longleftrightarrow> rx_lang x s"
  using rx_at_end_iff [of x s]
  by (auto simp: MatchString_def FindStringSubmatch_def rx_at_def split: option.splits list.splits)

lemma rx_search_end_iff: "rx_search True x s \<noteq> None \<longleftrightarrow> (\<exists>u v. s = u @ v \<and> rx_lang x v)"
proof (induction True x s rule: rx_search.induct)
  case (1 x s)
  show ?case
  proof (cases s)
    case Nil
    then show ?thesis using rx_at_end_iff [of x s] by (subst rx_search.simps) (auto split: option.splits)
  next
    case (Cons c r)
    have "(\<exists>u v. s = u @ v \<and> rx_lang x v) \<longleftrightarrow> rx_lang x s \<or> (\<exists>u v. r = u @ v \<and> rx_lang x v)"
      unfolding Cons by (metis append_Cons append_Nil neq_Nil_conv list.inject)
    then show ?thesis
      using 1 Cons rx_at_end_iff [of x s] by (subst rx_search.simps) (auto split: option.splits)
  qed
qed

lemma rx_search_nonempty: "rx_search b x s \<noteq> Some []"
proof (induction s)
  case (Cons c s)
  then show ?case by (subst rx_search.simps) (auto simp: rx_at_def split: option.splits list.splits)
qed (subst rx_search.simps, auto simp: rx_at_def split: option.splits list.splits)

lemma MatchString_suffix: "MatchString False x True s \<longleftrightarrow> (\<exists>u v. s = u @ v \<and> rx_lang x v)"
  using rx_search_end_iff [of x s] rx_search_nonempty [of True x s]
  by (auto simp: MatchString_def FindStringSubmatch_def split: option.splits)


text \<open>A match always has a value for every group.\<close>

lemma rx_star_groups:
  assumes "\<forall>s g r. (g, r) \<in> set (f s) \<longrightarrow> length g = n" and "length g0 = n"
  shows "(g, r) \<in> set (rx_star f g0 s) \<Longrightarrow> length g = n"
  using assms
proof (induction f g0 s rule: rx_star.induct)
  case (1 f g0 s)
  from "1.prems"(1) consider "(g, r) = (g0, s)"
    | g1 r1 where "(g1, r1) \<in> set (f s)" "length r1 < length s" "(g, r) \<in> set (rx_star f g1 r1)"
    by (subst (asm) rx_star.simps) (auto split: if_splits)
  then show ?case
  proof cases
    case 2
    with "1.prems"(2) have "length g1 = n" by blast
    with "1.IH" [OF 2(1) refl 2(2,3) "1.prems"(2)] show ?thesis by blast
  qed (use "1.prems"(3) in simp)
qed

lemma rx_match_groups: "(g, r) \<in> set (rx_match x s) \<Longrightarrow> length g = rx_groups x"
proof (induction x arbitrary: g r s)
  case (Star a)
  then show ?case using rx_star_groups [of "rx_match a" "rx_groups a" "replicate (rx_groups a) []" g r s] by simp
next
  case (Seq a b)
  then show ?case by fastforce
next
  case (Alt a b)
  then show ?case by fastforce
next
  case (Grp a)
  then show ?case by fastforce
qed (auto split: list.splits if_splits)

lemma rx_at_groups: "rx_at b x s = Some m \<Longrightarrow> length m = Suc (rx_groups x)"
proof -
  assume "rx_at b x s = Some m"
  then obtain g r rest where f: "filter (\<lambda>(g, r). \<not> b \<or> r = []) (rx_match x s) = (g, r) # rest" and m: "length m = Suc (length g)"
    by (auto simp: rx_at_def split: list.splits)
  then have "(g, r) \<in> set (filter (\<lambda>(g, r). \<not> b \<or> r = []) (rx_match x s))" by simp
  then have "(g, r) \<in> set (rx_match x s)" by simp
  with m show ?thesis by (simp add: rx_match_groups)
qed

lemma rx_search_groups: "rx_search b x s = Some m \<Longrightarrow> length m = Suc (rx_groups x)"
proof (induction s)
  case (Cons c s)
  then show ?case by (subst (asm) rx_search.simps) (auto split: option.splits dest: rx_at_groups)
qed (subst (asm) rx_search.simps, auto split: option.splits dest: rx_at_groups)

lemma FindStringSubmatch_length:
  "length (FindStringSubmatch a x b s) = (if MatchString a x b s then Suc (rx_groups x) else 0)"
  by (auto simp: MatchString_def FindStringSubmatch_def dest: rx_at_groups rx_search_groups split: option.splits)

end
