(* ===== verification/Go_Text.thy ===== *)
theory Go_Text
  imports Digests Http
begin

text \<open>
  Text processing the inspectors share: line scanning of \<^verbatim>\<open>bufio\<close>, number parsing of \<^verbatim>\<open>strconv\<close>,
  splitting of \<^verbatim>\<open>strings\<close>, and \<^verbatim>\<open>utils.NormalizedOrigin\<close>.
\<close>

section \<open>Evaluation\<close>

text \<open>Code equations that compare characters as integers and not as unary numbers.\<close>

lemma of_char_int: "(of_char c :: int) = int (of_char c)"
  by (simp add: of_nat_of_char)

lemma from_hex_code [code]:
  "from_hex c = (let n = of_char c :: int in
     if 48 \<le> n \<and> n \<le> 57 then Some (nat (n - 48))
     else if 97 \<le> n \<and> n \<le> 102 then Some (nat (n - 87))
     else if 65 \<le> n \<and> n \<le> 70 then Some (nat (n - 55))
     else None)"
  unfolding from_hex_def Let_def of_char_int by auto

lemma is_space_code [code]:
  "is_space c \<longleftrightarrow> (let n = of_char c :: int in n = 32 \<or> 9 \<le> n \<and> n \<le> 13)"
  unfolding is_space_def Let_def of_char_int by auto

lemma char_of_int: "char_of (int n) = char_of n"
  by (simp add: char_of_def bit_of_nat_iff)

lemma digit_char_code [code]: "digit_char d = char_of (if d < 10 then int d + 48 else int d + 87)"
  using char_of_int [of "d + 48"] char_of_int [of "d + 87"] by (simp add: digit_char_def)

lemma hex_EncodeToString_code [code]:
  "hex_EncodeToString [] = []"
  "hex_EncodeToString (c # cs) = (let n = of_char c :: int in
     digit_char (nat (n div 16)) # digit_char (nat (n mod 16)) # hex_EncodeToString cs)"
  by (simp_all add: Let_def nat_div_distrib nat_mod_distrib of_char_int)

lemma hex_DecodeString_code [code]:
  "hex_DecodeString [] = Inr []"
  "hex_DecodeString [a] = Inl (if from_hex a = None then hex_InvalidByte a else hex_ErrLength)"
  "hex_DecodeString (a # b # r) =
     (case from_hex a of None \<Rightarrow> Inl (hex_InvalidByte a)
      | Some x \<Rightarrow> (case from_hex b of None \<Rightarrow> Inl (hex_InvalidByte b)
         | Some y \<Rightarrow> (case hex_DecodeString r of Inl e \<Rightarrow> Inl e
            | Inr t \<Rightarrow> Inr (char_of (16 * int x + int y) # t))))"
  using char_of_int [of "16 * _ + _"] by (simp_all split: option.splits sum.splits)

section \<open>Lines\<close>

text \<open>
  \<^verbatim>\<open>bufio.Scanner\<close> with \<^verbatim>\<open>ScanLines\<close> and a buffer of \<open>n\<close> bytes: the lines without their line end (a
  carriage return before it goes too); a last line without line end counts when it is not empty.
  The scan stops, silently for a caller that does not ask for the error, at a line that does not
  fit in the buffer.
\<close>

definition drop_CR :: "string \<Rightarrow> string" where
  "drop_CR l = (if l \<noteq> [] \<and> last l = CHR 0x0D then butlast l else l)"

function scan_lines :: "int \<Rightarrow> string \<Rightarrow> string list" where
  "scan_lines n s =
     (if s = [] then []
      else let l = takeWhile (\<lambda>c. c \<noteq> CHR 0x0A) s; r = dropWhile (\<lambda>c. c \<noteq> CHR 0x0A) s
           in if n \<le> int (length l) then [] else drop_CR l # (case r of [] \<Rightarrow> [] | _ # t \<Rightarrow> scan_lines n t))"
  by pat_completeness auto
termination
proof (relation "measure (length \<circ> snd)")
  fix n :: int and s l r x t
  assume "r = dropWhile (\<lambda>c. c \<noteq> CHR 0x0A) (s :: string)" and "r = x # t"
  then have "length (x # t) \<le> length s" by (metis length_dropWhile_le)
  then show "((n, t), (n, s)) \<in> measure (length \<circ> snd)" by simp
qed simp

declare scan_lines.simps [simp del]

abbreviation max_token :: int where "max_token \<equiv> 65536"

lemma scan_lines_Nil [simp]: "scan_lines n [] = []"
  by (simp add: scan_lines.simps)

lemma scan_lines_line:
  assumes "CHR 0x0A \<notin> set l" and "int (length l) < n"
  shows "scan_lines n (l @ CHR 0x0A # t) = drop_CR l # scan_lines n t"
proof -
  have "takeWhile (\<lambda>c. c \<noteq> CHR 0x0A) (l @ CHR 0x0A # t) = l" "dropWhile (\<lambda>c. c \<noteq> CHR 0x0A) (l @ CHR 0x0A # t) = CHR 0x0A # t"
    using assms(1) by (auto simp: takeWhile_append dropWhile_append)
  with assms(2) show ?thesis by (subst scan_lines.simps) (simp add: Let_def)
qed

text \<open>\<^verbatim>\<open>strings.Fields\<close>: the parts between white space.\<close>

fun fields_acc :: "string \<Rightarrow> string \<Rightarrow> string list" where
  "fields_acc acc [] = (if acc = [] then [] else [rev acc])"
| "fields_acc acc (c # cs) =
     (if is_space c then (if acc = [] then fields_acc [] cs else rev acc # fields_acc [] cs)
      else fields_acc (c # acc) cs)"

definition strings_Fields :: "string \<Rightarrow> string list" where
  "strings_Fields s = fields_acc [] s"

definition strings_TrimSuffix :: "string \<Rightarrow> string \<Rightarrow> string" where
  "strings_TrimSuffix s suffix =
     (if strings_HasSuffix s suffix then take (length s - length suffix) s else s)"

text \<open>\<^verbatim>\<open>strings.SplitAfter\<close> for a separator that is not empty.\<close>

function split_after :: "string \<Rightarrow> string \<Rightarrow> string \<Rightarrow> string list" where
  "split_after sep acc s =
     (case s of [] \<Rightarrow> [rev acc]
      | c # r \<Rightarrow> if sep \<noteq> [] \<and> strings_HasPrefix s sep
                 then (rev acc @ sep) # split_after sep [] (drop (length sep) s)
                 else split_after sep (c # acc) r)"
  by pat_completeness auto
termination
  by (relation "measure (\<lambda>(sep, acc, s). length s)") auto

definition strings_SplitAfter :: "string \<Rightarrow> string \<Rightarrow> string list" where
  "strings_SplitAfter s sep = split_after sep [] s"

section \<open>Numbers\<close>

definition strconv_ErrRange :: go_error where
  "strconv_ErrRange = ErrVar ''strconv.ErrRange'' ''value out of range''"

fun digits_value :: "nat \<Rightarrow> nat \<Rightarrow> string \<Rightarrow> nat option" where
  "digits_value base acc [] = Some acc"
| "digits_value base acc (c # cs) =
     (case from_hex c of None \<Rightarrow> None
      | Some d \<Rightarrow> if d < base then digits_value base (acc * base + d) cs else None)"

definition ParseUint :: "string \<Rightarrow> nat \<Rightarrow> nat \<Rightarrow> nat result" where
  "ParseUint s base bits =
     (if s = [] then Inl strconv_ErrSyntax
      else (case digits_value base 0 s of None \<Rightarrow> Inl strconv_ErrSyntax
        | Some v \<Rightarrow> if int v < 2 ^ bits then Inr v else Inl strconv_ErrRange))"

definition ParseInt :: "string \<Rightarrow> nat \<Rightarrow> nat \<Rightarrow> int result" where
  "ParseInt s base bits =
     (let (neg, ds) = (case s of c # r \<Rightarrow> if c = CHR ''-'' then (True, r) else if c = CHR ''+'' then (False, r) else (False, s)
                       | [] \<Rightarrow> (False, [])) in
      if ds = [] then Inl strconv_ErrSyntax
      else (case digits_value base 0 ds of None \<Rightarrow> Inl strconv_ErrSyntax
        | Some v \<Rightarrow>
          (if neg then (if int v \<le> 2 ^ (bits - 1) then Inr (- int v) else Inl strconv_ErrRange)
           else (if int v < 2 ^ (bits - 1) then Inr (int v) else Inl strconv_ErrRange))))"

section \<open>URLs\<close>

text \<open>
  \<^verbatim>\<open>u.Port()\<close>: what follows the last colon of the host, unless that colon is inside the brackets of
  an IPv6 address or is followed by something else than digits.
\<close>

definition url_Port :: "url \<Rightarrow> string" where
  "url_Port u =
     (let h = u_Host u; r = takeWhile (\<lambda>c. c \<noteq> CHR '':'') (rev h) in
      if CHR '':'' \<notin> set h then []
      else if list_all (\<lambda>c. 48 \<le> (of_char c :: nat) \<and> (of_char c :: nat) \<le> 57) r then rev r else [])"

text \<open>\<^verbatim>\<open>utils.NormalizedOrigin\<close>.\<close>

definition NormalizedOrigin :: "url \<Rightarrow> string" where
  "NormalizedOrigin u =
     (if u_Scheme u = ''https'' \<and> url_Port u = [] then u_Scheme u @ ''://'' @ u_Host u @ '':443''
      else u_Scheme u @ ''://'' @ u_Host u)"

end
