(* ===== verification/Inspector_Base.thy ===== *)
theory Inspector_Base
  imports Inspection_Engine Config Regex Go_Text
begin

text \<open>
  What the models of the inspectors share: the MIME types of \<^verbatim>\<open>inspectors/mimetypes/mimetypes.go\<close>, the
  error that stands for a run-time panic, and the proof rules for the inspector contract.

  A panic in an inspector is not recovered by the service: it ends the process. The models return
  \<^theory_text>\<open>runtime_panic\<close> for it, so that the absence of panics can be stated.
\<close>

definition runtime_panic :: go_error where
  "runtime_panic = ErrVar ''runtime.panic'' ''index out of range''"

abbreviation mt_DebianBinaryPackage :: string where "mt_DebianBinaryPackage \<equiv> ''application/vnd.debian.binary-package''"
abbreviation mt_AptRelease :: string where "mt_AptRelease \<equiv> ''application/x.apt.release''"
abbreviation mt_AptPackages :: string where "mt_AptPackages \<equiv> ''application/x.apt.packages''"
abbreviation mt_AptTranslation :: string where "mt_AptTranslation \<equiv> ''application/x.apt.translation''"
abbreviation mt_AptCommands :: string where "mt_AptCommands \<equiv> ''application/x.apt.commands''"

text \<open>\<^verbatim>\<open>int64(x)\<close> of a 64-bit unsigned value.\<close>

definition int64_of :: "nat \<Rightarrow> int" where
  "int64_of n = (if int n < 2 ^ 63 then int n else int n - 2 ^ 64)"

section \<open>The contract\<close>

text \<open>
  The two ways an inspector leaves an artifact: as it is, or through its own setter, annotated.
\<close>

named_theorems insp_frame

lemma request_frame_annotated [insp_frame]:
  "i \<in> I \<Longrightarrow> request_frame I a (annotate_request i ann (SetRequestPending i r a))"
  "i \<in> I \<Longrightarrow> request_frame I a (annotate_request i ann (SetRequestRejected i r a))"
  "i \<in> I \<Longrightarrow> request_frame I a (annotate_request i ann (SetRequestUnknown i r a))"
  using request_frame_trans [of I a _ I] by (metis Un_absorb request_frame_SetRequest)+

lemma response_frame_annotated [insp_frame]:
  "i \<in> I \<Longrightarrow> response_frame I a (annotate_response i ann (SetResponseApproved i r m a))"
  "i \<in> I \<Longrightarrow> response_frame I a (annotate_response i ann (SetResponseRejected i r m a))"
  "i \<in> I \<Longrightarrow> response_frame I a (annotate_response i ann (SetResponseUnknown i r m a))"
  using response_frame_trans [of I a _ I] by (metis Un_absorb response_frame_SetResponse)+

lemmas [insp_frame] = request_frame_refl response_frame_refl request_frame_SetRequest response_frame_SetResponse

section \<open>Opinions and annotations after a setter\<close>

lemma map_get_addInspection [simp]:
  "map_get (addInspection m i k r) j =
     (if j = i then Some \<lparr>in_Opinion = k, in_Reason = r, in_Annotations = []\<rparr> else map_get m j)"
  by (simp add: addInspection_def)

lemma a_ResponseInspection_setArtifactMetadata [simp]:
  "a_ResponseInspection (setArtifactMetadata m a) = a_ResponseInspection a"
  by (simp add: setArtifactMetadata_def Let_def)

lemma get_SetResponse [simp]:
  "map_get (a_ResponseInspection (SetResponseApproved i r m a)) j =
     (if j = i then Some \<lparr>in_Opinion = Approved, in_Reason = r, in_Annotations = []\<rparr> else map_get (a_ResponseInspection a) j)"
  "map_get (a_ResponseInspection (SetResponseRejected i r m a)) j =
     (if j = i then Some \<lparr>in_Opinion = Rejected, in_Reason = r, in_Annotations = []\<rparr> else map_get (a_ResponseInspection a) j)"
  "map_get (a_ResponseInspection (SetResponseUnknown i r m a)) j =
     (if j = i then Some \<lparr>in_Opinion = Unknown, in_Reason = r, in_Annotations = []\<rparr> else map_get (a_ResponseInspection a) j)"
  by (auto simp: SetResponseApproved_def SetResponseRejected_def SetResponseUnknown_def Let_def)

lemma get_annotate_response [simp]:
  "map_get (a_ResponseInspection (annotate_response i ann a)) j =
     (if j = i then map_option (Inspection_Annotate ann) (map_get (a_ResponseInspection a) j) else map_get (a_ResponseInspection a) j)"
  by (auto simp: annotate_response_def split: option.splits)

end
