(* ===== verification/Openpgp.thy ===== *)
theory Openpgp
  imports Artifact Go_Text
begin

text \<open>
  \<^verbatim>\<open>utils/openpgp.go\<close> and \<^verbatim>\<open>inspectors/apt/openpgp.go\<close>: decoding of keys and of clearsigned
  messages, and the search for a signature that some key verifies.

  The OpenPGP library is an argument (\<^theory_text>\<open>pgp_lib\<close>): its armour decoder returns the type and the
  body of a block, its packet reader the packets of a body and the error it ends with, its
  clearsign decoder the body of the signature block and the signed text. Keys and signatures are
  the type parameters.
\<close>

datatype ('k, 's) packet = PublicKey 'k | PrivateKey 'k | Signature 's | OtherPacket

definition io_EOF :: go_error where
  "io_EOF = ErrVar ''io.EOF'' ''EOF''"

record ('k, 's) pgp_lib =
  armor_Decode :: "string \<Rightarrow> (string \<times> string) result"
  packet_Reader :: "string \<Rightarrow> ('k, 's) packet list \<times> go_error"
  clearsign_Decode :: "string \<Rightarrow> (string \<times> string) option"
  key_VerifySignature :: "'k \<Rightarrow> 's \<Rightarrow> string \<Rightarrow> go_error option"
  key_IdString :: "'k \<Rightarrow> string"

definition openpgp_PublicKeyType :: string where
  "openpgp_PublicKeyType = ''PGP PUBLIC KEY BLOCK''"

section \<open>Keys and signed messages\<close>

fun public_keys :: "('k, 's) packet list \<Rightarrow> 'k list" where
  "public_keys [] = []"
| "public_keys (PublicKey k # ps) = k # public_keys ps"
| "public_keys (_ # ps) = public_keys ps"

fun private_keys :: "('k, 's) packet list \<Rightarrow> 'k list" where
  "private_keys [] = []"
| "private_keys (PrivateKey k # ps) = k # private_keys ps"
| "private_keys (_ # ps) = private_keys ps"

fun signatures :: "('k, 's) packet list \<Rightarrow> 's list" where
  "signatures [] = []"
| "signatures (Signature s # ps) = s # signatures ps"
| "signatures (_ # ps) = signatures ps"

definition DecodeKeys :: "('k, 's) pgp_lib \<Rightarrow> string \<Rightarrow> ('k list \<times> 'k list) result" where
  "DecodeKeys lib armoredData =
     (case armor_Decode lib armoredData of
        Inl err \<Rightarrow> Inl (ErrWrap ''cannot decode armored data'' err)
      | Inr (_, body) \<Rightarrow>
        (case packet_Reader lib body of (ps, err) \<Rightarrow>
           if err = io_EOF then Inr (public_keys ps, private_keys ps) else Inl err))"

definition DecodePubKey :: "('k, 's) pgp_lib \<Rightarrow> string \<Rightarrow> bool \<Rightarrow> 'k list result" where
  "DecodePubKey lib armoredData allowMultiple =
     (case DecodeKeys lib armoredData of Inl err \<Rightarrow> Inl err
      | Inr (pubKeys, privKeys) \<Rightarrow>
        (if privKeys \<noteq> [] then Inl (Errorf ''armored data contains private key'')
         else if length pubKeys > 1 \<and> \<not> allowMultiple
         then Inl (Errorf ''armored data contains more than one public key'')
         else if pubKeys = [] then Inl (Errorf ''armored data contains no public key'')
         else Inr pubKeys))"

definition DecodeClearSigned :: "('k, 's) pgp_lib \<Rightarrow> string \<Rightarrow> ('s list \<times> string) result" where
  "DecodeClearSigned lib clearData =
     (case clearsign_Decode lib clearData of
        None \<Rightarrow> Inl (Errorf ''cannot decode clearsign text'')
      | Some (sigBody, text) \<Rightarrow>
        (case packet_Reader lib sigBody of (ps, err) \<Rightarrow>
           if err \<noteq> io_EOF then Inl (ErrWrap ''cannot parse armored data'' err)
           else if signatures ps = [] then Inl (Errorf ''clearsigned data contains no signatures'')
           else Inr (signatures ps, text)))"

text \<open>\<^verbatim>\<open>VerifySignature\<close>: the digest of the text under the hash of the signature is checked by the library.\<close>

definition VerifySignature :: "('k, 's) pgp_lib \<Rightarrow> 'k \<Rightarrow> 's \<Rightarrow> string \<Rightarrow> go_error option" where
  "VerifySignature lib pubKey sig body = key_VerifySignature lib pubKey sig body"

text \<open>
  The inner and the outer loop of \<^verbatim>\<open>VerifyAnySignature\<close>: \<^const>\<open>None\<close> when a signature verifies, else
  the error of the last attempt (the argument when there was none).
\<close>

fun verify_keys :: "('k, 's) pgp_lib \<Rightarrow> 's \<Rightarrow> string \<Rightarrow> go_error option \<Rightarrow> 'k list \<Rightarrow> bool \<times> go_error option" where
  "verify_keys lib sig body err [] = (False, err)"
| "verify_keys lib sig body err (key # keys) =
     (case VerifySignature lib key sig body of None \<Rightarrow> (True, None)
      | Some e \<Rightarrow> verify_keys lib sig body (Some e) keys)"

fun verify_sigs :: "('k, 's) pgp_lib \<Rightarrow> 'k list \<Rightarrow> string \<Rightarrow> go_error option \<Rightarrow> 's list \<Rightarrow> bool \<times> go_error option" where
  "verify_sigs lib keys body err [] = (False, err)"
| "verify_sigs lib keys body err (sig # sigs) =
     (case verify_keys lib sig body err keys of (True, _) \<Rightarrow> (True, None)
      | (False, e) \<Rightarrow> verify_sigs lib keys body e sigs)"

definition VerifyAnySignature :: "('k, 's) pgp_lib \<Rightarrow> 'k list \<Rightarrow> 's list \<Rightarrow> string \<Rightarrow> go_error option" where
  "VerifyAnySignature lib pubKeys sigs body =
     (case verify_sigs lib pubKeys body None sigs of (True, _) \<Rightarrow> None
      | (False, err) \<Rightarrow> if length sigs = 1 \<and> length pubKeys = 1 then err
                       else Some (Errorf ''cannot verify any signatures''))"

section \<open>Signature of a release file\<close>

definition decodePublicKey :: "('k, 's) pgp_lib \<Rightarrow> string \<Rightarrow> 'k result" where
  "decodePublicKey lib f =
     (case armor_Decode lib f of Inl err \<Rightarrow> Inl (Errorf (''cannot decode key: '' @ err_Error err))
      | Inr (ty, body) \<Rightarrow>
        (if ty \<noteq> openpgp_PublicKeyType then Inl (Errorf ''invalid data type'')
         else (case packet_Reader lib body of
                 ([], err) \<Rightarrow> Inl (Errorf (''error reading key: '' @ err_Error err))
               | (PublicKey k # _, _) \<Rightarrow> Inr k
               | _ \<Rightarrow> Inl (Errorf ''error parsing key''))))"

fun decode_blocks :: "('k, 's) pgp_lib \<Rightarrow> string list \<Rightarrow> 'k list result" where
  "decode_blocks lib [] = Inr []"
| "decode_blocks lib (k # ks) =
     (if strings_TrimSpace k = [] then decode_blocks lib ks
      else (case decodePublicKey lib k of Inl err \<Rightarrow> Inl err
        | Inr key \<Rightarrow> (case decode_blocks lib ks of Inl err \<Rightarrow> Inl err | Inr keys \<Rightarrow> Inr (key # keys))))"

definition key_blocks :: "string \<Rightarrow> string list" where
  "key_blocks pubkey = strings_SplitAfter pubkey ''-----END PGP PUBLIC KEY BLOCK-----''"

text \<open>
  \<^verbatim>\<open>checkSignatureImpl\<close>: the signed text when the message decodes, the error, and the notes; \<open>data\<close> is
  what reading the file yields.
\<close>

definition checkSignature ::
  "('k, 's) pgp_lib \<Rightarrow> string result \<Rightarrow> Annotation \<Rightarrow> string \<Rightarrow> string option \<times> go_error option \<times> Annotation" where
  "checkSignature lib data notes pubkey =
     (case decode_blocks lib (key_blocks pubkey) of Inl err \<Rightarrow> (None, Some err, notes)
      | Inr keys \<Rightarrow>
        (let notes1 = Annotation_Add notes ''public-keys'' (AnyStrings (map (key_IdString lib) keys)) in
         case data of Inl err \<Rightarrow> (None, Some err, notes1)
         | Inr d \<Rightarrow>
           (case DecodeClearSigned lib d of
              Inl err \<Rightarrow> (None, Some (Errorf (''cannot decode clearsigned file: '' @ err_Error err)), notes1)
            | Inr (sigs, body) \<Rightarrow>
              (case VerifyAnySignature lib keys sigs body of
                 Some _ \<Rightarrow> (Some body, Some (Errorf ''cannot verify signature of the InRelease file''), notes1)
               | None \<Rightarrow> (Some body, None, notes1)))))"

section \<open>What a successful check means\<close>

lemma verify_keys_True:
  "verify_keys lib sig body err keys = (True, e) \<longleftrightarrow>
     e = None \<and> (\<exists>k \<in> set keys. VerifySignature lib k sig body = None)"
  by (induction lib sig body err keys rule: verify_keys.induct) (auto split: option.splits)

lemma verify_sigs_True:
  "verify_sigs lib keys body err sigs = (True, e) \<longleftrightarrow>
     e = None \<and> (\<exists>s \<in> set sigs. \<exists>k \<in> set keys. VerifySignature lib k s body = None)"
proof (induction lib keys body err sigs rule: verify_sigs.induct)
  case (2 lib keys body err sig sigs)
  show ?case
  proof (cases "verify_keys lib sig body err keys")
    case (Pair b x)
    then show ?thesis using 2 verify_keys_True [of lib sig body err keys x] verify_keys_True [of lib sig body err keys None]
      by (cases b) auto
  qed
qed simp

text \<open>
  An empty list of keys never verifies anything, although the error the loops end with is then nil.
\<close>

lemma VerifyAnySignature_None:
  "VerifyAnySignature lib keys sigs body = None \<longleftrightarrow>
     (\<exists>s \<in> set sigs. \<exists>k \<in> set keys. VerifySignature lib k s body = None)"
proof -
  obtain b e where be: "verify_sigs lib keys body None sigs = (b, e)" by fastforce
  have "length sigs = 1 \<Longrightarrow> length keys = 1 \<Longrightarrow> \<not> b \<Longrightarrow> e \<noteq> None"
    using be by (cases "VerifySignature lib (hd keys) (hd sigs) body") (auto simp: length_Suc_conv)
  then show ?thesis
    using be verify_sigs_True [of lib keys body None sigs e] verify_sigs_True [of lib keys body None sigs None]
    by (auto simp: VerifyAnySignature_def split: bool.splits)
qed

text \<open>A text signed by a key of the configured block, as \<^verbatim>\<open>checkSignature\<close> decides it.\<close>

definition signed_text :: "('k, 's) pgp_lib \<Rightarrow> string \<Rightarrow> string \<Rightarrow> string \<Rightarrow> bool" where
  "signed_text lib pubkey d body \<longleftrightarrow>
     (\<exists>keys sigs k s. decode_blocks lib (key_blocks pubkey) = Inr keys \<and> DecodeClearSigned lib d = Inr (sigs, body) \<and>
        k \<in> set keys \<and> s \<in> set sigs \<and> key_VerifySignature lib k s body = None)"

lemma checkSignature_ok:
  "checkSignature lib (Inr d) notes pubkey = (b, None, notes') \<Longrightarrow> \<exists>body. b = Some body \<and> signed_text lib pubkey d body"
  by (auto simp: checkSignature_def signed_text_def Let_def VerifyAnySignature_None VerifySignature_def
      split: sum.splits prod.splits option.splits)

lemma signed_text_needs_key: "decode_blocks lib (key_blocks pubkey) = Inr [] \<Longrightarrow> \<not> signed_text lib pubkey d body"
  by (auto simp: signed_text_def)

end
