(* ===== verification/Snap_Assertion.thy ===== *)
theory Snap_Assertion
  imports Inspector_Base Openpgp Base64 "HOL-Library.Monad_Syntax"
begin

text \<open>
  \<^verbatim>\<open>inspectors/snap/assertion.go\<close>, \<^verbatim>\<open>inspectors/snap/utils.go\<close> and the downloads of \<^verbatim>\<open>inspectors/snap/snap.go\<close>: the
  signed assertions of the snap store and the check of their signatures, which downloads the keys it needs.

  The cache of verified keys is shared by the whole process; it is a state that the operations pass on.
  Arguments (\<^theory_text>\<open>assert_env\<close>) stand for the OpenPGP library, its reader of one packet (the packet and the bytes
  it left), the RSA form of a key, the HTTP client as it answers while an inspection runs (status, its text
  and the body), and the trusted root key, which the code decodes from a constant when it starts.

  The check of a signature follows the keys that sign keys as far as they lead. Not returning is \<^const>\<open>None\<close>.
\<close>

section \<open>Assertions\<close>

record assertion =
  as_Header :: "(string, string) gomap"
  as_Body :: string
  as_Content :: string
  as_Signature :: string

text \<open>\<^verbatim>\<open>bytes.Index\<close> and \<^verbatim>\<open>bytes.LastIndex\<close> of an empty line: what is before and after it.\<close>

fun cut_nlnl :: "string \<Rightarrow> (string \<times> string) option" where
  "cut_nlnl (a # b # s) =
     (if a = CHR 0x0A \<and> b = CHR 0x0A then Some ([], s)
      else (case cut_nlnl (b # s) of None \<Rightarrow> None | Some (u, v) \<Rightarrow> Some (a # u, v)))"
| "cut_nlnl _ = None"

fun cut_last_nlnl :: "string \<Rightarrow> (string \<times> string) option" where
  "cut_last_nlnl (a # b # s) =
     (case cut_last_nlnl (b # s) of Some (u, v) \<Rightarrow> Some (a # u, v)
      | None \<Rightarrow> if a = CHR 0x0A \<and> b = CHR 0x0A then Some ([], s) else None)"
| "cut_last_nlnl _ = None"

fun parseHeaders :: "(string, string) gomap \<Rightarrow> string list \<Rightarrow> (string, string) gomap" where
  "parseHeaders header [] = header"
| "parseHeaders header (line # sc) =
     (if strings_HasPrefix line '' '' then parseHeaders header sc
      else (case strings_Cut line CHR '':'' of None \<Rightarrow> header
        | Some (k, v) \<Rightarrow> parseHeaders (map_set k (strings_TrimSpace v) header) sc))"

definition newAssertion :: "string \<Rightarrow> assertion result" where
  "newAssertion data =
     (case cut_last_nlnl data of None \<Rightarrow> Inl (Errorf ''assertion content/signature separator not found'')
      | Some (content, signature) \<Rightarrow>
        (case (case cut_nlnl content of None \<Rightarrow> (content, []) | Some hb \<Rightarrow> hb) of (head, body) \<Rightarrow>
           Inr \<lparr>as_Header = parseHeaders [] (scan_lines max_token head), as_Body = body, as_Content = content, as_Signature = signature\<rparr>))"

definition as_field :: "assertion \<Rightarrow> string \<Rightarrow> string" where
  "as_field as k = (case map_get (as_Header as) k of None \<Rightarrow> [] | Some v \<Rightarrow> v)"

abbreviation SnapID :: "assertion \<Rightarrow> string" where "SnapID as \<equiv> as_field as ''snap-id''"
abbreviation PublisherID :: "assertion \<Rightarrow> string" where "PublisherID as \<equiv> as_field as ''publisher-id''"
abbreviation SnapName :: "assertion \<Rightarrow> string" where "SnapName as \<equiv> as_field as ''snap-name''"
abbreviation SnapSize :: "assertion \<Rightarrow> string" where "SnapSize as \<equiv> as_field as ''snap-size''"
abbreviation SnapSha384 :: "assertion \<Rightarrow> string" where "SnapSha384 as \<equiv> as_field as ''snap-sha3-384''"
abbreviation SnapRevision :: "assertion \<Rightarrow> string" where "SnapRevision as \<equiv> as_field as ''snap-revision''"
abbreviation DisplayName :: "assertion \<Rightarrow> string" where "DisplayName as \<equiv> as_field as ''display-name''"
abbreviation as_Type :: "assertion \<Rightarrow> string" where "as_Type as \<equiv> as_field as ''type''"
abbreviation SignKey :: "assertion \<Rightarrow> string" where "SignKey as \<equiv> as_field as ''sign-key-sha3-384''"

section \<open>Decoding (utils.go)\<close>

record ('k, 's) assert_env =
  av_lib :: "('k, 's) pgp_lib"
  av_packet :: "string \<Rightarrow> (('k, 's) packet \<times> string) result"
  av_rsa :: "'k \<Rightarrow> 'k option"
  av_Do :: "string \<Rightarrow> (int \<times> string \<times> body_reader) result"
  av_root :: 'k

definition decodeV1 :: "('k, 's) assert_env \<Rightarrow> string \<Rightarrow> string \<Rightarrow> ('k, 's) packet result" where
  "decodeV1 env b kind =
     (if b = [] then Inl (Errorf (''cannot decode '' @ kind @ '': no data''))
      else (case base64_DecodeString b of Inl err \<Rightarrow> Inl (Errorf (''cannot decode '' @ kind @ '': '' @ err_Error err))
        | Inr [] \<Rightarrow> Inl (Errorf (''cannot decode '' @ kind @ '': base64 without data''))
        | Inr (v # buf) \<Rightarrow>
          (if v \<noteq> CHR 0x01 then Inl (Errorf (''unsupported '' @ kind @ '' format version: '' @ fmt_nat (of_char v)))
           else (case av_packet env buf of Inl err \<Rightarrow> Inl (Errorf (''cannot decode '' @ kind @ '': '' @ err_Error err))
             | Inr (pkt, rest) \<Rightarrow> if rest \<noteq> [] then Inl (Errorf (kind @ '' has spurious trailing data'')) else Inr pkt))))"

definition decodeSignature :: "('k, 's) assert_env \<Rightarrow> string \<Rightarrow> 's result" where
  "decodeSignature env signature =
     (case decodeV1 env signature ''signature'' of Inl err \<Rightarrow> Inl err
      | Inr (Signature sig) \<Rightarrow> Inr sig
      | Inr _ \<Rightarrow> Inl (Errorf ''expected signature, got instead''))"

definition snap_decodePublicKey :: "('k, 's) assert_env \<Rightarrow> string \<Rightarrow> 'k result" where
  "snap_decodePublicKey env pubKey =
     (case decodeV1 env pubKey ''public key'' of Inl err \<Rightarrow> Inl err
      | Inr (PublicKey k) \<Rightarrow> (case av_rsa env k of None \<Rightarrow> Inl (Errorf ''expected RSA public key, got instead'') | Some k' \<Rightarrow> Inr k')
      | Inr _ \<Rightarrow> Inl (Errorf ''expected public key, got instead''))"

text \<open>\<^verbatim>\<open>base64.RawURLEncoding\<close>: the alphabet with \<^verbatim>\<open>-\<close> and \<^verbatim>\<open>_\<close>, and no padding.\<close>

definition raw_url_base64 :: "string \<Rightarrow> string" where
  "raw_url_base64 s = map (\<lambda>c. if c = CHR ''+'' then CHR ''-'' else if c = CHR ''/'' then CHR ''_'' else c)
     (filter (\<lambda>c. c \<noteq> CHR ''='') (base64_EncodeToString s))"

definition encodeDigest :: "string \<Rightarrow> string result" where
  "encodeDigest digest = (if length digest \<noteq> 48 then Inl (Errorf ''hash digest must have 48 bytes'') else Inr (raw_url_base64 digest))"

section \<open>Downloads (snap.go)\<close>

definition downloadAssertion :: "('k, 's) assert_env \<Rightarrow> string \<Rightarrow> assertion result" where
  "downloadAssertion env u =
     (case av_Do env u of Inl err \<Rightarrow> Inl err
      | Inr (code, status, body) \<Rightarrow>
        (if code \<noteq> StatusOK then Inl (Errorf (''cannot download assertion: '' @ status))
         else (case br_err body of Some err \<Rightarrow> Inl err | None \<Rightarrow> newAssertion (br_data body))))"

definition assertion_url :: "string \<Rightarrow> string \<Rightarrow> string \<Rightarrow> string" where
  "assertion_url kind key fmt = ''https://api.snapcraft.io/v2/assertions/'' @ kind @ ''/'' @ key @ ''?max-format='' @ fmt"

definition downloadSnapRevisionAssertion :: "('k, 's) assert_env \<Rightarrow> string \<Rightarrow> assertion result" where
  "downloadSnapRevisionAssertion env digest = downloadAssertion env (assertion_url ''snap-revision'' digest ''0'')"

definition downloadSnapDeclarationAssertion :: "('k, 's) assert_env \<Rightarrow> string \<Rightarrow> assertion result" where
  "downloadSnapDeclarationAssertion env snapID = downloadAssertion env (assertion_url ''snap-declaration/16'' snapID ''5'')"

definition downloadAccountAssertion :: "('k, 's) assert_env \<Rightarrow> string \<Rightarrow> assertion result" where
  "downloadAccountAssertion env publisherID = downloadAssertion env (assertion_url ''account'' publisherID ''5'')"

definition downloadAccountKeyAssertion :: "('k, 's) assert_env \<Rightarrow> string \<Rightarrow> assertion result" where
  "downloadAccountKeyAssertion env signKey = downloadAssertion env (assertion_url ''account-key'' signKey ''1'')"

section \<open>Signatures\<close>

text \<open>The identifier of the root key, the header \<^verbatim>\<open>sign-key-sha3-384\<close> of \<^verbatim>\<open>encodedCanonicalRootAccountKey\<close>.\<close>

definition rootSignKey :: string where
  "rootSignKey = ''-CvQKAwRQ5h3Ffn10FILJoEZUXOv6km9FwA80-Rcj-f-6jadQ89VRswHNiEB9Lxk''"

type_synonym 'k key_cache = "(string, 'k) gomap"

text \<open>What follows the recursive call: the error it returned, or the key taken into the cache and used.\<close>

definition use_account_key ::
  "('k, 's) assert_env \<Rightarrow> assertion \<Rightarrow> 's \<Rightarrow> assertion \<Rightarrow> go_error option \<times> 'k key_cache \<Rightarrow> go_error option \<times> 'k key_cache" where
  "use_account_key env as sig accountKey r =
     (case r of (Some err, cache) \<Rightarrow> (Some err, cache)
      | (None, cache) \<Rightarrow>
        (case snap_decodePublicKey env (as_Body accountKey) of
           Inl err \<Rightarrow> (Some (ErrWrap ''cannot decode public key'' err), cache)
         | Inr key \<Rightarrow> (VerifySignature (av_lib env) key sig (as_Content as), map_set (SignKey as) key cache)))"

partial_function (option) assertion_VerifySignature ::
  "('k, 's) assert_env \<Rightarrow> 'k key_cache \<Rightarrow> assertion \<Rightarrow> (go_error option \<times> 'k key_cache) option" where
  "assertion_VerifySignature env cache as =
     (case decodeSignature env (as_Signature as) of Inl err \<Rightarrow> Some (Some err, cache)
      | Inr sig \<Rightarrow>
        (if SignKey as = [] then Some (Some (Errorf (''cannot find sign-key-sha3-384 in '' @ as_Type as @ '' assertion'')), cache)
         else (case map_get cache (SignKey as) of
             Some cachedKey \<Rightarrow> Some (VerifySignature (av_lib env) cachedKey sig (as_Content as), cache)
           | None \<Rightarrow>
             (if SignKey as = rootSignKey then Some (VerifySignature (av_lib env) (av_root env) sig (as_Content as), cache)
              else (case downloadAccountKeyAssertion env (SignKey as) of
                  Inl err \<Rightarrow> Some (Some (ErrWrap ''cannot retrieve account-key assertion'' err), cache)
                | Inr accountKey \<Rightarrow>
                  (assertion_VerifySignature env cache accountKey \<bind> (\<lambda>r. Some (use_account_key env as sig accountKey r))))))))"

declare assertion_VerifySignature.simps [code]

end
