(* ===== verification/Cert.thy ===== *)
theory Cert
  imports Filesystem Snap_Assertion
begin

text \<open>
  \<^verbatim>\<open>proxy/cert.go\<close>: the certificate with which the proxy intercepts TLS connections, in the variables of the
  proxy library and in the two files it is loaded from.

  Arguments stand for the TLS library (\<^theory_text>\<open>tls_lib\<close>: a key pair from its PEM blocks, and the pair with its parsed
  leaf) and for what the operating system refuses. The state is the variables and the file system; the modes
  of the files are not modelled.
\<close>

datatype 'c connect_action = ConnectAccept 'c | ConnectMitm 'c | ConnectReject 'c

record 'c goproxy_vars =
  GoproxyCa :: 'c
  OkConnect :: "'c connect_action"
  MitmConnect :: "'c connect_action"
  RejectConnect :: "'c connect_action"

record 'c tls_lib =
  tls_X509KeyPair :: "string \<Rightarrow> string \<Rightarrow> 'c result"
  tls_with_leaf :: "'c \<Rightarrow> 'c result"

text \<open>In the service a certificate is what it is made of: the PEM blocks of the certificate and of the key.\<close>

type_synonym tls_Certificate = "string \<times> string"
type_synonym 'c cert_state = "'c goproxy_vars \<times> filesys"

definition CreateProxyCA :: "'c tls_lib \<Rightarrow> string \<Rightarrow> string \<Rightarrow> 'c result" where
  "CreateProxyCA lib cert key = (case tls_X509KeyPair lib cert key of Inl err \<Rightarrow> Inl err | Inr ca \<Rightarrow> tls_with_leaf lib ca)"

definition SetProxyCA :: "'c \<Rightarrow> 'c goproxy_vars \<Rightarrow> go_error option \<times> 'c goproxy_vars" where
  "SetProxyCA ca vars = (None, vars\<lparr>GoproxyCa := ca, OkConnect := ConnectAccept ca, MitmConnect := ConnectMitm ca, RejectConnect := ConnectReject ca\<rparr>)"

definition splitCertKey :: "string \<Rightarrow> (string \<times> string) result" where
  "splitCertKey content = (case cut_nlnl content of None \<Rightarrow> Inl (Errorf ''cannot parse certificate and key'') | Some ck \<Rightarrow> Inr ck)"

definition LoadCertificate :: "os_faults \<Rightarrow> string \<Rightarrow> string \<Rightarrow> filesys \<Rightarrow> (string \<times> string) result" where
  "LoadCertificate os certPath keyPath fs =
     (if certPath = [] then Inl (Errorf ''HTTPS proxy certificate path not specified'')
      else (case os_ReadFile os fs certPath of Inl err \<Rightarrow> Inl err
        | Inr cert \<Rightarrow>
          (if keyPath = [] then Inl (Errorf ''HTTPS proxy key path not specified'')
           else (case os_ReadFile os fs keyPath of Inl err \<Rightarrow> Inl err | Inr key \<Rightarrow> Inr (cert, key)))))"

definition UpdateCertFiles :: "os_faults \<Rightarrow> string \<Rightarrow> string \<Rightarrow> string \<Rightarrow> string \<Rightarrow> filesys \<Rightarrow> go_error option \<times> filesys" where
  "UpdateCertFiles os certPath keyPath cert key fs =
     (let tmpCertPath = certPath @ ''.new''; tmpKeyPath = keyPath @ ''.new'' in
      case os_WriteFile os tmpCertPath cert fs of (Some err, fs1) \<Rightarrow> (Some err, fs1)
      | (None, fs1) \<Rightarrow>
        (case os_WriteFile os tmpKeyPath key fs1 of (Some err, fs2) \<Rightarrow> (Some err, snd (os_Remove os tmpCertPath fs2))
         | (None, fs2) \<Rightarrow>
           (case os_Rename os tmpCertPath certPath fs2 of (Some err, fs3) \<Rightarrow> (Some err, fs3)
            | (None, fs3) \<Rightarrow>
              (case os_Rename os tmpKeyPath keyPath fs3 of (Some err, fs4) \<Rightarrow> (Some (ErrWrap ''inconsistent state'' err), fs4)
               | (None, fs4) \<Rightarrow> (None, fs4)))))"

definition UpdateCert ::
  "'c tls_lib \<Rightarrow> os_faults \<Rightarrow> bool \<Rightarrow> string \<Rightarrow> string \<Rightarrow> string \<Rightarrow> 'c cert_state \<Rightarrow> go_error option \<times> 'c cert_state" where
  "UpdateCert lib os dryRun payload certPath keyPath st =
     (case splitCertKey payload of Inl err \<Rightarrow> (Some err, st)
      | Inr (cert, key) \<Rightarrow>
        (case CreateProxyCA lib cert key of Inl err \<Rightarrow> (Some err, st)
         | Inr ca \<Rightarrow>
           (if dryRun then (None, st)
            else (case st of (vars, fs) \<Rightarrow>
              (case SetProxyCA ca vars of (Some err, vars') \<Rightarrow> (Some err, vars', fs)
               | (None, vars') \<Rightarrow>
                 (case UpdateCertFiles os certPath keyPath cert key fs of (e, fs') \<Rightarrow> (e, vars', fs')))))))"

section \<open>Laws\<close>

text \<open>The variables agree: every action of the library uses the certificate.\<close>

definition serves_ca :: "'c \<Rightarrow> 'c goproxy_vars \<Rightarrow> bool" where
  "serves_ca ca vars \<longleftrightarrow> GoproxyCa vars = ca \<and> OkConnect vars = ConnectAccept ca \<and> MitmConnect vars = ConnectMitm ca \<and> RejectConnect vars = ConnectReject ca"

definition apart :: "string \<Rightarrow> string \<Rightarrow> bool" where
  "apart certPath keyPath \<longleftrightarrow> certPath \<noteq> [] \<and> keyPath \<noteq> [] \<and> certPath \<noteq> keyPath \<and> certPath \<noteq> keyPath @ ''.new'' \<and> keyPath \<noteq> certPath @ ''.new''"

lemma UpdateCertFiles_ok:
  assumes "UpdateCertFiles os certPath keyPath cert key fs = (None, fs')" and "apart certPath keyPath"
  shows "map_get (fs_files fs') certPath = Some cert \<and> map_get (fs_files fs') keyPath = Some key"
  using assms unfolding UpdateCertFiles_def apart_def
  by (auto simp: Let_def os_WriteFile_def os_Rename_def split: option.splits prod.splits if_splits)

lemma UpdateCert_ok:
  assumes "UpdateCert lib os False payload certPath keyPath (vars, fs) = (None, vars', fs')" and "apart certPath keyPath"
    and "fa_open os' certPath = None" and "fa_open os' keyPath = None"
  shows "\<exists>cert key ca. splitCertKey payload = Inr (cert, key) \<and> LoadCertificate os' certPath keyPath fs' = Inr (cert, key) \<and>
    CreateProxyCA lib cert key = Inr ca \<and> serves_ca ca vars'"
proof -
  from assms(1) obtain cert key ca where x: "splitCertKey payload = Inr (cert, key)" "CreateProxyCA lib cert key = Inr ca"
    "vars' = snd (SetProxyCA ca vars)" "UpdateCertFiles os certPath keyPath cert key fs = (None, fs')"
    by (auto simp: UpdateCert_def SetProxyCA_def split: sum.splits prod.splits)
  from UpdateCertFiles_ok [OF x(4) assms(2)] assms(2-4) have "LoadCertificate os' certPath keyPath fs' = Inr (cert, key)"
    by (simp add: LoadCertificate_def os_ReadFile_def apart_def)
  moreover have "serves_ca ca vars'" using x(3) by (simp add: serves_ca_def SetProxyCA_def)
  ultimately show ?thesis using x(1,2) by blast
qed

text \<open>A trial, and an update with data that is not valid, change nothing.\<close>

theorem rejected_certificate_changes_nothing:
  assumes "dryRun \<or> (\<forall>cert key ca. splitCertKey payload = Inr (cert, key) \<longrightarrow> CreateProxyCA lib cert key \<noteq> Inr ca)"
  shows "snd (UpdateCert lib os dryRun payload certPath keyPath st) = st"
  using assms by (auto simp: UpdateCert_def split: sum.splits prod.splits)

text \<open>
  An update reported as failed may be in use: the variables change before the files are written. When the
  files cannot be written, the proxy intercepts with the new certificate, and starts with the old one next time.
\<close>

theorem failed_update_is_in_use:
  assumes "splitCertKey payload = Inr (cert, key)" and "CreateProxyCA lib cert key = Inr ca" and "fa_write os (certPath @ ''.new'') = Some (err, None)"
    and "create_check fs (certPath @ ''.new'') = None"
  shows "UpdateCert lib os False payload certPath keyPath (vars, fs) = (Some err, snd (SetProxyCA ca vars), fs)"
  using assms by (simp add: UpdateCert_def UpdateCertFiles_def os_WriteFile_def SetProxyCA_def)

section \<open>A sample\<close>

definition text_pairs :: "(string \<times> string) tls_lib" where
  "text_pairs = \<lparr>tls_X509KeyPair = (\<lambda>c k. Inr (c, k)), tls_with_leaf = Inr\<rparr>"

definition old_vars :: "(string \<times> string) goproxy_vars" where
  "old_vars = snd (SetProxyCA (''old'', ''old'') \<lparr>GoproxyCa = ([], []), OkConnect = ConnectAccept ([], []), MitmConnect = ConnectMitm ([], []),
     RejectConnect = ConnectReject ([], [])\<rparr>)"

definition cert_files :: filesys where
  "cert_files = \<lparr>fs_files = [(''/d/c'', ''old''), (''/d/k'', ''old'')], fs_dirs = [''/d'']\<rparr>"

definition new_payload :: string where
  "new_payload = ''C'' @ [CHR 0x0A, CHR 0x0A] @ ''K''"

end
