(* ===== verification/Service.thy ===== *)
theory Service
  imports Session_Props Cert
begin

text \<open>
  \<^verbatim>\<open>service/messages/messages.go\<close>, \<^verbatim>\<open>service/handlers.go\<close>, \<^verbatim>\<open>service/fetchctl_handlers.go\<close> and the
  configuration loading of \<^verbatim>\<open>service/service.go\<close>: what the dispatcher does with each message.

  A message's return channel has room for one value, so replying never blocks; a handler either
  replies (\<^theory_text>\<open>Replied\<close>) or starts a goroutine that replies later (\<^theory_text>\<open>Spawned\<close>). The goroutines are the
  values of \<^theory_text>\<open>task\<close>; how they interleave with the dispatcher is the step relation of the theory
  \<^verbatim>\<open>Service_Steps\<close>. An artifact is shared by a pointer between the goroutine and its client; it is
  only changed by the goroutine until the reply, so it is a value here.

  Arguments (\<^theory_text>\<open>service_env\<close>): the session environment, the YAML and JSON decoders, MIME detection,
  and the TLS library. The certificate of the proxy is part of the state (\<^theory_text>\<open>svc_ca\<close>).
\<close>

section \<open>Messages\<close>

definition ErrSessionNotFound :: go_error where
  "ErrSessionNotFound = ErrVar ''messages.ErrSessionNotFound'' ''session not found''"

definition ErrSessionActive :: go_error where
  "ErrSessionActive = ErrVar ''messages.ErrSessionActive'' ''session token is active''"

definition ErrSessionNotFinished :: go_error where
  "ErrSessionNotFinished = ErrVar ''messages.ErrSessionNotFinished'' ''session not finished''"

definition ErrInvalidSessionToken :: go_error where
  "ErrInvalidSessionToken = ErrVar ''messages.ErrInvalidSessionToken'' ''invalid session token''"

record ServiceStatus =
  st_Uptime :: int
  st_StartTime :: int
  st_SessionCount :: "64 word"
  st_ActiveSessions :: "SessionInfo list"

record SessionCredentials =
  cr_ID :: string
  cr_Token :: string
  cr_Err :: "go_error option"

record CreateSession =
  cs_Timeout :: "64 word"
  cs_Policy :: string
  cs_Secrets :: "Secret list"
  cs_InspectorsConfig :: OverrideInspectorsConfig

record RevokeTokenResult =
  rt_SessionID :: string
  rt_StartTime :: int
  rt_EndTime :: int
  rt_SpoolPath :: string
  rt_Err :: "go_error option"

record SessionReportResult =
  sr_Metadata :: SessionMetadata
  sr_Artifacts :: "Artifact list"
  sr_Err :: "go_error option"

record FetchCtl =
  fc_Operation :: string
  fc_Type :: string
  fc_ValidateOnly :: bool
  fc_Payload :: string

record FetchCtlResult =
  fr_Status :: string
  fr_Message :: string

record CreateSessionPayload =
  cp_SessionID :: string
  cp_Token :: string
  cp_Timeout :: "64 word"
  cp_Mode :: string
  cp_InspectorsConfig :: string

datatype msg =
    GetServiceStatus
  | RequestInspection Artifact
  | ResponseInspection Artifact
  | CompleteInspection Artifact
  | MsgCreateSession CreateSession
  | RevokeToken string string
  | SessionReport string
  | EndSession string
  | DeleteResources string
  | ProxyAuth string string
  | MsgFetchCtl FetchCtl

datatype reply =
    RStatus ServiceStatus
  | RErr "go_error option"
  | RCredentials SessionCredentials
  | RRevoke RevokeTokenResult
  | RReport SessionReportResult
  | RBool bool
  | RFetchCtl FetchCtlResult

datatype task =
    RequestTask Session Artifact
  | ResponseTask Session Artifact
  | CompletionTask Session "go_error option" Artifact
  | ResourcesTask string

datatype 'r outcome = Replied 'r | Spawned task

section \<open>State and arguments\<close>

record Options =
  o_Config :: string
  o_Spool :: string
  o_PermissiveMode :: bool
  o_KeyPath :: string
  o_CertPath :: string
  o_IdleShutdown :: int

record Service =
  svc_g :: gstate
  svc_opt :: Options
  svc_start :: int
  svc_ca :: "tls_Certificate goproxy_vars"
  totalSessions :: "64 word"

record service_env =
  sv_session :: session_env
  sv_yaml :: yaml_codec
  sv_detect :: "string \<Rightarrow> mime result"
  sv_seek :: "string \<Rightarrow> go_error option"
  dec_CreateSessionPayload :: "string \<Rightarrow> CreateSessionPayload result"
  enc_ArtifactList :: "Artifact list \<Rightarrow> string result"
  sv_tls :: "tls_Certificate tls_lib"
  sv_uuid :: string
  sv_uuid2 :: string
  sv_intn :: "nat \<Rightarrow> nat"

definition zero_SessionMetadata :: SessionMetadata where
  "zero_SessionMetadata = \<lparr>sm_Generator = [], sm_Comment = [], sm_SessionID = [], sm_StartTime = 0,
     sm_EndTime = 0, sm_Inspectors = [], sm_SpoolPath = [], sm_Policy = [], sm_Err = None\<rparr>"

section \<open>Inspection\<close>

definition evaluateRequestInspection :: "Session \<Rightarrow> Artifact \<Rightarrow> go_error option" where
  "evaluateRequestInspection s a =
     (if \<not> RequestPending a then (if s_Permissive s then None else Some ErrRejectedRequest) else None)"

definition runRequestInspection :: "Session \<Rightarrow> Artifact \<Rightarrow> go_error option \<times> Artifact" where
  "runRequestInspection s a =
     (case RunRequestInspectors (s_Insps s) a of
        (Some err, a') \<Rightarrow> (Some err, a')
      | (None, a') \<Rightarrow> (evaluateRequestInspection s a', a'))"

definition evaluateResponseInspection :: "Session \<Rightarrow> Artifact \<Rightarrow> go_error option \<times> Artifact" where
  "evaluateResponseInspection s a =
     (if Artifact_Rejected a
      then (let a' = a\<lparr>a_Result := Rejected\<rparr>
            in if s_Permissive s then (None, a') else (Some ErrRejectedArtifact, a'))
      else (None, a\<lparr>a_Result := Approved\<rparr>))"

definition runResponseInspection ::
  "service_env \<Rightarrow> Session \<Rightarrow> Artifact \<Rightarrow> filesys \<Rightarrow> go_error option \<times> Artifact \<times> filesys" where
  "runResponseInspection env s a fs =
     (let ienv = \<lparr>env_open = os_ReadFile (env_os (sv_session env)) fs, env_detect = sv_detect env, env_seek = sv_seek env\<rparr>
      in case RunArtifactInspectors ienv (s_Insps s) (a_AssetDir a) fs a of
           (Some err, a', fs') \<Rightarrow> (Some err, a'\<lparr>a_Result := Rejected\<rparr>, fs')
         | (None, a', fs') \<Rightarrow> (case evaluateResponseInspection s a' of (e, a'') \<Rightarrow> (e, a'', fs')))"

definition handleRequestInspection :: "Artifact \<Rightarrow> gstate \<Rightarrow> go_error option outcome" where
  "handleRequestInspection a g =
     (case GetSession g (a_SessionID a) of
        None \<Rightarrow> Replied (Some (Errorf (''cannot inspect request: session '' @ a_SessionID a @ '' is not active'')))
      | Some s \<Rightarrow> Spawned (RequestTask s a))"

definition handleResponseInspection ::
  "service_env \<Rightarrow> int \<Rightarrow> Artifact \<Rightarrow> gstate \<Rightarrow> go_error option outcome \<times> gstate" where
  "handleResponseInspection env now a g =
     (let digest = md_Sha256 (a_Metadata a); os = env_os (sv_session env) in
      case GetSession g (a_SessionID a) of
        None \<Rightarrow>
          (Replied (Some (Errorf (''cannot inspect response: session '' @ a_SessionID a @ '' is not active''))),
           g\<lparr>g_fs := snd (os_Remove os (a_Tempfile a) (g_fs g))\<rparr>)
      | Some s \<Rightarrow>
        (let a1 = a\<lparr>a_CurrentDownload := (a_CurrentDownload a)\<lparr>dl_EndTime := now\<rparr>\<rparr> in
         if HasArtifact s digest then
           (let g1 = put_session (AddDownload (a_CurrentDownload a1) s) g;
                g2 = g1\<lparr>g_fs := snd (os_Remove os (a_Tempfile a) (g_fs g1))\<rparr>
            in if \<not> s_Permissive s \<and> ArtifactResult s digest = Rejected
               then (Replied (Some ErrRejectedArtifact), g2) else (Replied None, g2))
         else
           (case SaveData (sv_session env) a1 (g_fs g) of
              (Some err, fs') \<Rightarrow> (Replied (Some err), g\<lparr>g_fs := fs'\<rparr>)
            | (None, fs') \<Rightarrow> (Spawned (ResponseTask s a1), g\<lparr>g_fs := fs'\<rparr>))))"

definition handleCompleteInspection :: "Artifact \<Rightarrow> gstate \<Rightarrow> go_error option \<times> gstate" where
  "handleCompleteInspection a g =
     (let digest = md_Sha256 (a_Metadata a) in
      case GetSession g (a_SessionID a) of
        None \<Rightarrow> (Some (Errorf (''cannot complete inspection: session '' @ a_SessionID a @ '' is not active'')), g)
      | Some s \<Rightarrow>
        (let s1 = (if \<not> HasArtifact s digest then AddArtifact a s else s);
             s2 = AddDownload (a_CurrentDownload a) s1
         in (None, put_session s2 g)))"

section \<open>Sessions\<close>

text \<open>\<^verbatim>\<open>time.Duration(v.Timeout * uint64(time.Second))\<close>: the product wraps at 64 bits.\<close>

definition timeout_of :: "64 word \<Rightarrow> int" where
  "timeout_of t = sint (t * 1000000000)"

definition handleCreateSession ::
  "service_env \<Rightarrow> int \<Rightarrow> CreateSession \<Rightarrow> Service \<Rightarrow> SessionCredentials \<times> Service" where
  "handleCreateSession env now v svc =
     (if cs_Policy v = ''permissive'' \<and> \<not> o_PermissiveMode (svc_opt svc)
      then (\<lparr>cr_ID = [], cr_Token = [], cr_Err = Some ErrInvalidSessionPolicy\<rparr>, svc)
      else
        (let permissive = (cs_Policy v = ''permissive'');
             timeout = timeout_of (cs_Timeout v) in
         case ValidateSecrets (cs_Secrets v) of
           Some err \<Rightarrow> (\<lparr>cr_ID = [], cr_Token = [], cr_Err = Some err\<rparr>, svc)
         | None \<Rightarrow>
           (case New (sv_session env) now (sv_uuid env) (sv_uuid2 env) (sv_intn env) (o_Spool (svc_opt svc)) timeout
                   permissive (cs_Secrets v) (cs_InspectorsConfig v) (svc_g svc) of
              (s, g') \<Rightarrow> (\<lparr>cr_ID = s_ID s, cr_Token = s_Token s, cr_Err = None\<rparr>,
                          svc\<lparr>svc_g := g', totalSessions := totalSessions svc + 1\<rparr>))))"

definition handleRevokeToken :: "int \<Rightarrow> string \<Rightarrow> string \<Rightarrow> string \<Rightarrow> gstate \<Rightarrow> RevokeTokenResult \<times> gstate" where
  "handleRevokeToken now sessionID token spoolDir g =
     (let failed = (\<lambda>err. \<lparr>rt_SessionID = [], rt_StartTime = 0, rt_EndTime = 0, rt_SpoolPath = [], rt_Err = Some err\<rparr>) in
      case GetSession g sessionID of
        None \<Rightarrow> (failed ErrSessionNotFound, g)
      | Some s \<Rightarrow>
        (case Revoke now token s of
           (False, _) \<Rightarrow> (failed ErrInvalidSessionToken, g)
         | (True, s') \<Rightarrow>
           (\<lparr>rt_SessionID = s_ID s', rt_StartTime = s_Start s', rt_EndTime = s_End s', rt_SpoolPath = spoolDir, rt_Err = None\<rparr>,
            put_session s' g)))"

definition handleSessionReport :: "session_env \<Rightarrow> string \<Rightarrow> gstate \<Rightarrow> SessionReportResult" where
  "handleSessionReport env sessionID g =
     (case GetSession g sessionID of
        None \<Rightarrow> \<lparr>sr_Metadata = zero_SessionMetadata\<lparr>sm_Err := Some ErrSessionNotFound\<rparr>, sr_Artifacts = [],
                 sr_Err = Some ErrSessionNotFound\<rparr>
      | Some s \<Rightarrow>
        (if \<not> IsRevoked s
         then \<lparr>sr_Metadata = zero_SessionMetadata\<lparr>sm_Err := Some (Errorf
                  (''cannot get session report: session '' @ sessionID @ '' token was not revoked''))\<rparr>,
               sr_Artifacts = [], sr_Err = Some ErrSessionActive\<rparr>
         else \<lparr>sr_Metadata = Session_Metadata env s, sr_Artifacts = Session_Artifacts s, sr_Err = None\<rparr>))"

definition handleEndSession :: "session_env \<Rightarrow> string \<Rightarrow> gstate \<Rightarrow> (go_error option \<times> gstate) option" where
  "handleEndSession env sessionID g =
     (case GetSession g sessionID of None \<Rightarrow> Some (Some ErrSessionNotFound, g) | Some s \<Rightarrow> Finish env s g)"

definition handleDeleteResources :: "string \<Rightarrow> gstate \<Rightarrow> go_error option outcome" where
  "handleDeleteResources sessionID g =
     (case GetSession g sessionID of
        Some _ \<Rightarrow> Replied (Some ErrSessionNotFinished) | None \<Rightarrow> Spawned (ResourcesTask sessionID))"

section \<open>fetchctl\<close>

definition fetchctl_error :: "string \<Rightarrow> FetchCtlResult" where
  "fetchctl_error m = \<lparr>fr_Status = ''error'', fr_Message = m\<rparr>"

definition fetchctl_ok :: "string \<Rightarrow> FetchCtlResult" where
  "fetchctl_ok m = \<lparr>fr_Status = ''ok'', fr_Message = m\<rparr>"

definition fetchCtlUpdateConfig :: "service_env \<Rightarrow> FetchCtl \<Rightarrow> Service \<Rightarrow> FetchCtlResult \<times> Service" where
  "fetchCtlUpdateConfig env v svc =
     (let g = svc_g svc in
      case UpdateConfig (env_os (sv_session env)) (sv_yaml env) (fc_Type v) (fc_ValidateOnly v) (fc_Payload v)
             (o_Config (svc_opt svc)) (g_config g) (g_fs g) of
        (e, cfg, fs') \<Rightarrow>
          (let svc' = svc\<lparr>svc_g := g\<lparr>g_config := cfg, g_fs := fs'\<rparr>\<rparr> in
           case e of
             Some err \<Rightarrow> (fetchctl_error (fc_Type v @ '' configuration update error''), svc')
           | None \<Rightarrow> (if fc_ValidateOnly v then (fetchctl_ok ''configuration validated'', svc')
                      else (fetchctl_ok ''configuration updated'', svc'))))"

definition fetchCtlUpdateCert :: "service_env \<Rightarrow> FetchCtl \<Rightarrow> string \<Rightarrow> string \<Rightarrow> Service \<Rightarrow> FetchCtlResult \<times> Service" where
  "fetchCtlUpdateCert env v certPath keyPath svc =
     (let g = svc_g svc in
      case UpdateCert (sv_tls env) (env_os (sv_session env)) (fc_ValidateOnly v) (fc_Payload v) certPath keyPath (svc_ca svc, g_fs g) of
        (e, ca, fs') \<Rightarrow>
          (let svc' = svc\<lparr>svc_g := g\<lparr>g_fs := fs'\<rparr>, svc_ca := ca\<rparr> in
           case e of
             Some err \<Rightarrow> (fetchctl_error ''certificate update error'', svc')
           | None \<Rightarrow> (if fc_ValidateOnly v then (fetchctl_ok ''certificate validated'', svc')
                      else (fetchctl_ok ''proxy certificate updated'', svc'))))"

text \<open>\<^verbatim>\<open>time.Duration(params.Timeout) * time.Second\<close> on a 64-bit \<^verbatim>\<open>int\<close> wraps in the same way.\<close>

definition fetchCtlCreateSession :: "service_env \<Rightarrow> int \<Rightarrow> FetchCtl \<Rightarrow> Service \<Rightarrow> FetchCtlResult \<times> Service" where
  "fetchCtlCreateSession env now v svc =
     (case dec_CreateSessionPayload env (fc_Payload v) of
        Inl err \<Rightarrow> (fetchctl_error (''malformed payload: '' @ err_Error err), svc)
      | Inr params \<Rightarrow>
        (let permissive = (o_PermissiveMode (svc_opt svc) \<and> cp_Mode params = ''permissive'');
             timeout = timeout_of (cp_Timeout params);
             cfg = (if 0 < length (cp_InspectorsConfig params)
                    then dec_OverrideInspectorsConfig (sv_yaml env) (cp_InspectorsConfig params)
                    else Inr no_override) in
         case cfg of
           Inl err \<Rightarrow> (fetchctl_error (''malformed payload: '' @ err_Error err), svc)
         | Inr ov \<Rightarrow>
           (case NewWithID (sv_session env) now (sv_uuid env) (cp_SessionID params) (cp_Token params)
                   (o_Spool (svc_opt svc)) timeout permissive [] ov (svc_g svc) of
              (s, g') \<Rightarrow>
                (fetchctl_ok (''session '' @ s_ID s @ '':'' @ s_Token s @ '' created ('' @
                   sm_Policy (Session_Metadata (sv_session env) s) @ '')''),
                 svc\<lparr>svc_g := g', totalSessions := totalSessions svc + 1\<rparr>))))"

definition fetchCtlListArtifacts :: "service_env \<Rightarrow> FetchCtl \<Rightarrow> gstate \<Rightarrow> FetchCtlResult" where
  "fetchCtlListArtifacts env v g =
     (case GetSession g (fc_Payload v) of
        None \<Rightarrow> fetchctl_error ''session does not exist''
      | Some s \<Rightarrow> (case enc_ArtifactList env (Session_Artifacts s) of
           Inl err \<Rightarrow> fetchctl_error (err_Error err) | Inr j \<Rightarrow> fetchctl_ok j))"

definition handleFetchCtl :: "service_env \<Rightarrow> int \<Rightarrow> FetchCtl \<Rightarrow> Service \<Rightarrow> FetchCtlResult \<times> Service" where
  "handleFetchCtl env now v svc =
     (if fc_Operation v = ''version'' then (fetchctl_ok (env_Version (sv_session env)), svc)
      else if fc_Operation v = ''update-config'' then fetchCtlUpdateConfig env v svc
      else if fc_Operation v = ''update-cert''
        then fetchCtlUpdateCert env v (o_CertPath (svc_opt svc)) (o_KeyPath (svc_opt svc)) svc
      else if fc_Operation v = ''create-session'' then fetchCtlCreateSession env now v svc
      else if fc_Operation v = ''list-artifacts'' then (fetchCtlListArtifacts env v (svc_g svc), svc)
      else (fetchctl_error ''unsupported operation'', svc))"

section \<open>The dispatcher\<close>

text \<open>\<^const>\<open>None\<close>: the handler would block for ever.\<close>

fun handleMessages :: "service_env \<Rightarrow> int \<Rightarrow> msg \<Rightarrow> Service \<Rightarrow> (reply outcome \<times> Service) option" where
  "handleMessages env now GetServiceStatus svc =
     Some (Replied (RStatus \<lparr>st_Uptime = (now - svc_start svc) div 1000000000, st_StartTime = svc_start svc,
       st_SessionCount = totalSessions svc, st_ActiveSessions = SessionInfos now (svc_g svc)\<rparr>), svc)"
| "handleMessages env now (RequestInspection a) svc =
     Some (case handleRequestInspection a (svc_g svc) of Replied e \<Rightarrow> Replied (RErr e) | Spawned t \<Rightarrow> Spawned t, svc)"
| "handleMessages env now (ResponseInspection a) svc =
     (case handleResponseInspection env now a (svc_g svc) of
        (Replied e, g') \<Rightarrow> Some (Replied (RErr e), svc\<lparr>svc_g := g'\<rparr>)
      | (Spawned t, g') \<Rightarrow> Some (Spawned t, svc\<lparr>svc_g := g'\<rparr>))"
| "handleMessages env now (CompleteInspection a) svc =
     (case handleCompleteInspection a (svc_g svc) of (e, g') \<Rightarrow> Some (Replied (RErr e), svc\<lparr>svc_g := g'\<rparr>))"
| "handleMessages env now (MsgCreateSession v) svc =
     (case handleCreateSession env now v svc of (r, svc') \<Rightarrow> Some (Replied (RCredentials r), svc'))"
| "handleMessages env now (RevokeToken sid token) svc =
     (case handleRevokeToken now sid token (o_Spool (svc_opt svc)) (svc_g svc) of
        (r, g') \<Rightarrow> Some (Replied (RRevoke r), svc\<lparr>svc_g := g'\<rparr>))"
| "handleMessages env now (SessionReport sid) svc =
     Some (Replied (RReport (handleSessionReport (sv_session env) sid (svc_g svc))), svc)"
| "handleMessages env now (EndSession sid) svc =
     (case handleEndSession (sv_session env) sid (svc_g svc) of None \<Rightarrow> None
      | Some (e, g') \<Rightarrow> Some (Replied (RErr e), svc\<lparr>svc_g := g'\<rparr>))"
| "handleMessages env now (DeleteResources sid) svc =
     Some (case handleDeleteResources sid (svc_g svc) of Replied e \<Rightarrow> Replied (RErr e) | Spawned t \<Rightarrow> Spawned t, svc)"
| "handleMessages env now (ProxyAuth sid pw) svc =
     Some (Replied (RBool (CheckAuth sid pw (svc_g svc))), svc)"
| "handleMessages env now (MsgFetchCtl v) svc =
     (case handleFetchCtl env now v svc of (r, svc') \<Rightarrow> Some (Replied (RFetchCtl r), svc'))"

text \<open>The branch of the dispatcher's \<^verbatim>\<open>select\<close> for an expired session.\<close>

definition handle_expired :: "service_env \<Rightarrow> string \<Rightarrow> Service \<Rightarrow> Service option" where
  "handle_expired env sid svc =
     (case GetSession (svc_g svc) sid of None \<Rightarrow> Some svc
      | Some s \<Rightarrow> (case Finish (sv_session env) s (svc_g svc) of None \<Rightarrow> None
         | Some (_, g1) \<Rightarrow>
           Some (svc\<lparr>svc_g := g1\<lparr>g_fs := snd (RemoveResources (sv_session env) (o_Spool (svc_opt svc)) sid (g_fs g1))\<rparr>\<rparr>)))"

text \<open>The branch for the idle timer: whether the dispatcher ends.\<close>

definition idle_shutdown :: "gstate \<Rightarrow> bool" where
  "idle_shutdown g \<longleftrightarrow> NumSessions g < 1"

section \<open>Loading the configuration\<close>

definition RunningFromSnap :: "(string \<Rightarrow> string) \<Rightarrow> bool" where
  "RunningFromSnap getenv \<longleftrightarrow> getenv ''SNAP'' \<noteq> [] \<and> getenv ''SNAP_NAME'' = ''fetch-service''"

definition SnapBundledConfigDir :: "(string \<Rightarrow> string) \<Rightarrow> string" where
  "SnapBundledConfigDir getenv = getenv ''SNAP'' @ ''/conf''"

definition loadHTTPProxyRulesOrDefault ::
  "os_faults \<Rightarrow> yaml_codec \<Rightarrow> (string \<Rightarrow> string) \<Rightarrow> filesys \<Rightarrow> string \<Rightarrow> config_state \<Rightarrow> go_error option \<times> config_state" where
  "loadHTTPProxyRulesOrDefault os yc getenv fs cfgdir st =
     (case LoadHTTPProxyRules os yc fs cfgdir st of
        (Some err, st1) \<Rightarrow>
          (if errors_Is err os_ErrNotExist
           then (if RunningFromSnap getenv then LoadHTTPProxyRules os yc fs (SnapBundledConfigDir getenv) st1
                 else (None, st1))
           else (Some err, st1))
      | (None, st1) \<Rightarrow> (None, st1))"

definition loadDefaultInspectorsConfigCombine ::
  "os_faults \<Rightarrow> yaml_codec \<Rightarrow> (string \<Rightarrow> string) \<Rightarrow> filesys \<Rightarrow> string \<Rightarrow> config_state \<Rightarrow> go_error option \<times> config_state" where
  "loadDefaultInspectorsConfigCombine os yc getenv fs cfgdir st =
     (if \<not> RunningFromSnap getenv then LoadInspectorsConfig os yc fs cfgdir st
      else (case LoadInspectorsConfig os yc fs (SnapBundledConfigDir getenv) st of
              (Some err, st1) \<Rightarrow> (Some err, st1)
            | (None, st1) \<Rightarrow>
              (case LoadOverrideInspectorsConfig os yc fs cfgdir st1 of
                 (Some err, st2) \<Rightarrow> (if errors_Is err os_ErrNotExist then (None, st2) else (Some err, st2))
               | (None, st2) \<Rightarrow> (None, st2))))"

end
