(* ===== verification/Service_Steps.thy ===== *)
theory Service_Steps
  imports Service
begin

text \<open>
  The running service as a state machine: the dispatcher handles one message or one expired
  session at a time, while the goroutines of inspections, resource removals and session timers
  take their steps in between, in any order. Every step may meet a different environment (faults
  of the operating system, random numbers), drawn from a set of possible ones.

  The invariant is proved by rule induction; it gives what holds of every reply.
\<close>

section \<open>Steps\<close>

record sys =
  y_svc :: Service
  y_tasks :: "(nat \<times> task) list"

text \<open>
  What can be observed: a message arrives on behalf of a client, a client gets its reply, the
  dispatcher takes the identifier of an expired session.
\<close>

datatype event =
    Arrival nat msg "reply option"
  | Answer nat task reply
  | Expiry string
  | Internal

definition y_g :: "sys \<Rightarrow> gstate" where
  "y_g y = svc_g (y_svc y)"

definition set_g :: "gstate \<Rightarrow> sys \<Rightarrow> sys" where
  "set_g g y = y\<lparr>y_svc := (y_svc y)\<lparr>svc_g := g\<rparr>\<rparr>"

text \<open>
  Messages arrive from the proxy, the control API and fetchctl; the completion of an inspection
  is only sent by the goroutine of that inspection (\<^theory_text>\<open>response_done\<close> below). The random session
  IDs, which the code takes from UUIDs, are fresh.
\<close>

fun client_msg :: "msg \<Rightarrow> bool" where
  "client_msg (CompleteInspection a) = False"
| "client_msg _ = True"

definition fresh_ids :: "service_env \<Rightarrow> gstate \<Rightarrow> bool" where
  "fresh_ids env g \<longleftrightarrow> GetSession g (makeSessionIDImpl (sv_uuid env)) = None \<and>
     GetSession g (makeSessionIDImpl (sv_uuid2 env)) = None"

inductive step :: "service_env set \<Rightarrow> sys \<Rightarrow> event \<Rightarrow> sys \<Rightarrow> bool" for E where
  message_replied:
    "env \<in> E \<Longrightarrow> fresh_ids env (y_g y) \<Longrightarrow> client_msg m \<Longrightarrow>
       handleMessages env now m (y_svc y) = Some (Replied r, svc') \<Longrightarrow>
       step E y (Arrival c m (Some r)) (y\<lparr>y_svc := svc'\<rparr>)"
| message_spawned:
    "env \<in> E \<Longrightarrow> fresh_ids env (y_g y) \<Longrightarrow> client_msg m \<Longrightarrow>
       handleMessages env now m (y_svc y) = Some (Spawned t, svc') \<Longrightarrow>
       step E y (Arrival c m None) (y\<lparr>y_svc := svc', y_tasks := y_tasks y @ [(c, t)]\<rparr>)"
| request_done:
    "y_tasks y = pre @ (c, RequestTask s a) # post \<Longrightarrow> runRequestInspection s a = (e, a') \<Longrightarrow>
       step E y (Answer c (RequestTask s a') (RErr e)) (y\<lparr>y_tasks := pre @ post\<rparr>)"
| response_run:
    "env \<in> E \<Longrightarrow> y_tasks y = pre @ (c, ResponseTask s a) # post \<Longrightarrow>
       runResponseInspection env s a (g_fs (y_g y)) = (e, a', fs') \<Longrightarrow>
       step E y Internal (set_g ((y_g y)\<lparr>g_fs := fs'\<rparr>) (y\<lparr>y_tasks := pre @ (c, CompletionTask s e a') # post\<rparr>))"
| response_done:
    "y_tasks y = pre @ (c, CompletionTask s e a) # post \<Longrightarrow> handleCompleteInspection a (y_g y) = (ec, g') \<Longrightarrow>
       step E y (Answer c (CompletionTask s e a) (RErr (case ec of Some _ \<Rightarrow> ec | None \<Rightarrow> e)))
         (set_g g' (y\<lparr>y_tasks := pre @ post\<rparr>))"
| resources_done:
    "env \<in> E \<Longrightarrow> y_tasks y = pre @ (c, ResourcesTask sid) # post \<Longrightarrow>
       RemoveResources (sv_session env) (o_Spool (svc_opt (y_svc y))) sid (g_fs (y_g y)) = (e, fs') \<Longrightarrow>
       step E y (Answer c (ResourcesTask sid) (RErr e))
         (set_g ((y_g y)\<lparr>g_fs := fs'\<rparr>) (y\<lparr>y_tasks := pre @ post\<rparr>))"
| timer_fires: "monitor_fire i (y_g y) = Some g' \<Longrightarrow> step E y Internal (set_g g' y)"
| timer_sends: "monitor_send i (y_g y) = Some g' \<Longrightarrow> step E y Internal (set_g g' y)"
| timer_ends: "monitor_done i (y_g y) = Some g' \<Longrightarrow> step E y Internal (set_g g' y)"
| session_expired:
    "env \<in> E \<Longrightarrow> ExpiredSessionID (y_g y) = sid # rest \<Longrightarrow>
       handle_expired env sid ((y_svc y)\<lparr>svc_g := (y_g y)\<lparr>ExpiredSessionID := rest\<rparr>\<rparr>) = Some svc' \<Longrightarrow>
       step E y (Expiry sid) (y\<lparr>y_svc := svc'\<rparr>)"

inductive_cases step_ArrivalE: "step E y (Arrival c m r) y'"
inductive_cases step_AnswerE: "step E y (Answer c t r) y'"
inductive_cases step_ExpiryE: "step E y (Expiry sid) y'"
inductive_cases step_InternalE: "step E y Internal y'"

inductive steps :: "service_env set \<Rightarrow> sys \<Rightarrow> event list \<Rightarrow> sys \<Rightarrow> bool" for E where
  steps_refl: "steps E y [] y"
| steps_step: "steps E y es y' \<Longrightarrow> step E y' e y'' \<Longrightarrow> steps E y (es @ [e]) y''"

section \<open>The invariant\<close>

fun task_session :: "task \<Rightarrow> Session option" where
  "task_session (RequestTask s a) = Some s"
| "task_session (ResponseTask s a) = Some s"
| "task_session (CompletionTask s e a) = Some s"
| "task_session (ResourcesTask sid) = None"

fun wf_task :: "task \<Rightarrow> bool" where
  "wf_task (CompletionTask s e a) \<longleftrightarrow> judged_artifact a \<and> (e = None \<longrightarrow> s_Permissive s \<or> a_Result a = Approved)"
| "wf_task _ \<longleftrightarrow> True"

definition wf_sys :: "sys \<Rightarrow> bool" where
  "wf_sys y \<longleftrightarrow> wf_gstate (y_g y) \<and> (\<forall>(c, t) \<in> set (y_tasks y). wf_task t)"

lemma y_g_set [simp]: "y_g (set_g g y) = g" "y_tasks (set_g g y) = y_tasks y"
  by (simp_all add: y_g_def set_g_def)

lemma y_g_upd [simp]: "y_g (y\<lparr>y_svc := svc\<rparr>) = svc_g svc" "y_g (y\<lparr>y_tasks := ts\<rparr>) = y_g y"
  "y_g (y\<lparr>y_svc := svc, y_tasks := ts\<rparr>) = svc_g svc"
  by (simp_all add: y_g_def)

subsection \<open>Inspections\<close>

lemma evaluateResponseInspection_judged:
  "evaluateResponseInspection s a = (e, a') \<Longrightarrow> judged_artifact a' \<and> (e = None \<longrightarrow> s_Permissive s \<or> a_Result a' = Approved)"
  by (auto simp: evaluateResponseInspection_def judged_artifact_def Artifact_Rejected_def Artifact_Approved_def
      RequestPending_def ResponseApproved_def Let_def split: if_splits)

lemma runResponseInspection_judged:
  "runResponseInspection env s a fs = (e, a', fs') \<Longrightarrow>
     judged_artifact a' \<and> (e = None \<longrightarrow> s_Permissive s \<or> a_Result a' = Approved)"
  by (auto simp: runResponseInspection_def Let_def judged_artifact_def split: prod.splits option.splits
      dest!: evaluateResponseInspection_judged)

subsection \<open>Handlers\<close>

lemma wf_handleCompleteInspection:
  assumes wf: "wf_gstate g" and a: "judged_artifact a" and h: "handleCompleteInspection a g = (e, g')"
  shows "wf_gstate g'"
proof (cases "GetSession g (a_SessionID a)")
  case (Some s)
  let ?s1 = "if \<not> HasArtifact s (md_Sha256 (a_Metadata a)) then AddArtifact a s else s"
  have "wf_session (AddDownload (a_CurrentDownload a) ?s1)"
    using wf_gstateD(2) [OF wf Some] a by (auto intro: wf_session_AddDownload wf_session_AddArtifact)
  moreover have "s_ID ?s1 = a_SessionID a" using wf_gstateD(1) [OF wf Some] by simp
  ultimately have "wf_gstate (put_session (AddDownload (a_CurrentDownload a) ?s1) g)"
    using Some by (intro wf_put_same [OF wf, where s = s]) auto
  then show ?thesis using h Some by (simp add: handleCompleteInspection_def Let_def)
qed (use assms in \<open>simp add: handleCompleteInspection_def\<close>)

lemma wf_handleResponseInspection:
  assumes wf: "wf_gstate g" and h: "handleResponseInspection env now a g = (out, g')"
  shows "wf_gstate g'"
proof (cases "GetSession g (a_SessionID a)")
  case (Some s)
  let ?d = "(a_CurrentDownload a)\<lparr>dl_EndTime := now\<rparr>"
  have "wf_gstate (put_session (AddDownload ?d s) g)"
    using wf_gstateD(1,2) [OF wf Some] Some by (intro wf_put_same [OF wf]) (auto intro: wf_session_AddDownload)
  then show ?thesis
    using h Some wf by (auto simp: handleResponseInspection_def Let_def split: if_splits prod.splits option.splits)
qed (use assms in \<open>auto simp: handleResponseInspection_def Let_def\<close>)

lemma wf_handleRevokeToken:
  assumes wf: "wf_gstate g" and h: "handleRevokeToken now sid token spool g = (r, g')"
  shows "wf_gstate g'"
proof (cases "GetSession g sid")
  case (Some s)
  have "wf_gstate (put_session (snd (Revoke now token s)) g)"
    using wf_gstateD(1,2) [OF wf Some] Some by (intro wf_put_same [OF wf]) (auto intro: wf_session_Revoke)
  then show ?thesis
    using h Some wf by (auto simp: handleRevokeToken_def Let_def split: prod.splits bool.splits)
qed (use assms in \<open>simp add: handleRevokeToken_def Let_def\<close>)

lemma wf_handleEndSession:
  assumes "wf_gstate g"
  shows "\<exists>e g'. handleEndSession env sid g = Some (e, g') \<and> wf_gstate g'"
  using assms Finish_ex [OF assms] by (fastforce simp: handleEndSession_def split: option.split)

lemma wf_handleCreateSession:
  assumes wf: "wf_gstate (svc_g svc)" and f: "fresh_ids env (svc_g svc)"
    and h: "handleCreateSession env now v svc = (r, svc')"
  shows "wf_gstate (svc_g svc')"
proof -
  have "wf_gstate g'" if "ValidateSecrets (cs_Secrets v) = None"
    and "NewWithID (sv_session env) now (sv_uuid2 env) i tok sp tmo p (cs_Secrets v) ov (svc_g svc) = (s, g')"
    for i tok sp tmo p ov s g'
    using that f NewWithID_created(1) [OF wf] by (auto simp: ValidateSecrets_None fresh_ids_def)
  with wf h show ?thesis
    by (auto simp: handleCreateSession_def New_def Let_def split: if_splits option.splits prod.splits)
qed

lemma wf_handleFetchCtl:
  assumes wf: "wf_gstate (svc_g svc)" and f: "fresh_ids env (svc_g svc)"
    and h: "handleFetchCtl env now v svc = (r, svc')"
  shows "wf_gstate (svc_g svc')"
proof -
  have "wf_gstate g'"
    if "NewWithID (sv_session env) now (sv_uuid env) i tok sp tmo p [] ov (svc_g svc) = (s, g')" for i tok sp tmo p ov s g'
    using that f NewWithID_created(1) [OF wf, of "[]"] by (auto simp: fresh_ids_def)
  with wf h show ?thesis
    by (auto simp: handleFetchCtl_def fetchCtlUpdateConfig_def fetchCtlUpdateCert_def fetchCtlCreateSession_def Let_def
        split: if_splits option.splits prod.splits sum.splits)
qed

lemma wf_handleMessages:
  assumes "wf_gstate (svc_g svc)" and "fresh_ids env (svc_g svc)"
    and "\<And>a. m = CompleteInspection a \<Longrightarrow> judged_artifact a"
  shows "\<exists>out svc'. handleMessages env now m svc = Some (out, svc') \<and> wf_gstate (svc_g svc') \<and>
           (\<forall>t. out = Spawned t \<longrightarrow> wf_task t)"
proof (cases m)
  case (ResponseInspection a)
  obtain out g' where h: "handleResponseInspection env now a (svc_g svc) = (out, g')" by fastforce
  moreover have "wf_task t" if "out = Spawned t" for t
    using h that by (auto simp: handleResponseInspection_def Let_def split: option.splits if_splits prod.splits)
  ultimately show ?thesis
    using ResponseInspection wf_handleResponseInspection [OF assms(1) h] by (cases out) auto
next
  case (CompleteInspection a)
  obtain e g' where h: "handleCompleteInspection a (svc_g svc) = (e, g')" by fastforce
  then show ?thesis
    using CompleteInspection wf_handleCompleteInspection [OF assms(1) assms(3) h] by simp
next
  case (MsgCreateSession v)
  obtain r svc' where h: "handleCreateSession env now v svc = (r, svc')" by fastforce
  then show ?thesis using MsgCreateSession wf_handleCreateSession [OF assms(1,2) h] by simp
next
  case (RevokeToken sid token)
  obtain r g' where h: "handleRevokeToken now sid token (o_Spool (svc_opt svc)) (svc_g svc) = (r, g')" by fastforce
  then show ?thesis using RevokeToken wf_handleRevokeToken [OF assms(1) h] by simp
next
  case (EndSession sid)
  then show ?thesis using wf_handleEndSession [OF assms(1), of "sv_session env" sid] by auto
next
  case (MsgFetchCtl v)
  obtain r svc' where h: "handleFetchCtl env now v svc = (r, svc')" by fastforce
  then show ?thesis using MsgFetchCtl wf_handleFetchCtl [OF assms(1,2) h] by simp
qed (use assms(1) in \<open>auto simp: handleRequestInspection_def handleDeleteResources_def split: option.splits\<close>)


lemma wf_monitor:
  assumes "wf_gstate g"
  shows "monitor_fire i g = Some g' \<Longrightarrow> wf_gstate g'"
    and "monitor_send i g = Some g' \<Longrightarrow> wf_gstate g'"
    and "monitor_done i g = Some g' \<Longrightarrow> wf_gstate g'"
proof -
  show "wf_gstate g'" if "monitor_fire i g = Some g'"
    using that assms by (auto simp: monitor_fire_def intro!: wf_upd_timer split: if_splits)
  show "wf_gstate g'" if "monitor_done i g = Some g'"
    using that assms by (auto simp: monitor_done_def intro!: wf_upd_timer split: if_splits)
  show "wf_gstate g'" if "monitor_send i g = Some g'"
  proof -
    let ?g1 = "g\<lparr>ExpiredSessionID := ExpiredSessionID g @ [t_ID (timers g ! i)]\<rparr>"
    have "length (ExpiredSessionID g) < 1" using that by (auto simp: monitor_send_def split: if_splits)
    then have "wf_gstate ?g1" using assms by (simp add: wf_gstate_def wf_sessions_def wf_timers_def)
    then have "wf_gstate (upd_timer i (\<lambda>t. t\<lparr>t_monitor := Ended\<rparr>) ?g1)" by (rule wf_upd_timer) simp_all
    with that show ?thesis by (auto simp: monitor_send_def split: if_splits)
  qed
qed

lemma wf_handle_expired:
  assumes "wf_gstate (svc_g svc)"
  shows "\<exists>svc'. handle_expired env sid svc = Some svc' \<and> wf_gstate (svc_g svc') \<and>
           dom (GetSession (svc_g svc')) \<subseteq> dom (GetSession (svc_g svc)) \<and>
           svc_opt svc' = svc_opt svc \<and> totalSessions svc' = totalSessions svc \<and>
           (\<forall>i s. GetSession (svc_g svc') i = Some s \<longrightarrow> GetSession (svc_g svc) i = Some s)"
proof (cases "GetSession (svc_g svc) sid")
  case (Some s)
  obtain e g' where f: "Finish (sv_session env) s (svc_g svc) = Some (e, g')" and wf': "wf_gstate g'"
    and get: "GetSession g' = (if e = None then (GetSession (svc_g svc))(sid := None) else GetSession (svc_g svc))"
    using Finish_ex [OF assms Some] by blast
  have old: "GetSession (svc_g svc) i = Some s'" if "GetSession g' i = Some s'" for i s'
    using that by (simp add: get split: if_splits)
  then have "dom (GetSession g') \<subseteq> dom (GetSession (svc_g svc))" by blast
  moreover define fs where "fs = snd (RemoveResources (sv_session env) (o_Spool (svc_opt svc)) sid (g_fs g'))"
  have "handle_expired env sid svc = Some (svc\<lparr>svc_g := g'\<lparr>g_fs := fs\<rparr>\<rparr>)"
    using f Some by (simp add: handle_expired_def fs_def)
  ultimately show ?thesis using wf' old by (intro exI [of _ "svc\<lparr>svc_g := g'\<lparr>g_fs := fs\<rparr>\<rparr>"]) simp
qed (use assms in \<open>simp add: handle_expired_def\<close>)

lemma wf_expired_tl [simp]: "wf_gstate g \<Longrightarrow> ExpiredSessionID g = x # xs \<Longrightarrow> wf_gstate (g\<lparr>ExpiredSessionID := xs\<rparr>)"
  by (simp add: wf_gstate_def wf_sessions_def wf_timers_def)

lemma step_wf:
  assumes "step E y e y'" and "wf_sys y"
  shows "wf_sys y'"
  using assms
proof cases
  case (message_replied env m now r svc' c)
  then have "\<exists>out svc'. handleMessages env now m (y_svc y) = Some (out, svc') \<and> wf_gstate (svc_g svc') \<and>
      (\<forall>t. out = Spawned t \<longrightarrow> wf_task t)"
    using assms(2) by (intro wf_handleMessages) (auto simp: wf_sys_def y_g_def)
  with message_replied assms(2) show ?thesis by (auto simp: wf_sys_def)
next
  case (message_spawned env m now t svc' c)
  then have "\<exists>out svc'. handleMessages env now m (y_svc y) = Some (out, svc') \<and> wf_gstate (svc_g svc') \<and>
      (\<forall>t. out = Spawned t \<longrightarrow> wf_task t)"
    using assms(2) by (intro wf_handleMessages) (auto simp: wf_sys_def y_g_def)
  with message_spawned assms(2) show ?thesis by (auto simp: wf_sys_def)
next
  case (response_run env pre c s a post e a' fs')
  then show ?thesis
    using assms(2) runResponseInspection_judged [OF response_run(5)] by (auto simp: wf_sys_def)
next
  case (response_done pre c s e a post ec g')
  then have "judged_artifact a" using assms(2) by (auto simp: wf_sys_def)
  with response_done show ?thesis
    using assms(2) wf_handleCompleteInspection [OF _ _ response_done(4)] by (auto simp: wf_sys_def)
next
  case (session_expired env sid rest svc')
  then show ?thesis
    using assms(2) wf_handle_expired [of "(y_svc y)\<lparr>svc_g := (y_g y)\<lparr>ExpiredSessionID := rest\<rparr>\<rparr>" env sid]
    by (auto simp: wf_sys_def)
qed (use assms(2) in \<open>auto simp: wf_sys_def intro: wf_monitor\<close>)

lemma steps_wf: "steps E y es y' \<Longrightarrow> wf_sys y \<Longrightarrow> wf_sys y'"
  by (induction rule: steps.induct) (auto intro: step_wf)

end
