(* ===== verification/Service_Props.thy ===== *)
theory Service_Props
  imports Service_Steps
begin

text \<open>
  Properties of the running service: what a client is told about its downloads, that the
  dispatcher never blocks, and how a session may change during its life.
\<close>

section \<open>The life of a session\<close>

text \<open>
  One session instance over time: its identity, token, policy, inspectors and secrets are fixed,
  a revocation is not undone, and the artifacts only gain entries and downloads.
\<close>

definition grows :: "Artifact \<Rightarrow> Artifact \<Rightarrow> bool" where
  "grows a a' \<longleftrightarrow> (\<exists>ds. a' = a\<lparr>a_Downloads := a_Downloads a @ ds\<rparr>)"

definition evolves :: "Session \<Rightarrow> Session \<Rightarrow> bool" where
  "evolves s s' \<longleftrightarrow> s_ID s' = s_ID s \<and> s_Token s' = s_Token s \<and> s_Permissive s' = s_Permissive s \<and>
     s_Insps s' = s_Insps s \<and> s_Secrets s' = s_Secrets s \<and> s_Timeout s' = s_Timeout s \<and>
     s_SessionDir s' = s_SessionDir s \<and> s_CacheDir s' = s_CacheDir s \<and>
     s_timer s' = s_timer s \<and> (s_revoked s \<longrightarrow> s_revoked s') \<and>
     (\<forall>d a. map_get (s_A s) d = Some a \<longrightarrow> (\<exists>a'. map_get (s_A s') d = Some a' \<and> grows a a'))"

lemma grows_refl [simp]: "grows a a"
  by (auto simp: grows_def intro: exI [of _ "[]"])

lemma grows_append [simp]: "grows a (a\<lparr>a_Downloads := a_Downloads a @ ds\<rparr>)"
  by (auto simp: grows_def)

lemma grows_trans: "grows a b \<Longrightarrow> grows b c \<Longrightarrow> grows a c"
  by (auto simp: grows_def)

lemma grows_result: "grows a a' \<Longrightarrow> a_Result a' = a_Result a"
  by (auto simp: grows_def)

lemma evolves_refl [simp]: "evolves s s"
  by (auto simp: evolves_def)

lemma evolves_trans: "evolves s t \<Longrightarrow> evolves t u \<Longrightarrow> evolves s u"
  by (fastforce simp: evolves_def intro: grows_trans)

lemma evolves_AddDownload: "evolves s (AddDownload d s)"
  by (auto simp: evolves_def AddDownload_def split: option.splits)

lemma evolves_AddArtifact: "evolves s (AddArtifact a s)"
  by (auto simp: evolves_def AddArtifact_def Let_def)

lemma evolves_Revoke: "evolves s (snd (Revoke now token s))"
  by (auto simp: evolves_def Revoke_def)

text \<open>
  How the table may change in one step: a session that is there afterwards was there before and
  evolved, or it is new, with a timer that was not in use and a policy the options allow.
\<close>

definition table_step :: "Options \<Rightarrow> gstate \<Rightarrow> gstate \<Rightarrow> bool" where
  "table_step opt g g' \<longleftrightarrow> length (timers g) \<le> length (timers g') \<and>
     (\<forall>sid s'. GetSession g' sid = Some s' \<longrightarrow>
        (\<exists>s. GetSession g sid = Some s \<and> evolves s s') \<or>
        (GetSession g sid = None \<and> length (timers g) \<le> s_timer s' \<and> s_A s' = [] \<and> \<not> s_revoked s' \<and>
         (s_Permissive s' \<longrightarrow> o_PermissiveMode opt)))"

lemma table_step_same:
  "GetSession g' = GetSession g \<Longrightarrow> length (timers g) \<le> length (timers g') \<Longrightarrow> table_step opt g g'"
  by (auto simp: table_step_def)

lemma table_step_put:
  assumes "GetSession g (s_ID s') = Some s" and "evolves s s'"
  shows "table_step opt g (put_session s' g)"
  using assms by (auto simp: table_step_def)

lemma table_step_fs [simp]: "table_step opt g (g'\<lparr>g_fs := fs\<rparr>) = table_step opt g g'"
  by (simp add: table_step_def)

lemma table_step_config [simp]: "table_step opt g (g'\<lparr>g_config := c\<rparr>) = table_step opt g g'"
  by (simp add: table_step_def)

lemma GetSession_expired [simp]: "GetSession (g\<lparr>ExpiredSessionID := x\<rparr>) = GetSession g"
  by (auto simp: GetSession_def)

lemma table_step_expired [simp]: "table_step opt (g\<lparr>ExpiredSessionID := x\<rparr>) g' = table_step opt g g'"
  by (simp add: table_step_def)

lemma NewWithID_timer:
  "NewWithID env now uuid sessionID token spoolDir timeout permissive secs ov g = (s, g') \<Longrightarrow>
     s_timer s = length (timers g) \<and> length (timers g') = Suc (length (timers g)) \<and> s_A s = [] \<and> \<not> s_revoked s \<and>
     s_Permissive s = permissive \<and> s_Token s = token \<and> s_Secrets s = secs \<and>
     s_Timeout s = (if timeout = 0 then DefaultSessionTimeout else timeout) \<and>
     s_Insps s = newInspectors permissive (env_inspectors env (Combine (GetInspectorsConfig (g_config g)) ov))"
  by (auto simp: NewWithID_def newSessionTimer_def Let_def)

lemma table_step_New:
  assumes "wf_gstate g" and "\<forall>sec \<in> set secs. usable sec" and "GetSession g (makeSessionIDImpl uuid) = None"
    and "NewWithID env now uuid sessionID token spoolDir timeout permissive secs ov g = (s, g')" and "permissive \<longrightarrow> o_PermissiveMode opt"
  shows "table_step opt g g'"
  using NewWithID_created(2,3) [OF assms(1-4)] NewWithID_timer [OF assms(4)] assms(5) by (auto simp: table_step_def)

lemma timers_Cancel: "Cancel i g = Some g' \<Longrightarrow> length (timers g') = length (timers g)"
  by (auto simp: Cancel_def Let_def split: if_splits)

lemma timers_Finish: "Finish env s g = Some (e, g') \<Longrightarrow> length (timers g') = length (timers g)"
  by (auto simp: Finish_files Discard_def split: prod.splits option.splits dest!: timers_Cancel)

lemma table_step_Finish:
  assumes "wf_gstate g" and "GetSession g sid = Some s" and "Finish env s g = Some (e, g')"
  shows "table_step opt g g'"
proof -
  have "GetSession g' = (if e = None then (GetSession g)(sid := None) else GetSession g)"
    using Finish_ex [OF assms(1,2), of env] assms(3) by simp
  then have "GetSession g i = Some x" if "GetSession g' i = Some x" for i x
    using that by (simp split: if_splits)
  then show ?thesis using timers_Finish [OF assms(3)] by (auto simp: table_step_def)
qed

lemma table_step_complete:
  assumes wf: "wf_gstate g" and h: "handleCompleteInspection a g = (e, g')"
  shows "table_step opt g g'"
proof (cases "GetSession g (a_SessionID a)")
  case (Some s)
  have "evolves s (AddDownload d (AddArtifact a s))" for d
    by (rule evolves_trans [OF evolves_AddArtifact evolves_AddDownload])
  then have "table_step opt g (put_session (AddDownload d (if c then AddArtifact a s else s)) g)" for c d
    using Some wf_gstateD(1) [OF wf Some] by (intro table_step_put [where s = s]) (auto simp: evolves_AddDownload)
  with h Some show ?thesis by (auto simp: handleCompleteInspection_def Let_def)
qed (use h in \<open>simp add: handleCompleteInspection_def table_step_same\<close>)

lemma table_step_handleMessages:
  assumes wf: "wf_gstate (svc_g svc)" and f: "fresh_ids env (svc_g svc)"
    and h: "handleMessages env now m svc = Some (out, svc')"
  shows "table_step (svc_opt svc) (svc_g svc) (svc_g svc')"
proof (cases m)
  case (ResponseInspection a)
  have "table_step (svc_opt svc) (svc_g svc) (put_session (AddDownload d s) (svc_g svc))"
    if "GetSession (svc_g svc) (a_SessionID a) = Some s" for d s
    using that wf_gstateD(1) [OF wf that] by (intro table_step_put) (auto simp: evolves_AddDownload)
  with ResponseInspection h show ?thesis
    by (auto simp: handleResponseInspection_def Let_def table_step_same
        split: option.splits if_splits prod.splits)
next
  case (CompleteInspection a)
  with h show ?thesis using table_step_complete [OF wf, of a] by (auto split: prod.splits)
next
  case (MsgCreateSession v)
  with h f wf show ?thesis
    by (auto simp: handleCreateSession_def New_def Let_def table_step_same fresh_ids_def ValidateSecrets_None
        intro: table_step_New split: if_splits option.splits prod.splits)
next
  case (RevokeToken sid token)
  have "table_step (svc_opt svc) (svc_g svc) (put_session (snd (Revoke now token s)) (svc_g svc))"
    if "GetSession (svc_g svc) sid = Some s" for s
    using that wf_gstateD(1) [OF wf that] by (intro table_step_put) (auto simp: evolves_Revoke)
  with RevokeToken h show ?thesis
    by (fastforce simp: handleRevokeToken_def Let_def table_step_same
        split: option.splits prod.splits bool.splits)
next
  case (EndSession sid)
  with h show ?thesis
    by (auto simp: handleEndSession_def table_step_same split: option.splits intro: table_step_Finish [OF wf])
next
  case (MsgFetchCtl v)
  with h f wf show ?thesis
    by (auto simp: handleFetchCtl_def fetchCtlUpdateConfig_def fetchCtlUpdateCert_def fetchCtlCreateSession_def Let_def table_step_same
        fresh_ids_def dest!: table_step_New [OF wf, where secs = "[]" and opt = "svc_opt svc", simplified, rotated]
        split: if_splits option.splits prod.splits sum.splits)
qed (use h in \<open>auto simp: table_step_same\<close>)

lemma table_step_handle_expired:
  assumes wf: "wf_gstate (svc_g svc)" and h: "handle_expired env sid svc = Some svc'"
  shows "table_step (svc_opt svc) (svc_g svc) (svc_g svc')"
  using h by (auto simp: handle_expired_def table_step_same split: option.splits intro: table_step_Finish [OF wf])

lemma step_table:
  assumes "step E y e y'" and "wf_sys y"
  shows "table_step (svc_opt (y_svc y)) (y_g y) (y_g y')"
  using assms
proof cases
  case (message_replied env m now r svc' c)
  then show ?thesis
    using assms(2) table_step_handleMessages [of "y_svc y" env now m] by (simp add: wf_sys_def y_g_def)
next
  case (message_spawned env m now t svc' c)
  then show ?thesis
    using assms(2) table_step_handleMessages [of "y_svc y" env now m] by (simp add: wf_sys_def y_g_def)
next
  case (response_done pre c s e a post ec g')
  with table_step_complete [OF _ response_done(4)] assms(2) show ?thesis by (simp add: wf_sys_def)
next
  case (session_expired env sid rest svc')
  let ?svc = "(y_svc y)\<lparr>svc_g := (y_g y)\<lparr>ExpiredSessionID := rest\<rparr>\<rparr>"
  have wf: "wf_gstate (svc_g ?svc)" using session_expired assms(2) by (simp add: wf_sys_def)
  from table_step_handle_expired [OF wf session_expired(5)]
  show ?thesis using session_expired by simp
qed (auto simp: table_step_same monitor_fire_def monitor_send_def monitor_done_def split: if_splits)


lemma steps_table:
  assumes "steps E y es y'" and "wf_sys y"
  shows "length (timers (y_g y)) \<le> length (timers (y_g y')) \<and>
     (\<forall>sid s'. GetSession (y_g y') sid = Some s' \<longrightarrow>
        (\<exists>s. GetSession (y_g y) sid = Some s \<and> evolves s s') \<or> length (timers (y_g y)) \<le> s_timer s')"
  using assms
proof (induction rule: steps.induct)
  case (steps_step y es y' e y'')
  note wf' = steps_wf [OF steps_step.hyps(1) steps_step.prems]
  note t = step_table [OF steps_step.hyps(2) wf']
  have len: "length (timers (y_g y)) \<le> length (timers (y_g y'))" and len': "length (timers (y_g y')) \<le> length (timers (y_g y''))"
    using steps_step t by (auto simp: table_step_def)
  have "(\<exists>s. GetSession (y_g y) sid = Some s \<and> evolves s s'') \<or> length (timers (y_g y)) \<le> s_timer s''"
    if s'': "GetSession (y_g y'') sid = Some s''" for sid s''
  proof (cases "\<exists>s'. GetSession (y_g y') sid = Some s' \<and> evolves s' s''")
    case True
    then obtain s' where s': "GetSession (y_g y') sid = Some s'" "evolves s' s''" by blast
    then have "s_timer s'' = s_timer s'" by (simp add: evolves_def)
    with s' steps_step show ?thesis by (metis evolves_trans)
  next
    case False
    with s'' t have "length (timers (y_g y')) \<le> s_timer s''" by (auto simp: table_step_def)
    with len show ?thesis by simp
  qed
  with len len' show ?case by (meson le_trans)
qed auto

section \<open>Claims\<close>

text \<open>The state in which the service starts.\<close>

definition start_sys :: "Options \<Rightarrow> int \<Rightarrow> tls_Certificate goproxy_vars \<Rightarrow> config_state \<Rightarrow> filesys \<Rightarrow> sys" where
  "start_sys opt start ca cfg fs =
     \<lparr>y_svc = \<lparr>svc_g = \<lparr>sessions = [], timers = [], ExpiredSessionID = [], g_fs = fs, g_config = cfg\<rparr>,
                svc_opt = opt, svc_start = start, svc_ca = ca, totalSessions = 0\<rparr>, y_tasks = []\<rparr>"

lemma wf_start_sys [simp]: "wf_sys (start_sys opt start ca cfg fs)"
  by (simp add: wf_sys_def start_sys_def y_g_def wf_gstate_def wf_sessions_def wf_timers_def)

lemma reachable_wf: "steps E (start_sys opt start ca cfg fs) es y \<Longrightarrow> wf_sys y"
  by (erule steps_wf) (rule wf_start_sys)

lemma handleResponseInspection_ok:
  assumes wf: "wf_gstate g" and h: "handleResponseInspection env now a g = (Replied None, g')"
  shows "\<exists>s b. GetSession g (a_SessionID a) = Some s \<and> map_get (s_A s) (md_Sha256 (a_Metadata a)) = Some b \<and>
           judged_artifact b \<and> (s_Permissive s \<or> a_Result b = Approved)"
proof -
  obtain s where s: "GetSession g (a_SessionID a) = Some s" and has: "HasArtifact s (md_Sha256 (a_Metadata a))"
    and ok: "s_Permissive s \<or> ArtifactResult s (md_Sha256 (a_Metadata a)) \<noteq> Rejected"
    using h by (auto simp: handleResponseInspection_def Let_def split: option.splits if_splits prod.splits)
  from has obtain b where b: "map_get (s_A s) (md_Sha256 (a_Metadata a)) = Some b" by (auto simp: HasArtifact_def)
  then have "judged_artifact b" using wf_gstateD(2) [OF wf s] by (simp add: wf_session_def)
  with s b ok show ?thesis by (auto simp: ArtifactResult_def judged_artifact_def)
qed

text \<open>
  C12. A client of a strict session is told that its download is fine only when the artifact was
  approved. In every reachable state: when a request is answered without an error, its inspection
  left it pending; when an inspected response is answered without an error, the artifact's result
  is Approved and its inspectors approved it; and when a response is answered at once, an artifact
  with the same digest was approved in the same session before.
\<close>

theorem strict_session_gate:
  assumes run: "steps E (start_sys opt start ca cfg fs) es y" and st: "step E y e y'"
  shows "(\<forall>c s a. e = Answer c (RequestTask s a) (RErr None) \<longrightarrow> \<not> s_Permissive s \<longrightarrow> RequestPending a) \<and>
         (\<forall>c s err a. e = Answer c (CompletionTask s err a) (RErr None) \<longrightarrow> \<not> s_Permissive s \<longrightarrow>
            a_Result a = Approved \<and> Artifact_Approved a) \<and>
         (\<forall>c a. e = Arrival c (ResponseInspection a) (Some (RErr None)) \<longrightarrow>
            (\<exists>s b. GetSession (y_g y) (a_SessionID a) = Some s \<and> map_get (s_A s) (md_Sha256 (a_Metadata a)) = Some b \<and>
               (s_Permissive s \<or> a_Result b = Approved \<and> Artifact_Approved b)))"
proof -
  have wf: "wf_sys y" by (rule reachable_wf [OF run])
  show ?thesis
  proof (intro conjI allI impI)
    fix c s a assume "e = Answer c (RequestTask s a) (RErr None)" and "\<not> s_Permissive s"
    with st show "RequestPending a"
      by (auto elim!: step_AnswerE simp: runRequestInspection_def evaluateRequestInspection_def
          split: prod.splits option.splits if_splits)
  next
    fix c s err a assume e: "e = Answer c (CompletionTask s err a) (RErr None)" and "\<not> s_Permissive s"
    with st obtain pre post where "y_tasks y = pre @ (c, CompletionTask s err a) # post" and "err = None"
      by (auto elim!: step_AnswerE split: option.splits)
    with wf \<open>\<not> s_Permissive s\<close> have "judged_artifact a \<and> a_Result a = Approved" by (simp add: wf_sys_def)
    then show "a_Result a = Approved" and "Artifact_Approved a" by (auto simp: judged_artifact_def)
  next
    fix c a assume "e = Arrival c (ResponseInspection a) (Some (RErr None))"
    with st obtain env now g' where "handleResponseInspection env now a (y_g y) = (Replied None, g')"
      by (auto elim!: step_ArrivalE simp: y_g_def split: prod.splits outcome.splits)
    then show "\<exists>s b. GetSession (y_g y) (a_SessionID a) = Some s \<and> map_get (s_A s) (md_Sha256 (a_Metadata a)) = Some b \<and>
               (s_Permissive s \<or> a_Result b = Approved \<and> Artifact_Approved b)"
      using handleResponseInspection_ok wf by (fastforce simp: wf_sys_def judged_artifact_def)
  qed
qed

text \<open>
  C16. The dispatcher never blocks: in every reachable state every message of a client is handled
  to the end, and so is an expired session, whatever the file system does.
\<close>

theorem dispatcher_never_blocks:
  assumes run: "steps E (start_sys opt start ca cfg fs) es y"
    and f: "fresh_ids env (y_g y)" and m: "client_msg m"
  shows "handleMessages env now m (y_svc y) \<noteq> None \<and> handle_expired env sid (y_svc y) \<noteq> None"
proof -
  have wf: "wf_gstate (svc_g (y_svc y))" using reachable_wf [OF run] by (simp add: wf_sys_def y_g_def)
  then show ?thesis
    using wf_handleMessages [OF wf, of env m now] wf_handle_expired [OF wf, of env sid] f m
    by (cases m) (fastforce simp: y_g_def)+
qed

text \<open>
  C13. A session instance keeps its token, policy and secrets; the result of an artifact, once
  recorded, never changes and its downloads are only appended to; and a revoked session stays
  revoked, so that its token never authenticates again. (The instance is told apart from a later
  session of the same ID by its timer.)
\<close>

theorem session_life:
  assumes run: "steps E (start_sys opt start ca cfg fs) es y" and more_steps: "steps E y es' y'"
    and s: "GetSession (y_g y) sid = Some s" and s': "GetSession (y_g y') sid = Some s'"
    and same: "s_timer s' = s_timer s"
  shows "s_Token s' = s_Token s \<and> s_Permissive s' = s_Permissive s \<and> s_Secrets s' = s_Secrets s \<and>
         list_all (\<lambda>(d, a). \<exists>a' ds. map_get (s_A s') d = Some a' \<and> a' = a\<lparr>a_Downloads := a_Downloads a @ ds\<rparr>) (s_A s) \<and>
         (s_revoked s \<longrightarrow> \<not> CheckAuth sid pw (y_g y'))"
proof -
  have wf: "wf_sys y" by (rule reachable_wf [OF run])
  then have "s_timer s < length (timers (y_g y))" and wfs: "wf_session s"
    using wf_gstateD(2,3) [OF _ s] by (auto simp: wf_sys_def)
  then obtain t where "GetSession (y_g y) sid = Some t" and "evolves t s'"
    using steps_table [OF more_steps wf] s' same by fastforce
  then have ev: "evolves s s'" using s by simp
  have "\<exists>a' ds. map_get (s_A s') d = Some a' \<and> a' = a\<lparr>a_Downloads := a_Downloads a @ ds\<rparr>" if "(d, a) \<in> set (s_A s)" for d a
  proof -
    have "map_get (s_A s) d = Some a" using that wfs by (simp add: wf_session_def)
    then show ?thesis using ev by (auto simp: evolves_def grows_def)
  qed
  then show ?thesis
    using ev s' by (auto simp: evolves_def CheckAuth_def list_all_iff)
qed


section \<open>A concrete run\<close>

definition sample_service_env :: service_env where
  "sample_service_env = \<lparr>sv_session = sample_session_env, sv_yaml = strict_yaml,
     sv_detect = (\<lambda>_. Inr \<lparr>mime_String = ''text/plain'', mime_Is = (\<lambda>t. t = ''text/plain'')\<rparr>), sv_seek = (\<lambda>_. None),
     dec_CreateSessionPayload = (\<lambda>_. Inl (Errorf ''json'')), enc_ArtifactList = (\<lambda>_. Inr ''[]''),
     sv_tls = text_pairs, sv_uuid = ''0123456789abcdef'', sv_uuid2 = ''0123456789abcdeg'', sv_intn = (\<lambda>n. n)\<rparr>"

definition sample_options :: Options where
  "sample_options = \<lparr>o_Config = ''/etc/fetch'', o_Spool = ''/spool'', o_PermissiveMode = False, o_KeyPath = [],
     o_CertPath = [], o_IdleShutdown = 0\<rparr>"

definition sample_start :: sys where
  "sample_start = start_sys sample_options 0 old_vars zero_config \<lparr>fs_files = [], fs_dirs = []\<rparr>"

definition sample_create :: CreateSession where
  "sample_create = \<lparr>cs_Timeout = 60, cs_Policy = ''strict'', cs_Secrets = [], cs_InspectorsConfig = no_override\<rparr>"

definition sample_created :: "SessionCredentials \<times> Service" where
  "sample_created = handleCreateSession sample_service_env 0 sample_create (y_svc sample_start)"

definition sample_sid :: string where
  "sample_sid = makeSessionIDImpl ''0123456789abcdef''"

definition sample_session :: Session where
  "sample_session = the (GetSession (svc_g (snd sample_created)) sample_sid)"

definition sample_y1 :: sys where
  "sample_y1 = sample_start\<lparr>y_svc := snd sample_created\<rparr>"

lemma sample_fresh: "fresh_ids sample_service_env (y_g sample_start)"
  by (simp add: fresh_ids_def sample_start_def start_sys_def y_g_def GetSession_def)

lemma sample_run1: "steps UNIV sample_start [Arrival 0 (MsgCreateSession sample_create) (Some (RCredentials (fst sample_created)))] sample_y1"
proof -
  have "handleMessages sample_service_env 0 (MsgCreateSession sample_create) (y_svc sample_start) =
      Some (Replied (RCredentials (fst sample_created)), snd sample_created)"
    by (simp add: sample_created_def split: prod.split)
  then have "step UNIV sample_start (Arrival 0 (MsgCreateSession sample_create) (Some (RCredentials (fst sample_created)))) sample_y1"
    unfolding sample_y1_def by (rule message_replied [rotated 3]) (simp_all add: sample_fresh)
  then show ?thesis using steps_step [OF steps_refl] by fastforce
qed

lemma sample_active: "GetSession (y_g sample_y1) sample_sid = Some sample_session"
proof -
  have "map_option s_ID (GetSession (svc_g (snd sample_created)) sample_sid) = Some sample_sid" by code_simp
  then show ?thesis by (auto simp: sample_session_def sample_y1_def)
qed

lemma sample_fresh_y1: "fresh_ids (sample_service_env\<lparr>sv_uuid := ''x'', sv_uuid2 := ''y''\<rparr>) (y_g sample_y1)"
proof -
  have "map_option s_ID (GetSession (svc_g (snd sample_created)) (makeSessionIDImpl ''x'')) = None"
    "map_option s_ID (GetSession (svc_g (snd sample_created)) (makeSessionIDImpl ''y'')) = None" by code_simp+
  then show ?thesis by (simp add: fresh_ids_def sample_y1_def)
qed

definition sample_inspected :: "go_error option \<times> Artifact" where
  "sample_inspected = runRequestInspection sample_session (NewArtifact\<lparr>a_SessionID := sample_sid\<rparr>)"

theorem strict_session_gate_witness: "RequestPending (snd sample_inspected)"
proof -
  let ?a = "NewArtifact\<lparr>a_SessionID := sample_sid\<rparr>"
  let ?m = "RequestInspection ?a"
  let ?y2 = "sample_y1\<lparr>y_svc := y_svc sample_y1, y_tasks := y_tasks sample_y1 @ [(1, RequestTask sample_session ?a)]\<rparr>"
  have h: "handleMessages sample_service_env 1 ?m (y_svc sample_y1) = Some (Spawned (RequestTask sample_session ?a), y_svc sample_y1)"
    using sample_active by (simp add: handleRequestInspection_def y_g_def)
  have "step UNIV sample_y1 (Arrival 1 ?m None) ?y2"
    by (rule message_spawned [where env = "sample_service_env\<lparr>sv_uuid := ''x'', sv_uuid2 := ''y''\<rparr>" and now = 1])
       (use h sample_fresh_y1 in simp_all)
  from steps_step [OF sample_run1 this]
  have r2: "steps UNIV sample_start ([Arrival 0 (MsgCreateSession sample_create) (Some (RCredentials (fst sample_created)))] @ [Arrival 1 ?m None]) ?y2" .
  have "fst sample_inspected = None" by code_simp
  then have ri: "runRequestInspection sample_session ?a = (None, snd sample_inspected)"
    by (simp add: sample_inspected_def prod_eq_iff)
  have "y_tasks ?y2 = [] @ (1, RequestTask sample_session ?a) # []"
    by (simp add: sample_y1_def sample_start_def start_sys_def)
  from request_done [OF this ri]
  have st: "step UNIV ?y2 (Answer 1 (RequestTask sample_session (snd sample_inspected)) (RErr None)) (?y2\<lparr>y_tasks := [] @ []\<rparr>)" .
  have "s_Permissive sample_session = False" by code_simp
  with strict_session_gate [OF r2 [unfolded sample_start_def] st] show ?thesis by simp
qed

theorem session_life_witness:
  "\<not> CheckAuth sample_sid (s_Token sample_session)
      (svc_g (snd (the (handleMessages sample_service_env 1 (RevokeToken sample_sid (s_Token sample_session)) (y_svc sample_y1)))))"
proof -
  let ?tok = "s_Token sample_session"
  let ?m = "RevokeToken sample_sid ?tok"
  define g2 where "g2 = put_session (snd (Revoke 1 ?tok sample_session)) (y_g sample_y1)"
  define r where "r = fst (handleRevokeToken 1 sample_sid ?tok (o_Spool (svc_opt (y_svc sample_y1))) (y_g sample_y1))"
  let ?y2 = "sample_y1\<lparr>y_svc := (y_svc sample_y1)\<lparr>svc_g := g2\<rparr>\<rparr>"
  have h: "handleMessages env 1 ?m (y_svc sample_y1) = Some (Replied (RRevoke r), (y_svc sample_y1)\<lparr>svc_g := g2\<rparr>)" for env
    using sample_active by (simp add: r_def g2_def handleRevokeToken_def Let_def Revoke_def y_g_def)
  have "step UNIV sample_y1 (Arrival 1 ?m (Some (RRevoke r))) ?y2"
    using sample_fresh_y1 by (rule message_replied [OF UNIV_I _ _ h]) simp
  from steps_step [OF sample_run1 this]
  have r2: "steps UNIV sample_start ([Arrival 0 (MsgCreateSession sample_create) (Some (RCredentials (fst sample_created)))] @
      [Arrival 1 ?m (Some (RRevoke r))]) ?y2" .
  have i: "s_ID sample_session = sample_sid" by code_simp
  have s2: "GetSession (y_g ?y2) sample_sid = Some (snd (Revoke 1 ?tok sample_session))"
    using i by (simp add: g2_def)
  have "s_revoked (snd (Revoke 1 ?tok sample_session))" by (simp add: Revoke_def)
  with session_life [OF r2 [unfolded sample_start_def] steps_refl s2 s2 refl, of ?tok]
  have "\<not> CheckAuth sample_sid ?tok (y_g ?y2)" by simp
  then show ?thesis by (simp add: h del: handleMessages.simps)
qed

theorem dispatcher_never_blocks_witness:
  "handleMessages sample_service_env 7 (EndSession sample_sid) (y_svc sample_start) \<noteq> None"
  using dispatcher_never_blocks [of UNIV sample_options 0 old_vars zero_config "\<lparr>fs_files = [], fs_dirs = []\<rparr>"
      "[]" sample_start sample_service_env "EndSession sample_sid" 7] steps_refl [of UNIV sample_start] sample_fresh
  by (simp add: sample_start_def)

end
