(* ===== verification/Service_Life.thy ===== *)
theory Service_Life
  imports Service_Props Spool
begin

text \<open>
  Further properties of the running service: the session counter, the policy of sessions, the
  timeout arithmetic, that every goroutine answers its client, and what an expired session leaves.
\<close>

section \<open>Options and the session counter\<close>

lemma handleMessages_opt: "handleMessages env now m svc = Some (out, svc') \<Longrightarrow> svc_opt svc' = svc_opt svc"
  by (cases m)
     (auto simp: handleCreateSession_def handleFetchCtl_def fetchCtlUpdateConfig_def fetchCtlUpdateCert_def fetchCtlCreateSession_def
       Let_def split: prod.splits option.splits outcome.splits if_splits sum.splits)

lemma handle_expired_opt: "handle_expired env sid svc = Some svc' \<Longrightarrow> svc_opt svc' = svc_opt svc \<and> totalSessions svc' = totalSessions svc"
  by (auto simp: handle_expired_def split: option.splits)

lemma step_opt: "step E y e y' \<Longrightarrow> svc_opt (y_svc y') = svc_opt (y_svc y)"
  by (erule step.cases) (auto simp: set_g_def handleMessages_opt dest: handle_expired_opt)

fun creates_session :: "event \<Rightarrow> bool" where
  "creates_session (Arrival c (MsgCreateSession v) (Some (RCredentials r))) \<longleftrightarrow> cr_Err r = None"
| "creates_session (Arrival c (MsgFetchCtl v) (Some (RFetchCtl r))) \<longleftrightarrow>
     fc_Operation v = ''create-session'' \<and> fr_Status r = ''ok''"
| "creates_session _ \<longleftrightarrow> False"

lemma handleMessages_count:
  "handleMessages env now m svc = Some (Replied r, svc') \<Longrightarrow>
     totalSessions svc' = totalSessions svc + (if creates_session (Arrival c m (Some r)) then 1 else 0)"
  "handleMessages env now m svc = Some (Spawned t, svc') \<Longrightarrow> totalSessions svc' = totalSessions svc"
  by (cases m;
      auto simp: handleCreateSession_def handleFetchCtl_def fetchCtlUpdateConfig_def fetchCtlUpdateCert_def
       fetchCtlListArtifacts_def fetchCtlCreateSession_def fetchctl_ok_def fetchctl_error_def
       Let_def split: prod.splits option.splits outcome.splits if_splits sum.splits)+

lemma step_count:
  "step E y e y' \<Longrightarrow> totalSessions (y_svc y') = totalSessions (y_svc y) + (if creates_session e then 1 else 0)"
  by (erule step.cases) (auto simp: set_g_def handleMessages_count dest: handle_expired_opt)

text \<open>
  The session counter that the status reports is the number of sessions created since the
  service started, by the control API and by fetchctl, modulo the width of the counter.
\<close>

theorem session_counter:
  assumes "steps E (start_sys opt start ca cfg fs) es y"
  shows "totalSessions (y_svc y) = of_nat (length (filter creates_session es))"
proof -
  have "steps E y0 es y \<Longrightarrow> totalSessions (y_svc y) = totalSessions (y_svc y0) + of_nat (length (filter creates_session es))" for y0
    by (induction rule: steps.induct) (auto simp: step_count)
  from this [OF assms] show ?thesis by (simp add: start_sys_def)
qed

theorem session_counter_witness: "totalSessions (y_svc sample_y1) = 1"
proof -
  have "cr_Err (fst sample_created) = None" by code_simp
  then show ?thesis using session_counter [OF sample_run1 [unfolded sample_start_def]] by simp
qed

section \<open>Policy\<close>

definition all_strict :: "sys \<Rightarrow> bool" where
  "all_strict y \<longleftrightarrow> \<not> o_PermissiveMode (svc_opt (y_svc y)) \<and> (\<forall>sid s. GetSession (y_g y) sid = Some s \<longrightarrow> \<not> s_Permissive s)"

lemma step_all_strict:
  assumes st: "step E y e y'" and wf: "wf_sys y" and inv: "all_strict y"
  shows "all_strict y'"
proof -
  have "\<not> s_Permissive s'" if "GetSession (y_g y') sid = Some s'" for sid s'
  proof (cases "\<exists>s. GetSession (y_g y) sid = Some s \<and> evolves s s'")
    case True
    then obtain s where "GetSession (y_g y) sid = Some s" and "evolves s s'" by blast
    then have "\<not> s_Permissive s" and "s_Permissive s' = s_Permissive s"
      using inv by (simp_all add: all_strict_def evolves_def)
    then show ?thesis by simp
  next
    case False
    with step_table [OF st wf] that have "s_Permissive s' \<longrightarrow> o_PermissiveMode (svc_opt (y_svc y))"
      unfolding table_step_def by blast
    with inv show ?thesis by (simp add: all_strict_def)
  qed
  with inv step_opt [OF st] show ?thesis by (simp add: all_strict_def)
qed

lemma steps_all_strict: "steps E y es y' \<Longrightarrow> wf_sys y \<Longrightarrow> all_strict y \<Longrightarrow> all_strict y'"
  by (induction rule: steps.induct) (blast intro: step_all_strict steps_wf)+

text \<open>
  C39. A service that was not started in permissive mode only ever has strict sessions, however
  its sessions are created.
\<close>

theorem permissive_only_when_allowed:
  assumes run: "steps E (start_sys opt start ca cfg fs) es y" and strict: "\<not> o_PermissiveMode opt"
    and s: "GetSession (y_g y) sid = Some s"
  shows "\<not> s_Permissive s \<and> \<not> insp_permissive (s_Insps s)"
proof -
  have "all_strict (start_sys opt start ca cfg fs)"
    using strict by (simp add: all_strict_def start_sys_def y_g_def GetSession_def)
  then have "\<not> s_Permissive s"
    using steps_all_strict [OF run wf_start_sys] s by (simp add: all_strict_def)
  moreover have "insp_permissive (s_Insps s) = s_Permissive s"
    using wf_gstateD(2) [OF _ s] reachable_wf [OF run] by (simp add: wf_sys_def wf_session_def)
  ultimately show ?thesis by simp
qed

theorem permissive_only_when_allowed_witness: "\<not> s_Permissive sample_session"
proof -
  have "\<not> o_PermissiveMode sample_options" by (simp add: sample_options_def)
  from permissive_only_when_allowed [OF sample_run1 [unfolded sample_start_def] this sample_active]
  show ?thesis by (rule conjunct1)
qed

section \<open>Timeouts\<close>

lemma timeout_of_exact:
  assumes "unat t \<le> 9223372036"
  shows "timeout_of t = int (unat t) * 1000000000"
proof -
  have b: "0 \<le> uint t" "uint t \<le> 9223372036" using assms unfolding uint_nat by linarith+
  define x where "x = uint t * 1000000000"
  have x: "0 \<le> x" "x < 2 ^ 63" using b by (simp_all add: x_def)
  have "uint (t * 1000000000) = uint t * uint (1000000000 :: 64 word) mod 2 ^ 64"
    using uint_word_ariths(3) [of t 1000000000] by simp
  also have "\<dots> = x mod 2 ^ 64" by (simp add: x_def)
  also have "\<dots> = x" using x by (intro mod_pos_pos_trivial) simp_all
  finally have "sint (t * 1000000000) = signed_take_bit 63 x" by (simp only: sint_uint) simp
  also have "\<dots> = x" using x by (intro signed_take_bit_int_eq_self) simp_all
  finally show ?thesis by (simp add: timeout_of_def x_def)
qed



section \<open>Every goroutine answers\<close>

text \<open>
  Every client whose message started a goroutine gets its answer: from any state with such a
  goroutine, at most two of its own steps lead to the answer, and no other step is needed.
\<close>

theorem task_answered:
  assumes "env \<in> E" and "(c, t) \<in> set (y_tasks y)"
  shows "\<exists>es y' t' r. steps E y es y' \<and> length es \<le> 2 \<and> last es = Answer c t' r"
proof -
  obtain pre post where ts: "y_tasks y = pre @ (c, t) # post" using assms(2) by (meson split_list)
  have one: "\<exists>es y' t' r. steps E y es y' \<and> length es \<le> 2 \<and> last es = Answer c t' r"
    if "step E y (Answer c t' r) y'" for t' r y'
    using steps_step [OF steps_refl that] by fastforce
  have done_step: "\<exists>y' r. step E z (Answer c (CompletionTask s e a) r) y'" if "y_tasks z = pre @ (c, CompletionTask s e a) # post" for z s e a
    by (metis response_done [OF that] prod.exhaust)
  show ?thesis
  proof (cases t)
    case (RequestTask s a)
    then show ?thesis using one ts request_done by (metis prod.exhaust)
  next
    case (CompletionTask s e a)
    then show ?thesis using one ts done_step by metis
  next
    case (ResourcesTask sid)
    then show ?thesis using one ts resources_done [OF assms(1)] by (metis prod.exhaust)
  next
    case (ResponseTask s a)
    obtain e a' fs' where "runResponseInspection env s a (g_fs (y_g y)) = (e, a', fs')" by (metis prod_cases3)
    from response_run [OF assms(1) ts [unfolded ResponseTask] this]
    obtain z where z: "step E y Internal z" "y_tasks z = pre @ (c, CompletionTask s e a') # post" by force
    obtain y' r where "step E z (Answer c (CompletionTask s e a') r) y'" using done_step [OF z(2)] by blast
    from steps_step [OF steps_step [OF steps_refl z(1)] this] show ?thesis by fastforce
  qed
qed

section \<open>Expired sessions\<close>

text \<open>
  When a session expires its files are removed, even when its report could not be written. If
  the report was written the session is gone. If not, the session stays active with its files
  deleted and its timer stopped, so it will not expire again.
\<close>

theorem expired_session:
  assumes wf: "wf_gstate (svc_g svc)" and s: "GetSession (svc_g svc) sid = Some s"
    and h: "handle_expired env sid svc = Some svc'"
    and rm: "fa_removeall (env_os (sv_session env)) (filepath_Join [o_Spool (svc_opt svc), sid]) = None"
  shows "(inside (filepath_Join [o_Spool (svc_opt svc), sid]) p \<longrightarrow> map_get (fs_files (g_fs (svc_g svc'))) p = None) \<and>
         (GetSession (svc_g svc') = (GetSession (svc_g svc))(sid := None) \<or>
          GetSession (svc_g svc') = GetSession (svc_g svc) \<and> \<not> t_armed (timers (svc_g svc') ! s_timer s))"
proof -
  let ?d = "filepath_Join [o_Spool (svc_opt svc), sid]"
  obtain g1 where f: "Finish (sv_session env) s (svc_g svc) = Some (fst (finish_files (sv_session env) s (g_fs (svc_g svc))), g1)"
    and get: "GetSession g1 = (if fst (finish_files (sv_session env) s (g_fs (svc_g svc))) = None
      then (GetSession (svc_g svc))(sid := None) else GetSession (svc_g svc))"
    and arm: "fst (finish_files (sv_session env) s (g_fs (svc_g svc))) \<noteq> None \<Longrightarrow> \<not> t_armed (timers g1 ! s_timer s)"
    by (rule Finish_active [OF wf s]) blast
  have svc': "svc_g svc' = g1\<lparr>g_fs := snd (RemoveResources (sv_session env) (o_Spool (svc_opt svc)) sid (g_fs g1))\<rparr>"
    using h s f by (auto simp: handle_expired_def)
  have "fst (os_RemoveAll (env_os (sv_session env)) ?d (g_fs g1)) = None" using rm by (simp add: os_RemoveAll_def)
  then have "os_RemoveAll (env_os (sv_session env)) ?d (g_fs g1) = (None, g_fs (svc_g svc'))"
    by (simp add: svc' RemoveResources_def prod_eq_iff)
  from os_RemoveAll_get [OF this] have "inside ?d p \<Longrightarrow> map_get (fs_files (g_fs (svc_g svc'))) p = None" by simp
  moreover have "GetSession (svc_g svc') = (GetSession (svc_g svc))(sid := None) \<or>
      GetSession (svc_g svc') = GetSession (svc_g svc) \<and> \<not> t_armed (timers (svc_g svc') ! s_timer s)"
    using get arm by (cases "fst (finish_files (sv_session env) s (g_fs (svc_g svc)))") (simp_all add: svc')
  ultimately show ?thesis by blast
qed


section \<open>Concrete instances\<close>

lemma wf_sample_start: "wf_gstate (svc_g (y_svc sample_start))"
  using wf_start_sys [of sample_options 0 old_vars zero_config "\<lparr>fs_files = [], fs_dirs = []\<rparr>"]
  by (simp add: sample_start_def wf_sys_def y_g_def)


theorem task_answered_witness:
  "\<exists>es y' t' r. steps UNIV (sample_start\<lparr>y_tasks := [(3, ResourcesTask ''d7e0'')]\<rparr>) es y' \<and> length es \<le> 2 \<and> last es = Answer 3 t' r"
  by (rule task_answered [OF UNIV_I, where t = "ResourcesTask ''d7e0''"]) simp

definition expiring_service :: Service where
  "expiring_service = (y_svc sample_start)\<lparr>svc_g := snd sample_new\<rparr>"

theorem expired_session_witness:
  "map_get (fs_files (g_fs (svc_g (the (handle_expired sample_service_env ''d7e0'' expiring_service))))) ''/spool/d7e0/session.json'' = None"
proof -
  have "wf_gstate (svc_g expiring_service)" "GetSession (svc_g expiring_service) ''d7e0'' = Some (fst sample_new)"
    by (simp_all add: expiring_service_def sample_new_created)
  moreover from wf_handle_expired [OF this(1), of sample_service_env "''d7e0''"]
  have "handle_expired sample_service_env ''d7e0'' expiring_service = Some (the (handle_expired sample_service_env ''d7e0'' expiring_service))"
    by auto
  moreover have "fa_removeall (env_os (sv_session sample_service_env)) (filepath_Join [o_Spool (svc_opt expiring_service), ''d7e0'']) = None"
    by (simp add: sample_service_env_def sample_session_env_def no_faults_def)
  moreover have "inside (filepath_Join [o_Spool (svc_opt expiring_service), ''d7e0'']) ''/spool/d7e0/session.json''" by code_simp
  ultimately show ?thesis by (metis expired_session)
qed

end
