(* ===== verification/Dispatcher.thy ===== *)
theory Dispatcher
  imports Service_Life
begin

text \<open>
  The loop of the dispatcher and the end of the service (\<^verbatim>\<open>service/service.go\<close>): the idle timer, the servers whose
  end ends the dispatcher, and \<^verbatim>\<open>Stop\<close>.

  A state of the loop holds the running service of \<^verbatim>\<open>Service_Steps\<close>, the time, the deadline of the idle timer
  (\<^const>\<open>None\<close> when it is stopped or has fired: a timer fires once) and what the loop returned, if it did. An
  inspection that completes sends the dispatcher a message of its own, so it starts the idle timer too.
\<close>

section \<open>The idle timer\<close>

text \<open>\<^verbatim>\<open>time.Duration(svc.opt.IdleShutdown) * time.Second\<close>, in 64 bits.\<close>

definition idle_duration :: "Options \<Rightarrow> int" where
  "idle_duration opt = sint ((word_of_int (o_IdleShutdown opt) :: 64 word) * 1000000000)"

definition new_idle_timer :: "Options \<Rightarrow> int \<Rightarrow> int option" where
  "new_idle_timer opt now = (if o_IdleShutdown opt = 0 then None else Some (now + idle_duration opt))"

definition reset_idle_timer :: "Options \<Rightarrow> int \<Rightarrow> int option \<Rightarrow> int option" where
  "reset_idle_timer opt now timer = (if 0 < o_IdleShutdown opt then Some (now + idle_duration opt) else timer)"

section \<open>The loop\<close>

record dispatch =
  d_sys :: sys
  d_now :: int
  d_idle :: "int option"
  d_ret :: "go_error option option"

abbreviation d_opt :: "dispatch \<Rightarrow> Options" where
  "d_opt d \<equiv> svc_opt (y_svc (d_sys d))"

text \<open>The events that the dispatcher takes from its channels; the others are steps of goroutines.\<close>

fun dispatched :: "event \<Rightarrow> bool" where
  "dispatched (Arrival c m r) = True"
| "dispatched (Answer c (CompletionTask s e a) r) = True"
| "dispatched (Expiry sid) = True"
| "dispatched _ = False"

text \<open>After the expiry of a session that does not exist the loop goes on without the timer being reset.\<close>

fun resets :: "gstate \<Rightarrow> event \<Rightarrow> bool" where
  "resets g (Expiry sid) \<longleftrightarrow> GetSession g sid \<noteq> None"
| "resets g e \<longleftrightarrow> dispatched e"

inductive dispatcher_loop :: "service_env set \<Rightarrow> dispatch \<Rightarrow> dispatch \<Rightarrow> bool" for E where
  handles:
    "d_ret d = None \<Longrightarrow> step E (d_sys d) e y' \<Longrightarrow> dispatched e \<Longrightarrow>
       dispatcher_loop E d (d\<lparr>d_sys := y', d_idle := if resets (y_g (d_sys d)) e then reset_idle_timer (d_opt d) (d_now d) (d_idle d) else d_idle d\<rparr>)"
| server_dies: "d_ret d = None \<Longrightarrow> dispatcher_loop E d (d\<lparr>d_ret := Some err\<rparr>)"
| idle_ends:
    "d_ret d = None \<Longrightarrow> d_idle d = Some t \<Longrightarrow> t \<le> d_now d \<Longrightarrow> idle_shutdown (y_g (d_sys d)) \<Longrightarrow>
       dispatcher_loop E d (d\<lparr>d_idle := None, d_ret := Some None\<rparr>)"
| idle_waits:
    "d_ret d = None \<Longrightarrow> d_idle d = Some t \<Longrightarrow> t \<le> d_now d \<Longrightarrow> \<not> idle_shutdown (y_g (d_sys d)) \<Longrightarrow>
       dispatcher_loop E d (d\<lparr>d_idle := None\<rparr>)"
| goroutine: "step E (d_sys d) e y' \<Longrightarrow> \<not> dispatched e \<Longrightarrow> dispatcher_loop E d (d\<lparr>d_sys := y'\<rparr>)"
| time_passes: "0 \<le> dt \<Longrightarrow> dispatcher_loop E d (d\<lparr>d_now := d_now d + dt\<rparr>)"

definition dispatcher_start :: "Options \<Rightarrow> int \<Rightarrow> tls_Certificate goproxy_vars \<Rightarrow> config_state \<Rightarrow> filesys \<Rightarrow> dispatch" where
  "dispatcher_start opt now ca cfg fs =
     \<lparr>d_sys = start_sys opt now ca cfg fs, d_now = now, d_idle = new_idle_timer opt now, d_ret = None\<rparr>"

section \<open>The end of the service\<close>

record stop_env =
  st_proxy :: "go_error option"
  st_fetchctl :: "go_error option"
  st_control :: "go_error option"

definition Service_Stop :: "service_env \<Rightarrow> stop_env \<Rightarrow> Service \<Rightarrow> (go_error option \<times> Service) option" where
  "Service_Stop env st svc =
     (case FinishAll (sv_session env) (svc_g svc) of None \<Rightarrow> None
      | Some g' \<Rightarrow> Some
        (case st_proxy st of Some err \<Rightarrow> Some (ErrWrap ''cannot shut down the HTTP server'' err)
         | None \<Rightarrow> (case st_fetchctl st of Some err \<Rightarrow> Some (ErrWrap ''cannot shut down the fetchctl socket'' err)
           | None \<Rightarrow> (case st_control st of Some err \<Rightarrow> Some (ErrWrap ''cannot shut down the control API server'' err)
             | None \<Rightarrow> None)), svc\<lparr>svc_g := g'\<rparr>))"

section \<open>An idle service stops\<close>

lemma NumSessions_length: "NumSessions g = length (sessions g)"
proof -
  have "fold (\<lambda>_ size. size + 1) sm n = n + length sm" for sm :: "(string \<times> Session) list" and n :: nat
    by (induction sm arbitrary: n) auto
  then show ?thesis by (simp add: NumSessions_def SessionMap_Size_def)
qed

lemma idle_shutdown_iff: "idle_shutdown g \<longleftrightarrow> sessions g = []"
  by (simp add: idle_shutdown_def NumSessions_length)

text \<open>Only events that start the timer again can take a session out of the table.\<close>

lemma unreset_sessions:
  assumes "step E y e y'" and "\<not> resets (y_g y) e" and "sessions (y_g y) \<noteq> []"
  shows "sessions (y_g y') \<noteq> []"
  using assms
  by cases (auto simp: handle_expired_def monitor_fire_def monitor_send_def monitor_done_def upd_timer_def GetSession_def split: if_splits)

text \<open>
  The invariant: while the loop runs with an idle timeout and no session, the timer is set, to at most the
  timeout from now.
\<close>

definition idle_armed :: "dispatch \<Rightarrow> bool" where
  "idle_armed d \<longleftrightarrow> d_ret d = None \<longrightarrow> 0 < o_IdleShutdown (d_opt d) \<longrightarrow>
     (case d_idle d of None \<Rightarrow> sessions (y_g (d_sys d)) \<noteq> [] | Some t \<Rightarrow> t \<le> d_now d + idle_duration (d_opt d))"

lemma loop_idle_armed: "dispatcher_loop E d d' \<Longrightarrow> idle_armed d \<Longrightarrow> idle_armed d'"
proof (induction rule: dispatcher_loop.induct)
  case (handles d e y')
  then show ?case
    using step_opt [OF handles(2)] unreset_sessions [OF handles(2)]
    by (auto simp: idle_armed_def reset_idle_timer_def split: option.splits)
next
  case (goroutine d e y')
  have "\<not> resets (y_g (d_sys d)) e" using goroutine(2) by (cases e) auto
  then show ?case
    using goroutine(3) step_opt [OF goroutine(1)] unreset_sessions [OF goroutine(1)]
    by (auto simp: idle_armed_def split: option.splits)
qed (auto simp: idle_armed_def idle_shutdown_iff split: option.splits)

lemma loop_opt: "dispatcher_loop E d d' \<Longrightarrow> d_opt d' = d_opt d"
  by (induction rule: dispatcher_loop.induct) (auto dest: step_opt)

text \<open>
  C17. A service with an idle timeout stops when it is idle. In every state the loop of the dispatcher can
  reach, whatever messages, expiries and goroutines came before: when the loop runs and no session is active,
  the idle timer is set, its deadline is at most the timeout away, and from the deadline on the loop can end
  without an error.
\<close>

theorem idle_service_stops:
  assumes "(dispatcher_loop E)\<^sup>*\<^sup>* (dispatcher_start opt now ca cfg fs) d" and "0 < o_IdleShutdown opt"
    and "d_ret d = None" and "NumSessions (y_g (d_sys d)) = 0"
  shows "\<exists>t. d_idle d = Some t \<and> t \<le> d_now d + idle_duration opt \<and>
    dispatcher_loop E (d\<lparr>d_now := max t (d_now d)\<rparr>) (d\<lparr>d_now := max t (d_now d), d_idle := None, d_ret := Some None\<rparr>)"
proof -
  have "idle_armed (dispatcher_start opt now ca cfg fs)"
    using assms(2) by (simp add: idle_armed_def dispatcher_start_def new_idle_timer_def start_sys_def)
  with assms(1) have "idle_armed d" by (induction rule: rtranclp_induct) (auto intro: loop_idle_armed)
  moreover have "d_opt d = opt"
    using assms(1) by (induction rule: rtranclp_induct) (auto simp: dispatcher_start_def start_sys_def dest: loop_opt)
  ultimately obtain t where t: "d_idle d = Some t" "t \<le> d_now d + idle_duration opt"
    using assms(2-4) by (auto simp: idle_armed_def NumSessions_length split: option.splits)
  then have "dispatcher_loop E (d\<lparr>d_now := max t (d_now d)\<rparr>) (d\<lparr>d_now := max t (d_now d), d_idle := None, d_ret := Some None\<rparr>)"
    using idle_ends [of "d\<lparr>d_now := max t (d_now d)\<rparr>" t E] assms(3,4) by (simp add: idle_shutdown_def)
  with t show ?thesis by blast
qed

text \<open>\<^verbatim>\<open>Stop\<close> returns: finishing the sessions never blocks, and no session is added or changed.\<close>

lemma wf_gstate_sessions:
  assumes "wf_gstate g"
  shows "\<forall>s \<in> set (map snd (sessions g)). GetSession g (s_ID s) = Some s" and "distinct (map s_ID (map snd (sessions g)))"
proof -
  have get: "map_get (sessions g) sid = Some s \<and> s_ID s = sid" if "(sid, s) \<in> set (sessions g)" for sid s
    using assms that by (simp add: wf_gstate_def wf_sessions_def)
  then show "\<forall>s \<in> set (map snd (sessions g)). GetSession g (s_ID s) = Some s" by (auto simp: GetSession_def)
  have "map s_ID (map snd (sessions g)) = map fst (sessions g)" using get by auto
  moreover have "distinct (map fst (sessions g))" using assms by (simp add: wf_gstate_def wf_sessions_def)
  ultimately show "distinct (map s_ID (map snd (sessions g)))" by (simp only:)
qed

theorem Service_Stop_returns:
  assumes "wf_gstate (svc_g svc)"
  shows "\<exists>err svc'. Service_Stop env st svc = Some (err, svc') \<and> wf_gstate (svc_g svc') \<and>
    (\<forall>sid. GetSession (svc_g svc) sid = None \<longrightarrow> GetSession (svc_g svc') sid = None)"
proof -
  obtain g' where "FinishAll (sv_session env) (svc_g svc) = Some g'" "wf_gstate g'" "dom (GetSession g') \<subseteq> dom (GetSession (svc_g svc))"
    using finish_each_total [OF assms wf_gstate_sessions [OF assms], of "sv_session env"] by (auto simp: FinishAll_def)
  then show ?thesis by (auto simp: Service_Stop_def)
qed

section \<open>A run\<close>

definition idle_options :: Options where
  "idle_options = sample_options\<lparr>o_IdleShutdown := 60\<rparr>"

theorem idle_service_stops_witness:
  "\<exists>d. (dispatcher_loop UNIV)\<^sup>*\<^sup>* (dispatcher_start idle_options 0 old_vars zero_config \<lparr>fs_files = [], fs_dirs = []\<rparr>) d \<and> d_ret d = Some None \<and> d_now d = 60 * 1000000000"
proof -
  let ?d = "dispatcher_start idle_options 0 old_vars zero_config \<lparr>fs_files = [], fs_dirs = []\<rparr>"
  have dur: "idle_duration idle_options = 60 * 1000000000" by code_simp
  have opt: "o_IdleShutdown idle_options = 60" by (simp add: idle_options_def)
  have start: "0 < o_IdleShutdown idle_options" "d_ret ?d = None" "NumSessions (y_g (d_sys ?d)) = 0" "d_idle ?d = Some (60 * 1000000000)" "d_now ?d = 0"
    by (simp_all add: opt dispatcher_start_def NumSessions_length start_sys_def y_g_def new_idle_timer_def dur)
  from idle_service_stops [OF rtranclp.rtrancl_refl start(1,2,3)] start(4,5)
  have "dispatcher_loop UNIV (?d\<lparr>d_now := 60 * 1000000000\<rparr>) (?d\<lparr>d_now := 60 * 1000000000, d_idle := None, d_ret := Some None\<rparr>)" by auto
  moreover have "dispatcher_loop UNIV ?d (?d\<lparr>d_now := 60 * 1000000000\<rparr>)"
    using time_passes [of "60 * 1000000000" UNIV ?d] start(5) by simp
  ultimately have "(dispatcher_loop UNIV)\<^sup>*\<^sup>* ?d (?d\<lparr>d_now := 60 * 1000000000, d_idle := None, d_ret := Some None\<rparr>)" by (meson converse_rtranclp_into_rtranclp r_into_rtranclp)
  then show ?thesis by (intro exI conjI) auto
qed

end
