(* ===== verification/Control.thy ===== *)
theory Control
  imports Service_Life Base64
begin

text \<open>
  \<^verbatim>\<open>control/control.go\<close>: the control API. A handler sends a message to the dispatcher and waits for
  the reply: that exchange is the argument \<^theory_text>\<open>call\<close>, which returns the reply and the new state of
  the service, or \<^const>\<open>None\<close> when no reply ever comes. The path parameter of the router (a third-party
  package) and the results of the JSON codec for the parameter and result structures are arguments.
  A response is its status and its body; log output and security events are not modelled.
\<close>

section \<open>Requests and responses\<close>

record createSessionParameters =
  p_Timeout :: "64 word"
  p_Policy :: string
  p_Secrets :: "Secret list"
  p_InspectorsConfig :: OverrideInspectorsConfig

record control_codec =
  dec_createSession :: "string \<Rightarrow> createSessionParameters result"
  dec_revokeToken :: "string \<Rightarrow> string result"
  enc_ServiceStatus :: "ServiceStatus \<Rightarrow> string result"
  enc_SessionCredentials :: "SessionCredentials \<Rightarrow> string result"
  enc_RevokeTokenResult :: "RevokeTokenResult \<Rightarrow> string result"
  enc_SessionReportResult :: "SessionReportResult \<Rightarrow> string result"

record ctl_request =
  cq_Authorization :: string
  cq_id :: "string option"
  cq_body :: string

record ctl_response =
  cw_status :: int
  cw_body :: string

record Server =
  srv_user :: string
  srv_pw :: string

definition NewServer :: "string \<Rightarrow> Server" where
  "NewServer creds =
     (case strings_SplitN2 creds CHR '':'' of
        [user, pw] \<Rightarrow> \<lparr>srv_user = user, srv_pw = pw\<rparr>
      | _ \<Rightarrow> \<lparr>srv_user = [], srv_pw = []\<rparr>)"

definition writeResponse :: "string \<Rightarrow> ctl_response" where
  "writeResponse b = \<lparr>cw_status = StatusOK, cw_body = b\<rparr>"

definition badRequest :: "string \<Rightarrow> ctl_response" where
  "badRequest reason = \<lparr>cw_status = StatusBadRequest, cw_body = reason\<rparr>"

definition internalServerError :: ctl_response where
  "internalServerError = \<lparr>cw_status = StatusInternalServerError, cw_body = ''500 Internal Server Error''\<rparr>"

definition notFound :: ctl_response where
  "notFound = \<lparr>cw_status = StatusNotFound, cw_body = ''404 Not Found''\<rparr>"

definition unauthorized :: ctl_response where
  "unauthorized = \<lparr>cw_status = StatusUnauthorized, cw_body = ''401 Unauthorized''\<rparr>"

text \<open>\<^verbatim>\<open>Request.BasicAuth\<close>: the scheme is compared without regard to case.\<close>

definition BasicAuth :: "string \<Rightarrow> (string \<times> string) option" where
  "BasicAuth h =
     (if length h < 6 \<or> strings_ToLower (take 6 h) \<noteq> ''basic '' then None
      else (case base64_DecodeString (drop 6 h) of Inl _ \<Rightarrow> None
        | Inr c \<Rightarrow> strings_Cut c CHR '':''))"

text \<open>\<^verbatim>\<open>checkAuth\<close>: \<^const>\<open>None\<close> lets the request through, otherwise it is the response written.\<close>

definition checkAuth :: "Server \<Rightarrow> ctl_request \<Rightarrow> ctl_response option" where
  "checkAuth c r =
     (case BasicAuth (cq_Authorization r) of None \<Rightarrow> Some unauthorized
      | Some (user, pw) \<Rightarrow> if user \<noteq> srv_user c \<or> pw \<noteq> srv_pw c then Some unauthorized else None)"

section \<open>Handlers\<close>

definition getServiceStatus ::
  "control_codec \<Rightarrow> (msg \<Rightarrow> 'st \<Rightarrow> (reply \<times> 'st) option) \<Rightarrow> 'st \<Rightarrow> (ctl_response \<times> 'st) option" where
  "getServiceStatus cc call st =
     (case call GetServiceStatus st of
        Some (RStatus status, st') \<Rightarrow>
          (case enc_ServiceStatus cc status of Inl _ \<Rightarrow> Some (internalServerError, st')
           | Inr j \<Rightarrow> Some (writeResponse j, st'))
      | _ \<Rightarrow> None)"

definition createSession ::
  "control_codec \<Rightarrow> (msg \<Rightarrow> 'st \<Rightarrow> (reply \<times> 'st) option) \<Rightarrow> Server \<Rightarrow> ctl_request \<Rightarrow> 'st
     \<Rightarrow> (ctl_response \<times> 'st) option" where
  "createSession cc call c r st =
     (case checkAuth c r of Some w \<Rightarrow> Some (w, st)
      | None \<Rightarrow>
        (case dec_createSession cc (cq_body r) of Inl err \<Rightarrow> Some (badRequest (err_Error err), st)
         | Inr params \<Rightarrow>
           (case call (MsgCreateSession \<lparr>cs_Timeout = p_Timeout params, cs_Policy = p_Policy params,
                   cs_Secrets = p_Secrets params, cs_InspectorsConfig = p_InspectorsConfig params\<rparr>) st of
              Some (RCredentials cred, st') \<Rightarrow>
                (case cr_Err cred of Some err \<Rightarrow> Some (badRequest (err_Error err), st')
                 | None \<Rightarrow> (case enc_SessionCredentials cc cred of Inl _ \<Rightarrow> Some (internalServerError, st')
                    | Inr j \<Rightarrow> Some (writeResponse j, st')))
            | _ \<Rightarrow> None)))"

definition deleteSessionToken ::
  "control_codec \<Rightarrow> (msg \<Rightarrow> 'st \<Rightarrow> (reply \<times> 'st) option) \<Rightarrow> ctl_request \<Rightarrow> 'st \<Rightarrow> (ctl_response \<times> 'st) option" where
  "deleteSessionToken cc call r st =
     (case cq_id r of None \<Rightarrow> Some (notFound, st)
      | Some sid \<Rightarrow>
        (case dec_revokeToken cc (cq_body r) of Inl err \<Rightarrow> Some (badRequest (err_Error err), st)
         | Inr token \<Rightarrow>
           (case call (RevokeToken sid token) st of
              Some (RRevoke res, st') \<Rightarrow>
                (case rt_Err res of
                   Some err \<Rightarrow> Some (if err = ErrSessionNotFound then notFound
                       else if err = ErrInvalidSessionToken then badRequest (err_Error err)
                       else internalServerError, st')
                 | None \<Rightarrow> (case enc_RevokeTokenResult cc res of Inl _ \<Rightarrow> Some (internalServerError, st')
                    | Inr j \<Rightarrow> Some (writeResponse j, st')))
            | _ \<Rightarrow> None)))"

definition getSessionReport ::
  "control_codec \<Rightarrow> (msg \<Rightarrow> 'st \<Rightarrow> (reply \<times> 'st) option) \<Rightarrow> Server \<Rightarrow> ctl_request \<Rightarrow> 'st
     \<Rightarrow> (ctl_response \<times> 'st) option" where
  "getSessionReport cc call c r st =
     (case checkAuth c r of Some w \<Rightarrow> Some (w, st)
      | None \<Rightarrow>
        (case cq_id r of None \<Rightarrow> Some (notFound, st)
         | Some sid \<Rightarrow>
           (case call (SessionReport sid) st of
              Some (RReport res, st') \<Rightarrow>
                (case sr_Err res of
                   Some err \<Rightarrow> Some (if err = ErrSessionNotFound then notFound
                       else if err = ErrSessionActive then badRequest (err_Error err)
                       else internalServerError, st')
                 | None \<Rightarrow> (case enc_SessionReportResult cc res of Inl _ \<Rightarrow> Some (internalServerError, st')
                    | Inr j \<Rightarrow> Some (writeResponse j, st')))
            | _ \<Rightarrow> None)))"

definition deleteSession ::
  "(msg \<Rightarrow> 'st \<Rightarrow> (reply \<times> 'st) option) \<Rightarrow> Server \<Rightarrow> ctl_request \<Rightarrow> 'st \<Rightarrow> (ctl_response \<times> 'st) option" where
  "deleteSession call c r st =
     (case checkAuth c r of Some w \<Rightarrow> Some (w, st)
      | None \<Rightarrow>
        (case cq_id r of None \<Rightarrow> Some (notFound, st)
         | Some sid \<Rightarrow>
           (case call (EndSession sid) st of
              Some (RErr e, st') \<Rightarrow>
                (case e of
                   Some err \<Rightarrow> Some (if err = ErrSessionNotFound then notFound else internalServerError, st')
                 | None \<Rightarrow> Some (writeResponse [], st'))
            | _ \<Rightarrow> None)))"

definition deleteResources ::
  "(msg \<Rightarrow> 'st \<Rightarrow> (reply \<times> 'st) option) \<Rightarrow> Server \<Rightarrow> ctl_request \<Rightarrow> 'st \<Rightarrow> (ctl_response \<times> 'st) option" where
  "deleteResources call c r st =
     (case checkAuth c r of Some w \<Rightarrow> Some (w, st)
      | None \<Rightarrow>
        (case cq_id r of None \<Rightarrow> Some (notFound, st)
         | Some sid \<Rightarrow>
           (case call (DeleteResources sid) st of
              Some (RErr e, st') \<Rightarrow>
                (case e of
                   Some err \<Rightarrow> Some (if err = ErrSessionNotFound then notFound
                       else if err = ErrSessionActive then badRequest (err_Error err)
                       else internalServerError, st')
                 | None \<Rightarrow> Some (writeResponse [], st'))
            | _ \<Rightarrow> None)))"

section \<open>The dispatcher as the handlers see it\<close>

text \<open>
  What a handler relies on: in a good state a message always gets a reply of the kind that
  belongs to it, and the state stays good.
\<close>

fun reply_fits :: "msg \<Rightarrow> reply \<Rightarrow> bool" where
  "reply_fits GetServiceStatus r \<longleftrightarrow> (\<exists>x. r = RStatus x)"
| "reply_fits (MsgCreateSession v) r \<longleftrightarrow> (\<exists>x. r = RCredentials x)"
| "reply_fits (RevokeToken i t) r \<longleftrightarrow> (\<exists>x. r = RRevoke x)"
| "reply_fits (SessionReport i) r \<longleftrightarrow> (\<exists>x. r = RReport x)"
| "reply_fits (ProxyAuth i p) r \<longleftrightarrow> (\<exists>x. r = RBool x)"
| "reply_fits (MsgFetchCtl v) r \<longleftrightarrow> (\<exists>x. r = RFetchCtl x)"
| "reply_fits _ r \<longleftrightarrow> (\<exists>x. r = RErr x)"

locale dispatcher =
  fixes call :: "msg \<Rightarrow> 'st \<Rightarrow> (reply \<times> 'st) option"
    and good :: "'st \<Rightarrow> bool"
  assumes replies: "good st \<Longrightarrow> client_msg m \<Longrightarrow> \<exists>r st'. call m st = Some (r, st') \<and> reply_fits m r \<and> good st'"
begin

lemma handlers_return:
  assumes "good st"
  shows "\<exists>w st'. getServiceStatus cc call st = Some (w, st') \<and> good st'"
    and "\<exists>w st'. createSession cc call c r st = Some (w, st') \<and> good st'"
    and "\<exists>w st'. deleteSessionToken cc call r st = Some (w, st') \<and> good st'"
    and "\<exists>w st'. getSessionReport cc call c r st = Some (w, st') \<and> good st'"
    and "\<exists>w st'. deleteSession call c r st = Some (w, st') \<and> good st'"
    and "\<exists>w st'. deleteResources call c r st = Some (w, st') \<and> good st'"
proof -
  show "\<exists>w st'. getServiceStatus cc call st = Some (w, st') \<and> good st'"
    using replies [OF assms, of GetServiceStatus]
    by (auto simp: getServiceStatus_def split: sum.split)
  show "\<exists>w st'. createSession cc call c r st = Some (w, st') \<and> good st'"
  proof (cases "dec_createSession cc (cq_body r)")
    case (Inr p)
    then show ?thesis
      using assms replies [OF assms, of "MsgCreateSession \<lparr>cs_Timeout = p_Timeout p, cs_Policy = p_Policy p,
          cs_Secrets = p_Secrets p, cs_InspectorsConfig = p_InspectorsConfig p\<rparr>"]
      by (auto simp: createSession_def split: option.split sum.split)
  qed (use assms in \<open>auto simp: createSession_def split: option.split\<close>)
  show "\<exists>w st'. deleteSessionToken cc call r st = Some (w, st') \<and> good st'"
  proof (cases "cq_id r")
    case (Some i)
    show ?thesis
    proof (cases "dec_revokeToken cc (cq_body r)")
      case (Inr t)
      then show ?thesis
        using Some replies [OF assms, of "RevokeToken i t"]
        by (auto simp: deleteSessionToken_def split: option.split sum.split)
    qed (use assms Some in \<open>auto simp: deleteSessionToken_def\<close>)
  qed (use assms in \<open>auto simp: deleteSessionToken_def\<close>)
  show "\<exists>w st'. getSessionReport cc call c r st = Some (w, st') \<and> good st'"
    using assms replies [OF assms, of "SessionReport (the (cq_id r))"]
    by (cases "cq_id r") (auto simp: getSessionReport_def split: option.split sum.split)
  show "\<exists>w st'. deleteSession call c r st = Some (w, st') \<and> good st'"
    using assms replies [OF assms, of "EndSession (the (cq_id r))"]
    by (cases "cq_id r") (auto simp: deleteSession_def split: option.split)
  show "\<exists>w st'. deleteResources call c r st = Some (w, st') \<and> good st'"
    using assms replies [OF assms, of "DeleteResources (the (cq_id r))"]
    by (cases "cq_id r") (auto simp: deleteResources_def split: option.split)
qed

end


section \<open>The service as a dispatcher\<close>

text \<open>
  One message from its arrival to its reply, with no other step in between: a goroutine that the
  handler starts runs at once.
\<close>

definition run_task :: "service_env \<Rightarrow> task \<Rightarrow> Service \<Rightarrow> reply \<times> Service" where
  "run_task env t svc =
     (case t of
        RequestTask s a \<Rightarrow> (RErr (fst (runRequestInspection s a)), svc)
      | ResponseTask s a \<Rightarrow>
        (case runResponseInspection env s a (g_fs (svc_g svc)) of (e, a', fs') \<Rightarrow>
           (case handleCompleteInspection a' ((svc_g svc)\<lparr>g_fs := fs'\<rparr>) of (ec, g') \<Rightarrow>
              (RErr (case ec of Some _ \<Rightarrow> ec | None \<Rightarrow> e), svc\<lparr>svc_g := g'\<rparr>)))
      | CompletionTask s e a \<Rightarrow>
        (case handleCompleteInspection a (svc_g svc) of (ec, g') \<Rightarrow>
           (RErr (case ec of Some _ \<Rightarrow> ec | None \<Rightarrow> e), svc\<lparr>svc_g := g'\<rparr>))
      | ResourcesTask sid \<Rightarrow>
        (case RemoveResources (sv_session env) (o_Spool (svc_opt svc)) sid (g_fs (svc_g svc)) of (e, fs') \<Rightarrow>
           (RErr e, svc\<lparr>svc_g := (svc_g svc)\<lparr>g_fs := fs'\<rparr>\<rparr>)))"

definition svc_call :: "service_env \<Rightarrow> int \<Rightarrow> msg \<Rightarrow> Service \<Rightarrow> (reply \<times> Service) option" where
  "svc_call env now m svc =
     (case handleMessages env now m svc of None \<Rightarrow> None
      | Some (Replied r, svc') \<Rightarrow> Some (r, svc')
      | Some (Spawned t, svc') \<Rightarrow> Some (run_task env t svc'))"

definition good_service :: "Service \<Rightarrow> bool" where
  "good_service svc \<longleftrightarrow> wf_gstate (svc_g svc)"

lemma run_task_RErr: "\<exists>e. fst (run_task env t svc) = RErr e"
  by (cases t) (auto simp: run_task_def split: prod.splits)

lemma handleMessages_fits:
  "handleMessages env now m svc = Some (Replied r, svc') \<Longrightarrow> reply_fits m r"
  by (cases m) (auto split: prod.splits option.splits outcome.splits)

lemma handleMessages_spawns:
  "handleMessages env now m svc = Some (Spawned t, svc') \<Longrightarrow> reply_fits m r \<longleftrightarrow> (\<exists>e. r = RErr e)"
  by (cases m) (auto split: prod.splits option.splits outcome.splits)

lemma run_task_good:
  assumes "good_service svc" and "wf_task t"
  shows "good_service (snd (run_task env t svc))"
proof (cases t)
  case (ResponseTask s a)
  obtain e a' fs' where r: "runResponseInspection env s a (g_fs (svc_g svc)) = (e, a', fs')" by (metis prod_cases3)
  obtain ec g' where h: "handleCompleteInspection a' ((svc_g svc)\<lparr>g_fs := fs'\<rparr>) = (ec, g')" by fastforce
  have "wf_gstate g'"
    using wf_handleCompleteInspection [OF _ _ h] runResponseInspection_judged [OF r] assms(1)
    by (simp add: good_service_def)
  then show ?thesis using ResponseTask r h by (simp add: run_task_def good_service_def)
next
  case (CompletionTask s e a)
  obtain ec g' where h: "handleCompleteInspection a (svc_g svc) = (ec, g')" by fastforce
  have "wf_gstate g'"
    using wf_handleCompleteInspection [OF _ _ h] assms CompletionTask by (simp add: good_service_def)
  then show ?thesis using CompletionTask h by (simp add: run_task_def good_service_def)
qed (use assms in \<open>auto simp: run_task_def good_service_def split: prod.splits\<close>)

lemma svc_call_replies:
  assumes "good_service svc" and "fresh_ids env (svc_g svc)" and "client_msg m"
  shows "\<exists>r svc'. svc_call env now m svc = Some (r, svc') \<and> reply_fits m r \<and> good_service svc'"
proof -
  obtain out svc1 where h: "handleMessages env now m svc = Some (out, svc1)" and wf: "wf_gstate (svc_g svc1)"
    and t: "\<forall>t. out = Spawned t \<longrightarrow> wf_task t"
    using wf_handleMessages [of svc env m now] assms by (cases m) (auto simp: good_service_def)
  show ?thesis
  proof (cases out)
    case (Replied r)
    then show ?thesis using h wf handleMessages_fits by (fastforce simp: svc_call_def good_service_def)
  next
    case (Spawned t)
    then show ?thesis
      using h wf t handleMessages_spawns [of env now m svc t svc1] run_task_RErr [of env t svc1] run_task_good [of svc1 t env]
      by (cases "run_task env t svc1") (simp add: svc_call_def good_service_def)
  qed
qed


text \<open>
  The service with random session IDs that are fresh for its table: a UUID longer than any ID in
  it stands for the one the generator would return.
\<close>

definition fresh_uuid :: "gstate \<Rightarrow> string" where
  "fresh_uuid g = replicate (Suc (foldr (\<lambda>k n. max (length k) n) (map fst (sessions g)) 0)) CHR ''u''"

definition fresh_call :: "service_env \<Rightarrow> int \<Rightarrow> msg \<Rightarrow> Service \<Rightarrow> (reply \<times> Service) option" where
  "fresh_call env now m svc =
     svc_call (env\<lparr>sv_uuid := fresh_uuid (svc_g svc), sv_uuid2 := fresh_uuid (svc_g svc)\<rparr>) now m svc"

lemma fresh_uuid_fresh: "GetSession g (makeSessionIDImpl (fresh_uuid g)) = None"
proof -
  have "length k \<le> foldr (\<lambda>k n. max (length k) n) ks 0" if "k \<in> set ks" for k :: string and ks
    using that by (induction ks) auto
  then have "makeSessionIDImpl (fresh_uuid g) \<notin> set (map fst (sessions g))"
    by (fastforce simp: makeSessionIDImpl_def fresh_uuid_def)
  then show ?thesis by (simp add: GetSession_def map_of_eq_None_iff)
qed

interpretation svc_dispatcher: dispatcher "fresh_call env now" good_service for env now
proof
  fix svc m assume "good_service svc" and "client_msg m"
  then show "\<exists>r svc'. fresh_call env now m svc = Some (r, svc') \<and> reply_fits m r \<and> good_service svc'"
    unfolding fresh_call_def by (intro svc_call_replies) (simp_all add: fresh_ids_def fresh_uuid_fresh)
qed

section \<open>Claims\<close>

lemma BasicAuth_header:
  assumes "CHR '':'' \<notin> set user"
  shows "BasicAuth (''Basic '' @ base64_EncodeToString (user @ '':'' @ pw)) = Some (user, pw)"
proof -
  have "strings_ToLower ''Basic '' = ''basic ''" by code_simp
  then show ?thesis using assms by (simp add: BasicAuth_def base64_round_trip strings_Cut_append)
qed

text \<open>
  C38. The four protected endpoints do nothing for a request without the configured user and
  password: the answer is 401 and no message reaches the service. The credentials are those that
  were configured as one string, the user ending at its first colon.
\<close>

theorem control_requires_credentials:
  assumes "\<And>user pw. creds = user @ '':'' @ pw \<Longrightarrow> CHR '':'' \<notin> set user \<Longrightarrow> BasicAuth (cq_Authorization r) \<noteq> Some (user, pw)"
    and "CHR '':'' \<in> set creds"
  shows "createSession cc call (NewServer creds) r st = Some (unauthorized, st) \<and>
         getSessionReport cc call (NewServer creds) r st = Some (unauthorized, st) \<and>
         deleteSession call (NewServer creds) r st = Some (unauthorized, st) \<and>
         deleteResources call (NewServer creds) r st = Some (unauthorized, st)"
proof -
  obtain user pw where c: "creds = user @ CHR '':'' # pw" "CHR '':'' \<notin> set user"
    using assms(2) by (meson split_list_first)
  then have "NewServer creds = \<lparr>srv_user = user, srv_pw = pw\<rparr>"
    by (simp add: NewServer_def strings_SplitN2_append)
  then have "checkAuth (NewServer creds) r = Some unauthorized"
    using assms(1) [of user pw] c by (auto simp: checkAuth_def split: option.split)
  then show ?thesis
    by (simp add: createSession_def getSessionReport_def deleteSession_def deleteResources_def)
qed

theorem control_requires_credentials_witness:
  "deleteSession (fresh_call sample_service_env 0) (NewServer ''admin:secret'')
     \<lparr>cq_Authorization = ''Basic '' @ base64_EncodeToString (''admin'' @ '':'' @ ''guess''), cq_id = Some ''d7e0'', cq_body = []\<rparr>
     expiring_service = Some (unauthorized, expiring_service)"
proof -
  have b: "BasicAuth (''Basic '' @ base64_EncodeToString (''admin'' @ '':'' @ ''guess'')) = Some (''admin'', ''guess'')"
    by (rule BasicAuth_header) simp
  let ?r = "\<lparr>cq_Authorization = ''Basic '' @ base64_EncodeToString (''admin'' @ '':'' @ ''guess''), cq_id = Some ''d7e0'', cq_body = []\<rparr>"
  have "BasicAuth (cq_Authorization ?r) \<noteq> Some (user, pw)" if "''admin:secret'' = user @ '':'' @ pw" for user pw
  proof
    assume "BasicAuth (cq_Authorization ?r) = Some (user, pw)"
    with b have "user = ''admin'' \<and> pw = ''guess''" by simp
    with that show False by simp
  qed
  then show ?thesis
    using control_requires_credentials [of "''admin:secret''" ?r undefined "fresh_call sample_service_env 0" expiring_service]
    by simp
qed

text \<open>
  Without a colon in the configured credentials, which is also the case when none are
  configured, the control API accepts the empty user with the empty password.
\<close>

theorem control_open_without_credentials:
  "CHR '':'' \<notin> set creds \<Longrightarrow>
   checkAuth (NewServer creds) \<lparr>cq_Authorization = ''Basic '' @ base64_EncodeToString '':'', cq_id = i, cq_body = b\<rparr> = None"
  using BasicAuth_header [of "[]" "[]"] by (simp add: NewServer_def strings_SplitN2_def strings_Cut_None checkAuth_def)

theorem control_open_without_credentials_witness:
  "checkAuth (NewServer []) \<lparr>cq_Authorization = ''Basic Og=='', cq_id = None, cq_body = []\<rparr> = None"
proof -
  have "base64_EncodeToString '':'' = ''Og==''" by code_simp
  then show ?thesis using control_open_without_credentials [of "[]" None "[]"] by simp
qed


text \<open>
  Every request to the control API is answered: with the service behind it in a consistent
  state each handler returns a response, whatever the codec, the file system and the request are,
  and leaves the service consistent.
\<close>

theorem control_always_answers:
  assumes "good_service svc"
  shows "list_all (\<lambda>h. case h svc of Some (w, svc') \<Rightarrow> good_service svc' | None \<Rightarrow> False)
    [getServiceStatus cc (fresh_call env now), createSession cc (fresh_call env now) c r,
     deleteSessionToken cc (fresh_call env now) r, getSessionReport cc (fresh_call env now) c r,
     deleteSession (fresh_call env now) c r, deleteResources (fresh_call env now) c r]"
  using svc_dispatcher.handlers_return(1) [OF assms, of cc env now]
    svc_dispatcher.handlers_return(2) [OF assms, of cc env now c r]
    svc_dispatcher.handlers_return(3) [OF assms, of cc env now r]
    svc_dispatcher.handlers_return(4) [OF assms, of cc env now c r]
    svc_dispatcher.handlers_return(5) [OF assms, of env now c r]
    svc_dispatcher.handlers_return(6) [OF assms, of env now c r]
  by auto

definition plain_codec :: control_codec where
  "plain_codec = \<lparr>dec_createSession = (\<lambda>_. Inl (Errorf ''json'')), dec_revokeToken = Inr,
     enc_ServiceStatus = (\<lambda>_. Inr ''{}''), enc_SessionCredentials = (\<lambda>c. Inr (cr_ID c)),
     enc_RevokeTokenResult = (\<lambda>_. Inr ''{}''), enc_SessionReportResult = (\<lambda>_. Inr ''{}'')\<rparr>"

lemma good_expiring: "good_service expiring_service"
  by (simp add: good_service_def expiring_service_def sample_new_created)

theorem control_always_answers_witness:
  "\<exists>w svc'. getServiceStatus plain_codec (fresh_call sample_service_env 0) expiring_service = Some (w, svc') \<and> good_service svc'"
  using control_always_answers [OF good_expiring, of plain_codec sample_service_env 0 "NewServer []" "\<lparr>cq_Authorization = [], cq_id = None, cq_body = []\<rparr>"]
  by (simp split: option.splits prod.splits)

text \<open>
  What an authorised controller is told about a session: 404 for a session that is not active;
  for an active one, its report is refused with 400 until the token has been revoked, ending it is
  200 exactly when it has left the table, and removing its resources is refused, with status 500.
  The refusals change nothing.
\<close>

theorem control_session_responses:
  assumes good: "good_service svc" and auth: "checkAuth c r = None" and i: "cq_id r = Some sid"
  shows "case GetSession (svc_g svc) sid of
     None \<Rightarrow> deleteSession (fresh_call env now) c r svc = Some (notFound, svc) \<and>
             getSessionReport cc (fresh_call env now) c r svc = Some (notFound, svc)
   | Some s \<Rightarrow>
       (if s_revoked s then True
        else getSessionReport cc (fresh_call env now) c r svc = Some (badRequest ''session token is active'', svc)) \<and>
       (case deleteSession (fresh_call env now) c r svc of None \<Rightarrow> False
        | Some (w, svc') \<Rightarrow> cw_status w = StatusOK \<longleftrightarrow> GetSession (svc_g svc') sid = None) \<and>
       deleteResources (fresh_call env now) c r svc = Some (internalServerError, svc)"
proof (cases "GetSession (svc_g svc) sid")
  case None
  then show ?thesis
    using auth i by (simp add: deleteSession_def getSessionReport_def fresh_call_def svc_call_def handleEndSession_def
        handleSessionReport_def ErrSessionNotFound_def)
next
  case (Some s)
  let ?e = "env\<lparr>sv_uuid := fresh_uuid (svc_g svc), sv_uuid2 := fresh_uuid (svc_g svc)\<rparr>"
  have wf: "wf_gstate (svc_g svc)" using good by (simp add: good_service_def)
  obtain e g' where f: "Finish (sv_session ?e) s (svc_g svc) = Some (e, g')"
    and get: "GetSession g' = (if e = None then (GetSession (svc_g svc))(sid := None) else GetSession (svc_g svc))"
    using Finish_ex [OF wf Some, of "sv_session ?e"] by blast
  have call: "fresh_call env now (EndSession sid) svc = Some (RErr e, svc\<lparr>svc_g := g'\<rparr>)"
    using f Some by (simp add: fresh_call_def svc_call_def handleEndSession_def)
  have del: "case deleteSession (fresh_call env now) c r svc of None \<Rightarrow> False
        | Some (w, svc') \<Rightarrow> cw_status w = StatusOK \<longleftrightarrow> GetSession (svc_g svc') sid = None"
    using auth i Some get
    by (simp add: deleteSession_def call writeResponse_def internalServerError_def notFound_def split: option.split)
  have rep: "getSessionReport cc (fresh_call env now) c r svc = Some (badRequest ''session token is active'', svc)"
    if "\<not> s_revoked s"
    using that auth i Some by (simp add: getSessionReport_def fresh_call_def svc_call_def handleSessionReport_def
        IsRevoked_def ErrSessionNotFound_def ErrSessionActive_def)
  have "deleteResources (fresh_call env now) c r svc = Some (internalServerError, svc)"
    using auth i Some by (simp add: deleteResources_def fresh_call_def svc_call_def handleDeleteResources_def
        ErrSessionNotFound_def ErrSessionActive_def ErrSessionNotFinished_def)
  with del rep Some show ?thesis by simp
qed

theorem control_session_responses_witness:
  "deleteResources (fresh_call sample_service_env 0) (NewServer ''a:b'')
     \<lparr>cq_Authorization = ''Basic '' @ base64_EncodeToString (''a'' @ '':'' @ ''b''), cq_id = Some ''d7e0'', cq_body = []\<rparr>
     expiring_service = Some (internalServerError, expiring_service)"
proof -
  let ?r = "\<lparr>cq_Authorization = ''Basic '' @ base64_EncodeToString (''a'' @ '':'' @ ''b''), cq_id = Some ''d7e0'', cq_body = []\<rparr>"
  have "BasicAuth (''Basic '' @ base64_EncodeToString (''a'' @ '':'' @ ''b'')) = Some (''a'', ''b'')"
    by (rule BasicAuth_header) simp
  moreover have "NewServer ''a:b'' = \<lparr>srv_user = ''a'', srv_pw = ''b''\<rparr>" by code_simp
  ultimately have "checkAuth (NewServer ''a:b'') ?r = None" by (simp add: checkAuth_def)
  moreover have "GetSession (svc_g expiring_service) ''d7e0'' = Some (fst sample_new)"
    by (simp add: expiring_service_def sample_new_created)
  ultimately show ?thesis
    using control_session_responses [OF good_expiring, of "NewServer ''a:b''" ?r "''d7e0''" sample_service_env 0 plain_codec]
    by simp
qed

end
