(* ===== verification/Proxy.thy ===== *)
theory Proxy
  imports Control Proxy_Auth Acl Spool
begin

text \<open>
  \<^verbatim>\<open>proxy/proxy.go\<close>, \<^verbatim>\<open>proxy/file.go\<close> and \<^verbatim>\<open>proxy/request.go\<close>: the handlers that the proxy runs on a
  request and on the response of the origin server.

  A message to the dispatcher and the wait for its reply are one call here
  (\<^theory_text>\<open>inspect_request\<close>, \<^theory_text>\<open>inspect_response\<close>); the artifact is shared with the goroutine that inspects
  it, so the call returns the artifact as that goroutine leaves it. The download goroutine and the
  handler that started it are joined by a channel of capacity one; \<^theory_text>\<open>proxy_env\<close> says which of the
  races between them the run takes: whether the five seconds passed first, whether the inspection
  timed out, and whether the goroutine saw that the download had moved to the background.

  Arguments (\<^theory_text>\<open>proxy_env\<close>): URL normalisation (purell), \<^verbatim>\<open>goproxy.NewResponse\<close> for a text body, the
  transport's round trip with the address it connected to, the two hash functions, the JSON codec,
  and what the operating system does on \<^verbatim>\<open>CreateTemp\<close>, \<^verbatim>\<open>Pipe\<close>, reads, close and the final copy.
  Log output is not modelled.
\<close>

section \<open>Data\<close>

definition sessionIDHeader :: string where "sessionIDHeader = ''X-Fetch-Session-Id''"

definition authRealm :: string where "authRealm = ''fetch-service''"

datatype UserData = UserID string | ProxyData Artifact

record proxy_env =
  px_service :: service_env
  px_codec :: json_codec
  px_NormalizedURL :: "url \<Rightarrow> string"
  px_NewResponse :: "http_request \<Rightarrow> int \<Rightarrow> string \<Rightarrow> http_response"
  px_DetailedRoundTrip :: "http_request \<Rightarrow> (IP option \<times> http_response) result"
  px_sha1 :: "string \<Rightarrow> Sha1Digest"
  px_sha256 :: "string \<Rightarrow> Sha256Digest"
  px_CreateTemp :: "string result"
  px_Pipe :: "go_error option"
  px_read :: "nat \<Rightarrow> nat"
  px_close :: "go_error option"
  px_timed_out :: bool
  px_background :: bool
  px_pipe_closed :: bool
  px_copied :: "nat option"

abbreviation px_os :: "proxy_env \<Rightarrow> os_faults" where
  "px_os px \<equiv> env_os (sv_session (px_service px))"

definition os_ErrClosed :: go_error where
  "os_ErrClosed = ErrVar ''os.ErrClosed'' ''file already closed''"

section \<open>Responses\<close>

definition httpResponse :: "http_request \<Rightarrow> int \<Rightarrow> string \<Rightarrow> http_response" where
  "httpResponse req code msg =
     \<lparr>resp_Status = [], resp_StatusCode = code, resp_Header = [(''Content-Type'', [''text/plain''])],
      resp_Body = Some \<lparr>br_data = msg, br_err = None\<rparr>, resp_ContentLength = int (length msg),
      resp_TransferEncoding = [], resp_Trailer = [], resp_Request = req\<rparr>"

definition internalErrorResponse :: "proxy_env \<Rightarrow> http_request \<Rightarrow> string \<Rightarrow> http_response" where
  "internalErrorResponse px r msg = px_NewResponse px r StatusInternalServerError msg"

definition forbiddenResponse :: "proxy_env \<Rightarrow> http_request \<Rightarrow> string \<Rightarrow> http_response" where
  "forbiddenResponse px r msg = px_NewResponse px r StatusForbidden msg"

definition requestEntityTooLargeResponse :: "proxy_env \<Rightarrow> http_request \<Rightarrow> string \<Rightarrow> http_response" where
  "requestEntityTooLargeResponse px r msg = px_NewResponse px r StatusRequestEntityTooLarge msg"

definition copyHTTPHeader :: "header \<Rightarrow> header" where
  "copyHTTPHeader h = fold (\<lambda>(k, v) c. map_set k v c) h []"

definition copyHTTPResponse :: "http_response \<Rightarrow> http_response" where
  "copyHTTPResponse r =
     \<lparr>resp_Status = resp_Status r, resp_StatusCode = resp_StatusCode r,
      resp_Header = copyHTTPHeader (resp_Header r), resp_Body = None,
      resp_ContentLength = resp_ContentLength r, resp_TransferEncoding = resp_TransferEncoding r,
      resp_Trailer = copyHTTPHeader (resp_Trailer r), resp_Request = resp_Request r\<rparr>"

section \<open>Calls to the dispatcher\<close>

text \<open>The credential check that \<^verbatim>\<open>NewHTTPProxy\<close> installs: it names the session in the request first.\<close>

definition basicAuth :: "gstate \<Rightarrow> http_request \<Rightarrow> string \<Rightarrow> string \<Rightarrow> bool \<times> http_request" where
  "basicAuth g req user passwd =
     (CheckAuth user passwd g, req\<lparr>req_Header := header_Set (req_Header req) sessionIDHeader user\<rparr>)"

definition inspect_request :: "Artifact \<Rightarrow> gstate \<Rightarrow> go_error option \<times> Artifact" where
  "inspect_request a g =
     (case handleRequestInspection a g of
        Replied e \<Rightarrow> (e, a)
      | Spawned (RequestTask s b) \<Rightarrow> runRequestInspection s b
      | Spawned _ \<Rightarrow> (None, a))"

definition inspect_response ::
  "service_env \<Rightarrow> int \<Rightarrow> Artifact \<Rightarrow> gstate \<Rightarrow> go_error option \<times> Artifact \<times> gstate" where
  "inspect_response env now a g =
     (case handleResponseInspection env now a g of
        (Replied e, g') \<Rightarrow>
          (e, (if GetSession g (a_SessionID a) = None then a
               else a\<lparr>a_CurrentDownload := (a_CurrentDownload a)\<lparr>dl_EndTime := now\<rparr>\<rparr>), g')
      | (Spawned (ResponseTask s b), g') \<Rightarrow>
        (case runResponseInspection env s b (g_fs g') of (e, b', fs') \<Rightarrow>
           (case handleCompleteInspection b' (g'\<lparr>g_fs := fs'\<rparr>) of (ec, g'') \<Rightarrow>
              (case ec of Some _ \<Rightarrow> ec | None \<Rightarrow> e, b', g'')))
      | (Spawned _, g') \<Rightarrow> (None, a, g'))"

section \<open>Requests\<close>

text \<open>
  The request leaves with a body that reads through to the original one (\<^verbatim>\<open>request.go\<close>), so the
  body of the model is unchanged.
\<close>

definition NewRequestHandler :: "http_request \<Rightarrow> body_reader option result" where
  "NewRequestHandler req = Inr (req_Body req)"

text \<open>The artifact that a request starts, and the request with the session's ID in its header.\<close>

definition set_session_id :: "http_request \<Rightarrow> UserData option \<Rightarrow> http_request" where
  "set_session_id req ud =
     (case ud of Some (UserID sid) \<Rightarrow> req\<lparr>req_Header := header_Set (req_Header req) sessionIDHeader sid\<rparr> | _ \<Rightarrow> req)"

definition request_artifact :: "proxy_env \<Rightarrow> int \<Rightarrow> header \<Rightarrow> http_request \<Rightarrow> Artifact" where
  "request_artifact px now requestHeader req =
     NewArtifact\<lparr>a_Request := Some req, a_SessionID := header_Get (req_Header req) sessionIDHeader,
       a_CurrentDownload := zero_Download\<lparr>dl_StartTime := now, dl_URL := px_NormalizedURL px (req_URL req),
         dl_Address := req_RemoteAddr req, dl_Method := req_Method req,
         dl_UserAgent := header_Get (req_Header req) ''User-Agent'', dl_RequestHeader := requestHeader\<rparr>\<rparr>"

definition processRequest ::
  "proxy_env \<Rightarrow> int \<Rightarrow> http_request \<Rightarrow> UserData option \<Rightarrow> gstate \<Rightarrow> http_request \<times> http_response option \<times> UserData option" where
  "processRequest px now req ud g =
     (let requestHeader = copyHTTPHeader (req_Header req);
          req1 = set_session_id req ud;
          sid = header_Get (req_Header req1) sessionIDHeader;
          a = request_artifact px now requestHeader req1 in
      case inspect_request a g of
        (Some err, _) \<Rightarrow>
          (req1, Some (px_NewResponse px req1 StatusForbidden (''download authorization denied: '' @ err_Error err)), ud)
      | (None, a') \<Rightarrow>
        (case InjectSecrets (px_codec px) (GetSessionSecrets sid g) (px_NormalizedURL px (req_URL req1)) req1 of
           Inl err \<Rightarrow>
             (if errors_Is err ErrKeystoneV3BodyTooLarge
              then (req1, Some (requestEntityTooLargeResponse px req1 ''Request body too large''), ud)
              else (req1, Some (internalErrorResponse px req1 ''Cannot handle requests''), ud))
         | Inr (_, req2) \<Rightarrow>
           (case NewRequestHandler req2 of
              Inl _ \<Rightarrow> (req2, Some (internalErrorResponse px req2 ''Cannot handle requests''), ud)
            | Inr body \<Rightarrow> (req2\<lparr>req_Body := body\<rparr>, None, Some (ProxyData a')))))"

text \<open>The round tripper that \<^verbatim>\<open>processRoundTrip\<close> installs.\<close>

definition processRoundTrip :: "proxy_env \<Rightarrow> config_state \<Rightarrow> http_request \<Rightarrow> http_response result" where
  "processRoundTrip px cfg r =
     (case px_DetailedRoundTrip px r of
        Inl err \<Rightarrow> Inl err
      | Inr (ip, resp) \<Rightarrow>
        (if Allowed cfg ip then Inr resp else Inr (httpResponse r StatusForbidden ''Access denied'')))"

section \<open>Downloads\<close>

definition getSessionIDHeader :: "http_request \<Rightarrow> string result" where
  "getSessionIDHeader r =
     (let i = header_Get (req_Header r) sessionIDHeader in
      if i = [] then Inl (Errorf ''session ID cannot be empty'')
      else if list_ex (\<lambda>c. (of_char c < (97::nat) \<or> 122 < (of_char c :: nat)) \<and> (of_char c < (48::nat) \<or> 57 < (of_char c :: nat))) i
        then Inl (Errorf (''invalid session ID: '' @ quoted i))
      else Inr i)"

text \<open>
  The reader that hashes what passes through it. A hash is kept as the bytes written to it. The
  error of \<^verbatim>\<open>Read\<close> at the end of the data is the one of the underlying body, \<^const>\<open>None\<close> for a clean end.
\<close>

record LocalDownloadHandler =
  lh_size :: int
  lh_sha1 :: string
  lh_sha256 :: string
  lh_body :: body_reader

definition NewLocalDownloadHandler :: "body_reader \<Rightarrow> LocalDownloadHandler" where
  "NewLocalDownloadHandler body = \<lparr>lh_size = 0, lh_sha1 = [], lh_sha256 = [], lh_body = body\<rparr>"

definition LocalDownloadHandler_Read :: "nat \<Rightarrow> LocalDownloadHandler \<Rightarrow> string \<times> LocalDownloadHandler" where
  "LocalDownloadHandler_Read n h =
     (let b = take n (br_data (lh_body h)) in
      (b, \<lparr>lh_size = lh_size h + int (length b), lh_sha1 = lh_sha1 h @ b, lh_sha256 = lh_sha256 h @ b,
           lh_body = (lh_body h)\<lparr>br_data := drop n (br_data (lh_body h))\<rparr>\<rparr>))"

definition LocalDownloadHandler_Close :: "proxy_env \<Rightarrow> LocalDownloadHandler \<Rightarrow> Artifact \<Rightarrow> go_error option \<times> Artifact" where
  "LocalDownloadHandler_Close px h a =
     (px_close px, a\<lparr>a_Metadata := (a_Metadata a)\<lparr>md_Size := lh_size h, md_Sha1 := px_sha1 px (lh_sha1 h),
        md_Sha256 := px_sha256 px (lh_sha256 h)\<rparr>\<rparr>)"

text \<open>
  \<^verbatim>\<open>io.Copy\<close> from the handler: the \<^verbatim>\<open>i\<close>-th read yields between one byte and a buffer of 32 KiB.
\<close>

function io_Copy :: "(nat \<Rightarrow> nat) \<Rightarrow> nat \<Rightarrow> LocalDownloadHandler \<Rightarrow> string \<Rightarrow> (string \<times> go_error option) \<times> LocalDownloadHandler" where
  "io_Copy avail i h out =
     (if br_data (lh_body h) = [] then ((out, br_err (lh_body h)), h)
      else (case LocalDownloadHandler_Read (max 1 (min 32768 (avail i))) h of
              (b, h') \<Rightarrow> io_Copy avail (Suc i) h' (out @ b)))"
  by pat_completeness auto
termination
  by (relation "measure (\<lambda>(avail, i, h, out). length (br_data (lh_body h)))")
     (auto simp: LocalDownloadHandler_Read_def Let_def)

declare io_Copy.simps [simp del]

definition localDownload ::
  "proxy_env \<Rightarrow> http_response \<Rightarrow> Artifact \<Rightarrow> string \<Rightarrow> filesys \<Rightarrow> go_error option \<times> Artifact \<times> filesys" where
  "localDownload px resp a tempfile fs =
     (let body = (case resp_Body resp of Some b \<Rightarrow> b | None \<Rightarrow> \<lparr>br_data = [], br_err = None\<rparr>) in
      case io_Copy (px_read px) 0 (NewLocalDownloadHandler body) [] of
        ((data, rerr), h) \<Rightarrow>
          (case fa_write (px_os px) tempfile of
             Some (werr, part) \<Rightarrow> (Some werr, a, set_file tempfile (case part of Some p \<Rightarrow> p | None \<Rightarrow> []) fs)
           | None \<Rightarrow>
             (case rerr of
                Some err \<Rightarrow> (Some err, a, set_file tempfile data fs)
              | None \<Rightarrow>
                (case LocalDownloadHandler_Close px h a of
                   (Some err, a') \<Rightarrow> (Some err, a', set_file tempfile data fs)
                 | (None, a') \<Rightarrow>
                   (if int (length data) \<noteq> md_Size (a_Metadata a')
                    then (Some (Errorf (''file size mismatch ('' @ fmt_int (int (length data)) @ '', expected '' @
                            fmt_int (md_Size (a_Metadata a')) @ '')'')), a', set_file tempfile data fs)
                    else (None, a'\<lparr>a_CurrentDownload := (a_CurrentDownload a')\<lparr>
                            dl_Sha256 := md_Sha256 (a_Metadata a'), dl_StatusCode := resp_StatusCode resp,
                            dl_Status := resp_Status resp,
                            dl_ContentType := header_Get (resp_Header resp) ''Content-Type'',
                            dl_ResponseHeader := copyHTTPHeader (resp_Header resp)\<rparr>\<rparr>, set_file tempfile data fs))))))"

text \<open>
  The goroutine of \<^verbatim>\<open>NewFileDownloadHandler\<close>: the error it puts on its channel and the bytes that go
  into the pipe. A failing copy into the pipe only ends the body early.
\<close>

definition download_goroutine ::
  "proxy_env \<Rightarrow> int \<Rightarrow> http_response \<Rightarrow> Artifact \<Rightarrow> string \<Rightarrow> gstate \<Rightarrow> (go_error option \<times> string) \<times> Artifact \<times> gstate" where
  "download_goroutine px now resp a assetDir g =
     (case localDownload px resp a (a_Tempfile a) (g_fs g) of
        (Some err, a1, fs1) \<Rightarrow> ((Some err, []), a1, g\<lparr>g_fs := fs1\<rparr>)
      | (None, a1, fs1) \<Rightarrow>
        (case inspect_response (px_service px) now a1 (g\<lparr>g_fs := fs1\<rparr>) of
           (e, a2, g2) \<Rightarrow>
             (if px_timed_out px
              then ((Some (Errorf (''inspection of artifact '' @ Sha256Digest_String (md_Sha256 (a_Metadata a1)) @ '' timed out'')), []), a2, g2)
              else (case e of
                 Some err \<Rightarrow> ((Some err, []), a2, g2)
               | None \<Rightarrow>
                 (case os_ReadFile (px_os px) (g_fs g2)
                         (filepath_Join [assetDir, Sha256Digest_String (md_Sha256 (a_Metadata a2)) @ ''.data'']) of
                    Inl err \<Rightarrow> ((Some (ErrWrap ''cannot open asset file'' err), []), a2, g2)
                  | Inr data \<Rightarrow>
                    ((None, case px_copied px of None \<Rightarrow> data | Some n \<Rightarrow> take n data), a2, g2))))))"

definition NewFileDownloadHandler ::
  "proxy_env \<Rightarrow> int \<Rightarrow> http_response \<Rightarrow> Artifact \<Rightarrow> string \<Rightarrow> gstate \<Rightarrow> body_reader result \<times> Artifact \<times> gstate" where
  "NewFileDownloadHandler px now resp a spool g =
     (case getSessionIDHeader (resp_Request resp) of
        Inl err \<Rightarrow> (Inl err, a, g)
      | Inr sessionID \<Rightarrow>
        (let assetDir = filepath_Join [spool, sessionID, ''assets''];
             cacheDir = filepath_Join [spool, sessionID, ''cache''] in
         case px_CreateTemp px of
           Inl err \<Rightarrow> (Inl err, a, g)
         | Inr tempfile \<Rightarrow>
           (let g0 = g\<lparr>g_fs := set_file tempfile [] (g_fs g)\<rparr>;
                a0 = a\<lparr>a_Tempfile := tempfile, a_AssetDir := assetDir, a_SessionCacheDir := cacheDir\<rparr> in
            case px_Pipe px of
              Some err \<Rightarrow> (Inl (ErrWrap ''cannot create body data pipe'' err), a0, g0)
            | None \<Rightarrow>
              (case download_goroutine px now resp a0 assetDir g0 of
                 ((e, data), a', g') \<Rightarrow>
                   (case e of
                      None \<Rightarrow> (Inr \<lparr>br_data = data, br_err = None\<rparr>, a', g')
                    | Some err \<Rightarrow>
                      (if px_background px
                       then (Inr \<lparr>br_data = [], br_err = (if px_pipe_closed px then Some os_ErrClosed else None)\<rparr>, a', g')
                       else (Inl err, a', g')))))))"

text \<open>\<^const>\<open>None\<close> is the panic of the type assertion on the user data.\<close>

definition processResponse ::
  "proxy_env \<Rightarrow> int \<Rightarrow> http_response option \<Rightarrow> UserData option \<Rightarrow> string \<Rightarrow> gstate
     \<Rightarrow> (http_response option \<times> gstate) option" where
  "processResponse px now ro ud spool g =
     (case ro of
        None \<Rightarrow> Some (None, g)
      | Some resp \<Rightarrow>
        (if resp_StatusCode resp \<noteq> StatusOK then Some (Some resp, g)
         else (case ud of
            Some (ProxyData a) \<Rightarrow>
              (case NewFileDownloadHandler px now resp a spool g of
                 (Inl err, a', g') \<Rightarrow>
                   (let g1 = (if a_Tempfile a' \<noteq> []
                              then g'\<lparr>g_fs := snd (os_Remove (px_os px) (a_Tempfile a') (g_fs g'))\<rparr> else g') in
                    if err = ErrRejectedArtifact
                    then Some (Some (forbiddenResponse px (resp_Request resp) ''Download not authorized''), g1)
                    else Some (Some (internalErrorResponse px (resp_Request resp) ''Cannot handle file downloads''), g1))
               | (Inr body, a', g') \<Rightarrow> Some (Some ((copyHTTPResponse resp)\<lparr>resp_Body := Some body\<rparr>), g'))
          | _ \<Rightarrow> None)))"

section \<open>The proxy\<close>

text \<open>
  The handlers in the order \<^verbatim>\<open>NewHTTPProxy\<close> registers them: authentication, the round tripper, the
  request handler; then the origin server, unless a handler has answered, and the response handler
  in any case. A request inside a \<^verbatim>\<open>CONNECT\<close> tunnel carries the user as its data and is not
  authenticated again. A failed round trip reaches the response handler without a response.
\<close>

definition proxy_ServeHTTP ::
  "proxy_env \<Rightarrow> int \<Rightarrow> string \<Rightarrow> http_request \<Rightarrow> string option \<Rightarrow> gstate \<Rightarrow> (http_response option \<times> gstate) option" where
  "proxy_ServeHTTP px now spool req user g =
     (let ud = map_option UserID user in
      case Basic authRealm (basicAuth g) req \<lparr>ctx_UserData = user, ctx_Resp = None\<rparr> of
        (_, Some resp) \<Rightarrow> processResponse px now (Some resp) ud spool g
      | (None, None) \<Rightarrow> None
      | (Some req1, None) \<Rightarrow>
        (case processRequest px now req1 ud g of
           (req2, Some resp, ud2) \<Rightarrow> processResponse px now (Some resp) ud2 spool g
         | (req2, None, ud2) \<Rightarrow>
           (case processRoundTrip px (g_config g) req2 of
              Inl err \<Rightarrow> processResponse px now None ud2 spool g
            | Inr resp \<Rightarrow> processResponse px now (Some resp) ud2 spool g)))"

end
