(* ===== verification/Proxy_Props.thy ===== *)
theory Proxy_Props
  imports Proxy Secrets_Props
begin

text \<open>
  What a client of the proxy can obtain: only what the session it authenticated to allows, and in
  a strict session only files that inspectors approved.
\<close>

section \<open>Copies\<close>

lemma copyHTTPHeader_get [simp]:
  assumes "wf_map h" shows "map_get (copyHTTPHeader h) k = map_get h k"
proof -
  have "map_get (fold (\<lambda>(k, v) c. map_set k v c) h m) k = (case map_get h k of Some v \<Rightarrow> Some v | None \<Rightarrow> map_get m k)" for m
    using assms
  proof (induction h arbitrary: m)
    case (Cons kv h)
    then show ?case by (cases kv; cases "map_get h k") (auto dest: map_of_SomeD simp: rev_image_eqI)
  qed simp
  then show ?thesis by (simp add: copyHTTPHeader_def split: option.splits)
qed

lemma copyHTTPResponse_frame [simp]:
  "resp_StatusCode (copyHTTPResponse r) = resp_StatusCode r" "resp_Request (copyHTTPResponse r) = resp_Request r"
  by (simp_all add: copyHTTPResponse_def)

section \<open>The local copy\<close>

lemma io_Copy_all [code]:
  "io_Copy avail i h out =
     ((out @ br_data (lh_body h), br_err (lh_body h)),
      \<lparr>lh_size = lh_size h + int (length (br_data (lh_body h))), lh_sha1 = lh_sha1 h @ br_data (lh_body h),
       lh_sha256 = lh_sha256 h @ br_data (lh_body h), lh_body = (lh_body h)\<lparr>br_data := []\<rparr>\<rparr>)"
proof (induction avail i h out rule: io_Copy.induct)
  case (1 avail i h out)
  show ?case
  proof (cases "br_data (lh_body h) = []")
    case False
    define n where "n = max 1 (min 32768 (avail i))"
    let ?d = "br_data (lh_body h)"
    define h' where "h' = snd (LocalDownloadHandler_Read n h)"
    have r: "LocalDownloadHandler_Read n h = (take n ?d, h')" by (simp add: h'_def LocalDownloadHandler_Read_def Let_def)
    have "io_Copy avail i h out = io_Copy avail (Suc i) h' (out @ take n ?d)"
      using False r by (subst io_Copy.simps) (simp add: n_def)
    also have "\<dots> = (((out @ take n ?d) @ br_data (lh_body h'), br_err (lh_body h')),
      \<lparr>lh_size = lh_size h' + int (length (br_data (lh_body h'))), lh_sha1 = lh_sha1 h' @ br_data (lh_body h'),
       lh_sha256 = lh_sha256 h' @ br_data (lh_body h'), lh_body = (lh_body h')\<lparr>br_data := []\<rparr>\<rparr>)"
      using "1.IH" [OF False] r by (simp add: n_def)
    also have "\<dots> = ((out @ ?d, br_err (lh_body h)),
      \<lparr>lh_size = lh_size h + int (length ?d), lh_sha1 = lh_sha1 h @ ?d,
       lh_sha256 = lh_sha256 h @ ?d, lh_body = (lh_body h)\<lparr>br_data := []\<rparr>\<rparr>)"
      by (auto simp: h'_def LocalDownloadHandler_Read_def Let_def)
    finally show ?thesis .
  qed (simp add: io_Copy.simps)
qed

definition body_data :: "http_response \<Rightarrow> string" where
  "body_data resp = (case resp_Body resp of Some b \<Rightarrow> br_data b | None \<Rightarrow> [])"

lemma localDownload_ok:
  assumes "localDownload px resp a tempfile fs = (None, a', fs')"
  shows "fs' = set_file tempfile (body_data resp) fs" and "md_Sha256 (a_Metadata a') = px_sha256 px (body_data resp)"
    and "md_Size (a_Metadata a') = int (length (body_data resp))" and "a_SessionID a' = a_SessionID a"
    and "a_AssetDir a' = a_AssetDir a" and "a_Tempfile a' = a_Tempfile a"
    and "dl_Sha256 (a_CurrentDownload a') = md_Sha256 (a_Metadata a')"
  using assms
  by (auto simp: localDownload_def io_Copy_all NewLocalDownloadHandler_def LocalDownloadHandler_Close_def body_data_def
      Let_def split: option.splits if_splits prod.splits)

section \<open>The verdict of the dispatcher\<close>

text \<open>Every session's registry holds inspectors that keep the inspector contract.\<close>

definition inspectors_ok :: "gstate \<Rightarrow> bool" where
  "inspectors_ok g \<longleftrightarrow> (\<forall>(sid, s) \<in> set (sessions g). registry_ok (insmap (s_Insps s)) (insp_ids (s_Insps s)))"

lemma inspectors_okD: "inspectors_ok g \<Longrightarrow> GetSession g sid = Some s \<Longrightarrow> registry_ok (insmap (s_Insps s)) (insp_ids (s_Insps s))"
  by (auto simp: inspectors_ok_def GetSession_def dest: map_of_SomeD)

lemma inspectors_ok_fs [simp]: "inspectors_ok (g\<lparr>g_fs := fs\<rparr>) = inspectors_ok g"
  by (simp add: inspectors_ok_def)

lemma runResponseInspection_frame:
  assumes "registry_ok (insmap (s_Insps s)) (insp_ids (s_Insps s))" and "runResponseInspection env s a fs = (e, a', fs')"
  shows "md_Sha256 (a_Metadata a') = md_Sha256 (a_Metadata a)" and "a_SessionID a' = a_SessionID a"
proof -
  define ienv where "ienv = \<lparr>env_open = os_ReadFile (env_os (sv_session env)) fs, env_detect = sv_detect env, env_seek = sv_seek env\<rparr>"
  obtain e0 b w where r: "RunArtifactInspectors ienv (s_Insps s) (a_AssetDir a) fs a = (e0, b, w)" by (metis prod_cases3)
  have frame: "md_Sha256 (a_Metadata (fst (snd (run_artifact ienv (insmap (s_Insps s)) p f (insp_ids (s_Insps s)) v c)))) = md_Sha256 (a_Metadata c)
      \<and> a_SessionID (fst (snd (run_artifact ienv (insmap (s_Insps s)) p f (insp_ids (s_Insps s)) v c))) = a_SessionID c" for p f v c
    using run_artifact_frame [OF assms(1), of p c ienv f v] by (simp add: response_frame_def same_context_def)
  have "md_Sha256 (a_Metadata b) = md_Sha256 (a_Metadata a) \<and> a_SessionID b = a_SessionID a"
  proof (cases "fst (RunArtifactInspectors ienv (s_Insps s) (a_AssetDir a) fs a) = None \<or> b \<noteq> a")
    case True
    then obtain f mt where "run_artifact ienv (insmap (s_Insps s)) (insp_permissive (s_Insps s)) f (insp_ids (s_Insps s)) fs
        (a\<lparr>a_Metadata := (a_Metadata a)\<lparr>md_Type := mime_String mt\<rparr>, a_MimeType := Some mt\<rparr>) = (e0, b, w)"
      using r by (auto simp: RunArtifactInspectors_def Let_def split: sum.splits)
    then show ?thesis using frame [of "insp_permissive (s_Insps s)" f fs "a\<lparr>a_Metadata := (a_Metadata a)\<lparr>md_Type := mime_String mt\<rparr>, a_MimeType := Some mt\<rparr>"] by simp
  qed simp
  then show "md_Sha256 (a_Metadata a') = md_Sha256 (a_Metadata a)" and "a_SessionID a' = a_SessionID a"
    using assms(2) r
    by (auto simp: runResponseInspection_def Let_def ienv_def evaluateResponseInspection_def split: option.splits prod.splits if_splits)
qed

lemma inspect_response_ok:
  assumes wf: "wf_gstate g"
    and reg: "inspectors_ok g"
    and i: "inspect_response env now a g = (None, a', g')"
  shows "\<exists>s s' x. GetSession g (a_SessionID a) = Some s \<and> GetSession g' (a_SessionID a) = Some s' \<and>
           map_get (s_A s') (md_Sha256 (a_Metadata a)) = Some x \<and> md_Sha256 (a_Metadata a') = md_Sha256 (a_Metadata a) \<and>
           (s_Permissive s \<or> a_Result x = Approved \<and> Artifact_Approved x)"
proof (cases "fst (handleResponseInspection env now a g)")
  case (Replied e)
  then obtain g1 where h: "handleResponseInspection env now a g = (Replied e, g1)" by (metis prod.collapse)
  with i have e: "e = None" "g1 = g'" and sha: "md_Sha256 (a_Metadata a') = md_Sha256 (a_Metadata a)"
    by (auto simp: inspect_response_def split: if_splits)
  obtain s b where s: "GetSession g (a_SessionID a) = Some s" and b: "map_get (s_A s) (md_Sha256 (a_Metadata a)) = Some b"
    and ok: "judged_artifact b" "s_Permissive s \<or> a_Result b = Approved"
    using handleResponseInspection_ok [OF wf h [unfolded e]] by blast
  let ?s' = "AddDownload ((a_CurrentDownload a)\<lparr>dl_EndTime := now\<rparr>) s"
  have "GetSession g' (a_SessionID a) = Some ?s'"
    using h e s b wf_gstateD(1) [OF wf s]
    by (auto simp: handleResponseInspection_def HasArtifact_def Let_def split: if_splits)
  moreover obtain x where "map_get (s_A ?s') (md_Sha256 (a_Metadata a)) = Some x" and "grows b x"
    using evolves_AddDownload [of s "(a_CurrentDownload a)\<lparr>dl_EndTime := now\<rparr>"] b by (auto simp: evolves_def)
  ultimately show ?thesis using s ok sha
    by (intro exI [of _ s] exI [of _ ?s'] exI [of _ x]) (auto simp: grows_def judged_artifact_def Artifact_Approved_def RequestPending_def ResponseApproved_def)
next
  case (Spawned t)
  then obtain g1 where h: "handleResponseInspection env now a g = (Spawned t, g1)" by (metis prod.collapse)
  then obtain s where s: "GetSession g (a_SessionID a) = Some s" and new: "\<not> HasArtifact s (md_Sha256 (a_Metadata a))"
    and t: "t = ResponseTask s (a\<lparr>a_CurrentDownload := (a_CurrentDownload a)\<lparr>dl_EndTime := now\<rparr>\<rparr>)"
    and g1: "GetSession g1 = GetSession g"
    by (auto simp: handleResponseInspection_def Let_def split: option.splits if_splits prod.splits)
  let ?b = "a\<lparr>a_CurrentDownload := (a_CurrentDownload a)\<lparr>dl_EndTime := now\<rparr>\<rparr>"
  obtain e b' fs' where r: "runResponseInspection env s ?b (g_fs g1) = (e, b', fs')" by (metis prod_cases3)
  obtain ec g2 where c: "handleCompleteInspection b' (g1\<lparr>g_fs := fs'\<rparr>) = (ec, g2)" by fastforce
  have res: "ec = None" "e = None" "a' = b'" "g' = g2"
    using i h t r c by (auto simp: inspect_response_def split: option.splits)
  have id: "md_Sha256 (a_Metadata b') = md_Sha256 (a_Metadata a)" "a_SessionID b' = a_SessionID a"
    using runResponseInspection_frame [OF inspectors_okD [OF reg s] r] by simp_all
  let ?s' = "AddDownload (a_CurrentDownload b') (AddArtifact b' s)"
  have "GetSession g2 (a_SessionID a) = Some ?s'"
    using c res(1) s g1 id new wf_gstateD(1) [OF wf s]
    by (auto simp: handleCompleteInspection_def Let_def)
  moreover have "map_get (s_A (AddArtifact b' s)) (md_Sha256 (a_Metadata a)) = Some b'"
    using new id(1) by (simp add: AddArtifact_def HasArtifact_def Let_def)
  then obtain x where "map_get (s_A ?s') (md_Sha256 (a_Metadata a)) = Some x" and "grows b' x"
    using evolves_AddDownload [of "AddArtifact b' s" "a_CurrentDownload b'"] by (auto simp: evolves_def)
  moreover have "judged_artifact b' \<and> (s_Permissive s \<or> a_Result b' = Approved)"
    using runResponseInspection_judged [OF r] res(2) by simp
  ultimately show ?thesis using s id res
    by (intro exI [of _ s] exI [of _ ?s'] exI [of _ x]) (auto simp: grows_def judged_artifact_def Artifact_Approved_def RequestPending_def ResponseApproved_def)
qed


section \<open>Requests\<close>

lemma InjectSecrets_session:
  "InjectSecrets jc secs url req = Inr (b, req') \<Longrightarrow>
     header_Get (req_Header req') sessionIDHeader = header_Get (req_Header req) sessionIDHeader"
  by (induction jc secs url req rule: InjectSecrets.induct)
     (auto simp: injectSecret_def sessionIDHeader_def split: if_splits sum.splits option.splits)

lemma inspect_request_ok:
  assumes reg: "inspectors_ok g"
    and i: "inspect_request a g = (None, a')"
  shows "\<exists>s. GetSession g (a_SessionID a) = Some s \<and> a_SessionID a' = a_SessionID a \<and> (s_Permissive s \<or> RequestPending a')"
proof -
  from i obtain s where s: "GetSession g (a_SessionID a) = Some s" and r: "runRequestInspection s a = (None, a')"
    by (auto simp: inspect_request_def handleRequestInspection_def split: option.splits)
  have "a_SessionID a' = a_SessionID a"
    using r run_request_frame [OF inspectors_okD [OF reg s], of a]
    by (auto simp: runRequestInspection_def RunRequestInspectors_def request_frame_def same_context_def split: option.splits prod.splits)
  with s r show ?thesis
    by (auto simp: runRequestInspection_def evaluateRequestInspection_def split: option.splits prod.splits if_splits)
qed

lemma processRequest_forwards:
  assumes reg: "inspectors_ok g"
    and p: "processRequest px now req ud g = (req', None, ud')"
    and sid: "sid = header_Get (req_Header (set_session_id req ud)) sessionIDHeader"
  shows "\<exists>a s. ud' = Some (ProxyData a) \<and> GetSession g sid = Some s \<and> a_SessionID a = sid \<and>
           header_Get (req_Header req') sessionIDHeader = sid \<and> (s_Permissive s \<or> RequestPending a)"
proof -
  let ?a = "request_artifact px now (copyHTTPHeader (req_Header req)) (set_session_id req ud)"
  have id: "a_SessionID ?a = sid" by (simp add: request_artifact_def sid)
  from p obtain a' where i: "inspect_request ?a g = (None, a')" and ud: "ud' = Some (ProxyData a')"
    and h: "header_Get (req_Header req') sessionIDHeader = sid"
    by (auto simp: processRequest_def NewRequestHandler_def Let_def sid dest!: InjectSecrets_session
        split: option.splits prod.splits sum.splits if_splits)
  show ?thesis using inspect_request_ok [OF reg i] id ud h by auto
qed

lemma processRequest_status:
  assumes "\<And>r c m. resp_StatusCode (px_NewResponse px r c m) = c"
    and "processRequest px now req ud g = (req', Some resp, ud')"
  shows "resp_StatusCode resp \<noteq> StatusOK"
  using assms
  by (auto simp: processRequest_def NewRequestHandler_def internalErrorResponse_def requestEntityTooLargeResponse_def
      Let_def split: option.splits prod.splits sum.splits if_splits)

lemma getSessionIDHeader_ok:
  assumes "getSessionIDHeader r = Inr i"
  shows "i = header_Get (req_Header r) sessionIDHeader" and "plain_elem i"
proof -
  from assms show "i = header_Get (req_Header r) sessionIDHeader"
    by (auto simp: getSessionIDHeader_def Let_def split: if_splits)
  from assms have "i \<noteq> []" and c: "\<forall>c \<in> set i. \<not> ((of_char c < (97::nat) \<or> 122 < (of_char c :: nat)) \<and> (of_char c < (48::nat) \<or> 57 < (of_char c :: nat)))"
    by (auto simp: getSessionIDHeader_def Let_def list_ex_iff split: if_splits)
  have "CHR ''/'' \<notin> set i" and "CHR ''.'' \<notin> set i" using c by force+
  with \<open>i \<noteq> []\<close> show "plain_elem i" by (auto simp: plain_elem_def)
qed

section \<open>Downloads\<close>

lemma take_prefix: "take n c = b \<Longrightarrow> b = take (length b) c"
  by (auto simp: min_def)

lemma download_delivers:
  assumes wf: "wf_gstate g"
    and reg: "inspectors_ok g"
    and n: "NewFileDownloadHandler px now resp a spool g = (Inr body, a', g')" and ne: "br_data body \<noteq> []"
  shows "\<exists>i s s' x c. getSessionIDHeader (resp_Request resp) = Inr i \<and> GetSession g (a_SessionID a) = Some s \<and>
           GetSession g' (a_SessionID a) = Some s' \<and> map_get (s_A s') (px_sha256 px (body_data resp)) = Some x \<and>
           (s_Permissive s \<or> a_Result x = Approved \<and> Artifact_Approved x) \<and>
           map_get (fs_files (g_fs g')) (data_file (filepath_Join [spool, i, ''assets'']) (px_sha256 px (body_data resp))) = Some c \<and>
           br_data body = take (length (br_data body)) c"
proof -
  from n ne obtain i tmp where i: "getSessionIDHeader (resp_Request resp) = Inr i" and t: "px_CreateTemp px = Inr tmp"
    by (auto simp: NewFileDownloadHandler_def Let_def split: sum.splits)
  let ?dir = "filepath_Join [spool, i, ''assets'']"
  define a0 where "a0 = a\<lparr>a_Tempfile := tmp, a_AssetDir := ?dir, a_SessionCacheDir := filepath_Join [spool, i, ''cache'']\<rparr>"
  define g0 where "g0 = g\<lparr>g_fs := set_file tmp [] (g_fs g)\<rparr>"
  have d: "download_goroutine px now resp a0 ?dir g0 = ((None, br_data body), a', g')"
    using n ne i t by (auto simp: NewFileDownloadHandler_def Let_def a0_def g0_def split: option.splits prod.splits if_splits)
  obtain e1 a1 fs1 where l: "localDownload px resp a0 (a_Tempfile a0) (g_fs g0) = (e1, a1, fs1)" by (metis prod_cases3)
  with d have e1: "e1 = None" by (cases e1) (auto simp: download_goroutine_def)
  obtain e2 a2 g2 where r: "inspect_response (px_service px) now a1 (g0\<lparr>g_fs := fs1\<rparr>) = (e2, a2, g2)" by (metis prod_cases3)
  from d l e1 r obtain c where e2: "e2 = None" and g': "g' = g2"
    and c: "os_ReadFile (px_os px) (g_fs g2) (data_file ?dir (md_Sha256 (a_Metadata a2))) = Inr c"
    and b: "br_data body = take (length (br_data body)) c"
    by (auto simp: download_goroutine_def data_file_def dest: take_prefix split: if_splits option.splits sum.splits)
  note ld = localDownload_ok [OF l [unfolded e1]]
  have sid: "a_SessionID a1 = a_SessionID a" by (simp add: ld(4) a0_def)
  have "\<exists>s s' x. GetSession (g0\<lparr>g_fs := fs1\<rparr>) (a_SessionID a1) = Some s \<and> GetSession g2 (a_SessionID a1) = Some s' \<and>
      map_get (s_A s') (md_Sha256 (a_Metadata a1)) = Some x \<and> md_Sha256 (a_Metadata a2) = md_Sha256 (a_Metadata a1) \<and>
      (s_Permissive s \<or> a_Result x = Approved \<and> Artifact_Approved x)"
    using wf reg r [unfolded e2] by (intro inspect_response_ok) (auto simp: g0_def sid)
  then show ?thesis using i c b g' sid ld(2)
    by (auto simp: g0_def os_ReadFile_def split: option.splits)
qed


section \<open>Claims\<close>

text \<open>The credentials under which a request is served: those of its tunnel, or its own.\<close>

definition authenticated :: "http_request \<Rightarrow> string option \<Rightarrow> string \<Rightarrow> Session \<Rightarrow> bool" where
  "authenticated req user sid s \<longleftrightarrow>
     user = Some sid \<or> user = None \<and> credentials req = Some (sid, s_Token s) \<and> \<not> s_revoked s"

lemma Basic_cases:
  obtains (tunnel) u where "user = Some u" "Basic realm f req \<lparr>ctx_UserData = user, ctx_Resp = None\<rparr> = (Some req, None)"
  | (denied) resp where "Basic realm f req \<lparr>ctx_UserData = user, ctx_Resp = None\<rparr> = (None, Some resp)"
      "resp_StatusCode resp = StatusProxyAuthRequired"
  | (accepted) u pw req1 where "user = None" "credentials req = Some (u, pw)" "f (stripped req) u pw = (True, req1)"
      "Basic realm f req \<lparr>ctx_UserData = user, ctx_Resp = None\<rparr> = (Some req1, None)"
proof (cases user)
  case None
  show thesis
  proof (cases "credentials req")
    case (Some up)
    obtain u pw where up: "up = (u, pw)" by force
    obtain ok req1 where f: "f (stripped req) u pw = (ok, req1)" by force
    show thesis
    proof (cases ok)
      case True
      then show thesis using None Some up f that(3) by (simp add: Basic_def auth_credentials)
    next
      case False
      then show thesis using None Some up f that(2) by (simp add: Basic_def auth_credentials BasicUnauthorized_def)
    qed
  qed (use None that(2) in \<open>simp add: Basic_def auth_credentials BasicUnauthorized_def\<close>)
qed (use that(1) in \<open>simp add: Basic_def\<close>)

lemma CheckAuth_iff: "CheckAuth sid pw g \<longleftrightarrow> (\<exists>s. GetSession g sid = Some s \<and> \<not> s_revoked s \<and> s_Token s = pw)"
  by (auto simp: CheckAuth_def split: option.splits)

text \<open>A response with status 200 comes from the origin server, through the request handler.\<close>

lemma serve_from_origin:
  assumes nr: "\<And>r c m. resp_StatusCode (px_NewResponse px r c m) = c"
    and reg: "inspectors_ok g"
    and serve: "proxy_ServeHTTP px now spool req user g = Some (Some resp, g')"
    and ok: "resp_StatusCode resp = StatusOK"
  shows "\<exists>sid s a req2 ip resp0. GetSession g sid = Some s \<and> authenticated req user sid s \<and> a_SessionID a = sid \<and>
           (s_Permissive s \<or> RequestPending a) \<and> header_Get (req_Header req2) sessionIDHeader = sid \<and>
           px_DetailedRoundTrip px req2 = Inr (ip, resp0) \<and> Allowed (g_config g) ip \<and>
           processResponse px now (Some resp0) (Some (ProxyData a)) spool g = Some (Some resp, g')"
proof -
  have pass: "processResponse px now ro ud spool g = Some (Some resp, g') \<Longrightarrow> \<exists>r. ro = Some r \<and> resp_StatusCode r = StatusOK" for ro ud
    using ok by (auto simp: processResponse_def split: option.splits if_splits)
  obtain req1 where req1: "Basic authRealm (basicAuth g) req \<lparr>ctx_UserData = user, ctx_Resp = None\<rparr> = (Some req1, None)"
    and sid: "\<And>s. GetSession g (header_Get (req_Header (set_session_id req1 (map_option UserID user))) sessionIDHeader) = Some s \<Longrightarrow>
        authenticated req user (header_Get (req_Header (set_session_id req1 (map_option UserID user))) sessionIDHeader) s"
  proof (cases rule: Basic_cases [of user authRealm "basicAuth g" req])
    case (tunnel u)
    then show thesis by (intro that [of req]) (auto simp: set_session_id_def authenticated_def)
  next
    case (denied r)
    with serve pass show thesis by (fastforce simp: proxy_ServeHTTP_def Let_def)
  next
    case (accepted u pw req1)
    then show thesis by (intro that [of req1]) (auto simp: basicAuth_def set_session_id_def authenticated_def CheckAuth_iff)
  qed
  obtain req2 ro ud2 where p: "processRequest px now req1 (map_option UserID user) g = (req2, ro, ud2)" by (metis prod_cases3)
  have ro: "ro = None"
    using serve req1 p pass processRequest_status [OF nr] by (cases ro) (fastforce simp: proxy_ServeHTTP_def Let_def)+
  obtain a s where ud2: "ud2 = Some (ProxyData a)" and f: "GetSession g (a_SessionID a) = Some s"
    "a_SessionID a = header_Get (req_Header (set_session_id req1 (map_option UserID user))) sessionIDHeader"
    "header_Get (req_Header req2) sessionIDHeader = a_SessionID a" "s_Permissive s \<or> RequestPending a"
    using processRequest_forwards [OF reg p [unfolded ro] refl] by auto
  obtain r where r: "processRoundTrip px (g_config g) req2 = Inr r" and pr: "processResponse px now (Some r) ud2 spool g = Some (Some resp, g')"
    using serve req1 p ro by (auto simp: proxy_ServeHTTP_def processResponse_def Let_def split: sum.splits)
  with pass have "resp_StatusCode r = StatusOK" by blast
  with r obtain ip where "px_DetailedRoundTrip px req2 = Inr (ip, r)" and "Allowed (g_config g) ip"
    by (auto simp: processRoundTrip_def httpResponse_def split: sum.splits prod.splits if_splits)
  with f sid ud2 pr show ?thesis by (metis (no_types, lifting))
qed



lemma processRequest_data: "processRequest px now req ud g = (req', None, ud') \<Longrightarrow> \<exists>a. ud' = Some (ProxyData a)"
  by (auto simp: processRequest_def NewRequestHandler_def Let_def split: option.splits prod.splits sum.splits if_splits)

lemma processResponse_answers:
  "(\<exists>resp. ro = Some resp \<and> resp_StatusCode resp = StatusOK) \<longrightarrow> (\<exists>a. ud = Some (ProxyData a)) \<Longrightarrow>
     processResponse px now ro ud spool g \<noteq> None"
  by (auto simp: processResponse_def Let_def split: option.splits prod.splits sum.splits UserData.splits)

text \<open>
  The proxy answers every request: the response handler's type assertion on the user data never
  fails, whatever the client, the origin server, the file system and the inspectors do.
\<close>

theorem proxy_never_panics:
  assumes nr: "\<And>r c m. resp_StatusCode (px_NewResponse px r c m) = c"
  shows "proxy_ServeHTTP px now spool req user g \<noteq> None"
proof -
  have rest: "(case processRequest px now req1 ud g of
           (req2, Some resp, ud2) \<Rightarrow> processResponse px now (Some resp) ud2 spool g
         | (req2, None, ud2) \<Rightarrow>
           (case processRoundTrip px (g_config g) req2 of
              Inl err \<Rightarrow> processResponse px now None ud2 spool g
            | Inr resp \<Rightarrow> processResponse px now (Some resp) ud2 spool g)) \<noteq> None" for req1 ud
  proof -
    obtain req2 ro ud2 where p: "processRequest px now req1 ud g = (req2, ro, ud2)" by (metis prod_cases3)
    show ?thesis
    proof (cases ro)
      case None
      then obtain a where "ud2 = Some (ProxyData a)" using processRequest_data p by blast
      then have "processResponse px now x ud2 spool g \<noteq> None" for x by (intro processResponse_answers) simp
      with p None show ?thesis by (simp split: sum.split)
    next
      case (Some resp)
      then have "processResponse px now (Some resp) ud2 spool g \<noteq> None"
        using processRequest_status [OF nr] p by (intro processResponse_answers) auto
      with p Some show ?thesis by simp
    qed
  qed
  show ?thesis
  proof (cases rule: Basic_cases [of user authRealm "basicAuth g" req])
    case (denied r)
    then have "processResponse px now (Some r) (map_option UserID user) spool g \<noteq> None"
      by (intro processResponse_answers) simp
    with denied show ?thesis by (simp add: proxy_ServeHTTP_def Let_def)
  qed (use rest in \<open>simp_all add: proxy_ServeHTTP_def Let_def\<close>)
qed


text \<open>
  C22. When the address the proxy connected to is not allowed, nothing of the origin's response
  reaches the client: it gets status 403 with a fixed text, and no artifact is recorded.
\<close>

theorem blocked_address_denied:
  assumes f: "processRequest px now req ud g = (req', None, ud')"
    and rt: "px_DetailedRoundTrip px req' = Inr (ip, resp)" and blocked: "\<not> Allowed (g_config g) ip"
    and basic: "Basic authRealm (basicAuth g) req0 \<lparr>ctx_UserData = user, ctx_Resp = None\<rparr> = (Some req, None)"
    and ud: "ud = map_option UserID user"
  shows "proxy_ServeHTTP px now spool req0 user g = Some (Some (httpResponse req' StatusForbidden ''Access denied''), g)"
  using assms by (simp add: proxy_ServeHTTP_def processRoundTrip_def processResponse_def httpResponse_def Let_def)

text \<open>
  C23. Only responses with status 200 are inspected: any other response of an allowed address is
  handed to the client as it is, body included, in a strict session too, and leaves no trace in the
  session. (A partial response, status 206, to a request for a range is one.)
\<close>

theorem other_statuses_bypass_inspection:
  assumes f: "processRequest px now req ud g = (req', None, ud')"
    and rt: "px_DetailedRoundTrip px req' = Inr (ip, resp)" and allowed: "Allowed (g_config g) ip"
    and status: "resp_StatusCode resp \<noteq> StatusOK"
    and basic: "Basic authRealm (basicAuth g) req0 \<lparr>ctx_UserData = user, ctx_Resp = None\<rparr> = (Some req, None)"
    and ud: "ud = map_option UserID user"
  shows "proxy_ServeHTTP px now spool req0 user g = Some (Some resp, g)"
  using assms by (simp add: proxy_ServeHTTP_def processRoundTrip_def processResponse_def Let_def)


section \<open>A run\<close>

definition sample_origin :: "int \<Rightarrow> http_request \<Rightarrow> (IP option \<times> http_response) result" where
  "sample_origin status r = Inr (Some [10, 0, 0, 9],
     \<lparr>resp_Status = ''200 OK'', resp_StatusCode = status, resp_Header = [],
      resp_Body = Some \<lparr>br_data = ''package'', br_err = None\<rparr>, resp_ContentLength = 7,
      resp_TransferEncoding = [], resp_Trailer = [], resp_Request = r\<rparr>)"

definition sample_proxy_env :: "int \<Rightarrow> proxy_env" where
  "sample_proxy_env status = \<lparr>px_service = sample_service_env, px_codec = one_request_codec, px_NormalizedURL = u_Path,
     px_NewResponse = httpResponse, px_DetailedRoundTrip = sample_origin status,
     px_sha1 = take 1, px_sha256 = take 1,
     px_CreateTemp = Inr ''/artifact-1'', px_Pipe = None, px_read = (\<lambda>_. 3), px_close = None,
     px_timed_out = False, px_background = False, px_pipe_closed = False, px_copied = None\<rparr>"

definition sample_proxy_session :: Session where
  "sample_proxy_session = \<lparr>s_ID = ''d7e0'', s_Token = ''tok'', s_Start = 5, s_End = 0,
     s_Insps = \<lparr>insmap = [(''deb'', accepting ''deb''), (''default'', DefaultInspector)],
                 insp_ids = [''deb'', ''default''], insp_permissive = False\<rparr>,
     s_A = [], s_Permissive = False, s_SessionDir = ''/spool/d7e0'', s_CacheDir = ''/spool/d7e0/cache'',
     s_Timeout = 60, s_InspectorsCfg = zero_InspectorsConfig, s_Secrets = [], s_timer = 0, s_revoked = False\<rparr>"

definition sample_proxy_state :: "ACLPolicy \<Rightarrow> gstate" where
  "sample_proxy_state policy = \<lparr>sessions = [(''d7e0'', sample_proxy_session)],
     timers = [\<lparr>t_ID = ''d7e0'', t_armed = True, t_done = 0, t_monitor = Watching\<rparr>], ExpiredSessionID = [],
     g_fs = \<lparr>fs_files = [], fs_dirs = []\<rparr>,
     g_config = zero_config\<lparr>globalACLConfig := \<lparr>hp_Policy = policy, hp_Rules = []\<rparr>\<rparr>\<rparr>"

definition sample_proxy_request :: http_request where
  "sample_proxy_request = sample_http_request\<lparr>req_Header := [(''Proxy-Authorization'', [basic_header ''d7e0'' ''tok''])]\<rparr>"

text \<open>The request as the request handler gets it and as it sends it.\<close>

definition sample_named_request :: http_request where
  "sample_named_request = sample_http_request\<lparr>req_Header := [(''X-Fetch-Session-Id'', [''d7e0''])]\<rparr>"

lemma sample_proxy_state_ok: "wf_gstate (sample_proxy_state p)" "inspectors_ok (sample_proxy_state p)"
  by (auto simp: sample_proxy_state_def sample_proxy_session_def wf_gstate_def wf_sessions_def wf_timers_def wf_session_def
      inspectors_ok_def registry_ok_def default_inspector.inspector_axioms) (simp_all add: accepting_def DefaultInspector_def)

lemma sample_proxy_env_ok:
  "resp_StatusCode (px_NewResponse (sample_proxy_env st) r c m) = c"
  "px_DetailedRoundTrip (sample_proxy_env st) r = Inr (ip, resp) \<Longrightarrow> resp_Request resp = r"
  by (auto simp: sample_proxy_env_def httpResponse_def sample_origin_def)


theorem proxy_never_panics_witness:
  "proxy_ServeHTTP (sample_proxy_env 200) 7 ''/spool'' sample_proxy_request None (sample_proxy_state Deny) \<noteq> None"
  by (rule proxy_never_panics) (rule sample_proxy_env_ok(1))

lemma sample_forwarded:
  obtains ud' where "processRequest (sample_proxy_env st) 7 sample_named_request None (sample_proxy_state p) = (sample_named_request, None, ud')"
proof -
  have "(\<lambda>(r, w, _). (r, w)) (processRequest (sample_proxy_env st) 7 sample_named_request None (sample_proxy_state p)) =
      (sample_named_request, None)" by (cases p) code_simp+
  then show thesis using that by (cases "processRequest (sample_proxy_env st) 7 sample_named_request None (sample_proxy_state p)") auto
qed

lemma sample_basic:
  "Basic authRealm (basicAuth (sample_proxy_state p)) sample_proxy_request \<lparr>ctx_UserData = None, ctx_Resp = None\<rparr> =
     (Some sample_named_request, None)"
proof -
  have "credentials sample_proxy_request = Some (''d7e0'', ''tok'')"
    by (rule credentials_basic_header) (simp_all add: sample_proxy_request_def header_Get_def proxyAuthorizationHeader_def)
  then show ?thesis
    by (simp add: Basic_def auth_credentials basicAuth_def CheckAuth_def GetSession_def sample_proxy_state_def sample_proxy_session_def
        stripped_def sample_proxy_request_def sample_named_request_def header_Del_def header_Set_def proxyAuthorizationHeader_def sessionIDHeader_def)
qed


theorem blocked_address_denied_witness:
  "proxy_ServeHTTP (sample_proxy_env 200) 7 ''/spool'' sample_proxy_request None (sample_proxy_state Deny) =
     Some (Some (httpResponse sample_named_request StatusForbidden ''Access denied''), sample_proxy_state Deny)"
proof -
  obtain ud' where "processRequest (sample_proxy_env 200) 7 sample_named_request None (sample_proxy_state Deny) = (sample_named_request, None, ud')"
    by (rule sample_forwarded)
  moreover have "\<not> Allowed (g_config (sample_proxy_state Deny)) (Some [10, 0, 0, 9])" by code_simp
  ultimately show ?thesis
    using blocked_address_denied [OF _ _ _ sample_basic, of "sample_proxy_env 200" 7 None Deny sample_named_request ud' "Some [10, 0, 0, 9]"]
    by (simp add: sample_proxy_env_def sample_origin_def)
qed

theorem other_statuses_bypass_inspection_witness:
  "\<exists>resp. proxy_ServeHTTP (sample_proxy_env 206) 7 ''/spool'' sample_proxy_request None (sample_proxy_state Allow) =
     Some (Some resp, sample_proxy_state Allow) \<and> resp_Body resp = Some \<lparr>br_data = ''package'', br_err = None\<rparr>"
proof -
  obtain ud' where f: "processRequest (sample_proxy_env 206) 7 sample_named_request None (sample_proxy_state Allow) = (sample_named_request, None, ud')"
    by (rule sample_forwarded)
  obtain resp where r: "px_DetailedRoundTrip (sample_proxy_env 206) sample_named_request = Inr (Some [10, 0, 0, 9], resp)"
    and s: "resp_StatusCode resp \<noteq> StatusOK" "resp_Body resp = Some \<lparr>br_data = ''package'', br_err = None\<rparr>"
    by (simp add: sample_proxy_env_def sample_origin_def)
  have "Allowed (g_config (sample_proxy_state Allow)) (Some [10, 0, 0, 9])" by code_simp
  from other_statuses_bypass_inspection [OF f r this s(1) sample_basic] s(2) show ?thesis by auto
qed

end
