(* ===== verification/Upstream.thy ===== *)
theory Upstream
  imports Http
begin

text \<open>
  The choice of an upstream proxy (\<^verbatim>\<open>proxyFromEnvironment\<close>, \<^verbatim>\<open>shouldBypassProxy\<close> and \<^verbatim>\<open>getenvAny\<close> of \<^verbatim>\<open>proxy/proxy.go\<close>), with
  the matcher of Go's \<^verbatim>\<open>path\<close> package that it relies on.

  The environment variables and the parser of the address of the proxy are arguments. A pattern is matched chunk
  by chunk, where a chunk is what stands between two stars; a malformed pattern is an error even where the
  match has failed before.
\<close>

section \<open>The matcher of the path package\<close>

definition ErrBadPattern :: go_error where
  "ErrBadPattern = ErrVar ''path.ErrBadPattern'' ''syntax error in pattern''"

text \<open>\<^verbatim>\<open>utf8.DecodeRuneInString\<close> of a string that is not empty: the rune and its width.\<close>

definition cont_byte :: "nat \<Rightarrow> nat \<Rightarrow> char \<Rightarrow> bool" where
  "cont_byte lo hi c \<longleftrightarrow> lo \<le> of_char c \<and> (of_char c :: nat) \<le> hi"

definition decode_rune :: "string \<Rightarrow> nat \<times> nat" where
  "decode_rune s =
     (case s of [] \<Rightarrow> (65533, 0)
      | c # r \<Rightarrow>
        (let b = of_char c :: nat; v = (\<lambda>d. (of_char d :: nat) mod 64);
             lo = (if b = 224 then 160 else if b = 240 then 144 else 128);
             hi = (if b = 237 then 159 else if b = 244 then 143 else 191) in
         if b < 128 then (b, 1)
         else if 194 \<le> b \<and> b \<le> 223 then
           (case r of d # _ \<Rightarrow> if cont_byte 128 191 d then ((b mod 32) * 64 + v d, 2) else (65533, 1) | [] \<Rightarrow> (65533, 1))
         else if 224 \<le> b \<and> b \<le> 239 then
           (case r of d # e # _ \<Rightarrow> if cont_byte lo hi d \<and> cont_byte 128 191 e then ((b mod 16) * 4096 + v d * 64 + v e, 3) else (65533, 1)
            | _ \<Rightarrow> (65533, 1))
         else if 240 \<le> b \<and> b \<le> 244 then
           (case r of d # e # f # _ \<Rightarrow>
              if cont_byte lo hi d \<and> cont_byte 128 191 e \<and> cont_byte 128 191 f then ((b mod 8) * 262144 + v d * 4096 + v e * 64 + v f, 4) else (65533, 1)
            | _ \<Rightarrow> (65533, 1))
         else (65533, 1)))"

fun scan_len :: "bool \<Rightarrow> string \<Rightarrow> nat" where
  "scan_len inrange [] = 0"
| "scan_len inrange [c] = (if c = CHR ''*'' \<and> \<not> inrange then 0 else 1)"
| "scan_len inrange (c # d # r) =
     (if c = CHR 0x5C then 2 + scan_len inrange r
      else if c = CHR ''['' then 1 + scan_len True (d # r)
      else if c = CHR '']'' then 1 + scan_len False (d # r)
      else if c = CHR ''*'' \<and> \<not> inrange then 0
      else 1 + scan_len inrange (d # r))"

definition scanChunk :: "string \<Rightarrow> bool \<times> string \<times> string" where
  "scanChunk pattern =
     (let q = dropWhile (\<lambda>c. c = CHR ''*'') pattern; n = scan_len False q in (q \<noteq> pattern, take n q, drop n q))"

definition getEsc :: "string \<Rightarrow> (nat \<times> string) result" where
  "getEsc chunk =
     (if chunk = [] \<or> hd chunk = CHR ''-'' \<or> hd chunk = CHR '']'' then Inl ErrBadPattern
      else (let c1 = (if hd chunk = CHR 0x5C then tl chunk else chunk) in
        if c1 = [] then Inl ErrBadPattern
        else (case decode_rune c1 of (r, n) \<Rightarrow>
          (if r = 65533 \<and> n = 1 \<or> drop n c1 = [] then Inl ErrBadPattern else Inr (r, drop n c1)))))"

lemma decode_rune_width: "s \<noteq> [] \<Longrightarrow> 0 < snd (decode_rune s)"
  by (cases s) (auto simp: decode_rune_def Let_def split: list.splits)

lemma getEsc_shorter: "getEsc chunk = Inr (r, c) \<Longrightarrow> length c < length chunk \<and> c \<noteq> []"
  using decode_rune_width [of chunk] decode_rune_width [of "tl chunk"]
  by (cases chunk) (auto simp: getEsc_def Let_def split: if_splits prod.splits)

function match_ranges :: "nat \<Rightarrow> bool \<Rightarrow> nat \<Rightarrow> string \<Rightarrow> (bool \<times> string) result" where
  "match_ranges r m n chunk =
     (if chunk \<noteq> [] \<and> hd chunk = CHR '']'' \<and> 0 < n then Inr (m, tl chunk)
      else (case getEsc chunk of Inl e \<Rightarrow> Inl e
        | Inr (lo, c1) \<Rightarrow>
          (case (if hd c1 = CHR ''-'' then getEsc (tl c1) else Inr (lo, c1)) of Inl e \<Rightarrow> Inl e
           | Inr (hi, c2) \<Rightarrow> match_ranges r (m \<or> lo \<le> r \<and> r \<le> hi) (n + 1) c2)))"
  by pat_completeness auto
termination
proof (relation "measure (\<lambda>(r, m, n, chunk). length chunk)")
  fix r m n and chunk :: string and x lo c1 y hi c2
  assume "getEsc chunk = Inr x" "(lo, c1) = x" "(if hd c1 = CHR ''-'' then getEsc (tl c1) else Inr (lo, c1)) = Inr y" "(hi, c2) = y"
  then have "length c1 < length chunk" "length c2 \<le> length c1"
    using getEsc_shorter [of chunk lo c1] getEsc_shorter [of "tl c1" hi c2] by (auto split: if_splits)
  then show "((r, m \<or> lo \<le> r \<and> r \<le> hi, n + 1, c2), r, m, n, chunk) \<in> measure (\<lambda>(r, m, n, chunk). length chunk)" by simp
qed simp

declare match_ranges.simps [simp del]

lemma match_ranges_shorter: "match_ranges r m n chunk = Inr (b, c) \<Longrightarrow> length c < length chunk"
proof (induction r m n chunk rule: match_ranges.induct)
  case (1 r m n chunk)
  show ?case
  proof (cases "chunk \<noteq> [] \<and> hd chunk = CHR '']'' \<and> 0 < n")
    case True
    then show ?thesis using "1.prems" by (subst (asm) match_ranges.simps) (cases chunk; simp)
  next
    case False
    with "1.prems" obtain lo c1 hi c2 where x: "getEsc chunk = Inr (lo, c1)" "(if hd c1 = CHR ''-'' then getEsc (tl c1) else Inr (lo, c1)) = Inr (hi, c2)"
      "match_ranges r (m \<or> lo \<le> r \<and> r \<le> hi) (n + 1) c2 = Inr (b, c)"
      by (subst (asm) match_ranges.simps) (auto split: sum.splits)
    have "length c < length c2" using "1.IH" [OF False x(1) refl x(2) refl x(3)] .
    then show ?thesis using getEsc_shorter [OF x(1)] getEsc_shorter [of "tl c1" hi c2] x(2) by (auto split: if_splits)
  qed
qed

text \<open>A chunk against the start of a name: an error, or the rest of the name if it matches.\<close>

function match_chunk :: "bool \<Rightarrow> string \<Rightarrow> string \<Rightarrow> string option result" where
  "match_chunk failed [] s = Inr (if failed then None else Some s)"
| "match_chunk failed0 (c # r) s =
     (let failed = (failed0 \<or> s = []) in
      if c = CHR ''['' then
        (let rs = (if failed then (0, s) else (fst (decode_rune s), drop (snd (decode_rune s)) s));
             negated = (r \<noteq> [] \<and> hd r = CHR ''^'')
         in case match_ranges (fst rs) False 0 (if negated then tl r else r) of Inl e \<Rightarrow> Inl e
            | Inr (m, r2) \<Rightarrow> match_chunk (failed \<or> m = negated) r2 (snd rs))
      else if c = CHR ''?'' then
        (if failed then match_chunk True r s else match_chunk (hd s = CHR ''/'') r (drop (snd (decode_rune s)) s))
      else if c = CHR 0x5C then
        (case r of [] \<Rightarrow> Inl ErrBadPattern
         | d # r' \<Rightarrow> if failed then match_chunk True r' s else match_chunk (d \<noteq> hd s) r' (tl s))
      else if failed then match_chunk True r s else match_chunk (c \<noteq> hd s) r (tl s))"
  by pat_completeness auto
termination
proof (relation "measure (\<lambda>(f, chunk, s). length chunk)")
  fix failed0 :: bool and c :: char and r s :: string and x xb xc :: bool and xa :: "nat \<times> string" and y :: "bool \<times> string" and r2 :: string
  assume "xb = (r \<noteq> [] \<and> hd r = CHR ''^'')" "match_ranges (fst xa) False 0 (if xb then tl r else r) = Inr y" "(xc, r2) = y"
  then have "length r2 < length r" using match_ranges_shorter [of "fst xa" False 0 "if xb then tl r else r" xc r2]
    by (cases r) (auto split: if_splits)
  then show "((x \<or> xc = xb, r2, snd xa), failed0, c # r, s) \<in> measure (\<lambda>(f, chunk, s). length chunk)" by simp
qed simp_all

definition accepts :: "string \<Rightarrow> string option \<Rightarrow> string option" where
  "accepts rest mt = (case mt of Some t \<Rightarrow> if t = [] \<or> rest \<noteq> [] then Some t else None | None \<Rightarrow> None)"

text \<open>The places after a star, up to the first slash.\<close>

fun skip_star :: "string \<Rightarrow> string \<Rightarrow> string \<Rightarrow> string option result" where
  "skip_star chunk rest [] = Inr None"
| "skip_star chunk rest (c # name) =
     (if c = CHR ''/'' then Inr None
      else (case match_chunk False chunk name of Inl e \<Rightarrow> Inl e
        | Inr mt \<Rightarrow> (case accepts rest mt of Some t \<Rightarrow> Inr (Some t) | None \<Rightarrow> skip_star chunk rest name)))"

lemma scan_len_pos: "s \<noteq> [] \<Longrightarrow> hd s \<noteq> CHR ''*'' \<Longrightarrow> 0 < scan_len False s"
  by (cases "(False, s)" rule: scan_len.cases) auto

lemma scanChunk_shorter: "scanChunk p = (star, chunk, rest) \<Longrightarrow> p \<noteq> [] \<Longrightarrow> length rest < length p"
proof -
  assume p: "scanChunk p = (star, chunk, rest)" "p \<noteq> []"
  let ?q = "dropWhile (\<lambda>c. c = CHR ''*'') p"
  have rest: "rest = drop (scan_len False ?q) ?q" using p by (simp add: scanChunk_def Let_def)
  show "length rest < length p"
  proof (cases "?q = p")
    case True
    then have "hd p \<noteq> CHR ''*''" using p(2) by (metis (mono_tags, lifting) hd_dropWhile)
    then show ?thesis using scan_len_pos [OF p(2)] True rest p(2) by simp
  next
    case False
    let ?t = "takeWhile (\<lambda>c. c = CHR ''*'') p"
    have p': "?t @ ?q = p" by (rule takeWhile_dropWhile_id)
    with False have "?t \<noteq> []" by (metis append_Nil)
    moreover from p' have "length ?t + length ?q = length p" by (metis length_append)
    ultimately have "length ?q < length p" by (cases ?t) auto
    then show ?thesis using rest by simp
  qed
qed

function check_rest :: "string \<Rightarrow> bool result" where
  "check_rest pattern =
     (if pattern = [] then Inr False
      else (case scanChunk pattern of (_, chunk, rest) \<Rightarrow>
        (case match_chunk False chunk [] of Inl e \<Rightarrow> Inl e | Inr _ \<Rightarrow> check_rest rest)))"
  by pat_completeness auto
termination by (relation "measure length") (auto dest: scanChunk_shorter [OF sym])

declare check_rest.simps [simp del]

function path_Match :: "string \<Rightarrow> string \<Rightarrow> bool result" where
  "path_Match pattern name =
     (if pattern = [] then Inr (name = [])
      else (case scanChunk pattern of (star, chunk, rest) \<Rightarrow>
        (if star \<and> chunk = [] then Inr (CHR ''/'' \<notin> set name)
         else (case match_chunk False chunk name of Inl e \<Rightarrow> Inl e
           | Inr mt \<Rightarrow>
             (case accepts rest mt of Some t \<Rightarrow> path_Match rest t
              | None \<Rightarrow>
                (if star then
                   (case skip_star chunk rest name of Inl e \<Rightarrow> Inl e
                    | Inr (Some t) \<Rightarrow> path_Match rest t | Inr None \<Rightarrow> check_rest rest)
                 else check_rest rest))))))"
  by pat_completeness auto
termination by (relation "measure (\<lambda>(p, n). length p)") (auto dest: scanChunk_shorter [OF sym])

declare path_Match.simps [simp del]

section \<open>The choice (proxy.go)\<close>

fun getenvAny :: "(string \<Rightarrow> string) \<Rightarrow> string list \<Rightarrow> string" where
  "getenvAny getenv [] = []"
| "getenvAny getenv (k # keys) = (if getenv k \<noteq> [] then getenv k else getenvAny getenv keys)"

text \<open>\<^verbatim>\<open>Hostname\<close> of a URL: the host without a port, and without the brackets of an IPv6 address.\<close>

definition url_Hostname :: "url \<Rightarrow> string" where
  "url_Hostname u =
     (let h = u_Host u;
          port = takeWhile (\<lambda>c. c \<noteq> CHR '':'') (rev h);
          host = (if CHR '':'' \<in> set h \<and> list_all (cont_byte 48 57) port then rev (drop (length port + 1) (rev h)) else h)
      in if strings_HasPrefix host ''['' \<and> strings_HasSuffix host '']'' then butlast (tl host) else host)"

fun bypass_entries :: "string list \<Rightarrow> string \<Rightarrow> bool" where
  "bypass_entries [] host = False"
| "bypass_entries (e # es) host =
     (let t = strings_TrimSpace e in
      if t = [] then bypass_entries es host
      else (let h = strings_ToLower t in
        if host = h then True
        else if path_Match h host = Inr True then True
        else bypass_entries es host))"

definition shouldBypassProxy :: "(string \<Rightarrow> string) \<Rightarrow> string \<Rightarrow> bool" where
  "shouldBypassProxy getenv host =
     (let noProxy = getenvAny getenv [''NO_PROXY'', ''no_proxy''] in
      if noProxy = [] then False else bypass_entries (strings_Split noProxy CHR '','') (strings_ToLower host))"

definition proxyFromEnvironment :: "(string \<Rightarrow> string) \<Rightarrow> (string \<Rightarrow> url result) \<Rightarrow> url \<Rightarrow> url option result" where
  "proxyFromEnvironment getenv url_Parse u =
     (if shouldBypassProxy getenv (url_Hostname u) then Inr None
      else (let p0 = (if u_Scheme u = ''https'' then getenvAny getenv [''HTTPS_PROXY'', ''https_proxy'']
                      else if u_Scheme u = ''http'' then getenvAny getenv [''HTTP_PROXY'', ''http_proxy''] else []);
                p = (if p0 = [] then getenvAny getenv [''ALL_PROXY'', ''all_proxy''] else p0) in
        if p = [] then Inr None else map_sum id Some (url_Parse p)))"

section \<open>What an entry covers\<close>

text \<open>A pattern without special characters.\<close>

definition literal :: "string \<Rightarrow> bool" where
  "literal p \<longleftrightarrow> set p \<inter> set ''*?[]'' = {} \<and> CHR 0x5C \<notin> set p"

lemma literal_Cons: "literal (c # p) \<longleftrightarrow> c \<notin> set ''*?[]'' \<and> c \<noteq> CHR 0x5C \<and> literal p"
  by (auto simp: literal_def)

lemma scan_len_literal: "literal p \<Longrightarrow> scan_len False p = length p"
  by (induction False p rule: scan_len.induct) (auto simp: literal_Cons)

lemma scanChunk_literal: "literal p \<Longrightarrow> scanChunk p = (False, p, [])" "literal p \<Longrightarrow> scanChunk (CHR ''*'' # p) = (True, p, [])"
proof -
  assume p: "literal p"
  then have "dropWhile (\<lambda>c. c = CHR ''*'') p = p" by (cases p) (auto simp: literal_Cons)
  then show "scanChunk p = (False, p, [])" "scanChunk (CHR ''*'' # p) = (True, p, [])"
    using scan_len_literal [OF p] by (auto simp: scanChunk_def Let_def)
qed

lemma match_failed_literal: "literal p \<Longrightarrow> match_chunk True p s = Inr None"
  by (induction p arbitrary: s) (auto simp: literal_Cons Let_def)

lemma match_chunk_literal:
  "literal p \<Longrightarrow> match_chunk False p s = Inr (if strings_HasPrefix s p then Some (drop (length p) s) else None)"
proof (induction p arbitrary: s)
  case (Cons c p)
  then have p: "literal p" and c: "c \<notin> set ''*?[]''" "c \<noteq> CHR 0x5C" by (simp_all add: literal_Cons)
  note IH = Cons.IH
  show ?case
  proof (cases s)
    case (Cons a s1)
    have "match_chunk (c \<noteq> a) p s1 = Inr (if c = a \<and> strings_HasPrefix s1 p then Some (drop (length p) s1) else None)"
      using IH [OF p, of s1] match_failed_literal [OF p, of s1] by (cases "c = a") auto
    then show ?thesis using Cons c by (simp add: Let_def strings_HasPrefix_def)
  qed (use p c in \<open>simp add: Let_def match_failed_literal strings_HasPrefix_def\<close>)
qed (simp add: strings_HasPrefix_def)

lemma path_Match_literal: "literal p \<Longrightarrow> path_Match p name = Inr (name = p)"
proof -
  assume p: "literal p"
  have "strings_HasPrefix name p \<and> drop (length p) name = [] \<longleftrightarrow> name = p" by (auto simp: strings_HasPrefix_iff)
  then show ?thesis
    using p scanChunk_literal(1) [OF p] match_chunk_literal [OF p, of name]
    by (subst path_Match.simps) (auto simp: accepts_def path_Match.simps [of "[]"] check_rest.simps [of "[]"] split: option.splits)
qed

lemma skip_star_literal:
  "literal p \<Longrightarrow> skip_star p [] name = Inr (if \<exists>q. q \<noteq> [] \<and> name = q @ p \<and> CHR ''/'' \<notin> set q then Some [] else None)"
proof (induction name)
  case (Cons c name)
  have step: "(\<exists>q. q \<noteq> [] \<and> c # name = q @ p \<and> CHR ''/'' \<notin> set q) \<longleftrightarrow>
      c \<noteq> CHR ''/'' \<and> (name = p \<or> (\<exists>q. q \<noteq> [] \<and> name = q @ p \<and> CHR ''/'' \<notin> set q))"
    by (auto simp: append_eq_Cons_conv Cons_eq_append_conv)
  have "strings_HasPrefix name p \<and> drop (length p) name = [] \<longleftrightarrow> name = p" by (auto simp: strings_HasPrefix_iff)
  then have acc: "accepts [] (if strings_HasPrefix name p then Some (drop (length p) name) else None) = (if name = p then Some [] else None)"
    by (auto simp: accepts_def)
  show ?case
    using Cons match_chunk_literal [OF Cons.prems, of name] acc step by (auto split: option.splits)
qed simp

lemma path_Match_star: "path_Match (CHR ''*'' # p) name = Inr (\<exists>q. name = q @ p \<and> CHR ''/'' \<notin> set q)" if "literal p"
proof (cases "p = []")
  case True
  then show ?thesis using scanChunk_literal(2) [OF that] by (subst path_Match.simps) auto
next
  case False
  have "strings_HasPrefix name p \<and> drop (length p) name = [] \<longleftrightarrow> name = p" by (auto simp: strings_HasPrefix_iff)
  then have acc: "accepts [] (if strings_HasPrefix name p then Some (drop (length p) name) else None) = (if name = p then Some [] else None)"
    by (auto simp: accepts_def)
  have "(\<exists>q. name = q @ p \<and> CHR ''/'' \<notin> set q) \<longleftrightarrow> name = p \<or> (\<exists>q. q \<noteq> [] \<and> name = q @ p \<and> CHR ''/'' \<notin> set q)" by auto
  then show ?thesis
    using False scanChunk_literal(2) [OF that] match_chunk_literal [OF that, of name] acc skip_star_literal [OF that, of name]
    by (subst path_Match.simps) (auto simp: path_Match.simps [of "[]"] check_rest.simps [of "[]"])
qed

text \<open>What an entry is meant to cover: the host itself, or every host that ends in what follows a star.\<close>

definition covers :: "string \<Rightarrow> string \<Rightarrow> bool" where
  "covers e host \<longleftrightarrow> host = e \<or> (\<exists>p q. e = CHR ''*'' # p \<and> host = q @ p \<and> CHR ''/'' \<notin> set q)"

definition simple_entry :: "string \<Rightarrow> bool" where
  "simple_entry e \<longleftrightarrow> literal e \<or> (\<exists>p. e = CHR ''*'' # p \<and> literal p)"

lemma path_Match_simple: "simple_entry e \<Longrightarrow> host = e \<or> path_Match e host = Inr True \<longleftrightarrow> covers e host"
  by (auto simp: simple_entry_def covers_def path_Match_literal path_Match_star literal_Cons)

lemma bypass_entries_iff:
  "\<forall>e \<in> set es. strings_TrimSpace e = [] \<or> simple_entry (strings_ToLower (strings_TrimSpace e)) \<Longrightarrow>
     bypass_entries es host \<longleftrightarrow> (\<exists>e \<in> set es. strings_TrimSpace e \<noteq> [] \<and> covers (strings_ToLower (strings_TrimSpace e)) host)"
proof (induction es)
  case (Cons e es)
  then show ?case using path_Match_simple [of "strings_ToLower (strings_TrimSpace e)" host] by (auto simp: Let_def)
qed simp


definition sample_getenv :: "string \<Rightarrow> string" where
  "sample_getenv k = (if k = ''NO_PROXY'' then ''example.com, *.Internal'' else if k = ''https_proxy'' then ''http://up:3128'' else [])"

definition sample_parse :: "string \<Rightarrow> url result" where
  "sample_parse s = Inr \<lparr>u_Scheme = ''http'', u_Host = drop 7 s, u_Path = [], u_RawQuery = []\<rparr>"

definition https_url :: "string \<Rightarrow> url" where
  "https_url host = \<lparr>u_Scheme = ''https'', u_Host = host, u_Path = ''/'', u_RawQuery = []\<rparr>"

lemma sample_entries: "getenvAny sample_getenv [''NO_PROXY'', ''no_proxy''] = ''example.com, *.Internal''"
  "getenvAny sample_getenv [''HTTPS_PROXY'', ''https_proxy''] = ''http://up:3128''"
  "map (\<lambda>e. strings_ToLower (strings_TrimSpace e)) (strings_Split ''example.com, *.Internal'' CHR '','') = [''example.com'', ''*.internal'']"
  by code_simp+


end
