(* ===== verification/Fetchctl.thy ===== *)
theory Fetchctl
  imports Service Session_Props
begin

text \<open>
  \<^verbatim>\<open>service/fetchctl/server.go\<close> and \<^verbatim>\<open>cmd/fetchctl\<close>: the local socket of the service and the commands that use it.

  The server takes one connection at a time: it decodes a request, passes it to the dispatcher, waits for the
  result and writes the reply. Arguments stand for the JSON codec of the two messages and of the payload of
  \<^verbatim>\<open>create-session\<close>, for the socket (whether it exists, accepts, and carries the bytes) and for the files the
  commands read. A command either prints a line or fails.
\<close>

record OperationRequest =
  op_Operation :: string
  op_Type :: string
  op_ValidateOnly :: bool
  op_Payload :: string

record OperationReply =
  rp_Result :: string
  rp_Message :: string

record ctl_codec =
  enc_request :: "OperationRequest \<Rightarrow> string result"
  dec_request :: "string \<Rightarrow> OperationRequest result"
  enc_reply :: "OperationReply \<Rightarrow> string result"
  dec_reply :: "string \<Rightarrow> OperationReply result"
  enc_payload :: "CreateSessionPayload \<Rightarrow> string result"
  ctl_quote :: "string \<Rightarrow> string"

section \<open>The server (server.go)\<close>

definition buildReply :: "ctl_codec \<Rightarrow> string \<Rightarrow> string \<Rightarrow> string" where
  "buildReply codec res message =
     (case enc_reply codec \<lparr>rp_Result = res, rp_Message = message\<rparr> of Inr j \<Rightarrow> j
      | Inl err \<Rightarrow> ''{\"result\":\"error\",\"message\":'' @ ctl_quote codec (err_Error err) @ ''}'')"

definition NewFetchCtl :: "OperationRequest \<Rightarrow> FetchCtl" where
  "NewFetchCtl r = \<lparr>fc_Operation = op_Operation r, fc_Type = op_Type r, fc_ValidateOnly = op_ValidateOnly r, fc_Payload = op_Payload r\<rparr>"

text \<open>What the loop of \<^verbatim>\<open>Start\<close> does with the bytes of one connection: the reply it writes, and the service.\<close>

definition serve_connection :: "ctl_codec \<Rightarrow> service_env \<Rightarrow> int \<Rightarrow> string \<Rightarrow> Service \<Rightarrow> string \<times> Service" where
  "serve_connection codec env now data svc =
     (case dec_request codec data of Inl err \<Rightarrow> (buildReply codec ''error'' (err_Error err), svc)
      | Inr r \<Rightarrow> (case handleFetchCtl env now (NewFetchCtl r) svc of (res, svc') \<Rightarrow> (buildReply codec (fr_Status res) (fr_Message res), svc')))"

section \<open>The commands (cmd/fetchctl)\<close>

record ctl_env =
  cl_Stat :: "go_error option"
  cl_ReadFile :: "string \<Rightarrow> string result"
  cl_Stdin :: "string result"
  cl_Dial :: "go_error option"
  cl_Write :: "go_error option"
  cl_ReadAll :: "go_error option"

definition checkSocket :: "ctl_env \<Rightarrow> go_error option" where
  "checkSocket cl = (case cl_Stat cl of Some _ \<Rightarrow> Some (Errorf ''cannot access socket, is the service running?'') | None \<Rightarrow> None)"

definition readContent :: "ctl_env \<Rightarrow> string \<Rightarrow> string result" where
  "readContent cl filename = (if filename = ''-'' then cl_Stdin cl else cl_ReadFile cl filename)"

type_synonym ctl_server = "string \<Rightarrow> Service \<Rightarrow> string \<times> Service"

text \<open>\<^verbatim>\<open>send\<close> and \<^verbatim>\<open>receive\<close> on one connection, with the server in between.\<close>

definition exchange :: "ctl_codec \<Rightarrow> ctl_env \<Rightarrow> ctl_server \<Rightarrow> OperationRequest \<Rightarrow> Service \<Rightarrow> OperationReply result \<times> Service" where
  "exchange codec cl serve r svc =
     (case enc_request codec r of Inl err \<Rightarrow> (Inl (Errorf (''cannot send request: '' @ err_Error err)), svc)
      | Inr data \<Rightarrow>
        (case cl_Write cl of Some err \<Rightarrow> (Inl (Errorf (''cannot send request: '' @ err_Error err)), svc)
         | None \<Rightarrow>
           (case serve data svc of (reply, svc') \<Rightarrow>
              (case cl_ReadAll cl of Some err \<Rightarrow> (Inl (Errorf (''cannot read reply: '' @ err_Error err)), svc')
               | None \<Rightarrow> (case dec_reply codec reply of Inl err \<Rightarrow> (Inl (Errorf (''cannot read reply: '' @ err_Error err)), svc')
                   | Inr x \<Rightarrow> (Inr x, svc'))))))"

text \<open>The end the commands share: the printed line, with what the command puts before it, or the error.\<close>

definition finish_command :: "string \<Rightarrow> string \<Rightarrow> OperationReply result \<times> Service \<Rightarrow> string result \<times> Service" where
  "finish_command failure before out =
     (case out of (Inl err, svc) \<Rightarrow> (Inl err, svc)
      | (Inr reply, svc) \<Rightarrow> (if rp_Result reply \<noteq> ''ok'' then Inl (Errorf (failure @ rp_Message reply)) else Inr (before @ rp_Message reply), svc))"

definition with_connection :: "ctl_env \<Rightarrow> Service \<Rightarrow> string result \<times> Service \<Rightarrow> string result \<times> Service" where
  "with_connection cl svc out = (case cl_Dial cl of Some err \<Rightarrow> (Inl err, svc) | None \<Rightarrow> out)"

record CreateSessionCmd =
  cs_SessionID :: string
  cs_Token :: string
  cs_Timeout :: "64 word"
  cs_Permissive :: bool
  cs_Filename :: string

definition create_payload :: "CreateSessionCmd \<Rightarrow> string \<Rightarrow> CreateSessionPayload" where
  "create_payload cmd content = \<lparr>cp_SessionID = cs_SessionID cmd, cp_Token = cs_Token cmd, cp_Timeout = cs_Timeout cmd,
     cp_Mode = (if cs_Permissive cmd then ''permissive'' else ''strict''), cp_InspectorsConfig = content\<rparr>"

definition create_request :: "string \<Rightarrow> OperationRequest" where
  "create_request p = \<lparr>op_Operation = ''create-session'', op_Type = [], op_ValidateOnly = False, op_Payload = p\<rparr>"

definition CreateSessionCmd_Execute ::
  "ctl_codec \<Rightarrow> ctl_env \<Rightarrow> ctl_server \<Rightarrow> CreateSessionCmd \<Rightarrow> Service \<Rightarrow> string result \<times> Service" where
  "CreateSessionCmd_Execute codec cl serve cmd svc =
     (case checkSocket cl of Some err \<Rightarrow> (Inl err, svc)
      | None \<Rightarrow>
        (case (if cs_Filename cmd \<noteq> [] then readContent cl (cs_Filename cmd) else Inr []) of Inl err \<Rightarrow> (Inl err, svc)
         | Inr content \<Rightarrow> with_connection cl svc
            (case enc_payload codec (create_payload cmd content) of Inl err \<Rightarrow> (Inl err, svc)
             | Inr p \<Rightarrow> finish_command [] [] (exchange codec cl serve (create_request p) svc))))"

record UpdateConfigCmd =
  uc_Type :: string
  uc_ValidateOnly :: bool
  uc_Filename :: string

definition UpdateConfigCmd_Execute ::
  "ctl_codec \<Rightarrow> ctl_env \<Rightarrow> ctl_server \<Rightarrow> UpdateConfigCmd \<Rightarrow> Service \<Rightarrow> string result \<times> Service" where
  "UpdateConfigCmd_Execute codec cl serve cmd svc =
     (case checkSocket cl of Some err \<Rightarrow> (Inl err, svc)
      | None \<Rightarrow>
        (case readContent cl (uc_Filename cmd) of Inl err \<Rightarrow> (Inl err, svc)
         | Inr content \<Rightarrow> with_connection cl svc (finish_command [] (uc_Type cmd @ '' '') (exchange codec cl serve
             \<lparr>op_Operation = ''update-config'', op_Type = uc_Type cmd, op_ValidateOnly = uc_ValidateOnly cmd, op_Payload = content\<rparr> svc))))"

record UpdateCertCmd =
  ut_ValidateOnly :: bool
  ut_Filename :: string

definition UpdateCertCmd_Execute ::
  "ctl_codec \<Rightarrow> ctl_env \<Rightarrow> ctl_server \<Rightarrow> UpdateCertCmd \<Rightarrow> Service \<Rightarrow> string result \<times> Service" where
  "UpdateCertCmd_Execute codec cl serve cmd svc =
     (case checkSocket cl of Some err \<Rightarrow> (Inl err, svc)
      | None \<Rightarrow>
        (case readContent cl (ut_Filename cmd) of Inl err \<Rightarrow> (Inl err, svc)
         | Inr content \<Rightarrow> with_connection cl svc (finish_command [] [] (exchange codec cl serve
             \<lparr>op_Operation = ''update-cert'', op_Type = [], op_ValidateOnly = ut_ValidateOnly cmd, op_Payload = content\<rparr> svc))))"

definition ListArtifactsCmd_Execute :: "ctl_codec \<Rightarrow> ctl_env \<Rightarrow> ctl_server \<Rightarrow> string \<Rightarrow> Service \<Rightarrow> string result \<times> Service" where
  "ListArtifactsCmd_Execute codec cl serve sessionID svc =
     (case checkSocket cl of Some err \<Rightarrow> (Inl err, svc)
      | None \<Rightarrow> with_connection cl svc (finish_command [] [] (exchange codec cl serve
          \<lparr>op_Operation = ''list-artifacts'', op_Type = [], op_ValidateOnly = False, op_Payload = sessionID\<rparr> svc)))"

definition VersionCmd_Execute :: "ctl_codec \<Rightarrow> ctl_env \<Rightarrow> ctl_server \<Rightarrow> Service \<Rightarrow> string result \<times> Service" where
  "VersionCmd_Execute codec cl serve svc =
     (case checkSocket cl of Some err \<Rightarrow> (Inl err, svc)
      | None \<Rightarrow> with_connection cl svc (finish_command ''cannot obtain service version: '' [] (exchange codec cl serve
          \<lparr>op_Operation = ''version'', op_Type = [], op_ValidateOnly = False, op_Payload = []\<rparr> svc)))"

section \<open>Creating a session\<close>

text \<open>The codec carries the request of a command: both sides see the same payload.\<close>

definition carries :: "ctl_codec \<Rightarrow> service_env \<Rightarrow> CreateSessionPayload \<Rightarrow> bool" where
  "carries codec env payload \<longleftrightarrow> (\<exists>p d. enc_payload codec payload = Inr p \<and> dec_CreateSessionPayload env p = Inr payload \<and>
     enc_request codec (create_request p) = Inr d \<and> dec_request codec d = Inr (create_request p))"

definition command_content :: "ctl_env \<Rightarrow> CreateSessionCmd \<Rightarrow> string result" where
  "command_content cl cmd = (if cs_Filename cmd \<noteq> [] then readContent cl (cs_Filename cmd) else Inr [])"

lemma fetchCtlCreateSession_ok:
  assumes "dec_CreateSessionPayload env p = Inr payload" and "fetchCtlCreateSession env now v svc = (res, svc')" and "fc_Payload v = p"
  shows "fr_Status res = ''error'' \<and> svc' = svc \<or>
    (\<exists>ov s g'. NewWithID (sv_session env) now (sv_uuid env) (cp_SessionID payload) (cp_Token payload) (o_Spool (svc_opt svc)) (timeout_of (cp_Timeout payload))
        (o_PermissiveMode (svc_opt svc) \<and> cp_Mode payload = ''permissive'') [] ov (svc_g svc) = (s, g') \<and>
      svc' = svc\<lparr>svc_g := g', totalSessions := totalSessions svc + 1\<rparr> \<and>
      res = fetchctl_ok (''session '' @ s_ID s @ '':'' @ s_Token s @ '' created ('' @ policy_name s @ '')''))"
  using assms by (auto simp: fetchCtlCreateSession_def fetchctl_error_def Let_def Session_Metadata_def split: sum.splits prod.splits if_splits)

lemma create_session_serves:
  assumes "command_content cl cmd = Inr content" and "carries codec env (create_payload cmd content)"
    and "CreateSessionCmd_Execute codec cl (serve_connection codec env now) cmd svc = (Inr line, svc')"
  shows "\<exists>p res. dec_CreateSessionPayload env p = Inr (create_payload cmd content) \<and>
    fetchCtlCreateSession env now (NewFetchCtl (create_request p)) svc = (res, svc') \<and>
    (\<exists>reply. dec_reply codec (buildReply codec (fr_Status res) (fr_Message res)) = Inr reply \<and> rp_Result reply = ''ok'' \<and> line = rp_Message reply)"
proof -
  from assms(2) obtain p d where p: "enc_payload codec (create_payload cmd content) = Inr p" "dec_CreateSessionPayload env p = Inr (create_payload cmd content)"
    "enc_request codec (create_request p) = Inr d" "dec_request codec d = Inr (create_request p)" by (auto simp: carries_def)
  obtain res svc1 where h: "fetchCtlCreateSession env now (NewFetchCtl (create_request p)) svc = (res, svc1)" by fastforce
  then have "handleFetchCtl env now (NewFetchCtl (create_request p)) svc = (res, svc1)" by (simp add: handleFetchCtl_def NewFetchCtl_def create_request_def)
  with p(4) have serve: "serve_connection codec env now d svc = (buildReply codec (fr_Status res) (fr_Message res), svc1)"
    by (simp add: serve_connection_def)
  from assms(3) assms(1) p(1) have "finish_command [] [] (exchange codec cl (serve_connection codec env now) (create_request p) svc) = (Inr line, svc')"
    by (auto simp: CreateSessionCmd_Execute_def command_content_def with_connection_def split: option.splits)
  then have "svc' = svc1 \<and> (\<exists>reply. dec_reply codec (buildReply codec (fr_Status res) (fr_Message res)) = Inr reply \<and> rp_Result reply = ''ok'' \<and> line = rp_Message reply)"
    using serve p(3) by (auto simp: exchange_def finish_command_def split: option.splits sum.splits if_splits)
  with h p(2) show ?thesis by blast
qed

text \<open>
  The command that creates a session reports what the service did. When it prints a line, and the codec
  carried the request and the reply, a new session is active: it has the token of the command and is
  permissive exactly if both the command and the options of the service say so; the other sessions are as
  they were; and the line names the session, its token and its policy.
\<close>

theorem fetchctl_creates_session:
  assumes "command_content cl cmd = Inr content" and "carries codec env (create_payload cmd content)"
    and "\<And>x. dec_reply codec (buildReply codec (rp_Result x) (rp_Message x)) = Inr x"
    and "CreateSessionCmd_Execute codec cl (serve_connection codec env now) cmd svc = (Inr line, svc')"
    and "wf_gstate (svc_g svc)" and "GetSession (svc_g svc) (makeSessionIDImpl (sv_uuid env)) = None"
  shows "\<exists>s. GetSession (svc_g svc) (s_ID s) = None \<and> GetSession (svc_g svc') = (GetSession (svc_g svc))(s_ID s \<mapsto> s) \<and>
    s_Token s = cs_Token cmd \<and> (s_Permissive s \<longleftrightarrow> o_PermissiveMode (svc_opt svc) \<and> cs_Permissive cmd) \<and>
    line = ''session '' @ s_ID s @ '':'' @ s_Token s @ '' created ('' @ policy_name s @ '')''"
proof -
  obtain p res reply where h: "dec_CreateSessionPayload env p = Inr (create_payload cmd content)"
    "fetchCtlCreateSession env now (NewFetchCtl (create_request p)) svc = (res, svc')"
    "dec_reply codec (buildReply codec (fr_Status res) (fr_Message res)) = Inr reply" "rp_Result reply = ''ok''" "line = rp_Message reply"
    using create_session_serves [OF assms(1,2,4)] by blast
  have reply: "rp_Result reply = fr_Status res" "rp_Message reply = fr_Message res"
    using assms(3) [of "\<lparr>rp_Result = fr_Status res, rp_Message = fr_Message res\<rparr>"] h(3) by auto
  have payload: "fc_Payload (NewFetchCtl (create_request p)) = p" by (simp add: NewFetchCtl_def create_request_def)
  from fetchCtlCreateSession_ok [OF h(1,2) payload] h(4) reply(1) obtain ov s g' where
    new: "NewWithID (sv_session env) now (sv_uuid env) (cs_SessionID cmd) (cs_Token cmd) (o_Spool (svc_opt svc)) (timeout_of (cs_Timeout cmd))
        (o_PermissiveMode (svc_opt svc) \<and> cs_Permissive cmd) [] ov (svc_g svc) = (s, g')" and
    svc': "svc' = svc\<lparr>svc_g := g', totalSessions := totalSessions svc + 1\<rparr>" and
    res: "res = fetchctl_ok (''session '' @ s_ID s @ '':'' @ s_Token s @ '' created ('' @ policy_name s @ '')'')"
    by (auto simp: create_payload_def split: if_splits)
  have s: "s_Token s = cs_Token cmd" "s_Permissive s \<longleftrightarrow> o_PermissiveMode (svc_opt svc) \<and> cs_Permissive cmd"
    using new by (auto simp: NewWithID_def newSessionTimer_def Let_def)
  have "GetSession (svc_g svc) (s_ID s) = None" "GetSession g' = (GetSession (svc_g svc))(s_ID s \<mapsto> s)"
    using NewWithID_created(2,3) [OF assms(5) _ assms(6) new] by simp_all
  with s svc' res reply(2) h(5) show ?thesis by (auto simp: fetchctl_ok_def)
qed

section \<open>A session without an identifier\<close>


section \<open>A sample\<close>

text \<open>A codec for the reply that marks every character of the result, and the request of one command.\<close>

fun unmark :: "string \<Rightarrow> OperationReply result" where
  "unmark (m # c # r) =
     (if m = CHR ''0'' then (case unmark r of Inl err \<Rightarrow> Inl err | Inr x \<Rightarrow> Inr (x\<lparr>rp_Result := c # rp_Result x\<rparr>))
      else Inr \<lparr>rp_Result = [], rp_Message = c # r\<rparr>)"
| "unmark [m] = Inr \<lparr>rp_Result = [], rp_Message = []\<rparr>"
| "unmark [] = Inl (Errorf ''EOF'')"

definition marked :: "OperationReply \<Rightarrow> string" where
  "marked x = concat (map (\<lambda>c. [CHR ''0'', c]) (rp_Result x)) @ CHR ''1'' # rp_Message x"

lemma unmark_marked: "unmark (marked x) = Inr x"
proof -
  have "unmark (concat (map (\<lambda>c. [CHR ''0'', c]) res) @ CHR ''1'' # m) = Inr \<lparr>rp_Result = res, rp_Message = m\<rparr>" for res m
    by (induction res) (cases m; simp)+
  then show ?thesis by (simp add: marked_def)
qed

definition nameless_cmd :: CreateSessionCmd where
  "nameless_cmd = \<lparr>cs_SessionID = [], cs_Token = ''tok'', cs_Timeout = 60, cs_Permissive = False, cs_Filename = []\<rparr>"

definition sample_codec :: ctl_codec where
  "sample_codec = \<lparr>enc_request = (\<lambda>r. Inr ''R''), dec_request = (\<lambda>_. Inr (create_request ''P'')), enc_reply = (\<lambda>x. Inr (marked x)),
     dec_reply = unmark, enc_payload = (\<lambda>_. Inr ''P''), ctl_quote = (\<lambda>s. s)\<rparr>"

definition sample_ctl :: ctl_env where
  "sample_ctl = \<lparr>cl_Stat = None, cl_ReadFile = (\<lambda>_. Inr []), cl_Stdin = Inr [], cl_Dial = None, cl_Write = None, cl_ReadAll = None\<rparr>"

definition ctl_service_env :: service_env where
  "ctl_service_env = \<lparr>sv_session = sample_session_env, sv_yaml = strict_yaml,
     sv_detect = (\<lambda>_. Inr \<lparr>mime_String = ''text/plain'', mime_Is = (\<lambda>t. t = ''text/plain'')\<rparr>), sv_seek = (\<lambda>_. None),
     dec_CreateSessionPayload = (\<lambda>_. Inr (create_payload nameless_cmd [])), enc_ArtifactList = (\<lambda>_. Inr ''[]''),
     sv_tls = text_pairs, sv_uuid = ''0123456789abcdef'', sv_uuid2 = ''0123456789abcdeg'', sv_intn = (\<lambda>n. n)\<rparr>"

text \<open>The service holds a file of another session.\<close>

definition ctl_service :: Service where
  "ctl_service = \<lparr>svc_g = empty_gstate\<lparr>g_fs := \<lparr>fs_files = [(''/spool/s1/a/f'', ''data'')], fs_dirs = [''/spool'', ''/spool/s1'', ''/spool/s1/a'']\<rparr>\<rparr>,
     svc_opt = \<lparr>o_Config = ''/etc/fetch'', o_Spool = ''/spool'', o_PermissiveMode = False, o_KeyPath = [], o_CertPath = [], o_IdleShutdown = 0\<rparr>,
     svc_start = 0, svc_ca = old_vars, totalSessions = 0\<rparr>"

definition nameless_run :: "string result \<times> Service" where
  "nameless_run = CreateSessionCmd_Execute sample_codec sample_ctl (serve_connection sample_codec ctl_service_env 5) nameless_cmd ctl_service"

lemma sample_codec_replies: "dec_reply sample_codec (buildReply sample_codec (rp_Result x) (rp_Message x)) = Inr x"
  by (simp add: buildReply_def sample_codec_def unmark_marked)

lemma sample_carries: "command_content sample_ctl nameless_cmd = Inr []" "carries sample_codec ctl_service_env (create_payload nameless_cmd [])"
  by (simp_all add: command_content_def nameless_cmd_def carries_def sample_codec_def ctl_service_env_def)

lemma nameless_run_ok: "nameless_run = (Inr ''session :tok created (strict)'', snd nameless_run)"
proof -
  have "fst nameless_run = Inr ''session :tok created (strict)''" by code_simp
  then show ?thesis by (metis prod.collapse)
qed

theorem fetchctl_creates_session_witness:
  "\<exists>s. GetSession (svc_g (snd nameless_run)) = (GetSession (svc_g ctl_service))(s_ID s \<mapsto> s) \<and> s_Token s = ''tok'' \<and> \<not> s_Permissive s"
proof -
  have "wf_gstate (svc_g ctl_service)" "GetSession (svc_g ctl_service) (makeSessionIDImpl (sv_uuid ctl_service_env)) = None"
    by (simp_all add: ctl_service_def wf_gstate_def wf_sessions_def wf_timers_def empty_gstate_def GetSession_def)
  from fetchctl_creates_session [OF sample_carries sample_codec_replies nameless_run_ok [unfolded nameless_run_def] this]
  show ?thesis by (auto simp: nameless_run_def nameless_cmd_def)
qed


end
