(* ===== verification/Logs.thy ===== *)
theory Logs
  imports Fetch_Prelude
begin

text \<open>
  \<^verbatim>\<open>logger/logger.go\<close>, \<^verbatim>\<open>seclog/seclog.go\<close> and \<^verbatim>\<open>utils/misc_utils.go\<close>: the log, the log of security events, and the writer of both, which
  follows a log file that is rotated.

  A log file that is renamed stays open, so files are numbered and a directory gives their names; a writer is
  a pointer, and its number is the pointer. Arguments (\<^theory_text>\<open>log_env\<close>) stand for what the operating system answers, the
  time stamp, and the JSON encoder of the standard library. Messages to standard error are not modelled. The
  formatting functions are given for strings and numbers and for the verbs the program uses with them; a
  format outside of that is \<^const>\<open>None\<close>.
\<close>

section \<open>Formatting\<close>

datatype fmt_arg = ArgString string | ArgInt int

fun arg_text :: "fmt_arg \<Rightarrow> string" where
  "arg_text (ArgString s) = s"
| "arg_text (ArgInt n) = fmt_int n"

fun arg_typed :: "fmt_arg \<Rightarrow> string" where
  "arg_typed (ArgString s) = ''string='' @ s"
| "arg_typed (ArgInt n) = ''int='' @ fmt_int n"

text \<open>A space between two operands if neither is a string.\<close>

fun fmt_Sprint :: "fmt_arg list \<Rightarrow> string" where
  "fmt_Sprint [] = []"
| "fmt_Sprint [a] = arg_text a"
| "fmt_Sprint (ArgInt n # ArgInt k # rest) = fmt_int n @ '' '' @ fmt_Sprint (ArgInt k # rest)"
| "fmt_Sprint (a # rest) = arg_text a @ fmt_Sprint rest"

definition extra_args :: "fmt_arg list \<Rightarrow> string" where
  "extra_args args = (if args = [] then [] else ''%!(EXTRA '' @ strings_Join (map arg_typed args) '', '' @ '')'')"

fun fmt_verb :: "char \<Rightarrow> fmt_arg \<Rightarrow> string" where
  "fmt_verb v (ArgString s) = (if v = CHR ''d'' then ''%!d('' @ arg_typed (ArgString s) @ '')'' else s)"
| "fmt_verb v (ArgInt n) = (if v = CHR ''s'' then ''%!s('' @ arg_typed (ArgInt n) @ '')'' else fmt_int n)"

fun fmt_Sprintf :: "string \<Rightarrow> fmt_arg list \<Rightarrow> string option" where
  "fmt_Sprintf [] args = Some (extra_args args)"
| "fmt_Sprintf [c] args = Some ((if c = CHR ''%'' then ''%!(NOVERB)'' else [c]) @ extra_args args)"
| "fmt_Sprintf (c # v # rest) args =
     (if c \<noteq> CHR ''%'' then map_option (Cons c) (fmt_Sprintf (v # rest) args)
      else if v = CHR ''%'' then map_option (Cons CHR ''%'') (fmt_Sprintf rest args)
      else if v \<in> set ''svd'' then
        (case args of [] \<Rightarrow> map_option ((@) (''%!'' @ [v] @ ''(MISSING)'')) (fmt_Sprintf rest [])
         | a # args' \<Rightarrow> map_option ((@) (fmt_verb v a)) (fmt_Sprintf rest args'))
      else None)"

section \<open>Files and writers\<close>

datatype os_file = Stdout | Inode nat

record log_handle =
  hd_file :: os_file
  hd_closed :: bool

record LogWriter =
  lw_Path :: string
  lw_file :: "log_handle option"

datatype log_dest = LogStderr | LogDiscard | LogTo nat

record logs =
  lg_inodes :: "string list"
  lg_dir :: "(string, nat) gomap"
  lg_stdout :: string
  lg_writers :: "LogWriter list"
  logLevel :: int
  logWriter :: "nat option"
  log_output :: log_dest
  seclog_logWriter :: "nat option"
  secl :: "(nat \<times> (string \<times> string) list) option"

record log_env =
  le_open :: "string \<Rightarrow> go_error option"
  le_write :: "go_error option"
  le_close :: "go_error option"
  le_stamp :: string
  le_Hostname :: "string result"
  le_Version :: string
  le_GoVersion :: string
  le_getenv :: "string \<Rightarrow> string"
  le_json :: "(string \<times> string) list \<Rightarrow> string"

definition log_ErrClosed :: go_error where
  "log_ErrClosed = ErrVar ''os.ErrClosed'' ''file already closed''"

text \<open>\<^verbatim>\<open>os.OpenFile\<close> with \<^verbatim>\<open>O_APPEND\<close> and \<^verbatim>\<open>O_CREATE\<close>.\<close>

definition open_append :: "string \<Rightarrow> logs \<Rightarrow> nat \<times> logs" where
  "open_append path lg =
     (case map_get (lg_dir lg) path of Some n \<Rightarrow> (n, lg)
      | None \<Rightarrow> (let n = length (lg_inodes lg) in (n, lg\<lparr>lg_inodes := lg_inodes lg @ [[]], lg_dir := map_set path n (lg_dir lg)\<rparr>)))"

definition file_Write :: "log_env \<Rightarrow> log_handle \<Rightarrow> string \<Rightarrow> logs \<Rightarrow> (nat \<times> go_error option) \<times> logs" where
  "file_Write env h p lg =
     (if hd_closed h then ((0, Some log_ErrClosed), lg)
      else (case le_write env of Some err \<Rightarrow> ((0, Some err), lg)
        | None \<Rightarrow> ((length p, None),
            (case hd_file h of Stdout \<Rightarrow> lg\<lparr>lg_stdout := lg_stdout lg @ p\<rparr>
             | Inode n \<Rightarrow> lg\<lparr>lg_inodes := (lg_inodes lg)[n := lg_inodes lg ! n @ p]\<rparr>))))"

definition upd_writer :: "nat \<Rightarrow> (LogWriter \<Rightarrow> LogWriter) \<Rightarrow> logs \<Rightarrow> logs" where
  "upd_writer i f lg = lg\<lparr>lg_writers := (lg_writers lg)[i := f (lg_writers lg ! i)]\<rparr>"

definition LogWriter_Write :: "log_env \<Rightarrow> nat \<Rightarrow> string \<Rightarrow> logs \<Rightarrow> (nat \<times> go_error option) \<times> logs" where
  "LogWriter_Write env i p lg =
     (case lw_file (lg_writers lg ! i) of None \<Rightarrow> ((0, Some (Errorf ''cannot write to nil log file'')), lg)
      | Some h \<Rightarrow> file_Write env h p lg)"

definition LogWriter_Reopen :: "log_env \<Rightarrow> nat \<Rightarrow> logs \<Rightarrow> go_error option \<times> logs" where
  "LogWriter_Reopen env i lg =
     (let path = lw_Path (lg_writers lg ! i) in
      if path = [] then (None, lg)
      else (case le_open env path of Some err \<Rightarrow> (Some err, lg)
        | None \<Rightarrow> (case open_append path lg of (n, lg1) \<Rightarrow>
            (None, upd_writer i (\<lambda>w. w\<lparr>lw_file := Some \<lparr>hd_file = Inode n, hd_closed = False\<rparr>\<rparr>) lg1))))"

definition LogWriter_Close :: "log_env \<Rightarrow> nat \<Rightarrow> logs \<Rightarrow> go_error option \<times> logs" where
  "LogWriter_Close env i lg =
     (if lw_Path (lg_writers lg ! i) = [] then (None, lg\<lparr>log_output := LogDiscard\<rparr>)
      else (case lw_file (lg_writers lg ! i) of None \<Rightarrow> (None, lg)
        | Some h \<Rightarrow> if hd_closed h then (Some log_ErrClosed, lg)
            else (le_close env, upd_writer i (\<lambda>w. w\<lparr>lw_file := Some (h\<lparr>hd_closed := True\<rparr>)\<rparr>) lg)))"

definition new_writer :: "LogWriter \<Rightarrow> logs \<Rightarrow> nat \<times> logs" where
  "new_writer w lg = (length (lg_writers lg), lg\<lparr>lg_writers := lg_writers lg @ [w]\<rparr>)"

section \<open>The log (logger.go)\<close>

definition ErrorLevel :: int where "ErrorLevel = 0"
definition WarningLevel :: int where "WarningLevel = 1"
definition InfoLevel :: int where "InfoLevel = 2"
definition DebugLevel :: int where "DebugLevel = 3"

definition ErrorPrefix :: string where "ErrorPrefix = ''ERROR: ''"
definition WarningPrefix :: string where "WarningPrefix = ''WARN : ''"
definition InfoPrefix :: string where "InfoPrefix = ''INFO : ''"
definition DebugPrefix :: string where "DebugPrefix = ''DEBUG: ''"

definition SetLevel :: "int \<Rightarrow> logs \<Rightarrow> logs" where
  "SetLevel lv lg = lg\<lparr>logLevel := lv\<rparr>"

definition atLeastLogLevel :: "int \<Rightarrow> logs \<Rightarrow> bool" where
  "atLeastLogLevel lv lg \<longleftrightarrow> lv \<le> logLevel lg"

text \<open>A line of the standard logger: the time stamp, the text and a line feed if the text has none at its end.\<close>

definition log_Output :: "log_env \<Rightarrow> string \<Rightarrow> logs \<Rightarrow> logs" where
  "log_Output env s lg =
     (case log_output lg of
        LogTo i \<Rightarrow> snd (LogWriter_Write env i (le_stamp env @ s @ (if s = [] \<or> last s \<noteq> CHR 0x0A then [CHR 0x0A] else [])) lg)
      | _ \<Rightarrow> lg)"

definition logger_Init :: "log_env \<Rightarrow> int \<Rightarrow> string \<Rightarrow> logs \<Rightarrow> go_error option \<times> logs" where
  "logger_Init env lv logFilepath lg =
     (let lg0 = SetLevel lv lg in
      if logFilepath \<noteq> [] then
        (case new_writer \<lparr>lw_Path = logFilepath, lw_file = None\<rparr> lg0 of (i, lg1) \<Rightarrow>
           (case LogWriter_Reopen env i (lg1\<lparr>logWriter := Some i\<rparr>) of (Some err, lg2) \<Rightarrow> (Some err, lg2)
            | (None, lg2) \<Rightarrow> (None, lg2\<lparr>log_output := LogTo i\<rparr>)))
      else (case new_writer \<lparr>lw_Path = [], lw_file = Some \<lparr>hd_file = Stdout, hd_closed = False\<rparr>\<rparr> lg0 of (i, lg1) \<Rightarrow>
        (None, lg1\<lparr>logWriter := Some i, log_output := LogTo i\<rparr>)))"

definition logger_Close :: "log_env \<Rightarrow> logs \<Rightarrow> logs" where
  "logger_Close env lg = (case logWriter lg of None \<Rightarrow> lg | Some i \<Rightarrow> snd (LogWriter_Close env i lg))"

definition logger_Info :: "log_env \<Rightarrow> fmt_arg list \<Rightarrow> logs \<Rightarrow> logs" where
  "logger_Info env v lg = (if atLeastLogLevel InfoLevel lg then log_Output env (InfoPrefix @ fmt_Sprint v) lg else lg)"

definition logger_Infof :: "log_env \<Rightarrow> string \<Rightarrow> fmt_arg list \<Rightarrow> logs \<Rightarrow> logs option" where
  "logger_Infof env format v lg =
     (if atLeastLogLevel InfoLevel lg then map_option (\<lambda>s. log_Output env (InfoPrefix @ s) lg) (fmt_Sprintf format v) else Some lg)"

definition logger_Warning :: "log_env \<Rightarrow> fmt_arg list \<Rightarrow> logs \<Rightarrow> logs" where
  "logger_Warning env v lg = (if atLeastLogLevel WarningLevel lg then log_Output env (WarningPrefix @ fmt_Sprint v) lg else lg)"

definition logger_Warningf :: "log_env \<Rightarrow> string \<Rightarrow> fmt_arg list \<Rightarrow> logs \<Rightarrow> logs option" where
  "logger_Warningf env format v lg =
     (if atLeastLogLevel WarningLevel lg then map_option (\<lambda>s. log_Output env (WarningPrefix @ s) lg) (fmt_Sprintf format v) else Some lg)"

definition logger_Error :: "log_env \<Rightarrow> fmt_arg list \<Rightarrow> logs \<Rightarrow> logs" where
  "logger_Error env v lg = log_Output env (ErrorPrefix @ fmt_Sprint v) lg"

definition logger_Errorf :: "log_env \<Rightarrow> string \<Rightarrow> fmt_arg list \<Rightarrow> logs \<Rightarrow> logs option" where
  "logger_Errorf env format v lg = map_option (\<lambda>s. log_Output env (ErrorPrefix @ s) lg) (fmt_Sprintf format v)"

text \<open>\<^verbatim>\<open>log.Fatal\<close> exits with status 1 after the line.\<close>

definition logger_Fatal :: "log_env \<Rightarrow> fmt_arg list \<Rightarrow> logs \<Rightarrow> int \<times> logs" where
  "logger_Fatal env v lg = (1, log_Output env (ErrorPrefix @ fmt_Sprint v) lg)"

definition logger_Fatalf :: "log_env \<Rightarrow> string \<Rightarrow> fmt_arg list \<Rightarrow> logs \<Rightarrow> (int \<times> logs) option" where
  "logger_Fatalf env format v lg = map_option (\<lambda>s. (1, log_Output env (ErrorPrefix @ s) lg)) (fmt_Sprintf format v)"

definition logger_Debug :: "log_env \<Rightarrow> fmt_arg list \<Rightarrow> logs \<Rightarrow> logs" where
  "logger_Debug env v lg = (if atLeastLogLevel DebugLevel lg then log_Output env (DebugPrefix @ fmt_Sprint v) lg else lg)"

definition logger_Debugf :: "log_env \<Rightarrow> string \<Rightarrow> fmt_arg list \<Rightarrow> logs \<Rightarrow> logs option" where
  "logger_Debugf env format v lg =
     (if atLeastLogLevel DebugLevel lg then map_option (\<lambda>s. log_Output env (DebugPrefix @ s) lg) (fmt_Sprintf format v) else Some lg)"

text \<open>The format of the warning is fixed and its argument is a string, so the warning has no format error.\<close>

definition logger_Reopen :: "log_env \<Rightarrow> logs \<Rightarrow> logs" where
  "logger_Reopen env lg =
     (case logWriter lg of None \<Rightarrow> lg
      | Some i \<Rightarrow>
        (let path = lw_Path (lg_writers lg ! i);
             lg1 = (if path \<noteq> [] then the (logger_Warningf env ''reopening log file %s'' [ArgString path] lg) else lg)
         in snd (LogWriter_Reopen env i lg1)))"

subsection \<open>Session loggers\<close>

record SessionLogger =
  sl_prefix :: string

definition sessionFormat :: "string \<Rightarrow> string" where
  "sessionFormat sid = ''['' @ sid @ ''] ''"

definition NewSessionLogger :: "string \<Rightarrow> SessionLogger" where
  "NewSessionLogger sid = \<lparr>sl_prefix = sessionFormat sid\<rparr>"

definition SessionLogger_Info :: "log_env \<Rightarrow> SessionLogger \<Rightarrow> fmt_arg list \<Rightarrow> logs \<Rightarrow> logs" where
  "SessionLogger_Info env sl v = logger_Info env (ArgString (sl_prefix sl) # v)"

definition SessionLogger_Infof :: "log_env \<Rightarrow> SessionLogger \<Rightarrow> string \<Rightarrow> fmt_arg list \<Rightarrow> logs \<Rightarrow> logs option" where
  "SessionLogger_Infof env sl format v = logger_Infof env (sl_prefix sl @ format) v"

definition SessionLogger_Warning :: "log_env \<Rightarrow> SessionLogger \<Rightarrow> fmt_arg list \<Rightarrow> logs \<Rightarrow> logs" where
  "SessionLogger_Warning env sl v = logger_Warning env (ArgString (sl_prefix sl) # v)"

definition SessionLogger_Warningf :: "log_env \<Rightarrow> SessionLogger \<Rightarrow> string \<Rightarrow> fmt_arg list \<Rightarrow> logs \<Rightarrow> logs option" where
  "SessionLogger_Warningf env sl format v = logger_Warningf env (sl_prefix sl @ format) v"

definition SessionLogger_Error :: "log_env \<Rightarrow> SessionLogger \<Rightarrow> fmt_arg list \<Rightarrow> logs \<Rightarrow> logs" where
  "SessionLogger_Error env sl v = logger_Error env (ArgString (sl_prefix sl) # v)"

definition SessionLogger_Errorf :: "log_env \<Rightarrow> SessionLogger \<Rightarrow> string \<Rightarrow> fmt_arg list \<Rightarrow> logs \<Rightarrow> logs option" where
  "SessionLogger_Errorf env sl format v = logger_Errorf env (sl_prefix sl @ format) v"

definition SessionLogger_Debug :: "log_env \<Rightarrow> SessionLogger \<Rightarrow> fmt_arg list \<Rightarrow> logs \<Rightarrow> logs" where
  "SessionLogger_Debug env sl v = logger_Debug env (ArgString (sl_prefix sl) # v)"

definition SessionLogger_Debugf :: "log_env \<Rightarrow> SessionLogger \<Rightarrow> string \<Rightarrow> fmt_arg list \<Rightarrow> logs \<Rightarrow> logs option" where
  "SessionLogger_Debugf env sl format v = logger_Debugf env (sl_prefix sl @ format) v"

section \<open>Peers and environment (utils/misc)\<close>

definition RuntimeEnv :: "(string \<Rightarrow> string) \<Rightarrow> string" where
  "RuntimeEnv getenv = (if getenv ''APP_ENV'' = [] then ''unknown'' else getenv ''APP_ENV'')"

definition addr_error :: "string \<Rightarrow> string \<Rightarrow> (string \<times> string) result" where
  "addr_error addr why = Inl (Errorf (''address '' @ addr @ '': '' @ why))"

text \<open>\<^verbatim>\<open>net.SplitHostPort\<close>.\<close>

definition SplitHostPort :: "string \<Rightarrow> (string \<times> string) result" where
  "SplitHostPort hp =
     (let port = rev (takeWhile (\<lambda>c. c \<noteq> CHR '':'') (rev hp)); i = length hp - length port - 1;
          stop = length (takeWhile (\<lambda>c. c \<noteq> CHR '']'') hp) in
      if CHR '':'' \<notin> set hp then addr_error hp ''missing port in address''
      else if hd hp = CHR ''['' then
        (if CHR '']'' \<notin> set hp then addr_error hp (''missing '' @ [CHR 0x27, CHR '']'', CHR 0x27] @ '' in address'')
         else if stop + 1 = length hp then addr_error hp ''missing port in address''
         else if stop + 1 \<noteq> i then addr_error hp (if hp ! (stop + 1) = CHR '':'' then ''too many colons in address'' else ''missing port in address'')
         else if CHR ''['' \<in> set (drop 1 hp) then addr_error hp (''unexpected '' @ [CHR 0x27, CHR ''['', CHR 0x27] @ '' in address'')
         else if CHR '']'' \<in> set (drop (stop + 1) hp) then addr_error hp (''unexpected '' @ [CHR 0x27, CHR '']'', CHR 0x27] @ '' in address'')
         else Inr (take (stop - 1) (drop 1 hp), port))
      else
        (if CHR '':'' \<in> set (take i hp) then addr_error hp ''too many colons in address''
         else if CHR ''['' \<in> set hp then addr_error hp (''unexpected '' @ [CHR 0x27, CHR ''['', CHR 0x27] @ '' in address'')
         else if CHR '']'' \<in> set hp then addr_error hp (''unexpected '' @ [CHR 0x27, CHR '']'', CHR 0x27] @ '' in address'')
         else Inr (take i hp, port)))"

text \<open>The local address of the connection of a request, if the server put one into its context.\<close>

definition ServerIP :: "string option \<Rightarrow> string" where
  "ServerIP localAddr =
     (case localAddr of None \<Rightarrow> ''unknown'' | Some addr \<Rightarrow> (case SplitHostPort addr of Inl _ \<Rightarrow> addr | Inr (ip, _) \<Rightarrow> ip))"

definition ClientIP :: "string \<Rightarrow> string" where
  "ClientIP remoteAddr = (case SplitHostPort remoteAddr of Inl err \<Rightarrow> err_Error err @ '' ('' @ remoteAddr @ '')'' | Inr (ip, _) \<Rightarrow> ip)"

section \<open>Security events (seclog.go)\<close>

definition LevelInfo :: int where "LevelInfo = 0"
definition LevelWarn :: int where "LevelWarn = 4"
definition LevelCritical :: int where "LevelCritical = 12"

record EventData =
  ev_User :: string
  ev_Identity :: string
  ev_HostIP :: string
  ev_ClientIP :: string
  ev_Agent :: string
  ev_Reason :: string
  ev_RequestURL :: string

definition seclog_Init :: "log_env \<Rightarrow> string \<Rightarrow> logs \<Rightarrow> go_error option \<times> logs" where
  "seclog_Init env logfile lg =
     (case new_writer \<lparr>lw_Path = logfile, lw_file = None\<rparr> lg of (i, lg1) \<Rightarrow>
        (case LogWriter_Reopen env i (lg1\<lparr>seclog_logWriter := Some i\<rparr>) of (Some err, lg2) \<Rightarrow> (Some err, lg2)
         | (None, lg2) \<Rightarrow>
           (case le_Hostname env of Inl err \<Rightarrow> (Some (ErrWrap ''cannot obtain host name'' err), lg2)
            | Inr hostname \<Rightarrow> (None, lg2\<lparr>secl := Some (i, [(''hostname'', hostname), (''type'', ''security''),
                (''appid'', ''fetch-service:'' @ le_Version env)])\<rparr>))))"

definition seclog_Close :: "log_env \<Rightarrow> logs \<Rightarrow> go_error option \<times> logs" where
  "seclog_Close env lg =
     (case seclog_logWriter lg of None \<Rightarrow> (None, lg)
      | Some i \<Rightarrow> (case LogWriter_Close env i lg of (Some err, lg1) \<Rightarrow> (Some (ErrWrap ''cannot close security log file'' err), lg1)
          | (None, lg1) \<Rightarrow> (None, lg1)))"

definition seclog_Reopen :: "log_env \<Rightarrow> logs \<Rightarrow> go_error option \<times> logs" where
  "seclog_Reopen env lg =
     (case seclog_logWriter lg of None \<Rightarrow> (None, lg)
      | Some i \<Rightarrow>
        (let lg1 = the (logger_Warningf env ''reopening security log file %s'' [ArgString (lw_Path (lg_writers lg ! i))] lg) in
         case LogWriter_Reopen env i lg1 of (Some err, lg2) \<Rightarrow> (Some (ErrWrap ''cannot reopen security log file'' err), lg2)
         | (None, lg2) \<Rightarrow> (None, lg2)))"

text \<open>The JSON handler: its attributes after renaming, and the line it writes when the level is enabled.\<close>

definition level_name :: "int \<Rightarrow> string" where
  "level_name lv = (if lv = LevelCritical then ''CRITICAL'' else if lv = LevelWarn then ''WARN'' else ''INFO'')"

definition secl_Log :: "log_env \<Rightarrow> int \<Rightarrow> string \<Rightarrow> (string \<times> string) list \<Rightarrow> logs \<Rightarrow> logs" where
  "secl_Log env lv msg attrs lg =
     (case secl lg of None \<Rightarrow> lg
      | Some (i, base) \<Rightarrow> if lv < LevelInfo then lg
          else snd (LogWriter_Write env i (le_json env ([(''datetime'', le_stamp env), (''level'', level_name lv), (''description'', msg)] @ base @ attrs) @ [CHR 0x0A]) lg))"

definition peer_attrs :: "EventData \<Rightarrow> (string \<times> string) list" where
  "peer_attrs ev = [(''host_ip'', ev_HostIP ev), (''client_ip'', ev_ClientIP ev), (''user_agent'', ev_Agent ev)]"

definition AuthnLoginSuccess :: "log_env \<Rightarrow> EventData \<Rightarrow> logs \<Rightarrow> logs" where
  "AuthnLoginSuccess env ev = secl_Log env LevelInfo (''User '' @ ev_User ev @ '' authentication successful'')
     ([(''event'', ''authn_login_success:'' @ ev_User ev)] @ peer_attrs ev @ [(''identity'', ev_Identity ev)])"

definition AuthnLoginFail :: "log_env \<Rightarrow> EventData \<Rightarrow> logs \<Rightarrow> logs" where
  "AuthnLoginFail env ev = secl_Log env LevelWarn (''User '' @ ev_User ev @ '' authentication failed'')
     ([(''event'', ''authn_login_fail:'' @ ev_User ev)] @ peer_attrs ev @ [(''request_url'', ev_RequestURL ev), (''reason'', ev_Reason ev)])"

definition AuthnTokenCreated :: "log_env \<Rightarrow> EventData \<Rightarrow> logs \<Rightarrow> logs" where
  "AuthnTokenCreated env ev = secl_Log env LevelInfo (''Access token issued for session '' @ ev_User ev)
     ([(''event'', ''authn_token_created:'' @ ev_User ev)] @ peer_attrs ev @ [(''identity'', ev_Identity ev), (''token_type'', ''FETCH_SERVICE_SESSION'')])"

definition AuthnTokenRevoked :: "log_env \<Rightarrow> EventData \<Rightarrow> logs \<Rightarrow> logs" where
  "AuthnTokenRevoked env ev = secl_Log env LevelInfo (''Access token revoked for session '' @ ev_User ev)
     ([(''event'', ''authn_token_revoked:'' @ ev_User ev)] @ peer_attrs ev @ [(''identity'', ev_Identity ev), (''reason'', ev_Reason ev)])"

definition AuthnTokenReuse :: "log_env \<Rightarrow> EventData \<Rightarrow> logs \<Rightarrow> logs" where
  "AuthnTokenReuse env ev = secl_Log env LevelCritical (''Attempt to use a revoked token for session '' @ ev_User ev)
     ([(''event'', ''authn_token_reuse:'' @ ev_User ev)] @ peer_attrs ev @ [(''identity'', ev_Identity ev), (''request_url'', ev_RequestURL ev)])"

definition AuthnTokenDelete :: "log_env \<Rightarrow> EventData \<Rightarrow> logs \<Rightarrow> logs" where
  "AuthnTokenDelete env ev = secl_Log env LevelInfo (''Access token deleted for session '' @ ev_User ev)
     ([(''event'', ''authn_token_delete:'' @ ev_User ev)] @ peer_attrs ev @ [(''identity'', ev_Identity ev), (''reason'', ev_Reason ev)])"

definition AuthzAdmin :: "log_env \<Rightarrow> EventData \<Rightarrow> string \<Rightarrow> logs \<Rightarrow> logs" where
  "AuthzAdmin env ev admEvent = secl_Log env LevelWarn (''Administrative command '' @ admEvent)
     ([(''event'', ''authz_admin:'' @ ev_User ev @ '', '' @ admEvent)] @ peer_attrs ev @ [(''identity'', ev_Identity ev)])"

definition SysStart :: "log_env \<Rightarrow> string \<Rightarrow> logs \<Rightarrow> logs" where
  "SysStart env policyMode = secl_Log env LevelInfo ''Fetch Service started successfully''
     [(''event'', ''sys_start''), (''version'', le_Version env), (''runtime_env'', RuntimeEnv (le_getenv env)), (''policy_mode'', policyMode)]"

definition SysShutdown :: "log_env \<Rightarrow> EventData \<Rightarrow> logs \<Rightarrow> logs" where
  "SysShutdown env ev = secl_Log env LevelInfo ''Fetch Service shutting down''
     [(''event'', ''sys_shutdown''), (''reason'', ev_Reason ev), (''runtime_env'', RuntimeEnv (le_getenv env))]"

definition SysCrash :: "log_env \<Rightarrow> string \<Rightarrow> string \<Rightarrow> string \<Rightarrow> logs \<Rightarrow> logs" where
  "SysCrash env crashEvent crashDesc stackTrace = secl_Log env LevelCritical crashDesc
     [(''event'', ''sys_crash:'' @ crashEvent), (''stack_trace'', stackTrace), (''go_version'', le_GoVersion env), (''runtime_env'', RuntimeEnv (le_getenv env))]"

end
