(* ===== verification/Fetch_Main.thy ===== *)
theory Fetch_Main
  imports Fetchctl Logs
begin

text \<open>
  \<^verbatim>\<open>cmd/fetch/main.go\<close>, and \<^verbatim>\<open>New\<close> and \<^verbatim>\<open>Start\<close> of \<^verbatim>\<open>service/service.go\<close>: how the program starts, waits and exits.

  Arguments (\<^theory_text>\<open>main_env\<close>) stand for the parser of the command line, the environment variables, the log files, the
  listening sockets of the servers and what stopping them yields. What the main loop receives is a list of
  events; \<^const>\<open>None\<close> means that it still waits after them. A channel that is closed stays ready: the
  profiler's event may be received any number of times. \<^verbatim>\<open>logger.Fatalf\<close> exits with status 1. The metrics of the
  profiler and the texts that are logged are not modelled.
\<close>

section \<open>Options\<close>

record CmdlineOptions =
  opt_Config :: string
  opt_Spool :: string
  opt_PermissiveMode :: bool
  opt_Version :: bool
  opt_CertPath :: string
  opt_KeyPath :: string
  opt_IdleShutdown :: int
  opt_LogFile :: string
  opt_SecLog :: string

definition SnapConfigDir :: "(string \<Rightarrow> string) \<Rightarrow> string" where "SnapConfigDir getenv = getenv ''SNAP_DATA'' @ ''/conf''"
definition SnapSpoolDir :: "(string \<Rightarrow> string) \<Rightarrow> string" where "SnapSpoolDir getenv = getenv ''SNAP_COMMON'' @ ''/spool''"
definition NonSnapConfigDir :: string where "NonSnapConfigDir = ''/etc/fetch''"
definition NonSnapSpoolDir :: string where "NonSnapSpoolDir = ''/var/lib/fetch''"

text \<open>\<^verbatim>\<open>os.ExpandEnv\<close> only meets the two constants, which are given expanded.\<close>

definition getOptionOrDefault :: "(string \<Rightarrow> string) \<Rightarrow> string \<Rightarrow> string \<Rightarrow> string \<Rightarrow> string" where
  "getOptionOrDefault getenv cmdlineValue snapDefault nonsnapDefault =
     (if cmdlineValue \<noteq> [] then cmdlineValue else if RunningFromSnap getenv then snapDefault else nonsnapDefault)"

definition getServiceOptions :: "(string \<Rightarrow> string) \<Rightarrow> CmdlineOptions \<Rightarrow> Options" where
  "getServiceOptions getenv opts =
     \<lparr>o_Config = getOptionOrDefault getenv (opt_Config opts) (SnapConfigDir getenv) NonSnapConfigDir,
      o_Spool = getOptionOrDefault getenv (opt_Spool opts) (SnapSpoolDir getenv) NonSnapSpoolDir,
      o_PermissiveMode = opt_PermissiveMode opts, o_KeyPath = opt_KeyPath opts, o_CertPath = opt_CertPath opts,
      o_IdleShutdown = opt_IdleShutdown opts\<rparr>"

definition policyMode :: "CmdlineOptions \<Rightarrow> string" where
  "policyMode opts = (if opt_PermissiveMode opts then ''permissive-allowed'' else ''strict-only'')"

section \<open>Start of the service (service.go)\<close>

record 'c main_env =
  me_parse :: "string list \<Rightarrow> CmdlineOptions result"
  me_getenv :: "string \<Rightarrow> string"
  me_log :: "string \<Rightarrow> go_error option"
  me_seclog :: "string \<Rightarrow> go_error option"
  me_os :: os_faults
  me_yaml :: yaml_codec
  me_tls :: "'c tls_lib"
  me_listen_proxy :: "go_error option"
  me_listen_ctl :: "go_error option"
  me_stop :: "go_error option"
  me_SignalName :: "nat \<Rightarrow> string"

text \<open>\<^verbatim>\<open>NewHTTPProxy\<close>, as far as it can fail: the certificate authority.\<close>

definition NewHTTPProxy_ca :: "'c tls_lib \<Rightarrow> string \<Rightarrow> string \<Rightarrow> 'c goproxy_vars \<Rightarrow> go_error option \<times> 'c goproxy_vars" where
  "NewHTTPProxy_ca lib cert key vars =
     (case CreateProxyCA lib cert key of Inl err \<Rightarrow> (Some err, vars) | Inr ca \<Rightarrow> SetProxyCA ca vars)"

definition service_New :: "'c main_env \<Rightarrow> Options \<Rightarrow> 'c cert_state \<Rightarrow> go_error option \<times> 'c cert_state" where
  "service_New env opt st =
     (case st of (vars, fs) \<Rightarrow>
        (case LoadCertificate (me_os env) (o_CertPath opt) (o_KeyPath opt) fs of
           Inl err \<Rightarrow> (Some (Errorf (''Cannot load certificates: '' @ err_Error err)), st)
         | Inr (cert, key) \<Rightarrow> (case NewHTTPProxy_ca (me_tls env) cert key vars of (e, vars') \<Rightarrow> (e, vars', fs))))"

definition service_Start :: "'c main_env \<Rightarrow> Options \<Rightarrow> filesys \<Rightarrow> config_state \<Rightarrow> go_error option \<times> config_state" where
  "service_Start env opt fs cfg =
     (case loadHTTPProxyRulesOrDefault (me_os env) (me_yaml env) (me_getenv env) fs (o_Config opt) cfg of
        (Some err, cfg1) \<Rightarrow> (Some (Errorf (''cannot load proxy rules: '' @ err_Error err)), cfg1)
      | (None, cfg1) \<Rightarrow>
        (case loadDefaultInspectorsConfigCombine (me_os env) (me_yaml env) (me_getenv env) fs (o_Config opt) cfg1 of
           (Some err, cfg2) \<Rightarrow> (Some (Errorf (''cannot load inspectors configuration: '' @ err_Error err)), cfg2)
         | (None, cfg2) \<Rightarrow>
           (case me_listen_proxy env of Some err \<Rightarrow> (Some err, cfg2)
            | None \<Rightarrow> (case me_listen_ctl env of Some err \<Rightarrow> (Some err, cfg2) | None \<Rightarrow> (None, cfg2)))))"

section \<open>The main loop\<close>

datatype main_event = SIGUSR1 | SysSignal nat | OtherSignal string | ServiceDying "go_error option" | ProfilerDying go_error

fun main_loop :: "(nat \<Rightarrow> string) \<Rightarrow> int \<times> string \<Rightarrow> main_event list \<Rightarrow> (int \<times> string) option" where
  "main_loop names st [] = None"
| "main_loop names st (SIGUSR1 # evs) = main_loop names st evs"
| "main_loop names st (SysSignal n # evs) = Some (128 + int n, names n @ '' received'')"
| "main_loop names st (OtherSignal s # evs) = Some (128, s)"
| "main_loop names (status, reason) (ServiceDying (Some err) # evs) = Some (2, ''Server error: '' @ err_Error err)"
| "main_loop names (status, reason) (ServiceDying None # evs) = Some (status, ''Server stopped'')"
| "main_loop names (status, reason) (ProfilerDying err # evs) = main_loop names (3, ''Profiling error: '' @ err_Error err) evs"

text \<open>\<^verbatim>\<open>Run\<close>: the exit status, from the arguments, the certificate and the configuration on disk, and the events.\<close>

definition Run :: "'c main_env \<Rightarrow> string list \<Rightarrow> 'c cert_state \<Rightarrow> config_state \<Rightarrow> main_event list \<Rightarrow> int option" where
  "Run env args st cfg evs =
     (case me_parse env args of Inl _ \<Rightarrow> Some 1
      | Inr opts \<Rightarrow>
        (if opt_Version opts then Some 0
         else if me_log env (opt_LogFile opts) \<noteq> None then Some 1
         else if opt_SecLog opts \<noteq> [] \<and> me_seclog env (opt_SecLog opts) \<noteq> None then Some 1
         else (let opt = getServiceOptions (me_getenv env) opts in
           case service_New env opt st of (Some _, _) \<Rightarrow> Some 1
           | (None, st') \<Rightarrow>
             (case service_Start env opt (snd st') cfg of (Some _, _) \<Rightarrow> Some 1
              | (None, _) \<Rightarrow>
                (case main_loop (me_SignalName env) (0, []) evs of None \<Rightarrow> None
                 | Some (status, _) \<Rightarrow> Some (if me_stop env = None then status else 1))))))"

section \<open>Crashes\<close>

datatype panic_value = RuntimeError string | ErrorValue string | OtherValue string

definition strings_Contains :: "string \<Rightarrow> string \<Rightarrow> bool" where
  "strings_Contains s sub \<longleftrightarrow> list_ex (\<lambda>n. take (length sub) (drop n s) = sub) [0..<Suc (length s)]"

text \<open>The event and the description that \<^verbatim>\<open>main\<close> logs for a panic of its own goroutine; it then exits with status 2.\<close>

fun crash_event :: "panic_value \<Rightarrow> string \<times> string" where
  "crash_event (RuntimeError msg) =
     (if strings_Contains msg ''nil pointer dereference'' then ''nil_pointer_dereference''
      else if strings_Contains msg ''out of range'' then ''index_out_of_bounds'' else ''runtime_error'', msg)"
| "crash_event (ErrorValue msg) = (''panic'', msg)"
| "crash_event (OtherValue msg) = (''other'', msg)"

definition crash_exit :: "log_env \<Rightarrow> panic_value \<Rightarrow> string \<Rightarrow> logs \<Rightarrow> int \<times> logs" where
  "crash_exit env v stack lg = (case crash_event v of (event, description) \<Rightarrow> (2, SysCrash env event description stack lg))"

section \<open>Starting again\<close>

text \<open>
  C33. A certificate that is updated is the one the next start serves. When the service reports an update that
  is not a trial as done, the proxy uses the certificate of the request at once; and a service that starts
  with the same options on the files left behind, and that can read the two files, starts with the same
  certificate, whatever it had before.
\<close>

theorem updated_certificate_survives_restart:
  assumes "handleFetchCtl env now v svc = (r, svc')" and "fc_Operation v = ''update-cert''" and "\<not> fc_ValidateOnly v" and "fr_Status r = ''ok''"
    and "apart (o_CertPath (svc_opt svc)) (o_KeyPath (svc_opt svc))"
    and "me_tls menv = sv_tls env" and "fa_open (me_os menv) (o_CertPath (svc_opt svc)) = None" and "fa_open (me_os menv) (o_KeyPath (svc_opt svc)) = None"
  shows "(\<exists>cert key ca. splitCertKey (fc_Payload v) = Inr (cert, key) \<and> CreateProxyCA (sv_tls env) cert key = Inr ca \<and> serves_ca ca (svc_ca svc')) \<and>
    service_New menv (svc_opt svc') (vars, g_fs (svc_g svc')) = (None, svc_ca svc', g_fs (svc_g svc'))"
proof -
  let ?c = "o_CertPath (svc_opt svc)" let ?k = "o_KeyPath (svc_opt svc)"
  have upd: "UpdateCert (sv_tls env) (env_os (sv_session env)) False (fc_Payload v) ?c ?k (svc_ca svc, g_fs (svc_g svc)) = (None, svc_ca svc', g_fs (svc_g svc'))"
    and opt: "svc_opt svc' = svc_opt svc"
    using assms(1-4) by (auto simp: handleFetchCtl_def fetchCtlUpdateCert_def Let_def fetchctl_error_def split: prod.splits option.splits)
  from UpdateCert_ok [OF upd assms(5,7,8)] obtain cert key ca where x: "splitCertKey (fc_Payload v) = Inr (cert, key)"
    "LoadCertificate (me_os menv) ?c ?k (g_fs (svc_g svc')) = Inr (cert, key)" "CreateProxyCA (sv_tls env) cert key = Inr ca" "serves_ca ca (svc_ca svc')"
    by blast
  then have "snd (SetProxyCA ca vars) = svc_ca svc'" by (cases vars) (auto simp: SetProxyCA_def serves_ca_def)
  then have "service_New menv (svc_opt svc') (vars, g_fs (svc_g svc')) = (None, svc_ca svc', g_fs (svc_g svc'))"
    using x(2,3) assms(6) opt by (simp add: service_New_def NewHTTPProxy_ca_def SetProxyCA_def)
  with x show ?thesis by blast
qed

definition sample_main_env :: "tls_Certificate main_env" where
  "sample_main_env = \<lparr>me_parse = (\<lambda>_. Inl (Errorf ''usage'')), me_getenv = (\<lambda>_. []), me_log = (\<lambda>_. None), me_seclog = (\<lambda>_. None), me_os = no_faults,
     me_yaml = strict_yaml, me_tls = text_pairs, me_listen_proxy = None, me_listen_ctl = None, me_stop = None, me_SignalName = (\<lambda>_. ''SIG'')\<rparr>"

definition cert_service :: Service where
  "cert_service = ctl_service\<lparr>svc_g := empty_gstate\<lparr>g_fs := cert_files\<rparr>, svc_opt := (svc_opt ctl_service)\<lparr>o_CertPath := ''/d/c'', o_KeyPath := ''/d/k''\<rparr>\<rparr>"

definition cert_request :: FetchCtl where
  "cert_request = \<lparr>fc_Operation = ''update-cert'', fc_Type = [], fc_ValidateOnly = False, fc_Payload = new_payload\<rparr>"

lemma sample_requests:
  "fc_Operation cert_request = ''update-cert''" "fc_ValidateOnly cert_request = False" "fr_Status (fetchctl_ok m) = ''ok''"
  "sv_tls ctl_service_env = text_pairs" "me_tls sample_main_env = text_pairs" "fa_open (me_os sample_main_env) p = None"
  by (simp_all add: cert_request_def fetchctl_ok_def ctl_service_env_def sample_main_env_def no_faults_def)

theorem updated_certificate_survives_restart_witness:
  "\<exists>svc'. handleFetchCtl ctl_service_env 5 cert_request cert_service = (fetchctl_ok ''proxy certificate updated'', svc') \<and>
     serves_ca (''C'', ''K'') (svc_ca svc') \<and>
     service_New sample_main_env (svc_opt svc') (old_vars, g_fs (svc_g svc')) = (None, svc_ca svc', g_fs (svc_g svc'))"
proof -
  let ?r = "handleFetchCtl ctl_service_env 5 cert_request cert_service"
  have ok: "fst ?r = fetchctl_ok ''proxy certificate updated''" by code_simp
  obtain r svc' where run: "?r = (r, svc')" by fastforce
  have "apart (o_CertPath (svc_opt cert_service)) (o_KeyPath (svc_opt cert_service))"
    by (simp add: apart_def cert_service_def)
  from updated_certificate_survives_restart [OF run _ _ _ this, of sample_main_env old_vars] ok run
  have x: "\<exists>cert key ca. splitCertKey (fc_Payload cert_request) = Inr (cert, key) \<and> CreateProxyCA (sv_tls ctl_service_env) cert key = Inr ca \<and> serves_ca ca (svc_ca svc')"
    and new: "service_New sample_main_env (svc_opt svc') (old_vars, g_fs (svc_g svc')) = (None, svc_ca svc', g_fs (svc_g svc'))"
    by (simp_all add: sample_requests)
  have "splitCertKey (fc_Payload cert_request) = Inr (''C'', ''K'')" by code_simp
  with x have "serves_ca (''C'', ''K'') (svc_ca svc')" by (auto simp: CreateProxyCA_def text_pairs_def sample_requests)
  with new ok run show ?thesis by auto
qed

section \<open>The exit status\<close>

text \<open>The events after which the loop goes on.\<close>

fun pauses :: "main_event \<Rightarrow> bool" where
  "pauses SIGUSR1 = True" | "pauses (ProfilerDying err) = True" | "pauses _ = False"

text \<open>The status so far: 3 as soon as the profiler has died.\<close>

definition status_after :: "main_event list \<Rightarrow> int" where
  "status_after evs = (if list_ex (\<lambda>e. case e of ProfilerDying _ \<Rightarrow> True | _ \<Rightarrow> False) evs then 3 else 0)"

fun exit_status :: "int \<Rightarrow> main_event \<Rightarrow> int" where
  "exit_status status (SysSignal n) = 128 + int n"
| "exit_status status (ServiceDying (Some err)) = 2"
| "exit_status status (ServiceDying None) = status"
| "exit_status status _ = 128"

lemma main_loop_pauses: "list_all pauses evs \<Longrightarrow> main_loop names st evs = None"
  by (induction names st evs rule: main_loop.induct) auto

lemma main_loop_first:
  "\<lbrakk>list_all pauses pre; \<not> pauses e\<rbrakk> \<Longrightarrow> map_option fst (main_loop names st (pre @ e # post)) =
    Some (exit_status (if status_after pre = 3 then 3 else fst st) e)"
proof (induction pre arbitrary: st)
  case Nil
  then show ?case by (cases st; cases "(names, st, e # post)" rule: main_loop.cases) (auto simp: status_after_def)
next
  case (Cons p pre)
  then show ?case
  proof (cases p)
    case (ProfilerDying err)
    then show ?thesis using Cons.prems Cons.IH [of "(3, ''Profiling error: '' @ err_Error err)"]
      by (cases st) (simp add: status_after_def split: if_splits)
  qed (use Cons.prems Cons.IH [of st] in \<open>auto simp: status_after_def\<close>)
qed

text \<open>
  What decides the exit status of the loop. Signals to reopen the logs and the death of the profiler leave it
  running; the first other event ends it. A signal gives 128 plus its number and a failure of the service 2;
  only when the service stops without a failure does an earlier death of the profiler show, as 3.
\<close>

theorem main_exit_status:
  "map_option fst (main_loop names (0, []) evs) =
    (case dropWhile pauses evs of [] \<Rightarrow> None | e # _ \<Rightarrow> Some (exit_status (status_after (takeWhile pauses evs)) e))"
proof (cases "dropWhile pauses evs")
  case Nil
  then have "list_all pauses evs" by (simp add: list_all_iff)
  then show ?thesis by (simp only: main_loop_pauses Nil list.case option.map)
next
  case (Cons e post)
  have split: "evs = takeWhile pauses evs @ e # post" using Cons by (metis takeWhile_dropWhile_id)
  have "\<not> pauses e" using Cons by (metis hd_dropWhile list.sel(1) list.simps(3))
  moreover have "list_all pauses (takeWhile pauses evs)" by (auto simp: list_all_iff dest: set_takeWhileD)
  ultimately have "map_option fst (main_loop names (0, []) (takeWhile pauses evs @ e # post)) =
      Some (exit_status (if status_after (takeWhile pauses evs) = 3 then 3 else 0) e)"
    using main_loop_first [where st = "(0, [])", unfolded fst_conv] by simp
  then show ?thesis using Cons split by (auto simp: status_after_def split: if_splits)
qed

text \<open>
  The death of the profiler does not end the program: its channel is closed and stays ready, and however
  often the loop receives from it, it goes on.
\<close>

theorem profiler_death_spins: "main_loop names st (replicate n (ProfilerDying err)) = None"
  by (rule main_loop_pauses) (simp add: list_all_iff)

end
