(* ===== verification/Logs_Props.thy ===== *)
theory Logs_Props
  imports Logs
begin

text \<open>
  Properties of the logs: a rotated log loses no line, security events are recorded by the writer that
  \<^verbatim>\<open>Init\<close> opened, and what the prefix of a session logger does to a format.
\<close>

section \<open>Rotation\<close>

text \<open>
  What happens to a log file while the service writes it: a line is written, another program renames the file,
  and the service is told to reopen it, which the system may refuse.
\<close>

datatype log_event = LogLine string | RotateTo string | ReopenSignal "go_error option"

definition rename_file :: "string \<Rightarrow> string \<Rightarrow> logs \<Rightarrow> logs" where
  "rename_file old new lg =
     (case map_get (lg_dir lg) old of None \<Rightarrow> lg | Some n \<Rightarrow> lg\<lparr>lg_dir := map_set new n (map_del old (lg_dir lg))\<rparr>)"

fun log_event_step :: "log_env \<Rightarrow> nat \<Rightarrow> log_event \<Rightarrow> logs \<Rightarrow> logs" where
  "log_event_step env i (LogLine p) lg = snd (LogWriter_Write env i p lg)"
| "log_event_step env i (RotateTo q) lg = rename_file (lw_Path (lg_writers lg ! i)) q lg"
| "log_event_step env i (ReopenSignal e) lg = snd (LogWriter_Reopen (env\<lparr>le_open := \<lambda>_. e\<rparr>) i lg)"

fun event_line :: "log_event \<Rightarrow> string" where
  "event_line (LogLine p) = p"
| "event_line _ = []"

text \<open>The writer has the newest file open; the path of the log names this file or none; every file has a name.\<close>

definition writes_newest :: "nat \<Rightarrow> string \<Rightarrow> logs \<Rightarrow> bool" where
  "writes_newest i path lg \<longleftrightarrow> i < length (lg_writers lg) \<and> path \<noteq> [] \<and> lg_inodes lg \<noteq> [] \<and>
     lg_writers lg ! i = \<lparr>lw_Path = path, lw_file = Some \<lparr>hd_file = Inode (length (lg_inodes lg) - 1), hd_closed = False\<rparr>\<rparr> \<and>
     map_get (lg_dir lg) path \<in> {None, Some (length (lg_inodes lg) - 1)}"

definition all_named :: "logs \<Rightarrow> bool" where
  "all_named lg \<longleftrightarrow> (\<forall>n < length (lg_inodes lg). \<exists>q. map_get (lg_dir lg) q = Some n)"

text \<open>A rotation gives the file a name that is not in use.\<close>

fun fresh_name :: "log_event \<Rightarrow> logs \<Rightarrow> string \<Rightarrow> bool" where
  "fresh_name (RotateTo q) lg path \<longleftrightarrow> q \<noteq> path \<and> map_get (lg_dir lg) q = None"
| "fresh_name _ lg path \<longleftrightarrow> True"

fun fresh_names :: "log_env \<Rightarrow> nat \<Rightarrow> log_event list \<Rightarrow> logs \<Rightarrow> string \<Rightarrow> bool" where
  "fresh_names env i [] lg path \<longleftrightarrow> True"
| "fresh_names env i (e # es) lg path \<longleftrightarrow> fresh_name e lg path \<and> fresh_names env i es (log_event_step env i e lg) path"

lemma concat_append_last: "xs \<noteq> [] \<Longrightarrow> concat (xs[length xs - Suc 0 := xs ! (length xs - Suc 0) @ p]) = concat xs @ p"
  by (cases xs rule: rev_cases) (auto simp: list_update_append)

lemma log_event_step_keeps:
  assumes "writes_newest i path lg" and "all_named lg" and "fresh_name e lg path" and "le_write env = None"
  shows "writes_newest i path (log_event_step env i e lg) \<and> all_named (log_event_step env i e lg) \<and>
    concat (lg_inodes (log_event_step env i e lg)) = concat (lg_inodes lg) @ event_line e"
proof (cases e)
  case (LogLine p)
  with assms show ?thesis
    by (simp add: writes_newest_def all_named_def LogWriter_Write_def file_Write_def concat_append_last)
next
  case (RotateTo q)
  have path: "lw_Path (lg_writers lg ! i) = path" using assms(1) by (simp add: writes_newest_def)
  show ?thesis
  proof (cases "map_get (lg_dir lg) path")
    case (Some n)
    have "all_named (rename_file path q lg)"
      unfolding all_named_def
    proof (intro allI impI)
      fix k assume "k < length (lg_inodes (rename_file path q lg))"
      then obtain q' where "map_get (lg_dir lg) q' = Some k" using assms(2) Some by (auto simp: all_named_def rename_file_def)
      then have "map_get (lg_dir (rename_file path q lg)) (if q' = path then q else q') = Some k"
        using Some assms(3) RotateTo by (auto simp: rename_file_def)
      then show "\<exists>r. map_get (lg_dir (rename_file path q lg)) r = Some k" by blast
    qed
    with Some path RotateTo assms show ?thesis by (simp add: writes_newest_def rename_file_def)
  qed (use assms path RotateTo in \<open>simp add: rename_file_def\<close>)
next
  case (ReopenSignal f)
  show ?thesis
  proof (cases "f = None \<and> map_get (lg_dir lg) path = None")
    case True
    have "\<exists>q. q \<noteq> path \<and> map_get (lg_dir lg) q = Some n" if "n < length (lg_inodes lg)" for n
      using assms(2) that True by (auto simp: all_named_def) (metis option.distinct(1))
    with True ReopenSignal assms show ?thesis
      by (auto simp: writes_newest_def all_named_def LogWriter_Reopen_def open_append_def upd_writer_def Let_def less_Suc_eq)
  next
    case False
    with ReopenSignal assms show ?thesis
      by (cases f) (auto simp: writes_newest_def all_named_def LogWriter_Reopen_def open_append_def upd_writer_def Let_def list_update_same_conv)
  qed
qed

text \<open>
  C34. A rotated log loses no line. However often another program renames the log file, to names not in use, and
  the service is told to reopen it, successfully or not, and whatever lines are written in between: the files
  together hold what they held before and then every line, in the order they were written, and every file has
  a name.
\<close>

theorem log_rotation_keeps_every_line:
  assumes "writes_newest i path lg" and "all_named lg" and "fresh_names env i es lg path" and "le_write env = None"
  shows "concat (lg_inodes (fold (log_event_step env i) es lg)) = concat (lg_inodes lg) @ concat (map event_line es) \<and>
    all_named (fold (log_event_step env i) es lg)"
  using assms
proof (induction es arbitrary: lg)
  case (Cons e es)
  with log_event_step_keeps [OF Cons.prems(1,2) _ Cons.prems(4), of e] show ?case by simp
qed simp

section \<open>Security events\<close>

definition sec_log_open :: "nat \<Rightarrow> nat \<Rightarrow> logs \<Rightarrow> bool" where
  "sec_log_open i n lg \<longleftrightarrow> (\<exists>base. secl lg = Some (i, base)) \<and> i < length (lg_writers lg) \<and> n < length (lg_inodes lg) \<and>
     lw_file (lg_writers lg ! i) = Some \<lparr>hd_file = Inode n, hd_closed = False\<rparr>"

lemma secl_Log_appends:
  assumes "sec_log_open i n lg" and "le_write env = None" and "LevelInfo \<le> lv"
  shows "\<exists>base. secl lg = Some (i, base) \<and> lg_inodes (secl_Log env lv msg attrs lg) ! n = lg_inodes lg ! n @
      le_json env ([(''datetime'', le_stamp env), (''level'', level_name lv), (''description'', msg)] @ base @ attrs) @ [CHR 0x0A]"
  using assms by (auto simp: sec_log_open_def secl_Log_def LogWriter_Write_def file_Write_def)

text \<open>
  An attempt to use a revoked token is recorded as critical: once the security log is open, it is one more
  line of its file, with the session in the event. Before \<^verbatim>\<open>Init\<close> nothing is recorded.
\<close>

theorem token_reuse_is_recorded:
  assumes "sec_log_open i n lg" and "le_write env = None"
  shows "\<exists>base attrs. lg_inodes (AuthnTokenReuse env ev lg) ! n = lg_inodes lg ! n @
      le_json env ([(''datetime'', le_stamp env), (''level'', ''CRITICAL''), (''description'', ''Attempt to use a revoked token for session '' @ ev_User ev)]
        @ base @ (''event'', ''authn_token_reuse:'' @ ev_User ev) # attrs) @ [CHR 0x0A]"
proof -
  have "level_name LevelCritical = ''CRITICAL''" "LevelInfo \<le> LevelCritical"
    by (simp_all add: level_name_def LevelCritical_def LevelInfo_def)
  with secl_Log_appends [OF assms this(2)] show ?thesis unfolding AuthnTokenReuse_def append_Cons append_Nil by metis
qed

theorem seclog_Init_opens:
  assumes "seclog_Init env path lg = (None, lg')" and "path \<noteq> []" and "\<forall>q n. map_get (lg_dir lg) q = Some n \<longrightarrow> n < length (lg_inodes lg)"
  shows "\<exists>i n. sec_log_open i n lg' \<and> map_get (lg_dir lg') path = Some n"
  using assms
  by (auto simp: seclog_Init_def new_writer_def LogWriter_Reopen_def open_append_def upd_writer_def sec_log_open_def Let_def
      split: option.splits sum.splits)

section \<open>Session loggers\<close>

lemma Sprintf_Cons: "c \<noteq> CHR ''%'' \<Longrightarrow> fmt_Sprintf (c # s) args = map_option (Cons c) (fmt_Sprintf s args)"
  by (cases s) simp_all

lemma Sprintf_plain: "CHR ''%'' \<notin> set p \<Longrightarrow> fmt_Sprintf (p @ s) args = map_option ((@) p) (fmt_Sprintf s args)"
  by (induction p; cases "fmt_Sprintf s args") (auto simp: Sprintf_Cons)

text \<open>
  A session logger puts the identifier of the session before the text, as long as the identifier has no percent
  sign, as the identifiers that the service makes.
\<close>

theorem session_lines_are_prefixed:
  assumes "CHR ''%'' \<notin> set sid" and "fmt_Sprintf format v = Some s" and "atLeastLogLevel InfoLevel lg"
  shows "SessionLogger_Infof env (NewSessionLogger sid) format v lg = Some (log_Output env (InfoPrefix @ ''['' @ sid @ ''] '' @ s) lg)"
proof -
  have "CHR ''%'' \<notin> set (sessionFormat sid)" using assms(1) by (simp add: sessionFormat_def)
  from Sprintf_plain [OF this] assms(2,3) show ?thesis
    by (simp add: SessionLogger_Infof_def NewSessionLogger_def logger_Infof_def sessionFormat_def)
qed

text \<open>
  An identifier given through fetchctl is not checked: in one with a percent sign a verb takes the arguments
  of the message.
\<close>

theorem percent_in_session_id_takes_argument:
  assumes "atLeastLogLevel InfoLevel lg"
  shows "SessionLogger_Infof env (NewSessionLogger ''%s'') ''%s'' [ArgString a] lg = Some (log_Output env (InfoPrefix @ ''['' @ a @ ''] %!s(MISSING)'') lg)"
  using assms by (simp add: SessionLogger_Infof_def NewSessionLogger_def logger_Infof_def sessionFormat_def extra_args_def)

section \<open>Peers\<close>

text \<open>The address that is logged for a client is the one that its host and port were joined from.\<close>

theorem client_ip_of_joined:
  assumes "CHR ''['' \<notin> set ip" and "CHR '']'' \<notin> set ip" and "set port \<inter> set '':[]'' = {}"
  shows "ClientIP (''['' @ ip @ '']:'' @ port) = ip" and "CHR '':'' \<notin> set ip \<Longrightarrow> ip \<noteq> [] \<Longrightarrow> ClientIP (ip @ '':'' @ port) = ip"
proof -
  have port: "takeWhile (\<lambda>c. c \<noteq> CHR '':'') (rev port @ CHR '':'' # r) = rev port" for r
    using assms(3) by (subst takeWhile_append2) auto
  have stop: "takeWhile (\<lambda>c. c \<noteq> CHR '']'') (ip @ CHR '']'' # r) = ip" for r
    using assms(2) by (subst takeWhile_append2) auto
  show "ClientIP (''['' @ ip @ '']:'' @ port) = ip"
    using assms port [of "CHR '']'' # rev ip @ [CHR ''['']"] stop [of "CHR '':'' # port"] by (simp add: ClientIP_def SplitHostPort_def Let_def)
  show "ClientIP (ip @ '':'' @ port) = ip" if "CHR '':'' \<notin> set ip" "ip \<noteq> []"
  proof -
    have "hd ip \<noteq> CHR ''[''" using assms(1) hd_in_set [OF that(2)] by metis
    then show ?thesis using that assms port [of "rev ip"] by (auto simp: ClientIP_def SplitHostPort_def Let_def)
  qed
qed

section \<open>A sample\<close>

definition rotated_logs :: logs where
  "rotated_logs = \<lparr>lg_inodes = [''a;''], lg_dir = [(''/log'', 0)], lg_stdout = [], lg_writers = [\<lparr>lw_Path = ''/log'', lw_file = Some \<lparr>hd_file = Inode 0, hd_closed = False\<rparr>\<rparr>],
     logLevel = InfoLevel, logWriter = Some 0, log_output = LogTo 0, seclog_logWriter = None, secl = None\<rparr>"

definition sample_log_env :: log_env where
  "sample_log_env = \<lparr>le_open = \<lambda>_. None, le_write = None, le_close = None, le_stamp = [], le_Hostname = Inr ''h'', le_Version = ''1'', le_GoVersion = ''go'',
     le_getenv = (\<lambda>_. []), le_json = (\<lambda>_. [])\<rparr>"

definition rotation :: "log_event list" where
  "rotation = [LogLine ''b;'', RotateTo ''/log.1'', LogLine ''c;'', ReopenSignal (Some (Errorf ''EACCES'')), LogLine ''d;'', ReopenSignal None, LogLine ''e;'']"

theorem log_rotation_keeps_every_line_witness:
  "lg_inodes (fold (log_event_step sample_log_env 0) rotation rotated_logs) = [''a;b;c;d;'', ''e;''] \<and>
   concat (lg_inodes (fold (log_event_step sample_log_env 0) rotation rotated_logs)) = ''a;b;c;d;e;''"
proof -
  have "writes_newest 0 ''/log'' rotated_logs" "all_named rotated_logs" "le_write sample_log_env = None"
    by (auto simp: writes_newest_def all_named_def rotated_logs_def sample_log_env_def)
  moreover have "fresh_names sample_log_env 0 rotation rotated_logs ''/log''" by code_simp
  ultimately have "concat (lg_inodes (fold (log_event_step sample_log_env 0) rotation rotated_logs)) = concat (lg_inodes rotated_logs) @ concat (map event_line rotation)"
    using log_rotation_keeps_every_line by blast
  moreover have "concat (lg_inodes rotated_logs) @ concat (map event_line rotation) = ''a;b;c;d;e;''" by code_simp
  moreover have "lg_inodes (fold (log_event_step sample_log_env 0) rotation rotated_logs) = [''a;b;c;d;'', ''e;'']" by code_simp
  ultimately show ?thesis by simp
qed

end
