(* ===== verification/Apt_Config.thy ===== *)
theory Apt_Config
  imports Regex Go_Text Config
begin

text \<open>
  \<^verbatim>\<open>inspectors/apt/config/config.go\<close>: which addresses belong to a configured APT repository, and what
  they name. The repositories are visited in the order of the configuration map, which in Go is
  not fixed. The texts of the errors are never read by the callers, which only ask whether there
  is one, and leave out the address.
\<close>

section \<open>Allowed repositories, suites and components\<close>

type_synonym AptInspectorConfig = "(string, AptInspectorConfigRepository) gomap"

fun any_match :: "Glob list \<Rightarrow> string \<Rightarrow> bool" where
  "any_match [] s = False"
| "any_match (pattern # rest) s = (if Glob_Match pattern s then True else any_match rest s)"

fun repositoryIsAllowed :: "AptInspectorConfig \<Rightarrow> string \<Rightarrow> string option" where
  "repositoryIsAllowed [] repo = None"
| "repositoryIsAllowed ((name, r) # rest) repo =
     (if any_match (repo_URLs r) repo then Some name else repositoryIsAllowed rest repo)"

definition suiteIsAllowed :: "AptInspectorConfig \<Rightarrow> string \<Rightarrow> string \<Rightarrow> bool" where
  "suiteIsAllowed cfg name suite = (case map_get cfg name of None \<Rightarrow> False | Some r \<Rightarrow> any_match (repo_Suites r) suite)"

definition componentIsAllowed :: "AptInspectorConfig \<Rightarrow> string \<Rightarrow> string \<Rightarrow> bool" where
  "componentIsAllowed cfg name component =
     (case map_get cfg name of None \<Rightarrow> False | Some r \<Rightarrow> any_match (repo_Components r) component)"

text \<open>\<^verbatim>\<open>slices.Index\<close>.\<close>

fun slices_Index :: "string list \<Rightarrow> string \<Rightarrow> nat option" where
  "slices_Index [] x = None"
| "slices_Index (y # ys) x = (if y = x then Some 0 else map_option Suc (slices_Index ys x))"

definition checkRepositoryAndSuite :: "AptInspectorConfig \<Rightarrow> url \<Rightarrow> (string \<times> string \<times> string) result" where
  "checkRepositoryAndSuite cfg u =
     (let origin = NormalizedOrigin u; parts = strings_Split (u_Path u) CHR ''/'' in
      case slices_Index parts ''dists'' of
        None \<Rightarrow> Inl (Errorf ''invalid repository URL'')
      | Some pos \<Rightarrow>
        (if length parts \<le> pos + 2 then Inl (Errorf ''invalid repository URL'')
         else (let suite = parts ! (pos + 1); repo = origin @ strings_Join (take pos parts) ''/'' in
           case repositoryIsAllowed cfg repo of
             None \<Rightarrow> Inl (Errorf (''invalid repository: '' @ repo))
           | Some repoCfgName \<Rightarrow>
             (if \<not> suiteIsAllowed cfg repoCfgName suite then Inl (Errorf (''invalid series: '' @ suite))
              else Inr (repoCfgName, repo, suite)))))"

definition checkComponent :: "AptInspectorConfig \<Rightarrow> string \<Rightarrow> url \<Rightarrow> string result" where
  "checkComponent cfg name u =
     (let parts = strings_Split (u_Path u) CHR ''/'' in
      case slices_Index parts ''dists'' of
        None \<Rightarrow> Inl (Errorf ''invalid repository URL'')
      | Some pos \<Rightarrow>
        (if length parts \<le> pos + 3 then Inl (Errorf ''invalid repository URL'')
         else (let component = parts ! (pos + 2) in
           if \<not> componentIsAllowed cfg name component then Inl (Errorf (''invalid component: '' @ component))
           else Inr component)))"

section \<open>Patterns\<close>

definition word_dash :: rx where "word_dash = rx_plus (Cls (\<lambda>c. is_word c \<or> c = CHR ''-''))"

definition sha256_hex :: rx where "sha256_hex = rx_times 64 (Cls is_hex)"

text \<open>The pattern \<^verbatim>\<open>/[\w-]+/dists/[\w-]+/[\w-]+\<close> that several paths start with.\<close>

definition dists_path :: "rx list" where
  "dists_path = [lit ''/'', word_dash, lit ''/dists/'', word_dash, lit ''/'', word_dash]"

definition reInRelease :: rx where
  "reInRelease = rx_seq [lit ''/'', word_dash, lit ''/dists/'', Grp word_dash, lit ''/InRelease'']"

definition rePackagesByHash :: rx where
  "rePackagesByHash = rx_seq (dists_path @ [lit ''/binary-'', Grp (rx_plus (Cls is_word)), lit ''/by-hash/SHA256/'', Grp sha256_hex])"

definition rePackagesGz :: rx where
  "rePackagesGz = rx_seq (dists_path @ [lit ''/binary-'', Grp (rx_plus (Cls is_word)), lit ''/Packages'', any_char, lit ''gz''])"

definition reTranslation :: rx where
  "reTranslation = rx_seq (dists_path @ [lit ''/i18n/Translation-'', rx_plus (Cls (\<lambda>c. is_word c \<or> c = CHR ''.'' \<or> c = CHR ''-''))])"

definition reTranslationByHash :: rx where
  "reTranslationByHash = rx_seq (dists_path @ [lit ''/i18n/by-hash/SHA256/'', Grp sha256_hex])"

definition reCommands :: rx where
  "reCommands = rx_seq (dists_path @ [lit ''/cnf/Commands-'', rx_plus (Cls (\<lambda>c. c = CHR ''.'' \<or> is_word c \<or> c = CHR ''-''))])"

definition reCommandsByHash :: rx where
  "reCommandsByHash = rx_seq (dists_path @ [lit ''/cnf/by-hash/SHA256/'', Grp sha256_hex])"

definition deb_part :: rx where
  "deb_part = Grp (rx_plus (Cls (\<lambda>c. c \<noteq> CHR ''/'' \<and> c \<noteq> CHR ''_'')))"

definition reDebPackage :: rx where
  "reDebPackage = rx_seq [lit ''/'', word_dash, lit ''/pool/'', Grp word_dash, lit ''/'', Star any_char, lit ''/'',
     deb_part, lit ''_'', deb_part, lit ''_'', deb_part, lit ''.deb'']"

section \<open>Addresses\<close>

record InReleaseURLInfo =
  ir_CfgName :: string
  ir_Origin :: string
  ir_Repository :: string
  ir_Suite :: string

definition NewInReleaseURLInfo :: "url \<Rightarrow> AptInspectorConfig \<Rightarrow> InReleaseURLInfo result" where
  "NewInReleaseURLInfo u cfg =
     (case checkRepositoryAndSuite cfg u of Inl err \<Rightarrow> Inl err
      | Inr (name, repo, suite) \<Rightarrow>
        (if \<not> MatchString False reInRelease True (u_Path u)
         then Inl (Errorf (''invalid InRelease URL path: '' @ u_Path u))
         else Inr \<lparr>ir_CfgName = name, ir_Origin = NormalizedOrigin u, ir_Repository = repo, ir_Suite = suite\<rparr>))"

record PackagesURLInfo =
  pk_CfgName :: string
  pk_Origin :: string
  pk_Repository :: string
  pk_Suite :: string
  pk_Component :: string
  pk_Architecture :: string
  pk_Digest :: string

definition NewPackagesURLInfo :: "url \<Rightarrow> AptInspectorConfig \<Rightarrow> PackagesURLInfo result" where
  "NewPackagesURLInfo u cfg =
     (case checkRepositoryAndSuite cfg u of Inl err \<Rightarrow> Inl err
      | Inr (name, repo, suite) \<Rightarrow>
        (case checkComponent cfg name u of Inl err \<Rightarrow> Inl err
         | Inr component \<Rightarrow>
           (let info = \<lparr>pk_CfgName = name, pk_Origin = NormalizedOrigin u, pk_Repository = repo, pk_Suite = suite,
                        pk_Component = component, pk_Architecture = [], pk_Digest = []\<rparr> in
            case FindStringSubmatch False rePackagesByHash True (u_Path u) of
              [_, arch, digest] \<Rightarrow> Inr (info\<lparr>pk_Architecture := arch, pk_Digest := digest\<rparr>)
            | _ \<Rightarrow>
              (case FindStringSubmatch False rePackagesGz True (u_Path u) of
                 [_, arch] \<Rightarrow> Inr (info\<lparr>pk_Architecture := arch\<rparr>)
               | _ \<Rightarrow> Inl (Errorf (''invalid Packages URL path: '' @ u_Path u))))))"

record ComponentURLInfo =
  ci_CfgName :: string
  ci_Origin :: string
  ci_Repository :: string
  ci_Suite :: string
  ci_Component :: string
  ci_Digest :: string

text \<open>\<^verbatim>\<open>TranslationURLInfo\<close> and \<^verbatim>\<open>CommandsURLInfo\<close> have the same fields and are made in the same way.\<close>

definition component_url_info ::
  "rx \<Rightarrow> rx \<Rightarrow> string \<Rightarrow> url \<Rightarrow> AptInspectorConfig \<Rightarrow> ComponentURLInfo result" where
  "component_url_info re reByHash err u cfg =
     (case checkRepositoryAndSuite cfg u of Inl e \<Rightarrow> Inl e
      | Inr (name, repo, suite) \<Rightarrow>
        (case checkComponent cfg name u of Inl e \<Rightarrow> Inl e
         | Inr component \<Rightarrow>
           (let info = \<lparr>ci_CfgName = name, ci_Origin = NormalizedOrigin u, ci_Repository = repo, ci_Suite = suite,
                        ci_Component = component, ci_Digest = []\<rparr> in
            if \<not> MatchString False re True (u_Path u)
            then (case FindStringSubmatch False reByHash True (u_Path u) of
                    [_, digest] \<Rightarrow> Inr (info\<lparr>ci_Digest := digest\<rparr>)
                  | _ \<Rightarrow> Inl (Errorf (err @ u_Path u)))
            else Inr info)))"

definition NewTranslationURLInfo :: "url \<Rightarrow> AptInspectorConfig \<Rightarrow> ComponentURLInfo result" where
  "NewTranslationURLInfo u cfg =
     component_url_info reTranslation reTranslationByHash ''invalid translation URL path: '' u cfg"

definition NewCommandURLInfo :: "url \<Rightarrow> AptInspectorConfig \<Rightarrow> ComponentURLInfo result" where
  "NewCommandURLInfo u cfg =
     component_url_info reCommands reCommandsByHash ''invalid commands URL path: '' u cfg"

record DebPackageURLInfo =
  db_CfgName :: string
  db_Origin :: string
  db_Repository :: string
  db_Component :: string
  db_Name :: string
  db_Version :: string
  db_Architecture :: string

definition NewDebPackageURLInfo :: "url \<Rightarrow> AptInspectorConfig \<Rightarrow> DebPackageURLInfo result" where
  "NewDebPackageURLInfo u cfg =
     (let origin = NormalizedOrigin u; parts = strings_Split (u_Path u) CHR ''/'' in
      case slices_Index parts ''pool'' of
        None \<Rightarrow> Inl (Errorf ''invalid repository URL'')
      | Some pos \<Rightarrow>
        (if length parts \<le> pos + 2 then Inl (Errorf ''invalid repository URL'')
         else (let repo = origin @ strings_Join (take pos parts) ''/'' in
           case repositoryIsAllowed cfg repo of
             None \<Rightarrow> Inl (Errorf (''invalid repository: '' @ repo))
           | Some repoCfgName \<Rightarrow>
             (case FindStringSubmatch False reDebPackage True (u_Path u) of
                [_, component, name, version, architecture] \<Rightarrow>
                  Inr \<lparr>db_CfgName = repoCfgName, db_Origin = origin, db_Repository = repo, db_Component = component,
                       db_Name = name, db_Version = version, db_Architecture = architecture\<rparr>
              | _ \<Rightarrow> Inl (Errorf (u_Path u @ '': not a valid deb package URL path''))))))"

section \<open>Facts\<close>

lemma any_match_iff: "any_match ps s \<longleftrightarrow> (\<exists>p \<in> set ps. Glob_Match p s)"
  by (induction ps) auto

lemma repositoryIsAllowed_Some:
  "repositoryIsAllowed cfg repo = Some name \<Longrightarrow> \<exists>r. (name, r) \<in> set cfg \<and> any_match (repo_URLs r) repo"
  by (induction cfg) (auto split: if_splits)

lemma repositoryIsAllowed_get:
  assumes "wf_map cfg" and "repositoryIsAllowed cfg repo = Some name"
  shows "\<exists>r. map_get cfg name = Some r \<and> any_match (repo_URLs r) repo"
  using repositoryIsAllowed_Some [OF assms(2)] assms(1) by (auto simp: map_of_is_SomeI)

lemma checkRepositoryAndSuite_ok:
  assumes "wf_map cfg" and "checkRepositoryAndSuite cfg u = Inr (name, repo, suite)"
  shows "\<exists>r. map_get cfg name = Some r \<and> any_match (repo_URLs r) repo \<and> any_match (repo_Suites r) suite"
proof -
  from assms(2) have "repositoryIsAllowed cfg repo = Some name" and s: "suiteIsAllowed cfg name suite"
    by (auto simp: checkRepositoryAndSuite_def Let_def split: option.splits if_splits)
  from repositoryIsAllowed_get [OF assms(1) this(1)] s show ?thesis by (auto simp: suiteIsAllowed_def)
qed

end
