(* ===== verification/Apt_Release.thy ===== *)
theory Apt_Release
  imports Inspector_Base Apt_Config Openpgp
begin

text \<open>
  \<^verbatim>\<open>inspectors/apt/release.go\<close>: the inspector of signed \<^verbatim>\<open>InRelease\<close> files, which also checks the index
  files against the release files it has seen.

  The state of the APT inspectors of a session is the record \<^theory_text>\<open>apt_state\<close>; the locks of the code
  make every access to it atomic. Arguments (\<^theory_text>\<open>apt_env\<close>) stand for \<^verbatim>\<open>url.Parse\<close>, \<^verbatim>\<open>url.JoinPath\<close>, the OpenPGP
  library, the decompressors (which yield the data they can decode and the error they end with), one
  call of \<^verbatim>\<open>Read\<close> on a reader (\<^theory_text>\<open>ae_Read\<close>), and the failures of reading and seeking the downloaded file.
\<close>

section \<open>State\<close>

record releaseEntry =
  re_Name :: string
  re_Size :: nat

record releaseFile =
  rf_Sha256 :: Sha256Digest
  rf_Vendor :: string
  rf_Files :: "(Sha256Digest, releaseEntry) gomap"

definition NewReleaseFile :: releaseFile where
  "NewReleaseFile = \<lparr>rf_Sha256 = replicate 32 (char_of (0::nat)), rf_Vendor = [], rf_Files = []\<rparr>"

record aptPackagesEntry =
  pe_Pkg :: string
  pe_Architecture :: string
  pe_Version :: string
  pe_Size :: int

record aptPackages =
  ap_sha256 :: Sha256Digest
  ap_origin :: string
  ap_suite :: string
  ap_component :: string
  ap_architecture :: string
  ap_entries :: "(Sha256Digest, aptPackagesEntry) gomap"

record apt_state =
  st_release :: "(string, releaseFile) gomap"
  st_packages :: "(string, (string, aptPackages) gomap) gomap"
  st_validated :: "Sha256Digest list"

definition new_apt_state :: apt_state where
  "new_apt_state = \<lparr>st_release = [], st_packages = [], st_validated = []\<rparr>"

record ('k, 's) apt_env =
  ae_Parse :: "string \<Rightarrow> url result"
  ae_JoinPath :: "string \<Rightarrow> string \<Rightarrow> string result"
  ae_pgp :: "('k, 's) pgp_lib"
  ae_xz :: "string \<Rightarrow> body_reader result"
  ae_gzip :: "string \<Rightarrow> body_reader result"
  ae_Read :: "body_reader \<Rightarrow> nat \<Rightarrow> string \<times> go_error option"
  ae_read :: "string \<Rightarrow> go_error option"
  ae_seek :: "string \<Rightarrow> go_error option"

definition setReleaseState :: "string \<Rightarrow> releaseFile \<Rightarrow> apt_state \<Rightarrow> apt_state" where
  "setReleaseState repo release st = st\<lparr>st_release := map_set repo release (st_release st)\<rparr>"

definition getReleaseState :: "apt_state \<Rightarrow> string \<Rightarrow> releaseFile option" where
  "getReleaseState st repo = map_get (st_release st) repo"

definition parse_error :: "go_error \<Rightarrow> go_error" where
  "parse_error err = Errorf (''cannot parse URL: '' @ err_Error err)"

section \<open>Parsing\<close>

text \<open>The loop of \<^verbatim>\<open>parseUpToSignatures\<close> over the lines the scanner still has; it returns those left.\<close>

fun parseUpToSignatures ::
  "nat \<Rightarrow> (string, string) gomap \<Rightarrow> string list \<Rightarrow> ((string, string) gomap \<times> string list) result" where
  "parseUpToSignatures n flds [] = Inl (Errorf ''no SHA256 section found'')"
| "parseUpToSignatures n flds (line # sc) =
     (if line = [] \<or> hd line = CHR '' '' then parseUpToSignatures n flds sc
      else (case strings_Cut line CHR '':'' of None \<Rightarrow> parseUpToSignatures n flds sc
        | Some (k, w) \<Rightarrow>
          (if k = ''SHA256'' then Inr (flds, sc)
           else (let v = strings_TrimSpace w; flds' = (if v \<noteq> [] then map_set k v flds else flds) in
             if n > 100 then Inl (Errorf ''stopped parsing, file unlikely to be a Release file'')
             else parseUpToSignatures (Suc n) flds' sc))))"

text \<open>
  The loop of \<^verbatim>\<open>parseSignaturesSection\<close>: the format errors in their order and the file entries. The
  index \<^verbatim>\<open>line[0]\<close> panics on an empty line.
\<close>

fun parseSignaturesSection ::
  "string list \<Rightarrow> (Sha256Digest, releaseEntry) gomap \<Rightarrow> string list \<Rightarrow>
     (string list \<times> (Sha256Digest, releaseEntry) gomap) result" where
  "parseSignaturesSection errs files [] = Inr (errs, files)"
| "parseSignaturesSection errs files (line # sc) =
     (if line = [] then Inl runtime_panic
      else if hd line \<noteq> CHR '' '' then Inr (errs, files)
      else (case strings_Fields line of
          [f0, f1, f2] \<Rightarrow>
            (case NewSha256Digest f0 of
               Inl _ \<Rightarrow> parseSignaturesSection (errs @ [''error parsing digest: '' @ line]) files sc
             | Inr digest \<Rightarrow>
               (case ParseUint f1 10 64 of
                  Inl _ \<Rightarrow> parseSignaturesSection (errs @ [''error parsing file size: '' @ line]) files sc
                | Inr sz \<Rightarrow>
                  parseSignaturesSection errs (map_set digest \<lparr>re_Name = f2, re_Size = sz\<rparr> files) sc))
        | _ \<Rightarrow> parseSignaturesSection (errs @ [''ill-formed line: '' @ line]) files sc))"

definition expectedFields :: "string list" where
  "expectedFields = [''Origin'', ''Label'', ''Suite'', ''Version'', ''Codename'', ''Date'', ''Architectures'', ''Components'']"

definition isMissingFields :: "(string, string) gomap \<Rightarrow> bool" where
  "isMissingFields flds \<longleftrightarrow> \<not> list_all (\<lambda>k. map_get flds k \<noteq> None) expectedFields"

definition getRepositoryAlias ::
  "('k, 's) apt_env \<Rightarrow> AptInspectorConfig \<Rightarrow> string \<Rightarrow> string \<Rightarrow> string \<times> bool" where
  "getRepositoryAlias env cfg repo cfgName =
     (case map_get cfg cfgName of None \<Rightarrow> (repo, False)
      | Some r \<Rightarrow>
        (if repo_BaseURLAlias r = [] then (repo, True)
         else (case ae_Parse env repo of Inl _ \<Rightarrow> (repo, True)
           | Inr u \<Rightarrow> (case ae_JoinPath env (repo_BaseURLAlias r) (u_Path u) of
               Inl _ \<Rightarrow> (repo, True) | Inr alias \<Rightarrow> (alias, True)))))"

section \<open>Requests\<close>

definition dists_repo :: "string \<Rightarrow> string \<Rightarrow> string" where
  "dists_repo repository suite = repository @ ''/dists/'' @ suite"

abbreviation ID_release :: string where "ID_release \<equiv> ''apt.release''"

text \<open>
  The end of the three branches for index files: the request is pending when the release file of
  its repository was seen.
\<close>

definition index_request ::
  "('k, 's) apt_env \<Rightarrow> AptInspectorConfig \<Rightarrow> apt_state \<Rightarrow> string \<Rightarrow> string \<Rightarrow> string \<Rightarrow> string \<Rightarrow> Annotation
     \<Rightarrow> Artifact \<Rightarrow> Artifact" where
  "index_request env cfg st kind repository suite cfgName notes a =
     (case getReleaseState st (fst (getRepositoryAlias env cfg (dists_repo repository suite) cfgName)) of
        Some _ \<Rightarrow> annotate_request ID_release notes (SetRequestPending ID_release (''valid URL for '' @ kind @ '' file'') a)
      | None \<Rightarrow> annotate_request ID_release notes
          (SetRequestRejected ID_release (''attempt to download '' @ kind @ '' file before Release'') a))"

definition component_notes :: "ComponentURLInfo \<Rightarrow> Annotation" where
  "component_notes info = [(''cfg-name'', AnyString (ci_CfgName info)), (''origin'', AnyString (ci_Origin info)),
     (''repository'', AnyString (ci_Repository info)), (''suite'', AnyString (ci_Suite info)),
     (''component'', AnyString (ci_Component info))]"

definition AptRelease_InspectRequest ::
  "('k, 's) apt_env \<Rightarrow> AptInspectorConfig \<Rightarrow> apt_state \<Rightarrow> Artifact \<Rightarrow> go_error option \<times> Artifact" where
  "AptRelease_InspectRequest env cfg st a =
     (case ae_Parse env (DownloadURL a) of Inl err \<Rightarrow> (Some (parse_error err), a)
      | Inr u \<Rightarrow> (None,
        (case NewInReleaseURLInfo u cfg of
           Inr info \<Rightarrow> annotate_request ID_release
             [(''cfg-name'', AnyString (ir_CfgName info)), (''origin'', AnyString (ir_Origin info)),
              (''repository'', AnyString (ir_Repository info)), (''suite'', AnyString (ir_Suite info))]
             (SetRequestPending ID_release ''valid URL for Release file'' a)
         | Inl _ \<Rightarrow>
           (case NewPackagesURLInfo u cfg of
              Inr info \<Rightarrow> index_request env cfg st ''packages'' (pk_Repository info) (pk_Suite info) (pk_CfgName info)
                [(''cfg-name'', AnyString (pk_CfgName info)), (''origin'', AnyString (pk_Origin info)),
                 (''repository'', AnyString (pk_Repository info)), (''suite'', AnyString (pk_Suite info)),
                 (''component'', AnyString (pk_Component info)), (''architecture'', AnyString (pk_Architecture info))] a
            | Inl _ \<Rightarrow>
              (case NewTranslationURLInfo u cfg of
                 Inr info \<Rightarrow> index_request env cfg st ''translation'' (ci_Repository info) (ci_Suite info) (ci_CfgName info)
                   (component_notes info) a
               | Inl _ \<Rightarrow>
                 (case NewCommandURLInfo u cfg of
                    Inr info \<Rightarrow> index_request env cfg st ''commands'' (ci_Repository info) (ci_Suite info) (ci_CfgName info)
                      (component_notes info) a
                  | Inl _ \<Rightarrow> a))))))"

section \<open>Release files\<close>

text \<open>
  The scanner reads the signed text when there is one. \<^theory_text>\<open>release_notes\<close> are the annotations of an
  approval: the fields of the file and the notes of the signature check.
\<close>

definition release_notes :: "(string, string) gomap \<Rightarrow> Annotation \<Rightarrow> Annotation" where
  "release_notes flds signotes =
     Annotation_Append (fold (\<lambda>(k, v) n. Annotation_Add n k (AnyString v)) flds []) signotes"

definition field_of :: "(string, string) gomap \<Rightarrow> string \<Rightarrow> string" where
  "field_of flds k = (case map_get flds k of None \<Rightarrow> [] | Some v \<Rightarrow> v)"

definition release_metadata :: "(string, string) gomap \<Rightarrow> ArtifactMetadata" where
  "release_metadata flds = NoMetadata\<lparr>am_Type := mt_AptRelease, am_Name := ''InRelease'',
     am_Version := field_of flds ''Codename'',
     am_Description := (if field_of flds ''Description'' = []
        then field_of flds ''Origin'' @ '' '' @ field_of flds ''Suite'' else field_of flds ''Description''),
     am_Vendor := field_of flds ''Origin'', am_Author := field_of flds ''Origin'',
     am_AptSuite := field_of flds ''Suite''\<rparr>"

definition pgp_header :: string where
  "pgp_header = ''-----BEGIN PGP SIGNED MESSAGE-----''"

text \<open>The part of \<^verbatim>\<open>InspectArtifact\<close> after the check of the signature: \<open>text\<close> is what is scanned.\<close>

definition inspect_release_text ::
  "('k, 's) apt_env \<Rightarrow> AptInspectorConfig \<Rightarrow> string \<Rightarrow> string list \<Rightarrow> Annotation \<Rightarrow> string \<Rightarrow> apt_state \<Rightarrow> Artifact
     \<Rightarrow> go_error option \<times> Artifact \<times> apt_state" where
  "inspect_release_text env cfg cfgName integrityErrors signotes text st a =
     (case parseUpToSignatures 0 [] (scan_lines max_token text) of Inl _ \<Rightarrow> (None, a, st)
      | Inr (flds, sc) \<Rightarrow>
        (if isMissingFields flds then (None, a, st)
         else (case parseSignaturesSection [] [] sc of Inl err \<Rightarrow> (Some err, a, st)
           | Inr (formatErrors, files) \<Rightarrow>
             (let release = NewReleaseFile\<lparr>rf_Sha256 := Artifact_Sha256 a, rf_Vendor := field_of flds ''Origin'', rf_Files := files\<rparr>;
                  md = release_metadata flds;
                  n1 = (if formatErrors \<noteq> [] then Annotation_Add [] ''file format errors'' (AnyStrings formatErrors) else []);
                  notes = (if integrityErrors \<noteq> [] then Annotation_Add n1 ''integrity errors'' (AnyStrings integrityErrors) else n1) in
              if notes \<noteq> []
              then (None, annotate_response ID_release notes (SetResponseRejected ID_release ''error parsing release file'' md a), st)
              else (let a' = annotate_response ID_release (release_notes flds signotes)
                               (SetResponseApproved ID_release ''release file parsed and signature validated'' md a);
                        repo = fst (getRepositoryAlias env cfg (strings_TrimSuffix (DownloadURL a) ''/InRelease'') cfgName) in
                    (None, a', setReleaseState repo release st))))))"

definition inspect_release_file ::
  "('k, 's) apt_env \<Rightarrow> AptInspectorConfig \<Rightarrow> string \<Rightarrow> apt_state \<Rightarrow> Artifact \<Rightarrow> go_error option \<times> Artifact \<times> apt_state" where
  "inspect_release_file env cfg f st a =
     (case RequestStringAnnotation a ID_release ''cfg-name'' of (_, False) \<Rightarrow> (None, a, st)
      | (cfgName, True) \<Rightarrow>
        (if ae_read env f \<noteq> None \<or> length f < 34 then (None, a, st)
         else if take 34 f \<noteq> pgp_header then (None, a, st)
         else (case ae_seek env f of Some err \<Rightarrow> (Some err, a, st)
           | None \<Rightarrow>
             (let pubkey = (case map_get cfg cfgName of None \<Rightarrow> [] | Some r \<Rightarrow> repo_PublicKey r) in
              case checkSignature (ae_pgp env) (case ae_read env f of None \<Rightarrow> Inr f | Some e \<Rightarrow> Inl e) [] pubkey of
                (body, None, signotes) \<Rightarrow>
                  inspect_release_text env cfg cfgName [] signotes (case body of None \<Rightarrow> [] | Some b \<Rightarrow> b) st a
              | (body, Some err, signotes) \<Rightarrow>
                (let integrityErrors = [''signature verification failed: '' @ err_Error err] in
                 case body of
                   Some b \<Rightarrow> inspect_release_text env cfg cfgName integrityErrors signotes b st a
                 | None \<Rightarrow> (case ae_seek env f of Some e \<Rightarrow> (Some e, a, st)
                     | None \<Rightarrow> inspect_release_text env cfg cfgName integrityErrors signotes f st a))))))"

section \<open>Index files\<close>

text \<open>
  The common end of the three validations, from the annotation of the request on. The size is
  compared for translation and command files only.
\<close>

definition validate_index ::
  "('k, 's) apt_env \<Rightarrow> AptInspectorConfig \<Rightarrow> string \<Rightarrow> bool \<Rightarrow> string \<Rightarrow> string \<Rightarrow> ArtifactMetadata \<Rightarrow> apt_state \<Rightarrow> Artifact
     \<Rightarrow> Artifact" where
  "validate_index env cfg kind checkSize repository suite md st a =
     (case RequestStringAnnotation a ID_release ''cfg-name'' of
        (_, False) \<Rightarrow> SetResponseRejected ID_release (kind @ '' file downloaded from unknown repository'') md a
      | (cfgName, True) \<Rightarrow>
        (case getRepositoryAlias env cfg (dists_repo repository suite) cfgName of
           (_, False) \<Rightarrow> annotate_response ID_release [(''cfg-name'', AnyString cfgName)]
             (SetResponseRejected ID_release ''Unknown repository configuration name'' md a)
         | (repo, True) \<Rightarrow>
           (case getReleaseState st repo of
              None \<Rightarrow> SetResponseRejected ID_release ''Repository Release data not found'' md a
            | Some rel \<Rightarrow>
              (case map_get (rf_Files rel) (Artifact_Sha256 a) of
                 None \<Rightarrow> SetResponseRejected ID_release (kind @ '' file not listed in Release file'') md a
               | Some entry \<Rightarrow>
                 (if checkSize \<and> int64_of (re_Size entry) \<noteq> Artifact_Size a
                  then annotate_response ID_release [(''expected-size'', AnyInt (int (re_Size entry)))]
                         (SetResponseRejected ID_release (kind @ '' file size mismatch'') md a)
                  else annotate_response ID_release
                         [(''file-path'', AnyString (re_Name entry)), (''release-file'', AnyString (Sha256Digest_String (rf_Sha256 rel))),
                          (''vendor'', AnyString (rf_Vendor rel))]
                         (SetResponseUnknown ID_release (kind @ '' file listed in Release'') md a))))))"

definition packages_metadata :: "PackagesURLInfo \<Rightarrow> ArtifactMetadata" where
  "packages_metadata info = NoMetadata\<lparr>am_Type := mt_AptPackages, am_Name := ''Packages'',
     am_Description := pk_Suite info @ '' '' @ pk_Component info @ '' Packages file'',
     am_Architecture := pk_Architecture info, am_AptSuite := pk_Suite info\<rparr>"

definition validatePackagesFile ::
  "('k, 's) apt_env \<Rightarrow> AptInspectorConfig \<Rightarrow> apt_state \<Rightarrow> Artifact \<Rightarrow> go_error option \<times> Artifact" where
  "validatePackagesFile env cfg st a =
     (case ae_Parse env (DownloadURL a) of Inl err \<Rightarrow> (Some (parse_error err), a)
      | Inr u \<Rightarrow>
        (case NewPackagesURLInfo u cfg of
           Inl _ \<Rightarrow> (None, SetResponseRejected ID_release ''invalid path for packages file'' (NoMetadata\<lparr>am_Type := mt_AptPackages\<rparr>) a)
         | Inr info \<Rightarrow>
           (let md = packages_metadata info; next = validate_index env cfg ''Packages'' False (pk_Repository info) (pk_Suite info) md st a in
            if pk_Digest info = [] then (None, next)
            else (case NewSha256Digest (pk_Digest info) of
                Inl _ \<Rightarrow> (None, annotate_response ID_release [(''invalid-sha256'', AnyString (pk_Digest info))]
                           (SetResponseRejected ID_release ''invalid SHA256 digest'' md a))
              | Inr sha256 \<Rightarrow>
                (if sha256 \<noteq> Artifact_Sha256 a
                 then (None, annotate_response ID_release [(''expected-sha256'', AnyString (Sha256Digest_String sha256))]
                         (SetResponseRejected ID_release ''SHA256 digest mismatch'' md a))
                 else (None, next))))))"

definition validateTranslationFile ::
  "('k, 's) apt_env \<Rightarrow> AptInspectorConfig \<Rightarrow> apt_state \<Rightarrow> Artifact \<Rightarrow> go_error option \<times> Artifact" where
  "validateTranslationFile env cfg st a =
     (case ae_Parse env (DownloadURL a) of Inl err \<Rightarrow> (Some (parse_error err), a)
      | Inr u \<Rightarrow>
        (case NewTranslationURLInfo u cfg of
           Inl _ \<Rightarrow> (None, SetResponseRejected ID_release ''invalid path for translation file''
                      (NoMetadata\<lparr>am_Type := mt_AptTranslation\<rparr>) a)
         | Inr info \<Rightarrow> (None, validate_index env cfg ''Translation'' True (ci_Repository info) (ci_Suite info)
             (NoMetadata\<lparr>am_Type := mt_AptTranslation, am_Name := ''Translation'', am_AptSuite := ci_Suite info\<rparr>) st a)))"

definition validateCommandsFile ::
  "('k, 's) apt_env \<Rightarrow> AptInspectorConfig \<Rightarrow> apt_state \<Rightarrow> Artifact \<Rightarrow> go_error option \<times> Artifact" where
  "validateCommandsFile env cfg st a =
     (case ae_Parse env (DownloadURL a) of Inl err \<Rightarrow> (Some (parse_error err), a)
      | Inr u \<Rightarrow>
        (case NewCommandURLInfo u cfg of
           Inl _ \<Rightarrow> (None, SetResponseRejected ID_release ''invalid path for commands file''
                      (NoMetadata\<lparr>am_Type := mt_AptCommands\<rparr>) a)
         | Inr info \<Rightarrow> (None, validate_index env cfg ''Commands'' True (ci_Repository info) (ci_Suite info)
             (NoMetadata\<lparr>am_Type := mt_AptCommands, am_Name := ''Commands'',
                am_Description := ''Commands list for command-not-found'', am_AptSuite := ci_Suite info\<rparr>) st a)))"

definition AptRelease_InspectArtifact ::
  "('k, 's) apt_env \<Rightarrow> AptInspectorConfig \<Rightarrow> string \<Rightarrow> apt_state \<Rightarrow> Artifact \<Rightarrow> go_error option \<times> Artifact \<times> apt_state" where
  "AptRelease_InspectArtifact env cfg f st a =
     (if MimetypeIs a mt_AptPackages then (case validatePackagesFile env cfg st a of (e, a') \<Rightarrow> (e, a', st))
      else if MimetypeIs a mt_AptTranslation then (case validateTranslationFile env cfg st a of (e, a') \<Rightarrow> (e, a', st))
      else if MimetypeIs a mt_AptCommands then (case validateCommandsFile env cfg st a of (e, a') \<Rightarrow> (e, a', st))
      else if \<not> MimetypeIs a ''text/plain'' then (None, a, st)
      else inspect_release_file env cfg f st a)"

definition AptReleaseInspector ::
  "('k, 's) apt_env \<Rightarrow> AptInspectorConfig \<Rightarrow> apt_state \<Rightarrow> apt_state Inspector" where
  "AptReleaseInspector env cfg st = \<lparr>ins_ID = ID_release,
     ins_InspectRequest = AptRelease_InspectRequest env cfg st,
     ins_InspectArtifact = AptRelease_InspectArtifact env cfg\<rparr>"

end
