(* ===== verification/Apt_Packages.thy ===== *)
theory Apt_Packages
  imports Apt_Release
begin

text \<open>
  \<^verbatim>\<open>inspectors/apt/packages.go\<close>: the inspector of \<^verbatim>\<open>Packages\<close> files, which also checks Debian packages
  against the files it has read.

  The code stores a pointer to the data of a \<^verbatim>\<open>Packages\<close> file before it reads the entries; the
  model stores the data again once they are read. A scanner that stops at an error of its reader has
  still delivered every line up to it, and the code does not ask for the error.
\<close>

section \<open>Detection and parsing\<close>

definition compressedReader :: "('k, 's) apt_env \<Rightarrow> string \<Rightarrow> body_reader result" where
  "compressedReader env r =
     (case ae_xz env r of Inr x \<Rightarrow> Inr x
      | Inl _ \<Rightarrow> (case ae_seek env r of Some err \<Rightarrow> Inl err
          | None \<Rightarrow> ae_gzip env r))"

text \<open>The loop of \<^verbatim>\<open>AptPackagesDetector\<close>: the field names seen, \<^const>\<open>None\<close> for a line that is not a field.\<close>

fun detect_fields :: "string list \<Rightarrow> string list \<Rightarrow> string list option" where
  "detect_fields flds [] = Some flds"
| "detect_fields flds (line # sc) =
     (if line = [] then Some flds
      else (case strings_Cut line CHR '':'' of None \<Rightarrow> None
        | Some (k, _) \<Rightarrow> if k = ''Size'' then Some flds else detect_fields (k # flds) sc))"

definition AptPackagesDetector :: "('k, 's) apt_env \<Rightarrow> string \<Rightarrow> bool" where
  "AptPackagesDetector env raw =
     (case compressedReader env raw of Inl _ \<Rightarrow> False
      | Inr r \<Rightarrow>
        (case ae_Read env r 4096 of (buf, err) \<Rightarrow>
           if err \<noteq> None \<and> err \<noteq> Some io_EOF then False
           else (case detect_fields [] (scan_lines max_token buf) of None \<Rightarrow> False
             | Some flds \<Rightarrow>
               (if list_all (\<lambda>k. k \<in> set flds) [''Package'', ''Architecture'', ''Version'', ''Built-Using''] then True
                else list_all (\<lambda>k. k \<in> set flds)
                       [''Package'', ''Architecture'', ''Version'', ''Priority'', ''Section'', ''Maintainer'']))))"

definition zero_entry :: aptPackagesEntry where
  "zero_entry = \<lparr>pe_Pkg = [], pe_Architecture = [], pe_Version = [], pe_Size = 0\<rparr>"

fun parsePackages ::
  "nat \<Rightarrow> aptPackagesEntry \<Rightarrow> (Sha256Digest, aptPackagesEntry) gomap \<Rightarrow> string list
     \<Rightarrow> (nat \<times> (Sha256Digest, aptPackagesEntry) gomap) result" where
  "parsePackages num e entries [] = Inr (num, entries)"
| "parsePackages num e entries (line # sc) =
     (if line = [] then parsePackages num zero_entry entries sc
      else (case strings_Cut line CHR '':'' of None \<Rightarrow> parsePackages num e entries sc
        | Some (k, w) \<Rightarrow>
          (let v = strings_TrimSpace w in
           if k = ''Package'' then parsePackages (Suc num) (e\<lparr>pe_Pkg := v\<rparr>) entries sc
           else if k = ''Version'' then parsePackages num (e\<lparr>pe_Version := v\<rparr>) entries sc
           else if k = ''Architecture'' then parsePackages num (e\<lparr>pe_Architecture := v\<rparr>) entries sc
           else if k = ''Size'' then
             (case ParseInt v 10 64 of
                Inl err \<Rightarrow> Inl (Errorf (''error parsing size '' @ [CHR 0x27] @ v @ [CHR 0x27] @ '': '' @ err_Error err))
              | Inr i \<Rightarrow> parsePackages num (e\<lparr>pe_Size := i\<rparr>) entries sc)
           else if k = ''SHA256'' then
             (case NewSha256Digest v of
                Inl err \<Rightarrow> Inl (Errorf (''error parsing digest '' @ [CHR 0x27] @ v @ [CHR 0x27] @ '': '' @ err_Error err))
              | Inr h \<Rightarrow> parsePackages num e (map_set h e entries) sc)
           else parsePackages num e entries sc)))"

abbreviation packages_token :: int where "packages_token \<equiv> 1048576"

definition packages_of :: "body_reader \<Rightarrow> (nat \<times> (Sha256Digest, aptPackagesEntry) gomap) result" where
  "packages_of r = parsePackages 0 zero_entry [] (scan_lines packages_token (br_data r))"

section \<open>State\<close>

definition newAptPackages :: "Sha256Digest \<Rightarrow> string \<Rightarrow> string \<Rightarrow> string \<Rightarrow> string \<Rightarrow> aptPackages" where
  "newAptPackages sha256 origin suite component architecture =
     \<lparr>ap_sha256 = sha256, ap_origin = origin, ap_suite = suite, ap_component = component,
      ap_architecture = architecture, ap_entries = []\<rparr>"

definition getPackagesEntry :: "aptPackages \<Rightarrow> Sha256Digest \<Rightarrow> aptPackagesEntry option" where
  "getPackagesEntry pkg digest = map_get (ap_entries pkg) digest"

definition addPackages :: "string \<Rightarrow> string \<Rightarrow> aptPackages \<Rightarrow> apt_state \<Rightarrow> apt_state" where
  "addPackages origin packagesPath pkg st =
     (let ps = (case map_get (st_packages st) origin of None \<Rightarrow> [] | Some ps \<Rightarrow> ps)
      in st\<lparr>st_packages := map_set origin (map_set packagesPath pkg ps) (st_packages st)\<rparr>)"

definition validatePackages :: "Sha256Digest \<Rightarrow> apt_state \<Rightarrow> apt_state" where
  "validatePackages sha256 st = st\<lparr>st_validated := List.insert sha256 (st_validated st)\<rparr>"

definition isValidPackages :: "apt_state \<Rightarrow> Sha256Digest \<Rightarrow> bool" where
  "isValidPackages st sha256 \<longleftrightarrow> sha256 \<in> set (st_validated st)"

definition getOriginAlias :: "AptInspectorConfig \<Rightarrow> string \<Rightarrow> string \<Rightarrow> string option" where
  "getOriginAlias cfg origin cfgName =
     (case map_get cfg cfgName of None \<Rightarrow> None
      | Some r \<Rightarrow> if repo_BaseURLAlias r = [] then Some origin else Some (repo_BaseURLAlias r))"

section \<open>Requests\<close>

abbreviation ID_packages :: string where "ID_packages \<equiv> ''apt.packages''"

definition AptPackages_InspectRequest ::
  "('k, 's) apt_env \<Rightarrow> AptInspectorConfig \<Rightarrow> Artifact \<Rightarrow> go_error option \<times> Artifact" where
  "AptPackages_InspectRequest env cfg a =
     (case ae_Parse env (DownloadURL a) of Inl err \<Rightarrow> (Some (parse_error err), a)
      | Inr u \<Rightarrow> (None,
        (case NewPackagesURLInfo u cfg of
           Inr info \<Rightarrow> annotate_request ID_packages
             [(''cfg-name'', AnyString (pk_CfgName info)), (''repository'', AnyString (pk_Repository info)),
              (''suite'', AnyString (pk_Suite info)), (''component'', AnyString (pk_Component info)),
              (''architecture'', AnyString (pk_Architecture info))]
             (SetRequestPending ID_packages ''valid URL for Packages file'' a)
         | Inl _ \<Rightarrow>
           (case NewDebPackageURLInfo u cfg of
              Inr info \<Rightarrow> annotate_request ID_packages
                [(''cfg-name'', AnyString (db_CfgName info)), (''repository'', AnyString (db_Repository info)),
                 (''component'', AnyString (db_Component info)), (''name'', AnyString (db_Name info)),
                 (''version'', AnyString (db_Version info)), (''architecture'', AnyString (db_Architecture info))]
                (SetRequestPending ID_packages ''valid URL for deb package'' a)
            | Inl _ \<Rightarrow> a))))"

section \<open>Debian packages\<close>

text \<open>The loop over the files known for the origin: the first that lists the digest.\<close>

fun find_listing :: "(string, aptPackages) gomap \<Rightarrow> Sha256Digest \<Rightarrow> (aptPackages \<times> aptPackagesEntry) option" where
  "find_listing [] digest = None"
| "find_listing ((path, pkg) # rest) digest =
     (case getPackagesEntry pkg digest of Some e \<Rightarrow> Some (pkg, e) | None \<Rightarrow> find_listing rest digest)"

definition listing_notes :: "aptPackages \<Rightarrow> aptPackagesEntry \<Rightarrow> bool \<Rightarrow> string \<Rightarrow> Annotation" where
  "listing_notes pkg entry packagesIsValid component =
     [(''packages-name'', AnyString (pe_Pkg entry)), (''packages-version'', AnyString (pe_Version entry)),
      (''packages-architecture'', AnyString (pe_Architecture entry)), (''packages-size'', AnyInt (pe_Size entry)),
      (''packages-file'', AnyString (Sha256Digest_String (ap_sha256 pkg))), (''packages-is-valid'', AnyBool packagesIsValid),
      (''dist'', AnyString (ap_suite pkg)), (''component'', AnyString component)]"

definition validateDebianPackage ::
  "('k, 's) apt_env \<Rightarrow> AptInspectorConfig \<Rightarrow> apt_state \<Rightarrow> Artifact \<Rightarrow> go_error option \<times> Artifact" where
  "validateDebianPackage env cfg st a =
     (case ae_Parse env (DownloadURL a) of Inl err \<Rightarrow> (Some (parse_error err), a)
      | Inr u \<Rightarrow>
        (let md = NoMetadata\<lparr>am_Type := mt_DebianBinaryPackage\<rparr> in
         case RequestStringAnnotation a ID_packages ''cfg-name'' of
           (_, False) \<Rightarrow> (None, SetResponseRejected ID_packages ''deb file downloaded from unknown repository'' md a)
         | (cfgName, True) \<Rightarrow>
           (case getOriginAlias cfg (NormalizedOrigin u) cfgName of
              None \<Rightarrow> (None, annotate_response ID_packages [(''cfg-name'', AnyString cfgName)]
                        (SetResponseRejected ID_packages ''Unknown repository configuration name'' md a))
            | Some origin \<Rightarrow>
              (case NewDebPackageURLInfo u cfg of Inl _ \<Rightarrow> (Some (Errorf ''invalid deb package URL''), a)
               | Inr info \<Rightarrow>
                 (case find_listing (case map_get (st_packages st) origin of None \<Rightarrow> [] | Some ps \<Rightarrow> ps) (Artifact_Sha256 a) of
                    None \<Rightarrow> (None, SetResponseRejected ID_packages ''deb file digest not listed in packages file'' md a)
                  | Some (pkg, entry) \<Rightarrow>
                    (let packagesIsValid = isValidPackages st (ap_sha256 pkg);
                         notes = listing_notes pkg entry packagesIsValid (db_Component info);
                         md' = md\<lparr>am_Name := pe_Pkg entry, am_Version := pe_Version entry,
                                  am_Architecture := pe_Architecture entry, am_AptSuite := ap_suite pkg\<rparr> in
                     (None, annotate_response ID_packages notes
                        (if \<not> packagesIsValid then SetResponseRejected ID_packages ''artifact listed in invalid Packages file'' md' a
                         else if Artifact_Size a \<noteq> pe_Size entry
                         then SetResponseRejected ID_packages ''artifact size does not match Packages entry'' md' a
                         else if db_Architecture info \<noteq> pe_Architecture entry
                         then SetResponseRejected ID_packages ''URL architecture does not match Packages entry'' md' a
                         else SetResponseUnknown ID_packages ''deb file matches packages entry'' md' a))))))))"

section \<open>Packages files\<close>

text \<open>
  The end of \<^verbatim>\<open>InspectArtifact\<close>, once the file is stored without entries: \<open>st\<close> is that state, \<open>st'\<close> the
  one in which the entries are filled in.
\<close>

definition inspect_packages_entries ::
  "('k, 's) apt_env \<Rightarrow> string \<Rightarrow> string \<Rightarrow> string \<Rightarrow> aptPackages \<Rightarrow> ArtifactMetadata \<Rightarrow> apt_state \<Rightarrow> Artifact
     \<Rightarrow> go_error option \<times> Artifact \<times> apt_state" where
  "inspect_packages_entries env f origin path pkg md0 st a =
     (let md = (case ResponseStringAnnotation a ID_release ''vendor'' of
                  (vendor, True) \<Rightarrow> md0\<lparr>am_Author := vendor, am_Vendor := vendor\<rparr> | (_, False) \<Rightarrow> md0) in
      case compressedReader env f of Inl err \<Rightarrow> (Some err, a, st)
      | Inr r \<Rightarrow>
        (case packages_of r of
           Inl err \<Rightarrow> (None, annotate_response ID_packages [(''error-msg'', AnyString (err_Error err)), (''package-count'', AnyInt 0)]
                        (SetResponseRejected ID_packages ''error parsing packages file'' md a), st)
         | Inr (num, entries) \<Rightarrow>
           (let notes = [(''package-count'', AnyInt (int num))];
                st' = addPackages origin path (pkg\<lparr>ap_entries := entries\<rparr>) st in
            case ResponseStringAnnotation a ID_release ''release-file'' of
              (releaseDigest, True) \<Rightarrow>
                (None, annotate_response ID_packages (Annotation_Add notes ''release-file'' (AnyString releaseDigest))
                   (SetResponseApproved ID_packages ''packages file successfully parsed'' md a),
                 validatePackages (Artifact_Sha256 a) st')
            | (_, False) \<Rightarrow>
                (None, annotate_response ID_packages notes
                   (SetResponseRejected ID_packages ''packages file not verified against release file'' md a), st'))))"

definition AptPackages_InspectArtifact ::
  "('k, 's) apt_env \<Rightarrow> AptInspectorConfig \<Rightarrow> string \<Rightarrow> apt_state \<Rightarrow> Artifact \<Rightarrow> go_error option \<times> Artifact \<times> apt_state" where
  "AptPackages_InspectArtifact env cfg f st a =
     (if MimetypeIs a mt_DebianBinaryPackage then (case validateDebianPackage env cfg st a of (e, a') \<Rightarrow> (e, a', st))
      else if \<not> MimetypeIs a mt_AptPackages then (None, a, st)
      else (case ae_Parse env (DownloadURL a) of Inl err \<Rightarrow> (Some (parse_error err), a, st)
        | Inr u \<Rightarrow>
          (case RequestStringAnnotation a ID_packages ''suite'' of
             (_, False) \<Rightarrow> (None, SetResponseUnknown ID_packages ''suite not specified in request URL'' NoMetadata a, st)
           | (suite, True) \<Rightarrow>
             (case RequestStringAnnotation a ID_packages ''component'' of
                (_, False) \<Rightarrow> (None, SetResponseUnknown ID_packages ''component not specified in request URL'' NoMetadata a, st)
              | (component, True) \<Rightarrow>
                (case RequestStringAnnotation a ID_packages ''architecture'' of
                   (_, False) \<Rightarrow> (None, SetResponseUnknown ID_packages ''architecture not specified in request URL'' NoMetadata a, st)
                 | (architecture, True) \<Rightarrow>
                   (let md = NoMetadata\<lparr>am_Type := mt_AptPackages, am_Name := ''Packages'',
                               am_Description := suite @ '' '' @ component @ '' Packages file'',
                               am_Architecture := architecture, am_AptSuite := suite\<rparr> in
                    case RequestStringAnnotation a ID_packages ''cfg-name'' of
                      (_, False) \<Rightarrow> (None, SetResponseRejected ID_packages ''Packages file downloaded from unknown repository'' md a, st)
                    | (cfgName, True) \<Rightarrow>
                      (case getOriginAlias cfg (NormalizedOrigin u) cfgName of
                         None \<Rightarrow> (None, annotate_response ID_packages [(''cfg-name'', AnyString cfgName)]
                                   (SetResponseRejected ID_packages ''Unknown repository configuration name'' md a), st)
                       | Some origin \<Rightarrow>
                         (let pkg = newAptPackages (Artifact_Sha256 a) origin suite component architecture in
                          inspect_packages_entries env f origin (u_Path u) pkg md (addPackages origin (u_Path u) pkg st) a))))))))"

definition AptPackagesInspector :: "('k, 's) apt_env \<Rightarrow> AptInspectorConfig \<Rightarrow> apt_state Inspector" where
  "AptPackagesInspector env cfg = \<lparr>ins_ID = ID_packages,
     ins_InspectRequest = AptPackages_InspectRequest env cfg,
     ins_InspectArtifact = AptPackages_InspectArtifact env cfg\<rparr>"

end
