(* ===== verification/Apt_Indexes.thy ===== *)
theory Apt_Indexes
  imports Apt_Packages
begin

text \<open>
  \<^verbatim>\<open>inspectors/apt/translation.go\<close> and \<^verbatim>\<open>inspectors/apt/commands.go\<close>: the inspectors of translation
  files and of command lists. Both trust the release inspector, which runs before them, for the check
  against the release file, and check the form of the file themselves.
\<close>

section \<open>Detection\<close>

text \<open>The loop of \<^verbatim>\<open>getTextFields\<close>; the names are kept without repetition, as the keys of a map are.\<close>

fun text_fields :: "string list \<Rightarrow> string list \<Rightarrow> string list option" where
  "text_fields flds [] = Some flds"
| "text_fields flds (line # sc) =
     (if line \<noteq> [] \<and> hd line = CHR '' '' then text_fields flds sc
      else if line = [] then Some flds
      else (case strings_Cut line CHR '':'' of None \<Rightarrow> None
        | Some (k, _) \<Rightarrow> text_fields (List.insert k flds) sc))"

definition getTextFields :: "string \<Rightarrow> nat \<Rightarrow> string list option" where
  "getTextFields buf n =
     (case text_fields [] (scan_lines max_token buf) of None \<Rightarrow> None
      | Some flds \<Rightarrow> if length flds \<noteq> n then None else Some flds)"

text \<open>The common shape of the two detectors.\<close>

definition xz_fields_detector :: "('k, 's) apt_env \<Rightarrow> nat \<Rightarrow> string list \<Rightarrow> string \<Rightarrow> bool" where
  "xz_fields_detector env bufsize expected raw =
     (case ae_xz env raw of Inl _ \<Rightarrow> False
      | Inr r \<Rightarrow>
        (case ae_Read env r bufsize of (buf, err) \<Rightarrow>
           if err \<noteq> None \<and> err \<noteq> Some io_EOF then False
           else (case getTextFields buf 3 of None \<Rightarrow> False
             | Some flds \<Rightarrow> list_all (\<lambda>k. k \<in> set flds) expected)))"

definition AptTranslationDetector :: "('k, 's) apt_env \<Rightarrow> string \<Rightarrow> bool" where
  "AptTranslationDetector env raw = xz_fields_detector env 1024 [''Package'', ''Description-md5''] raw"

definition AptCommandsDetector :: "('k, 's) apt_env \<Rightarrow> string \<Rightarrow> bool" where
  "AptCommandsDetector env raw = xz_fields_detector env 4096 [''suite'', ''component'', ''arch''] raw"

section \<open>Translation files\<close>

record trans_state =
  ts_itemCount :: nat
  ts_Package :: bool
  ts_MD5sum :: bool
  ts_Description :: bool
  ts_lang :: string

definition trans_init :: trans_state where
  "trans_init = \<lparr>ts_itemCount = 0, ts_Package = False, ts_MD5sum = False, ts_Description = False, ts_lang = []\<rparr>"

text \<open>One round of the loop: an error that ends it, or the next state.\<close>

definition trans_line :: "string \<Rightarrow> trans_state \<Rightarrow> trans_state result" where
  "trans_line line t =
     (if strings_HasPrefix line ''Package: '' then
        (if ts_Package t then Inl (Errorf ''misplaced package fields in translation file'')
         else Inr (t\<lparr>ts_Package := True\<rparr>))
      else if strings_HasPrefix line ''Description-md5: '' then
        (if \<not> ts_Package t then Inl (Errorf ''description-md5 field without Package field'')
         else Inr (t\<lparr>ts_MD5sum := True\<rparr>))
      else if strings_HasPrefix line ''Description-'' then
        (if \<not> ts_MD5sum t \<or> \<not> ts_Package t
         then Inl (Errorf ''description field without Package or Description-md5 field'')
         else (let t' = t\<lparr>ts_Description := True\<rparr> in
           if ts_lang t = []
           then (case strings_Cut line CHR '':'' of None \<Rightarrow> Inr t'
                 | Some (descLang, _) \<Rightarrow> Inr (t'\<lparr>ts_lang := drop (length ''Description-'') descLang\<rparr>))
           else Inr t'))
      else if strings_HasPrefix line '' '' then
        (if \<not> ts_Description t then Inl (Errorf ''description field without Package or Description-md5 field'')
         else Inr t)
      else if line = [] then
        Inr (t\<lparr>ts_itemCount := (if ts_Description t then Suc (ts_itemCount t) else ts_itemCount t),
               ts_Package := False, ts_MD5sum := False, ts_Description := False\<rparr>)
      else Inr t)"

fun trans_loop :: "trans_state \<Rightarrow> string list \<Rightarrow> trans_state result" where
  "trans_loop t [] = Inr t"
| "trans_loop t (line # sc) = (case trans_line line t of Inl err \<Rightarrow> Inl err | Inr t' \<Rightarrow> trans_loop t' sc)"

definition parseTranslationFile :: "string list \<Rightarrow> (string \<times> nat) result" where
  "parseTranslationFile sc =
     (case trans_loop trans_init sc of Inl err \<Rightarrow> Inl err
      | Inr t \<Rightarrow>
        (if ts_itemCount t > 0 then
           (if ts_Package t \<and> \<not> ts_MD5sum t then Inl (Errorf ''description-md5 field missing for the last Package'')
            else if ts_Package t \<and> \<not> ts_Description t then Inl (Errorf ''description field missing for the last Package'')
            else Inr (ts_lang t, ts_itemCount t))
         else Inl (Errorf ''not a valid translation file'')))"

abbreviation ID_translations :: string where "ID_translations \<equiv> ''apt.translations''"

definition AptTranslation_InspectRequest ::
  "('k, 's) apt_env \<Rightarrow> AptInspectorConfig \<Rightarrow> Artifact \<Rightarrow> go_error option \<times> Artifact" where
  "AptTranslation_InspectRequest env cfg a =
     (case ae_Parse env (DownloadURL a) of Inl err \<Rightarrow> (Some (parse_error err), a)
      | Inr u \<Rightarrow> (None,
        (case NewTranslationURLInfo u cfg of
           Inr info \<Rightarrow> annotate_request ID_translations
             [(''repository'', AnyString (ci_Repository info)), (''suite'', AnyString (ci_Suite info)),
              (''component'', AnyString (ci_Component info))]
             (SetRequestPending ID_translations ''valid URL for Translation file'' a)
         | Inl _ \<Rightarrow> a)))"

text \<open>The vendor the release inspector noted becomes vendor and author.\<close>

definition with_vendor :: "Artifact \<Rightarrow> ArtifactMetadata \<Rightarrow> ArtifactMetadata" where
  "with_vendor a md = (case ResponseStringAnnotation a ID_release ''vendor'' of
     (vendor, True) \<Rightarrow> md\<lparr>am_Vendor := vendor, am_Author := vendor\<rparr> | (_, False) \<Rightarrow> md)"

definition AptTranslation_InspectArtifact ::
  "('k, 's) apt_env \<Rightarrow> string \<Rightarrow> apt_state \<Rightarrow> Artifact \<Rightarrow> go_error option \<times> Artifact \<times> apt_state" where
  "AptTranslation_InspectArtifact env f st a =
     (if \<not> MimetypeIs a mt_AptTranslation then (None, a, st)
      else (case ae_Parse env (DownloadURL a) of Inl err \<Rightarrow> (Some (parse_error err), a, st)
        | Inr _ \<Rightarrow>
          (let md = NoMetadata\<lparr>am_Type := mt_AptTranslation, am_Name := ''Translation''\<rparr> in
           case ae_xz env f of Inl _ \<Rightarrow> (None, SetResponseUnknown ID_translations ''cannot read xz file'' md a, st)
           | Inr r \<Rightarrow>
             (case parseTranslationFile (scan_lines packages_token (br_data r)) of
                Inl err \<Rightarrow> (None, SetResponseRejected ID_translations (err_Error err) md a, st)
              | Inr (lang, itemCount) \<Rightarrow>
                (case RequestStringAnnotation a ID_translations ''suite'' of
                   (_, False) \<Rightarrow> (None, SetResponseUnknown ID_translations ''suite not specified in request URL'' md a, st)
                 | (suite, True) \<Rightarrow>
                   (let md' = with_vendor a (md\<lparr>am_AptSuite := suite\<rparr>);
                        notes = [(''translation-language'', AnyString lang), (''translation-count'', AnyInt (int itemCount))] in
                    if snd (ResponseStringAnnotation a ID_release ''release-file'')
                    then (None, annotate_response ID_translations notes
                            (SetResponseApproved ID_translations ''translation file successfully parsed'' md' a), st)
                    else (None, annotate_response ID_translations notes
                            (SetResponseRejected ID_translations ''translation file not verified against release file'' md' a), st)))))))"

definition AptTranslationInspector :: "('k, 's) apt_env \<Rightarrow> AptInspectorConfig \<Rightarrow> apt_state Inspector" where
  "AptTranslationInspector env cfg = \<lparr>ins_ID = ID_translations,
     ins_InspectRequest = AptTranslation_InspectRequest env cfg,
     ins_InspectArtifact = AptTranslation_InspectArtifact env\<rparr>"

section \<open>Command lists\<close>

definition errIllFormed :: go_error where
  "errIllFormed = Errorf ''ill-formed commands file header''"

text \<open>\<^verbatim>\<open>parseHeader\<close>: suite, component and architecture, and the lines the scanner has left.\<close>

fun header_loop :: "string \<times> string \<times> string \<Rightarrow> string list \<Rightarrow> ((string \<times> string \<times> string) \<times> string list) result" where
  "header_loop h [] = Inr (h, [])"
| "header_loop (suite, component, arch) (line # sc) =
     (if line = [] then Inr ((suite, component, arch), sc)
      else (case strings_Cut line CHR '':'' of None \<Rightarrow> Inl errIllFormed
        | Some (k0, v0) \<Rightarrow>
          (let k = strings_TrimSpace k0; v = strings_TrimSpace v0 in
           if k = ''suite'' then header_loop (v, component, arch) sc
           else if k = ''component'' then header_loop (suite, v, arch) sc
           else if k = ''arch'' then header_loop (suite, component, v) sc
           else header_loop (suite, component, arch) sc)))"

definition parseHeader :: "string list \<Rightarrow> (string \<times> string \<times> string \<times> string list) result" where
  "parseHeader sc =
     (case header_loop ([], [], []) sc of Inl err \<Rightarrow> Inl err
      | Inr ((suite, component, arch), rest) \<Rightarrow>
        (if suite = [] \<or> component = [] \<or> arch = [] then Inl errIllFormed else Inr (suite, component, arch, rest)))"

fun parsePkgList :: "nat \<Rightarrow> bool \<Rightarrow> bool \<Rightarrow> bool \<Rightarrow> string list \<Rightarrow> nat result" where
  "parsePkgList itemCount stateName stateVersion stateCommands [] = Inr itemCount"
| "parsePkgList itemCount stateName stateVersion stateCommands (line # sc) =
     (if strings_HasPrefix line ''name: '' then
        (if stateName then Inl (Errorf ''duplicate name field in commands file'')
         else parsePkgList itemCount True stateVersion stateCommands sc)
      else if strings_HasPrefix line ''version: '' then
        (if stateVersion then Inl (Errorf ''duplicate version field in commands file'')
         else parsePkgList itemCount stateName True stateCommands sc)
      else if strings_HasPrefix line ''commands: '' then
        (if stateCommands then Inl (Errorf ''duplicate commands field in commands file'')
         else parsePkgList itemCount stateName stateVersion True sc)
      else if line = [] then
        (if \<not> stateName \<or> \<not> stateVersion \<or> \<not> stateCommands then Inl (Errorf ''ill-formed entry in commands file'')
         else parsePkgList (Suc itemCount) False False False sc)
      else parsePkgList itemCount stateName stateVersion stateCommands sc)"

abbreviation ID_commands :: string where "ID_commands \<equiv> ''apt.commands''"

definition AptCommands_InspectRequest ::
  "('k, 's) apt_env \<Rightarrow> AptInspectorConfig \<Rightarrow> Artifact \<Rightarrow> go_error option \<times> Artifact" where
  "AptCommands_InspectRequest env cfg a =
     (case ae_Parse env (DownloadURL a) of Inl err \<Rightarrow> (Some (parse_error err), a)
      | Inr u \<Rightarrow> (None,
        (case NewCommandURLInfo u cfg of
           Inr info \<Rightarrow> annotate_request ID_commands
             [(''repository'', AnyString (ci_Repository info)), (''suite'', AnyString (ci_Suite info)),
              (''component'', AnyString (ci_Component info))]
             (SetRequestPending ID_commands ''valid URL for Commands file'' a)
         | Inl _ \<Rightarrow> a)))"

text \<open>
  Two empty lines follow the header of a command list: \<^verbatim>\<open>parseHeader\<close> reads the first, and the next line is
  skipped whatever it holds.
\<close>

definition AptCommands_InspectArtifact ::
  "('k, 's) apt_env \<Rightarrow> string \<Rightarrow> apt_state \<Rightarrow> Artifact \<Rightarrow> go_error option \<times> Artifact \<times> apt_state" where
  "AptCommands_InspectArtifact env f st a =
     (if \<not> MimetypeIs a mt_AptCommands then (None, a, st)
      else (case ae_Parse env (DownloadURL a) of Inl err \<Rightarrow> (Some (parse_error err), a, st)
        | Inr _ \<Rightarrow>
          (let md = NoMetadata\<lparr>am_Type := mt_AptCommands, am_Name := ''Commands'', am_Description := ''Commands list for command-not-found''\<rparr> in
           case ae_xz env f of Inl _ \<Rightarrow> (None, SetResponseRejected ID_commands ''cannot read xz file'' md a, st)
           | Inr r \<Rightarrow>
             (case parseHeader (scan_lines packages_token (br_data r)) of
                Inl err \<Rightarrow> (None, SetResponseRejected ID_commands (err_Error err) md a, st)
              | Inr (suite, component, arch, sc) \<Rightarrow>
                (let md' = md\<lparr>am_AptSuite := suite\<rparr> in
                 case parsePkgList 0 False False False (drop 1 sc) of
                   Inl err \<Rightarrow> (None, SetResponseRejected ID_commands (err_Error err) md' a, st)
                 | Inr itemCount \<Rightarrow>
                   (let md'' = with_vendor a md';
                        notes = [(''suite'', AnyString suite), (''component'', AnyString component), (''arch'', AnyString arch),
                                 (''count'', AnyInt (int itemCount))] in
                    if snd (ResponseStringAnnotation a ID_release ''release-file'')
                    then (None, annotate_response ID_commands notes
                            (SetResponseApproved ID_commands ''commands file successfully parsed'' md'' a), st)
                    else (None, annotate_response ID_commands notes
                            (SetResponseRejected ID_commands ''commands file not verified against release file'' md'' a), st)))))))"

definition AptCommandsInspector :: "('k, 's) apt_env \<Rightarrow> AptInspectorConfig \<Rightarrow> apt_state Inspector" where
  "AptCommandsInspector env cfg = \<lparr>ins_ID = ID_commands,
     ins_InspectRequest = AptCommands_InspectRequest env cfg,
     ins_InspectArtifact = AptCommands_InspectArtifact env\<rparr>"

end
