(* ===== verification/File_Utils.thy ===== *)
theory File_Utils
  imports Regex Go_Text
begin

text \<open>
  \<^verbatim>\<open>utils/file_utils.go\<close>, but for \<^verbatim>\<open>MoveFile\<close>, which is in \<^verbatim>\<open>Filesystem\<close>: the search for names in zip files and
  the detection of licences. The zip reader, the command \<^verbatim>\<open>licensecheck\<close> and \<^verbatim>\<open>os.Stat\<close> are arguments.
\<close>

section \<open>Zip files\<close>

text \<open>The loops count down by one for every pattern a name matches.\<close>

fun zip_patterns :: "nat \<Rightarrow> (string \<Rightarrow> bool) list \<Rightarrow> string \<Rightarrow> nat option" where
  "zip_patterns num [] name = Some num"
| "zip_patterns num (p # ps) name =
     (if p name then (if num - 1 = 0 then None else zip_patterns (num - 1) ps name) else zip_patterns num ps name)"

fun zip_files :: "nat \<Rightarrow> (string \<Rightarrow> bool) list \<Rightarrow> string list \<Rightarrow> bool" where
  "zip_files num patterns [] = False"
| "zip_files num patterns (name # names) =
     (case zip_patterns num patterns name of None \<Rightarrow> True | Some num' \<Rightarrow> zip_files num' patterns names)"

definition ZipMatches :: "string list result \<Rightarrow> (string \<Rightarrow> bool) list \<Rightarrow> bool" where
  "ZipMatches z patterns = (case z of Inl _ \<Rightarrow> False | Inr names \<Rightarrow> zip_files (length patterns) patterns names)"

text \<open>
  What the loops compute: whether there are as many matches, of any patterns by any names, as there are
  patterns.
\<close>

definition zip_hits :: "(string \<Rightarrow> bool) list \<Rightarrow> string list \<Rightarrow> nat" where
  "zip_hits patterns names = sum_list (map (\<lambda>name. length (filter (\<lambda>p. p name) patterns)) names)"

lemma zip_patterns_count:
  "0 < num \<Longrightarrow> zip_patterns num ps name =
     (if num \<le> length (filter (\<lambda>p. p name) ps) then None else Some (num - length (filter (\<lambda>p. p name) ps)))"
  by (induction ps arbitrary: num) auto

lemma zip_files_count: "0 < num \<Longrightarrow> zip_files num ps names \<longleftrightarrow> num \<le> zip_hits ps names"
  by (induction names arbitrary: num) (auto simp: zip_hits_def zip_patterns_count)

lemma ZipMatches_count:
  "patterns \<noteq> [] \<Longrightarrow> ZipMatches (Inr names) patterns \<longleftrightarrow> length patterns \<le> zip_hits patterns names"
  by (simp add: ZipMatches_def zip_files_count)

text \<open>With one pattern this is the search the comment describes.\<close>

lemma ZipMatches_single: "ZipMatches (Inr names) [p] \<longleftrightarrow> (\<exists>name \<in> set names. p name)"
proof -
  have "zip_hits [p] names = length (filter p names)"
    by (induction names) (simp_all add: zip_hits_def)
  then show ?thesis by (auto simp: ZipMatches_count Suc_le_eq filter_empty_conv)
qed

text \<open>With two patterns two names that match the first are enough, and the second need not occur.\<close>

theorem zip_matches_counts_repeats:
  "ZipMatches (Inr [''a'', ''a'']) [\<lambda>n. n = ''a'', \<lambda>n. n = ''b'']"
  by (simp add: ZipMatches_def)

section \<open>Licences\<close>

text \<open>\<^verbatim>\<open>reExpat\<close>: the word \<^verbatim>\<open>Expat\<close>, after a character \<open>prev\<close> that is not part of a word.\<close>

fun replace_expat :: "bool \<Rightarrow> string \<Rightarrow> string" where
  "replace_expat prev [] = []"
| "replace_expat prev (c # s) =
     (if \<not> prev \<and> strings_HasPrefix (c # s) ''Expat'' \<and> (drop 4 s = [] \<or> \<not> is_word (hd (drop 4 s)))
      then ''MIT'' @ replace_expat True (drop 4 s)
      else c # replace_expat (is_word c) s)"

definition GetLicense :: "(string \<Rightarrow> string result) \<Rightarrow> string \<Rightarrow> string result" where
  "GetLicense licensecheck filename =
     (case licensecheck filename of Inl err \<Rightarrow> Inl (Errorf (''license check error: '' @ err_Error err))
      | Inr out \<Rightarrow>
        (case strings_Split (strings_TrimSpace out) CHR 0x09 of
           _ # license # _ \<Rightarrow> Inr (replace_expat False license)
         | _ \<Rightarrow> Inr []))"

fun CheckLicenseFiles :: "(string \<Rightarrow> go_error option) \<Rightarrow> (string \<Rightarrow> string result) \<Rightarrow> string list \<Rightarrow> string result" where
  "CheckLicenseFiles stat licensecheck [] = Inr []"
| "CheckLicenseFiles stat licensecheck (f # fs) =
     (case stat f of Some _ \<Rightarrow> CheckLicenseFiles stat licensecheck fs
      | None \<Rightarrow> GetLicense licensecheck f)"

end
