(* ===== verification/Deb.thy ===== *)
theory Deb
  imports Inspector_Base Apt_Config File_Utils
begin

text \<open>
  \<^verbatim>\<open>inspectors/deb/deb.go\<close>: the inspector of Debian packages. It reads the control data of the package
  and approves it when the packages inspector, which runs before it, found it in a valid list.

  Arguments (\<^theory_text>\<open>deb_env\<close>) stand for \<^verbatim>\<open>url.Parse\<close>, the archive and compression formats (the members they
  find and the error they end with), the command \<^verbatim>\<open>licensecheck\<close> run on a copy of the copyright file, the
  failures around that copy, and the upper case of the first rune of a text.
\<close>

record deb_env =
  de_Parse :: "string \<Rightarrow> url result"
  de_ar :: "string \<Rightarrow> (string \<times> body_reader) list \<times> go_error"
  de_gzip :: "body_reader \<Rightarrow> body_reader result"
  de_xz :: "body_reader \<Rightarrow> body_reader result"
  de_zstd :: "body_reader \<Rightarrow> body_reader result"
  de_tar :: "body_reader \<Rightarrow> (string \<times> body_reader) list \<times> go_error"
  de_CreateTemp :: "go_error option"
  de_writeTemp :: "string \<Rightarrow> go_error option"
  de_licensecheck :: "string \<Rightarrow> string result"
  de_upperFirst :: "string \<Rightarrow> string"

definition archive_EOF :: go_error where
  "archive_EOF = ErrVar ''io.EOF'' ''EOF''"

section \<open>Control data\<close>

text \<open>
  The switch of \<^verbatim>\<open>parseControl\<close> on the name of a field, and its loop: \<^const>\<open>Inl\<close> when it panics, at the first
  rune of an empty description.
\<close>

definition control_field :: "deb_env \<Rightarrow> string \<Rightarrow> string \<Rightarrow> ArtifactMetadata \<Rightarrow> ArtifactMetadata result" where
  "control_field env k v md =
     (if k = ''Package'' then Inr (md\<lparr>am_Name := v\<rparr>)
      else if k = ''Version'' then Inr (md\<lparr>am_Version := v\<rparr>)
      else if k = ''Architecture'' then Inr (md\<lparr>am_Architecture := v\<rparr>)
      else if k = ''Description'' then
        (if v = [] then Inl runtime_panic else Inr (md\<lparr>am_Description := de_upperFirst env v\<rparr>))
      else if k = ''Maintainer'' then Inr (md\<lparr>am_Vendor := v\<rparr>)
      else if k = ''Source'' then Inr (md\<lparr>am_SourcePackage := v\<rparr>)
      else Inr md)"

fun control_loop :: "deb_env \<Rightarrow> ArtifactMetadata \<Rightarrow> string list \<Rightarrow> ArtifactMetadata result" where
  "control_loop env md [] = Inr md"
| "control_loop env md (line # sc) =
     (if line = [] then Inr md
      else if hd line = CHR '' '' then control_loop env md sc
      else (case strings_Cut line CHR '':'' of None \<Rightarrow> control_loop env md sc
        | Some (k, v) \<Rightarrow>
          (case control_field env k (strings_TrimSpace v) md of Inl p \<Rightarrow> Inl p
           | Inr md' \<Rightarrow> control_loop env md' sc)))"

text \<open>The functions below return the error and the metadata, which they fill in place.\<close>

definition parseControl :: "deb_env \<Rightarrow> body_reader \<Rightarrow> ArtifactMetadata \<Rightarrow> go_error option \<times> ArtifactMetadata" where
  "parseControl env tf md =
     (case control_loop env md (scan_lines max_token (br_data tf)) of Inl p \<Rightarrow> (Some p, md)
      | Inr md' \<Rightarrow>
        (if am_Name md' = [] \<or> am_Version md' = []
         then (Some (Errorf ''package name and version not listed in control file''), md') else (None, md')))"

text \<open>A loop over the members of a tar archive that ends cleanly at the end of the archive.\<close>

fun tar_members ::
  "(string \<Rightarrow> body_reader \<Rightarrow> ArtifactMetadata \<Rightarrow> go_error option \<times> ArtifactMetadata) \<Rightarrow> go_error
     \<Rightarrow> (string \<times> body_reader) list \<Rightarrow> ArtifactMetadata \<Rightarrow> go_error option \<times> ArtifactMetadata" where
  "tar_members act err [] md = (if err = archive_EOF then (None, md) else (Some err, md))"
| "tar_members act err ((name, r) # rest) md =
     (case act name r md of (Some e, md') \<Rightarrow> (Some e, md') | (None, md') \<Rightarrow> tar_members act err rest md')"

definition parseControlTar :: "deb_env \<Rightarrow> body_reader \<Rightarrow> ArtifactMetadata \<Rightarrow> go_error option \<times> ArtifactMetadata" where
  "parseControlTar env zf md =
     (case de_tar env zf of (members, err) \<Rightarrow>
        tar_members (\<lambda>name r md. if name = ''./control'' then parseControl env r md else (None, md)) err members md)"

section \<open>Copyright files\<close>

definition reCopyright :: rx where
  "reCopyright = rx_seq [lit ''./usr/share/doc/'', rx_plus (Cls (\<lambda>c. c \<noteq> CHR ''/'')), lit ''/copyright'']"

definition author_of :: "string \<Rightarrow> string option" where
  "author_of line =
     (if line \<noteq> [] \<and> hd line = CHR '' '' then None
      else if strings_HasPrefix line ''Upstream author: '' then Some (drop (length ''Upstream author: '') line)
      else None)"

fun copyright_loop :: "ArtifactMetadata \<Rightarrow> string list \<Rightarrow> ArtifactMetadata" where
  "copyright_loop md [] = md"
| "copyright_loop md (line # sc) =
     copyright_loop (case author_of line of None \<Rightarrow> md | Some v \<Rightarrow> md\<lparr>am_Author := v\<rparr>) sc"

definition copy_of :: "string list \<Rightarrow> string" where
  "copy_of ls = concat (map (\<lambda>l. l @ [CHR 0x0A]) ls)"

definition parseCopyright :: "deb_env \<Rightarrow> body_reader \<Rightarrow> ArtifactMetadata \<Rightarrow> go_error option \<times> ArtifactMetadata" where
  "parseCopyright env tf md =
     (let ls = scan_lines max_token (br_data tf); md1 = copyright_loop md ls in
      case de_CreateTemp env of Some err \<Rightarrow> (Some err, md)
      | None \<Rightarrow>
        (case de_writeTemp env (copy_of ls) of Some err \<Rightarrow> (Some err, md1)
         | None \<Rightarrow> (case GetLicense (de_licensecheck env) (copy_of ls) of
             Inl err \<Rightarrow> (Some err, md1\<lparr>am_License := []\<rparr>) | Inr l \<Rightarrow> (None, md1\<lparr>am_License := l\<rparr>))))"

definition parseDataTar :: "deb_env \<Rightarrow> body_reader \<Rightarrow> ArtifactMetadata \<Rightarrow> go_error option \<times> ArtifactMetadata" where
  "parseDataTar env zf md =
     (case de_tar env zf of (members, err) \<Rightarrow>
        tar_members (\<lambda>name r md. if MatchString True reCopyright True name then parseCopyright env r md else (None, md))
          err members md)"

section \<open>The package\<close>

definition getDebianBinaryVersion :: "body_reader \<Rightarrow> string" where
  "getDebianBinaryVersion af =
     (case scan_lines max_token (br_data af) of [] \<Rightarrow> [] | line # _ \<Rightarrow> strings_TrimSpace line)"

definition with_reader ::
  "body_reader result \<Rightarrow> (body_reader \<Rightarrow> ArtifactMetadata \<Rightarrow> go_error option \<times> ArtifactMetadata) \<Rightarrow> ArtifactMetadata
     \<Rightarrow> go_error option \<times> ArtifactMetadata" where
  "with_reader r parse md = (case r of Inl err \<Rightarrow> (Some err, md) | Inr zf \<Rightarrow> parse zf md)"

definition deb_member :: "deb_env \<Rightarrow> string \<Rightarrow> body_reader \<Rightarrow> ArtifactMetadata \<Rightarrow> go_error option \<times> ArtifactMetadata" where
  "deb_member env name af md =
     (if name = ''debian-binary'' then
        (let ver = getDebianBinaryVersion af in
         if ver \<noteq> ''2.0'' then (Some (Errorf (''unknown debian binary version '' @ [CHR 0x27] @ ver @ [CHR 0x27])), md) else (None, md))
      else if name = ''control.tar.gz'' then with_reader (de_gzip env af) (parseControlTar env) md
      else if name = ''control.tar.xz'' then with_reader (de_xz env af) (parseControlTar env) md
      else if name = ''control.tar.zst'' \<or> name = ''control.tar.zstd'' then with_reader (de_zstd env af) (parseControlTar env) md
      else if name = ''control.tar'' then parseControlTar env af md
      else if name = ''data.tar.gz'' then with_reader (de_gzip env af) (parseDataTar env) md
      else if name = ''data.tar.xz'' then with_reader (de_xz env af) (parseDataTar env) md
      else if name = ''data.tar.zst'' \<or> name = ''data.tar.zstd'' then with_reader (de_zstd env af) (parseDataTar env) md
      else if name = ''data.tar'' then parseDataTar env af md
      else (None, md))"

fun ar_members :: "deb_env \<Rightarrow> go_error \<Rightarrow> (string \<times> body_reader) list \<Rightarrow> ArtifactMetadata \<Rightarrow> go_error option \<times> ArtifactMetadata" where
  "ar_members env err [] md = (if err = archive_EOF then (None, md) else (Some (ErrWrap ''ar parse error'' err), md))"
| "ar_members env err ((name, af) # rest) md =
     (case deb_member env name af md of (Some e, md') \<Rightarrow> (Some e, md') | (None, md') \<Rightarrow> ar_members env err rest md')"

definition readDebMetadata :: "deb_env \<Rightarrow> string \<Rightarrow> ArtifactMetadata \<Rightarrow> go_error option \<times> ArtifactMetadata" where
  "readDebMetadata env f md =
     (case de_ar env f of (members, err) \<Rightarrow>
        (case ar_members env err members md of (Some e, md') \<Rightarrow> (Some e, md')
         | (None, md') \<Rightarrow>
           (if am_Name md' = [] \<or> am_Version md' = []
            then (Some (Errorf ''cannot read name and version from control metadata''), md') else (None, md'))))"

section \<open>The inspector\<close>

abbreviation ID_deb :: string where "ID_deb \<equiv> ''deb''"

definition Deb_InspectRequest :: "deb_env \<Rightarrow> AptInspectorConfig \<Rightarrow> Artifact \<Rightarrow> go_error option \<times> Artifact" where
  "Deb_InspectRequest env cfg a =
     (case de_Parse env (DownloadURL a) of Inl err \<Rightarrow> (Some (Errorf (''cannot parse URL: '' @ err_Error err)), a)
      | Inr u \<Rightarrow> (None,
        (case NewDebPackageURLInfo u cfg of
           Inr info \<Rightarrow> annotate_request ID_deb
             [(''repository'', AnyString (db_Repository info)), (''component'', AnyString (db_Component info)),
              (''name'', AnyString (db_Name info)), (''version'', AnyString (db_Version info)),
              (''architecture'', AnyString (db_Architecture info))]
             (SetRequestPending ID_deb ''valid URL for deb package'' a)
         | Inl _ \<Rightarrow> a)))"

text \<open>A panic while the package is read is not an error of \<^verbatim>\<open>readDebMetadata\<close>: it leaves the inspector.\<close>

definition Deb_InspectArtifact :: "deb_env \<Rightarrow> string \<Rightarrow> 'w \<Rightarrow> Artifact \<Rightarrow> go_error option \<times> Artifact \<times> 'w" where
  "Deb_InspectArtifact env f w a =
     (if \<not> MimetypeIs a mt_DebianBinaryPackage then (None, a, w)
      else (case readDebMetadata env f NoMetadata of
          (Some err, md) \<Rightarrow>
            (if err = runtime_panic then (Some err, a, w)
             else (None, SetResponseRejected ID_deb (err_Error err) md a, w))
        | (None, md) \<Rightarrow>
          (case ResponseBoolAnnotation a ''apt.packages'' ''packages-is-valid'' of
             (_, False) \<Rightarrow> (None, SetResponseRejected ID_deb ''deb file not verified against Packages file'' md a, w)
           | (valid, True) \<Rightarrow>
             (if \<not> valid then (None, SetResponseRejected ID_deb ''deb file listed in invalid Packages file'' md a, w)
              else (None, SetResponseApproved ID_deb
                      ''deb package successfully parsed and listed in valid Packages file'' md a, w)))))"

definition DebInspector :: "deb_env \<Rightarrow> AptInspectorConfig \<Rightarrow> 'w Inspector" where
  "DebInspector env cfg = \<lparr>ins_ID = ID_deb,
     ins_InspectRequest = Deb_InspectRequest env cfg,
     ins_InspectArtifact = Deb_InspectArtifact env\<rparr>"

interpretation deb_inspector: inspector "DebInspector env cfg"
  by unfold_locales
     (auto simp: DebInspector_def Deb_InspectRequest_def Deb_InspectArtifact_def Let_def insp_frame
        split: sum.splits option.splits prod.splits bool.splits if_splits intro!: insp_frame)

section \<open>Descriptions\<close>

text \<open>The only panic is an empty description.\<close>

definition describes_nothing :: "string \<Rightarrow> bool" where
  "describes_nothing line \<longleftrightarrow> line \<noteq> [] \<and> hd line \<noteq> CHR '' '' \<and>
     (case strings_Cut line CHR '':'' of None \<Rightarrow> False | Some (k, w) \<Rightarrow> k = ''Description'' \<and> strings_TrimSpace w = [])"

lemma control_field_panic:
  "control_field env k v md = Inl e \<longleftrightarrow> e = runtime_panic \<and> k = ''Description'' \<and> v = []"
  by (auto simp: control_field_def)

lemma control_field_empty: "control_field env ''Description'' [] md = Inl runtime_panic"
  by (simp add: control_field_def)

lemma control_loop_panic:
  "control_loop env md ls = Inl e \<longleftrightarrow>
     e = runtime_panic \<and> (\<exists>l \<in> set (takeWhile (\<lambda>l. l \<noteq> []) ls). describes_nothing l)"
proof (induction ls arbitrary: md)
  case (Cons l ls)
  show ?case
  proof (cases "l = [] \<or> hd l = CHR '' '' \<or> strings_Cut l CHR '':'' = None")
    case True
    then have "\<not> describes_nothing l" by (auto simp: describes_nothing_def)
    with True Cons.IH show ?thesis by (auto split: option.splits)
  next
    case False
    then obtain k w where c: "strings_Cut l CHR '':'' = Some (k, w)" "l \<noteq> []" "hd l \<noteq> CHR '' ''" by force
    then have "describes_nothing l \<longleftrightarrow> k = ''Description'' \<and> strings_TrimSpace w = []"
      by (simp add: describes_nothing_def)
    with c Cons.IH show ?thesis
      by (cases "control_field env k (strings_TrimSpace w) md") (auto simp: control_field_panic control_field_empty)
  qed
qed simp

end
