(* ===== verification/Apt_Contract.thy ===== *)
theory Apt_Contract
  imports Apt_Indexes Deb
begin

text \<open>
  The four APT inspectors keep the contract of inspectors, and what each of them can leave behind: the
  facts the trust argument of \<^verbatim>\<open>Apt_Chain\<close> rests on.
\<close>

section \<open>The contract of inspectors\<close>

lemma index_request_frame [insp_frame]:
  "request_frame {ID_release} a (index_request env cfg st kind repository suite name notes a)"
  by (auto simp: index_request_def split: option.splits intro!: insp_frame)

lemma AptRelease_request_frame: "request_frame {ID_release} a (snd (AptRelease_InspectRequest env cfg st a))"
  by (auto simp: AptRelease_InspectRequest_def split: sum.splits intro!: insp_frame)

lemma validate_index_frame [insp_frame]:
  "response_frame {ID_release} a (validate_index env cfg kind cs repository suite md st a)"
  by (auto simp: validate_index_def split: prod.splits bool.splits option.splits intro!: insp_frame)

lemma validate_files_frame [insp_frame]:
  "response_frame {ID_release} a (snd (validatePackagesFile env cfg st a))"
  "response_frame {ID_release} a (snd (validateTranslationFile env cfg st a))"
  "response_frame {ID_release} a (snd (validateCommandsFile env cfg st a))"
  by (auto simp: validatePackagesFile_def validateTranslationFile_def validateCommandsFile_def Let_def
      split: sum.splits intro!: insp_frame)

lemma inspect_release_text_frame [insp_frame]:
  "response_frame {ID_release} a (fst (snd (inspect_release_text env cfg name errs notes text st a)))"
  by (auto simp: inspect_release_text_def Let_def split: sum.splits prod.splits intro!: insp_frame)

lemma inspect_release_file_frame [insp_frame]:
  "response_frame {ID_release} a (fst (snd (inspect_release_file env cfg f st a)))"
  by (auto simp: inspect_release_file_def Let_def split: prod.splits bool.splits option.splits intro!: insp_frame)

lemma AptRelease_response_frame: "response_frame {ID_release} a (fst (snd (AptRelease_InspectArtifact env cfg f st a)))"
  using validate_files_frame [of a env cfg st]
  by (auto simp: AptRelease_InspectArtifact_def split: prod.splits intro!: insp_frame)

interpretation apt_release: inspector "AptReleaseInspector env cfg st"
  by unfold_locales (simp_all add: AptReleaseInspector_def AptRelease_request_frame AptRelease_response_frame)

lemma AptPackages_request_frame: "request_frame {ID_packages} a (snd (AptPackages_InspectRequest env cfg a))"
  by (auto simp: AptPackages_InspectRequest_def split: sum.splits intro!: insp_frame)

lemma validateDebianPackage_frame [insp_frame]:
  "response_frame {ID_packages} a (snd (validateDebianPackage env cfg st a))"
  by (auto simp: validateDebianPackage_def Let_def split: sum.splits prod.splits bool.splits option.splits intro!: insp_frame)

lemma inspect_packages_entries_frame [insp_frame]:
  "response_frame {ID_packages} a (fst (snd (inspect_packages_entries env f origin path pkg md st a)))"
  by (auto simp: inspect_packages_entries_def Let_def split: sum.splits prod.splits bool.splits intro!: insp_frame)

lemma AptPackages_response_frame: "response_frame {ID_packages} a (fst (snd (AptPackages_InspectArtifact env cfg f st a)))"
proof (cases "MimetypeIs a mt_DebianBinaryPackage")
  case True
  with validateDebianPackage_frame [of a env cfg st] show ?thesis
    by (simp add: AptPackages_InspectArtifact_def split_beta)
next
  case False
  then show ?thesis
    by (auto simp: AptPackages_InspectArtifact_def Let_def
        split: sum.splits prod.splits bool.splits option.splits intro!: insp_frame)
qed

interpretation apt_packages: inspector "AptPackagesInspector env cfg"
  by unfold_locales (simp_all add: AptPackagesInspector_def AptPackages_request_frame AptPackages_response_frame)

interpretation apt_translations: inspector "AptTranslationInspector env cfg"
  by unfold_locales
     (auto simp: AptTranslationInspector_def AptTranslation_InspectRequest_def AptTranslation_InspectArtifact_def Let_def
        split: sum.splits prod.splits bool.splits intro!: insp_frame)

interpretation apt_commands: inspector "AptCommandsInspector env cfg"
  by unfold_locales
     (auto simp: AptCommandsInspector_def AptCommands_InspectRequest_def AptCommands_InspectArtifact_def Let_def
        split: sum.splits prod.splits bool.splits intro!: insp_frame)

end
