(* ===== verification/Apt_Chain.thy ===== *)
theory Apt_Chain
  imports Apt_Contract
begin

text \<open>
  The chain of trust of APT: what the approval of a Debian package or of an index file rests on, in
  every interleaving of the inspections of a session.
\<close>

section \<open>Authenticity\<close>

text \<open>
  \<open>H\<close> is the digest function. A release file is authentic when its entries were read, without format
  error, from a text that a key of a configured repository signed. An authentic release lists files by
  their digest; a \<^verbatim>\<open>Packages\<close> file lists packages by theirs.
\<close>

definition authentic_release ::
  "('k, 's) apt_env \<Rightarrow> AptInspectorConfig \<Rightarrow> (string \<Rightarrow> Sha256Digest) \<Rightarrow> releaseFile \<Rightarrow> bool" where
  "authentic_release env cfg H rel \<longleftrightarrow>
     (\<exists>name r d body flds sc. map_get cfg name = Some r \<and> signed_text (ae_pgp env) (repo_PublicKey r) d body \<and>
        rf_Sha256 rel = H d \<and> parseUpToSignatures 0 [] (scan_lines max_token body) = Inr (flds, sc) \<and>
        \<not> isMissingFields flds \<and> parseSignaturesSection [] [] sc = Inr ([], rf_Files rel))"

definition release_lists ::
  "('k, 's) apt_env \<Rightarrow> AptInspectorConfig \<Rightarrow> (string \<Rightarrow> Sha256Digest) \<Rightarrow> Sha256Digest \<Rightarrow> bool" where
  "release_lists env cfg H digest \<longleftrightarrow>
     (\<exists>rel. authentic_release env cfg H rel \<and> map_get (rf_Files rel) digest \<noteq> None)"

definition packages_list ::
  "('k, 's) apt_env \<Rightarrow> (string \<Rightarrow> Sha256Digest) \<Rightarrow> Sha256Digest \<Rightarrow> Sha256Digest \<Rightarrow> aptPackagesEntry \<Rightarrow> bool" where
  "packages_list env H pdigest digest e \<longleftrightarrow>
     (\<exists>f r num entries. H f = pdigest \<and> compressedReader env f = Inr r \<and> packages_of r = Inr (num, entries) \<and>
        map_get entries digest = Some e)"

definition authentic_deb ::
  "('k, 's) apt_env \<Rightarrow> AptInspectorConfig \<Rightarrow> (string \<Rightarrow> Sha256Digest) \<Rightarrow> Sha256Digest \<Rightarrow> int \<Rightarrow> bool" where
  "authentic_deb env cfg H digest sz \<longleftrightarrow>
     (\<exists>pdigest e. release_lists env cfg H pdigest \<and> packages_list env H pdigest digest e \<and> pe_Size e = sz)"

section \<open>The state of the inspectors\<close>

definition apt_inv :: "('k, 's) apt_env \<Rightarrow> AptInspectorConfig \<Rightarrow> (string \<Rightarrow> Sha256Digest) \<Rightarrow> apt_state \<Rightarrow> bool" where
  "apt_inv env cfg H st \<longleftrightarrow>
     (\<forall>repo rel. map_get (st_release st) repo = Some rel \<longrightarrow> authentic_release env cfg H rel) \<and>
     (\<forall>digest \<in> set (st_validated st). release_lists env cfg H digest) \<and>
     (\<forall>origin ps path pkg digest e. map_get (st_packages st) origin = Some ps \<longrightarrow> (path, pkg) \<in> set ps \<longrightarrow>
        getPackagesEntry pkg digest = Some e \<longrightarrow> packages_list env H (ap_sha256 pkg) digest e)"

lemma apt_inv_init [simp]: "apt_inv env cfg H new_apt_state"
  by (simp add: apt_inv_def new_apt_state_def)

lemma apt_inv_setReleaseState:
  "apt_inv env cfg H st \<Longrightarrow> authentic_release env cfg H rel \<Longrightarrow> apt_inv env cfg H (setReleaseState repo rel st)"
  by (auto simp: apt_inv_def setReleaseState_def)

lemma apt_inv_validatePackages:
  "apt_inv env cfg H st \<Longrightarrow> release_lists env cfg H digest \<Longrightarrow> apt_inv env cfg H (validatePackages digest st)"
  by (auto simp: apt_inv_def validatePackages_def)

lemma apt_inv_addPackages:
  assumes inv: "apt_inv env cfg H st"
    and pkg: "\<And>digest e. getPackagesEntry pkg digest = Some e \<Longrightarrow> packages_list env H (ap_sha256 pkg) digest e"
  shows "apt_inv env cfg H (addPackages origin path pkg st)"
proof -
  let ?old = "case map_get (st_packages st) origin of None \<Rightarrow> [] | Some ps \<Rightarrow> ps"
  have "packages_list env H (ap_sha256 p) digest e"
    if "(q, p) \<in> set ?old" and "getPackagesEntry p digest = Some e" for q p digest e
    using that inv by (cases "map_get (st_packages st) origin") (auto simp: apt_inv_def)
  then have "packages_list env H (ap_sha256 p) digest e"
    if "(q, p) \<in> set (map_set path pkg ?old)" and "getPackagesEntry p digest = Some e" for q p digest e
    using set_map_set [OF that(1)] that(2) pkg by blast
  with inv show ?thesis by (auto simp: apt_inv_def addPackages_def Let_def split: if_splits)
qed

section \<open>What an inspection leaves of an artifact\<close>

text \<open>
  A response inspection of \<open>i\<close> changes its own entry only, annotations included, and declares no content
  type that the file did not have, apart from those in \<open>T\<close>.
\<close>

definition leaves :: "string \<Rightarrow> string set \<Rightarrow> Artifact \<Rightarrow> Artifact \<Rightarrow> bool" where
  "leaves i T a a' \<longleftrightarrow>
     (\<forall>j. j \<noteq> i \<longrightarrow> map_get (a_ResponseInspection a') j = map_get (a_ResponseInspection a) j) \<and>
     (\<forall>t. MimetypeIs a' t \<longrightarrow> MimetypeIs a t \<or> t \<in> T)"

named_theorems leaves_intros

lemma leaves_refl [leaves_intros]: "leaves i T a a"
  by (simp add: leaves_def)

lemma MimetypeIs_upd [simp]: "MimetypeIs (a\<lparr>a_ResponseInspection := x\<rparr>) t = MimetypeIs a t"
  by (simp add: MimetypeIs_def)

lemma leaves_annotate [leaves_intros]: "leaves i T a b \<Longrightarrow> leaves i T a (annotate_response i ann b)"
  by (auto simp: leaves_def annotate_response_def split: option.splits)

lemma MimetypeIs_setArtifactMetadata:
  "MimetypeIs (setArtifactMetadata m a) t \<Longrightarrow> MimetypeIs a t \<or> am_Type m \<noteq> [] \<and> am_Type m = t"
  by (auto simp: MimetypeIs_def setArtifactMetadata_def Let_def split: if_splits)

lemma am_Type_NoMetadata [simp]: "am_Type NoMetadata = []"
  by (simp add: NoMetadata_def)

lemma leaves_Set [leaves_intros]:
  assumes "am_Type m = [] \<or> MimetypeIs a (am_Type m) \<or> am_Type m \<in> T"
  shows "leaves i T a (SetResponseApproved i r m a)" "leaves i T a (SetResponseRejected i r m a)"
    "leaves i T a (SetResponseUnknown i r m a)"
  using assms MimetypeIs_setArtifactMetadata [of m a]
  by (auto simp: leaves_def SetResponseApproved_def SetResponseRejected_def SetResponseUnknown_def Let_def split: if_splits)

lemma validate_index_leaves [leaves_intros]:
  "MimetypeIs a (am_Type md) \<Longrightarrow> leaves ID_release T a (validate_index env cfg kind cs repository suite md st a)"
  by (auto simp: validate_index_def split: prod.splits bool.splits option.splits intro!: leaves_intros)

lemma validate_files_leaves:
  "MimetypeIs a mt_AptPackages \<Longrightarrow> leaves ID_release T a (snd (validatePackagesFile env cfg st a))"
  "MimetypeIs a mt_AptTranslation \<Longrightarrow> leaves ID_release T a (snd (validateTranslationFile env cfg st a))"
  "MimetypeIs a mt_AptCommands \<Longrightarrow> leaves ID_release T a (snd (validateCommandsFile env cfg st a))"
  by (auto simp: validatePackagesFile_def validateTranslationFile_def validateCommandsFile_def packages_metadata_def Let_def
      split: sum.splits intro!: leaves_intros)

lemma inspect_release_text_leaves [leaves_intros]:
  "leaves ID_release {mt_AptRelease} a (fst (snd (inspect_release_text env cfg name errs notes text st a)))"
  by (auto simp: inspect_release_text_def release_metadata_def Let_def split: sum.splits prod.splits intro!: leaves_intros)

lemma inspect_release_file_leaves:
  "leaves ID_release {mt_AptRelease} a (fst (snd (inspect_release_file env cfg f st a)))"
  by (auto simp: inspect_release_file_def Let_def split: prod.splits bool.splits option.splits intro!: leaves_intros)

lemma AptRelease_leaves: "leaves ID_release {mt_AptRelease} a (fst (snd (AptRelease_InspectArtifact env cfg f st a)))"
  using validate_files_leaves [of a "{mt_AptRelease}" env cfg st] inspect_release_file_leaves [of a env cfg f st]
  by (auto simp: AptRelease_InspectArtifact_def split: prod.splits intro!: leaves_intros)

lemma validateDebianPackage_leaves:
  "MimetypeIs a mt_DebianBinaryPackage \<Longrightarrow> leaves ID_packages T a (snd (validateDebianPackage env cfg st a))"
  by (auto simp: validateDebianPackage_def Let_def split: sum.splits prod.splits bool.splits option.splits intro!: leaves_intros)

lemma inspect_packages_entries_leaves [leaves_intros]:
  "MimetypeIs a (am_Type md) \<Longrightarrow> leaves ID_packages T a (fst (snd (inspect_packages_entries env f origin path pkg md st a)))"
  by (auto simp: inspect_packages_entries_def Let_def split: sum.splits prod.splits bool.splits intro!: leaves_intros)

lemma AptPackages_leaves: "leaves ID_packages T a (fst (snd (AptPackages_InspectArtifact env cfg f st a)))"
proof (cases "MimetypeIs a mt_DebianBinaryPackage")
  case True
  with validateDebianPackage_leaves [OF this, of T env cfg st] show ?thesis
    by (simp add: AptPackages_InspectArtifact_def split_beta)
next
  case False
  then show ?thesis
    by (auto simp: AptPackages_InspectArtifact_def Let_def
        split: sum.splits prod.splits bool.splits option.splits intro!: leaves_intros)
qed

lemma AptTranslation_leaves: "leaves ID_translations T a (fst (snd (AptTranslation_InspectArtifact env f st a)))"
  by (auto simp: AptTranslation_InspectArtifact_def with_vendor_def Let_def
      split: sum.splits prod.splits bool.splits intro!: leaves_intros)

lemma AptCommands_leaves: "leaves ID_commands T a (fst (snd (AptCommands_InspectArtifact env f st a)))"
  by (auto simp: AptCommands_InspectArtifact_def with_vendor_def Let_def
      split: sum.splits prod.splits bool.splits intro!: leaves_intros)

section \<open>What the release inspector learns\<close>

definition index_type :: "Artifact \<Rightarrow> bool" where
  "index_type a \<longleftrightarrow> MimetypeIs a mt_AptPackages \<or> MimetypeIs a mt_AptTranslation \<or> MimetypeIs a mt_AptCommands"

abbreviation release_noted :: "Artifact \<Rightarrow> bool" where
  "release_noted a \<equiv> snd (ResponseStringAnnotation a ID_release ''release-file'')"

lemma release_noted_cong:
  "map_get (a_ResponseInspection a') ID_release = map_get (a_ResponseInspection a) ID_release \<Longrightarrow> release_noted a' = release_noted a"
  by (simp add: ResponseStringAnnotation_def inspectionAnnotation_def)

lemma not_noted: "map_get (a_ResponseInspection a) ID_release = None \<Longrightarrow> \<not> release_noted a"
  by (simp add: ResponseStringAnnotation_def inspectionAnnotation_def)

lemma annotation_after_set:
  "snd (ResponseStringAnnotation (annotate_response i ann (SetResponseRejected i r m a)) i k) \<longleftrightarrow>
     (\<exists>s. map_get (fold (\<lambda>(key, val). map_set key val) ann []) k = Some (AnyString s))"
  "snd (ResponseStringAnnotation (annotate_response i ann (SetResponseUnknown i r m a)) i k) \<longleftrightarrow>
     (\<exists>s. map_get (fold (\<lambda>(key, val). map_set key val) ann []) k = Some (AnyString s))"
  "\<not> snd (ResponseStringAnnotation (SetResponseRejected i r m a) i k)"
  by (auto simp: ResponseStringAnnotation_def inspectionAnnotation_def Inspection_Annotate_def
      split: option.splits elim!: assert_string.elims)

lemma validate_index_noted:
  assumes "apt_inv env cfg H st" and "release_noted (validate_index env cfg kind cs repository suite md st a)"
  shows "release_lists env cfg H (Artifact_Sha256 a)"
proof -
  obtain rel entry where "map_get (st_release st) (fst (getRepositoryAlias env cfg (dists_repo repository suite)
      (fst (RequestStringAnnotation a ID_release ''cfg-name'')))) = Some rel"
    and "map_get (rf_Files rel) (Artifact_Sha256 a) = Some entry"
    using assms(2)
    by (auto simp: validate_index_def getReleaseState_def annotation_after_set split: prod.splits bool.splits option.splits if_splits)
  with assms(1) show ?thesis by (auto simp: apt_inv_def release_lists_def)
qed

lemma validate_files_noted:
  assumes "apt_inv env cfg H st"
  shows "release_noted (snd (validatePackagesFile env cfg st a)) \<Longrightarrow> map_get (a_ResponseInspection a) ID_release = None \<Longrightarrow>
      release_lists env cfg H (Artifact_Sha256 a)"
    and "release_noted (snd (validateTranslationFile env cfg st a)) \<Longrightarrow> map_get (a_ResponseInspection a) ID_release = None \<Longrightarrow>
      release_lists env cfg H (Artifact_Sha256 a)"
    and "release_noted (snd (validateCommandsFile env cfg st a)) \<Longrightarrow> map_get (a_ResponseInspection a) ID_release = None \<Longrightarrow>
      release_lists env cfg H (Artifact_Sha256 a)"
  using validate_index_noted [OF assms, of _ _ _ _ _ a]
  by (auto simp: validatePackagesFile_def validateTranslationFile_def validateCommandsFile_def Let_def annotation_after_set
      not_noted split: sum.splits if_splits)

lemma inspect_release_text_state:
  assumes "inspect_release_text env cfg name errs notes text st a = (e, a', st')"
  shows "st' = st \<or> errs = [] \<and> (\<exists>repo rel flds sc. st' = setReleaseState repo rel st \<and> rf_Sha256 rel = Artifact_Sha256 a \<and>
    parseUpToSignatures 0 [] (scan_lines max_token text) = Inr (flds, sc) \<and> \<not> isMissingFields flds \<and>
    parseSignaturesSection [] [] sc = Inr ([], rf_Files rel))"
proof (cases "parseUpToSignatures 0 [] (scan_lines max_token text)")
  case (Inr p)
  obtain flds sc where p: "p = (flds, sc)" by force
  show ?thesis
  proof (cases "isMissingFields flds \<or> (\<exists>x. parseSignaturesSection [] [] sc = Inl x)")
    case True
    with assms Inr p show ?thesis by (auto simp: inspect_release_text_def split: if_splits)
  next
    case False
    then obtain fe files where "parseSignaturesSection [] [] sc = Inr (fe, files)"
      by (cases "parseSignaturesSection [] [] sc") auto
    moreover from this False assms Inr p have "st' = st \<or> fe = [] \<and> errs = [] \<and> (\<exists>repo rel. st' = setReleaseState repo rel st \<and>
        rf_Sha256 rel = Artifact_Sha256 a \<and> rf_Files rel = files)"
      by (fastforce simp: inspect_release_text_def Let_def Annotation_Add_def split: if_splits)
    ultimately show ?thesis using Inr p False by blast
  qed
qed (use assms in \<open>simp add: inspect_release_text_def\<close>)

text \<open>A repository without configured key has no block to decode, so nothing is signed by it.\<close>

lemma no_key_no_text: "\<not> signed_text lib [] d body"
  by (rule signed_text_needs_key)
     (simp add: key_blocks_def strings_SplitAfter_def strings_TrimSpace_def split_after.simps)

lemma inspect_release_file_inv:
  assumes inv: "apt_inv env cfg H st" and dig: "Artifact_Sha256 a = H f"
    and res: "inspect_release_file env cfg f st a = (e, a', st')"
  shows "apt_inv env cfg H st'"
proof (cases "st' = st")
  case False
  let ?name = "fst (RequestStringAnnotation a ID_release ''cfg-name'')"
  let ?key = "case map_get cfg ?name of None \<Rightarrow> [] | Some r \<Rightarrow> repo_PublicKey r"
  obtain body nts where chk: "checkSignature (ae_pgp env) (Inr f) [] ?key = (body, None, nts)"
    and itx: "inspect_release_text env cfg ?name [] nts (case body of None \<Rightarrow> [] | Some b \<Rightarrow> b) st a = (e, a', st')"
    using res False
    by (auto simp: inspect_release_file_def Let_def split: prod.splits bool.splits option.splits if_splits
        dest!: inspect_release_text_state)
  from checkSignature_ok [OF chk] obtain b where b: "body = Some b" "signed_text (ae_pgp env) ?key f b" by blast
  then obtain r where r: "map_get cfg ?name = Some r" by (cases "map_get cfg ?name") (auto simp: no_key_no_text)
  from inspect_release_text_state [OF itx] False b(1)
  obtain repo rel flds sc where rel: "st' = setReleaseState repo rel st" "rf_Sha256 rel = H f"
    "parseUpToSignatures 0 [] (scan_lines max_token b) = Inr (flds, sc)" "\<not> isMissingFields flds"
    "parseSignaturesSection [] [] sc = Inr ([], rf_Files rel)"
    by (auto simp: dig)
  have "authentic_release env cfg H rel"
    unfolding authentic_release_def using r b(2) rel(2-5) by (intro exI conjI) auto
  with inv rel(1) show ?thesis by (simp add: apt_inv_setReleaseState)
qed (use inv in simp)

lemma AptRelease_result:
  assumes inv: "apt_inv env cfg H st" and dig: "Artifact_Sha256 a = H f"
    and fresh: "map_get (a_ResponseInspection a) ID_release = None"
    and res: "AptRelease_InspectArtifact env cfg f st a = (e, a', st')"
  shows "apt_inv env cfg H st' \<and> (release_noted a' \<longrightarrow> release_lists env cfg H (H f) \<or> \<not> index_type a')"
proof (cases "index_type a")
  case True
  with res validate_files_noted [OF inv, of a] fresh dig inv show ?thesis
    by (auto simp: AptRelease_InspectArtifact_def index_type_def split: if_splits prod.splits)
next
  case False
  then have "\<not> index_type a'"
    using AptRelease_leaves [of a env cfg f st] res by (auto simp: leaves_def index_type_def)
  moreover have "apt_inv env cfg H st'"
    using res False inv dig by (auto simp: AptRelease_InspectArtifact_def index_type_def split: if_splits dest: inspect_release_file_inv)
  ultimately show ?thesis by blast
qed

section \<open>What the packages inspector learns\<close>

abbreviation valid_noted :: "Artifact \<Rightarrow> bool" where
  "valid_noted a \<equiv> ResponseBoolAnnotation a ID_packages ''packages-is-valid'' = (True, True)"

lemma valid_noted_cong:
  "map_get (a_ResponseInspection a') ID_packages = map_get (a_ResponseInspection a) ID_packages \<Longrightarrow> valid_noted a' = valid_noted a"
  by (simp add: ResponseBoolAnnotation_def inspectionAnnotation_def)

lemma valid_needs_entry: "valid_noted a \<Longrightarrow> opinion_of (a_ResponseInspection a) ID_packages \<noteq> None"
  by (auto simp: ResponseBoolAnnotation_def inspectionAnnotation_def opinion_of_def split: option.splits)

lemma valid_noted_after_set:
  "valid_noted (annotate_response ID_packages ann (SetResponseRejected ID_packages r m a)) \<longleftrightarrow>
     map_get (fold (\<lambda>(key, val). map_set key val) ann []) ''packages-is-valid'' = Some (AnyBool True)"
  "valid_noted (annotate_response ID_packages ann (SetResponseApproved ID_packages r m a)) \<longleftrightarrow>
     map_get (fold (\<lambda>(key, val). map_set key val) ann []) ''packages-is-valid'' = Some (AnyBool True)"
  by (auto simp: ResponseBoolAnnotation_def inspectionAnnotation_def Inspection_Annotate_def
      split: option.splits elim!: assert_bool.elims)

lemma find_listing_Some:
  "find_listing ps digest = Some (pkg, e) \<Longrightarrow> \<exists>path. (path, pkg) \<in> set ps \<and> getPackagesEntry pkg digest = Some e"
  by (induction ps digest rule: find_listing.induct) (auto split: option.splits)

lemma validateDebianPackage_result:
  assumes inv: "apt_inv env cfg H st" and fresh: "opinion_of (a_ResponseInspection a) ID_packages = None"
    and res: "validateDebianPackage env cfg st a = (e, a')"
  shows "opinion_of (a_ResponseInspection a') ID_packages \<noteq> Some Approved \<and>
    (opinion_of (a_ResponseInspection a') ID_packages \<in> {None, Some Rejected} \<or>
       authentic_deb env cfg H (Artifact_Sha256 a) (Artifact_Size a))"
proof (cases "opinion_of (a_ResponseInspection a') ID_packages \<in> {None, Some Rejected}")
  case False
  then obtain origin ps pkg entry
    where ps: "map_get (st_packages st) origin = Some ps" and "find_listing ps (Artifact_Sha256 a) = Some (pkg, entry)"
      and val: "isValidPackages st (ap_sha256 pkg)" and sz: "pe_Size entry = Artifact_Size a"
      and unk: "opinion_of (a_ResponseInspection a') ID_packages = Some Unknown"
    using res fresh
    by (auto simp: validateDebianPackage_def Let_def split: sum.splits prod.splits bool.splits option.splits if_splits)
  then obtain path where "(path, pkg) \<in> set ps" "getPackagesEntry pkg (Artifact_Sha256 a) = Some entry"
    by (auto dest: find_listing_Some)
  with inv ps have "packages_list env H (ap_sha256 pkg) (Artifact_Sha256 a) entry" by (auto simp: apt_inv_def)
  moreover from inv val have "release_lists env cfg H (ap_sha256 pkg)" by (auto simp: apt_inv_def isValidPackages_def)
  ultimately show ?thesis using sz unk by (auto simp: authentic_deb_def)
qed auto

lemma inspect_packages_entries_result:
  assumes inv: "apt_inv env cfg H st" and dig: "Artifact_Sha256 a = H f" and pkg: "ap_sha256 pkg = H f"
    and noted: "release_noted a \<Longrightarrow> release_lists env cfg H (H f)"
    and fresh: "opinion_of (a_ResponseInspection a) ID_packages = None"
    and res: "inspect_packages_entries env f origin path pkg md st a = (e, a', st')"
  shows "apt_inv env cfg H st' \<and>
    (opinion_of (a_ResponseInspection a') ID_packages \<in> {None, Some Rejected} \<or> release_lists env cfg H (H f)) \<and> \<not> valid_noted a'"
proof -
  have nv: "\<not> valid_noted a" using fresh valid_needs_entry by blast
  consider (fail) "\<exists>x. compressedReader env f = Inl x" | (bad) r x where "compressedReader env f = Inr r" "packages_of r = Inl x"
    | (ok) r num entries where "compressedReader env f = Inr r" "packages_of r = Inr (num, entries)"
    by (metis surj_pair sum.exhaust)
  then show ?thesis
  proof cases
    case fail
    with res nv inv fresh show ?thesis by (auto simp: inspect_packages_entries_def Let_def)
  next
    case bad
    with res inv show ?thesis by (auto simp: inspect_packages_entries_def Let_def valid_noted_after_set)
  next
    case ok
    then have "apt_inv env cfg H (addPackages origin path (pkg\<lparr>ap_entries := entries\<rparr>) st)"
      by (intro apt_inv_addPackages inv) (auto simp: packages_list_def getPackagesEntry_def pkg)
    with res ok noted dig show ?thesis
      by (cases "ResponseStringAnnotation a ID_release ''release-file''"; cases "release_noted a")
         (auto simp: inspect_packages_entries_def Let_def valid_noted_after_set apt_inv_validatePackages Annotation_Add_def)
  qed
qed

lemma AptPackages_result:
  assumes inv: "apt_inv env cfg H st" and dig: "Artifact_Sha256 a = H f"
    and noted: "release_noted a \<longrightarrow> release_lists env cfg H (H f) \<or> \<not> index_type a"
    and fresh: "opinion_of (a_ResponseInspection a) ID_packages = None"
    and res: "AptPackages_InspectArtifact env cfg f st a = (e, a', st')"
  shows "apt_inv env cfg H st' \<and>
    (opinion_of (a_ResponseInspection a') ID_packages = Some Approved \<longrightarrow> release_lists env cfg H (H f)) \<and>
    (valid_noted a' \<longrightarrow> opinion_of (a_ResponseInspection a') ID_packages = Some Rejected \<or>
       authentic_deb env cfg H (H f) (Artifact_Size a))"
proof -
  have nv: "\<not> valid_noted a" using fresh valid_needs_entry by blast
  have st0: "apt_inv env cfg H (addPackages origin path (newAptPackages d origin s c m) st)" for origin path d s c m
    using inv by (rule apt_inv_addPackages) (simp add: newAptPackages_def getPackagesEntry_def)
  consider (deb) "MimetypeIs a mt_DebianBinaryPackage"
    | (other) "\<not> MimetypeIs a mt_DebianBinaryPackage" "\<not> MimetypeIs a mt_AptPackages"
    | (pkgs) "\<not> MimetypeIs a mt_DebianBinaryPackage" "MimetypeIs a mt_AptPackages" by blast
  then show ?thesis
  proof cases
    case deb
    with res have "validateDebianPackage env cfg st a = (e, a')" "st' = st"
      by (auto simp: AptPackages_InspectArtifact_def split: prod.splits)
    with validateDebianPackage_result [OF inv fresh this(1)] inv dig valid_needs_entry [of a'] show ?thesis by auto
  next
    case other
    with res inv nv fresh show ?thesis by (auto simp: AptPackages_InspectArtifact_def)
  next
    case pkgs
    then have noted': "release_noted a \<Longrightarrow> release_lists env cfg H (H f)" using noted by (auto simp: index_type_def)
    have sub: ?thesis if eq: "inspect_packages_entries env f origin path (newAptPackages (H f) origin s c m) md
        (addPackages origin path (newAptPackages (H f) origin s c m) st) a = (e, a', st')" for origin path s c m md
    proof -
      have "ap_sha256 (newAptPackages (H f) origin s c m) = H f" by (simp add: newAptPackages_def)
      from inspect_packages_entries_result [OF st0 dig this _ fresh eq] noted' show ?thesis by auto
    qed
    have setu: "\<not> valid_noted (SetResponseUnknown ID_packages r m a)" "\<not> valid_noted (SetResponseRejected ID_packages r m a)" for r m
      by (auto simp: ResponseBoolAnnotation_def inspectionAnnotation_def)
    have "st' = st \<and> opinion_of (a_ResponseInspection a') ID_packages \<noteq> Some Approved \<and> \<not> valid_noted a' \<or>
      (\<exists>origin path s c m md. inspect_packages_entries env f origin path (newAptPackages (H f) origin s c m) md
        (addPackages origin path (newAptPackages (H f) origin s c m) st) a = (e, a', st'))"
      using pkgs res nv fresh
      by (auto simp: AptPackages_InspectArtifact_def Let_def dig setu valid_noted_after_set
          split: sum.splits prod.splits bool.splits option.splits)
    with inv sub show ?thesis by auto
  qed
qed

section \<open>What the other inspectors conclude\<close>

lemma index_approval:
  "AptTranslation_InspectArtifact env f st a = (e, a', st') \<Longrightarrow> st' = st \<and>
     (opinion_of (a_ResponseInspection a) ID_translations = None \<longrightarrow>
      opinion_of (a_ResponseInspection a') ID_translations = Some Approved \<longrightarrow> release_noted a \<and> index_type a)"
  "AptCommands_InspectArtifact env f st a = (e, a', st') \<Longrightarrow> st' = st \<and>
     (opinion_of (a_ResponseInspection a) ID_commands = None \<longrightarrow>
      opinion_of (a_ResponseInspection a') ID_commands = Some Approved \<longrightarrow> release_noted a \<and> index_type a)"
  by (auto simp: AptTranslation_InspectArtifact_def AptCommands_InspectArtifact_def index_type_def Let_def
      split: sum.splits prod.splits bool.splits if_splits)

lemma Deb_result:
  "Deb_InspectArtifact env f st a = (e, a', st') \<Longrightarrow> st' = st \<and>
     (opinion_of (a_ResponseInspection a) ID_deb = None \<longrightarrow>
      opinion_of (a_ResponseInspection a') ID_deb = Some Approved \<longrightarrow> valid_noted a)"
  by (auto simp: Deb_InspectArtifact_def split: prod.splits bool.splits if_splits option.splits)

lemma Deb_keeps: "j \<noteq> ID_deb \<Longrightarrow>
    map_get (a_ResponseInspection (fst (snd (Deb_InspectArtifact env f st a)))) j = map_get (a_ResponseInspection a) j"
  by (auto simp: Deb_InspectArtifact_def split: prod.splits bool.splits if_splits option.splits)

lemma Default_keeps: "j \<noteq> ''default'' \<Longrightarrow>
    map_get (a_ResponseInspection (fst (snd (Default_InspectArtifact f st a)))) j = map_get (a_ResponseInspection a) j"
  "snd (snd (Default_InspectArtifact f st a)) = st"
  by (auto simp: Default_InspectArtifact_def)

end
