(* ===== verification/Apt_Trust.thy ===== *)
theory Apt_Trust
  imports Apt_Chain
begin

text \<open>
  A session that fetches from APT repositories, as a sequence of events: a download starts, or the next
  inspector of a download runs. The inspections of different downloads interleave in any order; those of
  one download run in the order of the registry, first over the request and then over the file, with the
  loop bodies of the inspection engine.
\<close>

section \<open>Sessions\<close>

definition apt_inspectors ::
  "('k, 's) apt_env \<Rightarrow> deb_env \<Rightarrow> AptInspectorConfig \<Rightarrow> apt_state \<Rightarrow> apt_state Inspector list" where
  "apt_inspectors env denv cfg st =
     [AptReleaseInspector env cfg st, AptPackagesInspector env cfg, AptTranslationInspector env cfg,
      AptCommandsInspector env cfg, DebInspector denv cfg, DefaultInspector]"

definition apt_ids :: "string list" where
  "apt_ids = [ID_release, ID_packages, ID_translations, ID_commands, ID_deb, ''default'']"

record flight =
  fl_file :: string
  fl_art :: Artifact
  fl_reqs :: "string list"
  fl_todo :: "string list"

datatype apt_event = Fetch string string | Request nat | Response nat

type_synonym apt_session = "apt_state \<times> flight list"

text \<open>A download: its address and its content, of which the proxy computes digest and size and the engine the MIME type.\<close>

definition start_flight :: "(string \<Rightarrow> Sha256Digest) \<Rightarrow> (string \<Rightarrow> mime) \<Rightarrow> string \<Rightarrow> string \<Rightarrow> flight" where
  "start_flight H detect u f =
     \<lparr>fl_file = f,
      fl_art = NewArtifact\<lparr>a_CurrentDownload := zero_Download\<lparr>dl_URL := u\<rparr>,
        a_Metadata := zero_Metadata\<lparr>md_Sha256 := H f, md_Size := int (length f), md_Type := mime_String (detect f)\<rparr>,
        a_MimeType := Some (detect f)\<rparr>,
      fl_reqs = apt_ids, fl_todo = apt_ids\<rparr>"

fun apt_exec ::
  "insp_env \<Rightarrow> ('k, 's) apt_env \<Rightarrow> deb_env \<Rightarrow> AptInspectorConfig \<Rightarrow> bool \<Rightarrow> (string \<Rightarrow> Sha256Digest) \<Rightarrow> (string \<Rightarrow> mime)
     \<Rightarrow> apt_event \<Rightarrow> apt_session \<Rightarrow> apt_session" where
  "apt_exec ienv env denv cfg perm H detect (Fetch u f) (st, fls) = (st, fls @ [start_flight H detect u f])"
| "apt_exec ienv env denv cfg perm H detect (Request n) (st, fls) =
     (if n < length fls then
        (let fl = fls ! n; R = newInspectors perm (apt_inspectors env denv cfg st) in
         case fl_reqs fl of [] \<Rightarrow> (st, fls)
         | i # rest \<Rightarrow>
           (case run_request (insmap R) [i] (fl_art fl) of
              (None, a) \<Rightarrow> (st, fls[n := fl\<lparr>fl_art := a, fl_reqs := rest\<rparr>])
            | (Some _, a) \<Rightarrow> (st, fls[n := fl\<lparr>fl_art := a, fl_reqs := [], fl_todo := []\<rparr>])))
      else (st, fls))"
| "apt_exec ienv env denv cfg perm H detect (Response n) (st, fls) =
     (if n < length fls then
        (let fl = fls ! n; R = newInspectors perm (apt_inspectors env denv cfg st) in
         if fl_reqs fl \<noteq> [] then (st, fls)
         else (case fl_todo fl of [] \<Rightarrow> (st, fls)
           | i # rest \<Rightarrow>
             (case run_artifact ienv (insmap R) perm (fl_file fl) [i] st (fl_art fl) of
                (None, a, st') \<Rightarrow> (st', fls[n := fl\<lparr>fl_art := a, fl_todo := rest\<rparr>])
              | (Some _, a, st') \<Rightarrow> (st', fls[n := fl\<lparr>fl_art := a, fl_todo := []\<rparr>]))))
      else (st, fls))"

definition apt_run ::
  "insp_env \<Rightarrow> ('k, 's) apt_env \<Rightarrow> deb_env \<Rightarrow> AptInspectorConfig \<Rightarrow> bool \<Rightarrow> (string \<Rightarrow> Sha256Digest) \<Rightarrow> (string \<Rightarrow> mime)
     \<Rightarrow> apt_event list \<Rightarrow> apt_session" where
  "apt_run ienv env denv cfg perm H detect evs =
     fold (apt_exec ienv env denv cfg perm H detect) evs (new_apt_state, [])"

section \<open>One inspection\<close>

definition step_art :: "string \<Rightarrow> go_error option \<Rightarrow> Artifact \<Rightarrow> Artifact" where
  "step_art i e a = (case e of None \<Rightarrow> a
     | Some err \<Rightarrow> annotate_response i [(''error-message'', AnyString (err_Error err))]
         (SetResponseRejected i ''error inspecting artifact'' NoMetadata a))"

lemma apt_inspectors_ids [simp]: "map ins_ID (apt_inspectors env denv cfg st) = apt_ids"
  by (simp add: apt_inspectors_def apt_ids_def AptReleaseInspector_def AptPackagesInspector_def AptTranslationInspector_def
      AptCommandsInspector_def DebInspector_def DefaultInspector_def)

lemma apt_ids_distinct [simp]: "distinct apt_ids"
  by (simp add: apt_ids_def)

lemma apt_inspectors_ok: "ins \<in> set (apt_inspectors env denv cfg st) \<Longrightarrow> inspector ins"
  by (auto simp: apt_inspectors_def intro: apt_release.inspector_axioms apt_packages.inspector_axioms
      apt_translations.inspector_axioms apt_commands.inspector_axioms deb_inspector.inspector_axioms
      default_inspector.inspector_axioms)

lemma run_single:
  assumes "ins \<in> set (apt_inspectors env denv cfg st)" and "run_artifact ienv (insmap (newInspectors perm (apt_inspectors env denv cfg st)))
      perm f [ins_ID ins] st a = (e, a', st')"
  shows "a' = a \<and> st' = st \<or>
    (\<exists>b. ins_InspectArtifact ins f st a = (e, b, st') \<and> a' = step_art (ins_ID ins) e b)"
proof -
  from assms(1) have "map_get (insmap (newInspectors perm (apt_inspectors env denv cfg st))) (ins_ID ins) = Some ins"
    by (intro newInspectors_get) simp_all
  with assms(2) show ?thesis
    by (auto simp: step_art_def split: if_splits option.splits prod.splits)
qed

lemma step_art_opinion:
  "opinion_of (a_ResponseInspection (step_art i e b)) j =
     (if e \<noteq> None \<and> j = i then Some Rejected else opinion_of (a_ResponseInspection b) j)"
  by (auto simp: step_art_def split: option.splits)

lemma step_art_leaves: "leaves i T a b \<Longrightarrow> leaves i T a (step_art i e b)"
proof (cases e)
  case (Some err)
  assume "leaves i T a b"
  moreover have "leaves i {} b (step_art i e b)" unfolding step_art_def Some option.case by (intro leaves_intros) simp
  ultimately show ?thesis by (auto simp: leaves_def)
qed (simp add: step_art_def)

lemma step_art_digest [simp]:
  "Artifact_Sha256 (step_art i e b) = Artifact_Sha256 b" "Artifact_Size (step_art i e b) = Artifact_Size b"
  using response_frame_annotated(2) [of i "{i}" b _ "''error inspecting artifact''" NoMetadata]
  by (auto simp: step_art_def Artifact_Sha256_def Artifact_Size_def response_frame_def split: option.splits)

lemma step_art_noted:
  "release_noted (step_art ID_release e b) \<Longrightarrow> e = None \<and> release_noted b"
  "valid_noted (step_art ID_packages e b) \<Longrightarrow> e = None \<and> valid_noted b"
  by (auto simp: step_art_def annotation_after_set valid_noted_after_set split: option.splits)

section \<open>The invariant\<close>

text \<open>
  What a download may carry: \<^theory_text>\<open>trusted\<close> is what the approval of a package rests on. Annotations matter
  only as long as an inspector that reads them has still to run.
\<close>

definition trusted :: "('k, 's) apt_env \<Rightarrow> AptInspectorConfig \<Rightarrow> (string \<Rightarrow> Sha256Digest) \<Rightarrow> flight \<Rightarrow> bool" where
  "trusted env cfg H fl \<longleftrightarrow>
     opinion_of (a_ResponseInspection (fl_art fl)) ID_packages = Some Rejected \<or>
     authentic_deb env cfg H (H (fl_file fl)) (Artifact_Size (fl_art fl))"

definition annotations_inv :: "('k, 's) apt_env \<Rightarrow> AptInspectorConfig \<Rightarrow> (string \<Rightarrow> Sha256Digest) \<Rightarrow> flight \<Rightarrow> bool" where
  "annotations_inv env cfg H fl \<longleftrightarrow>
     (set (fl_todo fl) \<inter> {ID_packages, ID_translations, ID_commands} \<noteq> {} \<longrightarrow> release_noted (fl_art fl) \<longrightarrow>
        release_lists env cfg H (H (fl_file fl)) \<or> \<not> index_type (fl_art fl)) \<and>
     (ID_deb \<in> set (fl_todo fl) \<longrightarrow> valid_noted (fl_art fl) \<longrightarrow> trusted env cfg H fl)"

definition approvals_inv :: "('k, 's) apt_env \<Rightarrow> AptInspectorConfig \<Rightarrow> (string \<Rightarrow> Sha256Digest) \<Rightarrow> flight \<Rightarrow> bool" where
  "approvals_inv env cfg H fl \<longleftrightarrow>
     (opinion_of (a_ResponseInspection (fl_art fl)) ID_deb = Some Approved \<longrightarrow> trusted env cfg H fl) \<and>
     (\<forall>i \<in> {ID_packages, ID_translations, ID_commands}.
        opinion_of (a_ResponseInspection (fl_art fl)) i = Some Approved \<longrightarrow> release_lists env cfg H (H (fl_file fl)))"

definition flight_inv ::
  "('k, 's) apt_env \<Rightarrow> AptInspectorConfig \<Rightarrow> (string \<Rightarrow> Sha256Digest) \<Rightarrow> flight \<Rightarrow> bool" where
  "flight_inv env cfg H fl \<longleftrightarrow>
     Artifact_Sha256 (fl_art fl) = H (fl_file fl) \<and>
     (fl_todo fl = [] \<or> (\<exists>pre. apt_ids = pre @ fl_todo fl)) \<and>
     (\<forall>i \<in> set (fl_todo fl). opinion_of (a_ResponseInspection (fl_art fl)) i = None) \<and>
     annotations_inv env cfg H fl \<and> approvals_inv env cfg H fl"

lemma todo_cases:
  assumes "apt_ids = pre @ i # rest"
  shows "(i, rest) \<in> {(ID_release, [ID_packages, ID_translations, ID_commands, ID_deb, ''default'']),
    (ID_packages, [ID_translations, ID_commands, ID_deb, ''default'']), (ID_translations, [ID_commands, ID_deb, ''default'']),
    (ID_commands, [ID_deb, ''default'']), (ID_deb, [''default'']), (''default'', [])}"
  using assms by (auto simp: apt_ids_def Cons_eq_append_conv)

lemma flight_cases:
  assumes "flight_inv env cfg H fl" and "fl_todo fl = i # rest"
  shows "(i, rest) \<in> {(ID_release, [ID_packages, ID_translations, ID_commands, ID_deb, ''default'']),
    (ID_packages, [ID_translations, ID_commands, ID_deb, ''default'']), (ID_translations, [ID_commands, ID_deb, ''default'']),
    (ID_commands, [ID_deb, ''default'']), (ID_deb, [''default'']), (''default'', [])}"
proof -
  from assms obtain pre where "apt_ids = pre @ i # rest" by (auto simp: flight_inv_def)
  then show ?thesis by (rule todo_cases)
qed

text \<open>What an inspection of \<open>i\<close> leaves does not depend on the inspector.\<close>

lemma leaves_opinion: "leaves i T a b \<Longrightarrow> j \<noteq> i \<Longrightarrow> opinion_of (a_ResponseInspection b) j = opinion_of (a_ResponseInspection a) j"
  by (simp add: leaves_def opinion_of_def)

lemma leaves_release_noted: "leaves i T a b \<Longrightarrow> i \<noteq> ID_release \<Longrightarrow> release_noted b = release_noted a"
  by (rule release_noted_cong) (simp add: leaves_def)

lemma leaves_valid_noted: "leaves i T a b \<Longrightarrow> i \<noteq> ID_packages \<Longrightarrow> valid_noted b = valid_noted a"
  by (rule valid_noted_cong) (simp add: leaves_def)

lemma leaves_index: "leaves i {} a b \<Longrightarrow> index_type b \<Longrightarrow> index_type a"
  by (auto simp: leaves_def index_type_def)

text \<open>
  The step of a download from \<open>fl\<close> by the inspection of \<open>i\<close>, with the two parts of the invariant that depend on
  the inspector as premises.
\<close>

abbreviation inspected :: "flight \<Rightarrow> string \<Rightarrow> string list \<Rightarrow> go_error option \<Rightarrow> Artifact \<Rightarrow> flight" where
  "inspected fl i rest e b \<equiv> fl\<lparr>fl_art := step_art i e b, fl_todo := (if e = None then rest else [])\<rparr>"

lemma flight_step:
  assumes fl: "flight_inv env cfg H fl" and todo: "fl_todo fl = i # rest" and lv: "leaves i T (fl_art fl) (step_art i e b)"
    and dig: "Artifact_Sha256 b = Artifact_Sha256 (fl_art fl)"
    and ann: "e = None \<Longrightarrow> annotations_inv env cfg H (inspected fl i rest e b)" and app: "approvals_inv env cfg H (inspected fl i rest e b)"
  shows "flight_inv env cfg H (inspected fl i rest e b)"
proof -
  from fl todo obtain pre where pre: "apt_ids = pre @ i # rest" by (auto simp: flight_inv_def)
  have "i \<notin> set rest" using apt_ids_distinct unfolding pre by simp
  moreover have "\<forall>j \<in> set rest. opinion_of (a_ResponseInspection (fl_art fl)) j = None"
    using fl todo by (simp add: flight_inv_def)
  ultimately have "\<forall>j \<in> set rest. opinion_of (a_ResponseInspection (step_art i e b)) j = None"
    using leaves_opinion [OF lv] by metis
  moreover have "\<exists>pre. apt_ids = pre @ rest" using pre by (intro exI [of _ "pre @ [i]"]) simp
  moreover have "annotations_inv env cfg H (inspected fl i rest e b)"
    using ann by (cases e) (auto simp: annotations_inv_def)
  ultimately show ?thesis using fl dig app by (auto simp: flight_inv_def)
qed

lemma flight_step_release:
  assumes fl: "flight_inv env cfg H fl" and todo: "fl_todo fl = ID_release # rest" and st: "apt_inv env cfg H st"
    and res: "AptRelease_InspectArtifact env cfg (fl_file fl) st (fl_art fl) = (e, b, st')"
  shows "apt_inv env cfg H st' \<and> flight_inv env cfg H (inspected fl ID_release rest e b)"
proof -
  from flight_cases [OF fl todo] have rest: "rest = [ID_packages, ID_translations, ID_commands, ID_deb, ''default'']" by auto
  have fresh: "opinion_of (a_ResponseInspection (fl_art fl)) i = None" if "i \<in> set apt_ids" for i
    using fl todo that by (auto simp: flight_inv_def apt_ids_def rest)
  have dig: "Artifact_Sha256 (fl_art fl) = H (fl_file fl)" using fl by (simp add: flight_inv_def)
  have lv: "leaves ID_release {mt_AptRelease} (fl_art fl) (step_art ID_release e b)"
    using AptRelease_leaves [of "fl_art fl" env cfg "fl_file fl" st] res by (intro step_art_leaves) simp
  have fr: "Artifact_Sha256 b = Artifact_Sha256 (fl_art fl)"
    using AptRelease_response_frame [of "fl_art fl" env cfg "fl_file fl" st] res
    by (simp add: response_frame_def Artifact_Sha256_def)
  have "map_get (a_ResponseInspection (fl_art fl)) ID_release = None"
    using fresh [of ID_release] by (simp add: opinion_of_def apt_ids_def)
  from AptRelease_result [OF st dig this res]
  have r: "apt_inv env cfg H st'" "release_noted b \<longrightarrow> release_lists env cfg H (H (fl_file fl)) \<or> \<not> index_type b" by auto
  have op: "opinion_of (a_ResponseInspection (step_art ID_release e b)) j = None"
    if "j \<in> {ID_packages, ID_translations, ID_commands, ID_deb}" for j
    using leaves_opinion [OF lv, of j] fresh [of j] that by (auto simp: apt_ids_def)
  have nv: "\<not> valid_noted (step_art ID_release e b)"
    using valid_needs_entry op [of ID_packages] by blast
  have "flight_inv env cfg H (inspected fl ID_release rest e b)"
    using r(2) op nv
    by (intro flight_step [OF fl todo lv fr]) (auto simp: annotations_inv_def approvals_inv_def step_art_def)
  with r(1) show ?thesis by blast
qed

lemma flight_step_packages:
  assumes fl: "flight_inv env cfg H fl" and todo: "fl_todo fl = ID_packages # rest" and st: "apt_inv env cfg H st"
    and res: "AptPackages_InspectArtifact env cfg (fl_file fl) st (fl_art fl) = (e, b, st')"
  shows "apt_inv env cfg H st' \<and> flight_inv env cfg H (inspected fl ID_packages rest e b)"
proof -
  let ?a' = "step_art ID_packages e b"
  from flight_cases [OF fl todo] have rest: "rest = [ID_translations, ID_commands, ID_deb, ''default'']" by auto
  have fresh: "opinion_of (a_ResponseInspection (fl_art fl)) j = None" if "j \<in> set (ID_packages # rest)" for j
    using fl todo that by (auto simp: flight_inv_def)
  have dig: "Artifact_Sha256 (fl_art fl) = H (fl_file fl)" using fl by (simp add: flight_inv_def)
  have noted: "release_noted (fl_art fl) \<longrightarrow> release_lists env cfg H (H (fl_file fl)) \<or> \<not> index_type (fl_art fl)"
    using fl todo by (simp add: flight_inv_def annotations_inv_def)
  have lv: "leaves ID_packages {} (fl_art fl) ?a'"
    using AptPackages_leaves [of "{}" "fl_art fl" env cfg "fl_file fl" st] res by (intro step_art_leaves) simp
  have fr: "Artifact_Sha256 b = Artifact_Sha256 (fl_art fl)" "Artifact_Size ?a' = Artifact_Size (fl_art fl)"
    using AptPackages_response_frame [of "fl_art fl" env cfg "fl_file fl" st] res
    by (simp_all add: response_frame_def Artifact_Sha256_def) (simp add: Artifact_Size_def)
  from AptPackages_result [OF st dig noted fresh res] have r: "apt_inv env cfg H st'"
    "opinion_of (a_ResponseInspection b) ID_packages = Some Approved \<longrightarrow> release_lists env cfg H (H (fl_file fl))"
    "valid_noted b \<longrightarrow> opinion_of (a_ResponseInspection b) ID_packages = Some Rejected \<or>
       authentic_deb env cfg H (H (fl_file fl)) (Artifact_Size (fl_art fl))" by auto
  have op: "opinion_of (a_ResponseInspection ?a') j = None" if "j \<in> {ID_translations, ID_commands, ID_deb}" for j
    using leaves_opinion [OF lv, of j] fresh [of j] that by (auto simp: rest)
  have "annotations_inv env cfg H (inspected fl ID_packages rest e b)" if "e = None"
  proof -
    from that have b: "step_art ID_packages e b = b" by (simp add: step_art_def)
    have "release_noted b \<longrightarrow> release_lists env cfg H (H (fl_file fl)) \<or> \<not> index_type b"
      using noted leaves_release_noted [OF lv] leaves_index [OF lv] unfolding b by simp blast
    moreover have "valid_noted b \<longrightarrow> trusted env cfg H (inspected fl ID_packages rest e b)"
      using r(3) fr(2) unfolding b trusted_def by simp
    ultimately show ?thesis unfolding annotations_inv_def b by (simp add: that)
  qed
  moreover have "approvals_inv env cfg H (inspected fl ID_packages rest e b)"
    using op [of ID_deb] op [of ID_translations] op [of ID_commands] r(2) step_art_opinion [of ID_packages e b ID_packages]
    by (simp add: approvals_inv_def)
  ultimately show ?thesis using r(1) flight_step [OF fl todo lv fr(1)] by blast
qed

text \<open>Translations and command lists: an approval rests on the note of the release inspector.\<close>

lemma flight_step_index:
  assumes fl: "flight_inv env cfg H fl" and todo: "fl_todo fl = i # rest" and i: "i \<in> {ID_translations, ID_commands}"
    and lv: "leaves i {} (fl_art fl) b" and fr: "response_frame {i} (fl_art fl) b"
    and app: "opinion_of (a_ResponseInspection b) i = Some Approved \<Longrightarrow> release_noted (fl_art fl) \<and> index_type (fl_art fl)"
  shows "flight_inv env cfg H (inspected fl i rest e b)"
proof -
  let ?a' = "step_art i e b"
  from lv have lv': "leaves i {} (fl_art fl) ?a'" by (rule step_art_leaves)
  have dig: "Artifact_Sha256 b = Artifact_Sha256 (fl_art fl)" "Artifact_Size ?a' = Artifact_Size (fl_art fl)"
    using fr by (simp_all add: response_frame_def Artifact_Sha256_def) (simp add: Artifact_Size_def)
  have ids: "i \<noteq> ID_release" "i \<noteq> ID_packages" "i \<noteq> ID_deb" using i by auto
  have noted: "release_noted (fl_art fl) \<longrightarrow> release_lists env cfg H (H (fl_file fl)) \<or> \<not> index_type (fl_art fl)"
    using fl todo i by (auto simp: flight_inv_def annotations_inv_def)
  have tr: "trusted env cfg H (inspected fl i rest e b) = trusted env cfg H fl"
    using leaves_opinion [OF lv', of ID_packages] ids dig(2) by (simp add: trusted_def)
  have deb: "ID_deb \<in> set rest" using flight_cases [OF fl todo] i by auto
  have "annotations_inv env cfg H (inspected fl i rest e b)" if "e = None"
    using fl todo that tr noted leaves_release_noted [OF lv'] leaves_valid_noted [OF lv'] leaves_index [OF lv'] ids deb
    by (auto simp: annotations_inv_def flight_inv_def)
  moreover have "approvals_inv env cfg H (inspected fl i rest e b)"
    unfolding approvals_inv_def
  proof (intro conjI ballI impI)
    show "trusted env cfg H (inspected fl i rest e b)"
      if "opinion_of (a_ResponseInspection (fl_art (inspected fl i rest e b))) ID_deb = Some Approved"
      using that leaves_opinion [OF lv', of ID_deb] ids fl tr by (auto simp: flight_inv_def approvals_inv_def)
    show "release_lists env cfg H (H (fl_file (inspected fl i rest e b)))"
      if "opinion_of (a_ResponseInspection (fl_art (inspected fl i rest e b))) j = Some Approved"
        and "j \<in> {ID_packages, ID_translations, ID_commands}" for j
    proof (cases "j = i")
      case True
      with that(1) app noted show ?thesis by (auto simp: step_art_opinion split: if_splits)
    next
      case False
      with that leaves_opinion [OF lv', of j] fl show ?thesis by (auto simp: flight_inv_def approvals_inv_def)
    qed
  qed
  ultimately show ?thesis using flight_step [OF fl todo lv' dig(1)] by blast
qed

text \<open>After the packages inspector the annotations are not read any more, but for the deb inspector.\<close>

lemma flight_step_deb:
  assumes fl: "flight_inv env cfg H fl" and todo: "fl_todo fl = ID_deb # rest"
    and res: "Deb_InspectArtifact denv (fl_file fl) st (fl_art fl) = (e, b, st')"
  shows "st' = st \<and> flight_inv env cfg H (inspected fl ID_deb rest e b)"
proof -
  let ?a' = "step_art ID_deb e b"
  from flight_cases [OF fl todo] have rest: "rest = [''default'']" by auto
  have "leaves ID_deb UNIV (fl_art fl) b"
    using Deb_keeps [of _ denv "fl_file fl" st "fl_art fl"] res by (simp add: leaves_def)
  then have lv: "leaves ID_deb UNIV (fl_art fl) ?a'" by (rule step_art_leaves)
  have fr: "Artifact_Sha256 b = Artifact_Sha256 (fl_art fl)" "Artifact_Size ?a' = Artifact_Size (fl_art fl)"
    using inspector.response_framed [OF deb_inspector.inspector_axioms [of denv cfg], of "fl_art fl" "fl_file fl" st] res
    by (simp_all add: DebInspector_def response_frame_def Artifact_Sha256_def) (simp add: Artifact_Size_def)
  have "opinion_of (a_ResponseInspection (fl_art fl)) ID_deb = None" using fl todo by (simp add: flight_inv_def)
  with Deb_result [OF res] have d: "st' = st" "opinion_of (a_ResponseInspection b) ID_deb = Some Approved \<longrightarrow> valid_noted (fl_art fl)"
    by auto
  have v: "valid_noted (fl_art fl) \<longrightarrow> trusted env cfg H fl" using fl todo by (simp add: flight_inv_def annotations_inv_def)
  have tr: "trusted env cfg H (inspected fl ID_deb rest e b) = trusted env cfg H fl"
    using leaves_opinion [OF lv, of ID_packages] fr(2) by (simp add: trusted_def)
  have "annotations_inv env cfg H (inspected fl ID_deb rest e b)" by (simp add: annotations_inv_def rest)
  moreover have "approvals_inv env cfg H (inspected fl ID_deb rest e b)"
    using fl v d(2) leaves_opinion [OF lv] step_art_opinion [of ID_deb e b ID_deb]
    unfolding approvals_inv_def tr by (simp add: flight_inv_def approvals_inv_def)
  ultimately show ?thesis using d(1) flight_step [OF fl todo lv fr(1)] by blast
qed

lemma flight_step_default:
  assumes fl: "flight_inv env cfg H fl" and todo: "fl_todo fl = ''default'' # rest"
    and res: "Default_InspectArtifact (fl_file fl) st (fl_art fl) = (e, b, st')"
  shows "st' = st \<and> flight_inv env cfg H (inspected fl ''default'' rest e b)"
proof -
  let ?a' = "step_art ''default'' e b"
  from flight_cases [OF fl todo] have rest: "rest = []" by auto
  have "leaves ''default'' UNIV (fl_art fl) b"
    using Default_keeps(1) [of _ "fl_file fl" st "fl_art fl"] res by (simp add: leaves_def)
  then have lv: "leaves ''default'' UNIV (fl_art fl) ?a'" by (rule step_art_leaves)
  have fr: "Artifact_Sha256 b = Artifact_Sha256 (fl_art fl)" "Artifact_Size ?a' = Artifact_Size (fl_art fl)"
    using inspector.response_framed [OF default_inspector.inspector_axioms, of "fl_art fl" "fl_file fl" st] res
    by (simp_all add: DefaultInspector_def response_frame_def Artifact_Sha256_def) (simp add: Artifact_Size_def)
  have tr: "trusted env cfg H (inspected fl ''default'' rest e b) = trusted env cfg H fl"
    using leaves_opinion [OF lv, of ID_packages] fr(2) by (simp add: trusted_def)
  have "annotations_inv env cfg H (inspected fl ''default'' rest e b)" by (simp add: annotations_inv_def rest)
  moreover have "approvals_inv env cfg H (inspected fl ''default'' rest e b)"
    using fl leaves_opinion [OF lv] unfolding approvals_inv_def tr by (simp add: flight_inv_def approvals_inv_def)
  moreover have "st' = st" using res Default_keeps(2) [of "fl_file fl" st "fl_art fl"] by simp
  ultimately show ?thesis using flight_step [OF fl todo lv fr(1)] by blast
qed

section \<open>Runs\<close>

lemma flight_response:
  assumes fl: "flight_inv env cfg H fl" and todo: "fl_todo fl = i # rest" and st: "apt_inv env cfg H st"
    and ins: "ins \<in> set (apt_inspectors env denv cfg st)" "ins_ID ins = i"
    and res: "ins_InspectArtifact ins (fl_file fl) st (fl_art fl) = (e, b, st')"
  shows "apt_inv env cfg H st' \<and> flight_inv env cfg H (inspected fl i rest e b)"
proof -
  have fresh: "opinion_of (a_ResponseInspection (fl_art fl)) i = None" using fl todo by (simp add: flight_inv_def)
  from ins(1) consider "ins = AptReleaseInspector env cfg st" | "ins = AptPackagesInspector env cfg"
    | "ins = AptTranslationInspector env cfg" | "ins = AptCommandsInspector env cfg" | "ins = DebInspector denv cfg"
    | "ins = DefaultInspector" by (auto simp: apt_inspectors_def)
  then show ?thesis
  proof cases
    case 1
    with flight_step_release [OF fl _ st] todo ins(2) res show ?thesis by (auto simp: AptReleaseInspector_def)
  next
    case 2
    with flight_step_packages [OF fl _ st] todo ins(2) res show ?thesis by (auto simp: AptPackagesInspector_def)
  next
    case 3
    then have i: "i = ID_translations" and r: "AptTranslation_InspectArtifact env (fl_file fl) st (fl_art fl) = (e, b, st')"
      using ins(2) res by (simp_all add: AptTranslationInspector_def)
    have "leaves i {} (fl_art fl) b" "response_frame {i} (fl_art fl) b"
      using AptTranslation_leaves [of "{}" "fl_art fl" env "fl_file fl" st] r i
        inspector.response_framed [OF apt_translations.inspector_axioms [of env cfg], of "fl_art fl" "fl_file fl" st]
      by (simp_all add: AptTranslationInspector_def)
    with flight_step_index [OF fl todo, of b e] index_approval(1) [OF r] fresh i st show ?thesis by simp
  next
    case 4
    then have i: "i = ID_commands" and r: "AptCommands_InspectArtifact env (fl_file fl) st (fl_art fl) = (e, b, st')"
      using ins(2) res by (simp_all add: AptCommandsInspector_def)
    have "leaves i {} (fl_art fl) b" "response_frame {i} (fl_art fl) b"
      using AptCommands_leaves [of "{}" "fl_art fl" env "fl_file fl" st] r i
        inspector.response_framed [OF apt_commands.inspector_axioms [of env cfg], of "fl_art fl" "fl_file fl" st]
      by (simp_all add: AptCommandsInspector_def)
    with flight_step_index [OF fl todo, of b e] index_approval(2) [OF r] fresh i st show ?thesis by simp
  next
    case 5
    with flight_step_deb [OF fl, of rest denv st e b st'] todo ins(2) res st show ?thesis by (auto simp: DebInspector_def)
  next
    case 6
    with flight_step_default [OF fl, of rest st e b st'] todo ins(2) res st show ?thesis by (auto simp: DefaultInspector_def)
  qed
qed

lemma flight_request:
  assumes fl: "flight_inv env cfg H fl" and fr: "request_frame I (fl_art fl) a" and todo: "todo \<in> {fl_todo fl, []}"
  shows "flight_inv env cfg H (fl\<lparr>fl_art := a, fl_reqs := reqs, fl_todo := todo\<rparr>)"
proof -
  have same: "a_ResponseInspection a = a_ResponseInspection (fl_art fl)" "Artifact_Sha256 a = Artifact_Sha256 (fl_art fl)"
    "Artifact_Size a = Artifact_Size (fl_art fl)" "release_noted a = release_noted (fl_art fl)" "valid_noted a = valid_noted (fl_art fl)"
    using fr by (auto simp: request_frame_def Artifact_Sha256_def Artifact_Size_def intro!: release_noted_cong valid_noted_cong)
  have ix: "index_type a = index_type (fl_art fl)"
    using fr by (simp add: index_type_def MimetypeIs_def request_frame_def same_context_def)
  let ?fl = "fl\<lparr>fl_art := a, fl_reqs := reqs, fl_todo := todo\<rparr>"
  have tr: "trusted env cfg H ?fl = trusted env cfg H fl" by (simp add: trusted_def same)
  have "approvals_inv env cfg H ?fl = approvals_inv env cfg H fl" by (simp add: approvals_inv_def tr same)
  moreover have "annotations_inv env cfg H ?fl" if "todo = []" using that by (simp add: annotations_inv_def)
  moreover have "annotations_inv env cfg H ?fl = annotations_inv env cfg H fl" if "todo = fl_todo fl"
    using tr unfolding that by (simp add: annotations_inv_def same ix)
  ultimately show ?thesis using fl todo by (auto simp: flight_inv_def same)
qed

definition session_inv ::
  "('k, 's) apt_env \<Rightarrow> AptInspectorConfig \<Rightarrow> (string \<Rightarrow> Sha256Digest) \<Rightarrow> apt_session \<Rightarrow> bool" where
  "session_inv env cfg H s \<longleftrightarrow> apt_inv env cfg H (fst s) \<and> (\<forall>fl \<in> set (snd s). flight_inv env cfg H fl)"

lemma session_inv_update:
  "session_inv env cfg H (st, fls) \<Longrightarrow> apt_inv env cfg H st' \<Longrightarrow> flight_inv env cfg H fl \<Longrightarrow>
     session_inv env cfg H (st', fls[n := fl])"
  by (auto simp: session_inv_def dest: set_update_subset_insert [THEN subsetD])

lemma flight_inv_start: "flight_inv env cfg H (start_flight H detect u f)"
  by (simp add: flight_inv_def annotations_inv_def approvals_inv_def start_flight_def Artifact_Sha256_def NewArtifact_def
      opinion_of_def ResponseStringAnnotation_def ResponseBoolAnnotation_def inspectionAnnotation_def)

lemma fold_map_set_None:
  "k \<notin> key ` set xs \<Longrightarrow> map_get m k = None \<Longrightarrow> map_get (fold (\<lambda>y m. map_set (key y) y m) xs m) k = None"
  by (induction xs arbitrary: m) auto

lemma registered_request:
  assumes "run_request (insmap (newInspectors perm (apt_inspectors env denv cfg st))) [i] a = (e, a')"
  shows "request_frame {i} a a'"
proof (cases "i \<in> set apt_ids")
  case True
  let ?R = "newInspectors perm (apt_inspectors env denv cfg st)"
  have "registry_ok (insmap ?R) (insp_ids ?R)" by (rule registry_ok_new) (auto intro: apt_inspectors_ok)
  moreover have "insp_ids ?R = apt_ids" by (simp add: newInspectors_def)
  ultimately have "registry_ok (insmap ?R) [i]" using True by (simp add: registry_ok_def)
  from run_request_frame [OF this, of a] assms show ?thesis by simp
next
  case False
  then have "i \<notin> ins_ID ` set (apt_inspectors env denv cfg st)" by (metis apt_inspectors_ids list.set_map)
  then have "map_get (insmap (newInspectors perm (apt_inspectors env denv cfg st))) i = None"
    by (simp add: newInspectors_def fold_map_set_None)
  with assms show ?thesis by auto
qed

lemma apt_exec_request:
  assumes inv: "session_inv env cfg H (st, fls)"
  shows "session_inv env cfg H (apt_exec ienv env denv cfg perm H detect (Request n) (st, fls))"
proof (cases "n < length fls \<and> fl_reqs (fls ! n) \<noteq> []")
  case True
  then obtain i rest where i: "fl_reqs (fls ! n) = i # rest" by (cases "fl_reqs (fls ! n)") auto
  obtain e a where r: "run_request (insmap (newInspectors perm (apt_inspectors env denv cfg st))) [i] (fl_art (fls ! n)) = (e, a)" by force
  have "flight_inv env cfg H (fls ! n)" and st: "apt_inv env cfg H st" using inv True by (simp_all add: session_inv_def)
  have f: "flight_inv env cfg H ((fls ! n)\<lparr>fl_art := a, fl_reqs := reqs, fl_todo := todo\<rparr>)"
    if "todo \<in> {fl_todo (fls ! n), []}" for reqs todo
    using \<open>flight_inv env cfg H (fls ! n)\<close> registered_request [OF r] that by (rule flight_request)
  have "flight_inv env cfg H ((fls ! n)\<lparr>fl_art := a, fl_reqs := rest\<rparr>)"
    "flight_inv env cfg H ((fls ! n)\<lparr>fl_art := a, fl_reqs := [], fl_todo := []\<rparr>)"
    using f [of "fl_todo (fls ! n)" rest] f [of "[]" "[]"] by simp_all
  then have "session_inv env cfg H (st, fls[n := (fls ! n)\<lparr>fl_art := a, fl_reqs := rest\<rparr>])"
    "session_inv env cfg H (st, fls[n := (fls ! n)\<lparr>fl_art := a, fl_reqs := [], fl_todo := []\<rparr>])"
    using session_inv_update [OF inv st] by blast+
  with True i r show ?thesis by (cases e) simp_all
qed (use inv in \<open>auto simp: Let_def\<close>)

lemma flight_skipped:
  assumes fl: "flight_inv env cfg H fl" and todo: "fl_todo fl = i # rest" and t: "t \<in> {rest, []}"
  shows "flight_inv env cfg H (fl\<lparr>fl_todo := t\<rparr>)"
proof -
  have tr: "trusted env cfg H (fl\<lparr>fl_todo := t\<rparr>) = trusted env cfg H fl" by (simp add: trusted_def)
  have "set t \<subseteq> set (fl_todo fl)" using t todo by auto
  then have "annotations_inv env cfg H (fl\<lparr>fl_todo := t\<rparr>)"
    using fl unfolding flight_inv_def annotations_inv_def tr by simp blast
  moreover have "approvals_inv env cfg H (fl\<lparr>fl_todo := t\<rparr>)"
    using fl by (simp add: flight_inv_def approvals_inv_def tr)
  moreover have "t = [] \<or> (\<exists>pre. apt_ids = pre @ t)"
  proof -
    obtain pre where "apt_ids = pre @ i # rest" using fl todo by (auto simp: flight_inv_def)
    then have "apt_ids = (pre @ [i]) @ rest" by simp
    with t show ?thesis by blast
  qed
  ultimately show ?thesis using fl \<open>set t \<subseteq> _\<close> by (auto simp: flight_inv_def)
qed

lemma apt_exec_response:
  assumes inv: "session_inv env cfg H (st, fls)"
  shows "session_inv env cfg H (apt_exec ienv env denv cfg perm H detect (Response n) (st, fls))"
proof (cases "n < length fls \<and> fl_reqs (fls ! n) = [] \<and> fl_todo (fls ! n) \<noteq> []")
  case True
  let ?fl = "fls ! n" and ?R = "newInspectors perm (apt_inspectors env denv cfg st)"
  from True obtain i rest where i: "fl_todo ?fl = i # rest" by (cases "fl_todo ?fl") auto
  have fl: "flight_inv env cfg H ?fl" and st: "apt_inv env cfg H st" using inv True by (simp_all add: session_inv_def)
  from flight_cases [OF fl i] have "i \<in> set apt_ids" by (auto simp: apt_ids_def)
  then obtain ins where ins: "ins \<in> set (apt_inspectors env denv cfg st)" "ins_ID ins = i"
    by (metis apt_inspectors_ids imageE list.set_map)
  obtain e a st' where r: "run_artifact ienv (insmap ?R) perm (fl_file ?fl) [i] st (fl_art ?fl) = (e, a, st')"
    by (metis prod_cases3)
  consider "a = fl_art ?fl" "st' = st"
    | b where "ins_InspectArtifact ins (fl_file ?fl) st (fl_art ?fl) = (e, b, st')" "a = step_art i e b"
    using run_single [OF ins(1)] r unfolding ins(2) [symmetric] by blast
  then have "apt_inv env cfg H st' \<and> flight_inv env cfg H (?fl\<lparr>fl_art := a, fl_todo := (if e = None then rest else [])\<rparr>)"
  proof cases
    case 1
    with flight_skipped [OF fl i, of "if e = None then rest else []"] st show ?thesis by simp
  next
    case (2 b)
    with flight_response [OF fl i st ins] show ?thesis by simp
  qed
  then show ?thesis using True i r inv by (cases e) (auto intro!: session_inv_update)
qed (use inv in \<open>auto simp: Let_def split: list.splits\<close>)

lemma apt_run_inv: "session_inv env cfg H (apt_run ienv env denv cfg perm H detect evs)"
proof -
  have "session_inv env cfg H s \<Longrightarrow> session_inv env cfg H (fold (apt_exec ienv env denv cfg perm H detect) evs s)" for s
  proof (induction evs arbitrary: s)
    case (Cons ev evs)
    obtain st fls where s: "s = (st, fls)" by force
    have "session_inv env cfg H (apt_exec ienv env denv cfg perm H detect ev (st, fls))"
    proof (cases ev)
      case (Fetch u f)
      with Cons.prems s show ?thesis by (auto simp: session_inv_def flight_inv_start)
    next
      case (Request n)
      with Cons.prems s apt_exec_request show ?thesis by blast
    next
      case (Response n)
      with Cons.prems s apt_exec_response show ?thesis by blast
    qed
    with Cons.IH s show ?case by simp
  qed simp
  moreover have "session_inv env cfg H (new_apt_state, [])" by (simp add: session_inv_def)
  ultimately show ?thesis unfolding apt_run_def by blast
qed

end
