(* ===== verification/Apt_Props.thy ===== *)
theory Apt_Props
  imports Apt_Trust
begin

text \<open>
  The properties of the APT inspectors: the chain of trust behind an approval, and the inputs on which
  they panic.
\<close>

section \<open>A sample session\<close>

text \<open>
  One repository; a release file that lists a \<^verbatim>\<open>Packages\<close> file, which lists a package. The sample library
  reads the text after the header of a clearsigned message and accepts its signature; compression and
  archives are trivial; the digest of a file is made from its first byte.
\<close>

definition sample_cfg :: AptInspectorConfig where
  "sample_cfg = [(''ubuntu'', \<lparr>repo_URLs = [\<lparr>G = Some (\<lambda>s. s = ''http://h/u'')\<rparr>], repo_Suites = [\<lparr>G = Some (\<lambda>s. s = ''s'')\<rparr>],
     repo_Components = [\<lparr>G = Some (\<lambda>s. s = ''m'')\<rparr>], repo_PublicKey = ''K'', repo_BaseURLAlias = []\<rparr>)]"

definition sample_pgp :: "(unit, unit) pgp_lib" where
  "sample_pgp = \<lparr>armor_Decode = \<lambda>d. Inr (openpgp_PublicKeyType, d),
     packet_Reader = \<lambda>b. (if b = ''sig'' then [Signature ()] else [PublicKey ()], io_EOF),
     clearsign_Decode = \<lambda>d. Some (''sig'', drop 35 d),
     key_VerifySignature = \<lambda>k s b. None, key_IdString = \<lambda>k. ''id''\<rparr>"

definition sample_parse :: "string \<Rightarrow> url result" where
  "sample_parse s = Inr \<lparr>u_Scheme = ''http'', u_Host = ''h'', u_Path = drop 8 s, u_RawQuery = []\<rparr>"

definition sample_reader :: "string \<Rightarrow> body_reader" where
  "sample_reader f = \<lparr>br_data = f, br_err = None\<rparr>"

definition sample_env :: "(unit, unit) apt_env" where
  "sample_env = \<lparr>ae_Parse = sample_parse, ae_JoinPath = \<lambda>a b. Inr (a @ b), ae_pgp = sample_pgp,
     ae_xz = \<lambda>f. Inr (sample_reader f), ae_gzip = \<lambda>f. Inr (sample_reader f), ae_Read = \<lambda>r n. (take n (br_data r), None),
     ae_read = \<lambda>f. None, ae_seek = \<lambda>f. None\<rparr>"

definition sample_deb_env :: deb_env where
  "sample_deb_env = \<lparr>de_Parse = sample_parse, de_ar = \<lambda>f. ([(''control.tar'', sample_reader f)], archive_EOF),
     de_gzip = Inr, de_xz = Inr, de_zstd = Inr, de_tar = \<lambda>r. ([(''./control'', r)], archive_EOF),
     de_CreateTemp = None, de_writeTemp = \<lambda>s. None, de_licensecheck = \<lambda>s. Inr ''copyright MIT'', de_upperFirst = \<lambda>s. s\<rparr>"

definition sample_H :: "string \<Rightarrow> Sha256Digest" where
  "sample_H f = replicate 32 (hd f)"

definition ln :: "string \<Rightarrow> string" where
  "ln s = s @ [CHR 0x0A]"

definition sample_deb :: string where
  "sample_deb = concat (map ln [''Package: p'', ''Version: 1''])"

definition sample_packages :: string where
  "sample_packages = concat (map ln [''A:'', ''Package: p'', ''Version: 1'', ''Architecture: a'',
     ''Size: 22'',
     ''SHA256: 5050505050505050505050505050505050505050505050505050505050505050''])"

definition sample_release :: string where
  "sample_release = concat (map ln [pgp_header, ''Origin: U'', ''Label: U'', ''Suite: s'', ''Version: 1'', ''Codename: c'', ''Date: d'',
     ''Architectures: a'', ''Components: m'', ''SHA256:'',
     '' 4141414141414141414141414141414141414141414141414141414141414141 1 P''])"

definition sample_detect :: "string \<Rightarrow> mime" where
  "sample_detect f = (let t = (if hd f = CHR ''P'' then mt_DebianBinaryPackage else if hd f = CHR ''A'' then mt_AptPackages
     else ''text/plain'') in \<lparr>mime_String = t, mime_Is = \<lambda>s. s = t\<rparr>)"

definition sample_ienv :: insp_env where
  "sample_ienv = \<lparr>env_open = \<lambda>s. Inr s, env_detect = \<lambda>f. Inr (sample_detect f), env_seek = \<lambda>i. None\<rparr>"

definition all_steps :: "nat \<Rightarrow> apt_event list" where
  "all_steps n = replicate 6 (Request n) @ replicate 6 (Response n)"

definition sample_events :: "apt_event list" where
  "sample_events = Fetch ''http://h/u/dists/s/InRelease'' sample_release # all_steps 0 @
     Fetch ''http://h/u/dists/s/m/binary-a/Packages.gz'' sample_packages # all_steps 1 @
     Fetch ''http://h/u/pool/m/p/p_1_a.deb'' sample_deb # all_steps 2"

section \<open>The chain of trust\<close>

text \<open>An approved artifact carries no rejection.\<close>

lemma approved_not_rejected:
  assumes "Artifact_Approved a"
  shows "opinion_of (a_ResponseInspection a) i \<noteq> Some Rejected"
proof
  assume "opinion_of (a_ResponseInspection a) i = Some Rejected"
  then obtain x where x: "map_get (a_ResponseInspection a) i = Some x" "in_Opinion x = Rejected" by (auto simp: opinion_of_def)
  from map_of_SomeD [OF x(1)] have "x \<in> set (map snd (a_ResponseInspection a))" by force
  moreover have "unanimous Approved False (map snd (a_ResponseInspection a))"
    using assms by (simp add: Artifact_Approved_def ResponseApproved_def split: if_splits)
  ultimately show False using x(2) unanimous_iff [of Approved False "map snd (a_ResponseInspection a)"]
    by auto
qed

lemma sample_run:
  "case snd (apt_run sample_ienv sample_env sample_deb_env sample_cfg False sample_H sample_detect sample_events) of
     [_, p, d] \<Rightarrow> Artifact_Approved (fl_art d) \<and> opinion_of (a_ResponseInspection (fl_art d)) ID_deb = Some Approved \<and>
       opinion_of (a_ResponseInspection (fl_art p)) ID_packages = Some Approved
   | _ \<Rightarrow> False"
  by code_simp

lemma sample_flights:
  obtains p d where
    "p \<in> set (snd (apt_run sample_ienv sample_env sample_deb_env sample_cfg False sample_H sample_detect sample_events))"
    "opinion_of (a_ResponseInspection (fl_art p)) ID_packages = Some Approved"
    "d \<in> set (snd (apt_run sample_ienv sample_env sample_deb_env sample_cfg False sample_H sample_detect sample_events))"
    "Artifact_Approved (fl_art d)" "opinion_of (a_ResponseInspection (fl_art d)) ID_deb = Some Approved"
  using sample_run by (auto split: list.splits)

text \<open>
  C3. In every interleaving of the inspections of a session, a Debian package that the deb inspector
  approved, in an artifact approved as a whole, is authentic: its digest is listed with its size in a
  \<^verbatim>\<open>Packages\<close> file whose digest is listed in a release file, read without format error from a text that
  carries a valid signature by a key configured for some repository.
\<close>

theorem approved_deb_is_authentic:
  assumes "fl \<in> set (snd (apt_run ienv env denv cfg perm H detect evs))" and "Artifact_Approved (fl_art fl)"
    and "opinion_of (a_ResponseInspection (fl_art fl)) ID_deb = Some Approved"
  shows "\<exists>name r data body flds sc files pfile reader num entries e.
    map_get cfg name = Some r \<and> signed_text (ae_pgp env) (repo_PublicKey r) data body \<and>
    parseUpToSignatures 0 [] (scan_lines max_token body) = Inr (flds, sc) \<and> parseSignaturesSection [] [] sc = Inr ([], files) \<and>
    map_get files (H pfile) \<noteq> None \<and>
    compressedReader env pfile = Inr reader \<and> packages_of reader = Inr (num, entries) \<and>
    map_get entries (H (fl_file fl)) = Some e \<and> pe_Size e = Artifact_Size (fl_art fl)"
proof -
  have "flight_inv env cfg H fl" using apt_run_inv [of env cfg H ienv denv perm detect evs] assms(1) by (simp add: session_inv_def)
  then have "trusted env cfg H fl" using assms(3) by (simp add: flight_inv_def approvals_inv_def)
  then have "authentic_deb env cfg H (H (fl_file fl)) (Artifact_Size (fl_art fl))"
    using approved_not_rejected [OF assms(2)] by (simp add: trusted_def)
  then show ?thesis
    unfolding authentic_deb_def release_lists_def packages_list_def authentic_release_def by blast
qed

theorem approved_deb_is_authentic_witness:
  "\<exists>fl \<in> set (snd (apt_run sample_ienv sample_env sample_deb_env sample_cfg False sample_H sample_detect sample_events)).
     Artifact_Approved (fl_art fl) \<and>
     (\<exists>name r data body flds sc files pfile reader num entries e.
        map_get sample_cfg name = Some r \<and> signed_text (ae_pgp sample_env) (repo_PublicKey r) data body \<and>
        parseUpToSignatures 0 [] (scan_lines max_token body) = Inr (flds, sc) \<and> parseSignaturesSection [] [] sc = Inr ([], files) \<and>
        map_get files (sample_H pfile) \<noteq> None \<and>
        compressedReader sample_env pfile = Inr reader \<and> packages_of reader = Inr (num, entries) \<and>
        map_get entries (sample_H (fl_file fl)) = Some e \<and> pe_Size e = Artifact_Size (fl_art fl))"
proof -
  obtain p d where d: "d \<in> set (snd (apt_run sample_ienv sample_env sample_deb_env sample_cfg False sample_H sample_detect sample_events))"
    "Artifact_Approved (fl_art d)" "opinion_of (a_ResponseInspection (fl_art d)) ID_deb = Some Approved"
    by (rule sample_flights)
  from approved_deb_is_authentic [OF d] d(1,2) show ?thesis by blast
qed

text \<open>
  C4. In every interleaving, an index file that its inspector approved (\<^verbatim>\<open>Packages\<close>, translations or command
  lists) is listed by its digest in a release file read without format error from a text that carries a
  valid signature by a key configured for some repository.
\<close>

theorem approved_index_is_listed:
  assumes "fl \<in> set (snd (apt_run ienv env denv cfg perm H detect evs))" and "i \<in> {ID_packages, ID_translations, ID_commands}"
    and "opinion_of (a_ResponseInspection (fl_art fl)) i = Some Approved"
  shows "\<exists>name r data body flds sc files.
    map_get cfg name = Some r \<and> signed_text (ae_pgp env) (repo_PublicKey r) data body \<and>
    parseUpToSignatures 0 [] (scan_lines max_token body) = Inr (flds, sc) \<and> parseSignaturesSection [] [] sc = Inr ([], files) \<and>
    map_get files (H (fl_file fl)) \<noteq> None"
proof -
  have "flight_inv env cfg H fl" using apt_run_inv [of env cfg H ienv denv perm detect evs] assms(1) by (simp add: session_inv_def)
  then have "release_lists env cfg H (H (fl_file fl))"
    using assms(2,3) unfolding flight_inv_def approvals_inv_def by blast
  then show ?thesis unfolding release_lists_def authentic_release_def by blast
qed

theorem approved_index_is_listed_witness:
  "\<exists>fl \<in> set (snd (apt_run sample_ienv sample_env sample_deb_env sample_cfg False sample_H sample_detect sample_events)).
     opinion_of (a_ResponseInspection (fl_art fl)) ID_packages = Some Approved \<and>
     (\<exists>name r data body flds sc files.
        map_get sample_cfg name = Some r \<and> signed_text (ae_pgp sample_env) (repo_PublicKey r) data body \<and>
        parseUpToSignatures 0 [] (scan_lines max_token body) = Inr (flds, sc) \<and> parseSignaturesSection [] [] sc = Inr ([], files) \<and>
        map_get files (sample_H (fl_file fl)) \<noteq> None)"
proof -
  obtain p d where p: "p \<in> set (snd (apt_run sample_ienv sample_env sample_deb_env sample_cfg False sample_H sample_detect sample_events))"
    "opinion_of (a_ResponseInspection (fl_art p)) ID_packages = Some Approved"
    by (rule sample_flights)
  have "ID_packages \<in> {ID_packages, ID_translations, ID_commands}" by simp
  from approved_index_is_listed [OF p(1) this p(2)] p show ?thesis by blast
qed

section \<open>Inputs that panic\<close>

text \<open>The list of digests ends at the first line that is not indented; if that line is empty, its index panics.\<close>

abbreviation indented :: "string \<Rightarrow> bool" where
  "indented l \<equiv> l \<noteq> [] \<and> hd l = CHR '' ''"

lemma parseSignaturesSection_panic:
  "(\<exists>e. parseSignaturesSection errs files ls = Inl e) \<longleftrightarrow> (\<exists>rest. dropWhile indented ls = [] # rest)"
proof (induction ls arbitrary: errs files)
  case (Cons l ls)
  show ?case
  proof (cases "indented l")
    case True
    then have "\<exists>errs' files'. parseSignaturesSection errs files (l # ls) = parseSignaturesSection errs' files' ls"
      by (auto split: list.splits sum.splits)
    with Cons.IH True show ?thesis by fastforce
  qed auto
qed simp

lemma parseSignaturesSection_error: "parseSignaturesSection errs files ls = Inl e \<Longrightarrow> e = runtime_panic"
  by (induction ls arbitrary: errs files) (auto split: if_splits list.splits sum.splits)

text \<open>
  C24. A text file that starts like a clearsigned message, at the address of a release file, makes the release
  inspector panic when its list of SHA256 digests is followed by an empty line, whether or not its
  signature is valid; the process is not protected against that.
\<close>

theorem empty_line_panics_release_inspector:
  assumes "RequestStringAnnotation a ID_release ''cfg-name'' = (name, True)" and "MimetypeIs a ''text/plain''" and "\<not> index_type a"
    and "ae_read env f = None" and "ae_seek env f = None" and "strings_HasPrefix f pgp_header"
    and "checkSignature (ae_pgp env) (Inr f) [] (case map_get cfg name of None \<Rightarrow> [] | Some r \<Rightarrow> repo_PublicKey r) = (Some body, verdict, notes)"
    and "parseUpToSignatures 0 [] (scan_lines max_token body) = Inr (flds, sc)" and "\<not> isMissingFields flds"
    and "dropWhile indented sc = [] # rest"
  shows "AptRelease_InspectArtifact env cfg f st a = (Some runtime_panic, a, st)"
proof -
  obtain e where e: "parseSignaturesSection [] [] sc = Inl e"
    using parseSignaturesSection_panic [of "[]" "[]" sc] assms(10) by blast
  then have "e = runtime_panic" by (rule parseSignaturesSection_error)
  with e assms(8,9) have itx: "inspect_release_text env cfg name errs notes body st a = (Some runtime_panic, a, st)" for errs
    by (simp add: inspect_release_text_def)
  have "take 34 f = pgp_header" "\<not> length f < 34"
    using assms(6) by (auto simp: strings_HasPrefix_iff pgp_header_def)
  with assms itx show ?thesis
    by (cases verdict) (simp_all add: AptRelease_InspectArtifact_def index_type_def inspect_release_file_def Let_def)
qed

definition panic_release :: string where
  "panic_release = sample_release @ [CHR 0x0A]"

definition panic_artifact :: Artifact where
  "panic_artifact = snd (AptRelease_InspectRequest sample_env sample_cfg new_apt_state
     (fl_art (start_flight sample_H sample_detect ''http://h/u/dists/s/InRelease'' panic_release)))"

theorem empty_line_panics_release_inspector_witness:
  "AptRelease_InspectArtifact sample_env sample_cfg panic_release new_apt_state panic_artifact =
     (Some runtime_panic, panic_artifact, new_apt_state)"
proof -
  let ?body = "drop 35 panic_release"
  have sig: "checkSignature (ae_pgp sample_env) (Inr panic_release) [] ''K'' = (Some ?body, None, [(''public-keys'', AnyStrings [''id''])])"
    by code_simp
  have "case parseUpToSignatures 0 [] (scan_lines max_token ?body) of
      Inr p \<Rightarrow> \<not> isMissingFields (fst p) \<and> take 1 (dropWhile indented (snd p)) = [[]] | Inl _ \<Rightarrow> False"
    by code_simp
  then obtain flds sc where b: "parseUpToSignatures 0 [] (scan_lines max_token ?body) = Inr (flds, sc)" "\<not> isMissingFields flds"
      and "take 1 (dropWhile indented sc) = [[]]"
    by (auto split: sum.splits)
  then obtain rest where rest: "dropWhile indented sc = [] # rest" by (cases "dropWhile indented sc") auto
  have "RequestStringAnnotation panic_artifact ID_release ''cfg-name'' = (''ubuntu'', True)" by code_simp
  moreover have "MimetypeIs panic_artifact ''text/plain''" by code_simp
  moreover have "\<not> index_type panic_artifact" by code_simp
  moreover have "ae_read sample_env panic_release = None" "ae_seek sample_env panic_release = None" by (simp_all add: sample_env_def)
  moreover have "strings_HasPrefix panic_release pgp_header" by code_simp
  moreover have "(case map_get sample_cfg ''ubuntu'' of None \<Rightarrow> [] | Some r \<Rightarrow> repo_PublicKey r) = ''K''" by (simp add: sample_cfg_def)
  ultimately show ?thesis
    using sig b rest empty_line_panics_release_inspector [of panic_artifact "''ubuntu''" sample_env panic_release sample_cfg
      ?body None "[(''public-keys'', AnyStrings [''id''])]" flds sc rest new_apt_state]
    by simp
qed

text \<open>
  An empty description in the control data of a package makes the deb inspector panic.
\<close>

theorem empty_description_panics_deb_inspector:
  "(\<exists>md'. parseControl env r md = (Some runtime_panic, md')) \<longleftrightarrow>
     (\<exists>l \<in> set (takeWhile (\<lambda>l. l \<noteq> []) (scan_lines max_token (br_data r))). describes_nothing l)"
proof (cases "control_loop env md (scan_lines max_token (br_data r))")
  case (Inl e)
  then show ?thesis using control_loop_panic [of env md "scan_lines max_token (br_data r)" e] by (simp add: parseControl_def)
next
  case (Inr md')
  have "Errorf m \<noteq> runtime_panic" for m by (simp add: runtime_panic_def)
  with Inr control_loop_panic [of env md "scan_lines max_token (br_data r)" runtime_panic] show ?thesis
    by (auto simp: parseControl_def)
qed

end
