(* ===== verification/Pipeline.thy ===== *)
theory Pipeline
  imports Inspector_Base
begin

text \<open>
  What the two loops of the engine make of a list of inspectors that only write their own entries: the
  entry of each is the one it made, from an artifact that holds the final entries of those before it.
  Inspectors that read the annotations of others rest on this.
\<close>

locale local_inspector = inspector +
  assumes request_local:
      "j \<noteq> ins_ID ins \<Longrightarrow> map_get (a_RequestInspection (snd (ins_InspectRequest ins a))) j = map_get (a_RequestInspection a) j"
    and response_local:
      "j \<noteq> ins_ID ins \<Longrightarrow> map_get (a_ResponseInspection (fst (snd (ins_InspectArtifact ins f w a)))) j = map_get (a_ResponseInspection a) j"

text \<open>The setters write the entry of their inspector.\<close>

named_theorems entry_simps

lemma get_SetRequest [simp, entry_simps]:
  "map_get (a_RequestInspection (SetRequestPending i r a)) j =
     (if j = i then Some \<lparr>in_Opinion = Pending, in_Reason = r, in_Annotations = []\<rparr> else map_get (a_RequestInspection a) j)"
  "map_get (a_RequestInspection (SetRequestRejected i r a)) j =
     (if j = i then Some \<lparr>in_Opinion = Rejected, in_Reason = r, in_Annotations = []\<rparr> else map_get (a_RequestInspection a) j)"
  "map_get (a_RequestInspection (SetRequestUnknown i r a)) j =
     (if j = i then Some \<lparr>in_Opinion = Unknown, in_Reason = r, in_Annotations = []\<rparr> else map_get (a_RequestInspection a) j)"
  by (auto simp: SetRequestPending_def SetRequestRejected_def SetRequestUnknown_def)

lemma get_annotate_request [simp, entry_simps]:
  "map_get (a_RequestInspection (annotate_request i ann a)) j =
     (if j = i then map_option (Inspection_Annotate ann) (map_get (a_RequestInspection a) j) else map_get (a_RequestInspection a) j)"
  by (auto simp: annotate_request_def split: option.splits)

section \<open>What an inspector writes\<close>

text \<open>
  The artifacts an inspector makes of one by its setters. The rules of \<open>writes\<close> follow the text of a
  handler: its branches, and at each end the setters.
\<close>

definition writes_request :: "string \<Rightarrow> Artifact \<Rightarrow> Artifact \<Rightarrow> bool" where
  "writes_request i a b \<longleftrightarrow> request_frame {i} a b \<and>
     (\<forall>j. j \<noteq> i \<longrightarrow> map_get (a_RequestInspection b) j = map_get (a_RequestInspection a) j)"

definition writes_response :: "string \<Rightarrow> Artifact \<Rightarrow> Artifact \<Rightarrow> bool" where
  "writes_response i a b \<longleftrightarrow> response_frame {i} a b \<and>
     (\<forall>j. j \<noteq> i \<longrightarrow> map_get (a_ResponseInspection b) j = map_get (a_ResponseInspection a) j)"

text \<open>What holds of the artifact a handler ends with, for the three shapes of results.\<close>

definition ends1 :: "(Artifact \<Rightarrow> bool) \<Rightarrow> Artifact \<Rightarrow> bool" where
  "ends1 P b \<longleftrightarrow> P b"

definition ends2 :: "(Artifact \<Rightarrow> bool) \<Rightarrow> 'e \<times> Artifact \<Rightarrow> bool" where
  "ends2 P r \<longleftrightarrow> P (snd r)"

definition ends3 :: "(Artifact \<Rightarrow> bool) \<Rightarrow> 'e \<times> Artifact \<times> 'w \<Rightarrow> bool" where
  "ends3 P r \<longleftrightarrow> P (fst (snd r))"

named_theorems branches

lemma ends1_branches [branches]:
  "(c \<Longrightarrow> ends1 P x) \<Longrightarrow> (\<not> c \<Longrightarrow> ends1 P y) \<Longrightarrow> ends1 P (if c then x else y)"
  "(ov = None \<Longrightarrow> ends1 P y) \<Longrightarrow> (\<And>v. ov = Some v \<Longrightarrow> ends1 P (z v)) \<Longrightarrow> ends1 P (case_option y z ov)"
  "(\<And>v. sv = Inl v \<Longrightarrow> ends1 P (zl v)) \<Longrightarrow> (\<And>v. sv = Inr v \<Longrightarrow> ends1 P (zr v)) \<Longrightarrow> ends1 P (case_sum zl zr sv)"
  "(\<And>u v. pv = (u, v) \<Longrightarrow> ends1 P (zp u v)) \<Longrightarrow> ends1 P (case_prod zp pv)"
  "(bv \<Longrightarrow> ends1 P x) \<Longrightarrow> (\<not> bv \<Longrightarrow> ends1 P y) \<Longrightarrow> ends1 P (case_bool x y bv)"
  "(lv = [] \<Longrightarrow> ends1 P y) \<Longrightarrow> (\<And>u v. lv = u # v \<Longrightarrow> ends1 P (zc u v)) \<Longrightarrow> ends1 P (case_list y zc lv)"
  "ends1 P (g v) \<Longrightarrow> ends1 P (Let v g)"
  by (simp_all split: option.split sum.split prod.split bool.split list.split)

lemma ends2_branches [branches]:
  "(c \<Longrightarrow> ends2 P x) \<Longrightarrow> (\<not> c \<Longrightarrow> ends2 P y) \<Longrightarrow> ends2 P (if c then x else y)"
  "(ov = None \<Longrightarrow> ends2 P y) \<Longrightarrow> (\<And>v. ov = Some v \<Longrightarrow> ends2 P (z v)) \<Longrightarrow> ends2 P (case_option y z ov)"
  "(\<And>v. sv = Inl v \<Longrightarrow> ends2 P (zl v)) \<Longrightarrow> (\<And>v. sv = Inr v \<Longrightarrow> ends2 P (zr v)) \<Longrightarrow> ends2 P (case_sum zl zr sv)"
  "(\<And>u v. pv = (u, v) \<Longrightarrow> ends2 P (zp u v)) \<Longrightarrow> ends2 P (case_prod zp pv)"
  "(bv \<Longrightarrow> ends2 P x) \<Longrightarrow> (\<not> bv \<Longrightarrow> ends2 P y) \<Longrightarrow> ends2 P (case_bool x y bv)"
  "(lv = [] \<Longrightarrow> ends2 P y) \<Longrightarrow> (\<And>u v. lv = u # v \<Longrightarrow> ends2 P (zc u v)) \<Longrightarrow> ends2 P (case_list y zc lv)"
  "ends2 P (g v) \<Longrightarrow> ends2 P (Let v g)"
  by (simp_all split: option.split sum.split prod.split bool.split list.split)

lemma ends3_branches [branches]:
  "(c \<Longrightarrow> ends3 P x) \<Longrightarrow> (\<not> c \<Longrightarrow> ends3 P y) \<Longrightarrow> ends3 P (if c then x else y)"
  "(ov = None \<Longrightarrow> ends3 P y) \<Longrightarrow> (\<And>v. ov = Some v \<Longrightarrow> ends3 P (z v)) \<Longrightarrow> ends3 P (case_option y z ov)"
  "(\<And>v. sv = Inl v \<Longrightarrow> ends3 P (zl v)) \<Longrightarrow> (\<And>v. sv = Inr v \<Longrightarrow> ends3 P (zr v)) \<Longrightarrow> ends3 P (case_sum zl zr sv)"
  "(\<And>u v. pv = (u, v) \<Longrightarrow> ends3 P (zp u v)) \<Longrightarrow> ends3 P (case_prod zp pv)"
  "(bv \<Longrightarrow> ends3 P x) \<Longrightarrow> (\<not> bv \<Longrightarrow> ends3 P y) \<Longrightarrow> ends3 P (case_bool x y bv)"
  "(lv = [] \<Longrightarrow> ends3 P y) \<Longrightarrow> (\<And>u v. lv = u # v \<Longrightarrow> ends3 P (zc u v)) \<Longrightarrow> ends3 P (case_list y zc lv)"
  "ends3 P (g v) \<Longrightarrow> ends3 P (Let v g)"
  by (simp_all split: option.split sum.split prod.split bool.split list.split)

text \<open>What holds of the state a handler ends with.\<close>

definition state_ends :: "('w \<Rightarrow> bool) \<Rightarrow> 'e \<times> Artifact \<times> 'w \<Rightarrow> bool" where
  "state_ends P r \<longleftrightarrow> P (snd (snd r))"

lemma state_ends_branches [branches]:
  "(c \<Longrightarrow> state_ends P x) \<Longrightarrow> (\<not> c \<Longrightarrow> state_ends P y) \<Longrightarrow> state_ends P (if c then x else y)"
  "(ov = None \<Longrightarrow> state_ends P y) \<Longrightarrow> (\<And>v. ov = Some v \<Longrightarrow> state_ends P (z v)) \<Longrightarrow> state_ends P (case_option y z ov)"
  "(\<And>v. sv = Inl v \<Longrightarrow> state_ends P (zl v)) \<Longrightarrow> (\<And>v. sv = Inr v \<Longrightarrow> state_ends P (zr v)) \<Longrightarrow> state_ends P (case_sum zl zr sv)"
  "(\<And>u v. pv = (u, v) \<Longrightarrow> state_ends P (zp u v)) \<Longrightarrow> state_ends P (case_prod zp pv)"
  "(bv \<Longrightarrow> state_ends P x) \<Longrightarrow> (\<not> bv \<Longrightarrow> state_ends P y) \<Longrightarrow> state_ends P (case_bool x y bv)"
  "(lv = [] \<Longrightarrow> state_ends P y) \<Longrightarrow> (\<And>u v. lv = u # v \<Longrightarrow> state_ends P (zc u v)) \<Longrightarrow> state_ends P (case_list y zc lv)"
  "state_ends P (g v) \<Longrightarrow> state_ends P (Let v g)"
  "P w \<Longrightarrow> state_ends P (e, b, w)"
  by (simp_all add: state_ends_def split: option.split sum.split prod.split bool.split list.split)

lemma ends_branches [branches]:
  "ends1 P b \<Longrightarrow> ends2 P (e, b)" "ends1 P b \<Longrightarrow> ends3 P (e, b, w)"
  "ends2 P r \<Longrightarrow> ends3 P (case r of (e, b) \<Rightarrow> (e, b, w))"
  by (simp_all add: ends1_def ends2_def ends3_def split_beta)

abbreviation req_result :: "string \<Rightarrow> Artifact \<Rightarrow> go_error option \<times> Artifact \<Rightarrow> bool" where
  "req_result i a \<equiv> ends2 (writes_request i a)"

abbreviation resp_pair :: "string \<Rightarrow> Artifact \<Rightarrow> go_error option \<times> Artifact \<Rightarrow> bool" where
  "resp_pair i a \<equiv> ends2 (writes_response i a)"

abbreviation resp_result :: "string \<Rightarrow> Artifact \<Rightarrow> go_error option \<times> Artifact \<times> 'w \<Rightarrow> bool" where
  "resp_result i a \<equiv> ends3 (writes_response i a)"

named_theorems writes

lemma writes_request_trans: "writes_request i a b \<Longrightarrow> writes_request i b c \<Longrightarrow> writes_request i a c"
  using request_frame_trans [of "{i}" a b "{i}" c] by (simp add: writes_request_def)

lemma writes_response_trans: "writes_response i a b \<Longrightarrow> writes_response i b c \<Longrightarrow> writes_response i a c"
  using response_frame_trans [of "{i}" a b "{i}" c] by (simp add: writes_response_def)

lemma writes_refl [writes]: "writes_request i a a" "writes_response i a a"
  by (simp_all add: writes_request_def writes_response_def)

lemma writes_request_body [writes]: "writes_request i a b \<Longrightarrow> writes_request i a (b\<lparr>a_Request := r\<rparr>)"
  by (rule writes_request_trans, assumption) (simp add: writes_request_def request_frame_def wf_artifact_def same_context_def)

lemma writes_request_set [writes]:
  "writes_request i a b \<Longrightarrow> writes_request i a (SetRequestPending i r b)"
  "writes_request i a b \<Longrightarrow> writes_request i a (SetRequestRejected i r b)"
  "writes_request i a b \<Longrightarrow> writes_request i a (SetRequestUnknown i r b)"
  "writes_request i a b \<Longrightarrow> writes_request i a (annotate_request i ann b)"
  by (rule writes_request_trans, assumption, simp add: writes_request_def)+

lemma writes_response_set [writes]:
  "writes_response i a b \<Longrightarrow> writes_response i a (SetResponseApproved i r m b)"
  "writes_response i a b \<Longrightarrow> writes_response i a (SetResponseRejected i r m b)"
  "writes_response i a b \<Longrightarrow> writes_response i a (SetResponseUnknown i r m b)"
  "writes_response i a b \<Longrightarrow> writes_response i a (annotate_response i ann b)"
  by (rule writes_response_trans, assumption, simp add: writes_response_def)+

lemma writes_ends [writes]: "writes_request i a b \<Longrightarrow> ends1 (writes_request i a) b" "writes_response i a b \<Longrightarrow> ends1 (writes_response i a) b"
  by (simp_all add: ends1_def)

lemmas [writes] = branches

lemma local_inspectorI:
  assumes "\<And>a. req_result (ins_ID ins) a (ins_InspectRequest ins a)"
    and "\<And>f w a. resp_result (ins_ID ins) a (ins_InspectArtifact ins f w a)"
  shows "local_inspector ins"
  using assms by unfold_locales (simp_all add: ends2_def ends3_def writes_request_def writes_response_def)

section \<open>Registries\<close>

definition registry_local :: "(string, 'w Inspector) gomap \<Rightarrow> string list \<Rightarrow> bool" where
  "registry_local insm ids \<longleftrightarrow>
     (\<forall>i \<in> set ids. \<exists>ins. map_get insm i = Some ins \<and> ins_ID ins = i \<and> local_inspector ins)"

lemma registry_localD:
  "registry_local insm (i # ids) \<Longrightarrow>
     \<exists>ins. map_get insm i = Some ins \<and> ins_ID ins = i \<and> local_inspector ins \<and> registry_local insm ids"
  by (auto simp: registry_local_def)

lemma registry_local_append [simp]: "registry_local insm (xs @ ys) \<longleftrightarrow> registry_local insm xs \<and> registry_local insm ys"
  by (auto simp: registry_local_def)

lemma registry_local_ok: "registry_local insm ids \<Longrightarrow> registry_ok insm ids"
  unfolding registry_local_def registry_ok_def using local_inspector.axioms(1) by blast

lemma registry_local_new:
  assumes "distinct (map ins_ID insList)" and "\<forall>ins \<in> set insList. local_inspector ins"
  shows "registry_local (insmap (newInspectors p insList)) (insp_ids (newInspectors p insList))"
  unfolding registry_local_def
proof
  fix i assume "i \<in> set (insp_ids (newInspectors p insList))"
  then obtain ins where "ins \<in> set insList" and "i = ins_ID ins" by (auto simp: newInspectors_def)
  with assms show "\<exists>ins. map_get (insmap (newInspectors p insList)) i = Some ins \<and> ins_ID ins = i \<and> local_inspector ins"
    using newInspectors_get by blast
qed

section \<open>Requests\<close>

lemma run_request_keeps:
  "registry_local insm ids \<Longrightarrow> j \<notin> set ids \<Longrightarrow>
     map_get (a_RequestInspection (snd (run_request insm ids a))) j = map_get (a_RequestInspection a) j"
proof (induction insm ids a rule: run_request.induct)
  case (2 insm i ids a)
  then obtain ins where ins: "map_get insm i = Some ins" "ins_ID ins = i" "local_inspector ins" "registry_local insm ids"
    using registry_localD by blast
  obtain e b where eb: "ins_InspectRequest ins a = (e, b)" by fastforce
  have "map_get (a_RequestInspection b) j = map_get (a_RequestInspection a) j"
    using local_inspector.request_local [OF ins(3), of j a] 2(3) eb ins(2) by simp
  with 2 ins eb show ?case by (cases e) auto
qed simp

lemma run_request_entry:
  assumes "registry_local insm (xs @ i # ys)" and "distinct (xs @ i # ys)"
    and "run_request insm (xs @ i # ys) a = (None, a')"
  shows "\<exists>b ins c. run_request insm xs a = (None, b) \<and> map_get insm i = Some ins \<and> ins_InspectRequest ins b = (None, c) \<and>
    map_get (a_RequestInspection a') i = map_get (a_RequestInspection c) i \<and>
    (\<forall>j \<in> set xs. map_get (a_RequestInspection b) j = map_get (a_RequestInspection a') j) \<and> same_context a b"
proof -
  from assms(3) obtain b where b: "run_request insm xs a = (None, b)" and rest: "run_request insm (i # ys) b = (None, a')"
    by (auto simp: run_request_append split: prod.splits option.splits)
  from assms(1) obtain ins where ins: "map_get insm i = Some ins" "ins_ID ins = i" "local_inspector ins" "registry_local insm ys"
    using registry_localD [of insm i ys] by auto
  from rest ins obtain c where c: "ins_InspectRequest ins b = (None, c)" and tail: "run_request insm ys c = (None, a')"
    by (auto split: prod.splits option.splits)
  have entry: "map_get (a_RequestInspection a') j = map_get (a_RequestInspection c) j" if "j \<notin> set ys" for j
    using run_request_keeps [OF ins(4) that, of c] tail by simp
  moreover have "map_get (a_RequestInspection c) j = map_get (a_RequestInspection b) j" if "j \<noteq> i" for j
    using local_inspector.request_local [OF ins(3), of j b] ins(2) that c by simp
  moreover have "same_context a b"
    using run_request_frame [OF registry_local_ok, of insm xs a] assms(1) b by (simp add: request_frame_def)
  moreover have "j \<notin> set ys \<and> j \<noteq> i" if "j \<in> set xs" for j using assms(2) that by auto
  moreover have "i \<notin> set ys" using assms(2) by simp
  ultimately show ?thesis using b ins(1) c by (intro exI [of _ b] exI [of _ ins] exI [of _ c]) (simp add: entry)
qed

section \<open>Files\<close>

lemma run_artifact_keeps:
  "registry_local insm ids \<Longrightarrow> j \<notin> set ids \<Longrightarrow>
     map_get (a_ResponseInspection (fst (snd (run_artifact env insm perm f ids w a)))) j = map_get (a_ResponseInspection a) j"
proof (induction env insm perm f ids w a rule: run_artifact.induct)
  case (2 env insm perm f i ids w a)
  then obtain ins where ins: "map_get insm i = Some ins" "ins_ID ins = i" "local_inspector ins" "registry_local insm ids"
    using registry_localD by blast
  obtain e b v where eb: "ins_InspectArtifact ins f w a = (e, b, v)" by (metis prod_cases3)
  have "map_get (a_ResponseInspection b) j = map_get (a_ResponseInspection a) j"
    using local_inspector.response_local [OF ins(3), of j f w a] 2(4) eb ins(2) by simp
  with 2 ins eb show ?case by (cases e) (auto split: option.splits)
qed simp

lemma run_artifact_entry:
  assumes "registry_local insm (xs @ i # ys)" and "distinct (xs @ i # ys)"
    and "run_artifact env insm perm f (xs @ i # ys) w a = (None, a', w')"
  shows "\<exists>b v ins c v'. run_artifact env insm perm f xs w a = (None, b, v) \<and> map_get insm i = Some ins \<and>
    (c = b \<and> skips perm a i \<or> \<not> skips perm a i \<and> ins_InspectArtifact ins f v b = (None, c, v')) \<and>
    map_get (a_ResponseInspection a') i = map_get (a_ResponseInspection c) i \<and>
    (\<forall>j \<in> set xs. map_get (a_ResponseInspection b) j = map_get (a_ResponseInspection a') j) \<and>
    map_get (a_ResponseInspection b) i = map_get (a_ResponseInspection a) i \<and>
    a_RequestInspection b = a_RequestInspection a \<and> same_context a b"
proof -
  from assms(3) obtain b v where b: "run_artifact env insm perm f xs w a = (None, b, v)"
    and rest: "run_artifact env insm perm f (i # ys) v b = (None, a', w')"
    by (auto simp: run_artifact_append split: prod.splits option.splits)
  from assms(1) obtain ins where ins: "map_get insm i = Some ins" "ins_ID ins = i" "local_inspector ins" "registry_local insm ys"
    using registry_localD [of insm i ys] by auto
  have frame: "a_RequestInspection b = a_RequestInspection a" "same_context a b"
    using run_artifact_frame [OF registry_local_ok, of insm xs perm a env f w] assms(1) b by (auto simp: response_frame_def)
  then have skip: "skips perm b i \<longleftrightarrow> skips perm a i" by (simp add: skips_def)
  from rest ins skip obtain c v' where c: "c = b \<and> skips perm a i \<or> \<not> skips perm a i \<and> ins_InspectArtifact ins f v b = (None, c, v')"
    and tail: "\<exists>w1. run_artifact env insm perm f ys w1 c = (None, a', w')"
    by (auto split: prod.splits option.splits if_splits)
  then obtain w1 where w1: "run_artifact env insm perm f ys w1 c = (None, a', w')" by blast
  have entry: "map_get (a_ResponseInspection a') j = map_get (a_ResponseInspection c) j" if "j \<notin> set ys" for j
    using run_artifact_keeps [OF ins(4) that, of env perm f w1 c] w1 by simp
  moreover have "map_get (a_ResponseInspection c) j = map_get (a_ResponseInspection b) j" if "j \<noteq> i" for j
    using local_inspector.response_local [OF ins(3), of j f v b] ins(2) that c by auto
  moreover have "map_get (a_ResponseInspection b) i = map_get (a_ResponseInspection a) i"
    using run_artifact_keeps [of insm xs i env perm f w a] assms(1,2) b by simp
  moreover have "j \<notin> set ys \<and> j \<noteq> i" if "j \<in> set xs" for j using assms(2) that by auto
  moreover have "i \<notin> set ys" using assms(2) by simp
  ultimately show ?thesis using b ins(1) c frame
    by (intro exI [of _ b] exI [of _ v] exI [of _ ins] exI [of _ c] exI [of _ v']) (simp add: entry)
qed

end
