(* ===== verification/Apt_Types.thy ===== *)
theory Apt_Types
  imports Apt_Props Pipeline
begin

text \<open>
  The types of the state of the APT inspectors. In the code a digest is an array of 32 bytes, the size of
  a listed file an unsigned and the size of a package a signed 64-bit integer, and the keys of a map are
  distinct; the model uses lists, naturals, integers and association lists. Every operation keeps the
  state within the types of the code.
\<close>

definition typed_files :: "(Sha256Digest, releaseEntry) gomap \<Rightarrow> bool" where
  "typed_files files \<longleftrightarrow> wf_map files \<and> (\<forall>(d, e) \<in> set files. length d = 32 \<and> int (re_Size e) < 2 ^ 64)"

definition typed_release :: "releaseFile \<Rightarrow> bool" where
  "typed_release rel \<longleftrightarrow> length (rf_Sha256 rel) = 32 \<and> typed_files (rf_Files rel)"

definition typed_entry :: "aptPackagesEntry \<Rightarrow> bool" where
  "typed_entry e \<longleftrightarrow> - (2 ^ 63) \<le> pe_Size e \<and> pe_Size e < 2 ^ 63"

definition typed_entries :: "(Sha256Digest, aptPackagesEntry) gomap \<Rightarrow> bool" where
  "typed_entries es \<longleftrightarrow> wf_map es \<and> (\<forall>(d, e) \<in> set es. length d = 32 \<and> typed_entry e)"

definition typed_packages :: "aptPackages \<Rightarrow> bool" where
  "typed_packages pkg \<longleftrightarrow> length (ap_sha256 pkg) = 32 \<and> typed_entries (ap_entries pkg)"

definition typed_apt :: "apt_state \<Rightarrow> bool" where
  "typed_apt st \<longleftrightarrow> wf_map (st_release st) \<and> (\<forall>(repo, rel) \<in> set (st_release st). typed_release rel) \<and>
     wf_map (st_packages st) \<and> (\<forall>(origin, ps) \<in> set (st_packages st). wf_map ps \<and> (\<forall>(path, pkg) \<in> set ps. typed_packages pkg)) \<and>
     distinct (st_validated st) \<and> (\<forall>d \<in> set (st_validated st). length d = 32)"

section \<open>Parsers\<close>

lemma ParseUint_bound: "ParseUint s base bits = Inr n \<Longrightarrow> int n < 2 ^ bits"
  by (auto simp: ParseUint_def split: if_splits option.splits)

lemma ParseInt_bound: "0 < bits \<Longrightarrow> ParseInt s base bits = Inr i \<Longrightarrow> - (2 ^ (bits - 1)) \<le> i \<and> i < 2 ^ (bits - 1)"
  by (auto simp: ParseInt_def Let_def split: if_splits option.splits prod.splits)
     (smt (verit) of_nat_0_le_iff zero_less_power)+

lemma typed_files_set: "typed_files files \<Longrightarrow> NewSha256Digest s = Inr d \<Longrightarrow> ParseUint t 10 64 = Inr n \<Longrightarrow>
    typed_files (map_set d \<lparr>re_Name = name, re_Size = n\<rparr> files)"
  unfolding typed_files_def by (auto dest!: set_map_set sha256.new_length ParseUint_bound)

lemma parseSignaturesSection_typed:
  "parseSignaturesSection errs files sc = Inr (errs', files') \<Longrightarrow> typed_files files \<Longrightarrow> typed_files files'"
  by (induction errs files sc rule: parseSignaturesSection.induct) (auto split: if_splits list.splits sum.splits simp: typed_files_set)

lemma parsePackages_typed:
  "parsePackages num e entries sc = Inr (n, entries') \<Longrightarrow> typed_entries entries \<Longrightarrow> typed_entry e \<Longrightarrow> typed_entries entries'"
proof (induction sc arbitrary: num e entries)
  case (Cons line sc)
  have size: "typed_entry (e\<lparr>pe_Size := i\<rparr>)" if "ParseInt v 10 64 = Inr i" for v i
    using ParseInt_bound [of 64 v 10 i] that by (simp add: typed_entry_def)
  have add: "typed_entries (map_set h e entries)" if "NewSha256Digest v = Inr h" for v h
    using sha256.new_length [OF that] Cons.prems(2,3) unfolding typed_entries_def by (auto dest!: set_map_set)
  have keep: "typed_entry (e\<lparr>pe_Pkg := v\<rparr>)" "typed_entry (e\<lparr>pe_Version := v\<rparr>)" "typed_entry (e\<lparr>pe_Architecture := v\<rparr>)" "typed_entry zero_entry" for v
    using Cons.prems(3) by (simp_all add: typed_entry_def zero_entry_def)
  have "\<exists>num' e' es'. parsePackages num' e' es' sc = Inr (n, entries') \<and> typed_entries es' \<and> typed_entry e'"
    using Cons.prems by (auto simp: Let_def split: if_splits option.splits sum.splits; use keep size add in blast)
  with Cons.IH show ?case by blast
qed simp

section \<open>Operations\<close>

lemma typed_new [simp]: "typed_apt new_apt_state"
  by (simp add: typed_apt_def new_apt_state_def)

lemma typed_setReleaseState: "typed_apt st \<Longrightarrow> typed_release rel \<Longrightarrow> typed_apt (setReleaseState repo rel st)"
  by (auto simp: typed_apt_def setReleaseState_def dest!: set_map_set)

lemma typed_validatePackages: "typed_apt st \<Longrightarrow> length d = 32 \<Longrightarrow> typed_apt (validatePackages d st)"
  by (auto simp: typed_apt_def validatePackages_def)

lemma typed_addPackages:
  assumes "typed_apt st" and "typed_packages pkg"
  shows "typed_apt (addPackages origin path pkg st)"
proof -
  let ?ps = "case map_get (st_packages st) origin of None \<Rightarrow> [] | Some ps \<Rightarrow> ps"
  have "wf_map ?ps \<and> (\<forall>(path, pkg) \<in> set ?ps. typed_packages pkg)"
    using assms(1) by (auto simp: typed_apt_def split: option.splits dest!: map_of_SomeD)
  with assms have "wf_map (map_set path pkg ?ps) \<and> (\<forall>(path, pkg) \<in> set (map_set path pkg ?ps). typed_packages pkg)"
    by (auto dest!: set_map_set)
  with assms(1) show ?thesis
    unfolding typed_apt_def addPackages_def Let_def by (auto dest!: set_map_set)
qed

lemma inspect_release_text_typed:
  assumes "typed_apt st" and "length (Artifact_Sha256 a) = 32"
  shows "state_ends typed_apt (inspect_release_text env cfg name errs ann text st a)"
proof -
  obtain e a' st' where r: "inspect_release_text env cfg name errs ann text st a = (e, a', st')" by (metis prod_cases3)
  from inspect_release_text_state [OF r] have "typed_apt st'"
  proof (elim disjE conjE exE)
    fix repo rel flds sc
    assume st': "st' = setReleaseState repo rel st" "rf_Sha256 rel = Artifact_Sha256 a" "parseSignaturesSection [] [] sc = Inr ([], rf_Files rel)"
    have "typed_release rel" using parseSignaturesSection_typed [OF st'(3)] st'(2) assms(2) by (simp add: typed_release_def typed_files_def)
    with assms(1) st'(1) show ?thesis by (simp add: typed_setReleaseState)
  qed (use assms in simp)
  with r show ?thesis by (simp add: state_ends_def)
qed

lemma AptRelease_typed:
  assumes "typed_apt st" and "length (Artifact_Sha256 a) = 32"
  shows "state_ends typed_apt (AptRelease_InspectArtifact env cfg f st a)"
  unfolding AptRelease_InspectArtifact_def inspect_release_file_def
  by (intro branches assms inspect_release_text_typed)

lemma AptPackages_typed:
  assumes "typed_apt st" and "length (Artifact_Sha256 a) = 32"
  shows "state_ends typed_apt (AptPackages_InspectArtifact env cfg f st a)"
proof -
  have pkg: "typed_packages (newAptPackages (Artifact_Sha256 a) origin suite component architecture)" for origin suite component architecture
    using assms(2) by (simp add: newAptPackages_def typed_packages_def typed_entries_def)
  have entries: "typed_packages (pkg\<lparr>ap_entries := es\<rparr>)" if "typed_packages pkg" "packages_of r = Inr (n, es)" for pkg r n es
    using that parsePackages_typed [of 0 zero_entry "[]" _ n es]
    by (simp add: packages_of_def typed_packages_def typed_entries_def typed_entry_def zero_entry_def)
  have sub: "state_ends typed_apt (inspect_packages_entries env f origin path pkg md st' a)" if "typed_packages pkg" "typed_apt st'" for origin path pkg md st'
    unfolding inspect_packages_entries_def
    by (intro branches that typed_validatePackages assms typed_addPackages entries; simp)
  show ?thesis unfolding AptPackages_InspectArtifact_def
    by (intro branches assms sub pkg typed_addPackages)
qed

lemma apt_inspector_typed:
  assumes "ins \<in> set (apt_inspectors env denv cfg st0)" and "typed_apt st" and "length (Artifact_Sha256 a) = 32"
    and "ins_InspectArtifact ins f st a = (e, b, st')"
  shows "typed_apt st'"
proof -
  have "state_ends typed_apt (AptTranslation_InspectArtifact env f st a)" "state_ends typed_apt (AptCommands_InspectArtifact env f st a)"
    "state_ends typed_apt (Deb_InspectArtifact denv f st a)" "state_ends typed_apt (Default_InspectArtifact f st a)"
    unfolding AptTranslation_InspectArtifact_def AptCommands_InspectArtifact_def Deb_InspectArtifact_def Default_InspectArtifact_def
    by (intro branches assms)+
  with assms AptRelease_typed [OF assms(2,3), of env cfg f] AptPackages_typed [OF assms(2,3), of env cfg f] show ?thesis
    by (auto simp: apt_inspectors_def AptReleaseInspector_def AptPackagesInspector_def AptTranslationInspector_def AptCommandsInspector_def
        DebInspector_def DefaultInspector_def state_ends_def)
qed

section \<open>Sessions\<close>

lemma apt_exec_typed:
  assumes "session_inv env cfg H (st, fls)" and "\<And>x. length (H x) = 32" and "typed_apt st"
  shows "typed_apt (fst (apt_exec ienv env denv cfg perm H detect ev (st, fls)))"
proof (cases ev)
  case (Response n)
  show ?thesis
  proof (cases "n < length fls \<and> fl_reqs (fls ! n) = [] \<and> fl_todo (fls ! n) \<noteq> []")
    case True
    let ?fl = "fls ! n" and ?R = "newInspectors perm (apt_inspectors env denv cfg st)"
    from True obtain i rest where i: "fl_todo ?fl = i # rest" by (cases "fl_todo ?fl") auto
    have fl: "flight_inv env cfg H ?fl" using assms(1) True by (simp add: session_inv_def)
    then have dig: "length (Artifact_Sha256 (fl_art ?fl)) = 32" using assms(2) by (simp add: flight_inv_def)
    from flight_cases [OF fl i] have "i \<in> set apt_ids" by (auto simp: apt_ids_def)
    then obtain ins where ins: "ins \<in> set (apt_inspectors env denv cfg st)" "ins_ID ins = i"
      by (metis apt_inspectors_ids imageE list.set_map)
    obtain e a st' where r: "run_artifact ienv (insmap ?R) perm (fl_file ?fl) [i] st (fl_art ?fl) = (e, a, st')" by (metis prod_cases3)
    from run_single [OF ins(1), of ienv perm "fl_file ?fl" "fl_art ?fl" e a st'] r ins(2)
    have "st' = st \<or> (\<exists>b. ins_InspectArtifact ins (fl_file ?fl) st (fl_art ?fl) = (e, b, st'))" by blast
    then have "typed_apt st'" using apt_inspector_typed [OF ins(1) assms(3) dig] assms(3) by blast
    with Response True i r show ?thesis by (cases e) simp_all
  qed (use Response assms(3) in \<open>auto simp: Let_def split: list.splits\<close>)
qed (use assms(3) in \<open>auto simp: Let_def split: list.splits prod.splits option.splits\<close>)



end
