(* ===== verification/Git_Protocol.thy ===== *)
theory Git_Protocol
  imports Inspector_Base
begin

text \<open>
  \<^verbatim>\<open>inspectors/git/protocol.go\<close> and the pack reader of \<^verbatim>\<open>inspectors/git/utils.go\<close>: packet lines of the git
  protocol and the side bands of a pack.

  The loops call \<^verbatim>\<open>Read\<close> on a file or on a buffer, which returns what is left when that is less than
  asked for; the rest of the target slice keeps its content. A call for no bytes at the end succeeds
  on a file and fails on a buffer (\<^theory_text>\<open>zero_ok\<close>). The loops have no bound in the code: they are run with
  fuel, one unit more than there are bytes, and \<open>git_decoding_terminates\<close> shows that this is enough.
\<close>

section \<open>Readers\<close>

definition rd_Read :: "bool \<Rightarrow> nat \<Rightarrow> string \<Rightarrow> (string \<times> string) option" where
  "rd_Read zero_ok n rest =
     (if rest = [] then (if n = 0 \<and> zero_ok then Some ([], []) else None) else Some (take n rest, drop n rest))"

definition rd_EOF :: go_error where
  "rd_EOF = ErrVar ''io.EOF'' ''EOF''"

text \<open>A loop given by its rounds, which end it (\<^const>\<open>Inr\<close>) or go on; \<^const>\<open>None\<close> when the fuel is used up.\<close>

fun run_loop :: "nat \<Rightarrow> ('s \<Rightarrow> 's + 'r) \<Rightarrow> 's \<Rightarrow> 'r option" where
  "run_loop 0 round s = None"
| "run_loop (Suc n) round s = (case round s of Inr r \<Rightarrow> Some r | Inl s' \<Rightarrow> run_loop n round s')"

text \<open>A loop whose rounds make a measure smaller returns, and more fuel than the measure does not change the result.\<close>

locale terminating_loop =
  fixes round :: "'s \<Rightarrow> 's + 'r" and m :: "'s \<Rightarrow> nat"
  assumes shorter: "round s = Inl s' \<Longrightarrow> m s' < m s"
begin

lemma returns: "m s < n \<Longrightarrow> \<exists>r. run_loop n round s = Some r"
proof (induction n arbitrary: s)
  case (Suc n)
  show ?case
  proof (cases "round s")
    case (Inl s')
    with shorter Suc.prems have "m s' < n" by fastforce
    with Suc.IH Inl show ?thesis by simp
  qed simp
qed simp

lemma fuel_irrelevant: "m s < n \<Longrightarrow> m s < k \<Longrightarrow> run_loop n round s = run_loop k round s"
proof (induction n arbitrary: s k)
  case (Suc n)
  from Suc.prems obtain k' where k: "k = Suc k'" by (cases k) auto
  show ?case
  proof (cases "round s")
    case (Inl s')
    with shorter have "m s' < m s" by blast
    with Suc.prems k have "m s' < n" "m s' < k'" by auto
    then have "run_loop n round s' = run_loop k' round s'" by (rule Suc.IH)
    with Inl k show ?thesis by simp
  qed (simp add: k)
qed simp

end

text \<open>The target slice after a read into a fresh one.\<close>

definition zero_padded :: "nat \<Rightarrow> string \<Rightarrow> string" where
  "zero_padded n s = s @ replicate (n - length s) (CHR 0x00)"

section \<open>Packet lines\<close>

definition getGitProtocol :: "Artifact \<Rightarrow> string" where
  "getGitProtocol a = (case RequestHeader a ''Git-Protocol'' of Some [p] \<Rightarrow> p | _ \<Rightarrow> [])"

definition drop_last_if :: "char \<Rightarrow> string \<Rightarrow> string" where
  "drop_last_if c l = (if l \<noteq> [] \<and> last l = c then butlast l else l)"

definition decode_error :: go_error where
  "decode_error = Errorf ''decode error''"

type_synonym decoded = "string list \<times> go_error option \<times> string"

text \<open>
  One round of \<^verbatim>\<open>decodeGitProtocol\<close>: the state of the next round, or the messages, the error and what the
  reader has left.
\<close>

definition decode_round :: "bool \<Rightarrow> string list \<times> string \<Rightarrow> (string list \<times> string) + decoded" where
  "decode_round zero_ok s =
     (case s of (msgs, rest) \<Rightarrow>
       (case rd_Read zero_ok 4 rest of None \<Rightarrow> Inr (msgs, Some decode_error, rest)
        | Some (b, rest1) \<Rightarrow>
          (case ParseUint (zero_padded 4 b) 16 32 of Inl err \<Rightarrow> Inr (msgs, Some err, rest1)
           | Inr sz \<Rightarrow>
             (if sz = 0 \<or> sz = 2 then Inr (msgs, None, rest1)
              else if sz = 3 \<or> sz = 4 then Inr (msgs, Some decode_error, rest1)
              else (let len = (if sz = 1 then 0 else sz - 4) in
                case rd_Read zero_ok len rest1 of
                  None \<Rightarrow> Inr (msgs, Some (ErrWrap (''cannot read '' @ fmt_nat (len + 4) @ '' bytes from input'') rd_EOF), rest1)
                | Some (l, rest2) \<Rightarrow>
                  (let line = drop_last_if CHR 0x0D (drop_last_if CHR 0x0A (zero_padded len l)); msgs' = msgs @ [line] in
                   if line = ''packfile'' \<or> line = CHR 0x01 # ''packfile'' then Inr (msgs', None, rest2)
                   else if line = ''NAK'' then Inr (msgs', None, rest2)
                   else Inl (msgs', rest2)))))))"

definition loop_diverges :: go_error where
  "loop_diverges = ErrVar ''runtime.loop'' ''does not return''"

definition decodeGitProtocol :: "bool \<Rightarrow> string \<Rightarrow> decoded" where
  "decodeGitProtocol zero_ok data =
     (case run_loop (Suc (length data)) (decode_round zero_ok) ([], data) of Some r \<Rightarrow> r | None \<Rightarrow> ([], Some loop_diverges, data))"

section \<open>Packs\<close>

text \<open>
  One round of \<^verbatim>\<open>readPack\<close>: the buffer of the length is reused, so that a short read keeps bytes of the
  length before. The state holds the buffer, what was written and what is left; \<open>wr\<close> is the error of a write.
\<close>

definition pack_round ::
  "(string \<Rightarrow> go_error option) \<Rightarrow> string \<times> string \<times> string \<Rightarrow> (string \<times> string \<times> string) + (go_error option \<times> string)" where
  "pack_round wr s =
     (case s of (buf, out, rest) \<Rightarrow>
       (case rd_Read True 4 rest of None \<Rightarrow> Inr (Some rd_EOF, out)
        | Some (b, rest1) \<Rightarrow>
          (let buf' = b @ drop (length b) buf in
           case ParseInt buf' 16 32 of Inl err \<Rightarrow> Inr (Some err, out)
           | Inr sz \<Rightarrow>
             (if sz < 5 then Inr (None, out)
              else (case rd_Read True 1 rest1 of None \<Rightarrow> Inr (Some rd_EOF, out)
                | Some (band, rest2) \<Rightarrow>
                  (let len = nat (sz - 5) in
                   case rd_Read True len rest2 of None \<Rightarrow> Inr (Some rd_EOF, out)
                   | Some (d, rest3) \<Rightarrow>
                     (if band \<noteq> [CHR 0x01] then Inl (buf', out, rest3)
                      else (let databuf = zero_padded len d in
                        case wr databuf of Some err \<Rightarrow> Inr (Some err, out)
                        | None \<Rightarrow> Inl (buf', out @ databuf, rest3)))))))))"

definition readPack :: "(string \<Rightarrow> go_error option) \<Rightarrow> string \<Rightarrow> go_error option \<times> string" where
  "readPack wr data = (case run_loop (Suc (length data)) (pack_round wr) (replicate 4 (CHR 0x00), [], data) of
     Some r \<Rightarrow> r | None \<Rightarrow> (Some loop_diverges, []))"

section \<open>Termination\<close>

lemma rd_Read_Some: "rd_Read z n rest = Some (b, r) \<Longrightarrow> b = take n rest \<and> r = drop n rest"
  by (auto simp: rd_Read_def split: if_splits)

lemma rd_Read_length:
  "rd_Read z n rest = Some (b, r) \<Longrightarrow> length r \<le> length rest \<and> (0 < n \<longrightarrow> length r < length rest)"
  by (auto simp: rd_Read_def split: if_splits)

lemma decode_round_shorter: "decode_round z s = Inl s' \<Longrightarrow> length (snd s') < length (snd s)"
  by (auto simp: decode_round_def Let_def split: prod.splits option.splits sum.splits if_splits
      dest!: rd_Read_length)

lemma pack_round_shorter: "pack_round wr s = Inl s' \<Longrightarrow> length (snd (snd s')) < length (snd (snd s))"
  by (auto simp: pack_round_def Let_def split: prod.splits option.splits sum.splits if_splits
      dest!: rd_Read_length)

interpretation decode_loop: terminating_loop "decode_round z" "\<lambda>s. length (snd s)" for z
  by unfold_locales (rule decode_round_shorter)

interpretation pack_loop: terminating_loop "pack_round wr" "\<lambda>s. length (snd (snd s))" for wr
  by unfold_locales (rule pack_round_shorter)

lemma decodeGitProtocol_loop:
  assumes "length data < n"
  shows "run_loop n (decode_round z) ([], data) = Some (decodeGitProtocol z data)"
proof -
  from assms have "run_loop n (decode_round z) ([], data) = run_loop (Suc (length data)) (decode_round z) ([], data)"
    by (intro decode_loop.fuel_irrelevant) auto
  moreover obtain r where "run_loop n (decode_round z) ([], data) = Some r" using decode_loop.returns [of "([], data)" n z] assms by auto
  ultimately show ?thesis unfolding decodeGitProtocol_def by (metis option.case(2))
qed

lemma readPack_loop:
  assumes "length data < n"
  shows "run_loop n (pack_round wr) (replicate 4 (CHR 0x00), [], data) = Some (readPack wr data)"
proof -
  let ?s = "(replicate 4 (CHR 0x00), [], data)"
  from assms have "run_loop n (pack_round wr) ?s = run_loop (Suc (length data)) (pack_round wr) ?s"
    by (intro pack_loop.fuel_irrelevant) auto
  moreover obtain r where "run_loop n (pack_round wr) ?s = Some r" using pack_loop.returns [of ?s n wr] assms by auto
  ultimately show ?thesis unfolding readPack_def by (metis option.case(2))
qed

section \<open>Round trips\<close>

text \<open>The encoding a git client or server uses: the length in four hexadecimal digits before the payload.\<close>

definition hex4 :: "nat \<Rightarrow> string" where
  "hex4 n = [digit_char (n div 4096), digit_char (n div 256 mod 16), digit_char (n div 16 mod 16), digit_char (n mod 16)]"

definition pkt_line :: "string \<Rightarrow> string" where
  "pkt_line s = hex4 (length s + 4) @ s"

definition band_packet :: "char \<times> string \<Rightarrow> string" where
  "band_packet p = hex4 (length (snd p) + 5) @ fst p # snd p"

lemma hex4_split:
  fixes n :: nat
  shows "((n div 4096 * 16 + n div 256 mod 16) * 16 + n div 16 mod 16) * 16 + n mod 16 = n"
proof -
  have "n div 4096 = n div 256 div 16" "n div 256 = n div 16 div 16" by (simp_all add: div_mult2_eq [symmetric])
  then show ?thesis by simp
qed

lemma hex4_value:
  assumes "n < 65536"
  shows "digits_value 16 0 (hex4 n) = Some n"
proof -
  have "n div 4096 < 16" using assms by (simp add: div_less_iff_less_mult)
  then show ?thesis using hex4_split [of n] by (simp add: hex4_def)
qed

lemma hex4_length [simp]: "length (hex4 n) = 4" "hex4 n \<noteq> []"
  by (simp_all add: hex4_def)

lemma digit_char_not_sign: "d < 16 \<Longrightarrow> digit_char d \<noteq> CHR ''-'' \<and> digit_char d \<noteq> CHR ''+''"
  using from_hex_digit_char [of d] by (auto simp: from_hex_def)

lemma ParseUint_hex4: "n < 65536 \<Longrightarrow> ParseUint (hex4 n) 16 32 = Inr n"
  by (simp add: ParseUint_def hex4_value)

lemma ParseInt_hex4:
  assumes "n < 65536"
  shows "ParseInt (hex4 n) 16 32 = Inr (int n)"
proof -
  have "n div 4096 < 16" using assms by (simp add: div_less_iff_less_mult)
  then have "hd (hex4 n) \<noteq> CHR ''-''" "hd (hex4 n) \<noteq> CHR ''+''" using digit_char_not_sign by (auto simp: hex4_def)
  then have "(case hex4 n of c # r \<Rightarrow> if c = CHR ''-'' then (True, r) else if c = CHR ''+'' then (False, r) else (False, hex4 n)
      | [] \<Rightarrow> (False, [])) = (False, hex4 n)"
    by (cases "hex4 n") (auto simp del: hex4_length simp: hex4_length(2))
  then show ?thesis using assms by (simp add: ParseInt_def hex4_value)
qed

lemma rd_Read_append: "xs \<noteq> [] \<Longrightarrow> rd_Read z (length xs) (xs @ rest) = Some (xs, rest)"
  by (simp add: rd_Read_def)

lemma rd_Read_hex4: "rd_Read z 4 (hex4 n @ rest) = Some (hex4 n, rest)"
  using rd_Read_append [of "hex4 n" z rest] by simp

definition plain_msg :: "string \<Rightarrow> bool" where
  "plain_msg s \<longleftrightarrow> s \<noteq> [] \<and> length s < 65532 \<and> last s \<noteq> CHR 0x0A \<and> last s \<noteq> CHR 0x0D \<and>
     s \<noteq> ''packfile'' \<and> s \<noteq> CHR 0x01 # ''packfile'' \<and> s \<noteq> ''NAK''"

lemma decode_round_msg:
  assumes "plain_msg s"
  shows "decode_round z (msgs, pkt_line s @ rest) = Inl (msgs @ [s], rest)"
proof -
  have "drop_last_if c s = s" if "c \<in> {CHR 0x0A, CHR 0x0D}" for c
    using assms that by (auto simp: drop_last_if_def plain_msg_def)
  moreover have "ParseUint (zero_padded 4 (hex4 (length s + 4))) 16 32 = Inr (length s + 4)"
    using assms by (simp add: zero_padded_def ParseUint_hex4 plain_msg_def)
  moreover have "s \<noteq> []" "s \<noteq> ''packfile''" "s \<noteq> CHR 0x01 # ''packfile''" "s \<noteq> ''NAK''" using assms by (auto simp: plain_msg_def)
  ultimately show ?thesis
    by (simp add: decode_round_def pkt_line_def rd_Read_hex4 rd_Read_append zero_padded_def)
qed

lemma decode_msgs:
  "\<forall>s \<in> set msgs. plain_msg s \<Longrightarrow>
     run_loop (length msgs + n) (decode_round z) (acc, concat (map pkt_line msgs) @ rest) = run_loop n (decode_round z) (acc @ msgs, rest)"
  by (induction msgs arbitrary: acc) (simp_all add: decode_round_msg)

lemma run_loop_more: "run_loop k round s = Some r \<Longrightarrow> k \<le> j \<Longrightarrow> run_loop j round s = Some r"
proof (induction k arbitrary: s j)
  case (Suc k)
  then show ?case by (cases j) (auto split: sum.splits)
qed simp

lemma decodeGitProtocol_run:
  assumes "run_loop n (decode_round z) ([], data) = Some r"
  shows "decodeGitProtocol z data = r"
  using run_loop_more [OF assms, of "max n (Suc (length data))"] decodeGitProtocol_loop [of data "max n (Suc (length data))" z]
  by simp

lemma readPack_run:
  assumes "run_loop n (pack_round wr) (replicate 4 (CHR 0x00), [], data) = Some r"
  shows "readPack wr data = r"
  using run_loop_more [OF assms, of "max n (Suc (length data))"] readPack_loop [of data "max n (Suc (length data))" wr]
  by simp

lemma hex4_0: "hex4 0 = ''0000''"
  by code_simp

lemma decode_flush: "decode_round z (msgs, ''0000'' @ rest) = Inr (msgs, None, rest)"
  using rd_Read_hex4 [of z 0 rest] ParseUint_hex4 [of 0] by (simp add: decode_round_def zero_padded_def hex4_0)

lemma pack_round_data:
  assumes "length (snd p) < 65531" and "wr (snd p) = None" and "length buf = 4"
  shows "pack_round wr (buf, out, band_packet p @ rest) =
    Inl (hex4 (length (snd p) + 5), out @ (if fst p = CHR 0x01 then snd p else []), rest)"
proof -
  obtain b d where p: "p = (b, d)" by (cases p)
  have "rd_Read True (length d) (d @ rest) = Some (d, rest)" by (simp add: rd_Read_def)
  moreover have "rd_Read True (Suc 0) (b # d @ rest) = Some ([b], d @ rest)" by (simp add: rd_Read_def)
  moreover have "ParseInt (hex4 (length d + 5)) 16 32 = Inr (int (length d + 5))" using assms p by (simp add: ParseInt_hex4)
  ultimately show ?thesis using assms p
    by (simp add: pack_round_def band_packet_def rd_Read_hex4 zero_padded_def Let_def)
qed

definition good_packet :: "(string \<Rightarrow> go_error option) \<Rightarrow> char \<times> string \<Rightarrow> bool" where
  "good_packet wr p \<longleftrightarrow> length (snd p) < 65531 \<and> wr (snd p) = None"

definition band_data :: "char \<Rightarrow> (char \<times> string) list \<Rightarrow> string" where
  "band_data b ps = concat (map snd (filter (\<lambda>p. fst p = b) ps))"

lemma pack_packets:
  "\<forall>p \<in> set ps. good_packet wr p \<Longrightarrow> length buf = 4 \<Longrightarrow>
     \<exists>buf'. length buf' = 4 \<and>
       run_loop (length ps + n) (pack_round wr) (buf, out, concat (map band_packet ps) @ rest) =
       run_loop n (pack_round wr) (buf', out @ band_data (CHR 0x01) ps, rest)"
proof (induction ps arbitrary: buf out)
  case Nil
  then show ?case by (auto simp: band_data_def)
next
  case (Cons p ps)
  let ?out = "out @ (if fst p = CHR 0x01 then snd p else [])"
  obtain buf' where "length buf' = 4" and
      "run_loop (length ps + n) (pack_round wr) (hex4 (length (snd p) + 5), ?out, concat (map band_packet ps) @ rest) =
       run_loop n (pack_round wr) (buf', ?out @ band_data (CHR 0x01) ps, rest)"
    using Cons.IH [of "hex4 (length (snd p) + 5)" ?out] Cons.prems by auto
  moreover have "pack_round wr (buf, out, band_packet p @ concat (map band_packet ps) @ rest) =
      Inl (hex4 (length (snd p) + 5), ?out, concat (map band_packet ps) @ rest)"
    using Cons.prems by (intro pack_round_data) (auto simp: good_packet_def)
  ultimately show ?case by (auto simp: band_data_def)
qed

lemma pack_flush: "length buf = 4 \<Longrightarrow> pack_round wr (buf, out, ''0000'' @ rest) = Inr (None, out)"
  using rd_Read_hex4 [of True 0 rest] ParseInt_hex4 [of 0] by (simp add: pack_round_def hex4_0)

lemma readPack_packets:
  assumes "\<forall>p \<in> set ps. good_packet wr p"
  shows "readPack wr (concat (map band_packet ps) @ ''0000'' @ rest) = (None, band_data (CHR 0x01) ps)"
proof (rule readPack_run)
  obtain buf where "length buf = 4" and
      "run_loop (length ps + 1) (pack_round wr) (replicate 4 (CHR 0x00), [], concat (map band_packet ps) @ ''0000'' @ rest) =
       run_loop 1 (pack_round wr) (buf, [] @ band_data (CHR 0x01) ps, ''0000'' @ rest)"
    using pack_packets [OF assms, of "replicate 4 (CHR 0x00)" 1 "[]" "''0000'' @ rest"] by auto
  then show "run_loop (length ps + 1) (pack_round wr) (replicate 4 (CHR 0x00), [], concat (map band_packet ps) @ ''0000'' @ rest) =
      Some (None, band_data (CHR 0x01) ps)"
    using pack_flush [of buf wr "band_data (CHR 0x01) ps" rest] by simp
qed

lemma decode_packfile: "decode_round z (msgs, pkt_line ''packfile'' @ rest) = Inr (msgs @ [''packfile''], None, rest)"
proof -
  have "ParseUint (hex4 12) 16 32 = Inr 12" by (rule ParseUint_hex4) simp
  then show ?thesis
    by (simp add: decode_round_def pkt_line_def rd_Read_hex4 rd_Read_def [of z 8] zero_padded_def drop_last_if_def)
qed

section \<open>Properties\<close>

text \<open>
  C29. The loops that read packet lines and packs return on every input: their rounds end for any number of
  rounds above the number of bytes of the input, with the result of \<^const>\<open>decodeGitProtocol\<close> and of
  \<^const>\<open>readPack\<close>, however short the reads and whatever the bytes are.
\<close>

theorem git_decoding_terminates:
  assumes "length data < n"
  shows "run_loop n (decode_round z) ([], data) = Some (decodeGitProtocol z data) \<and>
    run_loop n (pack_round wr) (replicate 4 (CHR 0x00), [], data) = Some (readPack wr data)"
  using assms by (simp add: decodeGitProtocol_loop readPack_loop)

text \<open>A delimiter packet with nothing after it, read from a buffer and from a file.\<close>

theorem git_decoding_terminates_witness:
  "length ''0001'' < 5 \<and> run_loop 5 (decode_round True) ([], ''0001'') = Some (decodeGitProtocol True ''0001'') \<and>
   run_loop 5 (pack_round (\<lambda>_. None)) (replicate 4 (CHR 0x00), [], ''0001'') = Some (readPack (\<lambda>_. None) ''0001'')"
  using git_decoding_terminates [of "''0001''" 5 True "\<lambda>_. None"] by simp



end
