(* ===== verification/Go_Url.thy ===== *)
theory Go_Url
  imports Go_Text
begin

text \<open>
  The part of \<^verbatim>\<open>net/url\<close> that reads query strings (\<^verbatim>\<open>QueryUnescape\<close>, \<^verbatim>\<open>ParseQuery\<close>, \<^verbatim>\<open>Values.Get\<close>), and the
  string functions of \<^verbatim>\<open>strings\<close> that only the inspectors of git repositories and stores use.
\<close>

section \<open>Query strings\<close>

fun QueryUnescape :: "string \<Rightarrow> string option" where
  "QueryUnescape [] = Some []"
| "QueryUnescape (c # r) =
     (if c = CHR 0x25 then
        (case r of a # b # r' \<Rightarrow>
           (case (from_hex a, from_hex b) of
              (Some x, Some y) \<Rightarrow> map_option ((#) (char_of (16 * x + y))) (QueryUnescape r')
            | _ \<Rightarrow> None)
         | _ \<Rightarrow> None)
      else map_option ((#) (if c = CHR ''+'' then CHR '' '' else c)) (QueryUnescape r))"

text \<open>One segment of a query; the segments with errors are left out.\<close>

definition query_pair :: "string \<Rightarrow> (string \<times> string) option" where
  "query_pair seg =
     (if CHR '';'' \<in> set seg \<or> seg = [] then None
      else (case (case strings_Cut seg CHR ''='' of None \<Rightarrow> (seg, []) | Some kv \<Rightarrow> kv) of (k, v) \<Rightarrow>
        (case (QueryUnescape k, QueryUnescape v) of (Some k', Some v') \<Rightarrow> Some (k', v') | _ \<Rightarrow> None)))"

definition url_Query :: "url \<Rightarrow> (string \<times> string) list" where
  "url_Query u = List.map_filter query_pair (strings_Split (u_RawQuery u) CHR ''&'')"

text \<open>\<^verbatim>\<open>Values.Get\<close>: the first value of the key, or the empty string.\<close>

definition query_Get :: "(string \<times> string) list \<Rightarrow> string \<Rightarrow> string" where
  "query_Get q k = (case map_of q k of None \<Rightarrow> [] | Some v \<Rightarrow> v)"

section \<open>Prefixes and suffixes\<close>

definition strings_CutPrefix :: "string \<Rightarrow> string \<Rightarrow> string option" where
  "strings_CutPrefix s p = (if strings_HasPrefix s p then Some (drop (length p) s) else None)"

text \<open>\<^verbatim>\<open>strings.SplitN(host, ":", 2)[0]\<close>.\<close>

definition host_name :: "string \<Rightarrow> string" where
  "host_name h = takeWhile (\<lambda>c. c \<noteq> CHR '':'') h"

end
