(* ===== verification/Git.thy ===== *)
theory Git
  imports Git_Protocol Go_Url
begin

text \<open>
  \<^verbatim>\<open>inspectors/git\<close>: the configuration (\<^verbatim>\<open>config/config.go\<close>), the inspector of smart queries
  (\<^verbatim>\<open>git_smart_query.go\<close>), the inspector of upload-pack requests (\<^verbatim>\<open>git_upload_pack.go\<close>) and the unpacking
  of fetched objects (\<^verbatim>\<open>utils.go\<close>).

  The heads and tags that \<^verbatim>\<open>ls-refs\<close> responses list are kept per repository in \<^theory_text>\<open>git_state\<close>, which every
  access locks. The annotations of a fetch hold the two maps as they are at that moment; the code shares
  the maps themselves. Arguments (\<^theory_text>\<open>git_env\<close>) stand for \<^verbatim>\<open>url.Parse\<close>, the gzip decoder, the calls to the
  operating system and the \<^verbatim>\<open>git\<close> commands, whose outcome may depend on the directory, on the reference and
  on the bytes written to their input. What they leave in a checkout is read by the inspectors of crafts.
\<close>

section \<open>Configuration (config/config.go)\<close>

definition reSmartQuery :: rx where
  "reSmartQuery = rx_seq [lit ''/'', Star any_char, lit ''/info/refs'']"

definition reUploadPack :: rx where
  "reUploadPack = rx_seq [lit ''/'', Star (Grp (Seq (rx_plus any_char) (lit ''/''))),
     Grp (rx_plus (Cls (\<lambda>c. c \<noteq> CHR ''/''))), lit ''/git-upload-pack'']"

text \<open>\<^verbatim>\<open>checkRequestURL\<close> of the configurations of git and of crafts, over the list of patterns.\<close>

fun checkRequestURL :: "Glob list \<Rightarrow> string \<Rightarrow> go_error option" where
  "checkRequestURL [] reqURL = Some (Errorf (''invalid url '' @ reqURL))"
| "checkRequestURL (h # rest) reqURL = (if Glob_Match h reqURL then None else checkRequestURL rest reqURL)"

abbreviation request_url :: "url \<Rightarrow> string" where "request_url u \<equiv> NormalizedOrigin u @ u_Path u"

definition NewSmartQueryURLInfo :: "url \<Rightarrow> Glob list \<Rightarrow> string result" where
  "NewSmartQueryURLInfo u cfg =
     (case checkRequestURL cfg (request_url u) of Some err \<Rightarrow> Inl err
      | None \<Rightarrow>
        (if \<not> MatchString True reSmartQuery True (u_Path u) then Inl (Errorf ''not a valid git smart query path'')
         else (let val = query_Get (url_Query u) ''service'' in
           if val \<noteq> ''git-upload-pack'' then Inl (Errorf (''invalid service query '' @ quoted val))
           else Inr val)))"

text \<open>The project named by an upload-pack address; the addresses of crafts have the same pattern.\<close>

definition upload_pack_project :: "go_error \<Rightarrow> url \<Rightarrow> Glob list \<Rightarrow> string result" where
  "upload_pack_project invalid u cfg =
     (case checkRequestURL cfg (request_url u) of Some err \<Rightarrow> Inl err
      | None \<Rightarrow>
        (let m = FindStringSubmatch True reUploadPack True (u_Path u) in
         if length m \<noteq> 3 \<and> length m \<noteq> 2 then Inl invalid
         else Inr (strings_TrimSuffix (last m) ''.git'')))"

definition NewUploadPackURLInfo :: "url \<Rightarrow> Glob list \<Rightarrow> string result" where
  "NewUploadPackURLInfo = upload_pack_project (Errorf ''not a valid git upload-pack path'')"

section \<open>State and surroundings\<close>

record git_state =
  gs_heads :: "(string, (string, string) gomap) gomap"
  gs_tags :: "(string, (string, string) gomap) gomap"

definition new_git_state :: git_state where
  "new_git_state = \<lparr>gs_heads = [], gs_tags = []\<rparr>"

record git_env =
  ge_Parse :: "string \<Rightarrow> url result"
  ge_gzip :: "body_reader \<Rightarrow> body_reader result"
  ge_Seek :: "string \<Rightarrow> go_error option"
  ge_MkdirAll :: "string \<Rightarrow> go_error option"
  ge_MkdirTemp :: "string \<Rightarrow> string \<Rightarrow> string result"
  ge_Stat :: "string \<Rightarrow> go_error option"
  ge_init_db :: "string \<Rightarrow> go_error option"
  ge_StdinPipe :: "string \<Rightarrow> go_error option"
  ge_Start :: "string \<Rightarrow> string \<Rightarrow> go_error option"
  ge_Write :: "string \<Rightarrow> string \<Rightarrow> go_error option"
  ge_Close :: "string \<Rightarrow> go_error option"
  ge_Wait :: "string \<Rightarrow> string \<Rightarrow> go_error option"
  ge_checkout :: "string \<Rightarrow> string \<Rightarrow> go_error option"

definition url_parse_error :: "go_error \<Rightarrow> go_error" where
  "url_parse_error err = Errorf (''cannot parse URL: '' @ err_Error err)"

section \<open>Smart queries (git\_smart\_query.go)\<close>

abbreviation ID_smart_query :: string where "ID_smart_query \<equiv> ''git.smart-query''"

definition SmartQuery_InspectRequest :: "git_env \<Rightarrow> Glob list \<Rightarrow> Artifact \<Rightarrow> go_error option \<times> Artifact" where
  "SmartQuery_InspectRequest env cfg a =
     (let proto = getGitProtocol a in
      if proto \<noteq> ''version=2'' then (None, a)
      else (case ge_Parse env (DownloadURL a) of Inl err \<Rightarrow> (Some (url_parse_error err), a)
        | Inr u \<Rightarrow>
          (case NewSmartQueryURLInfo u cfg of
             Inr service \<Rightarrow> (None, annotate_request ID_smart_query
               [(''server'', AnyString (host_name (u_Host u))), (''protocol'', AnyString proto), (''service'', AnyString service)]
               (SetRequestPending ID_smart_query ''valid URL for git smart request'' a))
           | Inl _ \<Rightarrow> (None, a))))"

definition error_msg :: "go_error \<Rightarrow> Annotation" where
  "error_msg err = [(''error-msg'', AnyString (err_Error err))]"

text \<open>\<^verbatim>\<open>decodeProtocol\<close>: the messages, or the artifact it has rejected.\<close>

definition decodeProtocol :: "string \<Rightarrow> ArtifactMetadata \<Rightarrow> Artifact \<Rightarrow> Artifact + string list" where
  "decodeProtocol f md a =
     (case decodeGitProtocol True f of
        (msgs, Some err, rest) \<Rightarrow>
          Inl (annotate_response ID_smart_query (error_msg err) (SetResponseRejected ID_smart_query ''cannot decode git protocol'' md a))
      | (msgs, None, rest) \<Rightarrow>
        (if msgs = [''# service=git-upload-pack''] then
           (case decodeGitProtocol True rest of
              (msgs', Some err, _) \<Rightarrow>
                Inl (annotate_response ID_smart_query (error_msg err)
                       (SetResponseRejected ID_smart_query ''cannot decode pack advertisement'' md a))
            | (msgs', None, _) \<Rightarrow> Inr msgs')
         else Inr msgs))"

definition SmartQuery_InspectArtifact :: "string \<Rightarrow> 'w \<Rightarrow> Artifact \<Rightarrow> go_error option \<times> Artifact \<times> 'w" where
  "SmartQuery_InspectArtifact f w a =
     (if \<not> MimetypeIs a ''application/octet-stream'' \<and> \<not> MimetypeIs a ''text/plain'' then (None, a, w)
      else if ContentType a \<noteq> ''application/x-git-upload-pack-advertisement'' then (None, a, w)
      else (let vendor = fst (RequestStringAnnotation a ID_smart_query ''server'');
                md = NoMetadata\<lparr>am_Type := ''application/x.git.upload-pack-advertisement'', am_Name := ''git upload-pack advertisement'',
                       am_Description := ''response to git smart server query'', am_Vendor := vendor\<rparr> in
        case decodeProtocol f md a of Inl a' \<Rightarrow> (None, a', w)
        | Inr msgs \<Rightarrow>
          (let version = (if msgs = [] \<or> hd msgs \<noteq> ''version 2'' then ''not specified'' else ''2'') in
           (None, annotate_response ID_smart_query
              [(''version'', AnyString version), (''server-response'', AnyStrings (map strings_TrimSpace msgs))]
              (SetResponseApproved ID_smart_query ''upload pack advertisement received'' md a), w))))"

definition SmartQueryInspector :: "git_env \<Rightarrow> Glob list \<Rightarrow> 'w Inspector" where
  "SmartQueryInspector env cfg = \<lparr>ins_ID = ID_smart_query, ins_InspectRequest = SmartQuery_InspectRequest env cfg,
     ins_InspectArtifact = SmartQuery_InspectArtifact\<rparr>"

section \<open>Requests to upload-pack (git\_upload\_pack.go)\<close>

abbreviation ID_upload_pack :: string where "ID_upload_pack \<equiv> ''git.upload-pack''"

definition init_key :: "string \<Rightarrow> (string, (string, string) gomap) gomap \<Rightarrow> (string, (string, string) gomap) gomap" where
  "init_key repo m = (if map_get m repo = None then map_set repo [] m else m)"

definition initRepoState :: "string \<Rightarrow> git_state \<Rightarrow> git_state" where
  "initRepoState repo st = st\<lparr>gs_heads := init_key repo (gs_heads st), gs_tags := init_key repo (gs_tags st)\<rparr>"

text \<open>
  \<^verbatim>\<open>newUploadPackRequestHandler\<close> changes the request as it goes: it returns the request with the messages
  of the client, or with the error. The new body replays what was read. A missing body makes the code
  panic.
\<close>

definition newUploadPackRequestHandler :: "git_env \<Rightarrow> http_request \<Rightarrow> http_request \<times> string list result" where
  "newUploadPackRequestHandler env req =
     (case req_Body req of None \<Rightarrow> (req, Inl runtime_panic)
      | Some raw \<Rightarrow>
        (case (if header_Get (req_Header req) ''Content-Encoding'' = ''gzip''
               then (case ge_gzip env raw of Inl err \<Rightarrow> Inl err
                     | Inr z \<Rightarrow> Inr (z, req\<lparr>req_Body := Some z, req_Header := header_Del (req_Header req) ''Content-Encoding''\<rparr>))
               else Inr (raw, req)) of
           Inl err \<Rightarrow> (req, Inl (ErrWrap ''cannot create upload pack gzip decoder'' err))
         | Inr (body, req1) \<Rightarrow>
           (case br_err body of Some err \<Rightarrow> (req1, Inl (ErrWrap ''cannot read upload pack request body'' err))
            | None \<Rightarrow>
              (let buf = br_data body; req2 = req1\<lparr>req_ContentLength := int (length buf)\<rparr> in
               case decodeGitProtocol False buf of
                 (msgs, Some err, _) \<Rightarrow> (req2, Inl (ErrWrap ''cannot decode upload pack request'' err))
               | (msgs, None, _) \<Rightarrow>
                 (req2\<lparr>req_Body := Some \<lparr>br_data = buf, br_err = None\<rparr>\<rparr>, Inr (map strings_TrimSpace msgs))))))"

text \<open>The loops of \<^verbatim>\<open>inspectRequestCommand\<close>: the last command, and what a fetch asks for.\<close>

fun client_command :: "string \<Rightarrow> string list \<Rightarrow> string" where
  "client_command command [] = command"
| "client_command command (msg # rest) = client_command (if strings_HasPrefix msg ''command='' then drop 8 msg else command) rest"

record fetch_args =
  fa_isShallow :: bool
  fa_wants :: "string list"
  fa_wantRefs :: "string list"

definition fetch_arg :: "string \<Rightarrow> fetch_args \<Rightarrow> fetch_args" where
  "fetch_arg msg s =
     (if strings_HasPrefix msg ''deepen '' then s\<lparr>fa_isShallow := (msg = ''deepen 1'')\<rparr>
      else if strings_HasPrefix msg ''want '' then
        (let ref = drop 5 msg in if ref \<in> set (fa_wants s) then s else s\<lparr>fa_wants := fa_wants s @ [ref]\<rparr>)
      else if strings_HasPrefix msg ''want-ref '' then s\<lparr>fa_wantRefs := fa_wantRefs s @ [drop 9 msg]\<rparr>
      else s)"

definition fetch_arguments :: "string list \<Rightarrow> fetch_args" where
  "fetch_arguments msgs = fold fetch_arg msgs \<lparr>fa_isShallow = False, fa_wants = [], fa_wantRefs = []\<rparr>"

definition inspectRequestCommand :: "string list \<Rightarrow> Annotation \<Rightarrow> Artifact \<Rightarrow> Artifact" where
  "inspectRequestCommand clientMsgs notes a =
     (let command = client_command [] clientMsgs;
          notes1 = Annotation_Add (Annotation_Add notes ''client-request'' (AnyStrings clientMsgs)) ''command'' (AnyString command) in
      if command = ''ls-refs'' then annotate_request ID_upload_pack notes1 (SetRequestPending ID_upload_pack ''valid URL for git upload-pack'' a)
      else if command = ''fetch'' then
        (let s = fetch_arguments clientMsgs;
             notes2 = Annotation_Add (Annotation_Add notes1 ''is-shallow'' (AnyBool (fa_isShallow s)))
                        ''num-wants'' (AnyInt (int (length (fa_wants s) + length (fa_wantRefs s))));
             notes3 = (if fa_wants s \<noteq> [] then Annotation_Add notes2 ''wants'' (AnyStrings (fa_wants s)) else notes2);
             notes4 = (if fa_wantRefs s \<noteq> [] then Annotation_Add notes3 ''want-refs'' (AnyStrings (fa_wantRefs s)) else notes3) in
         if \<not> fa_isShallow s
         then annotate_request ID_upload_pack notes4 (SetRequestRejected ID_upload_pack ''fetch is only allowed with depth 1'' a)
         else if length (fa_wants s) > 1
         then annotate_request ID_upload_pack notes4 (SetRequestRejected ID_upload_pack ''fetch is only allowed on a single ref'' a)
         else annotate_request ID_upload_pack notes4 (SetRequestPending ID_upload_pack ''valid URL for git upload-pack'' a))
      else annotate_request ID_upload_pack notes1
             (SetRequestRejected ID_upload_pack ''only ls-refs and fetch commands are allowed'' a))"

definition repository_of :: "url \<Rightarrow> string" where
  "repository_of u = strings_TrimSuffix (u_Scheme u @ ''://'' @ u_Host u @ u_Path u) ''/git-upload-pack''"

definition git_request_headers :: "Artifact \<Rightarrow> bool" where
  "git_request_headers a \<longleftrightarrow> RequestHeaderContains a ''Content-Type'' ''application/x-git-upload-pack-request'' \<and>
     RequestHeaderContains a ''Accept'' ''application/x-git-upload-pack-result''"

text \<open>The whole handler, with the state. An error of \<^const>\<open>NewUploadPackURLInfo\<close> only clears the project.\<close>

definition UploadPack_handle_request ::
  "git_env \<Rightarrow> Glob list \<Rightarrow> git_state \<Rightarrow> Artifact \<Rightarrow> (go_error option \<times> Artifact) \<times> git_state" where
  "UploadPack_handle_request env cfg st a =
     (case ge_Parse env (DownloadURL a) of Inl err \<Rightarrow> ((Some (url_parse_error err), a), st)
      | Inr u \<Rightarrow>
        (let repo = repository_of u; st' = initRepoState repo st in
         if \<not> git_request_headers a then ((None, a), st')
         else (let project = (case NewUploadPackURLInfo u cfg of Inl _ \<Rightarrow> [] | Inr p \<Rightarrow> p);
                   proto = getGitProtocol a;
                   notes = [(''server'', AnyString (host_name (u_Host u))), (''repository'', AnyString repo),
                            (''protocol'', AnyString proto), (''project'', AnyString project)] in
           if proto \<noteq> ''version=2''
           then ((None, annotate_request ID_upload_pack [(''proto'', AnyString proto)]
                    (SetRequestUnknown ID_upload_pack ''unsupported git protocol version'' a)), st')
           else (case a_Request a of None \<Rightarrow> ((Some runtime_panic, a), st')
             | Some req \<Rightarrow>
               (case newUploadPackRequestHandler env req of
                  (req', Inl err) \<Rightarrow> ((Some (ErrWrap ''cannot handle upload-pack request'' err), a\<lparr>a_Request := Some req'\<rparr>), st')
                | (req', Inr clientMsgs) \<Rightarrow>
                  ((None, inspectRequestCommand clientMsgs notes (a\<lparr>a_Request := Some req'\<rparr>)), st'))))))"

section \<open>Responses of upload-pack\<close>

text \<open>One line of an \<^verbatim>\<open>ls-refs\<close> response; the maps of the repository exist.\<close>

definition ref_entry :: "string \<Rightarrow> string \<Rightarrow> (string, (string, string) gomap) gomap \<Rightarrow> string \<Rightarrow> (string, (string, string) gomap) gomap" where
  "ref_entry repo name m hash = map_set repo (map_set name hash (case map_get m repo of None \<Rightarrow> [] | Some r \<Rightarrow> r)) m"

definition store_ref :: "string \<Rightarrow> string \<Rightarrow> git_state \<Rightarrow> git_state" where
  "store_ref repo ref st =
     (case strings_Split ref CHR '' '' of
        hash # name # _ \<Rightarrow>
          (case strings_CutPrefix name ''refs/tags/'' of
             Some tag \<Rightarrow> st\<lparr>gs_tags := ref_entry repo tag (gs_tags st) hash\<rparr>
           | None \<Rightarrow>
             (case strings_CutPrefix name ''refs/heads/'' of
                Some head \<Rightarrow> st\<lparr>gs_heads := ref_entry repo head (gs_heads st) hash\<rparr>
              | None \<Rightarrow> st))
      | _ \<Rightarrow> st)"

definition inspectLsRefsResponse ::
  "git_env \<Rightarrow> string \<Rightarrow> string \<Rightarrow> string \<Rightarrow> git_state \<Rightarrow> Artifact \<Rightarrow> go_error option \<times> Artifact \<times> git_state" where
  "inspectLsRefsResponse env f repo vendor st a =
     (if \<not> MimetypeIs a ''text/plain'' then (None, a, st)
      else (let md = NoMetadata\<lparr>am_Type := ''application/x.git.upload-pack-result.ls-ref'', am_Name := ''git ls-refs response'',
                  am_Description := ''Response to the git '' @ [CHR 0x27] @ ''ls-refs'' @ [CHR 0x27] @ '' command'', am_Vendor := vendor\<rparr> in
        case decodeGitProtocol True f of
          (msgs, Some err, _) \<Rightarrow>
            (None, annotate_response ID_upload_pack (error_msg err) (SetResponseRejected ID_upload_pack ''cannot decode git protocol'' md a), st)
        | (msgs, None, _) \<Rightarrow>
          (case ge_Seek env f of Some err \<Rightarrow> (Some err, a, st)
           | None \<Rightarrow>
             (let refs = map strings_TrimSpace msgs in
              (None, annotate_response ID_upload_pack [(''server-response'', AnyStrings refs)]
                 (SetResponseApproved ID_upload_pack ''git ls-refs response decoded'' md a), fold (store_ref repo) refs st)))))"

text \<open>\<^verbatim>\<open>fetchResponseIsShallow\<close>: the annotations, and the reason of a rejection.\<close>

definition fetchResponseIsShallow :: "string list \<Rightarrow> Annotation \<Rightarrow> Annotation \<times> string option" where
  "fetchResponseIsShallow msgs notes =
     (let isShallow = list_ex (\<lambda>msg. strings_HasPrefix msg ''shallow '') msgs;
          isUnshallow = list_ex (\<lambda>msg. \<not> strings_HasPrefix msg ''shallow '' \<and> strings_HasPrefix msg ''unshallow '') msgs;
          notes' = Annotation_Add notes ''server-response'' (AnyStrings (map strings_TrimSpace msgs)) in
      (notes', if \<not> isShallow then Some ''fetch is only allowed with depth 1''
               else if isUnshallow then Some ''unshallow is not supported'' else None))"

fun assert_strings :: "any \<Rightarrow> string list option" where
  "assert_strings (AnyStrings l) = Some l"
| "assert_strings _ = None"

text \<open>\<^verbatim>\<open>getRefFromWants\<close>: the reference, or the reason of a rejection.\<close>

definition getRefFromWants :: "Artifact \<Rightarrow> string + string" where
  "getRefFromWants a =
     (case (RequestAnnotation a ID_upload_pack ''wants'', RequestAnnotation a ID_upload_pack ''want-refs'') of
        ((w, hasWants), (wr, hasWantRefs)) \<Rightarrow>
          (if \<not> hasWants \<and> \<not> hasWantRefs then Inl ''cannot read request want/want-ref annotation''
           else if \<not> hasWants then Inl ''want-refs handling not implemented yet''
           else (case assert_strings w of
               Some (ref # _) \<Rightarrow>
                 (if hasWantRefs \<and> (case assert_strings wr of Some (_ # _) \<Rightarrow> False | _ \<Rightarrow> True)
                  then Inl ''cannot read want-ref annotation'' else Inr ref)
             | _ \<Rightarrow> Inl ''cannot read want annotation'')))"

section \<open>Unpacking (utils.go)\<close>

definition unpack_tool :: "git_env \<Rightarrow> string result" where
  "unpack_tool env =
     (case ge_Stat env ''/usr/lib/git-core/git-unpack-objects'' of None \<Rightarrow> Inr ''/usr/lib/git-core/git-unpack-objects''
      | Some _ \<Rightarrow>
        (case ge_Stat env ''/snap/fetch-service/current/usr/lib/git-core/git-unpack-objects'' of
           None \<Rightarrow> Inr ''/snap/fetch-service/current/usr/lib/git-core/git-unpack-objects''
         | Some err \<Rightarrow> Inl err))"

definition UnpackObjects :: "git_env \<Rightarrow> string \<Rightarrow> string \<Rightarrow> go_error option" where
  "UnpackObjects env f dir =
     (case ge_init_db env dir of Some err \<Rightarrow> Some err
      | None \<Rightarrow>
        (case decodeGitProtocol True f of
           (_, Some err, _) \<Rightarrow> Some err
         | (_, None, rest) \<Rightarrow>
           (case unpack_tool env of Inl err \<Rightarrow> Some err
            | Inr path \<Rightarrow>
              (case ge_StdinPipe env dir of Some err \<Rightarrow> Some err
               | None \<Rightarrow>
                 (case ge_Start env path dir of Some err \<Rightarrow> Some (Errorf (''git-unpack-objects execution error: '' @ err_Error err))
                  | None \<Rightarrow>
                    (case readPack (ge_Write env dir) rest of
                       (Some err, _) \<Rightarrow>
                         (case ge_Close env dir of Some err' \<Rightarrow> Some err'
                          | None \<Rightarrow> Some (Errorf (''error reading git pack: '' @ err_Error err)))
                     | (None, out) \<Rightarrow> ge_Wait env dir out))))))"

definition Checkout :: "git_env \<Rightarrow> string \<Rightarrow> string \<Rightarrow> go_error option" where
  "Checkout env dir ref = ge_checkout env dir ref"

definition unpackAndCheckout :: "git_env \<Rightarrow> string \<Rightarrow> string \<Rightarrow> string \<Rightarrow> string result" where
  "unpackAndCheckout env f ref cacheDir =
     (case ge_MkdirAll env cacheDir of Some err \<Rightarrow> Inl err
      | None \<Rightarrow>
        (case ge_MkdirTemp env cacheDir ''git-'' of Inl err \<Rightarrow> Inl err
         | Inr dir \<Rightarrow>
           (case UnpackObjects env f dir of Some err \<Rightarrow> Inl err
            | None \<Rightarrow> (case Checkout env dir ref of Some err \<Rightarrow> Inl err | None \<Rightarrow> Inr dir))))"

section \<open>The inspection of responses\<close>

definition any_refs :: "(string, (string, string) gomap) gomap \<Rightarrow> string \<Rightarrow> any" where
  "any_refs m repo = AnyMap (map (\<lambda>(k, v). (k, AnyString v)) (case map_get m repo of None \<Rightarrow> [] | Some r \<Rightarrow> r))"

definition inspectFetchResponse ::
  "git_env \<Rightarrow> string \<Rightarrow> string \<Rightarrow> string \<Rightarrow> git_state \<Rightarrow> Artifact \<Rightarrow> go_error option \<times> Artifact" where
  "inspectFetchResponse env f repo vendor st a =
     (if \<not> MimetypeIs a ''application/octet-stream'' \<and> \<not> MimetypeIs a ''text/plain'' then (None, a)
      else (let md = NoMetadata\<lparr>am_Type := ''application/x.git.upload-pack-result.fetch'', am_Name := ''git fetch response'',
                  am_Description := ''Response to the git '' @ [CHR 0x27] @ ''fetch'' @ [CHR 0x27] @ '' command'', am_Vendor := vendor\<rparr>;
                numWants = RequestAnnotation a ID_upload_pack ''num-wants'' in
        if \<not> snd numWants \<or> fst numWants \<noteq> AnyInt 1
        then (None, annotate_response ID_upload_pack [(''num-wants'', fst numWants)]
                (SetResponseRejected ID_upload_pack ''fetch is allowed only on a single ref'' md a))
        else (let notes = [(''heads'', any_refs (gs_heads st) repo), (''tags'', any_refs (gs_tags st) repo)] in
          case decodeGitProtocol True f of
            (msgs, Some err, _) \<Rightarrow>
              (None, annotate_response ID_upload_pack (error_msg err) (SetResponseRejected ID_upload_pack ''cannot decode git protocol'' md a))
          | (msgs, None, _) \<Rightarrow>
            (case ge_Seek env f of Some err \<Rightarrow> (Some err, a)
             | None \<Rightarrow>
               (case fetchResponseIsShallow msgs notes of
                  (notes', Some reason) \<Rightarrow> (None, annotate_response ID_upload_pack notes' (SetResponseRejected ID_upload_pack reason md a))
                | (notes', None) \<Rightarrow>
                  (case getRefFromWants a of
                     Inl reason \<Rightarrow> (None, annotate_response ID_upload_pack notes' (SetResponseRejected ID_upload_pack reason md a))
                   | Inr ref \<Rightarrow>
                     (if ref = [] then (None, a)
                      else (case unpackAndCheckout env f ref (a_SessionCacheDir a) of
                          Inl err \<Rightarrow> (None, annotate_response ID_upload_pack (error_msg err)
                                       (SetResponseRejected ID_upload_pack ''cannot unpack git objects'' md a))
                        | Inr path \<Rightarrow> (None, annotate_response ID_upload_pack
                                       (Annotation_Add notes' ''git-checkout-path'' (AnyString path))
                                       (SetResponseUnknown ID_upload_pack ''git fetch response is valid but content is unknown'' md a))))))))))"

definition inspectResponseCommand ::
  "git_env \<Rightarrow> string \<Rightarrow> string \<Rightarrow> string \<Rightarrow> git_state \<Rightarrow> Artifact \<Rightarrow> go_error option \<times> Artifact \<times> git_state" where
  "inspectResponseCommand env f repo vendor st a =
     (let md = NoMetadata\<lparr>am_Type := ''application/x.git.upload-pack-result''\<rparr> in
      case RequestAnnotation a ID_upload_pack ''command'' of
        (_, False) \<Rightarrow> (None, SetResponseRejected ID_upload_pack ''command not set during request inspection'' md a, st)
      | (command, True) \<Rightarrow>
        (if command = AnyString ''ls-refs'' then inspectLsRefsResponse env f repo vendor st a
         else if command = AnyString ''fetch''
         then (case inspectFetchResponse env f repo vendor st a of (err, a') \<Rightarrow> (err, a', st))
         else (None, annotate_response ID_upload_pack []
                 (SetResponseRejected ID_upload_pack ''only ls-refs and fetch commands are supported'' md a), st)))"

definition UploadPack_InspectArtifact ::
  "git_env \<Rightarrow> string \<Rightarrow> git_state \<Rightarrow> Artifact \<Rightarrow> go_error option \<times> Artifact \<times> git_state" where
  "UploadPack_InspectArtifact env f st a =
     (if ContentType a \<noteq> ''application/x-git-upload-pack-result'' then (None, a, st)
      else (case RequestStringAnnotation a ID_upload_pack ''repository'' of
          (_, False) \<Rightarrow>
            (None, SetResponseRejected ID_upload_pack ''repository not set during request inspection''
               (NoMetadata\<lparr>am_Type := ''application/x.git.upload-pack-result''\<rparr>) a, st)
        | (repo, True) \<Rightarrow>
          inspectResponseCommand env f repo (fst (RequestStringAnnotation a ID_upload_pack ''server'')) (initRepoState repo st) a))"

text \<open>
  What the request handler does to an artifact does not depend on the state, and the entries it makes in
  the state are made again before they are read: requests are inspected without the state.
\<close>

definition UploadPack_InspectRequest :: "git_env \<Rightarrow> Glob list \<Rightarrow> Artifact \<Rightarrow> go_error option \<times> Artifact" where
  "UploadPack_InspectRequest env cfg a = fst (UploadPack_handle_request env cfg new_git_state a)"

definition UploadPackInspector :: "git_env \<Rightarrow> Glob list \<Rightarrow> git_state Inspector" where
  "UploadPackInspector env cfg = \<lparr>ins_ID = ID_upload_pack, ins_InspectRequest = UploadPack_InspectRequest env cfg,
     ins_InspectArtifact = UploadPack_InspectArtifact env\<rparr>"

end
