(* ===== verification/Craft.thy ===== *)
theory Craft
  imports Git File_Utils
begin

text \<open>
  \<^verbatim>\<open>inspectors/craft\<close> and \<^verbatim>\<open>inspectors/gomod\<close>: the inspectors of what a git fetch has checked out. They run after
  the upload-pack inspector and read its annotations; the checkout is found at the path it noted.

  Arguments (\<^theory_text>\<open>craft_env\<close>) stand for \<^verbatim>\<open>url.Parse\<close>, \<^verbatim>\<open>os.Stat\<close>, \<^verbatim>\<open>os.Open\<close> with the content of the file, the YAML
  decoder and the command \<^verbatim>\<open>licensecheck\<close>.
\<close>

section \<open>Requests\<close>

definition NewCraftURLInfo :: "url \<Rightarrow> Glob list \<Rightarrow> string result" where
  "NewCraftURLInfo = upload_pack_project (Errorf ''not a valid *craft upload-pack path'')"

record craftYaml =
  cy_Name :: string
  cy_Version :: string
  cy_Summary :: string
  cy_License :: string
  cy_Base :: string

record charmcraftYaml =
  ch_Name :: string
  ch_Summary :: string

record craft_env =
  ce_Parse :: "string \<Rightarrow> url result"
  ce_Stat :: "string \<Rightarrow> go_error option"
  ce_Open :: "string \<Rightarrow> string result"
  ce_yaml :: "string \<Rightarrow> craftYaml result"
  ce_charm_yaml :: "string \<Rightarrow> charmcraftYaml result"
  ce_licensecheck :: "string \<Rightarrow> string result"

definition checkGitRequestHeaders :: "Artifact \<Rightarrow> bool" where
  "checkGitRequestHeaders a \<longleftrightarrow> RequestHeaderContains a ''Content-Type'' ''application/x-git-upload-pack-request'' \<and>
     RequestHeaderContains a ''Accept'' ''application/x-git-upload-pack-result''"

definition getSingleFetchedRef :: "Artifact \<Rightarrow> string" where
  "getSingleFetchedRef a =
     (case RequestAnnotation a ''git.upload-pack'' ''wants'' of (_, False) \<Rightarrow> []
      | (wants, True) \<Rightarrow> (case assert_strings wants of Some [ref] \<Rightarrow> ref | _ \<Rightarrow> []))"

definition inspectCraftRequest :: "craft_env \<Rightarrow> Glob list \<Rightarrow> string \<Rightarrow> Artifact \<Rightarrow> go_error option \<times> Artifact" where
  "inspectCraftRequest env cfg iid a =
     (case ce_Parse env (DownloadURL a) of Inl err \<Rightarrow> (Some (url_parse_error err), a)
      | Inr u \<Rightarrow>
        (if \<not> checkGitRequestHeaders a then (None, a)
         else (case NewCraftURLInfo u cfg of Inl _ \<Rightarrow> (None, a)
           | Inr _ \<Rightarrow>
             (case RequestStringAnnotation a ID_upload_pack ''command'' of (command, ok) \<Rightarrow>
                if \<not> ok \<or> command \<noteq> ''fetch'' then (None, a)
                else (None, SetRequestPending iid ''valid URL for crafts download'' a)))))"

section \<open>Checkouts\<close>

text \<open>
  The body that the five \<^verbatim>\<open>InspectArtifact\<close> methods share: \<open>locate\<close> finds the description of the project in
  the checkout and \<open>fill\<close> decodes it into the metadata.
\<close>

definition inspect_checkout ::
  "craft_env \<Rightarrow> string \<Rightarrow> string \<Rightarrow> string \<Rightarrow> (string \<Rightarrow> string option) \<Rightarrow> (string \<Rightarrow> ArtifactMetadata \<Rightarrow> ArtifactMetadata result)
     \<Rightarrow> Artifact \<Rightarrow> Artifact" where
  "inspect_checkout env iid mtype craft locate fill a =
     (if ContentType a \<noteq> ''application/x-git-upload-pack-result'' then a
      else (case ResponseStringAnnotation a ID_upload_pack ''git-checkout-path'' of
          (_, False) \<Rightarrow> SetResponseUnknown iid ''no git checkout found'' NoMetadata a
        | (checkoutPath, True) \<Rightarrow>
          (case locate checkoutPath of None \<Rightarrow> a
           | Some path \<Rightarrow>
             (let md = NoMetadata\<lparr>am_Type := mtype, am_ContentID := getSingleFetchedRef a\<rparr> in
              case ce_Open env path of
                Inl _ \<Rightarrow> SetResponseRejected iid (''cannot open '' @ craft @ ''.yaml file'') md a
              | Inr content \<Rightarrow>
                (case fill content md of
                   Inl _ \<Rightarrow> SetResponseRejected iid (''cannot decode '' @ craft @ ''.yaml'') md a
                 | Inr md' \<Rightarrow> SetResponseApproved iid (craft @ '' repository found'') md' a)))))"

definition locate_file :: "craft_env \<Rightarrow> string \<Rightarrow> string \<Rightarrow> string option" where
  "locate_file env file dir =
     (let p = filepath_Join [dir, file] in case ce_Stat env p of Some _ \<Rightarrow> None | None \<Rightarrow> Some p)"

definition fill_craft :: "craft_env \<Rightarrow> string \<Rightarrow> ArtifactMetadata \<Rightarrow> ArtifactMetadata result" where
  "fill_craft env content md =
     (case ce_yaml env content of Inl err \<Rightarrow> Inl err
      | Inr data \<Rightarrow> Inr (md\<lparr>am_Name := cy_Name data, am_Version := cy_Version data,
          am_Description := cy_Summary data, am_License := cy_License data\<rparr>))"

definition fill_charm :: "craft_env \<Rightarrow> string \<Rightarrow> ArtifactMetadata \<Rightarrow> ArtifactMetadata result" where
  "fill_charm env content md =
     (case ce_charm_yaml env content of Inl err \<Rightarrow> Inl err
      | Inr data \<Rightarrow> Inr (md\<lparr>am_Name := ch_Name data, am_Description := ch_Summary data\<rparr>))"

fun first_found :: "craft_env \<Rightarrow> string \<Rightarrow> string list \<Rightarrow> string option" where
  "first_found env dir [] = None"
| "first_found env dir (c # cs) =
     (let p = filepath_Join [dir, c] in case ce_Stat env p of None \<Rightarrow> Some p | Some _ \<Rightarrow> first_found env dir cs)"

definition getSnapcraftYamlPath :: "craft_env \<Rightarrow> string \<Rightarrow> string option" where
  "getSnapcraftYamlPath env dir = first_found env dir [''snap/snapcraft.yaml'', ''snapcraft.yaml'', ''build-aux/snap/snapcraft.yaml'']"

definition Rockcraft_InspectArtifact :: "craft_env \<Rightarrow> string \<Rightarrow> 'w \<Rightarrow> Artifact \<Rightarrow> go_error option \<times> Artifact \<times> 'w" where
  "Rockcraft_InspectArtifact env f w a = (None, inspect_checkout env ''craft.rockcraft'' ''application/x.canonical.rockcraft'' ''rockcraft''
     (locate_file env ''rockcraft.yaml'') (fill_craft env) a, w)"

definition Charmcraft_InspectArtifact :: "craft_env \<Rightarrow> string \<Rightarrow> 'w \<Rightarrow> Artifact \<Rightarrow> go_error option \<times> Artifact \<times> 'w" where
  "Charmcraft_InspectArtifact env f w a = (None, inspect_checkout env ''craft.charmcraft'' ''application/x.canonical.charmcraft'' ''charmcraft''
     (locate_file env ''charmcraft.yaml'') (fill_charm env) a, w)"

definition Snapcraft_InspectArtifact :: "craft_env \<Rightarrow> string \<Rightarrow> 'w \<Rightarrow> Artifact \<Rightarrow> go_error option \<times> Artifact \<times> 'w" where
  "Snapcraft_InspectArtifact env f w a = (None, inspect_checkout env ''craft.snapcraft'' ''application/x.canonical.snapcraft'' ''snapcraft''
     (getSnapcraftYamlPath env) (fill_craft env) a, w)"

definition Sourcecraft_InspectArtifact :: "craft_env \<Rightarrow> string \<Rightarrow> 'w \<Rightarrow> Artifact \<Rightarrow> go_error option \<times> Artifact \<times> 'w" where
  "Sourcecraft_InspectArtifact env f w a = (None, inspect_checkout env ''craft.sourcecraft'' ''application/x.canonical.sourcecraft'' ''sourcecraft''
     (locate_file env ''sourcecraft.yaml'') (fill_craft env) a, w)"

definition Bincraft_InspectArtifact :: "craft_env \<Rightarrow> string \<Rightarrow> 'w \<Rightarrow> Artifact \<Rightarrow> go_error option \<times> Artifact \<times> 'w" where
  "Bincraft_InspectArtifact env f w a = (None, inspect_checkout env ''craft.bincraft'' ''application/x.canonical.bincraft'' ''bincraft''
     (locate_file env ''bincraft.yaml'') (fill_craft env) a, w)"

definition craft_inspector ::
  "craft_env \<Rightarrow> Glob list \<Rightarrow> string \<Rightarrow> (string \<Rightarrow> 'w \<Rightarrow> Artifact \<Rightarrow> go_error option \<times> Artifact \<times> 'w) \<Rightarrow> 'w Inspector" where
  "craft_inspector env cfg iid inspect = \<lparr>ins_ID = iid, ins_InspectRequest = inspectCraftRequest env cfg iid,
     ins_InspectArtifact = inspect\<rparr>"

definition craft_inspectors :: "craft_env \<Rightarrow> Glob list \<Rightarrow> 'w Inspector list" where
  "craft_inspectors env cfg =
     [craft_inspector env cfg ''craft.rockcraft'' (Rockcraft_InspectArtifact env),
      craft_inspector env cfg ''craft.charmcraft'' (Charmcraft_InspectArtifact env),
      craft_inspector env cfg ''craft.snapcraft'' (Snapcraft_InspectArtifact env),
      craft_inspector env cfg ''craft.sourcecraft'' (Sourcecraft_InspectArtifact env),
      craft_inspector env cfg ''craft.bincraft'' (Bincraft_InspectArtifact env)]"

section \<open>Go modules\<close>

text \<open>The list of accepted origins is empty in the code.\<close>

definition validOrigins :: "(string \<Rightarrow> bool) list" where
  "validOrigins = []"

definition checkValidOrigin :: "url \<Rightarrow> go_error option" where
  "checkValidOrigin u =
     (let origin = u_Scheme u @ ''://'' @ u_Host u in
      if list_ex (\<lambda>h. h origin) validOrigins then None else Some (Errorf (''invalid origin '' @ origin)))"

definition reGoModuleGit :: rx where
  "reGoModuleGit = rx_seq [lit ''/'', Star (Grp (Seq (rx_plus (Cls (\<lambda>c. c \<noteq> CHR ''/''))) (lit ''/''))),
     Grp (rx_plus (Cls (\<lambda>c. c \<noteq> CHR ''/''))), lit ''/git-upload-pack'']"

definition newGoModuleGitURLInfo :: "url \<Rightarrow> string result" where
  "newGoModuleGitURLInfo u =
     (case checkValidOrigin u of Some err \<Rightarrow> Inl err
      | None \<Rightarrow>
        (let m = FindStringSubmatch True reGoModuleGit True (u_Path u) in
         if length m \<noteq> 3 \<and> length m \<noteq> 2 then Inl (Errorf (u_Path u @ '': not a valid URL path for git go modules''))
         else Inr (last m)))"

abbreviation ID_gomod :: string where "ID_gomod \<equiv> ''go.module.git''"

definition GoModuleGit_InspectRequest :: "craft_env \<Rightarrow> Artifact \<Rightarrow> go_error option \<times> Artifact" where
  "GoModuleGit_InspectRequest env a =
     (case ce_Parse env (DownloadURL a) of Inl err \<Rightarrow> (Some (url_parse_error err), a)
      | Inr u \<Rightarrow>
        (if \<not> RequestHeaderContains a ''Content-Type'' ''application/x-git-upload-pack-request'' then (None, a)
         else if \<not> RequestHeaderContains a ''Accept'' ''application/x-git-upload-pack-result'' then (None, a)
         else (case newGoModuleGitURLInfo u of Inl _ \<Rightarrow> (None, a)
           | Inr _ \<Rightarrow>
             (case RequestStringAnnotation a ID_upload_pack ''command'' of (command, ok) \<Rightarrow>
                if \<not> ok \<or> command \<noteq> ''fetch'' then (None, a)
                else (None, SetRequestUnknown ID_gomod ''unsupported origin'' a)))))"

record goMod =
  gm_Name :: string
  gm_GoVersion :: string

text \<open>\<^verbatim>\<open>strings.Trim\<close> of a double quote, and the loop of \<^verbatim>\<open>goMod.parse\<close>.\<close>

definition trim_quotes :: "string \<Rightarrow> string" where
  "trim_quotes s = rev (dropWhile (\<lambda>c. c = CHR 0x22) (rev (dropWhile (\<lambda>c. c = CHR 0x22) s)))"

fun goMod_lines :: "goMod \<Rightarrow> string list \<Rightarrow> goMod" where
  "goMod_lines m [] = m"
| "goMod_lines m (line # sc) =
     (if strings_HasPrefix line ''module '' then goMod_lines (m\<lparr>gm_Name := trim_quotes (drop 7 line)\<rparr>) sc
      else if strings_HasPrefix line ''go '' then goMod_lines (m\<lparr>gm_GoVersion := drop 3 line\<rparr>) sc
      else if strings_HasPrefix line ''require '' then m
      else goMod_lines m sc)"

definition goMod_parse :: "craft_env \<Rightarrow> string \<Rightarrow> goMod result" where
  "goMod_parse env path =
     (case ce_Open env path of Inl err \<Rightarrow> Inl err
      | Inr content \<Rightarrow> Inr (goMod_lines \<lparr>gm_Name = [], gm_GoVersion = []\<rparr> (scan_lines max_token content)))"

fun getVersionTag :: "(string \<times> any) list \<Rightarrow> string \<Rightarrow> string" where
  "getVersionTag [] needle = []"
| "getVersionTag ((k, v) # haystack) needle = (if v = AnyString needle then k else getVersionTag haystack needle)"

text \<open>The last two parts of the module's name.\<close>

definition gomod_md :: "goMod \<Rightarrow> ArtifactMetadata" where
  "gomod_md m =
     (let md = NoMetadata\<lparr>am_Type := ''application/x.go.module.git-repo''\<rparr> in
      case rev (strings_Split (gm_Name m) CHR ''/'') of
        name # vendor # _ \<Rightarrow> md\<lparr>am_Name := name, am_Vendor := vendor\<rparr>
      | _ \<Rightarrow> md\<lparr>am_Name := gm_Name m\<rparr>)"

text \<open>The type assertion on the tags panics when the annotation is no map; the upload-pack inspector stores a map.\<close>

definition GoModuleGit_InspectArtifact :: "craft_env \<Rightarrow> string \<Rightarrow> 'w \<Rightarrow> Artifact \<Rightarrow> go_error option \<times> Artifact \<times> 'w" where
  "GoModuleGit_InspectArtifact env f w a =
     (if ContentType a \<noteq> ''application/x-git-upload-pack-result'' then (None, a, w)
      else (case ResponseStringAnnotation a ID_upload_pack ''git-checkout-path'' of
          (_, False) \<Rightarrow> (None, SetResponseUnknown ID_gomod ''no git checkout found'' NoMetadata a, w)
        | (checkoutPath, True) \<Rightarrow>
          (case locate_file env ''go.mod'' checkoutPath of None \<Rightarrow> (None, a, w)
           | Some goModPath \<Rightarrow>
             (case goMod_parse env goModPath of
                Inl err \<Rightarrow> (None, annotate_response ID_gomod (error_msg err) (SetResponseUnknown ID_gomod ''cannot parse go.mod file'' NoMetadata a), w)
              | Inr m \<Rightarrow>
                (case RequestAnnotation a ID_upload_pack ''wants'' of
                   (_, False) \<Rightarrow> (Some (Errorf ''cannot read request want annotation''), a, w)
                 | (wants, True) \<Rightarrow>
                   (case assert_strings wants of
                      Some (want # _) \<Rightarrow>
                        (case ResponseAnnotation a ID_upload_pack ''tags'' of
                           (_, False) \<Rightarrow> (None, annotate_response ID_gomod []
                              (SetResponseUnknown ID_gomod ''cannot find go module version tag'' (gomod_md m) a), w)
                         | (AnyMap tags, True) \<Rightarrow>
                           (let license = (case CheckLicenseFiles (ce_Stat env) (ce_licensecheck env)
                                  (map (\<lambda>n. filepath_Join [checkoutPath, n]) [''LICENSE'', ''COPYING'', ''License'', ''Copying'']) of
                                    Inl _ \<Rightarrow> [] | Inr l \<Rightarrow> l);
                                md = (gomod_md m)\<lparr>am_Version := getVersionTag tags want, am_License := license\<rparr>;
                                notes = (''module'', AnyString (gm_Name m)) #
                                  (if gm_GoVersion m \<noteq> [] then [(''go'', AnyString (gm_GoVersion m))] else []) in
                            (None, annotate_response ID_gomod notes (SetResponseApproved ID_gomod ''go module found'' md a), w))
                         | _ \<Rightarrow> (Some runtime_panic, a, w))
                    | _ \<Rightarrow> (Some (Errorf ''cannot read want annotation''), a, w)))))))"

definition GoModuleGitInspector :: "craft_env \<Rightarrow> 'w Inspector" where
  "GoModuleGitInspector env = \<lparr>ins_ID = ID_gomod, ins_InspectRequest = GoModuleGit_InspectRequest env,
     ins_InspectArtifact = GoModuleGit_InspectArtifact env\<rparr>"

end
