(* ===== verification/Git_Contract.thy ===== *)
theory Git_Contract
  imports Craft Pipeline
begin

text \<open>
  The inspectors of git traffic keep the contract of inspectors and write only their own entries.
\<close>

section \<open>Upload-pack and smart queries\<close>

lemma inspectRequestCommand_writes [writes]:
  "writes_request ID_upload_pack a b \<Longrightarrow> ends1 (writes_request ID_upload_pack a) (inspectRequestCommand msgs ann b)"
  unfolding inspectRequestCommand_def by (intro writes)

lemma UploadPack_handle_request_writes: "req_result ID_upload_pack a (fst (UploadPack_handle_request env cfg st a))"
  unfolding UploadPack_handle_request_def
  by (simp only: if_distrib [of fst] option.case_distrib [of fst] sum.case_distrib [of fst] prod.case_distrib [of fst] Let_def fst_conv)
     (intro writes)

lemma inspectLsRefsResponse_writes [writes]: "resp_result ID_upload_pack a (inspectLsRefsResponse env f repo vendor st a)"
  unfolding inspectLsRefsResponse_def by (intro writes)

lemma inspectFetchResponse_writes [writes]: "resp_pair ID_upload_pack a (inspectFetchResponse env f repo vendor st a)"
  unfolding inspectFetchResponse_def by (intro writes)

lemma inspectResponseCommand_writes [writes]: "resp_result ID_upload_pack a (inspectResponseCommand env f repo vendor st a)"
  unfolding inspectResponseCommand_def by (intro writes)

interpretation upload_pack: local_inspector "UploadPackInspector env cfg"
proof (rule local_inspectorI)
  show "req_result (ins_ID (UploadPackInspector env cfg)) a (ins_InspectRequest (UploadPackInspector env cfg) a)" for a
    by (simp add: UploadPackInspector_def UploadPack_InspectRequest_def UploadPack_handle_request_writes)
  show "resp_result (ins_ID (UploadPackInspector env cfg)) a (ins_InspectArtifact (UploadPackInspector env cfg) f w a)" for f w a
    unfolding UploadPackInspector_def Inspector.simps UploadPack_InspectArtifact_def by (intro writes)
qed

lemma decodeProtocol_writes: "decodeProtocol f md a = Inl a' \<Longrightarrow> writes_response ID_smart_query a a'"
  by (auto simp: decodeProtocol_def split: prod.splits option.splits if_splits intro!: writes)

interpretation smart_query: local_inspector "SmartQueryInspector env cfg"
proof (rule local_inspectorI)
  show "req_result (ins_ID (SmartQueryInspector env cfg)) a (ins_InspectRequest (SmartQueryInspector env cfg) a)" for a
    unfolding SmartQueryInspector_def Inspector.simps SmartQuery_InspectRequest_def by (intro writes)
  have branch: "resp_result ID_smart_query a (case decodeProtocol f md a of Inl a' \<Rightarrow> (None, a', w) | Inr msgs \<Rightarrow> g msgs)"
    if "\<And>msgs. resp_result ID_smart_query a (g msgs)" for f md a w g
    using that by (simp add: ends3_def decodeProtocol_writes split: sum.split)
  show "resp_result (ins_ID (SmartQueryInspector env cfg)) a (ins_InspectArtifact (SmartQueryInspector env cfg) f w a)" for f w a
    unfolding SmartQueryInspector_def Inspector.simps SmartQuery_InspectArtifact_def Let_def
    by (rule ends3_branches(1), intro writes, rule ends3_branches(1), intro writes, rule branch, intro writes)
qed

section \<open>Checkouts\<close>

lemma inspectCraftRequest_writes: "req_result iid a (inspectCraftRequest env cfg iid a)"
  unfolding inspectCraftRequest_def by (intro writes)

lemma inspect_checkout_writes: "ends1 (writes_response iid a) (inspect_checkout env iid mtype craft locate fill a)"
  unfolding inspect_checkout_def by (intro writes)

interpretation gomod: local_inspector "GoModuleGitInspector env"
proof (rule local_inspectorI)
  show "req_result (ins_ID (GoModuleGitInspector env)) a (ins_InspectRequest (GoModuleGitInspector env) a)" for a
    unfolding GoModuleGitInspector_def Inspector.simps GoModuleGit_InspectRequest_def by (intro writes)
  have tags: "resp_result i a (case_any x1 x2 x3 x4 x5 x6 x7 v)" if "resp_result i a x1" "\<And>v. resp_result i a (x2 v)" "\<And>v. resp_result i a (x3 v)"
    "\<And>v. resp_result i a (x4 v)" "\<And>v. resp_result i a (x5 v)" "\<And>v. resp_result i a (x6 v)" "\<And>v. resp_result i a (x7 v)" for i a v
    and x1 :: "go_error option \<times> Artifact \<times> 'w" and x2 x3 x4 x5 x6 x7 using that by (simp split: any.split)
  show "resp_result (ins_ID (GoModuleGitInspector env)) a (ins_InspectArtifact (GoModuleGitInspector env) f w a)" for f w a
    unfolding GoModuleGitInspector_def Inspector.simps GoModuleGit_InspectArtifact_def by (intro writes tags)
qed

text \<open>The five crafts differ in what \<^const>\<open>inspect_checkout\<close> is given.\<close>

lemma craft_local_inspector:
  assumes "\<And>f w a. inspect f w a = (None, inspect_checkout env iid mtype craft locate fill a, w)"
  shows "local_inspector (craft_inspector env cfg iid inspect)"
  by (rule local_inspectorI)
     (simp_all add: craft_inspector_def assms inspectCraftRequest_writes inspect_checkout_writes ends_branches)

lemmas craft_defs = Rockcraft_InspectArtifact_def Charmcraft_InspectArtifact_def Snapcraft_InspectArtifact_def
  Sourcecraft_InspectArtifact_def Bincraft_InspectArtifact_def

interpretation rockcraft: local_inspector "craft_inspector env cfg ''craft.rockcraft'' (Rockcraft_InspectArtifact env)"
  by (rule craft_local_inspector) (rule craft_defs)

interpretation charmcraft: local_inspector "craft_inspector env cfg ''craft.charmcraft'' (Charmcraft_InspectArtifact env)"
  by (rule craft_local_inspector) (rule craft_defs)

interpretation snapcraft: local_inspector "craft_inspector env cfg ''craft.snapcraft'' (Snapcraft_InspectArtifact env)"
  by (rule craft_local_inspector) (rule craft_defs)

interpretation sourcecraft: local_inspector "craft_inspector env cfg ''craft.sourcecraft'' (Sourcecraft_InspectArtifact env)"
  by (rule craft_local_inspector) (rule craft_defs)

interpretation bincraft: local_inspector "craft_inspector env cfg ''craft.bincraft'' (Bincraft_InspectArtifact env)"
  by (rule craft_local_inspector) (rule craft_defs)

interpretation default_local: local_inspector DefaultInspector
proof (rule local_inspectorI)
  show "req_result (ins_ID DefaultInspector) a (ins_InspectRequest DefaultInspector a)" for a
    unfolding DefaultInspector_def Inspector.simps Default_InspectRequest_def by (intro writes)
  show "resp_result (ins_ID DefaultInspector) a (ins_InspectArtifact DefaultInspector f w a)" for f w a
    unfolding DefaultInspector_def Inspector.simps Default_InspectArtifact_def by (intro writes)
qed

lemma craft_inspectors_local: "ins \<in> set (craft_inspectors env cfg) \<Longrightarrow> local_inspector ins"
  by (auto simp: craft_inspectors_def intro: rockcraft.local_inspector_axioms charmcraft.local_inspector_axioms
      snapcraft.local_inspector_axioms sourcecraft.local_inspector_axioms bincraft.local_inspector_axioms)

end
