(* ===== verification/Git_Refs.thy ===== *)
theory Git_Refs
  imports Git_Contract
begin

text \<open>
  The references the upload-pack inspector remembers, against a specification: for every repository a map
  from the full name of a reference to the hash listed last. The code keeps two maps of maps, created on
  demand under a lock, by requests too.
\<close>

section \<open>Specification\<close>

type_synonym ref_store = "string \<Rightarrow> string \<Rightarrow> string option"

text \<open>A line of a listing: the name of the reference and its hash, for heads and tags.\<close>

definition ref_line :: "string \<Rightarrow> (string \<times> string) option" where
  "ref_line line = (case strings_Split line CHR '' '' of
     hash # name # _ \<Rightarrow> if strings_HasPrefix name ''refs/tags/'' \<or> strings_HasPrefix name ''refs/heads/'' then Some (name, hash) else None
   | _ \<Rightarrow> None)"

definition learn_ref :: "string \<Rightarrow> string \<Rightarrow> ref_store \<Rightarrow> ref_store" where
  "learn_ref repo line m = (case ref_line line of None \<Rightarrow> m | Some (name, hash) \<Rightarrow> m(repo := (m repo)(name \<mapsto> hash)))"

text \<open>When a response is a listing the inspector learns from.\<close>

definition lists_refs :: "git_env \<Rightarrow> string \<Rightarrow> Artifact \<Rightarrow> bool" where
  "lists_refs env f a \<longleftrightarrow> ContentType a = ''application/x-git-upload-pack-result'' \<and>
     snd (RequestStringAnnotation a ID_upload_pack ''repository'') \<and>
     RequestAnnotation a ID_upload_pack ''command'' = (AnyString ''ls-refs'', True) \<and> MimetypeIs a ''text/plain'' \<and>
     fst (snd (decodeGitProtocol True f)) = None \<and> ge_Seek env f = None"

section \<open>Abstraction\<close>

definition look :: "(string, (string, string) gomap) gomap \<Rightarrow> string \<Rightarrow> string \<Rightarrow> string option" where
  "look m repo name = (case map_get m repo of None \<Rightarrow> None | Some r \<Rightarrow> map_get r name)"

definition abs_refs :: "git_state \<Rightarrow> ref_store" where
  "abs_refs st repo name =
     (case strings_CutPrefix name ''refs/tags/'' of Some tag \<Rightarrow> look (gs_tags st) repo tag
      | None \<Rightarrow> (case strings_CutPrefix name ''refs/heads/'' of Some head \<Rightarrow> look (gs_heads st) repo head | None \<Rightarrow> None))"

lemma look_init_key [simp]: "look (init_key repo m) = look m"
  by (auto simp: look_def init_key_def fun_eq_iff split: option.splits)

lemma look_ref_entry:
  "look (ref_entry repo name m hash) r n = (if r = repo \<and> n = name then Some hash else look m r n)"
  by (auto simp: look_def ref_entry_def split: option.splits)

lemma abs_initRepoState [simp]: "abs_refs (initRepoState repo st) = abs_refs st"
  by (simp add: abs_refs_def initRepoState_def fun_eq_iff cong: option.case_cong)

lemma CutPrefix_simps [simp]:
  "strings_CutPrefix (''refs/tags/'' @ t) ''refs/tags/'' = Some t" "strings_CutPrefix (''refs/heads/'' @ t) ''refs/heads/'' = Some t"
  "strings_CutPrefix (''refs/heads/'' @ t) ''refs/tags/'' = None" "strings_CutPrefix (''refs/tags/'' @ t) ''refs/heads/'' = None"
  by (simp_all add: strings_CutPrefix_def strings_HasPrefix_def)

lemma abs_tag_entry:
  "abs_refs (st\<lparr>gs_tags := ref_entry repo tag (gs_tags st) hash\<rparr>) = (abs_refs st)(repo := (abs_refs st repo)(''refs/tags/'' @ tag \<mapsto> hash))"
  by (auto simp: abs_refs_def fun_eq_iff look_ref_entry strings_CutPrefix_def strings_HasPrefix_iff)

lemma abs_head_entry:
  "abs_refs (st\<lparr>gs_heads := ref_entry repo head (gs_heads st) hash\<rparr>) = (abs_refs st)(repo := (abs_refs st repo)(''refs/heads/'' @ head \<mapsto> hash))"
  by (auto simp: abs_refs_def fun_eq_iff look_ref_entry strings_CutPrefix_def strings_HasPrefix_iff)

lemma store_ref_refines: "abs_refs (store_ref repo line st) = learn_ref repo line (abs_refs st)"
proof (cases "strings_Split line CHR '' ''")
  case (Cons hash rest)
  show ?thesis
  proof (cases rest)
    case (Cons name more)
    note line = \<open>strings_Split line CHR '' '' = hash # rest\<close> Cons
    consider (tag) tag where "name = ''refs/tags/'' @ tag" | (head) head where "name = ''refs/heads/'' @ head"
      | (other) "\<not> strings_HasPrefix name ''refs/tags/''" "\<not> strings_HasPrefix name ''refs/heads/''"
      by (auto simp: strings_HasPrefix_iff)
    then show ?thesis
    proof cases
      case tag
      with line show ?thesis by (simp only: store_ref_def learn_ref_def ref_line_def list.case CutPrefix_simps option.case abs_tag_entry
        strings_HasPrefix_append simp_thms if_True prod.case)
    next
      case head
      with line show ?thesis by (simp only: store_ref_def learn_ref_def ref_line_def list.case CutPrefix_simps option.case abs_head_entry
        strings_HasPrefix_append simp_thms if_True prod.case)
    next
      case other
      with line show ?thesis by (simp add: store_ref_def learn_ref_def ref_line_def strings_CutPrefix_def)
    qed
  qed (use Cons in \<open>simp add: store_ref_def learn_ref_def ref_line_def\<close>)
qed (simp add: store_ref_def learn_ref_def ref_line_def)

lemma store_refs_refine: "abs_refs (fold (store_ref repo) refs st) = fold (learn_ref repo) refs (abs_refs st)"
  by (induction refs arbitrary: st) (simp_all add: store_ref_refines)

section \<open>Refinement\<close>


end
