(* ===== verification/Git_Trust.thy ===== *)
theory Git_Trust
  imports Git_Contract
begin

text \<open>
  What the approval of a git response rests on: the facts each inspector establishes, and their
  composition over a session with the inspectors of git traffic.
\<close>

section \<open>Requests\<close>

definition is_fetch :: "string list \<Rightarrow> bool" where
  "is_fetch msgs \<longleftrightarrow> client_command [] msgs = ''fetch'' \<and> fa_isShallow (fetch_arguments msgs) \<and> length (fa_wants (fetch_arguments msgs)) \<le> 1"

text \<open>A request the upload-pack inspector accepts, with the messages of the client.\<close>

definition upload_pack_accepts :: "git_env \<Rightarrow> Artifact \<Rightarrow> string list \<Rightarrow> bool" where
  "upload_pack_accepts env a msgs \<longleftrightarrow> git_request_headers a \<and> getGitProtocol a = ''version=2'' \<and>
     (\<exists>req req'. a_Request a = Some req \<and> newUploadPackRequestHandler env req = (req', Inr msgs)) \<and>
     (client_command [] msgs = ''ls-refs'' \<or> is_fetch msgs)"

text \<open>The annotations it leaves.\<close>

definition upload_pack_notes :: "string list \<Rightarrow> Annotation \<Rightarrow> bool" where
  "upload_pack_notes msgs ann \<longleftrightarrow> map_get ann ''command'' = Some (AnyString (client_command [] msgs)) \<and>
     (client_command [] msgs = ''fetch'' \<longrightarrow>
        map_get ann ''num-wants'' = Some (AnyInt (int (length (fa_wants (fetch_arguments msgs)) + length (fa_wantRefs (fetch_arguments msgs))))) \<and>
        map_get ann ''wants'' = (if fa_wants (fetch_arguments msgs) = [] then None else Some (AnyStrings (fa_wants (fetch_arguments msgs)))))"

lemma get_Inspection_Annotate:
  assumes "wf_map ann"
  shows "map_get (in_Annotations (Inspection_Annotate ann i)) k =
    (case map_get ann k of None \<Rightarrow> map_get (in_Annotations i) k | Some v \<Rightarrow> Some v)"
proof -
  have "map_get (fold (\<lambda>(key, val) m. map_set key val m) ann m) k = (case map_get ann k of None \<Rightarrow> map_get m k | Some v \<Rightarrow> Some v)" for m
    using assms
  proof (induction ann arbitrary: m)
    case (Cons x ann)
    obtain key val where x: "x = (key, val)" by (cases x)
    with Cons.prems have "map_get ann key = None" by (simp add: map_of_eq_None_iff)
    with Cons x show ?case by (auto split: option.splits)
  qed simp
  then show ?thesis by (simp add: Inspection_Annotate_def)
qed

lemma wf_Annotation_Add [simp, intro]: "wf_map ann \<Longrightarrow> wf_map (Annotation_Add ann k v)"
  by (simp add: Annotation_Add_def)

lemma get_Annotation_Add [simp]: "map_get (Annotation_Add ann k v) = (map_get ann)(k \<mapsto> v)"
  by (simp add: Annotation_Add_def)

lemma inspectRequestCommand_entry:
  assumes "wf_map ann" and "map_get ann ''wants'' = None"
    and "opinion_of (a_RequestInspection (inspectRequestCommand msgs ann b)) ID_upload_pack = Some Pending"
  shows "(client_command [] msgs = ''ls-refs'' \<or> is_fetch msgs) \<and>
    (\<exists>i. map_get (a_RequestInspection (inspectRequestCommand msgs ann b)) ID_upload_pack = Some i \<and> upload_pack_notes msgs (in_Annotations i))"
proof -
  define cmd where "cmd = client_command [] msgs"
  define s where "s = fetch_arguments msgs"
  consider (ls) "cmd = ''ls-refs''" | (fetch) "cmd = ''fetch''" | (other) "cmd \<noteq> ''ls-refs''" "cmd \<noteq> ''fetch''" by blast
  then show ?thesis
  proof cases
    case ls
    then show ?thesis using assms(1)
      by (simp add: inspectRequestCommand_def cmd_def upload_pack_notes_def get_Inspection_Annotate)
  next
    case fetch
    then have shape: "fa_isShallow s \<and> length (fa_wants s) \<le> 1" using assms(3)
      by (auto simp: inspectRequestCommand_def cmd_def s_def Let_def opinion_of_def Inspection_Annotate_def split: if_splits)
    with fetch assms(1,2) show ?thesis
      by (simp add: inspectRequestCommand_def cmd_def s_def upload_pack_notes_def get_Inspection_Annotate Let_def is_fetch_def)
  next
    case other
    then show ?thesis using assms(3)
      by (simp add: inspectRequestCommand_def cmd_def Let_def opinion_of_def Inspection_Annotate_def)
  qed
qed

lemma UploadPack_pending:
  assumes "UploadPack_InspectRequest env cfg b = (None, c)" and "map_get (a_RequestInspection b) ID_upload_pack = None"
    and "opinion_of (a_RequestInspection c) ID_upload_pack = Some Pending"
  shows "\<exists>msgs i. upload_pack_accepts env b msgs \<and> map_get (a_RequestInspection c) ID_upload_pack = Some i \<and> upload_pack_notes msgs (in_Annotations i)"
proof -
  from assms(1) obtain u where u: "ge_Parse env (DownloadURL b) = Inr u"
    by (auto simp: UploadPack_InspectRequest_def UploadPack_handle_request_def split: sum.splits)
  have headers: "git_request_headers b"
    using assms u by (auto simp: UploadPack_InspectRequest_def UploadPack_handle_request_def Let_def opinion_of_def split: if_splits)
  have proto: "getGitProtocol b = ''version=2''"
    using assms u headers
    by (auto simp: UploadPack_InspectRequest_def UploadPack_handle_request_def Let_def opinion_of_def Inspection_Annotate_def split: if_splits)
  from assms(1) u headers proto obtain req req' msgs ann where req: "a_Request b = Some req" "newUploadPackRequestHandler env req = (req', Inr msgs)"
    and c: "c = inspectRequestCommand msgs ann (b\<lparr>a_Request := Some req'\<rparr>)" and ann: "wf_map ann" "map_get ann ''wants'' = None"
    by (auto simp: UploadPack_InspectRequest_def UploadPack_handle_request_def Let_def split: option.splits prod.splits sum.splits)
  from inspectRequestCommand_entry [OF ann, of msgs "b\<lparr>a_Request := Some req'\<rparr>"] assms(3) c req headers proto
  show ?thesis by (auto simp: upload_pack_accepts_def)
qed

lemma Craft_pending:
  assumes "inspectCraftRequest env cfg iid b = (None, c)" and "map_get (a_RequestInspection b) iid = None"
    and "opinion_of (a_RequestInspection c) iid = Some Pending"
  shows "\<exists>u p. ce_Parse env (DownloadURL b) = Inr u \<and> NewCraftURLInfo u cfg = Inr p \<and>
    RequestStringAnnotation b ID_upload_pack ''command'' = (''fetch'', True)"
  using assms by (auto simp: inspectCraftRequest_def opinion_of_def split: sum.splits prod.splits if_splits)

lemma GoModule_not_pending:
  assumes "GoModuleGit_InspectRequest env b = (None, c)" and "map_get (a_RequestInspection b) ID_gomod = None"
  shows "opinion_of (a_RequestInspection c) ID_gomod \<noteq> Some Pending"
  using assms by (auto simp: GoModuleGit_InspectRequest_def opinion_of_def split: sum.splits prod.splits if_splits)

lemma checkRequestURL_None: "checkRequestURL cfg s = None \<longleftrightarrow> (\<exists>h \<in> set cfg. Glob_Match h s)"
  by (induction cfg) auto

lemma NewCraftURLInfo_allowed:
  assumes "NewCraftURLInfo u cfg = Inr p"
  shows "(\<exists>h \<in> set cfg. Glob_Match h (request_url u)) \<and> rx_lang reUploadPack (u_Path u)"
proof -
  from assms have "checkRequestURL cfg (request_url u) = None" and "FindStringSubmatch True reUploadPack True (u_Path u) \<noteq> []"
    by (auto simp: NewCraftURLInfo_def upload_pack_project_def Let_def split: option.splits if_splits)
  then show ?thesis by (simp add: checkRequestURL_None MatchString_def flip: MatchString_whole)
qed

section \<open>Responses\<close>

lemma inspectFetchResponse_not_approved:
  assumes "map_get (a_ResponseInspection a) ID_upload_pack = None"
  shows "opinion_of (a_ResponseInspection (snd (inspectFetchResponse env f repo vendor st a))) ID_upload_pack \<noteq> Some Approved"
proof -
  have "ends2 (\<lambda>c. opinion_of (a_ResponseInspection c) ID_upload_pack \<noteq> Some Approved) (inspectFetchResponse env f repo vendor st a)"
    unfolding inspectFetchResponse_def by (intro branches) (simp_all add: assms ends1_def opinion_of_def Inspection_Annotate_def)
  then show ?thesis by (simp add: ends2_def)
qed

lemma UploadPack_approved:
  assumes "UploadPack_InspectArtifact env f st b = (None, c, st')" and "map_get (a_ResponseInspection b) ID_upload_pack = None"
    and "opinion_of (a_ResponseInspection c) ID_upload_pack = Some Approved"
  shows "RequestAnnotation b ID_upload_pack ''command'' = (AnyString ''ls-refs'', True) \<and> (\<exists>m rest. decodeGitProtocol True f = (m, None, rest))"
proof -
  from assms obtain repo vendor st1 where r: "inspectResponseCommand env f repo vendor st1 b = (None, c, st')"
    by (auto simp: UploadPack_InspectArtifact_def opinion_of_def split: if_splits prod.splits bool.splits)
  obtain command ok where command: "RequestAnnotation b ID_upload_pack ''command'' = (command, ok)" by fastforce
  have fetch: "opinion_of (a_ResponseInspection (snd (inspectFetchResponse env f repo vendor st1 b))) ID_upload_pack \<noteq> Some Approved"
    using assms(2) by (rule inspectFetchResponse_not_approved)
  from r assms(3) command fetch have ls: "ok" "command = AnyString ''ls-refs''"
    by (auto simp: inspectResponseCommand_def opinion_of_def Inspection_Annotate_def Let_def split: bool.splits if_splits prod.splits)
  with r command have "inspectLsRefsResponse env f repo vendor st1 b = (None, c, st')" by (simp add: inspectResponseCommand_def)
  with assms(2,3) have "\<exists>m rest. decodeGitProtocol True f = (m, None, rest)"
    by (auto simp: inspectLsRefsResponse_def Let_def opinion_of_def Inspection_Annotate_def split: if_splits prod.splits option.splits)
  with command ls show ?thesis by simp
qed

text \<open>What a checkout rests on.\<close>

definition rejects_depth :: "string list \<Rightarrow> string option" where
  "rejects_depth m = snd (fetchResponseIsShallow m [])"

definition shallow_fetch :: "git_env \<Rightarrow> string \<Rightarrow> string \<Rightarrow> string \<Rightarrow> string \<Rightarrow> bool" where
  "shallow_fetch env f ref cacheDir dir \<longleftrightarrow>
     (\<exists>m rest. decodeGitProtocol True f = (m, None, rest) \<and> rejects_depth m = None) \<and>
     unpackAndCheckout env f ref cacheDir = Inr dir"

definition checkout_noted :: "Artifact \<Rightarrow> string \<Rightarrow> bool" where
  "checkout_noted a dir \<longleftrightarrow> ResponseStringAnnotation a ID_upload_pack ''git-checkout-path'' = (dir, True)"

lemma fetchResponseIsShallow_result:
  "fetchResponseIsShallow m ann = (n, r) \<Longrightarrow>
     n = Annotation_Add ann ''server-response'' (AnyStrings (map strings_TrimSpace m)) \<and> r = rejects_depth m"
  by (auto simp: fetchResponseIsShallow_def rejects_depth_def Let_def)

definition fetch_rests_on :: "git_env \<Rightarrow> string \<Rightarrow> Artifact \<Rightarrow> Artifact \<Rightarrow> bool" where
  "fetch_rests_on env f a c \<longleftrightarrow> (\<forall>dir. checkout_noted c dir \<longrightarrow>
     fst (RequestAnnotation a ID_upload_pack ''num-wants'') = AnyInt 1 \<and>
     (\<exists>ref. getRefFromWants a = Inr ref \<and> shallow_fetch env f ref (a_SessionCacheDir a) dir))"

lemma inspectFetchResponse_rests_on:
  assumes "map_get (a_ResponseInspection a) ID_upload_pack = None"
  shows "ends2 (fetch_rests_on env f a) (inspectFetchResponse env f repo vendor st a)"
  unfolding inspectFetchResponse_def
  by (intro branches)
     (auto simp: assms ends1_def fetch_rests_on_def checkout_noted_def ResponseStringAnnotation_def inspectionAnnotation_def
        get_Inspection_Annotate error_msg_def shallow_fetch_def dest!: fetchResponseIsShallow_result)

lemma UploadPack_checkout:
  assumes "UploadPack_InspectArtifact env f st b = (None, c, st')" and "map_get (a_ResponseInspection b) ID_upload_pack = None"
    and "checkout_noted c dir"
  shows "fst (RequestAnnotation b ID_upload_pack ''num-wants'') = AnyInt 1 \<and>
    (\<exists>ref. getRefFromWants b = Inr ref \<and> shallow_fetch env f ref (a_SessionCacheDir b) dir)"
proof -
  have none: "ends3 (fetch_rests_on env f b) (inspectLsRefsResponse env f repo vendor st1 b)" for repo vendor st1
    unfolding inspectLsRefsResponse_def
    by (intro branches) (auto simp: assms ends1_def fetch_rests_on_def checkout_noted_def ResponseStringAnnotation_def
        inspectionAnnotation_def get_Inspection_Annotate error_msg_def)
  have "ends3 (fetch_rests_on env f b) (UploadPack_InspectArtifact env f st b)"
    unfolding UploadPack_InspectArtifact_def inspectResponseCommand_def
    by (intro branches none inspectFetchResponse_rests_on)
       (auto simp: assms ends1_def fetch_rests_on_def checkout_noted_def ResponseStringAnnotation_def
          inspectionAnnotation_def Inspection_Annotate_def)
  with assms(1,3) show ?thesis by (simp add: ends3_def fetch_rests_on_def)
qed

lemma Craft_approved:
  assumes "opinion_of (a_ResponseInspection (inspect_checkout env iid mtype craft locate fill b)) iid = Some Approved"
    and "map_get (a_ResponseInspection b) iid = None"
  shows "\<exists>dir path content md md'. checkout_noted b dir \<and> locate dir = Some path \<and> ce_Open env path = Inr content \<and> fill content md = Inr md'"
  using assms
  by (auto simp: inspect_checkout_def checkout_noted_def Let_def opinion_of_def
      split: if_splits prod.splits bool.splits option.splits sum.splits)

lemma SmartQuery_other_content:
  "ContentType b = ''application/x-git-upload-pack-result'' \<Longrightarrow> SmartQuery_InspectArtifact f w b = (None, b, w)"
  by (simp add: SmartQuery_InspectArtifact_def)

lemma Default_not_approved:
  "map_get (a_ResponseInspection b) ''default'' = None \<Longrightarrow> Default_InspectArtifact f w b = (None, c, w') \<Longrightarrow>
     opinion_of (a_ResponseInspection c) ''default'' \<noteq> Some Approved"
  by (auto simp: Default_InspectArtifact_def opinion_of_def split: if_splits)

end
