(* ===== verification/Git_Props.thy ===== *)
theory Git_Props
  imports Git_Trust
begin

text \<open>
  The properties of git traffic that span the inspectors: what an approved response of a strict session
  rests on, and what the configured addresses do not restrict.
\<close>

section \<open>The inspectors in the order of the registry\<close>

definition git_inspectors :: "git_env \<Rightarrow> craft_env \<Rightarrow> Glob list \<Rightarrow> Glob list \<Rightarrow> git_state Inspector list" where
  "git_inspectors env cenv gits crafts =
     SmartQueryInspector env gits # UploadPackInspector env gits # GoModuleGitInspector cenv # craft_inspectors cenv crafts @ [DefaultInspector]"

definition craft_ids :: "string list" where
  "craft_ids = [''craft.rockcraft'', ''craft.charmcraft'', ''craft.snapcraft'', ''craft.sourcecraft'', ''craft.bincraft'']"

definition git_ids :: "string list" where
  "git_ids = ID_smart_query # ID_upload_pack # ID_gomod # craft_ids @ [''default'']"

lemma git_inspectors_ids [simp]: "map ins_ID (git_inspectors env cenv gits crafts) = git_ids"
  by (simp add: git_inspectors_def git_ids_def craft_ids_def SmartQueryInspector_def UploadPackInspector_def GoModuleGitInspector_def
      craft_inspectors_def craft_inspector_def DefaultInspector_def)

lemma git_ids_distinct: "distinct git_ids"
  by (simp add: git_ids_def craft_ids_def)

abbreviation git_registry :: "git_env \<Rightarrow> craft_env \<Rightarrow> Glob list \<Rightarrow> Glob list \<Rightarrow> git_state Inspectors" where
  "git_registry env cenv gits crafts \<equiv> newInspectors False (git_inspectors env cenv gits crafts)"

lemma git_registry_local: "registry_local (insmap (git_registry env cenv gits crafts)) git_ids"
proof -
  have "\<forall>ins \<in> set (git_inspectors env cenv gits crafts). local_inspector ins"
    using craft_inspectors_local
    by (auto simp: git_inspectors_def intro: smart_query.local_inspector_axioms upload_pack.local_inspector_axioms
        gomod.local_inspector_axioms default_local.local_inspector_axioms)
  with git_ids_distinct registry_local_new [of "git_inspectors env cenv gits crafts" False] show ?thesis
    by (simp add: newInspectors_def)
qed

lemma git_lookup:
  assumes "ins \<in> set (git_inspectors env cenv gits crafts)"
  shows "map_get (insmap (git_registry env cenv gits crafts)) (ins_ID ins) = Some ins"
  using assms git_ids_distinct by (intro newInspectors_get) simp_all

lemma git_lookups [simp]:
  "map_get (insmap (git_registry env cenv gits crafts)) ID_smart_query = Some (SmartQueryInspector env gits)"
  "map_get (insmap (git_registry env cenv gits crafts)) ID_upload_pack = Some (UploadPackInspector env gits)"
  "map_get (insmap (git_registry env cenv gits crafts)) ID_gomod = Some (GoModuleGitInspector cenv)"
  "map_get (insmap (git_registry env cenv gits crafts)) ''default'' = Some DefaultInspector"
  using git_lookup [of "SmartQueryInspector env gits" env cenv gits crafts] git_lookup [of "UploadPackInspector env gits" env cenv gits crafts]
    git_lookup [of "GoModuleGitInspector cenv" env cenv gits crafts] git_lookup [of DefaultInspector env cenv gits crafts]
  by (simp_all add: git_inspectors_def SmartQueryInspector_def UploadPackInspector_def GoModuleGitInspector_def DefaultInspector_def)

definition project_file :: "craft_env \<Rightarrow> string \<Rightarrow> string \<Rightarrow> bool" where
  "project_file env dir path \<longleftrightarrow> ce_Stat env path = None \<and>
     path \<in> (\<lambda>n. filepath_Join [dir, n]) ` {''rockcraft.yaml'', ''charmcraft.yaml'', ''snap/snapcraft.yaml'', ''snapcraft.yaml'',
       ''build-aux/snap/snapcraft.yaml'', ''sourcecraft.yaml'', ''bincraft.yaml''}"

definition craft_body :: "craft_env \<Rightarrow> Glob list \<Rightarrow> string \<Rightarrow> 'w Inspector \<Rightarrow> bool" where
  "craft_body cenv crafts iid ins \<longleftrightarrow> ins_InspectRequest ins = inspectCraftRequest cenv crafts iid \<and>
     (\<exists>mtype craft locate fill. ins_InspectArtifact ins = (\<lambda>f w a. (None, inspect_checkout cenv iid mtype craft locate fill a, w)) \<and>
        (\<forall>dir path. locate dir = Some path \<longrightarrow> project_file cenv dir path))"

lemma locate_project:
  "n \<in> {''rockcraft.yaml'', ''charmcraft.yaml'', ''sourcecraft.yaml'', ''bincraft.yaml''} \<Longrightarrow> locate_file cenv n dir = Some path \<Longrightarrow>
     project_file cenv dir path"
  "getSnapcraftYamlPath cenv dir = Some path \<Longrightarrow> project_file cenv dir path"
  by (auto simp: locate_file_def getSnapcraftYamlPath_def project_file_def Let_def split: option.splits)

lemma craft_bodyI:
  assumes "inspect = (\<lambda>f w a. (None, inspect_checkout cenv iid mtype craft locate fill a, w))"
    and "\<And>dir path. locate dir = Some path \<Longrightarrow> project_file cenv dir path"
  shows "craft_body cenv crafts iid (craft_inspector cenv crafts iid inspect)"
  using assms unfolding craft_body_def craft_inspector_def by auto

lemma craft_bodies:
  "craft_body cenv crafts ''craft.rockcraft'' (craft_inspector cenv crafts ''craft.rockcraft'' (Rockcraft_InspectArtifact cenv))"
  "craft_body cenv crafts ''craft.charmcraft'' (craft_inspector cenv crafts ''craft.charmcraft'' (Charmcraft_InspectArtifact cenv))"
  "craft_body cenv crafts ''craft.snapcraft'' (craft_inspector cenv crafts ''craft.snapcraft'' (Snapcraft_InspectArtifact cenv))"
  "craft_body cenv crafts ''craft.sourcecraft'' (craft_inspector cenv crafts ''craft.sourcecraft'' (Sourcecraft_InspectArtifact cenv))"
  "craft_body cenv crafts ''craft.bincraft'' (craft_inspector cenv crafts ''craft.bincraft'' (Bincraft_InspectArtifact cenv))"
  by (rule craft_bodyI, (intro ext)?, (rule craft_defs)?, (erule locate_project | erule locate_project [rotated]), simp?)+

lemma craft_inspector_ID: "ins_ID (craft_inspector cenv crafts iid inspect) = iid"
  by (simp add: craft_inspector_def)

lemma craft_inspectors_bodies:
  "\<forall>ins \<in> set (craft_inspectors cenv crafts). craft_body cenv crafts (ins_ID ins) ins"
  by (simp add: craft_inspectors_def craft_inspector_ID craft_bodies)

lemma craft_lookup:
  assumes "iid \<in> set craft_ids"
  shows "\<exists>ins. map_get (insmap (git_registry env cenv gits crafts)) iid = Some ins \<and> craft_body cenv crafts iid ins"
proof -
  have "set craft_ids = ins_ID ` set (craft_inspectors cenv crafts :: git_state Inspector list)"
    by (simp add: craft_ids_def craft_inspectors_def craft_inspector_ID)
  with assms have "iid \<in> ins_ID ` set (craft_inspectors cenv crafts :: git_state Inspector list)" by simp
  then obtain ins :: "git_state Inspector" where "ins \<in> set (craft_inspectors cenv crafts)" "ins_ID ins = iid" by blast
  with git_lookup [of ins env cenv gits crafts] craft_inspectors_bodies [of cenv crafts] show ?thesis
    by (auto simp: git_inspectors_def)
qed

section \<open>The requests of a strict session\<close>

text \<open>A request that went through the inspectors without error.\<close>

definition inspected_request :: "git_env \<Rightarrow> craft_env \<Rightarrow> Glob list \<Rightarrow> Glob list \<Rightarrow> Artifact \<Rightarrow> Artifact \<Rightarrow> bool" where
  "inspected_request env cenv gits crafts a a' \<longleftrightarrow> a_RequestInspection a = [] \<and> a_ResponseInspection a = [] \<and>
     RunRequestInspectors (git_registry env cenv gits crafts) a = (None, a')"

lemma inspected_run:
  "inspected_request env cenv gits crafts a a' \<Longrightarrow>
     run_request (insmap (git_registry env cenv gits crafts)) git_ids a = (None, a') \<and> a_RequestInspection a = []"
  by (simp add: inspected_request_def RunRequestInspectors_def newInspectors_def)

lemma request_entry:
  assumes "inspected_request env cenv gits crafts a a'" and "git_ids = xs @ i # ys"
  shows "\<exists>b ins c. map_get (insmap (git_registry env cenv gits crafts)) i = Some ins \<and> ins_InspectRequest ins b = (None, c) \<and>
    map_get (a_RequestInspection b) i = None \<and> map_get (a_RequestInspection a') i = map_get (a_RequestInspection c) i \<and>
    (\<forall>j \<in> set xs. map_get (a_RequestInspection b) j = map_get (a_RequestInspection a') j) \<and> same_context a b \<and>
    run_request (insmap (git_registry env cenv gits crafts)) xs a = (None, b)"
proof -
  have "registry_local (insmap (git_registry env cenv gits crafts)) (xs @ i # ys)" using git_registry_local assms(2) by metis
  moreover have "distinct (xs @ i # ys)" using git_ids_distinct assms(2) by metis
  moreover note run = inspected_run [OF assms(1)]
  ultimately obtain b ins c where b: "run_request (insmap (git_registry env cenv gits crafts)) xs a = (None, b)"
      "map_get (insmap (git_registry env cenv gits crafts)) i = Some ins" "ins_InspectRequest ins b = (None, c)"
      "map_get (a_RequestInspection a') i = map_get (a_RequestInspection c) i"
      "\<forall>j \<in> set xs. map_get (a_RequestInspection b) j = map_get (a_RequestInspection a') j" "same_context a b"
    using run_request_entry [of "insmap (git_registry env cenv gits crafts)" xs i ys a a'] assms(2) by auto
  moreover have "map_get (a_RequestInspection b) i = None"
    using run_request_keeps [of "insmap (git_registry env cenv gits crafts)" xs i a] b(1) run
      \<open>registry_local _ (xs @ i # ys)\<close> \<open>distinct (xs @ i # ys)\<close> by simp
  ultimately show ?thesis by blast
qed

lemma upload_pack_pending:
  assumes "inspected_request env cenv gits crafts a a'" and "opinion_of (a_RequestInspection a') ID_upload_pack = Some Pending"
  shows "\<exists>msgs i. upload_pack_accepts env a msgs \<and> map_get (a_RequestInspection a') ID_upload_pack = Some i \<and>
    upload_pack_notes msgs (in_Annotations i)"
proof -
  have "git_ids = [ID_smart_query] @ ID_upload_pack # ID_gomod # craft_ids @ [''default'']" by (simp add: git_ids_def)
  from request_entry [OF assms(1) this] obtain b c where b: "UploadPack_InspectRequest env gits b = (None, c)" "map_get (a_RequestInspection b) ID_upload_pack = None"
    and entry: "map_get (a_RequestInspection a') ID_upload_pack = map_get (a_RequestInspection c) ID_upload_pack" and same: "same_context a b"
    and run: "run_request (insmap (git_registry env cenv gits crafts)) [ID_smart_query] a = (None, b)"
    by (auto simp: UploadPackInspector_def simp del: run_request.simps)
  have body: "a_Request b = a_Request a" using run
    by (auto simp: SmartQueryInspector_def SmartQuery_InspectRequest_def Let_def annotate_request_def SetRequestPending_def
        split: if_splits sum.splits prod.splits option.splits)
  obtain msgs i where "upload_pack_accepts env b msgs" "map_get (a_RequestInspection c) ID_upload_pack = Some i" "upload_pack_notes msgs (in_Annotations i)"
    using UploadPack_pending [OF b] assms(2) entry by (auto simp: opinion_of_def)
  then show ?thesis using same body entry
    by (auto simp: upload_pack_accepts_def git_request_headers_def RequestHeaderContains_def getGitProtocol_def RequestHeader_def same_context_def)
qed

lemma craft_ids_split:
  assumes "iid \<in> set craft_ids"
  shows "\<exists>xs ys. git_ids = xs @ iid # ys \<and> ID_upload_pack \<in> set xs"
proof -
  obtain us vs where "craft_ids = us @ iid # vs" using assms by (auto dest: split_list)
  then have "git_ids = (ID_smart_query # ID_upload_pack # ID_gomod # us) @ iid # vs @ [''default'']" by (simp add: git_ids_def)
  then show ?thesis by (intro exI) (auto simp del: append_Cons)
qed

lemma craft_pending:
  assumes "inspected_request env cenv gits crafts a a'" and "iid \<in> set craft_ids"
    and "opinion_of (a_RequestInspection a') iid = Some Pending"
  shows "(\<exists>u. ce_Parse cenv (DownloadURL a) = Inr u \<and> (\<exists>h \<in> set crafts. Glob_Match h (request_url u)) \<and> rx_lang reUploadPack (u_Path u)) \<and>
    RequestStringAnnotation a' ID_upload_pack ''command'' = (''fetch'', True)"
proof -
  obtain xs ys where ids: "git_ids = xs @ iid # ys" "ID_upload_pack \<in> set xs" using craft_ids_split [OF assms(2)] by blast
  obtain ins where ins: "map_get (insmap (git_registry env cenv gits crafts)) iid = Some ins" "ins_InspectRequest ins = inspectCraftRequest cenv crafts iid"
    using craft_lookup [OF assms(2), of env cenv gits crafts] unfolding craft_body_def by blast
  with request_entry [OF assms(1) ids(1)] obtain b c where b: "inspectCraftRequest cenv crafts iid b = (None, c)" "map_get (a_RequestInspection b) iid = None"
    and entry: "map_get (a_RequestInspection a') iid = map_get (a_RequestInspection c) iid" "same_context a b"
    and before: "map_get (a_RequestInspection b) ID_upload_pack = map_get (a_RequestInspection a') ID_upload_pack"
    using ids(2) by auto
  from Craft_pending [OF b] assms(3) entry obtain u p where "ce_Parse cenv (DownloadURL b) = Inr u" "NewCraftURLInfo u crafts = Inr p"
    "RequestStringAnnotation b ID_upload_pack ''command'' = (''fetch'', True)" by (auto simp: opinion_of_def)
  moreover have "DownloadURL b = DownloadURL a" using entry(2) by (simp add: same_context_def DownloadURL_def)
  moreover have "RequestStringAnnotation b ID_upload_pack ''command'' = RequestStringAnnotation a' ID_upload_pack ''command''"
    using before by (simp add: RequestStringAnnotation_def inspectionAnnotation_def)
  ultimately show ?thesis using NewCraftURLInfo_allowed by auto
qed

lemma gomod_not_pending:
  assumes "inspected_request env cenv gits crafts a a'"
  shows "opinion_of (a_RequestInspection a') ID_gomod \<noteq> Some Pending"
proof -
  have "git_ids = [ID_smart_query, ID_upload_pack] @ ID_gomod # craft_ids @ [''default'']" by (simp add: git_ids_def)
  from request_entry [OF assms this] obtain b c where b: "GoModuleGit_InspectRequest cenv b = (None, c)" "map_get (a_RequestInspection b) ID_gomod = None"
    and entry: "map_get (a_RequestInspection a') ID_gomod = map_get (a_RequestInspection c) ID_gomod"
    by (auto simp: GoModuleGitInspector_def simp del: run_request.simps)
  with GoModule_not_pending [OF b] show ?thesis by (simp add: opinion_of_def)
qed

section \<open>The responses of a strict session\<close>

text \<open>
  A response to an inspected request that went through the inspectors without error: \<open>a\<close> is the artifact
  before the inspection of the response, with no opinion on the response yet.
\<close>

definition inspected_response ::
  "insp_env \<Rightarrow> git_env \<Rightarrow> craft_env \<Rightarrow> Glob list \<Rightarrow> Glob list \<Rightarrow> string \<Rightarrow> git_state \<Rightarrow> Artifact \<Rightarrow> Artifact \<Rightarrow> bool" where
  "inspected_response ienv env cenv gits crafts f st a a' \<longleftrightarrow> a_ResponseInspection a = [] \<and>
     (\<exists>st'. run_artifact ienv (insmap (git_registry env cenv gits crafts)) False f git_ids st a = (None, a', st'))"

lemma response_entry:
  assumes "inspected_response ienv env cenv gits crafts f st a a'" and "git_ids = xs @ i # ys"
  shows "\<exists>b v ins c v'. map_get (insmap (git_registry env cenv gits crafts)) i = Some ins \<and>
    (c = b \<and> skips False a i \<or> \<not> skips False a i \<and> ins_InspectArtifact ins f v b = (None, c, v')) \<and>
    map_get (a_ResponseInspection b) i = None \<and> map_get (a_ResponseInspection a') i = map_get (a_ResponseInspection c) i \<and>
    (\<forall>j \<in> set xs. map_get (a_ResponseInspection b) j = map_get (a_ResponseInspection a') j) \<and>
    a_RequestInspection b = a_RequestInspection a \<and> same_context a b"
proof -
  obtain st' where run: "run_artifact ienv (insmap (git_registry env cenv gits crafts)) False f (xs @ i # ys) st a = (None, a', st')"
    using assms by (auto simp: inspected_response_def)
  have "registry_local (insmap (git_registry env cenv gits crafts)) (xs @ i # ys)" using git_registry_local assms(2) by metis
  moreover have "distinct (xs @ i # ys)" using git_ids_distinct assms(2) by metis
  moreover have "map_get (a_ResponseInspection a) i = None" using assms(1) by (simp add: inspected_response_def)
  ultimately show ?thesis using run_artifact_entry [OF _ _ run] by metis
qed

lemma inspected_wf:
  assumes "inspected_request env cenv gits crafts a a1" and "a_RequestInspection a2 = a_RequestInspection a1"
    and "inspected_response ienv env cenv gits crafts f st a2 a3"
  shows "wf_artifact a3"
proof -
  have "request_frame (set git_ids) a a1"
    using run_request_frame [OF registry_local_ok [OF git_registry_local [of env cenv gits crafts]], of a] inspected_run [OF assms(1)] by simp
  then have "wf_artifact a1" using assms(1) by (simp add: request_frame_def inspected_request_def wf_artifact_def)
  with assms have "wf_artifact a2" by (simp add: wf_artifact_def inspected_response_def)
  moreover have "response_frame {i \<in> set git_ids. \<not> skips False a2 i} a2 a3"
    using run_artifact_frame [OF registry_local_ok [OF git_registry_local [of env cenv gits crafts]], of False a2 ienv f st] assms(3)
    by (auto simp: inspected_response_def)
  ultimately show ?thesis by (simp add: response_frame_def)
qed

lemma inspected_approved:
  assumes "inspected_response ienv env cenv gits crafts f st a a'" and "opinion_of (a_ResponseInspection a') i = Some Approved"
  shows "i \<in> set git_ids"
proof (rule ccontr)
  assume "i \<notin> set git_ids"
  from run_artifact_keeps [OF git_registry_local [of env cenv gits crafts] this, of ienv False f st a] assms
  show False by (auto simp: inspected_response_def opinion_of_def)
qed

lemma not_skipped_pending: "\<not> skips False a i \<Longrightarrow> i \<noteq> ''default'' \<Longrightarrow> opinion_of (a_RequestInspection a) i = Some Pending"
  by (auto simp: skips_def opinion_of_def split: option.splits)

lemma checkout_noted_cong:
  "map_get (a_ResponseInspection a) ID_upload_pack = map_get (a_ResponseInspection b) ID_upload_pack \<Longrightarrow> checkout_noted a dir \<longleftrightarrow> checkout_noted b dir"
  by (simp add: checkout_noted_def ResponseStringAnnotation_def inspectionAnnotation_def)

definition craft_checkout :: "git_env \<Rightarrow> craft_env \<Rightarrow> Glob list \<Rightarrow> Artifact \<Rightarrow> string list \<Rightarrow> string \<Rightarrow> string \<Rightarrow> bool" where
  "craft_checkout env cenv crafts a msgs f cacheDir \<longleftrightarrow> is_fetch msgs \<and>
     (\<exists>u. ce_Parse cenv (DownloadURL a) = Inr u \<and> (\<exists>h \<in> set crafts. Glob_Match h (request_url u)) \<and> rx_lang reUploadPack (u_Path u)) \<and>
     (\<exists>ref dir path content. fa_wants (fetch_arguments msgs) = [ref] \<and> fa_wantRefs (fetch_arguments msgs) = [] \<and>
        shallow_fetch env f ref cacheDir dir \<and> project_file cenv dir path \<and> ce_Open cenv path = Inr content)"

lemma upload_pack_ref:
  assumes "map_get (a_RequestInspection b) ID_upload_pack = Some i" and "upload_pack_notes msgs (in_Annotations i)"
    and "client_command [] msgs = ''fetch''" and "fst (RequestAnnotation b ID_upload_pack ''num-wants'') = AnyInt 1"
    and "getRefFromWants b = Inr ref"
  shows "fa_wants (fetch_arguments msgs) = [ref] \<and> fa_wantRefs (fetch_arguments msgs) = []"
proof -
  define s where "s = fetch_arguments msgs"
  from assms(1-3) have n: "map_get (in_Annotations i) ''num-wants'' = Some (AnyInt (int (length (fa_wants s) + length (fa_wantRefs s))))"
    and w: "map_get (in_Annotations i) ''wants'' = (if fa_wants s = [] then None else Some (AnyStrings (fa_wants s)))"
    by (simp_all add: upload_pack_notes_def s_def)
  from n assms(1,4) have "length (fa_wants s) + length (fa_wantRefs s) = 1"
    by (simp add: RequestAnnotation_def inspectionAnnotation_def assert_any_def)
  moreover from w assms(1,5) have "\<exists>r. fa_wants s = ref # r"
    by (auto simp: getRefFromWants_def RequestAnnotation_def inspectionAnnotation_def assert_any_def split: if_splits prod.splits list.splits)
  ultimately show ?thesis by (auto simp: s_def)
qed

text \<open>A checkout noted by the upload-pack inspector comes from a shallow fetch of a single reference.\<close>

lemma checkout_from_fetch:
  assumes "inspected_request env cenv gits crafts a a1" and "a_RequestInspection a2 = a_RequestInspection a1"
    and "inspected_response ienv env cenv gits crafts f st a2 a3" and "checkout_noted a3 dir"
    and "RequestStringAnnotation a1 ID_upload_pack ''command'' = (''fetch'', True)"
  shows "\<exists>msgs ref. upload_pack_accepts env a msgs \<and> is_fetch msgs \<and> fa_wants (fetch_arguments msgs) = [ref] \<and>
    fa_wantRefs (fetch_arguments msgs) = [] \<and> shallow_fetch env f ref (a_SessionCacheDir a2) dir"
proof -
  have up: "git_ids = [ID_smart_query] @ ID_upload_pack # ID_gomod # craft_ids @ [''default'']" by (simp add: git_ids_def)
  from response_entry [OF assms(3) up] obtain b v c v'
    where E: "c = b \<and> skips False a2 ID_upload_pack \<or> \<not> skips False a2 ID_upload_pack \<and> UploadPack_InspectArtifact env f v b = (None, c, v')"
      "map_get (a_ResponseInspection b) ID_upload_pack = None"
      "map_get (a_ResponseInspection a3) ID_upload_pack = map_get (a_ResponseInspection c) ID_upload_pack"
      "a_RequestInspection b = a_RequestInspection a2" "same_context a2 b"
    by (auto simp: UploadPackInspector_def)
  have noted: "checkout_noted c dir" using assms(4) checkout_noted_cong [OF E(3)] by simp
  then have "map_get (a_ResponseInspection c) ID_upload_pack \<noteq> None"
    by (auto simp: checkout_noted_def ResponseStringAnnotation_def inspectionAnnotation_def split: option.splits)
  with E(1,2) have run: "\<not> skips False a2 ID_upload_pack" "UploadPack_InspectArtifact env f v b = (None, c, v')" by auto
  from run(1) assms(2) have "opinion_of (a_RequestInspection a1) ID_upload_pack = Some Pending"
    using not_skipped_pending [of a2 ID_upload_pack] by simp
  from upload_pack_pending [OF assms(1) this] obtain msgs i where msgs: "upload_pack_accepts env a msgs"
    and i: "map_get (a_RequestInspection a1) ID_upload_pack = Some i" "upload_pack_notes msgs (in_Annotations i)" by blast
  have cmd: "client_command [] msgs = ''fetch''" using assms(5) i
    by (simp add: RequestStringAnnotation_def inspectionAnnotation_def upload_pack_notes_def)
  from UploadPack_checkout [OF run(2) E(2) noted] obtain ref where ref: "fst (RequestAnnotation b ID_upload_pack ''num-wants'') = AnyInt 1"
    "getRefFromWants b = Inr ref" "shallow_fetch env f ref (a_SessionCacheDir b) dir" by blast
  have "map_get (a_RequestInspection b) ID_upload_pack = Some i" using i(1) E(4) assms(2) by simp
  from upload_pack_ref [OF this i(2) cmd ref(1,2)] msgs cmd ref(3) E(5) show ?thesis
    by (auto simp: upload_pack_accepts_def same_context_def)
qed

lemma craft_approval:
  assumes "inspected_request env cenv gits crafts a a1" and "a_RequestInspection a2 = a_RequestInspection a1"
    and "inspected_response ienv env cenv gits crafts f st a2 a3" and "iid \<in> set craft_ids"
    and "opinion_of (a_ResponseInspection a3) iid = Some Approved"
  shows "\<exists>msgs. upload_pack_accepts env a msgs \<and> craft_checkout env cenv crafts a msgs f (a_SessionCacheDir a2)"
proof -
  obtain xs ys where ids: "git_ids = xs @ iid # ys" "ID_upload_pack \<in> set xs" using craft_ids_split [OF assms(4)] by blast
  obtain ins mtype craft locate fill where ins: "map_get (insmap (git_registry env cenv gits crafts)) iid = Some ins"
      "ins_InspectArtifact ins = (\<lambda>f w a. (None, inspect_checkout cenv iid mtype craft locate fill a, w))"
    and located: "\<And>dir path. locate dir = Some path \<Longrightarrow> project_file cenv dir path"
    using craft_lookup [OF assms(4), of env cenv gits crafts] unfolding craft_body_def by blast
  from response_entry [OF assms(3) ids(1)] ins obtain b c
    where E: "c = b \<and> skips False a2 iid \<or> \<not> skips False a2 iid \<and> c = inspect_checkout cenv iid mtype craft locate fill b"
      "map_get (a_ResponseInspection b) iid = None" "map_get (a_ResponseInspection a3) iid = map_get (a_ResponseInspection c) iid"
    and before: "map_get (a_ResponseInspection b) ID_upload_pack = map_get (a_ResponseInspection a3) ID_upload_pack"
    using ids(2) by auto
  have "opinion_of (a_ResponseInspection c) iid = Some Approved" using E(3) assms(5) by (simp add: opinion_of_def)
  with E(1,2) have pending: "\<not> skips False a2 iid"
    and "opinion_of (a_ResponseInspection (inspect_checkout cenv iid mtype craft locate fill b)) iid = Some Approved"
    by (auto simp: opinion_of_def)
  from Craft_approved [OF this(2) E(2)] obtain dir path content
    where dir: "checkout_noted b dir" and path: "locate dir = Some path" "ce_Open cenv path = Inr content" by blast
  have "iid \<noteq> ''default''" using assms(4) by (auto simp: craft_ids_def)
  with pending assms(2) have "opinion_of (a_RequestInspection a1) iid = Some Pending" using not_skipped_pending [of a2 iid] by simp
  note request = craft_pending [OF assms(1,4) this]
  have "checkout_noted a3 dir" using dir checkout_noted_cong [OF before] by simp
  from checkout_from_fetch [OF assms(1-3) this] request
  show ?thesis unfolding craft_checkout_def using located [OF path(1)] path(2) by blast
qed

lemma upload_pack_approval:
  assumes "inspected_request env cenv gits crafts a a1" and "a_RequestInspection a2 = a_RequestInspection a1"
    and "inspected_response ienv env cenv gits crafts f st a2 a3" and "opinion_of (a_ResponseInspection a3) ID_upload_pack = Some Approved"
  shows "\<exists>msgs. upload_pack_accepts env a msgs \<and> client_command [] msgs = ''ls-refs'' \<and> (\<exists>m rest. decodeGitProtocol True f = (m, None, rest))"
proof -
  have up: "git_ids = [ID_smart_query] @ ID_upload_pack # ID_gomod # craft_ids @ [''default'']" by (simp add: git_ids_def)
  from response_entry [OF assms(3) up] obtain b v c v'
    where E: "c = b \<and> skips False a2 ID_upload_pack \<or> \<not> skips False a2 ID_upload_pack \<and> UploadPack_InspectArtifact env f v b = (None, c, v')"
      "map_get (a_ResponseInspection b) ID_upload_pack = None"
      "map_get (a_ResponseInspection a3) ID_upload_pack = map_get (a_ResponseInspection c) ID_upload_pack"
      "a_RequestInspection b = a_RequestInspection a2"
    by (auto simp: UploadPackInspector_def)
  have approved: "opinion_of (a_ResponseInspection c) ID_upload_pack = Some Approved" using E(3) assms(4) by (simp add: opinion_of_def)
  with E(1,2) have run: "\<not> skips False a2 ID_upload_pack" "UploadPack_InspectArtifact env f v b = (None, c, v')" by (auto simp: opinion_of_def)
  from run(1) assms(2) have "opinion_of (a_RequestInspection a1) ID_upload_pack = Some Pending"
    using not_skipped_pending [of a2 ID_upload_pack] by simp
  from upload_pack_pending [OF assms(1) this] obtain msgs i where msgs: "upload_pack_accepts env a msgs"
    and i: "map_get (a_RequestInspection a1) ID_upload_pack = Some i" "upload_pack_notes msgs (in_Annotations i)" by blast
  from UploadPack_approved [OF run(2) E(2) approved] have "RequestAnnotation b ID_upload_pack ''command'' = (AnyString ''ls-refs'', True)"
    and dec: "\<exists>m rest. decodeGitProtocol True f = (m, None, rest)" by auto
  then have "client_command [] msgs = ''ls-refs''" using i E(4) assms(2)
    by (simp add: RequestAnnotation_def inspectionAnnotation_def upload_pack_notes_def assert_any_def)
  with msgs dec show ?thesis by blast
qed

lemma others_not_approved:
  assumes "inspected_request env cenv gits crafts a a1" and "a_RequestInspection a2 = a_RequestInspection a1"
    and "ContentType a2 = ''application/x-git-upload-pack-result''"
    and "inspected_response ienv env cenv gits crafts f st a2 a3" and "i \<in> {ID_smart_query, ID_gomod, ''default''}"
  shows "opinion_of (a_ResponseInspection a3) i \<noteq> Some Approved"
proof -
  have splits: "git_ids = [] @ ID_smart_query # ID_upload_pack # ID_gomod # craft_ids @ [''default'']"
    "git_ids = [ID_smart_query, ID_upload_pack] @ ID_gomod # craft_ids @ [''default'']"
    "git_ids = (ID_smart_query # ID_upload_pack # ID_gomod # craft_ids) @ ''default'' # []" by (simp_all add: git_ids_def)
  have content: "SmartQuery_InspectArtifact f v b = (None, b, v)" if "same_context a2 b" for v :: git_state and b
    using that assms(3) by (intro SmartQuery_other_content) (simp add: same_context_def ContentType_def)
  have "opinion_of (a_ResponseInspection a3) ID_smart_query \<noteq> Some Approved"
    using response_entry [OF assms(4) splits(1)] by (auto simp: SmartQueryInspector_def opinion_of_def content)
  moreover have "opinion_of (a_ResponseInspection a3) ID_gomod \<noteq> Some Approved"
    using response_entry [OF assms(4) splits(2)] gomod_not_pending [OF assms(1)] not_skipped_pending [of a2 ID_gomod] assms(2)
    by (auto simp: opinion_of_def)
  moreover have "opinion_of (a_ResponseInspection a3) ''default'' \<noteq> Some Approved"
    using response_entry [OF assms(4) splits(3)] Default_not_approved
    by (fastforce simp: DefaultInspector_def opinion_of_def skips_def Default_InspectArtifact_def split: if_splits)
  ultimately show ?thesis using assms(5) by auto
qed

section \<open>Properties\<close>


text \<open>A fetch of a rock, from the request of the client to the approval.\<close>

definition sample_git_url :: url where
  "sample_git_url = \<lparr>u_Scheme = ''https'', u_Host = ''g'', u_Path = ''/p/git-upload-pack'', u_RawQuery = []\<rparr>"

definition sample_git_env :: git_env where
  "sample_git_env = \<lparr>ge_Parse = \<lambda>_. Inr sample_git_url, ge_gzip = Inr, ge_Seek = \<lambda>_. None, ge_MkdirAll = \<lambda>_. None,
     ge_MkdirTemp = \<lambda>_ _. Inr ''/c/git-1'', ge_Stat = \<lambda>_. None, ge_init_db = \<lambda>_. None, ge_StdinPipe = \<lambda>_. None,
     ge_Start = \<lambda>_ _. None, ge_Write = \<lambda>_ _. None, ge_Close = \<lambda>_. None, ge_Wait = \<lambda>_ _. None, ge_checkout = \<lambda>_ _. None\<rparr>"

definition sample_craft_env :: craft_env where
  "sample_craft_env = \<lparr>ce_Parse = \<lambda>_. Inr sample_git_url,
     ce_Stat = \<lambda>p. if p = ''/c/git-1/rockcraft.yaml'' then None else Some (Errorf ''no such file''),
     ce_Open = \<lambda>_. Inr ''name: r'', ce_yaml = \<lambda>_. Inr \<lparr>cy_Name = ''r'', cy_Version = ''1'', cy_Summary = [], cy_License = [], cy_Base = []\<rparr>,
     ce_charm_yaml = \<lambda>_. Inr \<lparr>ch_Name = [], ch_Summary = []\<rparr>, ce_licensecheck = \<lambda>_. Inr []\<rparr>"

definition sample_crafts :: "Glob list" where
  "sample_crafts = [\<lparr>G = Some (\<lambda>s. strings_HasPrefix s ''https://g:443/p/'')\<rparr>]"

definition sample_fetch :: Artifact where
  "sample_fetch = NewArtifact\<lparr>
     a_CurrentDownload := zero_Download\<lparr>dl_URL := ''https://g/p/git-upload-pack'',
       dl_RequestHeader := [(''Content-Type'', [''application/x-git-upload-pack-request'']),
         (''Accept'', [''application/x-git-upload-pack-result'']), (''Git-Protocol'', [''version=2''])],
       dl_ContentType := ''application/x-git-upload-pack-result''\<rparr>,
     a_Request := Some \<lparr>req_Method = ''POST'', req_URL = sample_git_url, req_Header = [],
       req_Body = Some \<lparr>br_data = ''0011command=fetch000cdeepen 1000cwant abc0000'', br_err = None\<rparr>,
       req_ContentLength = 44, req_TransferEncoding = [], req_RemoteAddr = []\<rparr>\<rparr>"

definition sample_pack :: string where
  "sample_pack = ''000fshallow abc000cpackfile0009'' @ CHR 0x01 # ''PACK0000''"

definition fetch_requested :: Artifact where
  "fetch_requested = snd (RunRequestInspectors (git_registry sample_git_env sample_craft_env [] sample_crafts) sample_fetch)"

definition fetch_received :: Artifact where
  "fetch_received = fetch_requested\<lparr>a_MimeType := Some \<lparr>mime_String = ''application/octet-stream'', mime_Is = \<lambda>t. t = ''application/octet-stream''\<rparr>\<rparr>"

definition no_faults :: insp_env where
  "no_faults = \<lparr>env_open = Inr, env_detect = \<lambda>_. Inl (Errorf []), env_seek = \<lambda>_. None\<rparr>"

definition fetch_inspected :: "go_error option \<times> Artifact \<times> git_state" where
  "fetch_inspected = run_artifact no_faults (insmap (git_registry sample_git_env sample_craft_env [] sample_crafts)) False sample_pack git_ids
     new_git_state fetch_received"

lemma fetch_requested_ok: "fst (RunRequestInspectors (git_registry sample_git_env sample_craft_env [] sample_crafts) sample_fetch) = None"
  by code_simp

lemma fetch_inspected_ok: "fst fetch_inspected = None"
  by code_simp

lemma fetch_inspected_approved: "Artifact_Approved (fst (snd fetch_inspected))"
  by code_simp

lemma fetch_received_fresh: "a_ResponseInspection fetch_received = []" "ContentType fetch_received = ''application/x-git-upload-pack-result''"
  by code_simp+


text \<open>
  The configured git addresses do not restrict upload-pack: for any two configurations the inspector
  returns the same error and gives the same opinion on every request, with the same body, and only the
  annotated project may differ. The comment of \<^verbatim>\<open>InspectRequest\<close> requires the address to match.
\<close>

theorem upload_pack_ignores_configuration:
  "fst (UploadPack_InspectRequest env cfg a) = fst (UploadPack_InspectRequest env cfg' a) \<and>
   a_Request (snd (UploadPack_InspectRequest env cfg a)) = a_Request (snd (UploadPack_InspectRequest env cfg' a)) \<and>
   (\<forall>i. opinion_of (a_RequestInspection (snd (UploadPack_InspectRequest env cfg a))) i =
        opinion_of (a_RequestInspection (snd (UploadPack_InspectRequest env cfg' a))) i)"
proof -
  have same: "opinion_of (a_RequestInspection (inspectRequestCommand msgs ann b)) i = opinion_of (a_RequestInspection (inspectRequestCommand msgs ann' b)) i \<and>
      a_Request (inspectRequestCommand msgs ann b) = a_Request (inspectRequestCommand msgs ann' b)" for msgs ann ann' b i
    by (simp add: inspectRequestCommand_def Let_def opinion_of_def Inspection_Annotate_def annotate_request_def
        SetRequestPending_def SetRequestRejected_def addInspection_def)
  show ?thesis
  proof (cases "ge_Parse env (DownloadURL a)")
    case (Inr u)
    show ?thesis
    proof (cases "git_request_headers a \<and> getGitProtocol a = ''version=2''")
      case True
      with Inr same show ?thesis
        by (auto simp: UploadPack_InspectRequest_def UploadPack_handle_request_def Let_def split: option.splits prod.splits sum.splits)
    qed (auto simp: Inr UploadPack_InspectRequest_def UploadPack_handle_request_def Let_def)
  qed (simp add: UploadPack_InspectRequest_def UploadPack_handle_request_def)
qed

end
