(* ===== verification/Snap_Store.thy ===== *)
theory Snap_Store
  imports Snap_Assertion Pipeline
begin

text \<open>
  The requests of the snap store (\<^verbatim>\<open>inspectors/snap/urls.go\<close>) and the inspectors of its protocol:
  \<^verbatim>\<open>auth_nonce.go\<close>, \<^verbatim>\<open>auth_requestid.go\<close>, \<^verbatim>\<open>auth_sessions.go\<close>, \<^verbatim>\<open>snap_names.go\<close>, \<^verbatim>\<open>snap_sections.go\<close>, \<^verbatim>\<open>snap_info.go\<close> and
  \<^verbatim>\<open>snap_refresh.go\<close>.

  Arguments (\<^theory_text>\<open>store_env\<close>) stand for \<^verbatim>\<open>url.Parse\<close>, \<^verbatim>\<open>url.URL.String\<close> and the JSON decoder at the type of each
  document; the decoder of the nonces, the request identifiers, the sessions and the sections refuses
  unknown fields, and the one of sections and names gives \<^const>\<open>None\<close> for an absent list. Here and in \<^verbatim>\<open>Snap\<close>
  the records of decoded documents hold the fields that the code reads.
\<close>

section \<open>Addresses (urls.go)\<close>

text \<open>The dots of the host name are not escaped in the patterns: they stand for any character.\<close>

definition api_snapcraft_io :: "rx list" where
  "api_snapcraft_io = [lit ''https://api'', any_char, lit ''snapcraft'', any_char, lit ''io:443'']"

definition alnum_plus :: rx where
  "alnum_plus = rx_plus (Cls (\<lambda>c. is_upper c \<or> is_lower c \<or> is_digit c))"

definition reSnapPackage :: rx where
  "reSnapPackage = rx_seq (api_snapcraft_io @ [lit ''/api/v1/snaps/download/'', Grp alnum_plus, lit ''_'', Grp (rx_plus (Cls is_digit)), lit ''.snap''])"

definition reSnapPackageAlt :: rx where
  "reSnapPackageAlt = rx_seq [lit ''https://'', rx_plus (Cls (\<lambda>c. c \<noteq> CHR ''/'')), lit ''.snapcraftcontent.com:443/'',
     rx_plus (Cls (\<lambda>c. c \<noteq> CHR ''?'')), lit ''/'', Grp alnum_plus, lit ''_'', Grp (rx_plus (Cls is_digit)), lit ''.snap?'']"

definition reSnapInfo :: rx where
  "reSnapInfo = rx_seq (api_snapcraft_io @ [lit ''/v2/snaps/info/'', Grp (rx_plus (Cls (\<lambda>c. c \<noteq> CHR ''?'' \<and> c \<noteq> CHR ''/'')))])"

definition store_endpoint :: "string \<Rightarrow> rx" where
  "store_endpoint path = rx_seq (api_snapcraft_io @ [lit path])"

definition reSerialAssertion :: rx where
  "reSerialAssertion = rx_seq (api_snapcraft_io @ [lit ''/api/v1/snaps/auth/devices'', Alt (lit ''/'') Eps])"

definition reSnapNames :: rx where
  "reSnapNames = rx_seq (api_snapcraft_io @ [lit ''/api/v1/snaps/names'', Alt (Seq (lit ''?'') (Star any_char)) Eps])"

record store_env =
  se_Parse :: "string \<Rightarrow> url result"
  se_String :: "url \<Rightarrow> string"

definition newSnapPackageURLInfo :: "store_env \<Rightarrow> url \<Rightarrow> (string \<times> string) result" where
  "newSnapPackageURLInfo env u =
     (case FindStringSubmatch True reSnapPackage False (se_String env u) of
        [_, snapID, release] \<Rightarrow> Inr (snapID, release)
      | _ \<Rightarrow> (case FindStringSubmatch True reSnapPackageAlt False (se_String env u) of
                [_, snapID, release] \<Rightarrow> Inr (snapID, release)
              | _ \<Rightarrow> Inl (Errorf (u_Path u @ '': not a valid snap package URL''))))"

definition newSnapInfoURLInfo :: "store_env \<Rightarrow> url \<Rightarrow> string result" where
  "newSnapInfoURLInfo env u =
     (case FindStringSubmatch True reSnapInfo False (se_String env u) of [_, name] \<Rightarrow> Inr name
      | _ \<Rightarrow> Inl (Errorf (u_Path u @ '': not a valid snap info URL'')))"

text \<open>The other constructors only say whether the address matches; their error.\<close>

definition url_check :: "store_env \<Rightarrow> rx \<Rightarrow> bool \<Rightarrow> string \<Rightarrow> url \<Rightarrow> go_error option" where
  "url_check env re to_end what u =
     (if MatchString True re to_end (se_String env u) then None else Some (Errorf (u_Path u @ '': not a valid '' @ what @ '' URL'')))"

definition newSnapRefreshURLInfo :: "store_env \<Rightarrow> url \<Rightarrow> go_error option" where
  "newSnapRefreshURLInfo env u =
     (if MatchString True (store_endpoint ''/v2/snaps/refresh'') True (se_String env u) then None
      else Some (Errorf (se_String env u @ '': not a valid snap refresh URL'')))"

definition newSnapRevisionAssertionURLInfo :: "store_env \<Rightarrow> url \<Rightarrow> go_error option" where
  "newSnapRevisionAssertionURLInfo env = url_check env (store_endpoint ''/v2/assertions/snap-revision/'') False ''snap-revision assertion''"

definition newSnapDeclarationAssertionURLInfo :: "store_env \<Rightarrow> url \<Rightarrow> go_error option" where
  "newSnapDeclarationAssertionURLInfo env = url_check env (store_endpoint ''/v2/assertions/snap-declaration/'') False ''snap-declaration assertion''"

definition newAccountAssertionURLInfo :: "store_env \<Rightarrow> url \<Rightarrow> go_error option" where
  "newAccountAssertionURLInfo env = url_check env (store_endpoint ''/v2/assertions/account/'') False ''account assertion''"

definition newAccountKeyAssertionURLInfo :: "store_env \<Rightarrow> url \<Rightarrow> go_error option" where
  "newAccountKeyAssertionURLInfo env = url_check env (store_endpoint ''/v2/assertions/account-key/'') False ''account-key assertion''"

definition newSerialAssertionURLInfo :: "store_env \<Rightarrow> url \<Rightarrow> go_error option" where
  "newSerialAssertionURLInfo env = url_check env reSerialAssertion True ''serial assertion''"

definition newSnapSectionsURLInfo :: "store_env \<Rightarrow> url \<Rightarrow> go_error option" where
  "newSnapSectionsURLInfo env = url_check env (store_endpoint ''/api/v1/snaps/sections'') True ''snap sections''"

definition newSnapAuthSessionsURLInfo :: "store_env \<Rightarrow> url \<Rightarrow> go_error option" where
  "newSnapAuthSessionsURLInfo env = url_check env (store_endpoint ''/api/v1/snaps/auth/sessions'') True ''auth sessions''"

definition newSnapAuthNonceURLInfo :: "store_env \<Rightarrow> url \<Rightarrow> go_error option" where
  "newSnapAuthNonceURLInfo env = url_check env (store_endpoint ''/api/v1/snaps/auth/nonces'') True ''auth nonce''"

definition newSnapAuthRequestIDURLInfo :: "store_env \<Rightarrow> url \<Rightarrow> go_error option" where
  "newSnapAuthRequestIDURLInfo env = url_check env (store_endpoint ''/api/v1/snaps/auth/request-id'') True ''device authentication request-id''"

definition newSnapNamesURLInfo :: "store_env \<Rightarrow> url \<Rightarrow> go_error option" where
  "newSnapNamesURLInfo env = url_check env reSnapNames True ''snap names''"

section \<open>Simple documents\<close>

text \<open>
  The inspectors of nonces, request identifiers, sessions, sections and names have the same request
  handler: the address decides.
\<close>

definition store_url_error :: "go_error \<Rightarrow> go_error" where
  "store_url_error err = Errorf (''cannot parse URL: '' @ err_Error err)"

definition endpoint_request :: "store_env \<Rightarrow> (url \<Rightarrow> go_error option) \<Rightarrow> string \<Rightarrow> string \<Rightarrow> Artifact \<Rightarrow> go_error option \<times> Artifact" where
  "endpoint_request env check iid reason a =
     (case se_Parse env (DownloadURL a) of Inl err \<Rightarrow> (Some (store_url_error err), a)
      | Inr u \<Rightarrow> (case check u of Some _ \<Rightarrow> (None, a) | None \<Rightarrow> (None, SetRequestPending iid reason a)))"

text \<open>The guards of their response handlers.\<close>

definition endpoint_response :: "string \<Rightarrow> Artifact \<Rightarrow> bool" where
  "endpoint_response iid a \<longleftrightarrow> MimetypeIs a ''application/json'' \<and> InspectorRequestOpinionPending a iid"

text \<open>A field that must not be empty (\<^verbatim>\<open>nonce\<close>, \<^verbatim>\<open>request-id\<close>, \<^verbatim>\<open>macaroon\<close>).\<close>

definition field_response ::
  "(string \<Rightarrow> string result) \<Rightarrow> string \<Rightarrow> string \<Rightarrow> ArtifactMetadata \<Rightarrow> string \<Rightarrow> 'w \<Rightarrow> Artifact \<Rightarrow> go_error option \<times> Artifact \<times> 'w" where
  "field_response decode iid reason md f w a =
     (if \<not> endpoint_response iid a then (None, a, w)
      else (case decode f of Inl _ \<Rightarrow> (None, a, w)
        | Inr v \<Rightarrow> if v = [] then (None, a, w) else (None, SetResponseApproved iid reason md a, w)))"

definition SnapAuthNonceInspector :: "store_env \<Rightarrow> (string \<Rightarrow> string result) \<Rightarrow> 'w Inspector" where
  "SnapAuthNonceInspector env decode = \<lparr>ins_ID = ''snap.auth-nonce'',
     ins_InspectRequest = endpoint_request env (newSnapAuthNonceURLInfo env) ''snap.auth-nonce'' ''valid URL for snapd authentication nonce'',
     ins_InspectArtifact = field_response decode ''snap.auth-nonce'' ''valid format for snapd authentication nonce''
       (NoMetadata\<lparr>am_Type := ''application/x.canonical.snapd-auth-nonce'', am_Name := ''Authentication nonce'',
          am_Description := ''Snapd authentication nonce''\<rparr>)\<rparr>"

definition SnapAuthRequestIDInspector :: "store_env \<Rightarrow> (string \<Rightarrow> string result) \<Rightarrow> 'w Inspector" where
  "SnapAuthRequestIDInspector env decode = \<lparr>ins_ID = ''snap.auth-request-id'',
     ins_InspectRequest = endpoint_request env (newSnapAuthRequestIDURLInfo env) ''snap.auth-request-id''
       ''valid URL for snapd device authentication request ID'',
     ins_InspectArtifact = field_response decode ''snap.auth-request-id'' ''valid format for snapd device authentication request ID''
       (NoMetadata\<lparr>am_Type := ''application/x.canonical.snapd-auth-request-id'', am_Name := ''Device authentication request ID'',
          am_Description := ''Snapd device authentication request ID''\<rparr>)\<rparr>"

definition SnapAuthSessionsInspector :: "store_env \<Rightarrow> (string \<Rightarrow> string result) \<Rightarrow> 'w Inspector" where
  "SnapAuthSessionsInspector env decode = \<lparr>ins_ID = ''snap.auth-sessions'',
     ins_InspectRequest = endpoint_request env (newSnapAuthSessionsURLInfo env) ''snap.auth-sessions''
       ''valid URL for snapd session authentication'',
     ins_InspectArtifact = field_response decode ''snap.auth-sessions'' ''valid format for snapd session authentication''
       (NoMetadata\<lparr>am_Type := ''application/x.canonical.snapd-auth-sessions'', am_Name := ''Session authentication'',
          am_Description := ''Snapd session authentication''\<rparr>)\<rparr>"

text \<open>A list that must not be empty; \<^const>\<open>None\<close> is a nil slice.\<close>

definition list_response ::
  "(string \<Rightarrow> 'b list option result) \<Rightarrow> string \<Rightarrow> string \<Rightarrow> ArtifactMetadata \<Rightarrow> string \<Rightarrow> 'w \<Rightarrow> Artifact \<Rightarrow> go_error option \<times> Artifact \<times> 'w" where
  "list_response decode iid reason md f w a =
     (if \<not> endpoint_response iid a then (None, a, w)
      else (case decode f of Inl _ \<Rightarrow> (None, a, w)
        | Inr None \<Rightarrow> (None, a, w)
        | Inr (Some xs) \<Rightarrow>
          (let num = length xs in
           if num = 0 then (None, a, w)
           else (None, annotate_response iid [(''entries'', AnyInt (int num))] (SetResponseApproved iid reason md a), w))))"

definition SnapSectionsInspector :: "store_env \<Rightarrow> (string \<Rightarrow> string list option result) \<Rightarrow> 'w Inspector" where
  "SnapSectionsInspector env decode = \<lparr>ins_ID = ''snap.sections'',
     ins_InspectRequest = endpoint_request env (newSnapSectionsURLInfo env) ''snap.sections'' ''valid URL for Snap Store sections list'',
     ins_InspectArtifact = list_response decode ''snap.sections'' ''valid Snap Store sections list''
       (NoMetadata\<lparr>am_Type := ''application/x.canonical.snap-sections'', am_Name := ''Snap sections list'',
          am_Description := ''List of Snap Store sections''\<rparr>)\<rparr>"

record aliasInfo =
  al_Name :: string
  al_Target :: string

record packageInfo =
  pi_Aliases :: "aliasInfo list"
  pi_Apps :: "string list"
  pi_PackageName :: string
  pi_Summary :: string
  pi_Title :: string
  pi_Version :: string

definition SnapNamesInspector :: "store_env \<Rightarrow> (string \<Rightarrow> packageInfo list option result) \<Rightarrow> 'w Inspector" where
  "SnapNamesInspector env decode = \<lparr>ins_ID = ''snap.names'',
     ins_InspectRequest = endpoint_request env (newSnapNamesURLInfo env) ''snap.names'' ''valid URL for Snap package names list'',
     ins_InspectArtifact = list_response decode ''snap.names'' ''valid Snap package names list''
       (NoMetadata\<lparr>am_Type := ''application/x.canonical.snap-names'', am_Name := ''Snap names list'',
          am_Description := ''List of Snap package names''\<rparr>)\<rparr>"

end
