(* ===== verification/Snap.thy ===== *)
theory Snap
  imports Snap_Store
begin

text \<open>
  \<^verbatim>\<open>inspectors/snap\<close>, continued: the information and refresh endpoints (\<^verbatim>\<open>snap_info.go\<close>, \<^verbatim>\<open>snap_refresh.go\<close>), assertions
  (\<^verbatim>\<open>snap_assertion.go\<close>) and snap packages (\<^verbatim>\<open>snap.go\<close>).

  The state that the inspectors of assertions and snaps pass on is the cache of verified keys. A
  verification that does not return is \<^const>\<open>None\<close> in the handlers (\<^theory_text>\<open>Snap_handle_artifact\<close>,
  \<^theory_text>\<open>SnapAssertion_handle_artifact\<close>); as inspectors they yield \<^theory_text>\<open>never_returns\<close> for it, as for a panic.
\<close>

section \<open>Information (snap\_info.go)\<close>

record snapInfoBody =
  sb_ChannelMap :: "(string, any) gomap list"
  sb_Name :: string
  sb_SnapID :: string
  sb_Publisher :: "(string, string) gomap"

abbreviation ID_snap_info :: string where "ID_snap_info \<equiv> ''snap.info''"

definition SnapInfo_InspectRequest :: "store_env \<Rightarrow> Artifact \<Rightarrow> go_error option \<times> Artifact" where
  "SnapInfo_InspectRequest env a =
     (case se_Parse env (DownloadURL a) of Inl err \<Rightarrow> (Some (store_url_error err), a)
      | Inr u \<Rightarrow> (case newSnapInfoURLInfo env u of Inl _ \<Rightarrow> (None, a)
        | Inr name \<Rightarrow> (None, annotate_request ID_snap_info [(''name'', AnyString name)]
            (SetRequestPending ID_snap_info ''valid URL for snap info endpoint'' a))))"

text \<open>\<^verbatim>\<open>b.ChannelMap[0]["version"] != ""\<close> compares interface values: an absent version differs from the empty string.\<close>

definition has_version :: "(string, any) gomap \<Rightarrow> bool" where
  "has_version m \<longleftrightarrow> map_get m ''version'' \<noteq> Some (AnyString [])"

definition SnapInfo_InspectArtifact ::
  "(string \<Rightarrow> snapInfoBody result) \<Rightarrow> string \<Rightarrow> 'w \<Rightarrow> Artifact \<Rightarrow> go_error option \<times> Artifact \<times> 'w" where
  "SnapInfo_InspectArtifact decode f w a =
     (if \<not> MimetypeIs a ''application/json'' then (None, a, w)
      else (case decode f of Inl _ \<Rightarrow> (None, a, w)
        | Inr b \<Rightarrow>
          (if sb_ChannelMap b \<noteq> [] \<and> has_version (hd (sb_ChannelMap b)) \<and> sb_Name b \<noteq> [] \<and> sb_SnapID b \<noteq> [] then
             (None, annotate_response ID_snap_info
                [(''name'', AnyString (sb_Name b)), (''snap-id'', AnyString (sb_SnapID b)),
                 (''publisher'', AnyString (case map_get (sb_Publisher b) ''display-name'' of None \<Rightarrow> [] | Some v \<Rightarrow> v))]
                (SetResponseApproved ID_snap_info ''valid snap API info endpoint response''
                   (NoMetadata\<lparr>am_Type := ''application/x.canonical.snap-info'', am_Name := ''Store protocol response'',
                      am_Description := ''Snap store response for info request''\<rparr>) a), w)
           else (None, a, w))))"

definition SnapInfoInspector :: "store_env \<Rightarrow> (string \<Rightarrow> snapInfoBody result) \<Rightarrow> 'w Inspector" where
  "SnapInfoInspector env decode = \<lparr>ins_ID = ID_snap_info, ins_InspectRequest = SnapInfo_InspectRequest env,
     ins_InspectArtifact = SnapInfo_InspectArtifact decode\<rparr>"

section \<open>Refreshes (snap\_refresh.go)\<close>

record snapRefreshAction =
  ra_Action :: string
  ra_Channel :: string
  ra_InstanceKey :: string
  ra_Name :: string
  ra_SnapID :: string

record snapRefreshItem =
  ri_EffectiveChannel :: string
  ri_InstanceKey :: string
  ri_Name :: string
  ri_ReleasedAt :: string
  ri_Result :: string
  ri_Architectures :: "string list"
  ri_Version :: string
  ri_Revision :: int
  ri_SnapID :: string

abbreviation ID_snap_refresh :: string where "ID_snap_refresh \<equiv> ''snap.refresh''"

text \<open>A value of the Go type \<^verbatim>\<open>[]snapRefreshAction\<close> in an annotation, and the type assertion that reads it.\<close>

definition action_any :: "snapRefreshAction \<Rightarrow> any" where
  "action_any x = AnyMap [(''action'', AnyString (ra_Action x)), (''channel'', AnyString (ra_Channel x)),
     (''instance-key'', AnyString (ra_InstanceKey x)), (''name'', AnyString (ra_Name x)), (''snap-id'', AnyString (ra_SnapID x))]"

definition str_field :: "(string \<times> any) list \<Rightarrow> string \<Rightarrow> string option" where
  "str_field m k = (case map_get m k of Some (AnyString v) \<Rightarrow> Some v | _ \<Rightarrow> None)"

fun any_action :: "any \<Rightarrow> snapRefreshAction option" where
  "any_action (AnyMap m) =
     (if map fst m = [''action'', ''channel'', ''instance-key'', ''name'', ''snap-id''] then
        do { a \<leftarrow> str_field m ''action''; c \<leftarrow> str_field m ''channel''; i \<leftarrow> str_field m ''instance-key'';
             n \<leftarrow> str_field m ''name''; s \<leftarrow> str_field m ''snap-id'';
             Some \<lparr>ra_Action = a, ra_Channel = c, ra_InstanceKey = i, ra_Name = n, ra_SnapID = s\<rparr> }
      else None)"
| "any_action _ = None"

fun any_actions :: "any \<Rightarrow> snapRefreshAction list option" where
  "any_actions (AnyList xs) = those (map any_action xs)"
| "any_actions _ = None"

text \<open>
  \<^verbatim>\<open>getSnapRefreshActions\<close>: what was read of the body is put back, and becomes its length, even when reading
  it failed.
\<close>

definition getSnapRefreshActions ::
  "(string \<Rightarrow> snapRefreshAction list result) \<Rightarrow> Artifact \<Rightarrow> snapRefreshAction list \<times> Artifact" where
  "getSnapRefreshActions decode a =
     (case a_Request a of None \<Rightarrow> ([], a)
      | Some req \<Rightarrow>
        (case req_Body req of None \<Rightarrow> ([], a)
         | Some rd \<Rightarrow>
           (let body = br_data rd;
                req1 = req\<lparr>req_Body := Some \<lparr>br_data = body, br_err = None\<rparr>\<rparr>;
                req2 = (if 0 \<le> req_ContentLength req then req1\<lparr>req_ContentLength := int (length body)\<rparr> else req1);
                a' = a\<lparr>a_Request := Some req2\<rparr> in
            if br_err rd \<noteq> None then ([], a')
            else (case decode body of Inl _ \<Rightarrow> ([], a') | Inr actions \<Rightarrow> (actions, a')))))"

definition SnapRefresh_InspectRequest ::
  "store_env \<Rightarrow> (string \<Rightarrow> snapRefreshAction list result) \<Rightarrow> Artifact \<Rightarrow> go_error option \<times> Artifact" where
  "SnapRefresh_InspectRequest env decode a =
     (case se_Parse env (DownloadURL a) of Inl err \<Rightarrow> (Some (store_url_error err), a)
      | Inr u \<Rightarrow> (case newSnapRefreshURLInfo env u of Some _ \<Rightarrow> (None, a)
        | None \<Rightarrow>
          (case getSnapRefreshActions decode a of (actions, a1) \<Rightarrow>
             (let a2 = SetRequestPending ID_snap_refresh ''valid URL for snap refresh endpoint'' a1 in
              (None, if actions \<noteq> []
                 then annotate_request ID_snap_refresh [(''refresh-actions'', AnyList (map action_any actions))] a2
                 else a2)))))"

fun actions_by_key :: "(string, snapRefreshAction) gomap \<Rightarrow> snapRefreshAction list \<Rightarrow> (string, snapRefreshAction) gomap" where
  "actions_by_key m [] = m"
| "actions_by_key m (x # xs) =
     (if ra_InstanceKey x = [] then actions_by_key m xs else actions_by_key (map_set (ra_InstanceKey x) x m) xs)"

definition snapRefreshActionsByInstanceKey :: "snapRefreshAction list \<Rightarrow> (string, snapRefreshAction) gomap" where
  "snapRefreshActionsByInstanceKey actions = actions_by_key [] actions"

text \<open>The checks of one result against the actions of the request: the reason to reject, or the tracked channel.\<close>

definition check_result :: "(string, snapRefreshAction) gomap \<Rightarrow> snapRefreshItem \<Rightarrow> string + string" where
  "check_result actions result =
     (if actions = [] then Inr []
      else (case map_get actions (ri_InstanceKey result) of
          None \<Rightarrow>
            (if ri_Result result \<noteq> ''download''
             then Inl (''unexpected instance-key '' @ quoted (ri_InstanceKey result) @ '' for '' @ ri_Result result @ '' result'')
             else Inr [])
        | Some action \<Rightarrow>
            (if ra_Action action = ''refresh'' \<and> ri_Result result \<noteq> ''refresh''
             then Inl (''unexpected '' @ ri_Result result @ '' result for refresh action '' @ quoted (ri_InstanceKey result))
             else if ra_Action action \<noteq> [] \<and> ra_Action action \<noteq> ''refresh'' \<and> ri_Result result = ''refresh''
             then Inl (''unexpected refresh result for '' @ ra_Action action @ '' action '' @ quoted (ri_InstanceKey result))
             else if ra_SnapID action \<noteq> [] \<and> ri_SnapID result \<noteq> [] \<and> ra_SnapID action \<noteq> ri_SnapID result
             then Inl (''refresh result snap-id does not match request action with instance-key '' @ quoted (ri_InstanceKey result))
             else Inr (ra_Channel action))))"

definition result_note :: "string \<Rightarrow> snapRefreshItem \<Rightarrow> any" where
  "result_note trackingChannel r = AnyMap
     [(''tracking-channel'', AnyString trackingChannel), (''effective-channel'', AnyString (ri_EffectiveChannel r)),
      (''release-timestamp'', AnyString (ri_ReleasedAt r)), (''result'', AnyString (ri_Result r)), (''snap-name'', AnyString (ri_Name r)),
      (''snap-id'', AnyString (ri_SnapID r)), (''snap-revision'', AnyInt (ri_Revision r)), (''snap-version'', AnyString (ri_Version r)),
      (''architectures'', AnyStrings (ri_Architectures r))]"

fun check_results :: "(string, snapRefreshAction) gomap \<Rightarrow> any list \<Rightarrow> snapRefreshItem list \<Rightarrow> string + any list" where
  "check_results actions acc [] = Inr acc"
| "check_results actions acc (r # rs) =
     (case check_result actions r of Inl reason \<Rightarrow> Inl reason
      | Inr channel \<Rightarrow> check_results actions (acc @ [result_note channel r]) rs)"

definition refresh_md :: "snapRefreshItem list \<Rightarrow> ArtifactMetadata" where
  "refresh_md results =
     (let md = NoMetadata\<lparr>am_Type := ''application/x.canonical.snap-refresh'', am_Name := ''Store protocol response'',
                 am_Description := ''Snap store response for refresh request''\<rparr> in
      case results of
        [r] \<Rightarrow> md\<lparr>am_ContentID := ri_EffectiveChannel r @ '':'' @ fmt_int (ri_Revision r)\<rparr>
      | _ \<Rightarrow> md)"

definition requested_actions :: "Artifact \<Rightarrow> snapRefreshAction list" where
  "requested_actions a =
     (case RequestAnnotation a ID_snap_refresh ''refresh-actions'' of
        (v, True) \<Rightarrow> (case any_actions v of Some val \<Rightarrow> val | None \<Rightarrow> [])
      | _ \<Rightarrow> [])"

definition SnapRefresh_InspectArtifact ::
  "(string \<Rightarrow> snapRefreshItem list result) \<Rightarrow> string \<Rightarrow> 'w \<Rightarrow> Artifact \<Rightarrow> go_error option \<times> Artifact \<times> 'w" where
  "SnapRefresh_InspectArtifact decode f w a =
     (if \<not> MimetypeIs a ''application/json'' then (None, a, w)
      else (case decode f of Inl _ \<Rightarrow> (None, a, w)
        | Inr [] \<Rightarrow> (None, a, w)
        | Inr (r0 # rs) \<Rightarrow>
          (if ri_EffectiveChannel r0 \<noteq> [] \<and> ri_Name r0 \<noteq> [] \<and> ri_SnapID r0 \<noteq> [] then
             (let md = refresh_md (r0 # rs) in
              case check_results (snapRefreshActionsByInstanceKey (requested_actions a)) [] (r0 # rs) of
                Inl reason \<Rightarrow> (None, SetResponseRejected ID_snap_refresh reason md a, w)
              | Inr refreshResults \<Rightarrow>
                  (None, annotate_response ID_snap_refresh [(''refresh-results'', AnyList refreshResults)]
                     (SetResponseApproved ID_snap_refresh ''valid snap API refresh endpoint response'' md a), w))
           else (None, a, w))))"

definition SnapRefreshInspector ::
  "store_env \<Rightarrow> (string \<Rightarrow> snapRefreshAction list result) \<Rightarrow> (string \<Rightarrow> snapRefreshItem list result) \<Rightarrow> 'w Inspector" where
  "SnapRefreshInspector env dreq dresp = \<lparr>ins_ID = ID_snap_refresh, ins_InspectRequest = SnapRefresh_InspectRequest env dreq,
     ins_InspectArtifact = SnapRefresh_InspectArtifact dresp\<rparr>"

section \<open>Assertions (snap\_assertion.go)\<close>

text \<open>The detector looks at the first 128 bytes; the library hands over at least that many or less when the file is short.\<close>

definition AssertionDetector :: "string \<Rightarrow> bool" where
  "AssertionDetector raw =
     (if length raw < 128 then False
      else (let lines = strings_Split (take 128 raw) CHR 0x0A in
        if length lines < 3 then False
        else strings_HasPrefix (hd lines) ''type:'' \<and> list_ex (\<lambda>l. strings_HasPrefix l ''authority-id:'') lines))"

abbreviation ID_snap_assertion :: string where "ID_snap_assertion \<equiv> ''snap.assertion''"

definition never_returns :: go_error where
  "never_returns = ErrVar ''runtime.stack'' ''stack overflow''"

definition assertion_reason :: "store_env \<Rightarrow> url \<Rightarrow> string option" where
  "assertion_reason env u =
     (if newSnapRevisionAssertionURLInfo env u = None then Some ''valid URL for snap-revision assertion download''
      else if newSnapDeclarationAssertionURLInfo env u = None then Some ''valid URL for snap-declaration assertion download''
      else if newAccountAssertionURLInfo env u = None then Some ''valid URL for account-key assertion download''
      else if newAccountKeyAssertionURLInfo env u = None then Some ''valid URL for account-key assertion download''
      else if newSerialAssertionURLInfo env u = None then Some ''valid URL for serial assertion download''
      else None)"

definition SnapAssertion_InspectRequest :: "store_env \<Rightarrow> Artifact \<Rightarrow> go_error option \<times> Artifact" where
  "SnapAssertion_InspectRequest env a =
     (case se_Parse env (DownloadURL a) of Inl err \<Rightarrow> (Some (store_url_error err), a)
      | Inr u \<Rightarrow> (case assertion_reason env u of None \<Rightarrow> (None, a)
        | Some reason \<Rightarrow> (None, SetRequestPending ID_snap_assertion reason a)))"

definition assertion_type :: "string \<Rightarrow> string" where
  "assertion_type t =
     (if t \<in> {''snap-revision'', ''snap-declaration'', ''account'', ''account-key'', ''serial''}
      then ''application/x.ubuntu.assertion.'' @ t else ''application/x.ubuntu.assertion'')"

definition assertion_md :: "assertion \<Rightarrow> ArtifactMetadata" where
  "assertion_md as = NoMetadata\<lparr>am_Type := assertion_type (as_Type as), am_Name := ''assertion'',
     am_Description := as_field as ''type'' @ '' assertion file'', am_Version := as_field as ''revision'',
     am_Vendor := as_field as ''authority-id'', am_Author := as_field as ''authority-id''\<rparr>"

definition header_notes :: "(string, string) gomap \<Rightarrow> Annotation" where
  "header_notes h = fold (\<lambda>(k, v) notes. Annotation_Add notes k (AnyString v)) h []"

definition SnapAssertion_handle_artifact ::
  "('k, 's) assert_env \<Rightarrow> string \<Rightarrow> 'k key_cache \<Rightarrow> Artifact \<Rightarrow> (go_error option \<times> Artifact \<times> 'k key_cache) option" where
  "SnapAssertion_handle_artifact env f cache a =
     (if ContentType a \<noteq> ''application/x.ubuntu.assertion'' then Some (None, a, cache)
      else if \<not> MimetypeIs a ''application/x.ubuntu.assertion'' then Some (None, a, cache)
      else (case newAssertion f of
          Inl err \<Rightarrow> Some (None, annotate_response ID_snap_assertion [(''error-msg'', AnyString (err_Error err))]
            (SetResponseRejected ID_snap_assertion ''error parsing assertion'' (NoMetadata\<lparr>am_Type := ''application/x.ubuntu.assertion''\<rparr>) a), cache)
        | Inr as \<Rightarrow>
          (case assertion_VerifySignature env cache as of None \<Rightarrow> None
           | Some (Some err, cache') \<Rightarrow>
               Some (None, annotate_response ID_snap_assertion
                 [(''assertion-type'', AnyString (as_Type as)), (''error-msg'', AnyString (err_Error err))]
                 (SetResponseRejected ID_snap_assertion ''assertion signature verification failed'' (assertion_md as) a), cache')
           | Some (None, cache') \<Rightarrow>
               Some (None, annotate_response ID_snap_assertion (header_notes (as_Header as))
                 (SetResponseApproved ID_snap_assertion ''valid snap assertion'' (assertion_md as) a), cache'))))"

text \<open>As an inspector.\<close>

definition or_never_returns ::
  "Artifact \<Rightarrow> 'w \<Rightarrow> (go_error option \<times> Artifact \<times> 'w) option \<Rightarrow> go_error option \<times> Artifact \<times> 'w" where
  "or_never_returns a w r = (case r of None \<Rightarrow> (Some never_returns, a, w) | Some x \<Rightarrow> x)"

definition SnapAssertionInspector :: "store_env \<Rightarrow> ('k, 's) assert_env \<Rightarrow> 'k key_cache Inspector" where
  "SnapAssertionInspector env av = \<lparr>ins_ID = ID_snap_assertion, ins_InspectRequest = SnapAssertion_InspectRequest env,
     ins_InspectArtifact = (\<lambda>f w a. or_never_returns a w (SnapAssertion_handle_artifact av f w a))\<rparr>"

section \<open>Snaps (snap.go)\<close>

text \<open>The buffer the detector is given holds at least as many bytes as its limit.\<close>

definition SquashFsDetector :: "string \<Rightarrow> nat \<Rightarrow> bool" where
  "SquashFsDetector raw limit = (if limit < 4 then False else take 4 raw = ''hsqs'')"

abbreviation ID_snap :: string where "ID_snap \<equiv> ''snap''"

definition Snap_InspectRequest :: "store_env \<Rightarrow> Artifact \<Rightarrow> go_error option \<times> Artifact" where
  "Snap_InspectRequest env a =
     (case se_Parse env (DownloadURL a) of Inl err \<Rightarrow> (Some (store_url_error err), a)
      | Inr u \<Rightarrow> (case newSnapPackageURLInfo env u of Inl _ \<Rightarrow> (None, a)
        | Inr (snapID, release) \<Rightarrow>
            (None, annotate_request ID_snap [(''snap-id'', AnyString snapID), (''release'', AnyString release)]
               (SetRequestPending ID_snap ''valid URL for snap package'' a))))"

record snapYaml =
  sy_Name :: string
  sy_Version :: string
  sy_Summary :: string
  sy_License :: string
  sy_Architectures :: "string list"
  sy_Grade :: string
  sy_Base :: string

text \<open>
  The file of the snap as the code reads it: its SHA3-384 digest, rewinding it, and the squashfs image
  in it, which opens files by their path; the YAML decoder reads \<^verbatim>\<open>meta/snap.yaml\<close>.
\<close>

record snap_env =
  sn_digest :: "string \<Rightarrow> string result"
  sn_Seek :: "string \<Rightarrow> go_error option"
  sn_squashfs :: "string \<Rightarrow> (string \<Rightarrow> string result) result"
  sn_yaml :: "string \<Rightarrow> snapYaml result"

definition header_any :: "assertion \<Rightarrow> any" where
  "header_any as = AnyMap (map (\<lambda>(k, v). (k, AnyString v)) (as_Header as))"

definition single_quoted :: "string \<Rightarrow> string" where
  "single_quoted s = [CHR 0x27] @ s @ [CHR 0x27]"

fun checkSnapDeclarationFilter :: "AssertionFilter list \<Rightarrow> assertion \<Rightarrow> go_error option" where
  "checkSnapDeclarationFilter [] as = None"
| "checkSnapDeclarationFilter (v # cfg) as =
     (case map_get (as_Header as) (af_Name v) of
        None \<Rightarrow> Some (Errorf (''attribute '' @ single_quoted (af_Name v) @ '' not found in the snap-declaration assertion''))
      | Some declared \<Rightarrow>
        (if declared \<in> set (af_Value v) then checkSnapDeclarationFilter cfg as
         else Some (Errorf (''attribute '' @ single_quoted (af_Name v) @ '' value '' @ single_quoted declared @ '' is not allowed''))))"

text \<open>\<^verbatim>\<open>checkSnapRevisionAssertion\<close>: the snap identifier, or the reason to reject with its annotation, and the keys.\<close>

definition checkSnapRevisionAssertion ::
  "('k, 's) assert_env \<Rightarrow> 'k key_cache \<Rightarrow> assertion \<Rightarrow> string \<Rightarrow> Artifact \<Rightarrow> ((go_error \<times> Annotation) + string) option \<times> 'k key_cache" where
  "checkSnapRevisionAssertion env cache as digest a =
     (let header = [(''snap-revision-assertion-header'', header_any as)] in
      if SnapSize as \<noteq> fmt_int (Artifact_Size a) then (Some (Inl (Errorf ''snap size mismatch in snap-revision assertion'', header)), cache)
      else if SnapSha384 as \<noteq> digest then (Some (Inl (Errorf ''snap-revision assertion digest mismatch'', header)), cache)
      else if SnapID as = [] then (Some (Inl (Errorf ''cannot find snap ID in snap-revision assertion'', header)), cache)
      else (case assertion_VerifySignature env cache as of
          None \<Rightarrow> (None, cache)
        | Some (Some err, cache') \<Rightarrow>
            (Some (Inl (Errorf ''snap-revision assertion has invalid signature'', (''error-msg'', AnyString (err_Error err)) # header)), cache')
        | Some (None, cache') \<Rightarrow> (Some (Inr (SnapID as)), cache')))"

text \<open>What follows the verified declaration: the account, the contents of the snap, the filter.\<close>

definition inspect_contents ::
  "snap_env \<Rightarrow> AssertionFilter list \<Rightarrow> string \<Rightarrow> assertion \<Rightarrow> assertion \<Rightarrow> assertion \<Rightarrow> ArtifactMetadata \<Rightarrow> Artifact \<Rightarrow> go_error option \<times> Artifact" where
  "inspect_contents env cfg f revision decl account md a =
     (case sn_squashfs env f of Inl err \<Rightarrow> (Some err, a)
      | Inr sqsh \<Rightarrow>
        (case sqsh ''meta/snap.yaml'' of
           Inl _ \<Rightarrow> (None, SetResponseRejected ID_snap ''image has no meta/snap.yaml file'' md a)
         | Inr sf \<Rightarrow>
           (case sn_yaml env sf of
              Inl _ \<Rightarrow> (None, SetResponseRejected ID_snap ''cannot decode meta/snap.yaml'' md a)
            | Inr data \<Rightarrow>
              (let md' = md\<lparr>am_Version := sy_Version data, am_Description := sy_Summary data, am_License := sy_License data,
                          am_Architecture := strings_Join (sy_Architectures data) '',''\<rparr> in
               case checkSnapDeclarationFilter cfg decl of
                 Some err \<Rightarrow> (None, annotate_response ID_snap
                   [(''error-msg'', AnyString (err_Error err)), (''snap-declaration-assertion-header'', header_any decl)]
                   (SetResponseRejected ID_snap ''failure on snap-declaration assertion attribute check'' md' a))
               | None \<Rightarrow> (None, annotate_response ID_snap
                   [(''snap-revision-assertion-header'', header_any revision), (''snap-declaration-assertion-header'', header_any decl),
                    (''account-assertion-header'', header_any account)]
                   (SetResponseApproved ID_snap ''valid snap file found'' md' a))))))"

definition inspect_account ::
  "snap_env \<Rightarrow> ('k, 's) assert_env \<Rightarrow> AssertionFilter list \<Rightarrow> string \<Rightarrow> assertion \<Rightarrow> assertion \<Rightarrow> ArtifactMetadata \<Rightarrow>
     'k key_cache \<Rightarrow> Artifact \<Rightarrow> (go_error option \<times> Artifact \<times> 'k key_cache) option" where
  "inspect_account env av cfg f revision decl md cache a =
     (case downloadAccountAssertion av (PublisherID decl) of
        Inl err \<Rightarrow> Some (Some (ErrWrap ''cannot retrieve account assertion'' err), a, cache)
      | Inr account \<Rightarrow>
        (case assertion_VerifySignature av cache account of None \<Rightarrow> None
         | Some (Some err, cache') \<Rightarrow> Some (None, annotate_response ID_snap
             [(''error-msg'', AnyString (err_Error err)), (''account-assertion-header'', header_any account)]
             (SetResponseRejected ID_snap ''account assertion has invalid signature'' md a), cache')
         | Some (None, cache') \<Rightarrow>
             (case inspect_contents env cfg f revision decl account (md\<lparr>am_Vendor := DisplayName account\<rparr>) a of (err, a') \<Rightarrow> Some (err, a', cache'))))"

definition inspect_declaration ::
  "snap_env \<Rightarrow> ('k, 's) assert_env \<Rightarrow> AssertionFilter list \<Rightarrow> string \<Rightarrow> assertion \<Rightarrow> string \<Rightarrow>
     'k key_cache \<Rightarrow> Artifact \<Rightarrow> (go_error option \<times> Artifact \<times> 'k key_cache) option" where
  "inspect_declaration env av cfg f revision snapID cache a =
     (case downloadSnapDeclarationAssertion av snapID of
        Inl err \<Rightarrow> Some (Some (ErrWrap ''cannot retrieve snap-declaration assertion'' err), a, cache)
      | Inr decl \<Rightarrow>
        (let md = NoMetadata\<lparr>am_Type := ''application/x.canonical.snap-package'', am_StoreRevision := SnapRevision revision,
                    am_ContentID := snapID, am_Name := SnapName decl\<rparr> in
         if PublisherID decl = [] then Some (None, annotate_response ID_snap [(''snap-declaration-assertion-header'', header_any decl)]
              (SetResponseRejected ID_snap ''cannot find publisher ID in snap-declaration assertion'' md a), cache)
         else (case assertion_VerifySignature av cache decl of None \<Rightarrow> None
           | Some (Some err, cache') \<Rightarrow> Some (None, annotate_response ID_snap
               [(''error-msg'', AnyString (err_Error err)), (''snap-declaration-assertion-header'', header_any decl)]
               (SetResponseRejected ID_snap ''snap-declaration assertion has invalid signature'' md a), cache')
           | Some (None, cache') \<Rightarrow> inspect_account env av cfg f revision decl md cache' a)))"

definition Snap_handle_artifact ::
  "snap_env \<Rightarrow> ('k, 's) assert_env \<Rightarrow> AssertionFilter list \<Rightarrow> string \<Rightarrow> 'k key_cache \<Rightarrow> Artifact \<Rightarrow> (go_error option \<times> Artifact \<times> 'k key_cache) option" where
  "Snap_handle_artifact env av cfg f cache a =
     (if \<not> MimetypeIs a ''application/x.squashfs'' then Some (None, a, cache)
      else (case sn_digest env f of Inl err \<Rightarrow> Some (Some (ErrWrap ''cannot compute digest'' err), a, cache)
        | Inr digest \<Rightarrow>
          (case encodeDigest digest of Inl err \<Rightarrow> Some (Some (ErrWrap ''cannot encode digest'' err), a, cache)
           | Inr sha3 \<Rightarrow>
             (case sn_Seek env f of Some err \<Rightarrow> Some (Some err, a, cache)
              | None \<Rightarrow>
                (case downloadSnapRevisionAssertion av sha3 of Inl _ \<Rightarrow> Some (None, a, cache)
                 | Inr revision \<Rightarrow>
                   (case checkSnapRevisionAssertion av cache revision sha3 a of
                      (None, _) \<Rightarrow> None
                    | (Some (Inl (err, note)), cache') \<Rightarrow> Some (None, annotate_response ID_snap note
                        (SetResponseRejected ID_snap (err_Error err) (NoMetadata\<lparr>am_Type := ''application/x.canonical.snap-package''\<rparr>) a), cache')
                    | (Some (Inr snapID), cache') \<Rightarrow> inspect_declaration env av cfg f revision snapID cache' a))))))"

definition SnapInspector :: "store_env \<Rightarrow> snap_env \<Rightarrow> ('k, 's) assert_env \<Rightarrow> AssertionFilter list \<Rightarrow> 'k key_cache Inspector" where
  "SnapInspector env sn av cfg = \<lparr>ins_ID = ID_snap, ins_InspectRequest = Snap_InspectRequest env,
     ins_InspectArtifact = (\<lambda>f w a. or_never_returns a w (Snap_handle_artifact sn av cfg f w a))\<rparr>"

end
