(* ===== verification/Snap_Trust.thy ===== *)
theory Snap_Trust
  imports Snap_Assertion
begin

text \<open>
  Which keys and assertions the signatures of the snap store make trustworthy, and that
  \<^const>\<open>assertion_VerifySignature\<close> accepts no other, whatever the network answers. \<open>served\<close> says which assertions
  were ever downloaded for which key identifier: the cache outlives an inspection, and the answers change.
\<close>

inductive trusted_key :: "('k, 's) assert_env \<Rightarrow> (string \<Rightarrow> assertion \<Rightarrow> bool) \<Rightarrow> string \<Rightarrow> 'k \<Rightarrow> bool"
  for env served where
  root: "trusted_key env served rootSignKey (av_root env)"
| link: "served i as \<Longrightarrow> decodeSignature env (as_Signature as) = Inr sig \<Longrightarrow> SignKey as \<noteq> [] \<Longrightarrow> trusted_key env served (SignKey as) k
    \<Longrightarrow> VerifySignature (av_lib env) k sig (as_Content as) = None \<Longrightarrow> snap_decodePublicKey env (as_Body as) = Inr key
    \<Longrightarrow> trusted_key env served i key"

definition authentic :: "('k, 's) assert_env \<Rightarrow> (string \<Rightarrow> assertion \<Rightarrow> bool) \<Rightarrow> assertion \<Rightarrow> bool" where
  "authentic env served as \<longleftrightarrow> (\<exists>sig k. decodeSignature env (as_Signature as) = Inr sig \<and> SignKey as \<noteq> [] \<and>
     trusted_key env served (SignKey as) k \<and> VerifySignature (av_lib env) k sig (as_Content as) = None)"

lemma authentic_link:
  "served i as \<Longrightarrow> authentic env served as \<Longrightarrow> snap_decodePublicKey env (as_Body as) = Inr key \<Longrightarrow> trusted_key env served i key"
  unfolding authentic_def using trusted_key.link by fastforce

lemma authenticI:
  "decodeSignature env (as_Signature as) = Inr sig \<Longrightarrow> SignKey as \<noteq> [] \<Longrightarrow> trusted_key env served (SignKey as) k \<Longrightarrow>
     VerifySignature (av_lib env) k sig (as_Content as) = None \<Longrightarrow> authentic env served as"
  unfolding authentic_def by blast

definition cache_ok :: "('k, 's) assert_env \<Rightarrow> (string \<Rightarrow> assertion \<Rightarrow> bool) \<Rightarrow> 'k key_cache \<Rightarrow> bool" where
  "cache_ok env served cache \<longleftrightarrow> (\<forall>i k. map_get cache i = Some k \<longrightarrow> trusted_key env served i k)"

definition serves :: "('k, 's) assert_env \<Rightarrow> (string \<Rightarrow> assertion \<Rightarrow> bool) \<Rightarrow> bool" where
  "serves env served \<longleftrightarrow> (\<forall>i as. downloadAccountKeyAssertion env i = Inr as \<longrightarrow> served i as)"

lemma cache_ok_Nil [simp]: "cache_ok env served []"
  by (simp add: cache_ok_def)

lemma cache_ok_set: "cache_ok env served cache \<Longrightarrow> trusted_key env served i k \<Longrightarrow> cache_ok env served (map_set i k cache)"
  by (auto simp: cache_ok_def)

text \<open>The network has no part in what is trusted.\<close>

lemma env_network: "av_packet (env\<lparr>av_Do := net\<rparr>) = av_packet env" "av_rsa (env\<lparr>av_Do := net\<rparr>) = av_rsa env"
  by simp_all

lemma decodeV1_network: "decodeV1 (env\<lparr>av_Do := net\<rparr>) = decodeV1 env"
  unfolding fun_eq_iff decodeV1_def env_network by (rule allI refl)+

lemma decode_network [simp]:
  "decodeSignature (env\<lparr>av_Do := net\<rparr>) = decodeSignature env"
  "snap_decodePublicKey (env\<lparr>av_Do := net\<rparr>) = snap_decodePublicKey env"
  unfolding fun_eq_iff decodeSignature_def snap_decodePublicKey_def decodeV1_network env_network by (rule allI refl)+

lemma trusted_key_any_network:
  "trusted_key env served i k \<Longrightarrow> trusted_key (env\<lparr>av_Do := net\<rparr>) served i k"
proof (induction rule: trusted_key.induct)
  case root
  then show ?case using trusted_key.root [of "env\<lparr>av_Do := net\<rparr>"] by simp
next
  case (link i as sig k key)
  from link.hyps link.IH show ?case
    by (intro trusted_key.link [of served i as "env\<lparr>av_Do := net\<rparr>" sig k]) simp_all
qed

lemma trusted_key_network: "trusted_key (env\<lparr>av_Do := net\<rparr>) served i k \<longleftrightarrow> trusted_key env served i k"
  using trusted_key_any_network [of "env\<lparr>av_Do := net\<rparr>" served i k "av_Do env"] trusted_key_any_network [of env served i k net] by auto

section \<open>Soundness\<close>

text \<open>What the check makes of a call that returned, by the branch it took.\<close>

definition verified :: "('k, 's) assert_env \<Rightarrow> (string \<Rightarrow> assertion \<Rightarrow> bool) \<Rightarrow> assertion \<Rightarrow> go_error option \<times> 'k key_cache \<Rightarrow> bool" where
  "verified env served as r \<longleftrightarrow> cache_ok env served (snd r) \<and> (fst r = None \<longrightarrow> authentic env served as)"

lemma use_account_key_verified:
  assumes "verified env served accountKey r" and "served (SignKey as) accountKey"
    and "decodeSignature env (as_Signature as) = Inr sig" and "SignKey as \<noteq> []"
  shows "verified env served as (use_account_key env as sig accountKey r)"
proof (cases "fst r")
  case (Some err)
  with assms(1) show ?thesis by (cases r) (simp add: verified_def use_account_key_def)
next
  case None
  obtain cache where r: "r = (None, cache)" using None by (cases r) simp
  show ?thesis
  proof (cases "snap_decodePublicKey env (as_Body accountKey)")
    case (Inl err)
    with assms(1) r show ?thesis by (simp add: verified_def use_account_key_def)
  next
    case (Inr key)
    with assms(1,2) r have "trusted_key env served (SignKey as) key" by (auto simp: verified_def intro: authentic_link)
    with Inr assms(1,3,4) r show ?thesis
      by (auto simp: verified_def use_account_key_def intro: cache_ok_set authenticI)
  qed
qed

lemmas verify_signature_induct = assertion_VerifySignature.raw_induct [rotated 1, consumes 1, case_names call]

lemma verify_signature_sound:
  "assertion_VerifySignature env cache as = Some r \<Longrightarrow> serves env served \<longrightarrow> cache_ok env served cache \<longrightarrow> verified env served as r"
proof (induction rule: verify_signature_induct)
  case (call self env cache as r)
  show ?case
  proof (intro impI)
    assume net: "serves env served" and ok: "cache_ok env served cache"
    show "verified env served as r"
    proof (cases "\<exists>sig accountKey r'. decodeSignature env (as_Signature as) = Inr sig \<and> SignKey as \<noteq> [] \<and>
        downloadAccountKeyAssertion env (SignKey as) = Inr accountKey \<and> self env cache accountKey = Some r' \<and>
        r = use_account_key env as sig accountKey r'")
      case True
      then obtain sig accountKey r' where call: "decodeSignature env (as_Signature as) = Inr sig" "SignKey as \<noteq> []"
        "downloadAccountKeyAssertion env (SignKey as) = Inr accountKey" "self env cache accountKey = Some r'"
        "r = use_account_key env as sig accountKey r'" by blast
      then have "verified env served accountKey r'" using call.IH net ok by blast
      with call net show ?thesis using use_account_key_verified by (fastforce simp: serves_def)
    next
      case False
      with call.hyps ok show ?thesis
        by (auto simp: verified_def cache_ok_def authentic_def split: sum.splits if_splits option.splits bind_splits;
            use trusted_key.root in blast)
    qed
  qed
qed

section \<open>Termination\<close>

text \<open>The chain of keys is finite when each key is signed by one of a lower rank.\<close>

lemma verify_signature_returns:
  assumes "\<And>i as. i \<noteq> rootSignKey \<Longrightarrow> downloadAccountKeyAssertion env i = Inr as \<Longrightarrow> (rank (SignKey as) :: nat) < rank i"
  shows "\<exists>r. assertion_VerifySignature env cache as = Some r"
proof (induction "rank (SignKey as)" arbitrary: as rule: less_induct)
  case less
  have IH: "\<exists>r. assertion_VerifySignature env cache k = Some r"
    if "downloadAccountKeyAssertion env (SignKey as) = Inr k" "SignKey as \<noteq> rootSignKey" for k
    using less assms that by blast
  show ?case
    by (subst assertion_VerifySignature.simps) (auto dest: IH split: sum.split option.split)
qed

text \<open>A chain that comes back to itself has no end.\<close>

definition key_loop :: "('k, 's) assert_env \<Rightarrow> 'k key_cache \<Rightarrow> string set \<Rightarrow> bool" where
  "key_loop env cache ids \<longleftrightarrow> (\<forall>i \<in> ids. i \<noteq> [] \<and> i \<noteq> rootSignKey \<and> map_get cache i = None \<and>
     (\<exists>as sig. downloadAccountKeyAssertion env i = Inr as \<and> decodeSignature env (as_Signature as) = Inr sig \<and> SignKey as \<in> ids))"

lemma verify_signature_loops_aux:
  "assertion_VerifySignature env cache as = Some r \<Longrightarrow>
     key_loop env cache ids \<longrightarrow> decodeSignature env (as_Signature as) = Inr sig \<longrightarrow> SignKey as \<notin> ids"
proof (induction arbitrary: sig rule: verify_signature_induct)
  case (call self env cache as r)
  show ?case
  proof (intro impI notI)
    assume loop: "key_loop env cache ids" and "decodeSignature env (as_Signature as) = Inr sig" and "SignKey as \<in> ids"
    moreover from this obtain k sig' where k: "downloadAccountKeyAssertion env (SignKey as) = Inr k"
      "decodeSignature env (as_Signature k) = Inr sig'" "SignKey k \<in> ids"
      and i: "SignKey as \<noteq> []" "SignKey as \<noteq> rootSignKey" "map_get cache (SignKey as) = None"
      unfolding key_loop_def by metis
    ultimately obtain r' where "self env cache k = Some r'"
      using call.hyps by (simp split: bind_splits)
    with call.IH loop k show False by blast
  qed
qed

lemma verify_signature_loops:
  "key_loop env cache ids \<Longrightarrow> decodeSignature env (as_Signature as) = Inr sig \<Longrightarrow> SignKey as \<in> ids \<Longrightarrow>
     assertion_VerifySignature env cache as = None"
  using verify_signature_loops_aux [of env cache as _ ids sig] by (cases "assertion_VerifySignature env cache as") simp_all

end
