(* ===== verification/Snap_Contract.thy ===== *)
theory Snap_Contract
  imports Snap Snap_Trust
begin

text \<open>
  The inspectors of the snap store keep the contract of inspectors and write only their own entries; those
  that verify signatures leave a cache of trusted keys.
\<close>

section \<open>Own entries\<close>

lemma endpoint_request_writes [writes]: "req_result iid a (endpoint_request env check iid reason a)"
  unfolding endpoint_request_def by (intro writes)

lemma field_response_writes [writes]: "resp_result iid a (field_response decode iid reason md f w a)"
  unfolding field_response_def by (intro writes)

lemma list_response_writes [writes]: "resp_result iid a (list_response decode iid reason md f w a)"
  unfolding list_response_def by (intro writes)

interpretation snap_auth_nonce: local_inspector "SnapAuthNonceInspector env decode"
  by (rule local_inspectorI) (simp_all add: SnapAuthNonceInspector_def endpoint_request_writes field_response_writes)

interpretation snap_auth_request_id: local_inspector "SnapAuthRequestIDInspector env decode"
  by (rule local_inspectorI) (simp_all add: SnapAuthRequestIDInspector_def endpoint_request_writes field_response_writes)

interpretation snap_auth_sessions: local_inspector "SnapAuthSessionsInspector env decode"
  by (rule local_inspectorI) (simp_all add: SnapAuthSessionsInspector_def endpoint_request_writes field_response_writes)

interpretation snap_sections: local_inspector "SnapSectionsInspector env decode"
  by (rule local_inspectorI) (simp_all add: SnapSectionsInspector_def endpoint_request_writes list_response_writes)

interpretation snap_names: local_inspector "SnapNamesInspector env decode"
  by (rule local_inspectorI) (simp_all add: SnapNamesInspector_def endpoint_request_writes list_response_writes)

interpretation snap_info: local_inspector "SnapInfoInspector env decode"
proof (rule local_inspectorI)
  show "req_result (ins_ID (SnapInfoInspector env decode)) a (ins_InspectRequest (SnapInfoInspector env decode) a)" for a
    unfolding SnapInfoInspector_def Inspector.simps SnapInfo_InspectRequest_def by (intro writes)
  show "resp_result (ins_ID (SnapInfoInspector env decode)) a (ins_InspectArtifact (SnapInfoInspector env decode) f w a)" for f w a
    unfolding SnapInfoInspector_def Inspector.simps SnapInfo_InspectArtifact_def by (intro writes)
qed

lemma getSnapRefreshActions_writes: "getSnapRefreshActions decode a = (actions, b) \<Longrightarrow> writes_request i a b"
  by (auto simp: getSnapRefreshActions_def Let_def split: option.splits sum.splits if_splits intro!: writes)

lemma SnapRefresh_request_writes: "req_result ID_snap_refresh a (SnapRefresh_InspectRequest env decode a)"
  unfolding SnapRefresh_InspectRequest_def by (intro writes getSnapRefreshActions_writes)

interpretation snap_refresh: local_inspector "SnapRefreshInspector env dreq dresp"
proof (rule local_inspectorI)
  show "req_result (ins_ID (SnapRefreshInspector env dreq dresp)) a (ins_InspectRequest (SnapRefreshInspector env dreq dresp) a)" for a
    by (simp add: SnapRefreshInspector_def SnapRefresh_request_writes)
  show "resp_result (ins_ID (SnapRefreshInspector env dreq dresp)) a (ins_InspectArtifact (SnapRefreshInspector env dreq dresp) f w a)" for f w a
    unfolding SnapRefreshInspector_def Inspector.simps SnapRefresh_InspectArtifact_def by (intro writes)
qed

text \<open>The handlers that verify signatures return an option: their branches are those of \<^const>\<open>or_never_returns\<close>.\<close>

definition option_ends :: "('r \<Rightarrow> bool) \<Rightarrow> 'r option \<Rightarrow> bool" where
  "option_ends P r \<longleftrightarrow> (case r of None \<Rightarrow> True | Some x \<Rightarrow> P x)"

lemma option_ends_base [branches]: "P t \<Longrightarrow> option_ends P (Some t)" "option_ends P None"
  by (simp_all add: option_ends_def)

lemma option_ends_branches [branches]:
  "(c \<Longrightarrow> option_ends P x) \<Longrightarrow> (\<not> c \<Longrightarrow> option_ends P y) \<Longrightarrow> option_ends P (if c then x else y)"
  "(ov = None \<Longrightarrow> option_ends P y) \<Longrightarrow> (\<And>v. ov = Some v \<Longrightarrow> option_ends P (z v)) \<Longrightarrow> option_ends P (case_option y z ov)"
  "(\<And>v. sv = Inl v \<Longrightarrow> option_ends P (zl v)) \<Longrightarrow> (\<And>v. sv = Inr v \<Longrightarrow> option_ends P (zr v)) \<Longrightarrow> option_ends P (case_sum zl zr sv)"
  "(\<And>u v. pv = (u, v) \<Longrightarrow> option_ends P (zp u v)) \<Longrightarrow> option_ends P (case_prod zp pv)"
  "option_ends P (g v) \<Longrightarrow> option_ends P (Let v g)"
  by (simp_all split: option.split sum.split prod.split)

lemmas [writes] = option_ends_base option_ends_branches

abbreviation resp_option :: "string \<Rightarrow> Artifact \<Rightarrow> (go_error option \<times> Artifact \<times> 'w) option \<Rightarrow> bool" where
  "resp_option i a \<equiv> option_ends (resp_result i a)"

lemma resp_option_result: "resp_option i a r \<Longrightarrow> resp_result i a (or_never_returns a w r)"
  by (auto simp: option_ends_def or_never_returns_def ends3_def writes_refl split: option.splits)

lemma SnapAssertion_writes: "resp_option ID_snap_assertion a (SnapAssertion_handle_artifact env f w a)"
  unfolding SnapAssertion_handle_artifact_def by (intro writes)

lemma inspect_contents_writes: "resp_pair ID_snap a (inspect_contents env cfg f revision decl account md a)"
  unfolding inspect_contents_def by (intro writes)

lemma inspect_contents_pair: "inspect_contents env cfg f revision decl account md a = (e, b) \<Longrightarrow> writes_response ID_snap a b"
  using inspect_contents_writes [of a env cfg f revision decl account md] by (simp add: ends2_def)

lemma inspect_account_writes [writes]: "resp_option ID_snap a (inspect_account env av cfg f revision decl md w a)"
  unfolding inspect_account_def by (intro writes inspect_contents_pair)

lemma inspect_declaration_writes [writes]: "resp_option ID_snap a (inspect_declaration env av cfg f revision snapID w a)"
  unfolding inspect_declaration_def by (intro writes)

lemma Snap_writes: "resp_option ID_snap a (Snap_handle_artifact sn av cfg f w a)"
  unfolding Snap_handle_artifact_def by (intro writes)

interpretation snap_assertion: local_inspector "SnapAssertionInspector env av"
proof (rule local_inspectorI)
  show "req_result (ins_ID (SnapAssertionInspector env av)) a (ins_InspectRequest (SnapAssertionInspector env av) a)" for a
    unfolding SnapAssertionInspector_def Inspector.simps SnapAssertion_InspectRequest_def by (intro writes)
  show "resp_result (ins_ID (SnapAssertionInspector env av)) a (ins_InspectArtifact (SnapAssertionInspector env av) f w a)" for f w a
    by (simp add: SnapAssertionInspector_def resp_option_result SnapAssertion_writes)
qed

interpretation snap: local_inspector "SnapInspector env sn av cfg"
proof (rule local_inspectorI)
  show "req_result (ins_ID (SnapInspector env sn av cfg)) a (ins_InspectRequest (SnapInspector env sn av cfg) a)" for a
    unfolding SnapInspector_def Inspector.simps Snap_InspectRequest_def by (intro writes)
  show "resp_result (ins_ID (SnapInspector env sn av cfg)) a (ins_InspectArtifact (SnapInspector env sn av cfg) f w a)" for f w a
    by (simp add: SnapInspector_def resp_option_result Snap_writes)
qed

section \<open>The cache of keys\<close>

lemma verify_signature_cache:
  "assertion_VerifySignature env cache as = Some (e, cache') \<Longrightarrow> serves env served \<Longrightarrow> cache_ok env served cache \<Longrightarrow> cache_ok env served cache'"
  using verify_signature_sound [of env cache as "(e, cache')" served] by (simp add: verified_def)

lemma SnapAssertion_cache:
  assumes "serves env served" and "cache_ok env served cache"
  shows "option_ends (state_ends (cache_ok env served)) (SnapAssertion_handle_artifact env f cache a)"
  unfolding SnapAssertion_handle_artifact_def using assms by (intro branches) (auto dest: verify_signature_cache)

lemma checkSnapRevisionAssertion_cache:
  "checkSnapRevisionAssertion env cache as digest a = (r, cache') \<Longrightarrow> serves env served \<Longrightarrow> cache_ok env served cache \<Longrightarrow> cache_ok env served cache'"
  by (auto simp: checkSnapRevisionAssertion_def Let_def split: if_splits option.splits prod.splits dest: verify_signature_cache)

lemma Snap_cache:
  assumes "serves av served" and "cache_ok av served cache"
  shows "option_ends (state_ends (cache_ok av served)) (Snap_handle_artifact sn av cfg f cache a)"
proof -
  have account: "option_ends (state_ends (cache_ok av served)) (inspect_account sn av cfg f revision decl md c a)"
    if "cache_ok av served c" for c revision decl md
    unfolding inspect_account_def using that assms(1) by (intro branches) (auto dest: verify_signature_cache)
  have declared: "option_ends (state_ends (cache_ok av served)) (inspect_declaration sn av cfg f revision snapID c a)"
    if "cache_ok av served c" for c revision snapID
    unfolding inspect_declaration_def using that assms(1) by (intro branches account) (auto dest: verify_signature_cache)
  show ?thesis
    unfolding Snap_handle_artifact_def using assms
    by (intro branches declared) (auto dest: checkSnapRevisionAssertion_cache)
qed

end
