(* ===== verification/Snap_Props.thy ===== *)
theory Snap_Props
  imports Snap_Contract
begin

text \<open>
  What the approval of a snap rests on: the chain of signed assertions from the root key of the store to
  the file, the filter of the configuration, and the keys that earlier inspections left in the cache.
\<close>

section \<open>Approvals\<close>

abbreviation snap_approved :: "string \<Rightarrow> Artifact \<Rightarrow> bool" where
  "snap_approved i a \<equiv> opinion_of (a_ResponseInspection a) i = Some Approved"

lemma checkSnapDeclarationFilter_None:
  "checkSnapDeclarationFilter cfg as = None \<longleftrightarrow>
     (\<forall>v \<in> set cfg. \<exists>d \<in> set (af_Value v). map_get (as_Header as) (af_Name v) = Some d)"
  by (induction cfg as rule: checkSnapDeclarationFilter.induct) (auto split: option.splits)

lemma in_Opinion_annotated [simp]: "in_Opinion (Inspection_Annotate ann i) = in_Opinion i"
  by (simp add: Inspection_Annotate_def)

lemma inspect_contents_approved:
  "inspect_contents sn cfg f revision decl account md a = (e, b) \<Longrightarrow> map_get (a_ResponseInspection a) ID_snap = None \<Longrightarrow>
     snap_approved ID_snap b \<Longrightarrow> checkSnapDeclarationFilter cfg decl = None"
  by (auto simp: inspect_contents_def Let_def opinion_of_def split: sum.splits option.splits)

lemma verify_signature_authentic:
  "assertion_VerifySignature env cache as = Some (None, cache') \<Longrightarrow> serves env served \<Longrightarrow> cache_ok env served cache \<Longrightarrow>
     authentic env served as \<and> cache_ok env served cache'"
  using verify_signature_sound [of env cache as "(None, cache')" served] by (simp add: verified_def)

lemma inspect_account_approved:
  assumes "inspect_account sn av cfg f revision decl md cache a = Some (e, b, cache')" and "map_get (a_ResponseInspection a) ID_snap = None"
    and "snap_approved ID_snap b" and "serves av served" and "cache_ok av served cache"
  shows "\<exists>account. downloadAccountAssertion av (PublisherID decl) = Inr account \<and> authentic av served account \<and>
    checkSnapDeclarationFilter cfg decl = None"
  using assms unfolding inspect_account_def
  by (auto simp: opinion_of_def split: sum.splits option.splits prod.splits
      dest!: verify_signature_authentic inspect_contents_approved)

text \<open>The three assertions an approved snap comes with.\<close>

definition snap_chain ::
  "snap_env \<Rightarrow> ('k, 's) assert_env \<Rightarrow> (string \<Rightarrow> assertion \<Rightarrow> bool) \<Rightarrow> AssertionFilter list \<Rightarrow> string \<Rightarrow> Artifact \<Rightarrow> bool" where
  "snap_chain sn av served cfg f a \<longleftrightarrow> (\<exists>digest sha3 revision decl account.
     sn_digest sn f = Inr digest \<and> encodeDigest digest = Inr sha3 \<and>
     authentic av served revision \<and> SnapSha384 revision = sha3 \<and> SnapSize revision = fmt_int (Artifact_Size a) \<and>
     downloadSnapDeclarationAssertion av (SnapID revision) = Inr decl \<and> authentic av served decl \<and>
     downloadAccountAssertion av (PublisherID decl) = Inr account \<and> authentic av served account \<and>
     (\<forall>v \<in> set cfg. \<exists>d \<in> set (af_Value v). map_get (as_Header decl) (af_Name v) = Some d))"

lemma inspect_declaration_approved:
  assumes "inspect_declaration sn av cfg f revision snapID cache a = Some (e, b, cache')" and fresh: "map_get (a_ResponseInspection a) ID_snap = None"
    and appr: "snap_approved ID_snap b" and net: "serves av served" and ok: "cache_ok av served cache"
  shows "\<exists>decl account. downloadSnapDeclarationAssertion av snapID = Inr decl \<and> authentic av served decl \<and>
    downloadAccountAssertion av (PublisherID decl) = Inr account \<and> authentic av served account \<and> checkSnapDeclarationFilter cfg decl = None"
proof -
  obtain decl md c where d: "downloadSnapDeclarationAssertion av snapID = Inr decl" "assertion_VerifySignature av cache decl = Some (None, c)"
    "inspect_account sn av cfg f revision decl md c a = Some (e, b, cache')"
    using assms(1) fresh appr
    by (auto simp: inspect_declaration_def Let_def opinion_of_def split: sum.splits option.splits prod.splits if_splits)
  from verify_signature_authentic [OF d(2) net ok] have "authentic av served decl" "cache_ok av served c" by auto
  with d inspect_account_approved [OF d(3) fresh appr net] show ?thesis by blast
qed

lemma Snap_handle_approved:
  assumes "Snap_handle_artifact sn av cfg f cache a = Some (e, b, cache')" and fresh: "map_get (a_ResponseInspection a) ID_snap = None"
    and appr: "snap_approved ID_snap b" and net: "serves av served" and ok: "cache_ok av served cache"
  shows "snap_chain sn av served cfg f a"
proof -
  obtain digest sha3 revision snapID c where r: "sn_digest sn f = Inr digest" "encodeDigest digest = Inr sha3"
    "checkSnapRevisionAssertion av cache revision sha3 a = (Some (Inr snapID), c)"
    "inspect_declaration sn av cfg f revision snapID c a = Some (e, b, cache')"
    using assms(1) fresh appr
    by (simp add: Snap_handle_artifact_def opinion_of_def split: sum.splits option.splits prod.splits if_splits) auto
  from r(3) have rev_ok: "assertion_VerifySignature av cache revision = Some (None, c)" "SnapSha384 revision = sha3"
    "SnapSize revision = fmt_int (Artifact_Size a)" "snapID = SnapID revision"
    by (auto simp: checkSnapRevisionAssertion_def Let_def split: if_splits option.splits prod.splits)
  from verify_signature_authentic [OF rev_ok(1) net ok] have "authentic av served revision" "cache_ok av served c" by auto
  with r rev_ok inspect_declaration_approved [OF r(4) fresh appr net] show ?thesis
    unfolding snap_chain_def checkSnapDeclarationFilter_None by blast
qed

section \<open>Histories\<close>

text \<open>
  The cache is as old as the process. A history is the sequence of inspections that used it, each with the
  network as it was then.
\<close>

datatype ('net, 'f) snap_event = SnapFile 'net 'f Artifact | AssertionFile 'net 'f Artifact

type_synonym snap_network = "string \<Rightarrow> (int \<times> string \<times> body_reader) result"

fun event_net :: "('net, 'f) snap_event \<Rightarrow> 'net" where
  "event_net (SnapFile net f a) = net"
| "event_net (AssertionFile net f a) = net"

fun snap_step :: "store_env \<Rightarrow> snap_env \<Rightarrow> ('k, 's) assert_env \<Rightarrow> AssertionFilter list \<Rightarrow> (snap_network, string) snap_event \<Rightarrow> 'k key_cache \<Rightarrow> 'k key_cache" where
  "snap_step env sn av cfg (SnapFile net f a) cache = snd (snd (ins_InspectArtifact (SnapInspector env sn (av\<lparr>av_Do := net\<rparr>) cfg) f cache a))"
| "snap_step env sn av cfg (AssertionFile net f a) cache = snd (snd (ins_InspectArtifact (SnapAssertionInspector env (av\<lparr>av_Do := net\<rparr>)) f cache a))"

definition snap_keys :: "store_env \<Rightarrow> snap_env \<Rightarrow> ('k, 's) assert_env \<Rightarrow> AssertionFilter list \<Rightarrow> (snap_network, string) snap_event list \<Rightarrow> 'k key_cache" where
  "snap_keys env sn av cfg past = fold (snap_step env sn av cfg) past []"

definition served_in :: "('k, 's) assert_env \<Rightarrow> (snap_network, string) snap_event list \<Rightarrow> string \<Rightarrow> assertion \<Rightarrow> bool" where
  "served_in av past i as \<longleftrightarrow> (\<exists>e \<in> set past. downloadAccountKeyAssertion (av\<lparr>av_Do := event_net e\<rparr>) i = Inr as)"

lemma serves_in: "e \<in> set past \<Longrightarrow> serves (av\<lparr>av_Do := event_net e\<rparr>) (served_in av past)"
  by (auto simp: serves_def served_in_def)

lemma cache_ok_network [simp]: "cache_ok (av\<lparr>av_Do := net\<rparr>) served = cache_ok av served"
  by (simp add: cache_ok_def fun_eq_iff trusted_key_network)

lemma or_never_returns_cache: "option_ends (state_ends P) r \<Longrightarrow> P w \<Longrightarrow> P (snd (snd (or_never_returns a w r)))"
  by (auto simp: option_ends_def state_ends_def or_never_returns_def split: option.splits)

lemma snap_step_cache:
  assumes "e \<in> set past" and "cache_ok av (served_in av past) cache"
  shows "cache_ok av (served_in av past) (snap_step env sn av cfg e cache)"
proof (cases e)
  case (SnapFile net f a)
  with assms show ?thesis
    using Snap_cache [OF serves_in [OF assms(1), of av], of cache sn cfg f a] by (simp add: SnapInspector_def or_never_returns_cache)
next
  case (AssertionFile net f a)
  with assms show ?thesis
    using SnapAssertion_cache [OF serves_in [OF assms(1), of av], of cache f a] by (simp add: SnapAssertionInspector_def or_never_returns_cache)
qed

lemma snap_keys_trusted: "set past \<subseteq> set all \<Longrightarrow> cache_ok av (served_in av all) (snap_keys env sn av cfg past)"
proof -
  have "cache_ok av (served_in av all) (fold (snap_step env sn av cfg) past cache)"
    if "set past \<subseteq> set all" "cache_ok av (served_in av all) cache" for cache
    using that by (induction past arbitrary: cache) (auto simp: snap_step_cache)
  then show "set past \<subseteq> set all \<Longrightarrow> ?thesis" by (simp add: snap_keys_def)
qed

section \<open>Claims\<close>

text \<open>
  A small store: packets are one letter that says what they are and one that names the key, a
  signature verifies under the key it names, and one account key is signed by the root.
\<close>

definition snap_av :: "(snap_network) \<Rightarrow> (char, char) assert_env" where
  "snap_av net = \<lparr>av_lib = \<lparr>armor_Decode = (\<lambda>_. Inl io_EOF), packet_Reader = (\<lambda>_. ([], io_EOF)), clearsign_Decode = (\<lambda>_. None),
       key_VerifySignature = (\<lambda>k s b. if k = s then None else Some (Errorf ''invalid signature'')), key_IdString = (\<lambda>k. [k])\<rparr>,
     av_packet = (\<lambda>b. case b of [c, k] \<Rightarrow> Inr (if c = CHR ''K'' then PublicKey k else Signature k, []) | _ \<Rightarrow> Inl io_EOF),
     av_rsa = Some, av_Do = net, av_root = CHR ''r''\<rparr>"

definition text_of :: "string list \<Rightarrow> string" where
  "text_of ls = strings_Join ls [CHR 0x0A]"

definition small_store :: snap_network where
  "small_store u =
     (if u = assertion_url ''account-key'' ''k1'' ''1'' then
        Inr (200, ''200 OK'', \<lparr>br_data = text_of [''sign-key-sha3-384: '' @ rootSignKey, [], ''AUtr'', [], ''AVNy''], br_err = None\<rparr>)
      else if u = assertion_url ''snap-revision'' (concat (replicate 16 ''QUFB'')) ''0'' then
        Inr (200, ''200 OK'', \<lparr>br_data = text_of [''snap-id: x'', ''snap-size: 0'', ''snap-sha3-384: '' @ concat (replicate 16 ''QUFB''),
          ''sign-key-sha3-384: k1'', [], ''AVNr''], br_err = None\<rparr>)
      else if u = assertion_url ''snap-declaration/16'' ''x'' ''5'' then
        Inr (200, ''200 OK'', \<lparr>br_data = text_of [''snap-name: hello'', ''publisher-id: p'', ''sign-key-sha3-384: k1'', [], ''AVNr''], br_err = None\<rparr>)
      else if u = assertion_url ''account'' ''p'' ''5'' then
        Inr (200, ''200 OK'', \<lparr>br_data = text_of [''display-name: P'', ''sign-key-sha3-384: k1'', [], ''AVNr''], br_err = None\<rparr>)
      else if u = assertion_url ''account-key'' ''k2'' ''1'' then
        Inr (200, ''200 OK'', \<lparr>br_data = text_of [''sign-key-sha3-384: k2'', [], ''AUtr'', [], ''AVNr''], br_err = None\<rparr>)
      else Inr (404, ''404 Not Found'', \<lparr>br_data = [], br_err = None\<rparr>))"

definition small_snap :: snap_env where
  "small_snap = \<lparr>sn_digest = (\<lambda>_. Inr (replicate 48 CHR ''A'')), sn_Seek = (\<lambda>_. None),
     sn_squashfs = (\<lambda>_. Inr (\<lambda>p. if p = ''meta/snap.yaml'' then Inr ''name: hello'' else Inl os_ErrNotExist)),
     sn_yaml = (\<lambda>_. Inr \<lparr>sy_Name = ''hello'', sy_Version = ''1'', sy_Summary = [], sy_License = [], sy_Architectures = [''amd64''],
       sy_Grade = [], sy_Base = []\<rparr>)\<rparr>"

definition small_env :: store_env where
  "small_env = \<lparr>se_Parse = (\<lambda>_. Inl io_EOF), se_String = (\<lambda>_. [])\<rparr>"

definition small_filter :: "AssertionFilter list" where
  "small_filter = [\<lparr>af_Name = ''publisher-id'', af_Value = [''q'', ''p'']\<rparr>]"

definition snap_file :: Artifact where
  "snap_file = NewArtifact\<lparr>a_MimeType := Some \<lparr>mime_String = ''application/x.squashfs'', mime_Is = (\<lambda>t. t = ''application/x.squashfs'')\<rparr>\<rparr>"

text \<open>
  C6. A snap is approved only with a chain of signatures. Whatever inspections came before, and whatever the
  network answered to them and to this one: the digest of the file is the one of a snap-revision assertion,
  whose size is the size of the file; the declaration of that snap and the account of its publisher were
  downloaded by the identifiers the assertions name; all three are signed by keys that a chain of
  signatures of downloaded account keys leads to from the root key of the store; and the declaration has,
  for every attribute of the configured filter, one of the values it allows.
\<close>

theorem snap_approval_is_signed:
  assumes "ins_InspectArtifact (SnapInspector env sn (av\<lparr>av_Do := net\<rparr>) cfg) f (snap_keys env sn av cfg past) a = (e, a', cache')"
    and "map_get (a_ResponseInspection a) ''snap'' = None"
    and "opinion_of (a_ResponseInspection a') ''snap'' = Some Approved"
  shows "snap_chain sn (av\<lparr>av_Do := net\<rparr>) (served_in av (past @ [SnapFile net f a])) cfg f a"
proof -
  let ?av = "av\<lparr>av_Do := net\<rparr>" and ?all = "past @ [SnapFile net f a]"
  have net: "serves ?av (served_in av ?all)" using serves_in [of "SnapFile net f a" ?all av] by simp
  have ok: "cache_ok ?av (served_in av ?all) (snap_keys env sn av cfg past)" using snap_keys_trusted [of past ?all av env sn cfg] by (simp add: subset_insertI)
  have "a' \<noteq> a" using assms(2,3) by (auto simp: opinion_of_def)
  with assms(1) have "Snap_handle_artifact sn ?av cfg f (snap_keys env sn av cfg past) a = Some (e, a', cache')"
    by (auto simp: SnapInspector_def or_never_returns_def split: option.splits)
  then show ?thesis using Snap_handle_approved assms(2,3) net ok by blast
qed

lemma snap_file_run:
  "(case ins_InspectArtifact (SnapInspector small_env small_snap (snap_av small_store) small_filter) [] [] snap_file of
      (e, a', cache) \<Rightarrow> (opinion_of (a_ResponseInspection a') ''snap'', cache)) = (Some Approved, [(''k1'', CHR ''k'')])"
  by code_simp

lemma snap_av_network [simp]: "snap_av net\<lparr>av_Do := net'\<rparr> = snap_av net'"
  by (simp add: snap_av_def)

theorem snap_approval_is_signed_witness:
  "snap_chain small_snap (snap_av small_store) (served_in (snap_av small_store) [SnapFile small_store [] snap_file]) small_filter [] snap_file"
proof -
  obtain e a' c where run: "ins_InspectArtifact (SnapInspector small_env small_snap (snap_av small_store) small_filter) [] [] snap_file = (e, a', c)"
    by (metis prod_cases3)
  have fresh: "map_get (a_ResponseInspection snap_file) ''snap'' = None" by (simp add: snap_file_def NewArtifact_def)
  have "opinion_of (a_ResponseInspection a') ''snap'' = Some Approved" using snap_file_run run by simp
  with run fresh show ?thesis
    using snap_approval_is_signed [where env = small_env and sn = small_snap and av = "snap_av small_store" and net = small_store and cfg = small_filter and f = "[]" and past = "[]" and a = snap_file and e = e and a' = a' and cache' = c]
    by (simp add: snap_keys_def)
qed

text \<open>
  C7. Only trusted keys are kept. After any sequence of inspections of snaps and of assertions, each key in
  the cache is one that the signatures of downloaded account keys lead to from the root key, under the
  identifier it was downloaded by.
\<close>

theorem snap_keys_only_trusted:
  assumes "map_get (snap_keys env sn av cfg past) i = Some k"
  shows "trusted_key av (served_in av past) i k"
  using snap_keys_trusted [of past past av env sn cfg] assms by (simp add: cache_ok_def)

theorem snap_keys_only_trusted_witness:
  "trusted_key (snap_av small_store) (served_in (snap_av small_store) [SnapFile small_store [] snap_file]) ''k1'' (CHR ''k'')"
proof -
  have "snap_step small_env small_snap (snap_av small_store) small_filter (SnapFile small_store [] snap_file) [] = [(''k1'', CHR ''k'')]"
    using snap_file_run by (simp split: prod.splits)
  then show ?thesis
    using snap_keys_only_trusted [of small_env small_snap "snap_av small_store" small_filter "[SnapFile small_store [] snap_file]" "''k1''" "CHR ''k''"]
    by (simp add: snap_keys_def)
qed


definition one_key :: snap_network where
  "one_key u = (if u = assertion_url ''account-key'' ''k1'' ''1'' then small_store u else Inl io_EOF)"

lemma k1_assertion:
  "downloadAccountKeyAssertion (snap_av small_store) ''k1'' = Inr \<lparr>as_Header = [(''sign-key-sha3-384'', rootSignKey)], as_Body = ''AUtr'',
     as_Content = text_of [''sign-key-sha3-384: '' @ rootSignKey, [], ''AUtr''], as_Signature = ''AVNy''\<rparr>"
  by code_simp

lemma k2_assertion:
  "downloadAccountKeyAssertion (snap_av small_store) ''k2'' = Inr \<lparr>as_Header = [(''sign-key-sha3-384'', ''k2'')], as_Body = ''AUtr'',
     as_Content = text_of [''sign-key-sha3-384: k2'', [], ''AUtr''], as_Signature = ''AVNr''\<rparr>"
  by code_simp

definition signed_by :: "string \<Rightarrow> assertion" where
  "signed_by i = \<lparr>as_Header = [(''sign-key-sha3-384'', i)], as_Body = [], as_Content = [], as_Signature = ''AVNr''\<rparr>"


text \<open>
  C31. It does not return when they form one: no assertion signed by a key of a set whose account keys are all
  signed by keys of that set, none of them the root or in the cache, is ever decided. The signatures need
  not be valid: they are only looked at on the way back.
\<close>

theorem snap_key_cycle_never_returns:
  assumes "key_loop av cache ids" and "decodeSignature av (as_Signature as) = Inr sig" and "SignKey as \<in> ids"
  shows "assertion_VerifySignature av cache as = None"
  by (rule verify_signature_loops [OF assms])

theorem snap_key_cycle_never_returns_witness:
  "assertion_VerifySignature (snap_av small_store) [] (signed_by ''k2'') = None"
proof (rule snap_key_cycle_never_returns)
  have dec: "decodeSignature (snap_av small_store) ''AVNr'' = Inr (CHR ''k'')" by code_simp
  show "decodeSignature (snap_av small_store) (as_Signature (signed_by ''k2'')) = Inr (CHR ''k'')" using dec by (simp add: signed_by_def)
  show "key_loop (snap_av small_store) [] {''k2''}" by (simp add: key_loop_def k2_assertion dec as_field_def rootSignKey_def)
  show "SignKey (signed_by ''k2'') \<in> {''k2''}" by (simp add: signed_by_def as_field_def)
qed

end
