(* ===== verification/Snap_Refresh.thy ===== *)
theory Snap_Refresh
  imports Snap_Contract
begin

text \<open>
  The refresh endpoint of the snap store: a response is held against the actions that the request carried,
  which reach it through an annotation. And the digests of snaps: their text form loses nothing.
\<close>

section \<open>Actions\<close>

lemma any_action_any [simp]: "any_action (action_any x) = Some x"
  by (simp add: action_any_def str_field_def)

lemma those_actions [simp]: "those (map (any_action \<circ> action_any) xs) = Some xs"
  by (induction xs) auto

lemma any_actions_any: "any_actions (AnyList (map action_any xs)) = Some xs"
  by simp

lemma actions_by_key_get:
  "map_get (actions_by_key m xs) k =
     (case find (\<lambda>x. ra_InstanceKey x = k \<and> k \<noteq> []) (rev xs) of Some x \<Rightarrow> Some x | None \<Rightarrow> map_get m k)"
  by (induction m xs rule: actions_by_key.induct) (auto simp: find_append split: option.splits)

text \<open>A result that answers an action.\<close>

definition answers :: "snapRefreshItem \<Rightarrow> snapRefreshAction \<Rightarrow> bool" where
  "answers r x \<longleftrightarrow> (ra_Action x = ''refresh'' \<longrightarrow> ri_Result r = ''refresh'') \<and>
     (ri_Result r = ''refresh'' \<longrightarrow> ra_Action x = [] \<or> ra_Action x = ''refresh'') \<and>
     (ra_SnapID x \<noteq> [] \<longrightarrow> ri_SnapID r \<noteq> [] \<longrightarrow> ra_SnapID x = ri_SnapID r)"

definition last_action :: "snapRefreshAction list \<Rightarrow> string \<Rightarrow> snapRefreshAction option" where
  "last_action actions k = find (\<lambda>x. ra_InstanceKey x = k \<and> k \<noteq> []) (rev actions)"

lemma by_key_last: "map_get (snapRefreshActionsByInstanceKey actions) k = last_action actions k"
  by (simp add: snapRefreshActionsByInstanceKey_def actions_by_key_get last_action_def split: option.split)

lemma check_result_Inr:
  "check_result actions r = Inr c \<Longrightarrow> (\<forall>x. map_get actions (ri_InstanceKey r) = Some x \<longrightarrow> answers r x \<and> c = ra_Channel x) \<and>
     (map_get actions (ri_InstanceKey r) = None \<longrightarrow> actions \<noteq> [] \<longrightarrow> ri_Result r = ''download'')"
  by (auto simp: check_result_def answers_def split: if_splits option.splits)

lemma check_results_Inr: "check_results actions acc rs = Inr out \<Longrightarrow> r \<in> set rs \<Longrightarrow> \<exists>c. check_result actions r = Inr c"
  by (induction actions acc rs rule: check_results.induct) (auto split: sum.splits)

text \<open>The annotation of a request brings its actions to the response.\<close>

lemma requested_actions_noted:
  assumes "SnapRefresh_InspectRequest env dreq a = (None, b)" and "se_Parse env (DownloadURL a) = Inr u" and "newSnapRefreshURLInfo env u = None"
    and "map_get (a_RequestInspection c) ID_snap_refresh = map_get (a_RequestInspection b) ID_snap_refresh"
  shows "requested_actions c = fst (getSnapRefreshActions dreq a)"
proof -
  obtain actions a1 where g: "getSnapRefreshActions dreq a = (actions, a1)" by fastforce
  show ?thesis
    using assms by (auto simp: SnapRefresh_InspectRequest_def g Let_def requested_actions_def RequestAnnotation_def inspectionAnnotation_def
        assert_any_def Inspection_Annotate_def split: if_splits)
qed

section \<open>Digests\<close>

lemma base64_digits: "length s mod 3 = 0 \<Longrightarrow> set (base64_EncodeToString s) \<subseteq> b64_digit ` {..<64}"
proof (induction s rule: base64_EncodeToString.induct)
  case (4 a b c rest)
  then have "length rest mod 3 = 0" by (simp add: mod_Suc split: if_splits)
  with 4 show ?case by (auto intro!: imageI)
qed simp_all

definition raw_url_char :: "char \<Rightarrow> char" where
  "raw_url_char c = (if c = CHR ''+'' then CHR ''-'' else if c = CHR ''/'' then CHR ''_'' else c)"

lemma b64_digit_not_url: "d < 64 \<Longrightarrow> b64_digit d \<noteq> CHR ''-''" "d < 64 \<Longrightarrow> b64_digit d \<noteq> CHR ''_''"
  using b64_value_digit [of d] by (auto simp: b64_value_def simp del: b64_value_digit)

lemma raw_url_char_inj: "inj_on raw_url_char (b64_digit ` {..<64})"
  by (rule inj_onI) (auto simp: raw_url_char_def b64_digit_not_url b64_digit_not_url [symmetric] split: if_splits)

lemma encodeDigest_inj:
  assumes "encodeDigest d = Inr s" and "encodeDigest d' = Inr s"
  shows "d = d'"
proof -
  have len: "length d = 48" "length d' = 48" and "raw_url_base64 d = raw_url_base64 d'"
    using assms by (auto simp: encodeDigest_def split: if_splits)
  moreover have "raw_url_base64 x = map raw_url_char (base64_EncodeToString x)" if "length x = 48" for x
  proof -
    have "CHR ''='' \<notin> b64_digit ` {..<64}" using b64_digit_neq(1) by fastforce
    then have "CHR ''='' \<notin> set (base64_EncodeToString x)" using base64_digits [of x] that by auto
    then show ?thesis unfolding raw_url_base64_def raw_url_char_def by (intro arg_cong [where f = "map _"] filter_True) auto
  qed
  ultimately have "map raw_url_char (base64_EncodeToString d) = map raw_url_char (base64_EncodeToString d')" by simp
  moreover have "inj_on raw_url_char (set (base64_EncodeToString d) \<union> set (base64_EncodeToString d'))"
    using base64_digits [of d] base64_digits [of d'] len by (intro inj_on_subset [OF raw_url_char_inj]) simp
  ultimately show ?thesis using map_inj_on base64_inj by blast
qed

section \<open>Host names\<close>

text \<open>The dots of the host name match any character: another host passes for the store.\<close>

lemma lookalike_host_accepted:
  "newSnapRefreshURLInfo \<lparr>se_Parse = (\<lambda>_. Inl io_EOF), se_String = (\<lambda>u. u_Scheme u @ ''://'' @ u_Host u @ u_Path u)\<rparr>
     \<lparr>u_Scheme = ''https'', u_Host = ''api-snapcraft.io:443'', u_Path = ''/v2/snaps/refresh'', u_RawQuery = []\<rparr> = None"
  by code_simp

section \<open>Claims\<close>


text \<open>A request to refresh one snap and its answer.\<close>

definition refresh_url :: url where
  "refresh_url = \<lparr>u_Scheme = ''https'', u_Host = ''api.snapcraft.io:443'', u_Path = ''/v2/snaps/refresh'', u_RawQuery = []\<rparr>"

definition refresh_env :: store_env where
  "refresh_env = \<lparr>se_Parse = (\<lambda>_. Inr refresh_url), se_String = (\<lambda>u. u_Scheme u @ ''://'' @ u_Host u @ u_Path u)\<rparr>"

definition refresh_action :: snapRefreshAction where
  "refresh_action = \<lparr>ra_Action = ''refresh'', ra_Channel = ''stable'', ra_InstanceKey = ''k'', ra_Name = [], ra_SnapID = ''x''\<rparr>"

definition refresh_item :: snapRefreshItem where
  "refresh_item = \<lparr>ri_EffectiveChannel = ''stable'', ri_InstanceKey = ''k'', ri_Name = ''hello'', ri_ReleasedAt = [], ri_Result = ''refresh'',
     ri_Architectures = [], ri_Version = ''1'', ri_Revision = 7, ri_SnapID = ''x''\<rparr>"

definition refresh_req :: "go_error option \<Rightarrow> http_request" where
  "refresh_req err = \<lparr>req_Method = ''POST'', req_URL = refresh_url, req_Header = [],
     req_Body = Some \<lparr>br_data = ''{}'', br_err = err\<rparr>, req_ContentLength = 20, req_TransferEncoding = [], req_RemoteAddr = []\<rparr>"

definition refresh_artifact :: "go_error option \<Rightarrow> Artifact" where
  "refresh_artifact err = NewArtifact\<lparr>a_Request := Some (refresh_req err),
     a_MimeType := Some \<lparr>mime_String = ''application/json'', mime_Is = (\<lambda>t. t = ''application/json'')\<rparr>\<rparr>"

definition refresh_requested :: Artifact where
  "refresh_requested = snd (SnapRefresh_InspectRequest refresh_env (\<lambda>_. Inr [refresh_action]) (refresh_artifact None))"

lemma refresh_url_ok: "newSnapRefreshURLInfo refresh_env refresh_url = None"
  by code_simp

lemma refresh_request_ok:
  "SnapRefresh_InspectRequest refresh_env (\<lambda>_. Inr [refresh_action]) (refresh_artifact None) = (None, refresh_requested)"
  using refresh_url_ok by (simp add: refresh_requested_def SnapRefresh_InspectRequest_def refresh_env_def Let_def split: prod.split)

lemma refresh_response_ok:
  "opinion_of (a_ResponseInspection (fst (snd (SnapRefresh_InspectArtifact (\<lambda>_. Inr [refresh_item]) [] () refresh_requested)))) ''snap.refresh'' = Some Approved"
  by code_simp

lemma refresh_fresh: "map_get (a_ResponseInspection refresh_requested) ''snap.refresh'' = None"
  by code_simp


text \<open>
  A request to the refresh endpoint whose body fails while it is read goes on with the part that was read,
  as if that were all of it: the error is dropped and the length set to match. The request is still
  accepted for inspection.
\<close>

theorem refresh_body_is_truncated:
  assumes "se_Parse env (DownloadURL a) = Inr u" and "newSnapRefreshURLInfo env u = None"
    and "a_Request a = Some req" and "req_Body req = Some \<lparr>br_data = part, br_err = Some err\<rparr>" and "0 \<le> req_ContentLength req"
  shows "\<exists>b req'. SnapRefresh_InspectRequest env dreq a = (None, b) \<and> a_Request b = Some req' \<and>
    req_Body req' = Some \<lparr>br_data = part, br_err = None\<rparr> \<and> req_ContentLength req' = int (length part) \<and>
    InspectorRequestOpinionPending b ''snap.refresh''"
  using assms by (simp add: SnapRefresh_InspectRequest_def getSnapRefreshActions_def Let_def InspectorRequestOpinionPending_def SetRequestPending_def)

theorem refresh_body_is_truncated_witness:
  "\<exists>b req'. SnapRefresh_InspectRequest refresh_env (\<lambda>_. Inr []) (refresh_artifact (Some io_EOF)) = (None, b) \<and> a_Request b = Some req' \<and>
    req_Body req' = Some \<lparr>br_data = ''{}'', br_err = None\<rparr> \<and> req_ContentLength req' = int (length ''{}'') \<and>
    InspectorRequestOpinionPending b ''snap.refresh''"
proof (rule refresh_body_is_truncated)
  show "se_Parse refresh_env (DownloadURL (refresh_artifact (Some io_EOF))) = Inr refresh_url" by (simp add: refresh_env_def)
  show "newSnapRefreshURLInfo refresh_env refresh_url = None" by (rule refresh_url_ok)
  show "a_Request (refresh_artifact (Some io_EOF)) = Some (refresh_req (Some io_EOF))" by (simp add: refresh_artifact_def)
  show "req_Body (refresh_req (Some io_EOF)) = Some \<lparr>br_data = ''{}'', br_err = Some io_EOF\<rparr>" by (simp add: refresh_req_def)
  show "0 \<le> req_ContentLength (refresh_req (Some io_EOF))" by (simp add: refresh_req_def)
qed

end
