(* ===== verification/Store_Api.thy ===== *)
theory Store_Api
  imports Pipeline Go_Url Openpgp Git
begin

text \<open>
  \<^verbatim>\<open>inspectors/store\<close> and \<^verbatim>\<open>inspectors/bldbin\<close>: the endpoints of the package store (\<^verbatim>\<open>info_api.go\<close>, \<^verbatim>\<open>resolve_api.go\<close>,
  \<^verbatim>\<open>transforms_api.go\<close>, \<^verbatim>\<open>appmedia.go\<close>, \<^verbatim>\<open>config/config.go\<close>) and the packages of binaries (\<^verbatim>\<open>bin.go\<close>), which are held
  against the digests that info responses listed.

  The state is what the info inspector remembers of each package (\<^theory_text>\<open>store_ids\<close>), which every access locks.
  Its search for a digest goes through a Go map, in an order that is not fixed; here it takes the order of
  the association list. Arguments (\<^theory_text>\<open>api_env\<close>) stand for \<^verbatim>\<open>url.Parse\<close>, the JSON and YAML decoders, the reader of
  compressed tarballs (its members and the error it ends with), SHA3-384 and the PNG header decoder. The
  records of decoded documents hold the fields that the code reads.
\<close>

section \<open>Configuration (config/config.go)\<close>

abbreviation letters_digits_dash :: rx where
  "letters_digits_dash \<equiv> rx_plus (Cls (\<lambda>c. is_lower c \<or> is_upper c \<or> is_digit c \<or> c = CHR ''-''))"

definition reStoreInfoAPI :: rx where
  "reStoreInfoAPI = rx_seq [lit ''/v2/'', Grp (rx_plus (Cls is_lower)), lit ''/info/'', Grp letters_digits_dash]"

definition reStoreTransformsAPI :: rx where
  "reStoreTransformsAPI = rx_seq [lit ''/v1/craft/workspaces/'', Grp letters_digits_dash, lit ''/transforms'']"

definition reStoreAppMedia :: rx where
  "reStoreAppMedia = rx_seq [lit ''/site_media/appmedia/'', Grp (rx_plus (Cls is_digit)), lit ''/'', Grp (rx_plus (Cls is_digit)), lit ''/'',
     Grp (rx_plus (Cls (\<lambda>c. is_lower c \<or> is_upper c \<or> is_digit c \<or> c = CHR ''.'' \<or> c = CHR ''-'')))]"

definition NewStoreInfoAPIURLInfo :: "url \<Rightarrow> Glob list \<Rightarrow> (string \<times> string) result" where
  "NewStoreInfoAPIURLInfo u cfg =
     (case checkRequestURL cfg (request_url u) of Some err \<Rightarrow> Inl err
      | None \<Rightarrow> (case FindStringSubmatch True reStoreInfoAPI True (u_Path u) of
          [_, ty, name] \<Rightarrow> Inr (ty, name) | _ \<Rightarrow> Inl (Errorf ''not a valid store info API path'')))"

definition NewStoreResolveAPIURLInfo :: "url \<Rightarrow> Glob list \<Rightarrow> unit result" where
  "NewStoreResolveAPIURLInfo u cfg =
     (case checkRequestURL cfg (request_url u) of Some err \<Rightarrow> Inl err
      | None \<Rightarrow> if \<not> MatchString True (lit ''/v2/revisions/resolve'') True (u_Path u)
                then Inl (Errorf ''not a valid store resolve_revisions API path'') else Inr ())"

definition NewStoreTransformsAPIURLInfo :: "url \<Rightarrow> Glob list \<Rightarrow> string result" where
  "NewStoreTransformsAPIURLInfo u cfg =
     (case checkRequestURL cfg (request_url u) of Some err \<Rightarrow> Inl err
      | None \<Rightarrow> (case FindStringSubmatch True reStoreTransformsAPI True (u_Path u) of
          [_, ws] \<Rightarrow> Inr ws | _ \<Rightarrow> Inl (Errorf ''not a valid store transforms API path'')))"

definition NewStoreAppMediaURLInfo :: "url \<Rightarrow> Glob list \<Rightarrow> string result" where
  "NewStoreAppMediaURLInfo u cfg =
     (case checkRequestURL cfg (request_url u) of Some err \<Rightarrow> Inl err
      | None \<Rightarrow> (case FindStringSubmatch True reStoreAppMedia True (u_Path u) of
          [_, _, _, name] \<Rightarrow> Inr name | _ \<Rightarrow> Inl (Errorf ''not a valid store appmedia API path'')))"

definition NewBldBinURLInfo :: "url \<Rightarrow> Glob list \<Rightarrow> unit result" where
  "NewBldBinURLInfo u cfg = (case checkRequestURL cfg (request_url u) of Some err \<Rightarrow> Inl err | None \<Rightarrow> Inr ())"

section \<open>Data\<close>

record BldBinMetadata =
  bm_Name :: string
  bm_Version :: string
  bm_Base :: string
  bm_Architecture :: string
  bm_Summary :: string
  bm_License :: string
  bm_Contact :: string

record storeInfoAPIRevisionInfo =
  sr_Sha3_384 :: string
  sr_Size :: nat
  sr_Revision :: string
  sr_Channel :: string

record storeInfoAPIInfo =
  si_Type :: string
  si_ID :: string
  si_Publisher :: string
  si_RevInfo :: "(string, storeInfoAPIRevisionInfo) gomap"

type_synonym store_ids = "(string, storeInfoAPIInfo) gomap"

record apiInfoChannelMap =
  ac_Channel :: string
  ac_Revision :: int
  ac_Sha3_384 :: string
  ac_Size :: int
  ac_URL :: string

record apiInfo =
  ai_ChannelMap :: "apiInfoChannelMap list"
  ai_DisplayName :: string
  ai_Username :: string
  ai_Name :: string
  ai_PackageID :: string

record storeResolveAPIResult =
  rr_ID :: string
  rr_InstanceKey :: string
  rr_Name :: string
  rr_Namespace :: string
  rr_Status :: string

record transform =
  tr_Type :: string
  tr_Name :: string
  tr_From :: string
  tr_To :: string

record api_env =
  ae_Parse :: "string \<Rightarrow> url result"
  ae_info :: "string \<Rightarrow> apiInfo result"
  ae_resolve :: "string \<Rightarrow> (storeResolveAPIResult list \<times> storeResolveAPIResult list) result"
  ae_transforms :: "string \<Rightarrow> (string \<times> transform list option) result"
  ae_png :: "string \<Rightarrow> (int \<times> int) result"
  ae_xz_tar :: "string \<Rightarrow> ((string \<times> body_reader) list \<times> go_error) result"
  ae_yaml :: "body_reader \<Rightarrow> BldBinMetadata result"
  ae_sha3 :: "string \<Rightarrow> string result"

definition api_url_error :: "go_error \<Rightarrow> go_error" where
  "api_url_error err = Errorf (''cannot parse URL: '' @ err_Error err)"

definition api_md :: "string \<Rightarrow> string \<Rightarrow> ArtifactMetadata" where
  "api_md mtype description = NoMetadata\<lparr>am_Type := mtype, am_Name := ''Store protocol response'', am_Description := description\<rparr>"

section \<open>Information (info\_api.go)\<close>

abbreviation ID_info_api :: string where "ID_info_api \<equiv> ''store.info-api''"

definition setInfo :: "string \<Rightarrow> storeInfoAPIInfo \<Rightarrow> store_ids \<Rightarrow> store_ids" where
  "setInfo pkgid ainfo ids = map_set pkgid ainfo ids"

fun findInfo :: "store_ids \<Rightarrow> string \<Rightarrow> (storeInfoAPIInfo \<times> string \<times> string) option" where
  "findInfo [] sha3 = None"
| "findInfo ((_, info) # ids) sha3 =
     (case map_get (si_RevInfo info) sha3 of Some r \<Rightarrow> Some (info, sr_Revision r, sr_Channel r) | None \<Rightarrow> findInfo ids sha3)"

definition InfoAPI_InspectRequest :: "api_env \<Rightarrow> Glob list \<Rightarrow> Glob list \<Rightarrow> Artifact \<Rightarrow> go_error option \<times> Artifact" where
  "InfoAPI_InspectRequest env cfg bcfg a =
     (case ae_Parse env (DownloadURL a) of Inl err \<Rightarrow> (Some (api_url_error err), a)
      | Inr u \<Rightarrow>
        (case NewStoreInfoAPIURLInfo u cfg of
           Inr (ty, name) \<Rightarrow> (None, annotate_request ID_info_api [(''type'', AnyString ty), (''package'', AnyString name)]
             (SetRequestPending ID_info_api ''valid URL for store info API endpoint'' a))
         | Inl _ \<Rightarrow>
           (case NewBldBinURLInfo u bcfg of
              Inr _ \<Rightarrow> (None, SetRequestPending ID_info_api ''valid URL for bld bin download'' a)
            | Inl _ \<Rightarrow> (None, a))))"

definition revision_info :: "apiInfoChannelMap \<Rightarrow> storeInfoAPIRevisionInfo" where
  "revision_info c = \<lparr>sr_Sha3_384 = ac_Sha3_384 c, sr_Size = nat (ac_Size c mod 2 ^ 64), sr_Revision = fmt_int (ac_Revision c), sr_Channel = ac_Channel c\<rparr>"

definition package_info :: "string \<Rightarrow> apiInfo \<Rightarrow> storeInfoAPIInfo" where
  "package_info pkgType info = \<lparr>si_Type = pkgType, si_ID = ai_PackageID info, si_Publisher = ai_DisplayName info,
     si_RevInfo = fold (\<lambda>c m. map_set (ac_Sha3_384 c) (revision_info c) m) (ai_ChannelMap info) []\<rparr>"

definition recognised_info :: "apiInfo \<Rightarrow> bool" where
  "recognised_info info \<longleftrightarrow> ai_ChannelMap info \<noteq> [] \<and> ac_URL (hd (ai_ChannelMap info)) \<noteq> [] \<and> ai_Username info \<noteq> [] \<and>
     ai_Name info \<noteq> [] \<and> ai_PackageID info \<noteq> []"

definition complete_metadata :: "BldBinMetadata \<Rightarrow> bool" where
  "complete_metadata m \<longleftrightarrow> bm_Name m \<noteq> [] \<and> bm_Version m \<noteq> [] \<and> bm_Base m \<noteq> [] \<and> bm_Architecture m \<noteq> []"

definition bin_md :: "BldBinMetadata \<Rightarrow> ArtifactMetadata" where
  "bin_md m = NoMetadata\<lparr>am_Type := ''application/x.canonical.bld-bin-package'', am_Name := bm_Name m, am_Version := bm_Version m,
     am_Description := bm_Summary m, am_Architecture := bm_Architecture m, am_License := bm_License m, am_Vendor := bm_Contact m\<rparr>"

definition sha3_384Digest :: "api_env \<Rightarrow> string \<Rightarrow> string result" where
  "sha3_384Digest env f = (case ae_sha3 env f of Inl err \<Rightarrow> Inl err | Inr d \<Rightarrow> Inr (hex_EncodeToString d))"

definition check_bin_digest :: "api_env \<Rightarrow> store_ids \<Rightarrow> string \<Rightarrow> BldBinMetadata \<Rightarrow> Artifact \<Rightarrow> go_error option \<times> Artifact" where
  "check_bin_digest env ids f m a =
     (case sha3_384Digest env f of Inl err \<Rightarrow> (Some err, a)
      | Inr sha3 \<Rightarrow>
        (case findInfo ids sha3 of
           None \<Rightarrow> (None, SetResponseRejected ID_info_api ''file digest does not match any store info API request'' (bin_md m) a)
         | Some (info, revision, channel) \<Rightarrow>
           (if si_Type info = ''bins'' then
              (None, annotate_response ID_info_api [(''package-id'', AnyString (si_ID info)), (''revision'', AnyString revision),
                  (''digest'', AnyString sha3), (''channel'', AnyString channel)]
                (SetResponseUnknown ID_info_api ''file digest matches store info API bin request'' (bin_md m) a))
            else
              (None, annotate_response ID_info_api [(''package-id'', AnyString (si_ID info)), (''type'', AnyString (si_Type info)),
                  (''digest'', AnyString sha3), (''channel'', AnyString channel)]
                (SetResponseRejected ID_info_api ''file digest matches a request for a different package type'' (bin_md m) a)))))"

fun bin_members ::
  "api_env \<Rightarrow> store_ids \<Rightarrow> string \<Rightarrow> bool \<Rightarrow> go_error \<Rightarrow> (string \<times> body_reader) list \<Rightarrow> Artifact \<Rightarrow> go_error option \<times> Artifact" where
  "bin_members env ids f isTarball err [] a = (if err \<noteq> io_EOF \<and> isTarball then Some err else None, a)"
| "bin_members env ids f isTarball err ((name, tf) # ms) a =
     (if name \<noteq> ''./metadata.yaml'' then bin_members env ids f True err ms a
      else (case ae_yaml env tf of Inl e \<Rightarrow> (Some e, a)
        | Inr m \<Rightarrow> if \<not> complete_metadata m then (None, a) else check_bin_digest env ids f m a))"

definition validateBldBin :: "api_env \<Rightarrow> store_ids \<Rightarrow> string \<Rightarrow> Artifact \<Rightarrow> go_error option \<times> Artifact" where
  "validateBldBin env ids f a =
     (case ae_xz_tar env f of Inl _ \<Rightarrow> (None, a) | Inr (ms, err) \<Rightarrow> bin_members env ids f False err ms a)"

definition InfoAPI_InspectArtifact :: "api_env \<Rightarrow> string \<Rightarrow> store_ids \<Rightarrow> Artifact \<Rightarrow> go_error option \<times> Artifact \<times> store_ids" where
  "InfoAPI_InspectArtifact env f ids a =
     (if MimetypeIs a ''application/x-xz'' then (case validateBldBin env ids f a of (err, a') \<Rightarrow> (err, a', ids))
      else if \<not> MimetypeIs a ''application/json'' then (None, a, ids)
      else (case ae_info env f of Inl _ \<Rightarrow> (None, a, ids)
        | Inr info \<Rightarrow>
          (if \<not> recognised_info info then (None, a, ids)
           else (case RequestStringAnnotation a ID_info_api ''type'' of (pkgType, ok) \<Rightarrow>
             if \<not> ok then (None, a, ids)
             else (None, annotate_response ID_info_api
                 [(''name'', AnyString (ai_Name info)), (''type'', AnyString pkgType), (''package-id'', AnyString (ai_PackageID info)),
                  (''publisher'', AnyString (ai_DisplayName info))]
                 (SetResponseApproved ID_info_api ''valid store info API response''
                    (api_md ''application/x.canonical.store.info-api'' ''Store response for info request'') a),
               setInfo (ai_PackageID info) (package_info pkgType info) ids)))))"

definition StoreInfoAPIInspector :: "api_env \<Rightarrow> Glob list \<Rightarrow> Glob list \<Rightarrow> store_ids Inspector" where
  "StoreInfoAPIInspector env cfg bcfg = \<lparr>ins_ID = ID_info_api, ins_InspectRequest = InfoAPI_InspectRequest env cfg bcfg,
     ins_InspectArtifact = InfoAPI_InspectArtifact env\<rparr>"

section \<open>Binaries (bin.go)\<close>

abbreviation ID_bld_bin :: string where "ID_bld_bin \<equiv> ''bld.bin''"

definition BldBin_InspectRequest :: "api_env \<Rightarrow> Glob list \<Rightarrow> Artifact \<Rightarrow> go_error option \<times> Artifact" where
  "BldBin_InspectRequest env cfg a =
     (case ae_Parse env (DownloadURL a) of Inl err \<Rightarrow> (Some (api_url_error err), a)
      | Inr u \<Rightarrow> (case NewBldBinURLInfo u cfg of Inl _ \<Rightarrow> (None, a)
          | Inr _ \<Rightarrow> (None, SetRequestPending ID_bld_bin ''valid URL for bin package download'' a)))"

fun bld_bin_members :: "api_env \<Rightarrow> string \<Rightarrow> string \<Rightarrow> (string \<times> body_reader) list \<Rightarrow> Artifact \<Rightarrow> go_error option \<times> Artifact" where
  "bld_bin_members env packageID revision [] a = (None, a)"
| "bld_bin_members env packageID revision ((name, tf) # ms) a =
     (if name \<noteq> ''./metadata.yaml'' then bld_bin_members env packageID revision ms a
      else (case ae_yaml env tf of Inl e \<Rightarrow> (Some e, a)
        | Inr m \<Rightarrow> if \<not> complete_metadata m then (None, a)
                 else (None, SetResponseApproved ID_bld_bin ''bin package metadata parsed''
                        ((bin_md m)\<lparr>am_StoreRevision := revision, am_ContentID := packageID\<rparr>) a)))"

definition BldBin_InspectArtifact :: "api_env \<Rightarrow> string \<Rightarrow> 'w \<Rightarrow> Artifact \<Rightarrow> go_error option \<times> Artifact \<times> 'w" where
  "BldBin_InspectArtifact env f w a =
     (case ae_xz_tar env f of Inl _ \<Rightarrow> (None, a, w)
      | Inr (ms, _) \<Rightarrow>
        (case bld_bin_members env (fst (RequestStringAnnotation a ID_info_api ''package-id''))
                (fst (ResponseStringAnnotation a ID_info_api ''revision'')) ms a of (err, a') \<Rightarrow> (err, a', w)))"

definition BldBinInspector :: "api_env \<Rightarrow> Glob list \<Rightarrow> 'w Inspector" where
  "BldBinInspector env cfg = \<lparr>ins_ID = ID_bld_bin, ins_InspectRequest = BldBin_InspectRequest env cfg,
     ins_InspectArtifact = BldBin_InspectArtifact env\<rparr>"

section \<open>Revisions (resolve\_api.go)\<close>

definition ResolveAPI_InspectRequest :: "api_env \<Rightarrow> Glob list \<Rightarrow> Artifact \<Rightarrow> go_error option \<times> Artifact" where
  "ResolveAPI_InspectRequest env cfg a =
     (case ae_Parse env (DownloadURL a) of Inl err \<Rightarrow> (Some (api_url_error err), a)
      | Inr u \<Rightarrow> (case NewStoreResolveAPIURLInfo u cfg of Inl _ \<Rightarrow> (None, a)
          | Inr _ \<Rightarrow> (None, SetRequestPending ''store.resolve-api'' ''valid URL for store resolve API endpoint'' a)))"

definition ResolveAPI_InspectArtifact :: "api_env \<Rightarrow> string \<Rightarrow> 'w \<Rightarrow> Artifact \<Rightarrow> go_error option \<times> Artifact \<times> 'w" where
  "ResolveAPI_InspectArtifact env f w a =
     (if \<not> MimetypeIs a ''application/json'' then (None, a, w)
      else (case ae_resolve env f of Inl _ \<Rightarrow> (None, a, w)
        | Inr (crafts, packages) \<Rightarrow>
          (case crafts @ packages of [] \<Rightarrow> (None, a, w)
           | result # _ \<Rightarrow>
             (if rr_Namespace result = [] then (None, a, w)
              else if rr_Status result \<noteq> ''ok'' \<and> rr_Status result \<noteq> ''error'' then (None, a, w)
              else (let md = api_md ''application/x.canonical.store.resolve-api'' ''Store response for resolve_revisions request'';
                        note = [(''resolved-craft-list'', AnyStrings (map rr_Name crafts)), (''resolved-package-list'', AnyStrings (map rr_Name packages)),
                                (''instance-key'', AnyString (rr_InstanceKey result))] in
                if rr_Namespace result \<notin> {''bin'', ''charm'', ''rock'', ''snap''} then
                  (None, annotate_response ''store.resolve-api'' (map_set ''namespace'' (AnyString (rr_Namespace result)) note)
                     (SetResponseRejected ''store.resolve-api'' ''invalid namespace'' md a), w)
                else (None, annotate_response ''store.resolve-api'' note
                     (SetResponseApproved ''store.resolve-api'' ''valid store resolve_revisions API response'' md a), w))))))"

definition StoreResolveAPIInspector :: "api_env \<Rightarrow> Glob list \<Rightarrow> 'w Inspector" where
  "StoreResolveAPIInspector env cfg = \<lparr>ins_ID = ''store.resolve-api'', ins_InspectRequest = ResolveAPI_InspectRequest env cfg,
     ins_InspectArtifact = ResolveAPI_InspectArtifact env\<rparr>"

section \<open>Transforms (transforms\_api.go)\<close>

definition TransformsAPI_InspectRequest :: "api_env \<Rightarrow> Glob list \<Rightarrow> Artifact \<Rightarrow> go_error option \<times> Artifact" where
  "TransformsAPI_InspectRequest env cfg a =
     (case ae_Parse env (DownloadURL a) of Inl err \<Rightarrow> (Some (api_url_error err), a)
      | Inr u \<Rightarrow> (case NewStoreTransformsAPIURLInfo u cfg of Inl _ \<Rightarrow> (None, a)
          | Inr _ \<Rightarrow> (None, SetRequestPending ''store.transforms-api'' ''valid URL for store transforms API endpoint'' a)))"

definition transforms_md :: ArtifactMetadata where
  "transforms_md = api_md ''application/x.canonical.store.transforms-api'' ''Store response for workspace transforms request''"

fun transforms_loop :: "string \<Rightarrow> string list \<Rightarrow> transform list \<Rightarrow> Artifact \<Rightarrow> Artifact" where
  "transforms_loop ws acc [] a = annotate_response ''store.transforms-api'' [(''workspace-id'', AnyString ws), (''transforms'', AnyStrings acc)]
     (SetResponseApproved ''store.transforms-api'' ''valid store transforms API response'' transforms_md a)"
| "transforms_loop ws acc (t # ts) a =
     (if tr_Type t \<noteq> ''bin'' then
        annotate_response ''store.transforms-api'' [(''workspace-id'', AnyString ws), (''package-name'', AnyString (tr_Name t)), (''package-type'', AnyString (tr_Type t))]
          (SetResponseRejected ''store.transforms-api'' ''invalid package type'' transforms_md a)
      else transforms_loop ws (acc @ [tr_Name t @ '' from '' @ tr_From t @ '' to '' @ tr_To t]) ts a)"

definition TransformsAPI_InspectArtifact :: "api_env \<Rightarrow> string \<Rightarrow> 'w \<Rightarrow> Artifact \<Rightarrow> go_error option \<times> Artifact \<times> 'w" where
  "TransformsAPI_InspectArtifact env f w a =
     (if \<not> MimetypeIs a ''application/json'' then (None, a, w)
      else (case ae_transforms env f of Inl _ \<Rightarrow> (None, a, w)
        | Inr (ws, None) \<Rightarrow> (None, a, w)
        | Inr (ws, Some ts) \<Rightarrow> if ws = [] then (None, a, w) else (None, transforms_loop ws [] ts a, w)))"

definition StoreTransformsAPIInspector :: "api_env \<Rightarrow> Glob list \<Rightarrow> 'w Inspector" where
  "StoreTransformsAPIInspector env cfg = \<lparr>ins_ID = ''store.transforms-api'', ins_InspectRequest = TransformsAPI_InspectRequest env cfg,
     ins_InspectArtifact = TransformsAPI_InspectArtifact env\<rparr>"

section \<open>Media (appmedia.go)\<close>

definition AppMedia_InspectRequest :: "api_env \<Rightarrow> Glob list \<Rightarrow> Artifact \<Rightarrow> go_error option \<times> Artifact" where
  "AppMedia_InspectRequest env cfg a =
     (case ae_Parse env (DownloadURL a) of Inl err \<Rightarrow> (Some (api_url_error err), a)
      | Inr u \<Rightarrow> (case NewStoreAppMediaURLInfo u cfg of Inl _ \<Rightarrow> (None, a)
          | Inr _ \<Rightarrow> (None, SetRequestPending ''store.appmedia'' ''valid URL for store app media'' a)))"

definition inspectArtifactPNG :: "api_env \<Rightarrow> string \<Rightarrow> Artifact \<Rightarrow> Artifact" where
  "inspectArtifactPNG env f a =
     (case ae_png env f of Inl _ \<Rightarrow> a
      | Inr (height, width) \<Rightarrow>
        (let note = [(''height'', AnyInt height), (''width'', AnyInt width)];
             md = NoMetadata\<lparr>am_Type := ''application/x.canonical.store.appmedia-png'', am_Name := ''Image file'',
                    am_Description := ''Store media file in PNG format''\<rparr> in
         if InspectorRequestOpinionPending a ''store.appmedia''
         then annotate_response ''store.appmedia'' note (SetResponseApproved ''store.appmedia'' ''store media file in PNG format'' md a)
         else annotate_response ''store.appmedia'' note (SetResponseUnknown ''store.appmedia'' ''unknown PNG image'' md a)))"

definition AppMedia_InspectArtifact :: "api_env \<Rightarrow> string \<Rightarrow> 'w \<Rightarrow> Artifact \<Rightarrow> go_error option \<times> Artifact \<times> 'w" where
  "AppMedia_InspectArtifact env f w a = (None, if MimetypeIs a ''image/png'' then inspectArtifactPNG env f a else a, w)"

definition StoreAppMediaInspector :: "api_env \<Rightarrow> Glob list \<Rightarrow> 'w Inspector" where
  "StoreAppMediaInspector env cfg = \<lparr>ins_ID = ''store.appmedia'', ins_InspectRequest = AppMedia_InspectRequest env cfg,
     ins_InspectArtifact = AppMedia_InspectArtifact env\<rparr>"

end
