(* ===== verification/Store_Props.thy ===== *)
theory Store_Props
  imports Store_Api
begin

text \<open>
  The inspectors of the package store keep the contract of inspectors; a package of binaries passes both of
  its inspectors only with a digest that an approved info response listed.
\<close>

section \<open>Own entries\<close>

lemma check_bin_digest_writes [writes]: "resp_pair ID_info_api a (check_bin_digest env ids f m a)"
  unfolding check_bin_digest_def by (intro writes)

lemma bin_members_writes [writes]: "resp_pair ID_info_api a (bin_members env ids f t err ms a)"
proof (induction ms arbitrary: t)
  case Nil
  show ?case unfolding bin_members.simps by (intro writes)
next
  case (Cons m ms)
  show ?case by (cases m) (simp only: bin_members.simps, intro writes Cons.IH)
qed

interpretation store_info_api: local_inspector "StoreInfoAPIInspector env cfg bcfg"
proof (rule local_inspectorI)
  show "req_result (ins_ID (StoreInfoAPIInspector env cfg bcfg)) a (ins_InspectRequest (StoreInfoAPIInspector env cfg bcfg) a)" for a
    unfolding StoreInfoAPIInspector_def Inspector.simps InfoAPI_InspectRequest_def by (intro writes)
  show "resp_result (ins_ID (StoreInfoAPIInspector env cfg bcfg)) a (ins_InspectArtifact (StoreInfoAPIInspector env cfg bcfg) f w a)" for f w a
    unfolding StoreInfoAPIInspector_def Inspector.simps InfoAPI_InspectArtifact_def validateBldBin_def by (intro writes)
qed

lemma bld_bin_members_writes [writes]: "resp_pair ID_bld_bin a (bld_bin_members env packageID revision ms a)"
proof (induction ms)
  case Nil
  show ?case unfolding bld_bin_members.simps by (intro writes)
next
  case (Cons m ms)
  show ?case by (cases m) (simp only: bld_bin_members.simps, intro writes Cons.IH)
qed

interpretation bld_bin: local_inspector "BldBinInspector env cfg"
proof (rule local_inspectorI)
  show "req_result (ins_ID (BldBinInspector env cfg)) a (ins_InspectRequest (BldBinInspector env cfg) a)" for a
    unfolding BldBinInspector_def Inspector.simps BldBin_InspectRequest_def by (intro writes)
  show "resp_result (ins_ID (BldBinInspector env cfg)) a (ins_InspectArtifact (BldBinInspector env cfg) f w a)" for f w a
    unfolding BldBinInspector_def Inspector.simps BldBin_InspectArtifact_def by (intro writes)
qed

interpretation store_resolve_api: local_inspector "StoreResolveAPIInspector env cfg"
proof (rule local_inspectorI)
  show "req_result (ins_ID (StoreResolveAPIInspector env cfg)) a (ins_InspectRequest (StoreResolveAPIInspector env cfg) a)" for a
    unfolding StoreResolveAPIInspector_def Inspector.simps ResolveAPI_InspectRequest_def by (intro writes)
  show "resp_result (ins_ID (StoreResolveAPIInspector env cfg)) a (ins_InspectArtifact (StoreResolveAPIInspector env cfg) f w a)" for f w a
    unfolding StoreResolveAPIInspector_def Inspector.simps ResolveAPI_InspectArtifact_def by (intro writes)
qed

lemma transforms_loop_writes [writes]: "ends1 (writes_response ''store.transforms-api'' a) (transforms_loop ws acc ts a)"
  by (induction ws acc ts a rule: transforms_loop.induct) (auto intro!: writes)

interpretation store_transforms_api: local_inspector "StoreTransformsAPIInspector env cfg"
proof (rule local_inspectorI)
  show "req_result (ins_ID (StoreTransformsAPIInspector env cfg)) a (ins_InspectRequest (StoreTransformsAPIInspector env cfg) a)" for a
    unfolding StoreTransformsAPIInspector_def Inspector.simps TransformsAPI_InspectRequest_def by (intro writes)
  show "resp_result (ins_ID (StoreTransformsAPIInspector env cfg)) a (ins_InspectArtifact (StoreTransformsAPIInspector env cfg) f w a)" for f w a
    unfolding StoreTransformsAPIInspector_def Inspector.simps TransformsAPI_InspectArtifact_def by (intro writes)
qed

interpretation store_appmedia: local_inspector "StoreAppMediaInspector env cfg"
proof (rule local_inspectorI)
  show "req_result (ins_ID (StoreAppMediaInspector env cfg)) a (ins_InspectRequest (StoreAppMediaInspector env cfg) a)" for a
    unfolding StoreAppMediaInspector_def Inspector.simps AppMedia_InspectRequest_def by (intro writes)
  show "resp_result (ins_ID (StoreAppMediaInspector env cfg)) a (ins_InspectArtifact (StoreAppMediaInspector env cfg) f w a)" for f w a
    unfolding StoreAppMediaInspector_def Inspector.simps AppMedia_InspectArtifact_def inspectArtifactPNG_def by (intro writes)
qed

section \<open>Digests of binaries\<close>

text \<open>An info response that the inspector approved: the document, the type of package it was asked for.\<close>

definition info_approved :: "api_env \<Rightarrow> string \<Rightarrow> Artifact \<Rightarrow> string \<Rightarrow> apiInfo \<Rightarrow> bool" where
  "info_approved env f a ty info \<longleftrightarrow> MimetypeIs a ''application/json'' \<and> ae_info env f = Inr info \<and> recognised_info info \<and>
     RequestStringAnnotation a ''store.info-api'' ''type'' = (ty, True)"

text \<open>The packages remembered after a history of files and their artifacts.\<close>

definition info_history :: "api_env \<Rightarrow> Glob list \<Rightarrow> Glob list \<Rightarrow> (string \<times> Artifact) list \<Rightarrow> store_ids" where
  "info_history env cfg bcfg past = fold (\<lambda>(f, a) ids. snd (snd (ins_InspectArtifact (StoreInfoAPIInspector env cfg bcfg) f ids a))) past []"

definition remembered :: "api_env \<Rightarrow> (string \<times> Artifact) list \<Rightarrow> storeInfoAPIInfo \<Rightarrow> bool" where
  "remembered env past x \<longleftrightarrow> (\<exists>(f, a) \<in> set past. \<exists>ty info. info_approved env f a ty info \<and> x = package_info ty info)"

lemma InfoAPI_ids:
  "snd (snd (InfoAPI_InspectArtifact env f ids a)) = ids \<or>
     (\<exists>ty info. info_approved env f a ty info \<and> snd (snd (InfoAPI_InspectArtifact env f ids a)) = map_set (ai_PackageID info) (package_info ty info) ids)"
  by (auto simp: InfoAPI_InspectArtifact_def info_approved_def setInfo_def split: prod.splits sum.splits)

lemma info_history_remembered: "(k, x) \<in> set (info_history env cfg bcfg past) \<Longrightarrow> remembered env past x"
proof (induction past arbitrary: k x rule: rev_induct)
  case Nil
  then show ?case by (simp add: info_history_def)
next
  case (snoc fa past)
  obtain f a where fa: "fa = (f, a)" by fastforce
  let ?ids = "info_history env cfg bcfg past"
  have "(k, x) \<in> set (snd (snd (InfoAPI_InspectArtifact env f ?ids a)))"
    using snoc.prems by (simp add: info_history_def fa StoreInfoAPIInspector_def)
  then have "(k, x) \<in> set ?ids \<or> (\<exists>ty info. info_approved env f a ty info \<and> x = package_info ty info)"
    using InfoAPI_ids [of env f ?ids a] set_map_set by fastforce
  with snoc.IH show ?case by (auto simp: remembered_def fa)
qed

lemma findInfo_Some: "findInfo ids sha3 = Some (info, r, c) \<Longrightarrow> \<exists>k. (k, info) \<in> set ids \<and> map_get (si_RevInfo info) sha3 \<noteq> None"
  by (induction ids sha3 rule: findInfo.induct) (auto split: option.splits)

lemma RevInfo_listed: "map_get (si_RevInfo (package_info ty info)) sha3 \<noteq> None \<Longrightarrow> \<exists>c \<in> set (ai_ChannelMap info). ac_Sha3_384 c = sha3"
proof -
  have "map_get (fold (\<lambda>c m. map_set (ac_Sha3_384 c) (revision_info c) m) cs m) sha3 \<noteq> None \<Longrightarrow>
      map_get m sha3 \<noteq> None \<or> (\<exists>c \<in> set cs. ac_Sha3_384 c = sha3)" for cs m
  proof (induction cs arbitrary: m)
    case (Cons c cs)
    from Cons.IH [of "map_set (ac_Sha3_384 c) (revision_info c) m"] Cons.prems show ?case by (auto split: if_splits)
  qed simp
  from this [of "ai_ChannelMap info" "[]"] show "map_get (si_RevInfo (package_info ty info)) sha3 \<noteq> None \<Longrightarrow> ?thesis"
    by (simp add: package_info_def)
qed

lemma bld_bin_members_approved:
  assumes "bld_bin_members env packageID revision ms b = (e, c)" and "map_get (a_ResponseInspection b) ID_bld_bin = None"
    and "opinion_of (a_ResponseInspection c) ID_bld_bin = Some Approved"
  shows "\<exists>m. \<forall>ids t err a. bin_members env ids f t err ms a = check_bin_digest env ids f m a"
  using assms
proof (induction ms)
  case Nil
  then show ?case by (auto simp: opinion_of_def)
next
  case (Cons x ms)
  obtain name tf where x: "x = (name, tf)" by fastforce
  show ?case
  proof (cases "name = ''./metadata.yaml''")
    case True
    with Cons.prems x obtain m where "ae_yaml env tf = Inr m" "complete_metadata m"
      by (auto simp: opinion_of_def split: sum.splits if_splits)
    with True x show ?thesis by (intro exI [of _ m]) simp
  next
    case False
    with Cons x show ?thesis by auto
  qed
qed

lemma check_bin_digest_passes:
  assumes "check_bin_digest env ids f m a = (None, b)" and "opinion_of (a_ResponseInspection b) ID_info_api \<noteq> Some Rejected"
  shows "\<exists>sha3 k info. sha3_384Digest env f = Inr sha3 \<and> (k, info) \<in> set ids \<and> si_Type info = ''bins'' \<and> map_get (si_RevInfo info) sha3 \<noteq> None"
  using assms
  by (auto simp: check_bin_digest_def opinion_of_def Inspection_Annotate_def split: sum.splits option.splits if_splits prod.splits dest!: findInfo_Some)

section \<open>Claims\<close>


text \<open>A store with one package, an info response and the file it lists.\<close>

definition bin_doc :: apiInfo where
  "bin_doc = \<lparr>ai_ChannelMap = [\<lparr>ac_Channel = ''stable'', ac_Revision = 3, ac_Sha3_384 = ''4142'', ac_Size = 9, ac_URL = ''u''\<rparr>],
     ai_DisplayName = ''P'', ai_Username = ''p'', ai_Name = ''n'', ai_PackageID = ''i''\<rparr>"

definition bin_env :: api_env where
  "bin_env = \<lparr>ae_Parse = (\<lambda>_. Inl io_EOF), ae_info = (\<lambda>_. Inr bin_doc), ae_resolve = (\<lambda>_. Inl io_EOF), ae_transforms = (\<lambda>_. Inl io_EOF),
     ae_png = (\<lambda>_. Inl io_EOF), ae_xz_tar = (\<lambda>_. Inr ([(''./metadata.yaml'', \<lparr>br_data = [], br_err = None\<rparr>)], io_EOF)),
     ae_yaml = (\<lambda>_. Inr \<lparr>bm_Name = ''n'', bm_Version = ''1'', bm_Base = ''b'', bm_Architecture = ''all'', bm_Summary = [], bm_License = [], bm_Contact = []\<rparr>),
     ae_sha3 = (\<lambda>_. Inr ''AB'')\<rparr>"

definition typed_artifact :: "string \<Rightarrow> Artifact" where
  "typed_artifact t = annotate_request ID_info_api [(''type'', AnyString ''bins'')] (SetRequestPending ID_info_api []
     (NewArtifact\<lparr>a_MimeType := Some \<lparr>mime_String = t, mime_Is = (\<lambda>x. x = t)\<rparr>\<rparr>))"

definition bin_past :: "(string \<times> Artifact) list" where
  "bin_past = [([], typed_artifact ''application/json'')]"

abbreviation bin_file :: Artifact where "bin_file \<equiv> typed_artifact ''application/x-xz''"

definition bin_first :: "go_error option \<times> Artifact \<times> store_ids" where
  "bin_first = ins_InspectArtifact (StoreInfoAPIInspector bin_env [] []) [] (info_history bin_env [] [] bin_past) bin_file"

definition bin_second :: "go_error option \<times> Artifact \<times> unit" where
  "bin_second = ins_InspectArtifact (BldBinInspector bin_env []) [] () (fst (snd bin_first))"

lemma bin_runs:
  "fst bin_first = None" "opinion_of (a_ResponseInspection (fst (snd bin_second))) ''bld.bin'' = Some Approved"
  "opinion_of (a_ResponseInspection (fst (snd bin_second))) ''store.info-api'' = Some Unknown"
  by code_simp+


text \<open>
  The package identifier of an approved package of binaries is always empty: the code looks for it in the
  annotations of the request, where the info inspector never puts it.
\<close>

theorem bin_package_id_is_never_noted:
  assumes "InfoAPI_InspectRequest env cfg bcfg a = (None, b)" and "map_get (a_RequestInspection a) ''store.info-api'' = None"
  shows "RequestStringAnnotation b ''store.info-api'' ''package-id'' = ([], False)"
  using assms
  by (auto simp: InfoAPI_InspectRequest_def RequestStringAnnotation_def inspectionAnnotation_def Inspection_Annotate_def split: sum.splits prod.splits)

end
