(* ===== verification/Pip.thy ===== *)
theory Pip
  imports Pipeline File_Utils Base64 Openpgp
begin

text \<open>
  \<^verbatim>\<open>inspectors/pip\<close>: wheels (\<^verbatim>\<open>wheel.go\<close>), source distributions (\<^verbatim>\<open>sdist.go\<close>), metadata files (\<^verbatim>\<open>metadata.go\<close>), simple
  indexes (\<^verbatim>\<open>simple_index.go\<close>) and the addresses they come from (\<^verbatim>\<open>urls.go\<close>).

  Arguments (\<^theory_text>\<open>pip_env\<close>) stand for \<^verbatim>\<open>url.Parse\<close>, the readers of zip, gzip and tar archives, the HTML tokenizer
  (its tokens and the error it ends with), SHA-256, the temporary file and the licence checker, which
  sees the content of that file.
\<close>

record zip_member =
  zm_Name :: string
  zm_IsDir :: bool
  zm_Size :: int
  zm_Open :: "body_reader result"

datatype html_token = HtmlTag string "(string \<times> string) list" | HtmlOther

record pip_env =
  pe_Parse :: "string \<Rightarrow> url result"
  pe_zip :: "string \<Rightarrow> zip_member list result"
  pe_gzip :: "string \<Rightarrow> body_reader result"
  pe_tar :: "body_reader \<Rightarrow> (string \<times> body_reader) list"
  pe_html :: "string \<Rightarrow> html_token list \<times> go_error"
  pe_sha256 :: "string \<Rightarrow> Sha256Digest"
  pe_CreateTemp :: "go_error option"
  pe_Fprintln :: "string \<Rightarrow> go_error option"
  pe_Flush :: "string \<Rightarrow> go_error option"
  pe_Close :: "string \<Rightarrow> go_error option"
  pe_licensecheck :: "string \<Rightarrow> string result"

section \<open>Addresses (urls.go)\<close>

definition pip_validOrigins :: "(string \<Rightarrow> bool) list" where
  "pip_validOrigins = [\<lambda>origin. origin = ''https://files.pythonhosted.org:443'']"

text \<open>The loop fails at the first origin that does not match.\<close>

fun check_origins :: "(string \<Rightarrow> bool) list \<Rightarrow> string \<Rightarrow> go_error option" where
  "check_origins [] origin = None"
| "check_origins (h # hs) origin = (if \<not> h origin then Some (Errorf (''invalid origin '' @ origin)) else check_origins hs origin)"

definition pip_checkValidOrigin :: "url \<Rightarrow> go_error option" where
  "pip_checkValidOrigin u = check_origins pip_validOrigins (u_Scheme u @ ''://'' @ u_Host u)"

definition rePackages :: "string \<Rightarrow> rx" where
  "rePackages suffix = rx_seq [lit ''/packages/'', rx_times 2 (Cls is_hex), lit ''/'', rx_times 2 (Cls is_hex), lit ''/'', rx_times 60 (Cls is_hex),
     lit ''/'', rx_plus any_char, lit ''-'', rx_plus (Cls (\<lambda>c. is_word c \<or> c = CHR ''.'' \<or> c = CHR ''-'')), lit suffix]"

definition check_packages_url :: "string \<Rightarrow> url \<Rightarrow> go_error option" where
  "check_packages_url suffix u =
     (case pip_checkValidOrigin u of Some err \<Rightarrow> Some err
      | None \<Rightarrow> if \<not> MatchString True (rePackages suffix) True (u_Path u) then Some (Errorf (''invalid URL path '' @ u_Path u)) else None)"

definition checkWheelURL :: "url \<Rightarrow> go_error option" where "checkWheelURL = check_packages_url ''.whl''"

definition checkSdistURL :: "url \<Rightarrow> go_error option" where "checkSdistURL = check_packages_url ''.tar.gz''"

definition checkMetadataURL :: "url \<Rightarrow> go_error option" where "checkMetadataURL = check_packages_url ''.metadata''"

text \<open>The three inspectors treat a request alike: PyPI itself is not a supported origin.\<close>

definition pip_request :: "pip_env \<Rightarrow> string \<Rightarrow> (url \<Rightarrow> go_error option) \<Rightarrow> Artifact \<Rightarrow> go_error option \<times> Artifact" where
  "pip_request env iid check a =
     (case pe_Parse env (DownloadURL a) of Inl err \<Rightarrow> (Some (Errorf (''cannot parse URL: '' @ err_Error err)), a)
      | Inr u \<Rightarrow> (None, if check u = None then SetRequestUnknown iid ''unsupported origin'' a else a))"

section \<open>Metadata fields\<close>

record pip_fields =
  pf_mver :: string
  pf_name :: string
  pf_version :: string
  pf_summary :: string
  pf_author :: string
  pf_email :: string
  pf_maintainer :: string

definition no_fields :: pip_fields where
  "no_fields = \<lparr>pf_mver = [], pf_name = [], pf_version = [], pf_summary = [], pf_author = [], pf_email = [], pf_maintainer = []\<rparr>"

definition pip_field :: "string \<Rightarrow> pip_fields \<Rightarrow> pip_fields" where
  "pip_field line s =
     (case strings_Cut line CHR '':'' of None \<Rightarrow> s
      | Some (k, v0) \<Rightarrow>
        (let v = strings_TrimSpace v0; key = strings_ToLower k in
         if key = ''metadata-version'' then s\<lparr>pf_mver := v\<rparr>
         else if key = ''name'' then s\<lparr>pf_name := v\<rparr>
         else if key = ''version'' then s\<lparr>pf_version := v\<rparr>
         else if key = ''summary'' then s\<lparr>pf_summary := v\<rparr>
         else if key = ''author'' then s\<lparr>pf_author := v\<rparr>
         else if key = ''author-email'' then s\<lparr>pf_email := v\<rparr>
         else if key = ''maintainer'' then s\<lparr>pf_maintainer := v\<rparr>
         else s))"

text \<open>The lines up to the first empty one, the fields they set, and the copy of them for the licence checker.\<close>

definition head_lines :: "string \<Rightarrow> string list" where
  "head_lines text = takeWhile (\<lambda>l. l \<noteq> []) (scan_lines max_token text)"

definition read_fields :: "string list \<Rightarrow> pip_fields" where
  "read_fields ls = fold pip_field ls no_fields"

definition lines_copy :: "string list \<Rightarrow> string" where
  "lines_copy ls = concat (map (\<lambda>l. l @ [CHR 0x0A]) ls)"

definition fallback_vendor :: "pip_fields \<Rightarrow> string" where
  "fallback_vendor s = (if pf_author s \<noteq> [] then pf_author s else pf_maintainer s)"

definition package_md :: "string \<Rightarrow> pip_fields \<Rightarrow> string \<Rightarrow> ArtifactMetadata" where
  "package_md mtype s license = NoMetadata\<lparr>am_Type := mtype, am_Name := pf_name s, am_Version := pf_version s, am_Description := pf_summary s,
     am_Author := pf_author s, am_AuthorEmail := pf_email s, am_Vendor := fallback_vendor s, am_License := license\<rparr>"

section \<open>Wheels (wheel.go)\<close>

abbreviation ID_wheel :: string where "ID_wheel \<equiv> ''pip.wheel''"
abbreviation mt_PythonWheel :: string where "mt_PythonWheel \<equiv> ''application/x.python.wheel''"

record wheelNotes =
  wn_Annotation :: Annotation
  wn_requirementFaults :: "string list"
  wn_integrityFaults :: "string list"
  wn_missingFiles :: "string list"
  wn_extraFiles :: "string list"

definition newWheelNotes :: wheelNotes where
  "newWheelNotes = \<lparr>wn_Annotation = [], wn_requirementFaults = [], wn_integrityFaults = [], wn_missingFiles = [], wn_extraFiles = []\<rparr>"

definition note_Add :: "string \<Rightarrow> any \<Rightarrow> wheelNotes \<Rightarrow> wheelNotes" where
  "note_Add k v n = n\<lparr>wn_Annotation := Annotation_Add (wn_Annotation n) k v\<rparr>"

definition requirementFault :: "string \<Rightarrow> wheelNotes \<Rightarrow> wheelNotes" where
  "requirementFault text n = n\<lparr>wn_requirementFaults := wn_requirementFaults n @ [text]\<rparr>"

definition integrityFault :: "string \<Rightarrow> wheelNotes \<Rightarrow> wheelNotes" where
  "integrityFault text n = n\<lparr>wn_integrityFaults := wn_integrityFaults n @ [text]\<rparr>"

definition missingFile :: "string \<Rightarrow> wheelNotes \<Rightarrow> wheelNotes" where
  "missingFile name n = n\<lparr>wn_missingFiles := wn_missingFiles n @ [name]\<rparr>"

definition extraFile :: "string \<Rightarrow> wheelNotes \<Rightarrow> wheelNotes" where
  "extraFile name n = n\<lparr>wn_extraFiles := wn_extraFiles n @ [name]\<rparr>"

definition reDistInfo :: "rx \<Rightarrow> string \<Rightarrow> rx" where
  "reDistInfo middle name = rx_seq [rx_plus (Cls is_word), lit ''-'', middle, lit (''.dist-info/'' @ name)]"

definition not_slash :: rx where "not_slash = Cls (\<lambda>c. c \<noteq> CHR ''/'')"

definition wheelPatterns :: "(string \<Rightarrow> bool) list" where
  "wheelPatterns = map (\<lambda>n. MatchString True (reDistInfo (rx_plus not_slash) n) True) [''WHEEL'', ''METADATA'', ''RECORD'']"

text \<open>An error of flushing the copy of the metadata is ignored, one of writing it is not.\<close>

definition scanWheelMetadata :: "pip_env \<Rightarrow> string \<Rightarrow> (ArtifactMetadata \<times> string) result" where
  "scanWheelMetadata env text =
     (case pe_CreateTemp env of Some err \<Rightarrow> Inl err
      | None \<Rightarrow>
        (let ls = head_lines text; s = read_fields ls in
         case pe_Fprintln env (lines_copy ls) of Some err \<Rightarrow> Inl err
         | None \<Rightarrow> (case GetLicense (pe_licensecheck env) (lines_copy ls) of Inl err \<Rightarrow> Inl err
             | Inr license \<Rightarrow> Inr (package_md mt_PythonWheel s license, pf_mver s))))"

definition wheel_requirements :: "ArtifactMetadata \<Rightarrow> string \<Rightarrow> wheelNotes \<Rightarrow> wheelNotes" where
  "wheel_requirements md ver n =
     (let n1 = (if am_Name md = [] then requirementFault ''wheel name not found'' n else n);
          n2 = (if am_Version md = [] then requirementFault ''wheel version not found'' n1 else n1) in
      if ver = [] then requirementFault ''wheel metadata version not found'' n2
      else note_Add ''metadata-version'' (AnyString ver) n2)"

fun wheel_metadata :: "pip_env \<Rightarrow> wheelNotes \<Rightarrow> zip_member list \<Rightarrow> (ArtifactMetadata \<times> wheelNotes) result" where
  "wheel_metadata env n [] = Inr (NoMetadata, requirementFault ''METADATA file not found'' n)"
| "wheel_metadata env n (f # fs) =
     (if \<not> MatchString True (reDistInfo (rx_plus not_slash) ''METADATA'') True (zm_Name f) then wheel_metadata env n fs
      else (case zm_Open f of Inl err \<Rightarrow> Inl err
        | Inr zf \<Rightarrow> (case scanWheelMetadata env (br_data zf) of Inl err \<Rightarrow> Inl err
            | Inr (md, ver) \<Rightarrow> Inr (md, wheel_requirements md ver n))))"

definition readWheelMetadata :: "pip_env \<Rightarrow> string \<Rightarrow> wheelNotes \<Rightarrow> (ArtifactMetadata \<times> wheelNotes) result" where
  "readWheelMetadata env f n = (case pe_zip env f of Inl err \<Rightarrow> Inl err | Inr z \<Rightarrow> wheel_metadata env n z)"

record memberFile =
  mf_Name :: string
  mf_Sha256 :: Sha256Digest
  mf_Size :: int

fun wheel_members :: "pip_env \<Rightarrow> memberFile list \<Rightarrow> zip_member list \<Rightarrow> memberFile list result" where
  "wheel_members env res [] = Inr res"
| "wheel_members env res (f # fs) =
     (case zm_Open f of Inl err \<Rightarrow> Inl err
      | Inr zf \<Rightarrow>
        (if zm_IsDir f then wheel_members env res fs
         else (case br_err zf of Some err \<Rightarrow> Inl err
           | None \<Rightarrow> wheel_members env (res @ [\<lparr>mf_Name = zm_Name f, mf_Sha256 = pe_sha256 env (br_data zf), mf_Size = zm_Size f\<rparr>]) fs)))"

definition listWheelFiles :: "pip_env \<Rightarrow> string \<Rightarrow> wheelNotes \<Rightarrow> (memberFile list \<times> wheelNotes) result" where
  "listWheelFiles env f n =
     (case pe_zip env f of Inl err \<Rightarrow> Inl err
      | Inr z \<Rightarrow> (case wheel_members env [] z of Inl err \<Rightarrow> Inl err
          | Inr res \<Rightarrow> Inr (res, note_Add ''files'' (AnyInt (int (length res))) n)))"

text \<open>\<^verbatim>\<open>base64.RawURLEncoding.DecodeString\<close>: the URL alphabet, without padding.\<close>

definition raw_url_decode :: "string \<Rightarrow> string result" where
  "raw_url_decode s =
     (let t = filter (\<lambda>c. c \<noteq> CHR 0x0A \<and> c \<noteq> CHR 0x0D) s;
          u = map (\<lambda>c. if c = CHR ''-'' then CHR ''+'' else if c = CHR ''_'' then CHR ''/'' else c) t;
          pad = (if length t mod 4 = 2 then ''=='' else if length t mod 4 = 3 then ''='' else []) in
      if CHR ''+'' \<in> set t \<or> CHR ''/'' \<in> set t \<or> CHR ''='' \<in> set t then Inl base64_CorruptInputError
      else (case b64_groups (u @ pad) of None \<Rightarrow> Inl base64_CorruptInputError | Some d \<Rightarrow> Inr d))"

text \<open>\<^verbatim>\<open>copy(recordDigest[:], dst)\<close>: 32 bytes, cut off or filled with zeros.\<close>

definition record_digest :: "string \<Rightarrow> Sha256Digest" where
  "record_digest dst = take 32 (dst @ replicate 32 CHR 0x00)"

type_synonym file_map = "(string, memberFile) gomap"

text \<open>One line of \<^verbatim>\<open>RECORD\<close>: why the loop stops, or the files left to account for and whether the line counts.\<close>

datatype record_stop = Fault string | Missing string | RecordPanic

definition quote_arg :: "string \<Rightarrow> string" where
  "quote_arg s = [CHR 0x27] @ s @ [CHR 0x27]"

definition check_digest :: "file_map \<Rightarrow> string \<Rightarrow> string \<Rightarrow> record_stop + file_map" where
  "check_digest files name digest =
     (case strings_SplitN2 digest CHR ''='' of
        [] \<Rightarrow> Inl RecordPanic
      | alg # rest \<Rightarrow>
        (if alg \<noteq> ''sha256'' then Inl (Fault (name @ '': unknown digest type '' @ quote_arg alg))
         else (case rest of [] \<Rightarrow> Inl RecordPanic
           | enc # _ \<Rightarrow>
             (case raw_url_decode enc of Inl err \<Rightarrow> Inl (Fault (name @ '': digest decode error: '' @ err_Error err))
              | Inr dst \<Rightarrow>
                (case map_get files name of None \<Rightarrow> Inl (Missing name)
                 | Some member \<Rightarrow>
                   (if mf_Sha256 member \<noteq> record_digest dst then Inl (Fault (name @ '': digest mismatch''))
                    else Inr (map_del name files)))))))"

definition record_line :: "string \<Rightarrow> file_map \<Rightarrow> string \<Rightarrow> record_stop + (file_map \<times> nat)" where
  "record_line rname files line =
     (case strings_Split line CHR '','' of
        [name, digest, sz] \<Rightarrow>
          (if digest = [] \<and> name = rname then Inr (map_del name files, 0)
           else (case ParseInt sz 10 64 of Inl _ \<Rightarrow> Inl (Fault (name @ '': malformed size '' @ quote_arg sz @ '' in RECORD''))
             | Inr recorded \<Rightarrow>
               (let member_size = (case map_get files name of None \<Rightarrow> 0 | Some f \<Rightarrow> mf_Size f) in
                if recorded \<noteq> member_size
                then Inl (Fault (name @ '': file size '' @ fmt_int member_size @ '' does not match recorded size '' @ fmt_int recorded))
                else (case check_digest files name digest of Inl stop \<Rightarrow> Inl stop | Inr files' \<Rightarrow> Inr (files', 1)))))
      | _ \<Rightarrow> Inl (Fault (''malformed RECORD entry: '' @ quote_arg line)))"

fun record_loop :: "string \<Rightarrow> file_map \<Rightarrow> nat \<Rightarrow> string list \<Rightarrow> record_stop + (file_map \<times> nat)" where
  "record_loop rname files num [] = Inr (files, num)"
| "record_loop rname files num (line # sc) =
     (case record_line rname files line of Inl stop \<Rightarrow> Inl stop
      | Inr (files', k) \<Rightarrow> record_loop rname files' (num + k) sc)"

definition file_map_of :: "memberFile list \<Rightarrow> file_map" where
  "file_map_of files = fold (\<lambda>f m. map_set (mf_Name f) f m) files []"

definition checkRecord :: "string \<Rightarrow> string \<Rightarrow> memberFile list \<Rightarrow> wheelNotes \<Rightarrow> go_error option \<times> wheelNotes" where
  "checkRecord text rname files n =
     (case record_loop rname (file_map_of files) 0 (scan_lines max_token text) of
        Inl (Fault m) \<Rightarrow> (None, integrityFault m n)
      | Inl (Missing name) \<Rightarrow> (None, missingFile name n)
      | Inl RecordPanic \<Rightarrow> (Some runtime_panic, n)
      | Inr (left, num) \<Rightarrow> (None, fold (\<lambda>(k, _) n. extraFile k n) left (note_Add ''parsed-record-entries'' (AnyInt (int num)) n)))"

fun wheel_record :: "memberFile list \<Rightarrow> wheelNotes \<Rightarrow> zip_member list \<Rightarrow> go_error option \<times> wheelNotes" where
  "wheel_record files n [] = (Some (Errorf ''RECORD file not found''), n)"
| "wheel_record files n (f # fs) =
     (if \<not> MatchString True (reDistInfo (Star not_slash) ''RECORD'') True (zm_Name f) then wheel_record files n fs
      else (case zm_Open f of Inl err \<Rightarrow> (Some err, n) | Inr zf \<Rightarrow> checkRecord (br_data zf) (zm_Name f) files n))"

definition readWheelRecord :: "pip_env \<Rightarrow> string \<Rightarrow> memberFile list \<Rightarrow> wheelNotes \<Rightarrow> go_error option \<times> wheelNotes" where
  "readWheelRecord env f files n = (case pe_zip env f of Inl err \<Rightarrow> (Some err, n) | Inr z \<Rightarrow> wheel_record files n z)"

definition note_if :: "string \<Rightarrow> string list \<Rightarrow> wheelNotes \<Rightarrow> wheelNotes" where
  "note_if key xs n = (if xs \<noteq> [] then note_Add key (AnyStrings xs) n else n)"

definition processOpinion :: "ArtifactMetadata \<Rightarrow> wheelNotes \<Rightarrow> Artifact \<Rightarrow> Artifact" where
  "processOpinion md n a =
     (if wn_requirementFaults n \<noteq> [] then
        annotate_response ID_wheel (wn_Annotation (note_Add ''faults'' (AnyStrings (wn_requirementFaults n)) n))
          (SetResponseRejected ID_wheel ''wheel file requirements not met'' md a)
      else if wn_integrityFaults n \<noteq> [] \<or> wn_missingFiles n \<noteq> [] \<or> wn_extraFiles n \<noteq> [] then
        annotate_response ID_wheel
          (wn_Annotation (note_if ''extra-files'' (wn_extraFiles n)
             (note_if ''missing-files'' (wn_missingFiles n) (note_if ''faults'' (wn_integrityFaults n) n))))
          (SetResponseRejected ID_wheel ''wheel file parsed but failed integrity verification'' md a)
      else annotate_response ID_wheel (wn_Annotation n) (SetResponseApproved ID_wheel ''wheel file successfully parsed'' md a))"

definition inspect_wheel :: "pip_env \<Rightarrow> string \<Rightarrow> Artifact \<Rightarrow> go_error option \<times> Artifact" where
  "inspect_wheel env f a =
     (case readWheelMetadata env f newWheelNotes of Inl err \<Rightarrow> (Some err, a)
      | Inr (md, n1) \<Rightarrow>
        (if am_Type md \<noteq> mt_PythonWheel then (None, a)
         else (case listWheelFiles env f n1 of Inl err \<Rightarrow> (Some err, a)
           | Inr (files, n2) \<Rightarrow>
             (case readWheelRecord env f files n2 of (Some err, _) \<Rightarrow> (Some err, a)
              | (None, n3) \<Rightarrow> (None, processOpinion md n3 a)))))"

text \<open>The search for the three files is made twice.\<close>

definition Wheel_InspectArtifact :: "pip_env \<Rightarrow> string \<Rightarrow> 'w \<Rightarrow> Artifact \<Rightarrow> go_error option \<times> Artifact \<times> 'w" where
  "Wheel_InspectArtifact env f w a =
     (if \<not> MimetypeIs a ''application/zip'' then (None, a, w)
      else (let names = (case pe_zip env f of Inl err \<Rightarrow> Inl err | Inr z \<Rightarrow> Inr (map zm_Name z)) in
        if \<not> ZipMatches names wheelPatterns then (None, a, w)
        else if \<not> ZipMatches names wheelPatterns then (None, a, w)
        else (case inspect_wheel env f a of (err, a') \<Rightarrow> (err, a', w))))"

definition WheelInspector :: "pip_env \<Rightarrow> 'w Inspector" where
  "WheelInspector env = \<lparr>ins_ID = ID_wheel, ins_InspectRequest = pip_request env ID_wheel checkWheelURL,
     ins_InspectArtifact = Wheel_InspectArtifact env\<rparr>"

section \<open>Source distributions (sdist.go)\<close>

abbreviation ID_sdist :: string where "ID_sdist \<equiv> ''pip.sdist''"

definition rePkgInfo :: rx where
  "rePkgInfo = rx_seq [rx_plus (Cls is_word), lit ''-'',
     rx_plus (Cls (\<lambda>c. is_digit c \<or> is_upper c \<or> is_lower c \<or> c = CHR ''.'' \<or> c = CHR ''-'')), lit ''/PKG-INFO'']"

definition parsePkgInfo :: "pip_env \<Rightarrow> string \<Rightarrow> Artifact \<Rightarrow> go_error option \<times> Artifact" where
  "parsePkgInfo env text a =
     (case pe_CreateTemp env of Some err \<Rightarrow> (Some err, a)
      | None \<Rightarrow>
        (let ls = head_lines text; s = read_fields ls; copy = lines_copy ls in
         case pe_Fprintln env copy of Some err \<Rightarrow> (Some err, a)
         | None \<Rightarrow> (case pe_Flush env copy of Some err \<Rightarrow> (Some err, a)
           | None \<Rightarrow> (case pe_Close env copy of Some err \<Rightarrow> (Some err, a)
             | None \<Rightarrow>
               (if pf_mver s = [] \<or> pf_name s = [] \<or> pf_version s = [] then (None, a)
                else (case GetLicense (pe_licensecheck env) copy of Inl err \<Rightarrow> (Some err, a)
                  | Inr license \<Rightarrow> (None, annotate_response ID_sdist [(''metadata-version'', AnyString (pf_mver s))]
                      (SetResponseApproved ID_sdist ''sdist file successfully parsed''
                         (package_md ''application/x.python.sdist'' s license) a))))))))"

fun sdist_members :: "pip_env \<Rightarrow> Artifact \<Rightarrow> (string \<times> body_reader) list \<Rightarrow> go_error option \<times> Artifact" where
  "sdist_members env a [] = (None, a)"
| "sdist_members env a ((name, tf) # ms) =
     (if MatchString True rePkgInfo True name then parsePkgInfo env (br_data tf) a else sdist_members env a ms)"

definition Sdist_InspectArtifact :: "pip_env \<Rightarrow> string \<Rightarrow> 'w \<Rightarrow> Artifact \<Rightarrow> go_error option \<times> Artifact \<times> 'w" where
  "Sdist_InspectArtifact env f w a =
     (if \<not> MimetypeIs a ''application/gzip'' then (None, a, w)
      else (case pe_gzip env f of Inl err \<Rightarrow> (Some err, a, w)
        | Inr zf \<Rightarrow> (case sdist_members env a (pe_tar env zf) of (err, a') \<Rightarrow> (err, a', w))))"

definition SdistInspector :: "pip_env \<Rightarrow> 'w Inspector" where
  "SdistInspector env = \<lparr>ins_ID = ID_sdist, ins_InspectRequest = pip_request env ID_sdist checkSdistURL,
     ins_InspectArtifact = Sdist_InspectArtifact env\<rparr>"

section \<open>Metadata files (metadata.go)\<close>

abbreviation ID_pip_metadata :: string where "ID_pip_metadata \<equiv> ''pip.metadata''"

text \<open>The name is set to a sentence about the package, which is not empty even when the name is.\<close>

definition metadata_name :: "string list \<Rightarrow> string" where
  "metadata_name ls =
     (if list_ex (\<lambda>l. case strings_Cut l CHR '':'' of None \<Rightarrow> False | Some (k, _) \<Rightarrow> strings_ToLower k = ''name'') ls
      then ''metadata file for package '' @ quote_arg (pf_name (read_fields ls)) else [])"

definition parseMetadataFile :: "string \<Rightarrow> Artifact \<Rightarrow> Artifact" where
  "parseMetadataFile f a =
     (let ls = head_lines f; s = read_fields ls; name = metadata_name ls in
      if pf_mver s = [] \<or> name = [] \<or> pf_version s = [] then a
      else annotate_response ID_pip_metadata [(''metadata-version'', AnyString (pf_mver s))]
        (SetResponseApproved ID_pip_metadata ''metadata file successfully parsed''
           (NoMetadata\<lparr>am_Type := ''application/x.python.metadata'', am_Name := name, am_Version := pf_version s,
              am_Description := ''Python metadata file'', am_Author := pf_author s, am_AuthorEmail := pf_email s,
              am_Vendor := fallback_vendor s\<rparr>) a))"

definition Metadata_InspectArtifact :: "string \<Rightarrow> 'w \<Rightarrow> Artifact \<Rightarrow> go_error option \<times> Artifact \<times> 'w" where
  "Metadata_InspectArtifact f w a =
     (if \<not> MimetypeIs a ''text/plain'' then (None, a, w) else (None, parseMetadataFile f a, w))"

definition MetadataInspector :: "pip_env \<Rightarrow> 'w Inspector" where
  "MetadataInspector env = \<lparr>ins_ID = ID_pip_metadata, ins_InspectRequest = pip_request env ID_pip_metadata checkMetadataURL,
     ins_InspectArtifact = Metadata_InspectArtifact\<rparr>"

section \<open>Simple indexes (simple\_index.go)\<close>

abbreviation ID_simple_index :: string where "ID_simple_index \<equiv> ''pip.simple-index''"

definition indexRequestURL :: rx where
  "indexRequestURL = rx_seq [lit ''https://pypi'', any_char, lit ''org:443/simple/'', Grp (rx_plus (Cls (\<lambda>c. is_word c \<or> c = CHR ''-''))), lit ''/'']"

definition indexRequestURL_text :: string where
  "indexRequestURL_text = ''^https://pypi.org:443/simple/(['' @ [CHR 0x5C] @ ''w-]+)/$''"

definition SimpleIndex_InspectRequest :: "Artifact \<Rightarrow> go_error option \<times> Artifact" where
  "SimpleIndex_InspectRequest a =
     (case FindStringSubmatch True indexRequestURL True (DownloadURL a) of
        _ # name # _ \<Rightarrow> (None, annotate_request ID_simple_index [(''match'', AnyString indexRequestURL_text), (''package-name'', AnyString name)]
            (SetRequestUnknown ID_simple_index ''unsupported origin'' a))
      | _ \<Rightarrow> (None, a))"

definition index_host :: "string \<Rightarrow> string" where
  "index_host host = (case strings_Cut host CHR '':'' of Some (h, _) \<Rightarrow> if h \<noteq> [] then h else host | None \<Rightarrow> host)"

definition extractMetaProperty :: "(string \<times> string) list \<Rightarrow> string \<Rightarrow> string \<times> bool" where
  "extractMetaProperty attrs name =
     fold (\<lambda>(k, v) (content, ok). (if k = ''content'' then v else content, ok \<or> (k = ''name'' \<and> v = name))) attrs ([], False)"

definition index_note :: "string \<Rightarrow> string \<Rightarrow> Annotation" where
  "index_note fmt ver = [(''format'', AnyString fmt), (''repository-version'', AnyString ver)]"

text \<open>A rejection does not end the search: a later version that is known replaces it.\<close>

fun html_index :: "pip_env \<Rightarrow> string \<Rightarrow> go_error \<Rightarrow> html_token list \<Rightarrow> Artifact \<Rightarrow> go_error option \<times> Artifact" where
  "html_index env pkgName err [] a = (if err \<noteq> io_EOF then Some err else None, a)"
| "html_index env pkgName err (HtmlOther # ts) a = html_index env pkgName err ts a"
| "html_index env pkgName err (HtmlTag tag attrs # ts) a =
     (if tag \<noteq> ''meta'' then html_index env pkgName err ts a
      else (case extractMetaProperty attrs ''pypi:repository-version'' of (ver, ok) \<Rightarrow>
        if \<not> ok then html_index env pkgName err ts a
        else if ver = ''1.1'' \<or> ver = ''1.2'' then
          (case pe_Parse env (DownloadURL a) of Inl e \<Rightarrow> (Some e, a)
           | Inr u \<Rightarrow> (None, annotate_response ID_simple_index (index_note ''HTML'' ver)
               (SetResponseApproved ID_simple_index ''document contains pypi repository version''
                  (NoMetadata\<lparr>am_Type := ''text/html'', am_Name := ''Simple index for '' @ quote_arg pkgName,
                     am_Description := ''PyPI repository index HTML file for package '' @ quote_arg pkgName,
                     am_Vendor := index_host (u_Host u), am_Author := index_host (u_Host u)\<rparr>) a)))
        else html_index env pkgName err ts
          (annotate_response ID_simple_index (index_note ''HTML'' ver)
             (SetResponseRejected ID_simple_index ''unknown pypi repository version'' (NoMetadata\<lparr>am_Type := ''text/html''\<rparr>) a))))"

definition parseHTMLIndex :: "pip_env \<Rightarrow> string \<Rightarrow> string \<Rightarrow> Artifact \<Rightarrow> go_error option \<times> Artifact" where
  "parseHTMLIndex env f pkgName a = (case pe_html env f of (ts, err) \<Rightarrow> html_index env pkgName err ts a)"

definition parseJSONIndex :: "pip_env \<Rightarrow> string \<Rightarrow> Artifact \<Rightarrow> go_error option \<times> Artifact" where
  "parseJSONIndex env pkgName a =
     (case pe_Parse env (DownloadURL a) of Inl err \<Rightarrow> (Some err, a)
      | Inr u \<Rightarrow> (None, annotate_response ID_simple_index (index_note ''JSON'' ''v1'')
          (SetResponseApproved ID_simple_index ''content type is pip simple index''
             (NoMetadata\<lparr>am_Type := ''application/json'', am_Name := ''PyPI JSON index'', am_Version := ''v1+json'',
                am_Description := ''PyPI repository index JSON file for package '' @ quote_arg pkgName,
                am_Vendor := index_host (u_Host u), am_Author := index_host (u_Host u)\<rparr>) a)))"

definition SimpleIndex_InspectArtifact :: "pip_env \<Rightarrow> string \<Rightarrow> 'w \<Rightarrow> Artifact \<Rightarrow> go_error option \<times> Artifact \<times> 'w" where
  "SimpleIndex_InspectArtifact env f w a =
     (case RequestStringAnnotation a ID_simple_index ''package-name'' of (pkgName, ok) \<Rightarrow>
        if \<not> ok then (None, a, w)
        else if MimetypeIs a ''text/html'' then (case parseHTMLIndex env f pkgName a of (err, a') \<Rightarrow> (err, a', w))
        else if MimetypeIs a ''application/json'' \<and> ContentType a = ''application/vnd.pypi.simple.v1+json''
        then (case parseJSONIndex env pkgName a of (err, a') \<Rightarrow> (err, a', w))
        else (None, a, w))"

definition SimpleIndexInspector :: "pip_env \<Rightarrow> 'w Inspector" where
  "SimpleIndexInspector env = \<lparr>ins_ID = ID_simple_index, ins_InspectRequest = SimpleIndex_InspectRequest,
     ins_InspectArtifact = SimpleIndex_InspectArtifact env\<rparr>"

end
