(* ===== verification/Pip_Props.thy ===== *)
theory Pip_Props
  imports Pip
begin

text \<open>
  What the approval of a Python package rests on. The inspectors keep the contract of inspectors; an
  approved wheel agrees with its \<^verbatim>\<open>RECORD\<close>.
\<close>

section \<open>Own entries\<close>

lemma pip_request_writes [writes]: "req_result iid a (pip_request env iid check a)"
  unfolding pip_request_def by (intro writes)

lemma inspect_wheel_writes [writes]: "resp_pair ID_wheel a (inspect_wheel env f a)"
  unfolding inspect_wheel_def processOpinion_def by (intro writes)

interpretation wheel: local_inspector "WheelInspector env"
proof (rule local_inspectorI)
  show "req_result (ins_ID (WheelInspector env)) a (ins_InspectRequest (WheelInspector env) a)" for a
    by (simp add: WheelInspector_def pip_request_writes)
  show "resp_result (ins_ID (WheelInspector env)) a (ins_InspectArtifact (WheelInspector env) f w a)" for f w a
    unfolding WheelInspector_def Inspector.simps Wheel_InspectArtifact_def by (intro writes)
qed

lemma sdist_members_writes [writes]: "resp_pair ID_sdist a (sdist_members env a ms)"
proof (induction ms)
  case (Cons m ms)
  then show ?case unfolding split_paired_all by (cases m) (auto simp: parsePkgInfo_def Let_def intro!: writes)
qed (auto intro!: writes)

interpretation sdist: local_inspector "SdistInspector env"
proof (rule local_inspectorI)
  show "req_result (ins_ID (SdistInspector env)) a (ins_InspectRequest (SdistInspector env) a)" for a
    by (simp add: SdistInspector_def pip_request_writes)
  show "resp_result (ins_ID (SdistInspector env)) a (ins_InspectArtifact (SdistInspector env) f w a)" for f w a
    unfolding SdistInspector_def Inspector.simps Sdist_InspectArtifact_def by (intro writes)
qed

interpretation pip_metadata: local_inspector "MetadataInspector env"
proof (rule local_inspectorI)
  show "req_result (ins_ID (MetadataInspector env)) a (ins_InspectRequest (MetadataInspector env) a)" for a
    by (simp add: MetadataInspector_def pip_request_writes)
  show "resp_result (ins_ID (MetadataInspector env)) a (ins_InspectArtifact (MetadataInspector env) f w a)" for f w a
    unfolding MetadataInspector_def Inspector.simps Metadata_InspectArtifact_def parseMetadataFile_def by (intro writes)
qed

lemma html_index_writes: "writes_response ID_simple_index a b \<Longrightarrow> resp_pair ID_simple_index a (html_index env pkgName err ts b)"
proof (induction ts arbitrary: b)
  case Nil
  then show ?case unfolding html_index.simps by (intro writes)
next
  case (Cons t ts)
  show ?case
  proof (cases t)
    case (HtmlTag tag attrs)
    show ?thesis unfolding HtmlTag html_index.simps by (intro writes Cons.IH Cons.prems)
  next
    case HtmlOther
    show ?thesis unfolding HtmlOther html_index.simps by (intro Cons.IH Cons.prems)
  qed
qed

lemma html_writes [writes]: "resp_pair ID_simple_index a (parseHTMLIndex env f pkgName a)"
  unfolding parseHTMLIndex_def by (intro writes html_index_writes)

lemma json_writes [writes]: "resp_pair ID_simple_index a (parseJSONIndex env pkgName a)"
  unfolding parseJSONIndex_def by (intro writes)

interpretation simple_index: local_inspector "SimpleIndexInspector env"
proof (rule local_inspectorI)
  show "req_result (ins_ID (SimpleIndexInspector env)) a (ins_InspectRequest (SimpleIndexInspector env) a)" for a
    unfolding SimpleIndexInspector_def Inspector.simps SimpleIndex_InspectRequest_def by (intro writes)
  show "resp_result (ins_ID (SimpleIndexInspector env)) a (ins_InspectArtifact (SimpleIndexInspector env) f w a)" for f w a
    unfolding SimpleIndexInspector_def Inspector.simps SimpleIndex_InspectArtifact_def by (intro writes)
qed

section \<open>The record of a wheel\<close>

text \<open>A line of \<^verbatim>\<open>RECORD\<close> that vouches for a file.\<close>

definition records :: "string \<Rightarrow> memberFile \<Rightarrow> bool" where
  "records line m \<longleftrightarrow> (\<exists>enc sz dst. strings_Split line CHR '','' = [mf_Name m, ''sha256='' @ enc, sz] \<and>
     raw_url_decode enc = Inr dst \<and> record_digest dst = mf_Sha256 m \<and> ParseInt sz 10 64 = Inr (mf_Size m))"

lemma check_digest_Inr:
  assumes "check_digest files name digest = Inr files'"
  shows "\<exists>enc dst m. digest = ''sha256='' @ enc \<and> raw_url_decode enc = Inr dst \<and> map_get files name = Some m \<and>
    record_digest dst = mf_Sha256 m \<and> files' = map_del name files"
proof -
  obtain enc rest where d: "strings_SplitN2 digest CHR ''='' = ''sha256'' # enc # rest"
    using assms by (auto simp: check_digest_def split: list.splits if_splits)
  then have "digest = ''sha256'' @ CHR ''='' # enc"
    using strings_SplitN2_length2 [of digest "CHR ''=''" "''sha256''" enc] by (auto simp: strings_SplitN2_def split: option.splits)
  with d assms show ?thesis by (auto simp: check_digest_def split: sum.splits option.splits if_splits)
qed

lemma record_line_Inr:
  assumes "record_line rname files line = Inr (files', k)" and "map_get files name = Some m" and "mf_Name m = name"
  shows "map_get files' name = Some m \<or> name = rname \<or> records line m"
proof -
  obtain name' digest sz where s: "strings_Split line CHR '','' = [name', digest, sz]"
    using assms(1) by (auto simp: record_line_def split: list.splits)
  show ?thesis
  proof (cases "digest = [] \<and> name' = rname")
    case True
    with assms s show ?thesis by (cases "name = rname") (auto simp: record_line_def)
  next
    case False
    with assms(1) s obtain recorded where r: "ParseInt sz 10 64 = Inr recorded"
      "recorded = (case map_get files name' of None \<Rightarrow> 0 | Some f \<Rightarrow> mf_Size f)" "check_digest files name' digest = Inr files'"
      by (auto simp: record_line_def Let_def split: sum.splits if_splits)
    from check_digest_Inr [OF r(3)] r(1,2) s assms(2,3) show ?thesis by (cases "name' = name") (auto simp: records_def)
  qed
qed

lemma record_loop_Inr:
  assumes "record_loop rname files num ls = Inr (left, num')" and "map_get files name = Some m" and "mf_Name m = name"
  shows "map_get left name = Some m \<or> name = rname \<or> (\<exists>line \<in> set ls. records line m)"
  using assms
proof (induction rname files num ls rule: record_loop.induct)
  case (2 rname files num line sc)
  then obtain files' k where l: "record_line rname files line = Inr (files', k)" "record_loop rname files' (num + k) sc = Inr (left, num')"
    by (auto split: sum.splits)
  from record_line_Inr [OF l(1) 2(3,4)] 2(1) [OF l(1) refl l(2) _ 2(4)] show ?case by auto
qed auto

lemma fold_extraFile:
  "wn_extraFiles (fold (\<lambda>(k, _) n. extraFile k n) left n) = wn_extraFiles n @ map fst left"
  "wn_integrityFaults (fold (\<lambda>(k, _) n. extraFile k n) left n) = wn_integrityFaults n"
  "wn_missingFiles (fold (\<lambda>(k, _) n. extraFile k n) left n) = wn_missingFiles n"
  "wn_requirementFaults (fold (\<lambda>(k, _) n. extraFile k n) left n) = wn_requirementFaults n"
  by (induction left arbitrary: n) (auto simp: extraFile_def)

text \<open>No fault was noted.\<close>

definition clean :: "wheelNotes \<Rightarrow> bool" where
  "clean n \<longleftrightarrow> wn_requirementFaults n = [] \<and> wn_integrityFaults n = [] \<and> wn_missingFiles n = [] \<and> wn_extraFiles n = []"

lemma checkRecord_clean:
  assumes "checkRecord text rname files n = (None, n')" and "clean n'" and "find (\<lambda>f. mf_Name f = name) (rev files) = Some m" and "name \<noteq> rname"
  shows "\<exists>line \<in> set (scan_lines max_token text). records line m"
proof -
  from assms(1,2) obtain num where "record_loop rname (file_map_of files) 0 (scan_lines max_token text) = Inr ([], num)"
    by (auto simp: checkRecord_def clean_def fold_extraFile integrityFault_def missingFile_def split: sum.splits record_stop.splits prod.splits)
  moreover have "map_get (file_map_of files) name = Some m"
    using assms(3) map_get_fold_set [of mf_Name files "[]" name] by (simp add: file_map_of_def)
  moreover have "mf_Name m = name" using assms(3) by (auto simp: find_Some_iff)
  ultimately show ?thesis using record_loop_Inr assms(4) by fastforce
qed

lemma wheel_record_None:
  "wheel_record files n z = (None, n') \<Longrightarrow> \<exists>r zf. r \<in> set z \<and> MatchString True (reDistInfo (Star not_slash) ''RECORD'') True (zm_Name r) \<and> zm_Open r = Inr zf \<and>
     checkRecord (br_data zf) (zm_Name r) files n = (None, n')"
  by (induction files n z rule: wheel_record.induct) (auto split: if_splits sum.splits)

lemma processOpinion_approved:
  "map_get (a_ResponseInspection a) ID_wheel = None \<Longrightarrow> opinion_of (a_ResponseInspection (processOpinion md n a)) ID_wheel = Some Approved \<Longrightarrow> clean n"
  by (auto simp: processOpinion_def clean_def opinion_of_def Inspection_Annotate_def split: if_splits)

lemma wheel_members_Inr:
  "wheel_members env res z = Inr files \<Longrightarrow> files = res @ map (\<lambda>f. \<lparr>mf_Name = zm_Name f,
     mf_Sha256 = pe_sha256 env (br_data (projr (zm_Open f))), mf_Size = zm_Size f\<rparr>) (filter (\<lambda>f. \<not> zm_IsDir f) z)"
  by (induction env res z rule: wheel_members.induct) (auto split: sum.splits if_splits option.splits)

lemma wheel_members_open: "wheel_members env res z = Inr files \<Longrightarrow> m \<in> set z \<Longrightarrow> \<exists>content. zm_Open m = Inr content"
  by (induction env res z rule: wheel_members.induct) (auto split: sum.splits if_splits option.splits)

lemma find_map_filter: "find P (map g (filter Q xs)) = map_option g (find (\<lambda>x. P (g x) \<and> Q x) xs)"
  by (induction xs) auto

lemma inspect_wheel_approved:
  assumes "inspect_wheel env f a = (e, b)" and fresh: "map_get (a_ResponseInspection a) ID_wheel = None"
    and appr: "opinion_of (a_ResponseInspection b) ID_wheel = Some Approved"
  shows "\<exists>z files n n'. pe_zip env f = Inr z \<and> wheel_members env [] z = Inr files \<and> wheel_record files n z = (None, n') \<and> clean n'"
proof -
  have "b \<noteq> a" using fresh appr by (auto simp: opinion_of_def)
  with assms(1) obtain md n1 files n2 n3 where r: "listWheelFiles env f n1 = Inr (files, n2)" "readWheelRecord env f files n2 = (None, n3)"
    "b = processOpinion md n3 a"
    by (auto simp: inspect_wheel_def split: sum.splits prod.splits option.splits if_splits)
  from processOpinion_approved [OF fresh] appr r(3) have "clean n3" by simp
  with r(1,2) show ?thesis
    by (auto simp: listWheelFiles_def readWheelRecord_def split: sum.splits)
qed

section \<open>Claims\<close>

text \<open>
  C10. An approved wheel agrees with its record. Some file of the archive is a \<^verbatim>\<open>RECORD\<close>, and for every other name
  in the archive that is not a directory, the last file of that name is listed there with its size and with
  the SHA-256 digest of its content.
\<close>

theorem approved_wheel_is_recorded:
  assumes "ins_InspectArtifact (WheelInspector env) f w a = (e, a', w')"
    and "map_get (a_ResponseInspection a) ''pip.wheel'' = None" and "opinion_of (a_ResponseInspection a') ''pip.wheel'' = Some Approved"
  shows "\<exists>z r listing. pe_zip env f = Inr z \<and> r \<in> set z \<and> MatchString True (reDistInfo (Star not_slash) ''RECORD'') True (zm_Name r) \<and> zm_Open r = Inr listing \<and>
    (\<forall>m name. find (\<lambda>m. zm_Name m = name \<and> \<not> zm_IsDir m) (rev z) = Some m \<longrightarrow> name \<noteq> zm_Name r \<longrightarrow>
       (\<exists>content enc sz dst. zm_Open m = Inr content \<and>
          (\<exists>line \<in> set (scan_lines 65536 (br_data listing)). strings_Split line CHR '','' = [name, ''sha256='' @ enc, sz]) \<and>
          raw_url_decode enc = Inr dst \<and> record_digest dst = pe_sha256 env (br_data content) \<and> ParseInt sz 10 64 = Inr (zm_Size m)))"
proof -
  have b: "inspect_wheel env f a = (e, a')"
  proof -
    have "a' \<noteq> a" using assms(2,3) by (auto simp: opinion_of_def)
    then show ?thesis using assms(1) by (auto simp: WheelInspector_def Wheel_InspectArtifact_def Let_def split: if_splits prod.splits)
  qed
  from inspect_wheel_approved [OF b assms(2,3)] obtain z files n n' where z: "pe_zip env f = Inr z" "wheel_members env [] z = Inr files"
    "wheel_record files n z = (None, n')" "clean n'" by blast
  from wheel_record_None [OF z(3)] obtain r listing where r: "r \<in> set z" "zm_Open r = Inr listing"
    "checkRecord (br_data listing) (zm_Name r) files n = (None, n')" and record_name: "MatchString True (reDistInfo (Star not_slash) ''RECORD'') True (zm_Name r)" by blast
  have "\<exists>content enc sz dst. zm_Open m = Inr content \<and>
      (\<exists>line \<in> set (scan_lines 65536 (br_data listing)). strings_Split line CHR '','' = [name, ''sha256='' @ enc, sz]) \<and>
      raw_url_decode enc = Inr dst \<and> record_digest dst = pe_sha256 env (br_data content) \<and> ParseInt sz 10 64 = Inr (zm_Size m)"
    if m: "find (\<lambda>m. zm_Name m = name \<and> \<not> zm_IsDir m) (rev z) = Some m" and "name \<noteq> zm_Name r" for m name
  proof -
    let ?g = "\<lambda>f. \<lparr>mf_Name = zm_Name f, mf_Sha256 = pe_sha256 env (br_data (projr (zm_Open f))), mf_Size = zm_Size f\<rparr>"
    have "find (\<lambda>f. mf_Name f = name) (rev files) = Some (?g m)"
      using wheel_members_Inr [OF z(2)] m by (simp add: rev_map rev_filter find_map_filter)
    from checkRecord_clean [OF r(3) z(4) this that(2)] obtain line where "line \<in> set (scan_lines 65536 (br_data listing))" "records line (?g m)" by blast
    moreover have "m \<in> set z" "zm_Name m = name" using m by (auto simp: find_Some_iff) (metis nth_mem set_rev length_rev)
    moreover from this obtain content where "zm_Open m = Inr content" using wheel_members_open [OF z(2)] by blast
    ultimately show ?thesis by (auto simp: records_def)
  qed
  with z(1) r(1,2) record_name show ?thesis by blast
qed

text \<open>A wheel with one module; the digests of this example are all the same.\<close>

definition a_member :: "string \<Rightarrow> string \<Rightarrow> zip_member" where
  "a_member name content = \<lparr>zm_Name = name, zm_IsDir = False, zm_Size = int (length content), zm_Open = Inr \<lparr>br_data = content, br_err = None\<rparr>\<rparr>"

definition nl_lines :: "string list \<Rightarrow> string" where
  "nl_lines ls = concat (map (\<lambda>l. l @ [CHR 0x0A]) ls)"

definition a_digest :: string where
  "a_digest = ''sha256='' @ concat (replicate 10 ''QUFB'') @ ''QUE''"

definition a_wheel :: "string \<Rightarrow> zip_member list" where
  "a_wheel digest = [a_member ''p.py'' ''x=1'', a_member ''p-1.dist-info/WHEEL'' [],
     a_member ''p-1.dist-info/METADATA'' (nl_lines [''Metadata-Version: 2.1'', ''Name: p'', ''Version: 1'']),
     a_member ''p-1.dist-info/RECORD'' (nl_lines [''p.py,'' @ digest @ '',3'', ''p-1.dist-info/WHEEL,'' @ a_digest @ '',0'',
       ''p-1.dist-info/METADATA,'' @ a_digest @ '',41'', ''p-1.dist-info/RECORD,,''])]"

definition a_pip_env :: "string \<Rightarrow> pip_env" where
  "a_pip_env digest = \<lparr>pe_Parse = (\<lambda>_. Inl io_EOF), pe_zip = (\<lambda>_. Inr (a_wheel digest)), pe_gzip = (\<lambda>_. Inl io_EOF), pe_tar = (\<lambda>_. []),
     pe_html = (\<lambda>_. ([], io_EOF)), pe_sha256 = (\<lambda>_. replicate 32 CHR ''A''), pe_CreateTemp = None, pe_Fprintln = (\<lambda>_. None),
     pe_Flush = (\<lambda>_. None), pe_Close = (\<lambda>_. None), pe_licensecheck = (\<lambda>_. Inr [])\<rparr>"

definition a_zip_artifact :: Artifact where
  "a_zip_artifact = NewArtifact\<lparr>a_MimeType := Some \<lparr>mime_String = ''application/zip'', mime_Is = (\<lambda>t. t = ''application/zip'')\<rparr>\<rparr>"

lemma a_wheel_approved:
  "opinion_of (a_ResponseInspection (fst (snd (ins_InspectArtifact (WheelInspector (a_pip_env a_digest)) [] () a_zip_artifact)))) ''pip.wheel'' = Some Approved"
  by code_simp

theorem approved_wheel_is_recorded_witness:
  "\<exists>r listing. r \<in> set (a_wheel a_digest) \<and> zm_Open r = Inr listing \<and>
     (\<exists>line \<in> set (scan_lines 65536 (br_data listing)). \<exists>enc sz. strings_Split line CHR '','' = [''p.py'', ''sha256='' @ enc, sz])"
proof -
  obtain e a' w' where run: "ins_InspectArtifact (WheelInspector (a_pip_env a_digest)) [] () a_zip_artifact = (e, a', w')" by (metis prod_cases3)
  have fresh: "map_get (a_ResponseInspection a_zip_artifact) ''pip.wheel'' = None" by (simp add: a_zip_artifact_def NewArtifact_def)
  have appr: "opinion_of (a_ResponseInspection a') ''pip.wheel'' = Some Approved" using a_wheel_approved run by simp
  have zip: "pe_zip (a_pip_env a_digest) [] = Inr (a_wheel a_digest)" by (simp add: a_pip_env_def)
  have "find (\<lambda>m. zm_Name m = ''p.py'' \<and> \<not> zm_IsDir m) (rev (a_wheel a_digest)) = Some (a_member ''p.py'' ''x=1'')"
    by (simp add: a_wheel_def a_member_def)
  note found = this
  obtain z r listing where r: "pe_zip (a_pip_env a_digest) [] = Inr z" "r \<in> set z" "MatchString True (reDistInfo (Star not_slash) ''RECORD'') True (zm_Name r)" "zm_Open r = Inr listing"
    and all: "\<forall>m name. find (\<lambda>m. zm_Name m = name \<and> \<not> zm_IsDir m) (rev z) = Some m \<longrightarrow> name \<noteq> zm_Name r \<longrightarrow>
      (\<exists>content enc sz dst. zm_Open m = Inr content \<and>
         (\<exists>line \<in> set (scan_lines 65536 (br_data listing)). strings_Split line CHR '','' = [name, ''sha256='' @ enc, sz]) \<and>
         raw_url_decode enc = Inr dst \<and> record_digest dst = pe_sha256 (a_pip_env a_digest) (br_data content) \<and> ParseInt sz 10 64 = Inr (zm_Size m))"
    using approved_wheel_is_recorded [OF run fresh appr] by blast
  with zip have z: "z = a_wheel a_digest" by simp
  have "\<not> MatchString True (reDistInfo (Star not_slash) ''RECORD'') True ''p.py''" by code_simp
  with r(3) have "''p.py'' \<noteq> zm_Name r" by auto
  then have "\<exists>line \<in> set (scan_lines 65536 (br_data listing)). \<exists>enc sz. strings_Split line CHR '','' = [''p.py'', ''sha256='' @ enc, sz]"
    using all [rule_format, OF found [folded z]] by blast
  with r z show ?thesis by blast
qed



end
