(* ===== verification/Chisel.thy ===== *)
theory Chisel
  imports Pipeline Openpgp Apt_Config
begin

text \<open>
  \<^verbatim>\<open>inspectors/chisel\<close>: releases of Chisel (\<^verbatim>\<open>release.go\<close>), tarballs whose \<^verbatim>\<open>chisel.yaml\<close> names an archive key of the
  configured repositories.

  Arguments stand for the OpenPGP library with the 64-bit identifiers of keys, for the reader of compressed
  tarballs (members, whether each is a directory, and the error it ends with), the YAML decoder and the
  quoting of the verb \<^verbatim>\<open>%q\<close>. Maps are association lists in the order in which the loops see them, which the
  language leaves open.
\<close>

record chiselArchive =
  ca_Components :: "string list"
  ca_Suites :: "string list"
  ca_PublicKeys :: "string list"

record chiselPubKey =
  ck_ID :: string
  ck_Armor :: string

record chiselYaml =
  cy_Format :: string
  cy_Archives :: "(string, chiselArchive) gomap"
  cy_PublicKeys :: "(string, chiselPubKey) gomap"

record tar_entry =
  te_Name :: string
  te_IsDir :: bool
  te_Body :: body_reader

record ('k, 's) chisel_env =
  ch_lib :: "('k, 's) pgp_lib"
  ch_KeyId :: "'k \<Rightarrow> 64 word"
  ch_gzip_tar :: "string \<Rightarrow> (tar_entry list \<times> go_error) result"
  ch_yaml :: "body_reader \<Rightarrow> chiselYaml result"
  ch_quote :: "string \<Rightarrow> string"

section \<open>Requests\<close>

abbreviation ID_chisel_release :: string where "ID_chisel_release \<equiv> ''chisel.release''"

definition Chisel_InspectRequest :: "Glob list \<Rightarrow> Artifact \<Rightarrow> go_error option \<times> Artifact" where
  "Chisel_InspectRequest urls a =
     (None, if list_ex (\<lambda>pattern. Glob_Match pattern (DownloadURL a)) urls then SetRequestPending ID_chisel_release ''request matches valid URL'' a else a)"

section \<open>The release file\<close>

definition complete_archive :: "chiselArchive \<Rightarrow> bool" where
  "complete_archive c \<longleftrightarrow> ca_Components c \<noteq> [] \<and> ca_Suites c \<noteq> [] \<and> ca_PublicKeys c \<noteq> []"

fun archive_keys_error :: "('k, 's) chisel_env \<Rightarrow> chiselYaml \<Rightarrow> string \<Rightarrow> string list \<Rightarrow> go_error option" where
  "archive_keys_error env d name [] = None"
| "archive_keys_error env d name (key # ks) =
     (if map_get (cy_PublicKeys d) key = None
      then Some (Errorf (''archive '' @ ch_quote env name @ '' pubkey '' @ ch_quote env key @ '' undefined''))
      else archive_keys_error env d name ks)"

fun archives_error :: "('k, 's) chisel_env \<Rightarrow> chiselYaml \<Rightarrow> (string \<times> chiselArchive) list \<Rightarrow> go_error option" where
  "archives_error env d [] = None"
| "archives_error env d ((name, c) # as) =
     (if \<not> complete_archive c then Some (Errorf (''archive '' @ ch_quote env name @ '' has missing fields''))
      else (case archive_keys_error env d name (ca_PublicKeys c) of Some err \<Rightarrow> Some err | None \<Rightarrow> archives_error env d as))"

fun keys_error :: "('k, 's) chisel_env \<Rightarrow> (string \<times> chiselPubKey) list \<Rightarrow> go_error option" where
  "keys_error env [] = None"
| "keys_error env ((name, key) # ks) =
     (if ck_ID key = [] \<or> ck_Armor key = [] then Some (Errorf (''pubkey '' @ ch_quote env name @ '' has missing fields'')) else keys_error env ks)"

definition chisel_yaml_error :: "('k, 's) chisel_env \<Rightarrow> chiselYaml \<Rightarrow> go_error option" where
  "chisel_yaml_error env d =
     (if cy_Format d = [] \<or> cy_Archives d = [] \<or> cy_PublicKeys d = [] then Some (Errorf ''missing fields'')
      else (case archives_error env d (cy_Archives d) of Some err \<Rightarrow> Some err | None \<Rightarrow> keys_error env (cy_PublicKeys d)))"

definition parseChiselYaml :: "('k, 's) chisel_env \<Rightarrow> body_reader \<Rightarrow> chiselYaml result" where
  "parseChiselYaml env r =
     (case ch_yaml env r of Inl err \<Rightarrow> Inl (ErrWrap ''invalid chisel.yaml'' err)
      | Inr d \<Rightarrow> (case chisel_yaml_error env d of Some err \<Rightarrow> Inl (ErrWrap ''invalid chisel.yaml'' err) | None \<Rightarrow> Inr d))"

definition chiselYamlPath :: rx where
  "chiselYamlPath = rx_seq [lit ''chisel-releases-'', Grp (Star any_char), lit ''/chisel'', any_char, lit ''yaml'']"

definition chiselDir :: rx where
  "chiselDir = rx_seq [lit ''chisel-releases-'', Star any_char, lit ''/'']"

text \<open>\<^verbatim>\<open>inspectTarball\<close>: \<^const>\<open>None\<close> for \<^verbatim>\<open>errUnrecognized\<close>.\<close>

fun inspectTarball :: "('k, 's) chisel_env \<Rightarrow> tar_entry list \<Rightarrow> (string \<times> chiselYaml) result option" where
  "inspectTarball env [] = None"
| "inspectTarball env (h # hs) =
     (case FindStringSubmatch True chiselYamlPath True (te_Name h) of
        [_, release] \<Rightarrow> Some (case parseChiselYaml env (te_Body h) of Inl err \<Rightarrow> Inl err | Inr d \<Rightarrow> Inr (release, d))
      | _ \<Rightarrow> if te_IsDir h \<and> \<not> MatchString True chiselDir False (te_Name h) then None else inspectTarball env hs)"

section \<open>Keys\<close>

text \<open>The inner loops of \<^verbatim>\<open>validPubKeys\<close>: \<^const>\<open>None\<close> when no repository has the key.\<close>

fun repository_has_key :: "('k, 's) chisel_env \<Rightarrow> 'k \<Rightarrow> (string \<times> AptInspectorConfigRepository) list \<Rightarrow> unit result option" where
  "repository_has_key env pubKey [] = None"
| "repository_has_key env pubKey ((repoName, repo) # rs) =
     (case DecodePubKey (ch_lib env) (repo_PublicKey repo) True of
        Inl err \<Rightarrow> Some (Inl (ErrWrap (''cannot parse APT repository '' @ repoName @ '' public key'') err))
      | Inr repoKeys \<Rightarrow> if list_ex (\<lambda>k. ch_KeyId env k = ch_KeyId env pubKey) repoKeys then Some (Inr ()) else repository_has_key env pubKey rs)"

fun validPubKeys :: "('k, 's) chisel_env \<Rightarrow> AptInspectorConfig \<Rightarrow> (string \<times> chiselPubKey) list \<Rightarrow> go_error option" where
  "validPubKeys env aptCfg [] = Some (Errorf ''invalid chisel.yaml: no public key is present in APT configuration'')"
| "validPubKeys env aptCfg ((keyName, keyData) # ks) =
     (case DecodePubKey (ch_lib env) (ck_Armor keyData) False of
        Inl err \<Rightarrow> Some (ErrWrap (''cannot parse chisel.yaml public key '' @ keyName) err)
      | Inr pubKeys \<Rightarrow>
        (case repository_has_key env (hd pubKeys) aptCfg of
           None \<Rightarrow> validPubKeys env aptCfg ks | Some (Inl err) \<Rightarrow> Some err | Some (Inr _) \<Rightarrow> None))"

section \<open>Files\<close>

definition chisel_metadata :: "string \<Rightarrow> chiselYaml \<Rightarrow> ArtifactMetadata" where
  "chisel_metadata release d = NoMetadata\<lparr>am_Type := ''application/x.canonical.chisel-release'', am_Name := ''chisel-release'', am_Version := cy_Format d,
     am_Description := ''Chisel release file for '' @ release, am_Vendor := ''Canonical''\<rparr>"

definition Chisel_InspectArtifact :: "('k, 's) chisel_env \<Rightarrow> AptInspectorConfig \<Rightarrow> string \<Rightarrow> 'w \<Rightarrow> Artifact \<Rightarrow> go_error option \<times> Artifact \<times> 'w" where
  "Chisel_InspectArtifact env aptCfg f w a =
     (if \<not> MimetypeIs a ''application/gzip'' then (None, a, w)
      else (case ch_gzip_tar env f of Inl _ \<Rightarrow> (None, a, w)
        | Inr (hs, _) \<Rightarrow>
          (case inspectTarball env hs of None \<Rightarrow> (None, a, w)
           | Some (Inl err) \<Rightarrow> (None, SetResponseRejected ID_chisel_release (''invalid tarball: '' @ err_Error err)
               (NoMetadata\<lparr>am_Type := ''application/x.canonical.chisel-release''\<rparr>) a, w)
           | Some (Inr (release, d)) \<Rightarrow>
             (case validPubKeys env aptCfg (cy_PublicKeys d) of
                Some err \<Rightarrow> (None, SetResponseRejected ID_chisel_release (''invalid public-keys: '' @ err_Error err) (chisel_metadata release d) a, w)
              | None \<Rightarrow> (None, SetResponseApproved ID_chisel_release ''artifact successfully parsed'' (chisel_metadata release d) a, w)))))"

definition ChiselReleaseInspector :: "('k, 's) chisel_env \<Rightarrow> Glob list \<Rightarrow> AptInspectorConfig \<Rightarrow> 'w Inspector" where
  "ChiselReleaseInspector env urls aptCfg = \<lparr>ins_ID = ID_chisel_release, ins_InspectRequest = Chisel_InspectRequest urls,
     ins_InspectArtifact = Chisel_InspectArtifact env aptCfg\<rparr>"

end
