(* ===== verification/Chisel_Props.thy ===== *)
theory Chisel_Props
  imports Chisel
begin

text \<open>
  The inspector of Chisel releases keeps the contract of inspectors; an approved release names a key of a
  configured repository, by the identifier of the key.
\<close>

interpretation chisel_release: local_inspector "ChiselReleaseInspector env urls aptCfg"
proof (rule local_inspectorI)
  show "req_result (ins_ID (ChiselReleaseInspector env urls aptCfg)) a (ins_InspectRequest (ChiselReleaseInspector env urls aptCfg) a)" for a
    unfolding ChiselReleaseInspector_def Inspector.simps Chisel_InspectRequest_def by (intro writes)
  show "resp_result (ins_ID (ChiselReleaseInspector env urls aptCfg)) a (ins_InspectArtifact (ChiselReleaseInspector env urls aptCfg) f w a)" for f w a
    unfolding ChiselReleaseInspector_def Inspector.simps Chisel_InspectArtifact_def by (intro writes)
qed

section \<open>Keys of a release\<close>

lemma DecodePubKey_single: "DecodePubKey lib s False = Inr ks \<Longrightarrow> \<exists>k. ks = [k]"
  by (cases ks; cases "tl ks") (auto simp: DecodePubKey_def split: sum.splits prod.splits if_splits)

lemma repository_has_key_Inr:
  "repository_has_key env k rs = Some (Inr ()) \<Longrightarrow>
     \<exists>(n, repo) \<in> set rs. \<exists>ks. DecodePubKey (ch_lib env) (repo_PublicKey repo) True = Inr ks \<and> ch_KeyId env k \<in> ch_KeyId env ` set ks"
proof (induction rs)
  case (Cons r rs)
  obtain n repo where r: "r = (n, repo)" by fastforce
  from Cons.prems obtain ks where ks: "DecodePubKey (ch_lib env) (repo_PublicKey repo) True = Inr ks" by (auto simp: r split: sum.splits)
  show ?case
  proof (cases "list_ex (\<lambda>k'. ch_KeyId env k' = ch_KeyId env k) ks")
    case True
    then obtain k' where "k' \<in> set ks" "ch_KeyId env k' = ch_KeyId env k" by (auto simp: list_ex_iff)
    then have "ch_KeyId env k \<in> ch_KeyId env ` set ks" by (metis imageI)
    with ks r show ?thesis by auto
  next
    case False
    with Cons r ks show ?thesis by auto
  qed
qed simp

definition known_key :: "('k, 's) chisel_env \<Rightarrow> AptInspectorConfig \<Rightarrow> chiselPubKey \<Rightarrow> bool" where
  "known_key env aptCfg key \<longleftrightarrow> (\<exists>k. DecodePubKey (ch_lib env) (ck_Armor key) False = Inr [k] \<and>
     (\<exists>(n, repo) \<in> set aptCfg. \<exists>ks. DecodePubKey (ch_lib env) (repo_PublicKey repo) True = Inr ks \<and> ch_KeyId env k \<in> ch_KeyId env ` set ks))"

lemma validPubKeys_known: "validPubKeys env aptCfg keys = None \<Longrightarrow> \<exists>(n, key) \<in> set keys. known_key env aptCfg key"
proof (induction env aptCfg keys rule: validPubKeys.induct)
  case (2 env aptCfg n key ks)
  then obtain k where k: "DecodePubKey (ch_lib env) (ck_Armor key) False = Inr [k]"
    using DecodePubKey_single by (fastforce split: sum.splits)
  show ?case
  proof (cases "repository_has_key env k aptCfg")
    case None
    with 2 k show ?thesis by auto
  next
    case (Some r)
    with 2(2) k have "r = Inr ()" by (auto split: sum.splits)
    with Some k have "known_key env aptCfg key" using repository_has_key_Inr [of env k aptCfg] by (auto simp: known_key_def)
    then show ?thesis by auto
  qed
qed simp

lemma inspectTarball_parsed:
  "inspectTarball env hs = Some (Inr (release, d)) \<Longrightarrow>
     \<exists>h \<in> set hs. ch_yaml env (te_Body h) = Inr d \<and> chisel_yaml_error env d = None"
proof (induction hs)
  case (Cons h hs)
  then consider "parseChiselYaml env (te_Body h) = Inr d" | "inspectTarball env hs = Some (Inr (release, d))"
    by (auto split: list.splits sum.splits if_splits)
  then show ?case
  proof cases
    case 1
    then show ?thesis by (auto simp: parseChiselYaml_def split: sum.splits option.splits)
  next
    case 2
    with Cons.IH show ?thesis by auto
  qed
qed simp

lemma archive_keys_defined: "archive_keys_error env d n ks = None \<Longrightarrow> k \<in> set ks \<Longrightarrow> map_get (cy_PublicKeys d) k \<noteq> None"
  by (induction ks) (auto split: if_splits)

lemma archives_complete:
  "archives_error env d as = None \<Longrightarrow> (n, c) \<in> set as \<Longrightarrow>
     complete_archive c \<and> (\<forall>k \<in> set (ca_PublicKeys c). map_get (cy_PublicKeys d) k \<noteq> None)"
proof (induction as)
  case (Cons x as)
  obtain n' c' where x: "x = (n', c')" by fastforce
  from Cons.prems(1) have "complete_archive c'" "archive_keys_error env d n' (ca_PublicKeys c') = None" "archives_error env d as = None"
    by (auto simp: x split: if_splits option.splits)
  with Cons x archive_keys_defined show ?case by auto
qed simp

section \<open>Claims\<close>

text \<open>
  C11. An approved Chisel release rests on a configured key: the tarball holds a release file that decodes, each
  of its archives is complete and uses keys the file defines, and some key of the file decodes to a single
  public key whose 64-bit identifier is that of a key of a configured repository.
\<close>

theorem approved_chisel_release_has_known_key:
  assumes "ins_InspectArtifact (ChiselReleaseInspector env urls aptCfg) f w a = (e, b, w')"
    and "map_get (a_ResponseInspection a) ''chisel.release'' = None"
    and "opinion_of (a_ResponseInspection b) ''chisel.release'' = Some Approved"
  shows "\<exists>hs err h d n key. ch_gzip_tar env f = Inr (hs, err) \<and> h \<in> set hs \<and> ch_yaml env (te_Body h) = Inr d \<and>
    (n, key) \<in> set (cy_PublicKeys d) \<and> known_key env aptCfg key \<and>
    (\<forall>(name, c) \<in> set (cy_Archives d). complete_archive c \<and> (\<forall>k \<in> set (ca_PublicKeys c). map_get (cy_PublicKeys d) k \<noteq> None))"
proof -
  have "b \<noteq> a" using assms(2,3) by (auto simp: opinion_of_def)
  with assms obtain hs err release d where x: "ch_gzip_tar env f = Inr (hs, err)" "inspectTarball env hs = Some (Inr (release, d))"
    "validPubKeys env aptCfg (cy_PublicKeys d) = None"
    by (auto simp: ChiselReleaseInspector_def Chisel_InspectArtifact_def opinion_of_def split: if_splits sum.splits prod.splits option.splits)
  from inspectTarball_parsed [OF x(2)] obtain h where h: "h \<in> set hs" "ch_yaml env (te_Body h) = Inr d" "chisel_yaml_error env d = None" by blast
  then have "archives_error env d (cy_Archives d) = None" by (auto simp: chisel_yaml_error_def split: if_splits option.splits)
  then have "\<forall>(name, c) \<in> set (cy_Archives d). complete_archive c \<and> (\<forall>k \<in> set (ca_PublicKeys c). map_get (cy_PublicKeys d) k \<noteq> None)"
    using archives_complete by blast
  with x(1) h validPubKeys_known [OF x(3)] show ?thesis by blast
qed

text \<open>A library whose keys are texts, with the empty text no key; a release with one archive and one key.\<close>

definition text_keys :: "(string, unit) pgp_lib" where
  "text_keys = \<lparr>armor_Decode = (\<lambda>s. if s = [] then Inl io_EOF else Inr ([], s)), packet_Reader = (\<lambda>s. ([PublicKey s], io_EOF)), clearsign_Decode = (\<lambda>_. None),
     key_VerifySignature = (\<lambda>_ _ _. None), key_IdString = id\<rparr>"

definition a_release :: chiselYaml where
  "a_release = \<lparr>cy_Format = ''v1'', cy_Archives = [(''ubuntu'', \<lparr>ca_Components = [''main''], ca_Suites = [''noble''], ca_PublicKeys = [''k'']\<rparr>)],
     cy_PublicKeys = [(''k'', \<lparr>ck_ID = ''1'', ck_Armor = ''key''\<rparr>)]\<rparr>"

definition release_env :: "(string, unit) chisel_env" where
  "release_env = \<lparr>ch_lib = text_keys, ch_KeyId = (\<lambda>s. of_nat (length s)),
     ch_gzip_tar = (\<lambda>_. Inr ([\<lparr>te_Name = ''chisel-releases-x/chisel.yaml'', te_IsDir = False, te_Body = \<lparr>br_data = [], br_err = None\<rparr>\<rparr>], io_EOF)),
     ch_yaml = (\<lambda>_. Inr a_release), ch_quote = id\<rparr>"

definition release_repositories :: AptInspectorConfig where
  "release_repositories = [(''ubuntu'', \<lparr>repo_URLs = [], repo_Suites = [], repo_Components = [], repo_PublicKey = ''key'', repo_BaseURLAlias = []\<rparr>)]"

definition release_file :: Artifact where
  "release_file = NewArtifact\<lparr>a_MimeType := Some \<lparr>mime_String = ''application/gzip'', mime_Is = (\<lambda>x. x = ''application/gzip'')\<rparr>\<rparr>"

definition release_checked :: Artifact where
  "release_checked = fst (snd (ins_InspectArtifact (ChiselReleaseInspector release_env [] release_repositories) [] () release_file))"

theorem approved_chisel_release_has_known_key_witness:
  "\<exists>(n, key) \<in> set (cy_PublicKeys a_release). known_key release_env release_repositories key"
proof -
  obtain e w' where run: "ins_InspectArtifact (ChiselReleaseInspector release_env [] release_repositories) [] () release_file = (e, release_checked, w')"
    unfolding release_checked_def by (metis prod.collapse)
  have fresh: "map_get (a_ResponseInspection release_file) ''chisel.release'' = None"
    and approved: "opinion_of (a_ResponseInspection release_checked) ''chisel.release'' = Some Approved" by code_simp+
  from approved_chisel_release_has_known_key [OF run fresh approved]
  obtain h :: tar_entry and d n key where "ch_yaml release_env (te_Body h) = Inr d" "(n, key) \<in> set (cy_PublicKeys d)" "known_key release_env release_repositories key" by blast
  then show ?thesis by (auto simp: release_env_def)
qed

text \<open>
  Whether a release is accepted may depend on the order in which the language runs through its keys: with
  a configured key and a key that does not decode, the loop over the keys accepts when it meets the
  former first and fails when it meets the latter first.
\<close>

theorem key_order_decides_chisel_release:
  assumes "DecodePubKey (ch_lib env) (ck_Armor good) False = Inr [k]" and "repository_has_key env k aptCfg = Some (Inr ())"
    and "DecodePubKey (ch_lib env) (ck_Armor bad) False = Inl err"
  shows "validPubKeys env aptCfg [(m, good), (n, bad)] = None \<and> validPubKeys env aptCfg [(n, bad), (m, good)] \<noteq> None"
  using assms by simp

theorem key_order_decides_chisel_release_witness:
  "validPubKeys release_env release_repositories [(''a'', \<lparr>ck_ID = ''1'', ck_Armor = ''key''\<rparr>), (''b'', \<lparr>ck_ID = ''2'', ck_Armor = []\<rparr>)] = None \<and>
   validPubKeys release_env release_repositories [(''b'', \<lparr>ck_ID = ''2'', ck_Armor = []\<rparr>), (''a'', \<lparr>ck_ID = ''1'', ck_Armor = ''key''\<rparr>)] \<noteq> None"
proof (rule key_order_decides_chisel_release)
  show "DecodePubKey (ch_lib release_env) (ck_Armor \<lparr>ck_ID = ''1'', ck_Armor = ''key''\<rparr>) False = Inr [''key'']"
    by (simp add: DecodePubKey_def DecodeKeys_def release_env_def text_keys_def)
  show "repository_has_key release_env ''key'' release_repositories = Some (Inr ())"
    by (simp add: DecodePubKey_def DecodeKeys_def release_env_def text_keys_def release_repositories_def)
  show "DecodePubKey (ch_lib release_env) (ck_Armor \<lparr>ck_ID = ''2'', ck_Armor = []\<rparr>) False = Inl (ErrWrap ''cannot decode armored data'' io_EOF)"
    by (simp add: DecodePubKey_def DecodeKeys_def release_env_def text_keys_def)
qed

end
