(* ===== verification/Registries.thy ===== *)
theory Registries
  imports Pip
begin

text \<open>
  \<^verbatim>\<open>inspectors/cargo\<close> (\<^verbatim>\<open>index.go\<close>, \<^verbatim>\<open>crate.go\<close>) and \<^verbatim>\<open>inspectors/maven\<close> (\<^verbatim>\<open>pom.go\<close>, \<^verbatim>\<open>jar.go\<close>, \<^verbatim>\<open>util.go\<close>): crates and jars,
  and the documents that describe them.

  Arguments (\<^theory_text>\<open>registry_env\<close>) stand for the readers of zip files and compressed tarballs (members and the error
  the reader ends with) and for the JSON, TOML and XML decoders; records hold the fields the code reads.
\<close>

record cargoPackage =
  cp_Name :: string
  cp_Version :: string
  cp_Description :: string
  cp_Authors :: "string list"
  cp_License :: string

record project =
  pj_ArtifactID :: string
  pj_GroupID :: string
  pj_Version :: string
  pj_Description :: string
  pj_Developers :: "string list"
  pj_Licenses :: "string list"
  pj_Parent_GroupID :: string
  pj_Parent_Version :: string

record registry_env =
  re_gzip_tar :: "string \<Rightarrow> ((string \<times> body_reader) list \<times> go_error) result"
  re_zip :: "string \<Rightarrow> zip_member list result"
  re_config_API :: "string \<Rightarrow> string result"
  re_entry_Name :: "string \<Rightarrow> string result"
  re_toml :: "body_reader \<Rightarrow> cargoPackage result"
  re_pom_file :: "string \<Rightarrow> project result"
  re_pom :: "body_reader \<Rightarrow> project result"

section \<open>Index of crates (cargo/index.go)\<close>

abbreviation ID_cargo_index :: string where "ID_cargo_index \<equiv> ''cargo.index''"

definition indexRequestOrigin :: rx where
  "indexRequestOrigin = rx_seq [lit ''https://index'', any_char, lit ''crates'', any_char, lit ''io:443'']"

definition indexConfigSlug :: rx where
  "indexConfigSlug = rx_seq [lit ''/config'', any_char, lit ''json'']"

definition indexCrateSlug :: rx where
  "indexCrateSlug = rx_seq [lit ''/'', Cls is_word, Cls is_word, lit ''/'', Cls is_word, Cls is_word, lit ''/'', Grp (rx_plus (word_or ''-''))]"

definition CargoIndex_InspectRequest :: "Artifact \<Rightarrow> go_error option \<times> Artifact" where
  "CargoIndex_InspectRequest a =
     (let url = DownloadURL a in
      if \<not> MatchString True indexRequestOrigin False url then (None, a)
      else if MatchString False indexConfigSlug True url then
        (None, annotate_request ID_cargo_index [(''is-config'', AnyBool True), (''crate-name'', AnyString [])]
           (SetRequestPending ID_cargo_index ''request matches valid URL'' a))
      else (case FindStringSubmatch False indexCrateSlug True url of
          [_, crateName] \<Rightarrow> (None, annotate_request ID_cargo_index [(''is-config'', AnyBool False), (''crate-name'', AnyString crateName)]
            (SetRequestUnknown ID_cargo_index ''unsupported origin'' a))
        | _ \<Rightarrow> (None, a)))"

definition handleConfigArtifact :: "registry_env \<Rightarrow> string \<Rightarrow> Artifact \<Rightarrow> ArtifactMetadata option" where
  "handleConfigArtifact env f a =
     (if \<not> MimetypeIs a ''application/json'' then None
      else (case re_config_API env f of Inl _ \<Rightarrow> None
        | Inr api \<Rightarrow> Some (NoMetadata\<lparr>am_Type := ''application/json'', am_Name := ''config.json for Cargo package index'',
            am_Description := ''config.json for Cargo package index'', am_Vendor := api, am_Author := api\<rparr>)))"

definition handleCrateArtifact :: "registry_env \<Rightarrow> string \<Rightarrow> Artifact \<Rightarrow> ArtifactMetadata option" where
  "handleCrateArtifact env f a =
     (if \<not> MimetypeIs a ''application/x-ndjson'' then None
      else (case re_entry_Name env f of Inl _ \<Rightarrow> None
        | Inr name \<Rightarrow> Some (NoMetadata\<lparr>am_Type := ''application/x-ndjson'', am_Name := name,
            am_Description := ''Cargo package index for crate \"'' @ name @ ''\"''\<rparr>)))"

definition CargoIndex_InspectArtifact :: "registry_env \<Rightarrow> string \<Rightarrow> 'w \<Rightarrow> Artifact \<Rightarrow> go_error option \<times> Artifact \<times> 'w" where
  "CargoIndex_InspectArtifact env f w a =
     (case RequestBoolAnnotation a ID_cargo_index ''is-config'' of (config, ok) \<Rightarrow>
        if \<not> ok then (None, a, w)
        else if config then
          (case handleConfigArtifact env f a of None \<Rightarrow> (None, a, w)
           | Some md \<Rightarrow> (None, SetResponseApproved ID_cargo_index ''document contains valid config.json'' md a, w))
        else (case RequestStringAnnotation a ID_cargo_index ''crate-name'' of (crate, crateOK) \<Rightarrow>
          if \<not> crateOK then (None, a, w)
          else (case handleCrateArtifact env f a of None \<Rightarrow> (None, a, w)
            | Some md \<Rightarrow>
              (None, if am_Name md = crate then SetResponseApproved ID_cargo_index ''document contains valid crate index'' md a else a, w))))"

definition CargoIndexInspector :: "registry_env \<Rightarrow> 'w Inspector" where
  "CargoIndexInspector env = \<lparr>ins_ID = ID_cargo_index, ins_InspectRequest = CargoIndex_InspectRequest, ins_InspectArtifact = CargoIndex_InspectArtifact env\<rparr>"

section \<open>Crates (cargo/crate.go)\<close>

abbreviation ID_cargo_crate :: string where "ID_cargo_crate \<equiv> ''cargo.crate''"

definition crateRequestOrigin :: rx where
  "crateRequestOrigin = rx_seq [lit ''https://static'', any_char, lit ''crates'', any_char, lit ''io:443'']"

definition crateRequestSlug :: rx where
  "crateRequestSlug = rx_seq [lit ''/crates/'', Grp (rx_plus (word_or ''-'')), lit ''/'', Grp (rx_plus (Cls (\<lambda>c. is_digit c \<or> c = CHR ''.''))), lit ''/download'']"

definition CargoCrate_InspectRequest :: "Artifact \<Rightarrow> go_error option \<times> Artifact" where
  "CargoCrate_InspectRequest a =
     (let url = DownloadURL a in
      if \<not> MatchString True crateRequestOrigin False url then (None, a)
      else (case FindStringSubmatch False crateRequestSlug True url of
          [_, packageName, packageVersion] \<Rightarrow>
            (None, annotate_request ID_cargo_crate [(''package-name'', AnyString packageName), (''package-version'', AnyString packageVersion)]
              (SetRequestUnknown ID_cargo_crate ''unsupported origin'' a))
        | _ \<Rightarrow> (None, a)))"

definition crate_metadata :: "cargoPackage \<Rightarrow> ArtifactMetadata" where
  "crate_metadata pack = NoMetadata\<lparr>am_Type := ''application/x.rust.crate'', am_Name := cp_Name pack, am_Version := cp_Version pack,
     am_Description := strings_TrimSpace (cp_Description pack),
     am_Author := (if cp_Authors pack \<noteq> [] then strings_Join (cp_Authors pack) '', '' else []), am_License := cp_License pack\<rparr>"

definition parseCargoToml :: "registry_env \<Rightarrow> body_reader \<Rightarrow> ArtifactMetadata result" where
  "parseCargoToml env tf = (case re_toml env tf of Inl err \<Rightarrow> Inl err | Inr pack \<Rightarrow> Inr (crate_metadata pack))"

text \<open>The loop over the tarball up to the manifest of the crate; a tarball that ends or breaks before it is not recognised.\<close>

fun crate_members :: "registry_env \<Rightarrow> string \<Rightarrow> string \<Rightarrow> (string \<times> body_reader) list \<Rightarrow> Artifact \<Rightarrow> go_error option \<times> Artifact" where
  "crate_members env packageName packageVersion [] a = (None, a)"
| "crate_members env packageName packageVersion ((name, tf) # ms) a =
     (if name = packageName @ ''-'' @ packageVersion @ ''/Cargo.toml'' then
        (case parseCargoToml env tf of Inl err \<Rightarrow> (Some err, a)
         | Inr md \<Rightarrow> (None, if am_Name md = packageName \<and> am_Version md = packageVersion
             then SetResponseApproved ID_cargo_crate ''rust crate successfully parsed'' md a else a))
      else crate_members env packageName packageVersion ms a)"

definition CargoCrate_InspectArtifact :: "registry_env \<Rightarrow> string \<Rightarrow> 'w \<Rightarrow> Artifact \<Rightarrow> go_error option \<times> Artifact \<times> 'w" where
  "CargoCrate_InspectArtifact env f w a =
     (if \<not> MimetypeIs a ''application/gzip'' then (None, a, w)
      else (case RequestStringAnnotation a ID_cargo_crate ''package-name'' of (packageName, ok) \<Rightarrow>
        if \<not> ok then (None, a, w)
        else (case RequestStringAnnotation a ID_cargo_crate ''package-version'' of (packageVersion, ok') \<Rightarrow>
          if \<not> ok' then (None, a, w)
          else (case re_gzip_tar env f of Inl err \<Rightarrow> (Some err, a, w)
            | Inr (ms, _) \<Rightarrow> (case crate_members env packageName packageVersion ms a of (err, b) \<Rightarrow> (err, b, w))))))"

definition CargoCrateInspector :: "registry_env \<Rightarrow> 'w Inspector" where
  "CargoCrateInspector env = \<lparr>ins_ID = ID_cargo_crate, ins_InspectRequest = CargoCrate_InspectRequest, ins_InspectArtifact = CargoCrate_InspectArtifact env\<rparr>"

section \<open>Addresses and project files (maven/util.go)\<close>

record artifactURL =
  au_ArtifactID :: string
  au_GroupID :: string
  au_Version :: string

definition parseURL :: "rx \<Rightarrow> string \<Rightarrow> artifactURL option" where
  "parseURL slug url =
     (case FindStringSubmatch False slug True url of
        [_, groupID, artifactID, version] \<Rightarrow>
          Some \<lparr>au_ArtifactID = artifactID, au_GroupID = strings_ReplaceAll1 groupID (CHR ''/'') (CHR ''.''), au_Version = version\<rparr>
      | _ \<Rightarrow> None)"

definition pom_metadata :: "project \<Rightarrow> ArtifactMetadata" where
  "pom_metadata p = NoMetadata\<lparr>am_Name := pj_ArtifactID p,
     am_Vendor := (if pj_GroupID p = [] then pj_Parent_GroupID p else pj_GroupID p),
     am_Version := (if pj_Version p = [] then pj_Parent_Version p else pj_Version p),
     am_Description := pj_Description p, am_Author := strings_Join (pj_Developers p) '', '', am_License := strings_Join (pj_Licenses p) '' OR ''\<rparr>"

definition parsePom :: "project result \<Rightarrow> ArtifactMetadata result" where
  "parsePom decoded = (case decoded of Inl err \<Rightarrow> Inl err | Inr p \<Rightarrow> Inr (pom_metadata p))"

definition mavenOrigin :: rx where
  "mavenOrigin = rx_seq [lit ''https://repo'', any_char, lit ''maven'', any_char, lit ''apache'', any_char, lit ''org:443'']"

definition maven_slug :: "string \<Rightarrow> rx" where
  "maven_slug ext = rx_seq [lit ''/maven2/'', Grp (rx_plus (word_or ''-/'')), Star any_char, lit ''/'', Grp (rx_plus (word_or ''-'')), lit ''/'',
     Grp (Star any_char), lit ''/'', Star any_char, any_char, lit ext]"

definition maven_InspectRequest :: "string \<Rightarrow> rx \<Rightarrow> Artifact \<Rightarrow> go_error option \<times> Artifact" where
  "maven_InspectRequest iid slug a =
     (let url = DownloadURL a in
      if \<not> MatchString True mavenOrigin False url then (None, a)
      else (case parseURL slug url of None \<Rightarrow> (None, a)
        | Some u \<Rightarrow> (None, annotate_request iid [(''group-id'', AnyString (au_GroupID u)), (''artifact-id'', AnyString (au_ArtifactID u)),
              (''version'', AnyString (au_Version u))] (SetRequestUnknown iid ''unsupported origin'' a))))"

section \<open>Project files (maven/pom.go)\<close>

abbreviation ID_maven_pom :: string where "ID_maven_pom \<equiv> ''maven.pom''"

definition pomRequestSlug :: rx where "pomRequestSlug = maven_slug ''pom''"

definition MavenPom_InspectRequest :: "Artifact \<Rightarrow> go_error option \<times> Artifact" where
  "MavenPom_InspectRequest = maven_InspectRequest ID_maven_pom pomRequestSlug"

definition MavenPom_InspectArtifact :: "registry_env \<Rightarrow> string \<Rightarrow> 'w \<Rightarrow> Artifact \<Rightarrow> go_error option \<times> Artifact \<times> 'w" where
  "MavenPom_InspectArtifact env f w a =
     (if \<not> MimetypeIs a ''text/xml'' then (None, a, w)
      else (case RequestStringAnnotation a ID_maven_pom ''artifact-id'' of (artifactID, ok) \<Rightarrow>
        if \<not> ok then (None, a, w)
        else (case RequestStringAnnotation a ID_maven_pom ''version'' of (version, ok') \<Rightarrow>
          if \<not> ok' then (None, a, w)
          else (case parsePom (re_pom_file env f) of Inl err \<Rightarrow> (Some err, a, w)
            | Inr md \<Rightarrow>
              (None, if am_Name md = artifactID \<and> am_Version md = version
                 then SetResponseApproved ID_maven_pom ''Maven pom successfully parsed and validated''
                   (md\<lparr>am_Name := ''Maven POM file for '' @ [CHR 0x27] @ artifactID @ [CHR 0x27]\<rparr>) a
                 else a, w)))))"

definition MavenPomInspector :: "registry_env \<Rightarrow> 'w Inspector" where
  "MavenPomInspector env = \<lparr>ins_ID = ID_maven_pom, ins_InspectRequest = MavenPom_InspectRequest, ins_InspectArtifact = MavenPom_InspectArtifact env\<rparr>"

section \<open>Jars (maven/jar.go)\<close>

abbreviation ID_maven_jar :: string where "ID_maven_jar \<equiv> ''maven.jar''"

definition jarRequestSlug :: rx where "jarRequestSlug = maven_slug ''jar''"

definition pomXML :: rx where
  "pomXML = rx_seq [lit ''META-INF/maven/'', Grp (rx_plus (Cls (\<lambda>c. c \<noteq> CHR ''/''))), lit ''/'', Grp (rx_plus (Cls (\<lambda>c. c \<noteq> CHR ''/''))),
     lit ''/pom'', any_char, lit ''xml'']"

definition MavenJar_InspectRequest :: "Artifact \<Rightarrow> go_error option \<times> Artifact" where
  "MavenJar_InspectRequest = maven_InspectRequest ID_maven_jar jarRequestSlug"

text \<open>The loop over the members up to the first project file.\<close>

fun jar_members :: "registry_env \<Rightarrow> zip_member list \<Rightarrow> Artifact \<Rightarrow> go_error option \<times> Artifact" where
  "jar_members env [] a = (None, a)"
| "jar_members env (i # is) a =
     (case FindStringSubmatch True pomXML True (zm_Name i) of
        [_, groupID, artifactID] \<Rightarrow>
          (case zm_Open i of Inl err \<Rightarrow> (Some err, a)
           | Inr zf \<Rightarrow>
             (case parsePom (re_pom env zf) of Inl err \<Rightarrow> (Some err, a)
              | Inr md \<Rightarrow> (None, if am_Name md = artifactID
                  then annotate_response ID_maven_jar [(''group-id'', AnyString groupID), (''artifact-id'', AnyString artifactID)]
                    (SetResponseApproved ID_maven_jar ''Maven pom successfully parsed and validated'' md a)
                  else a)))
      | _ \<Rightarrow> jar_members env is a)"

definition MavenJar_InspectArtifact :: "registry_env \<Rightarrow> string \<Rightarrow> 'w \<Rightarrow> Artifact \<Rightarrow> go_error option \<times> Artifact \<times> 'w" where
  "MavenJar_InspectArtifact env f w a =
     (if \<not> MimetypeIs a ''application/jar'' then (None, a, w)
      else (case re_zip env f of Inl err \<Rightarrow> (Some err, a, w)
        | Inr ms \<Rightarrow> (case jar_members env ms a of (err, b) \<Rightarrow> (err, b, w))))"

definition MavenJarInspector :: "registry_env \<Rightarrow> 'w Inspector" where
  "MavenJarInspector env = \<lparr>ins_ID = ID_maven_jar, ins_InspectRequest = MavenJar_InspectRequest, ins_InspectArtifact = MavenJar_InspectArtifact env\<rparr>"

end
