(* ===== verification/Registries_Props.thy ===== *)
theory Registries_Props
  imports Registries
begin

text \<open>
  The inspectors of crates and jars keep the contract of inspectors. An approved crate holds the manifest of
  the crate that was asked for; an approved jar is checked against itself only.
\<close>

section \<open>Own entries\<close>

interpretation cargo_index: local_inspector "CargoIndexInspector env"
proof (rule local_inspectorI)
  show "req_result (ins_ID (CargoIndexInspector env)) a (ins_InspectRequest (CargoIndexInspector env) a)" for a
    unfolding CargoIndexInspector_def Inspector.simps CargoIndex_InspectRequest_def by (intro writes)
  show "resp_result (ins_ID (CargoIndexInspector env)) a (ins_InspectArtifact (CargoIndexInspector env) f w a)" for f w a
    unfolding CargoIndexInspector_def Inspector.simps CargoIndex_InspectArtifact_def by (intro writes)
qed

lemma crate_members_writes [writes]: "resp_pair ID_cargo_crate a (crate_members env n v ms a)"
proof (induction ms)
  case Nil
  show ?case unfolding crate_members.simps by (intro writes)
next
  case (Cons m ms)
  show ?case by (cases m) (simp only: crate_members.simps, intro writes Cons.IH)
qed

interpretation cargo_crate: local_inspector "CargoCrateInspector env"
proof (rule local_inspectorI)
  show "req_result (ins_ID (CargoCrateInspector env)) a (ins_InspectRequest (CargoCrateInspector env) a)" for a
    unfolding CargoCrateInspector_def Inspector.simps CargoCrate_InspectRequest_def by (intro writes)
  show "resp_result (ins_ID (CargoCrateInspector env)) a (ins_InspectArtifact (CargoCrateInspector env) f w a)" for f w a
    unfolding CargoCrateInspector_def Inspector.simps CargoCrate_InspectArtifact_def by (intro writes)
qed

lemma maven_InspectRequest_writes [writes]: "req_result iid a (maven_InspectRequest iid slug a)"
  unfolding maven_InspectRequest_def by (intro writes)

interpretation maven_pom: local_inspector "MavenPomInspector env"
proof (rule local_inspectorI)
  show "req_result (ins_ID (MavenPomInspector env)) a (ins_InspectRequest (MavenPomInspector env) a)" for a
    unfolding MavenPomInspector_def Inspector.simps MavenPom_InspectRequest_def by (intro writes)
  show "resp_result (ins_ID (MavenPomInspector env)) a (ins_InspectArtifact (MavenPomInspector env) f w a)" for f w a
    unfolding MavenPomInspector_def Inspector.simps MavenPom_InspectArtifact_def by (intro writes)
qed

lemma jar_members_writes [writes]: "resp_pair ID_maven_jar a (jar_members env ms a)"
proof (induction ms)
  case Nil
  show ?case unfolding jar_members.simps by (intro writes)
next
  case (Cons m ms)
  show ?case unfolding jar_members.simps by (intro writes Cons.IH)
qed

interpretation maven_jar: local_inspector "MavenJarInspector env"
proof (rule local_inspectorI)
  show "req_result (ins_ID (MavenJarInspector env)) a (ins_InspectRequest (MavenJarInspector env) a)" for a
    unfolding MavenJarInspector_def Inspector.simps MavenJar_InspectRequest_def by (intro writes)
  show "resp_result (ins_ID (MavenJarInspector env)) a (ins_InspectArtifact (MavenJarInspector env) f w a)" for f w a
    unfolding MavenJarInspector_def Inspector.simps MavenJar_InspectArtifact_def by (intro writes)
qed

section \<open>Requests that are never recognised\<close>

text \<open>Requests for crates, jars and project files are only noted, never pending: their origins are not supported.\<close>

lemma crate_request_not_pending:
  "opinion_of (a_RequestInspection a) ID_cargo_crate \<noteq> Some Pending \<Longrightarrow>
     opinion_of (a_RequestInspection (snd (CargoCrate_InspectRequest a))) ID_cargo_crate \<noteq> Some Pending"
  by (auto simp: CargoCrate_InspectRequest_def Let_def opinion_of_def Inspection_Annotate_def split: list.splits)

lemma maven_request_not_pending:
  "opinion_of (a_RequestInspection a) iid \<noteq> Some Pending \<Longrightarrow>
     opinion_of (a_RequestInspection (snd (maven_InspectRequest iid slug a))) iid \<noteq> Some Pending"
  by (auto simp: maven_InspectRequest_def Let_def opinion_of_def Inspection_Annotate_def split: option.splits)

section \<open>Approved crates\<close>

lemma crate_members_approved:
  assumes "crate_members env n v ms a = (e, b)" and "map_get (a_ResponseInspection a) ID_cargo_crate = None"
    and "opinion_of (a_ResponseInspection b) ID_cargo_crate = Some Approved"
  shows "\<exists>tf pack. (n @ ''-'' @ v @ ''/Cargo.toml'', tf) \<in> set ms \<and> re_toml env tf = Inr pack \<and> cp_Name pack = n \<and> cp_Version pack = v"
  using assms
proof (induction ms)
  case Nil
  then show ?case by (simp add: opinion_of_def)
next
  case (Cons m ms)
  obtain name tf where m: "m = (name, tf)" by fastforce
  show ?case
  proof (cases "name = n @ ''-'' @ v @ ''/Cargo.toml''")
    case True
    with Cons.prems m show ?thesis
      by (intro exI [of _ tf]) (auto simp: parseCargoToml_def crate_metadata_def opinion_of_def split: sum.splits if_splits)
  next
    case False
    with Cons m show ?thesis by auto
  qed
qed

text \<open>
  An approved crate is the crate that was asked for: the request was for an address of the registry with a
  name and a version, and the tarball holds, in the directory of that name and version, a manifest that
  decodes to the same name and version.
\<close>

theorem approved_crate_is_requested:
  assumes "ins_InspectRequest (CargoCrateInspector env) a0 = (None, a)" and "map_get (a_RequestInspection a0) ''cargo.crate'' = None"
    and "a_RequestInspection b = a_RequestInspection a" and "map_get (a_ResponseInspection b) ''cargo.crate'' = None"
    and "ins_InspectArtifact (CargoCrateInspector env) f w b = (e, c, w')"
    and "opinion_of (a_ResponseInspection c) ''cargo.crate'' = Some Approved"
  shows "\<exists>m name version ms err tf pack. MatchString True crateRequestOrigin False (DownloadURL a0) \<and>
    FindStringSubmatch False crateRequestSlug True (DownloadURL a0) = [m, name, version] \<and>
    re_gzip_tar env f = Inr (ms, err) \<and> (name @ ''-'' @ version @ ''/Cargo.toml'', tf) \<in> set ms \<and>
    re_toml env tf = Inr pack \<and> cp_Name pack = name \<and> cp_Version pack = version"
proof -
  have "c \<noteq> b" using assms(4,6) by (auto simp: opinion_of_def)
  then obtain name version ms err where x: "RequestStringAnnotation b ID_cargo_crate ''package-name'' = (name, True)"
    "RequestStringAnnotation b ID_cargo_crate ''package-version'' = (version, True)" "re_gzip_tar env f = Inr (ms, err)"
    "crate_members env name version ms b = (e, c)"
    using assms(5) by (auto simp: CargoCrateInspector_def CargoCrate_InspectArtifact_def split: if_splits prod.splits sum.splits)
  have same: "RequestStringAnnotation b ID_cargo_crate k = RequestStringAnnotation a ID_cargo_crate k" for k
    using assms(3) by (simp add: RequestStringAnnotation_def)
  have "RequestStringAnnotation a0 ID_cargo_crate ''package-name'' = ([], False)"
    using assms(2) by (simp add: RequestStringAnnotation_def inspectionAnnotation_def)
  with x(1,2) same have "a \<noteq> a0" by auto
  then obtain m n v where u: "MatchString True crateRequestOrigin False (DownloadURL a0)"
    "FindStringSubmatch False crateRequestSlug True (DownloadURL a0) = [m, n, v]"
    "a = annotate_request ID_cargo_crate [(''package-name'', AnyString n), (''package-version'', AnyString v)] (SetRequestUnknown ID_cargo_crate ''unsupported origin'' a0)"
    using assms(1) by (auto simp: CargoCrateInspector_def CargoCrate_InspectRequest_def Let_def split: if_splits list.splits)
  then have "name = n" "version = v"
    using x(1,2) same by (auto simp: RequestStringAnnotation_def inspectionAnnotation_def Inspection_Annotate_def)
  with u x crate_members_approved [OF x(4) assms(4,6)] show ?thesis by blast
qed

text \<open>A crate of one file and the request for it.\<close>

definition crate_request :: Artifact where
  "crate_request = NewArtifact\<lparr>a_CurrentDownload := (a_CurrentDownload NewArtifact)\<lparr>dl_URL := ''https://static.crates.io:443/crates/p/1.0/download''\<rparr>,
     a_MimeType := Some \<lparr>mime_String = ''application/gzip'', mime_Is = (\<lambda>x. x = ''application/gzip'')\<rparr>\<rparr>"

definition crate_env :: registry_env where
  "crate_env = \<lparr>re_gzip_tar = (\<lambda>_. Inr ([(''p-1.0/Cargo.toml'', \<lparr>br_data = [], br_err = None\<rparr>)], runtime_panic)), re_zip = (\<lambda>_. Inl runtime_panic),
     re_config_API = (\<lambda>_. Inl runtime_panic), re_entry_Name = (\<lambda>_. Inl runtime_panic),
     re_toml = (\<lambda>_. Inr \<lparr>cp_Name = ''p'', cp_Version = ''1.0'', cp_Description = [], cp_Authors = [], cp_License = []\<rparr>),
     re_pom_file = (\<lambda>_. Inl runtime_panic), re_pom = (\<lambda>_. Inl runtime_panic)\<rparr>"

definition crate_noted :: Artifact where
  "crate_noted = snd (ins_InspectRequest (CargoCrateInspector crate_env :: unit Inspector) crate_request)"

definition crate_checked :: Artifact where
  "crate_checked = fst (snd (ins_InspectArtifact (CargoCrateInspector crate_env) [] () crate_noted))"

theorem approved_crate_is_requested_witness:
  "\<exists>m. FindStringSubmatch False crateRequestSlug True (DownloadURL crate_request) = [m, ''p'', ''1.0'']"
proof -
  have "fst (ins_InspectRequest (CargoCrateInspector crate_env :: unit Inspector) crate_request) = None" by code_simp
  then have request: "ins_InspectRequest (CargoCrateInspector crate_env :: unit Inspector) crate_request = (None, crate_noted)"
    unfolding crate_noted_def by (metis prod.collapse)
  obtain e w' where run: "ins_InspectArtifact (CargoCrateInspector crate_env) [] () crate_noted = (e, crate_checked, w')"
    unfolding crate_checked_def by (metis prod.collapse)
  have fresh: "map_get (a_RequestInspection crate_request) ''cargo.crate'' = None" "map_get (a_ResponseInspection crate_noted) ''cargo.crate'' = None"
    and approved: "opinion_of (a_ResponseInspection crate_checked) ''cargo.crate'' = Some Approved" by code_simp+
  from approved_crate_is_requested [OF request fresh(1) refl fresh(2) run approved]
  obtain m name version tf pack where x: "FindStringSubmatch False crateRequestSlug True (DownloadURL crate_request) = [m, name, version]"
    "re_toml crate_env tf = Inr pack" "cp_Name pack = name" "cp_Version pack = version" by blast
  then have "name = ''p''" "version = ''1.0''" by (auto simp: crate_env_def)
  with x(1) show ?thesis by blast
qed

text \<open>
  An approved jar says nothing about the request: what the inspector decides depends on the file alone, and
  the group and the version in the request are not compared with it.
\<close>

theorem jar_approval_ignores_request:
  assumes "a_MimeType a = a_MimeType b" and "md_Type (a_Metadata a) = md_Type (a_Metadata b)"
    and "map_get (a_ResponseInspection a) ''maven.jar'' = map_get (a_ResponseInspection b) ''maven.jar''"
  shows "opinion_of (a_ResponseInspection (fst (snd (MavenJar_InspectArtifact env f w a)))) ''maven.jar'' =
    opinion_of (a_ResponseInspection (fst (snd (MavenJar_InspectArtifact env f w b)))) ''maven.jar''"
proof -
  have mime: "MimetypeIs a t = MimetypeIs b t" for t using assms(1,2) by (simp add: MimetypeIs_def)
  have "map_get (a_ResponseInspection (snd (jar_members env ms a))) ID_maven_jar = map_get (a_ResponseInspection (snd (jar_members env ms b))) ID_maven_jar" for ms
    using assms(3) by (induction ms) (auto split: list.splits sum.splits)
  then show ?thesis using assms(3) unfolding MavenJar_InspectArtifact_def mime
    by (auto simp: opinion_of_def split_beta split: sum.splits)
qed

end
