(* ===== verification/Lxd.thy ===== *)
theory Lxd
  imports Pipeline Openpgp
begin

text \<open>
  \<^verbatim>\<open>inspectors/lxd\<close>: the indexes and product lists of simple streams (\<^verbatim>\<open>simple_streams_index.go\<close>,
  \<^verbatim>\<open>simple_streams_download.go\<close>), the images they list (\<^verbatim>\<open>rootfs.go\<close>), instance types (\<^verbatim>\<open>instance_types.go\<close>) and the
  addresses they come from (\<^verbatim>\<open>urls.go\<close>).

  The state is the map from the path of an image to its digest (\<^theory_text>\<open>lxd_items\<close>, \<^const>\<open>None\<close> for the nil map), which
  every access locks. Arguments (\<^theory_text>\<open>lxd_env\<close>) stand for \<^verbatim>\<open>url.Parse\<close>, rewinding a file, the reader of compressed
  tarballs (members and the error it ends with) and the JSON and YAML decoders; the decoder of the metadata
  of an image writes into a value, which keeps what the document does not set. Maps of decoded documents
  are association lists in the order in which the loops see them; records hold the fields the code reads.
\<close>

section \<open>Addresses (urls.go)\<close>

text \<open>The dots of the host names are not escaped in the patterns.\<close>

definition lxd_validOrigins :: "rx list" where
  "lxd_validOrigins = [rx_seq [lit ''http://cloud-images'', any_char, lit ''ubuntu'', any_char, lit ''com''],
     rx_seq [lit ''https://cloud-images'', any_char, lit ''ubuntu'', any_char, lit ''com:443'']]"

definition validMetaOrigins :: "rx list" where
  "validMetaOrigins = [rx_seq [lit ''https://images'', any_char, lit ''lxd'', any_char, lit ''canonical'', any_char, lit ''com:443'']]"

definition origin_in :: "rx list \<Rightarrow> url \<Rightarrow> go_error option" where
  "origin_in origins u =
     (let origin = u_Scheme u @ ''://'' @ u_Host u in
      if list_ex (\<lambda>h. MatchString True h True origin) origins then None else Some (Errorf (''invalid origin '' @ origin)))"

definition lxd_checkValidOrigin :: "url \<Rightarrow> go_error option" where "lxd_checkValidOrigin = origin_in lxd_validOrigins"

definition checkValidMetaOrigin :: "url \<Rightarrow> go_error option" where "checkValidMetaOrigin = origin_in validMetaOrigins"

definition reSimpleStreamsIndex :: rx where
  "reSimpleStreamsIndex = rx_seq [lit ''/'', Grp (rx_plus (word_or ''-/'')), lit ''/streams/v1/index.json'']"

definition reSimpleStreamsDownload :: rx where
  "reSimpleStreamsDownload = rx_seq [lit ''/'', Grp (rx_plus (word_or ''-/'')), lit ''/streams/v1/'', Grp (rx_plus (word_or ''-./:'')), lit '':download.json'']"

definition reProductItem :: rx where
  "reProductItem = rx_seq [lit ''/buildd/'', Grp (Alt (lit ''daily'') (lit ''releases'')), lit ''/'', Grp (rx_plus (word_or ''-'')), lit ''/'',
     Grp (Seq (Cls is_word) (Star (word_or ''+.-''))), lit ''/'', Grp (Seq (rx_plus (word_or ''+.-'')) (lit ''.tar.gz''))]"

definition reInstanceTypes :: rx where
  "reInstanceTypes = rx_seq [lit ''/meta/instance-types/'', Star (word_or ''-''), lit ''.yaml'']"

definition lxd_submatch :: "rx \<Rightarrow> url \<Rightarrow> string list result" where
  "lxd_submatch re u =
     (case lxd_checkValidOrigin u of Some err \<Rightarrow> Inl err
      | None \<Rightarrow> (case FindStringSubmatch True re True (u_Path u) of
          [] \<Rightarrow> Inl (Errorf (''invalid URL path: '' @ u_Path u)) | _ # m \<Rightarrow> Inr m))"

definition NewSimpleStreamsIndexURLInfo :: "url \<Rightarrow> string list result" where
  "NewSimpleStreamsIndexURLInfo = lxd_submatch reSimpleStreamsIndex"

definition NewSimpleStreamsDownloadURLInfo :: "url \<Rightarrow> string list result" where
  "NewSimpleStreamsDownloadURLInfo = lxd_submatch reSimpleStreamsDownload"

definition NewProductItemURLInfo :: "url \<Rightarrow> string list result" where
  "NewProductItemURLInfo = lxd_submatch reProductItem"

definition newInstanceTypesURLInfo :: "url \<Rightarrow> go_error option" where
  "newInstanceTypesURLInfo u =
     (case checkValidMetaOrigin u of Some err \<Rightarrow> Some err
      | None \<Rightarrow> if MatchString True reInstanceTypes True (u_Path u) then None
                else Some (Errorf ''not a valid URL for LXD instance types''))"

section \<open>Data\<close>

record simpleStreamEntries =
  st_Datatype :: string
  st_Path :: string
  st_Format :: string

record simpleStreamsIndex =
  sx_Format :: string
  sx_Index :: "(string \<times> simpleStreamEntries) list"

record simpleStreamsProductItem =
  it_Path :: string
  it_Sha256 :: string

record simpleStreamProductEntries =
  pr_Version :: string
  pr_Versions :: "(string \<times> (string \<times> simpleStreamsProductItem) list) list"

record simpleStreamsDownload =
  sd_Updated :: string
  sd_Format :: string
  sd_Datatype :: string
  sd_ContentID :: string
  sd_Products :: "(string \<times> simpleStreamProductEntries) list option"

record RootfsMetadata =
  rm_Architecture :: string
  rm_CreationDate :: int
  rm_PArchitecture :: string
  rm_Description :: string
  rm_Os :: string
  rm_Series :: string

type_synonym lxd_items = "(string, string) gomap option"

record lxd_env =
  le_Parse :: "string \<Rightarrow> url result"
  le_Seek :: "string \<Rightarrow> go_error option"
  le_gzip_tar :: "string \<Rightarrow> ((string \<times> body_reader) list \<times> go_error) result"
  le_index :: "string \<Rightarrow> simpleStreamsIndex result"
  le_download :: "string \<Rightarrow> simpleStreamsDownload result"
  le_metadata :: "RootfsMetadata \<Rightarrow> body_reader \<Rightarrow> RootfsMetadata result"
  le_instanceTypes :: "string \<Rightarrow> (string \<times> (string \<times> string) list) list result"
  le_instanceInfos :: "string \<Rightarrow> (string \<times> string) list result"
  le_instanceIndexes :: "string \<Rightarrow> (string \<times> string) list result"

definition lxd_url_error :: "go_error \<Rightarrow> go_error" where
  "lxd_url_error err = Errorf (''cannot parse URL: '' @ err_Error err)"

section \<open>Indexes (simple\_streams\_index.go)\<close>

abbreviation ID_streams_index :: string where "ID_streams_index \<equiv> ''lxd.simple-streams.index''"
abbreviation indexFormat :: string where "indexFormat \<equiv> ''index:1.0''"
abbreviation productFormat :: string where "productFormat \<equiv> ''products:1.0''"

definition StreamsIndex_InspectRequest :: "lxd_env \<Rightarrow> Artifact \<Rightarrow> go_error option \<times> Artifact" where
  "StreamsIndex_InspectRequest env a =
     (case le_Parse env (DownloadURL a) of Inl err \<Rightarrow> (Some (lxd_url_error err), a)
      | Inr u \<Rightarrow> (case NewSimpleStreamsIndexURLInfo u of
          Inr [stream] \<Rightarrow> (None, annotate_request ID_streams_index [(''stream'', AnyString stream)]
            (SetRequestPending ID_streams_index ''valid Simple Streams index URL'' a))
        | _ \<Rightarrow> (None, a)))"

fun index_loop :: "ArtifactMetadata \<Rightarrow> string list \<Rightarrow> (string \<times> simpleStreamEntries) list \<Rightarrow> Artifact \<Rightarrow> Artifact" where
  "index_loop md paths [] a = annotate_response ID_streams_index [(''download-paths'', AnyStrings paths)]
     (SetResponseApproved ID_streams_index ''valid Simple Streams index file'' md a)"
| "index_loop md paths ((_, v) # vs) a =
     (if st_Format v \<noteq> productFormat then
        annotate_response ID_streams_index [(''index.format'', AnyString (st_Format v))] (SetResponseRejected ID_streams_index ''invalid index file'' md a)
      else if st_Datatype v \<noteq> ''image-downloads'' then
        annotate_response ID_streams_index [(''index.datatype'', AnyString (st_Datatype v))] (SetResponseRejected ID_streams_index ''invalid index file'' md a)
      else index_loop md (paths @ [st_Path v]) vs a)"

definition StreamsIndex_InspectArtifact :: "lxd_env \<Rightarrow> string \<Rightarrow> 'w \<Rightarrow> Artifact \<Rightarrow> go_error option \<times> Artifact \<times> 'w" where
  "StreamsIndex_InspectArtifact env f w a =
     (if \<not> MimetypeIs a ''application/json'' then (None, a, w)
      else (case RequestStringAnnotation a ID_streams_index ''stream'' of (stream, ok) \<Rightarrow>
        if \<not> ok then (None, a, w)
        else (case le_index env f of Inl _ \<Rightarrow> (None, a, w)
          | Inr b \<Rightarrow>
            (if sx_Format b \<noteq> indexFormat then (None, a, w)
             else (None, index_loop (NoMetadata\<lparr>am_Type := ''application/x.canonical.simplestreams-index'', am_Name := ''Simple Streams Index'',
                      am_Description := ''Simple Streams Index for '' @ stream\<rparr>) [] (sx_Index b) a, w)))))"

definition SimpleStreamsIndexInspector :: "lxd_env \<Rightarrow> 'w Inspector" where
  "SimpleStreamsIndexInspector env = \<lparr>ins_ID = ID_streams_index, ins_InspectRequest = StreamsIndex_InspectRequest env,
     ins_InspectArtifact = StreamsIndex_InspectArtifact env\<rparr>"

section \<open>Products (simple\_streams\_download.go)\<close>

abbreviation ID_streams_download :: string where "ID_streams_download \<equiv> ''lxd.simple-streams.download''"

definition downloadImageRequestURL :: rx where
  "downloadImageRequestURL = rx_seq [lit ''/'', rx_plus (word_or ''-''), lit ''/'', rx_plus (word_or ''-''), lit ''/'', Grp (rx_plus (word_or ''-/.''))]"

text \<open>\<^verbatim>\<open>matchItemFromURL\<close>: the path, also when it is not known, which the caller then only logs.\<close>

definition matchItemFromURL :: "lxd_env \<Rightarrow> lxd_items \<Rightarrow> string \<Rightarrow> string \<times> go_error option" where
  "matchItemFromURL env items downloadURL =
     (case le_Parse env downloadURL of Inl err \<Rightarrow> ([], Some (lxd_url_error err))
      | Inr u \<Rightarrow>
        (case items of None \<Rightarrow> ([], Some (Errorf ''no items''))
         | Some m \<Rightarrow>
           (case FindStringSubmatch True downloadImageRequestURL True (u_Path u) of
              _ # path # _ \<Rightarrow> (path, if map_get m path = None then Some (Errorf (''no item matching '' @ downloadURL)) else None)
            | _ \<Rightarrow> ([], Some (Errorf (''no item matching '' @ downloadURL))))))"

definition StreamsDownload_InspectRequest :: "lxd_env \<Rightarrow> Artifact \<Rightarrow> go_error option \<times> Artifact" where
  "StreamsDownload_InspectRequest env a =
     (case le_Parse env (DownloadURL a) of Inl err \<Rightarrow> (Some (lxd_url_error err), a)
      | Inr u \<Rightarrow> (case NewSimpleStreamsDownloadURLInfo u of
          Inr [stream, path] \<Rightarrow> (None, annotate_request ID_streams_download [(''stream'', AnyString stream), (''product-item-path'', AnyString path)]
            (SetRequestPending ID_streams_download ''valid Simple Streams download request URL'' a))
        | _ \<Rightarrow> (case NewProductItemURLInfo u of
            Inr [_, _, _, name] \<Rightarrow> (None, annotate_request ID_streams_download [(''product-name'', AnyString name)]
              (SetRequestPending ID_streams_download ''valid Simple Streams product item URL'' a))
          | _ \<Rightarrow> (None, a))))"

definition getProductItemDigest :: "lxd_items \<Rightarrow> string \<Rightarrow> string option" where
  "getProductItemDigest items path = (case items of None \<Rightarrow> None | Some m \<Rightarrow> map_get m path)"

definition inspectProductItem :: "lxd_items \<Rightarrow> string \<Rightarrow> Artifact \<Rightarrow> Artifact" where
  "inspectProductItem items path a =
     (let sha = Sha256Digest_String (Artifact_Sha256 a) in
      case getProductItemDigest items path of
        None \<Rightarrow> annotate_response ID_streams_download [(''product-item-path'', AnyString path), (''product-item-sha256'', AnyString sha)]
          (SetResponseRejected ID_streams_download ''sha256 missing for item'' NoMetadata a)
      | Some digest \<Rightarrow>
        (if digest \<noteq> sha then annotate_response ID_streams_download [(''expected-sha256'', AnyString digest), (''product-item-sha256'', AnyString sha)]
            (SetResponseRejected ID_streams_download ''sha256 mismatch'' NoMetadata a)
         else annotate_response ID_streams_download [(''product-item-path'', AnyString path), (''sha256'', AnyString sha)]
            (SetResponseUnknown ID_streams_download ''simple streams product item matches digest'' NoMetadata a)))"

definition supportedVersions :: "string list" where
  "supportedVersions = [''26.10'', ''26.04'', ''24.04'', ''22.04'', ''20.04'']"

definition add_item :: "simpleStreamsProductItem \<Rightarrow> (string, string) gomap \<Rightarrow> (string, string) gomap" where
  "add_item item m =
     (if strings_HasSuffix (it_Path item) ''.tar.gz'' \<and> it_Path item \<noteq> [] \<and> it_Sha256 item \<noteq> [] then map_set (it_Path item) (it_Sha256 item) m else m)"

definition product_items :: "(string \<times> simpleStreamProductEntries) list \<Rightarrow> simpleStreamsProductItem list" where
  "product_items products = concat (map (\<lambda>(_, p). if pr_Version p \<in> set supportedVersions
     then concat (map (\<lambda>(_, items). map snd items) (pr_Versions p)) else []) products)"

definition supported_images :: "(string \<times> simpleStreamProductEntries) list \<Rightarrow> (string, string) gomap" where
  "supported_images products = fold add_item (product_items products) []"

text \<open>\<^verbatim>\<open>extractSupportedUbuntuImages\<close>: the images, and the state with them copied in.\<close>

definition extractSupportedUbuntuImages :: "(string \<times> simpleStreamProductEntries) list \<Rightarrow> lxd_items \<Rightarrow> (string, string) gomap \<times> lxd_items" where
  "extractSupportedUbuntuImages products items =
     (let result = supported_images products in
      (result, Some (case items of None \<Rightarrow> result | Some m \<Rightarrow> fold (\<lambda>(k, v) m. map_set k v m) result m)))"

definition StreamsDownload_InspectArtifact :: "lxd_env \<Rightarrow> string \<Rightarrow> lxd_items \<Rightarrow> Artifact \<Rightarrow> go_error option \<times> Artifact \<times> lxd_items" where
  "StreamsDownload_InspectArtifact env f items a =
     (if MimetypeIs a ''application/gzip'' then
        (case matchItemFromURL env items (DownloadURL a) of (path, _) \<Rightarrow>
           (None, if path \<noteq> [] then inspectProductItem items path a else a, items))
      else if \<not> MimetypeIs a ''application/json'' then (None, a, items)
      else (case le_download env f of Inl _ \<Rightarrow> (None, a, items)
        | Inr dl \<Rightarrow>
          (case sd_Products dl of None \<Rightarrow> (None, a, items)
           | Some products \<Rightarrow>
             (if sd_Format dl \<noteq> productFormat \<or> sd_Datatype dl = [] \<or> sd_Updated dl = [] then (None, a, items)
              else (case RequestStringAnnotation a ID_streams_download ''stream'' of (stream, ok) \<Rightarrow>
                if \<not> ok then (Some (Errorf ''missing stream in request annotations''), a, items)
                else (case extractSupportedUbuntuImages products items of (result, items') \<Rightarrow>
                  (None, annotate_response ID_streams_download [(''product-items'', AnyMap (map (\<lambda>(k, v). (k, AnyString v)) result))]
                     (SetResponseApproved ID_streams_download ''valid Simple Streams Download file''
                        (NoMetadata\<lparr>am_Type := ''application/x.canonical.simplestreams-products'', am_Name := ''Simple Streams Download'',
                           am_Description := ''Simple Streams Download for '' @ sd_ContentID dl\<rparr>) a), items')))))))"

definition SimpleStreamsDownloadInspector :: "lxd_env \<Rightarrow> lxd_items Inspector" where
  "SimpleStreamsDownloadInspector env = \<lparr>ins_ID = ID_streams_download, ins_InspectRequest = StreamsDownload_InspectRequest env,
     ins_InspectArtifact = StreamsDownload_InspectArtifact env\<rparr>"

section \<open>Images (rootfs.go)\<close>

abbreviation ID_rootfs :: string where "ID_rootfs \<equiv> ''lxd.rootfs''"

definition Rootfs_InspectRequest :: "lxd_env \<Rightarrow> Artifact \<Rightarrow> go_error option \<times> Artifact" where
  "Rootfs_InspectRequest env a =
     (case le_Parse env (DownloadURL a) of Inl err \<Rightarrow> (Some (lxd_url_error err), a)
      | Inr u \<Rightarrow> (case NewProductItemURLInfo u of
          Inr [ty, series, date, name] \<Rightarrow> (None, annotate_request ID_rootfs [(''image-type'', AnyString ty), (''image-series'', AnyString series),
              (''image-datestamp'', AnyString date), (''image-name'', AnyString name)]
            (SetRequestPending ID_rootfs ''valid URL for LXD product item'' a))
        | _ \<Rightarrow> (None, a)))"

definition no_rootfs_metadata :: RootfsMetadata where
  "no_rootfs_metadata = \<lparr>rm_Architecture = [], rm_CreationDate = 0, rm_PArchitecture = [], rm_Description = [], rm_Os = [], rm_Series = []\<rparr>"

text \<open>The loop over the tarball: the metadata and whether a root file system was seen, or not recognised.\<close>

fun rootfs_members :: "lxd_env \<Rightarrow> go_error \<Rightarrow> RootfsMetadata \<Rightarrow> bool \<Rightarrow> (string \<times> body_reader) list \<Rightarrow> (RootfsMetadata \<times> bool) option" where
  "rootfs_members env err rmd hasRootfs [] = (if err = io_EOF then Some (rmd, hasRootfs) else None)"
| "rootfs_members env err rmd hasRootfs ((name, tf) # ms) =
     (if name = ''metadata.yaml'' then
        (case le_metadata env rmd tf of Inl _ \<Rightarrow> None | Inr rmd' \<Rightarrow> rootfs_members env err rmd' hasRootfs ms)
      else if strings_HasPrefix name ''rootfs/'' then
        (if rm_Architecture rmd \<noteq> [] then Some (rmd, True) else rootfs_members env err rmd True ms)
      else rootfs_members env err rmd hasRootfs ms)"

definition rootfs_note :: "RootfsMetadata \<Rightarrow> Annotation" where
  "rootfs_note r = [(''architecture'', AnyString (rm_Architecture r)), (''creation-date'', AnyInt (rm_CreationDate r)),
     (''os'', AnyString (rm_Os r)), (''series'', AnyString (rm_Series r))]"

definition Rootfs_InspectArtifact :: "lxd_env \<Rightarrow> string \<Rightarrow> 'w \<Rightarrow> Artifact \<Rightarrow> go_error option \<times> Artifact \<times> 'w" where
  "Rootfs_InspectArtifact env f w a =
     (if \<not> MimetypeIs a ''application/gzip'' then (None, a, w)
      else (case le_gzip_tar env f of Inl _ \<Rightarrow> (None, a, w)
        | Inr (ms, err) \<Rightarrow>
          (case rootfs_members env err no_rootfs_metadata False ms of None \<Rightarrow> (None, a, w)
           | Some (rmd, hasRootfs) \<Rightarrow>
             (if rm_Architecture rmd = [] \<or> rm_Os rmd = [] \<or> \<not> hasRootfs then (None, a, w)
              else (let md = NoMetadata\<lparr>am_Type := ''application/x.canonical.lxd-rootfs'', am_Name := ''LXD rootfs image'',
                          am_Version := fmt_int (rm_CreationDate rmd), am_Description := rm_Description rmd, am_Architecture := rm_PArchitecture rmd\<rparr> in
                if snd (ResponseStringAnnotation a ID_streams_download ''product-item-path'')
                then (None, annotate_response ID_rootfs (rootfs_note rmd) (SetResponseApproved ID_rootfs ''valid LXD rootfs tarball'' md a), w)
                else (None, annotate_response ID_rootfs (rootfs_note rmd)
                       (SetResponseRejected ID_rootfs ''artifact not verified against product items'' md a), w))))))"

definition RootfsInspector :: "lxd_env \<Rightarrow> 'w Inspector" where
  "RootfsInspector env = \<lparr>ins_ID = ID_rootfs, ins_InspectRequest = Rootfs_InspectRequest env, ins_InspectArtifact = Rootfs_InspectArtifact env\<rparr>"

section \<open>Instance types (instance\_types.go)\<close>

abbreviation ID_instance_types :: string where "ID_instance_types \<equiv> ''lxd.instance-types''"

definition InstanceTypes_InspectRequest :: "lxd_env \<Rightarrow> Artifact \<Rightarrow> go_error option \<times> Artifact" where
  "InstanceTypes_InspectRequest env a =
     (case le_Parse env (DownloadURL a) of Inl err \<Rightarrow> (Some (lxd_url_error err), a)
      | Inr u \<Rightarrow> (None, if newInstanceTypesURLInfo u = None then SetRequestPending ID_instance_types ''valid URL for LXD instance types'' a else a))"

text \<open>The three formats in turn: a document that does not decode as one is tried as the next; the kind and the entries.\<close>

definition instance_index :: "lxd_env \<Rightarrow> string \<Rightarrow> (string \<times> nat) option result" where
  "instance_index env f =
     (case le_Seek env f of Some err \<Rightarrow> Inl err
      | None \<Rightarrow> (case le_instanceIndexes env f of Inl _ \<Rightarrow> Inr None
          | Inr d \<Rightarrow> Inr (if list_all (\<lambda>(_, v). strings_HasSuffix (strings_TrimSpace v) ''.yaml'') d then Some (''index'', length d) else None)))"

definition instance_infos :: "lxd_env \<Rightarrow> string \<Rightarrow> (string \<times> nat) option result" where
  "instance_infos env f =
     (case le_Seek env f of Some err \<Rightarrow> Inl err
      | None \<Rightarrow> (case le_instanceInfos env f of Inl _ \<Rightarrow> instance_index env f
          | Inr d \<Rightarrow> Inr (if list_all (\<lambda>(_, cpu). cpu \<noteq> []) d then Some (''single-provider'', length d) else None)))"

definition instance_types :: "lxd_env \<Rightarrow> string \<Rightarrow> (string \<times> nat) option result" where
  "instance_types env f =
     (case le_instanceTypes env f of Inl _ \<Rightarrow> instance_infos env f
      | Inr d \<Rightarrow> Inr (if list_all (\<lambda>(_, t). list_all (\<lambda>(_, cpu). cpu \<noteq> []) t) d then Some (''consolidated'', length d) else None))"

definition InstanceTypes_InspectArtifact :: "lxd_env \<Rightarrow> string \<Rightarrow> 'w \<Rightarrow> Artifact \<Rightarrow> go_error option \<times> Artifact \<times> 'w" where
  "InstanceTypes_InspectArtifact env f w a =
     (if \<not> MimetypeIs a ''text/plain'' then (None, a, w)
      else if \<not> InspectorRequestOpinionPending a ID_instance_types then (None, a, w)
      else (case instance_types env f of Inl err \<Rightarrow> (Some err, a, w)
        | Inr None \<Rightarrow> (None, a, w)
        | Inr (Some (fileType, entries)) \<Rightarrow>
          (if entries = 0 then (None, a, w)
           else (None, annotate_response ID_instance_types [(''file-type'', AnyString fileType), (''entries'', AnyInt (int entries))]
             (SetResponseApproved ID_instance_types ''valid LXD instance types metadata''
                (NoMetadata\<lparr>am_Type := ''application/x.canonical.lxd-instance-types'', am_Name := ''Instance types'',
                   am_Description := ''LXD instance types metadata''\<rparr>) a), w))))"

definition InstanceTypesInspector :: "lxd_env \<Rightarrow> 'w Inspector" where
  "InstanceTypesInspector env = \<lparr>ins_ID = ID_instance_types, ins_InspectRequest = InstanceTypes_InspectRequest env,
     ins_InspectArtifact = InstanceTypes_InspectArtifact env\<rparr>"

end
