(* ===== verification/Lxd_Props.thy ===== *)
theory Lxd_Props
  imports Lxd
begin

text \<open>
  The inspectors of images keep the contract of inspectors; an image passes both of its inspectors only with
  the digest that an approved product list gives for the path it was fetched from.
\<close>

section \<open>Own entries\<close>

lemma index_loop_writes [writes]: "ends1 (writes_response ID_streams_index a) (index_loop md paths vs a)"
proof (induction vs arbitrary: paths)
  case Nil
  show ?case unfolding index_loop.simps by (intro writes)
next
  case (Cons x vs)
  show ?case by (cases x) (simp only: index_loop.simps, intro writes Cons.IH)
qed

interpretation streams_index: local_inspector "SimpleStreamsIndexInspector env"
proof (rule local_inspectorI)
  show "req_result (ins_ID (SimpleStreamsIndexInspector env)) a (ins_InspectRequest (SimpleStreamsIndexInspector env) a)" for a
    unfolding SimpleStreamsIndexInspector_def Inspector.simps StreamsIndex_InspectRequest_def by (intro writes)
  show "resp_result (ins_ID (SimpleStreamsIndexInspector env)) a (ins_InspectArtifact (SimpleStreamsIndexInspector env) f w a)" for f w a
    unfolding SimpleStreamsIndexInspector_def Inspector.simps StreamsIndex_InspectArtifact_def by (intro writes)
qed

lemma inspectProductItem_writes [writes]: "ends1 (writes_response ID_streams_download a) (inspectProductItem items path a)"
  unfolding inspectProductItem_def by (intro writes)

interpretation streams_download: local_inspector "SimpleStreamsDownloadInspector env"
proof (rule local_inspectorI)
  show "req_result (ins_ID (SimpleStreamsDownloadInspector env)) a (ins_InspectRequest (SimpleStreamsDownloadInspector env) a)" for a
    unfolding SimpleStreamsDownloadInspector_def Inspector.simps StreamsDownload_InspectRequest_def by (intro writes)
  show "resp_result (ins_ID (SimpleStreamsDownloadInspector env)) a (ins_InspectArtifact (SimpleStreamsDownloadInspector env) f w a)" for f w a
    unfolding SimpleStreamsDownloadInspector_def Inspector.simps StreamsDownload_InspectArtifact_def by (intro writes)
qed

interpretation rootfs: local_inspector "RootfsInspector env"
proof (rule local_inspectorI)
  show "req_result (ins_ID (RootfsInspector env)) a (ins_InspectRequest (RootfsInspector env) a)" for a
    unfolding RootfsInspector_def Inspector.simps Rootfs_InspectRequest_def by (intro writes)
  show "resp_result (ins_ID (RootfsInspector env)) a (ins_InspectArtifact (RootfsInspector env) f w a)" for f w a
    unfolding RootfsInspector_def Inspector.simps Rootfs_InspectArtifact_def by (intro writes)
qed

interpretation instance_types: local_inspector "InstanceTypesInspector env"
proof (rule local_inspectorI)
  show "req_result (ins_ID (InstanceTypesInspector env)) a (ins_InspectRequest (InstanceTypesInspector env) a)" for a
    unfolding InstanceTypesInspector_def Inspector.simps InstanceTypes_InspectRequest_def by (intro writes)
  show "resp_result (ins_ID (InstanceTypesInspector env)) a (ins_InspectArtifact (InstanceTypesInspector env) f w a)" for f w a
    unfolding InstanceTypesInspector_def Inspector.simps InstanceTypes_InspectArtifact_def by (intro writes)
qed

section \<open>Listed images\<close>

text \<open>A product list that the inspector approved.\<close>

definition products_approved :: "lxd_env \<Rightarrow> string \<Rightarrow> Artifact \<Rightarrow> (string \<times> simpleStreamProductEntries) list \<Rightarrow> bool" where
  "products_approved env f a products \<longleftrightarrow> MimetypeIs a ''application/json'' \<and> snd (RequestStringAnnotation a ''lxd.simple-streams.download'' ''stream'') \<and>
     (\<exists>dl. le_download env f = Inr dl \<and> sd_Products dl = Some products \<and> sd_Format dl = ''products:1.0'')"

text \<open>The state after a history of files and their artifacts, from the empty one.\<close>

definition lxd_history :: "lxd_env \<Rightarrow> (string \<times> Artifact) list \<Rightarrow> lxd_items" where
  "lxd_history env past = fold (\<lambda>(f, a) items. snd (snd (ins_InspectArtifact (SimpleStreamsDownloadInspector env) f items a))) past None"

definition listed :: "lxd_env \<Rightarrow> (string \<times> Artifact) list \<Rightarrow> string \<Rightarrow> string \<Rightarrow> bool" where
  "listed env past path digest \<longleftrightarrow> (\<exists>(f, a) \<in> set past. \<exists>products. products_approved env f a products \<and>
     (\<exists>item \<in> set (product_items products). it_Path item = path \<and> it_Sha256 item = digest))"

lemma StreamsDownload_items:
  "snd (snd (StreamsDownload_InspectArtifact env f items a)) = items \<or>
     (\<exists>products. products_approved env f a products \<and>
        snd (snd (StreamsDownload_InspectArtifact env f items a)) = snd (extractSupportedUbuntuImages products items))"
  by (auto simp: StreamsDownload_InspectArtifact_def products_approved_def split: prod.splits sum.splits option.splits)

lemma fold_add_item: "(path, d) \<in> set (fold add_item xs m) \<Longrightarrow>
    (path, d) \<in> set m \<or> (\<exists>item \<in> set xs. it_Path item = path \<and> it_Sha256 item = d)"
proof (induction xs arbitrary: m)
  case (Cons x xs)
  from Cons.IH [of "add_item x m"] Cons.prems show ?case by (auto simp: add_item_def split: if_splits dest!: set_map_set)
qed simp

lemma supported_images_listed: "(path, d) \<in> set (supported_images products) \<Longrightarrow> \<exists>item \<in> set (product_items products). it_Path item = path \<and> it_Sha256 item = d"
  using fold_add_item [of path d "product_items products" "[]"] by (simp add: supported_images_def)

lemma extract_items:
  assumes "getProductItemDigest (snd (extractSupportedUbuntuImages products items)) path = Some d"
  shows "getProductItemDigest items path = Some d \<or> (\<exists>item \<in> set (product_items products). it_Path item = path \<and> it_Sha256 item = d)"
proof (cases items)
  case None
  with assms have "(path, d) \<in> set (supported_images products)"
    by (auto simp: extractSupportedUbuntuImages_def Let_def getProductItemDigest_def dest: map_get_in)
  then show ?thesis using supported_images_listed by blast
next
  case (Some m)
  with assms have "map_get (fold (\<lambda>(k, v) m. map_set k v m) (supported_images products) m) path = Some d"
    by (simp add: extractSupportedUbuntuImages_def Let_def getProductItemDigest_def)
  with Some show ?thesis using map_get_fold_pairs supported_images_listed unfolding getProductItemDigest_def by fastforce
qed

lemma lxd_history_listed: "getProductItemDigest (lxd_history env past) path = Some d \<Longrightarrow> listed env past path d"
proof (induction past rule: rev_induct)
  case Nil
  then show ?case by (simp add: lxd_history_def getProductItemDigest_def)
next
  case (snoc fa past)
  obtain f a where fa: "fa = (f, a)" by fastforce
  let ?items = "lxd_history env past"
  have "getProductItemDigest (snd (snd (StreamsDownload_InspectArtifact env f ?items a))) path = Some d"
    using snoc.prems by (simp add: lxd_history_def fa SimpleStreamsDownloadInspector_def)
  then have "getProductItemDigest ?items path = Some d \<or>
      (\<exists>products. products_approved env f a products \<and> (\<exists>item \<in> set (product_items products). it_Path item = path \<and> it_Sha256 item = d))"
    using StreamsDownload_items [of env f ?items a] extract_items by metis
  with snoc.IH show ?case by (auto simp: listed_def fa)
qed

lemma inspectProductItem_passes:
  assumes "map_get (a_ResponseInspection a) ID_streams_download = None"
    and "opinion_of (a_ResponseInspection (inspectProductItem items path a)) ID_streams_download \<noteq> Some Rejected"
  shows "getProductItemDigest items path = Some (Sha256Digest_String (Artifact_Sha256 a))"
  using assms by (auto simp: inspectProductItem_def Let_def opinion_of_def Inspection_Annotate_def split: option.splits if_splits)

text \<open>The only way to the note that the inspector of images needs.\<close>

lemma download_noted:
  assumes run: "StreamsDownload_InspectArtifact env f items a = (e, b, items')"
    and fresh: "map_get (a_ResponseInspection a) ID_streams_download = None"
    and noted: "snd (ResponseStringAnnotation b ID_streams_download ''product-item-path'')"
  shows "b = inspectProductItem items (fst (matchItemFromURL env items (DownloadURL a))) a \<and> fst (matchItemFromURL env items (DownloadURL a)) \<noteq> []"
proof -
  have none: "\<not> snd (ResponseStringAnnotation a ID_streams_download ''product-item-path'')"
    using fresh by (simp add: ResponseStringAnnotation_def inspectionAnnotation_def)
  have "\<not> snd (ResponseStringAnnotation (annotate_response ID_streams_download [(''product-items'', x)] (SetResponseApproved ID_streams_download r md a))
      ID_streams_download ''product-item-path'')" for x r md
    by (simp add: ResponseStringAnnotation_def inspectionAnnotation_def Inspection_Annotate_def)
  with none noted run show ?thesis
    by (auto simp: StreamsDownload_InspectArtifact_def split: if_splits prod.splits sum.splits option.splits)
qed

lemma matchItemFromURL_path:
  assumes "fst (matchItemFromURL env items s) = path" and "path \<noteq> []"
  shows "\<exists>u m. le_Parse env s = Inr u \<and> take 2 (FindStringSubmatch True downloadImageRequestURL True (u_Path u)) = [m, path]"
  using assms by (auto simp: matchItemFromURL_def split: sum.splits option.splits list.splits)

section \<open>Claims\<close>

text \<open>
  C8. An image passes only with the digest its product list gives. When the inspector of product lists and
  then the inspector of images see a file, the latter approves it and the former does not reject it, then the
  SHA-256 digest of the file is the one that a product list approved before gives for the path in the address
  of the file.
\<close>

theorem approved_image_is_listed:
  assumes "ins_InspectArtifact (SimpleStreamsDownloadInspector env) f (lxd_history env past) a = (e, b, items)"
    and "ins_InspectArtifact (RootfsInspector env) f w b = (e', c, w')"
    and "map_get (a_ResponseInspection a) ''lxd.rootfs'' = None" and "map_get (a_ResponseInspection a) ''lxd.simple-streams.download'' = None"
    and "opinion_of (a_ResponseInspection c) ''lxd.rootfs'' = Some Approved"
    and "opinion_of (a_ResponseInspection c) ''lxd.simple-streams.download'' \<noteq> Some Rejected"
  shows "\<exists>u m path. le_Parse env (DownloadURL a) = Inr u \<and>
    take 2 (FindStringSubmatch True downloadImageRequestURL True (u_Path u)) = [m, path] \<and>
    listed env past path (Sha256Digest_String (Artifact_Sha256 a))"
proof -
  let ?items = "lxd_history env past" and ?path = "fst (matchItemFromURL env (lxd_history env past) (DownloadURL a))"
  have fresh: "map_get (a_ResponseInspection b) ID_rootfs = None"
    using streams_download.response_local [of ID_rootfs env f ?items a] assms(1,3) by (simp add: SimpleStreamsDownloadInspector_def)
  have kept: "map_get (a_ResponseInspection c) ID_streams_download = map_get (a_ResponseInspection b) ID_streams_download"
    using rootfs.response_local [of ID_streams_download env f w b] assms(2) by (simp add: RootfsInspector_def)
  have "snd (ResponseStringAnnotation b ID_streams_download ''product-item-path'')"
    using assms(2,5) fresh
    by (auto simp: RootfsInspector_def Rootfs_InspectArtifact_def opinion_of_def Let_def Inspection_Annotate_def split: if_splits sum.splits prod.splits option.splits)
  then have b: "b = inspectProductItem ?items ?path a" "?path \<noteq> []"
    using download_noted [of env f ?items a e b items] assms(1,4) by (simp_all add: SimpleStreamsDownloadInspector_def)
  have "opinion_of (a_ResponseInspection b) ID_streams_download \<noteq> Some Rejected" using assms(6) kept by (simp add: opinion_of_def)
  with b(1) inspectProductItem_passes assms(4) have "listed env past ?path (Sha256Digest_String (Artifact_Sha256 a))"
    by (intro lxd_history_listed) simp
  with matchItemFromURL_path [OF refl b(2)] show ?thesis by blast
qed

text \<open>One product list and the image it lists.\<close>

definition lxd_file :: "string \<Rightarrow> Artifact" where
  "lxd_file t = NewArtifact\<lparr>a_MimeType := Some \<lparr>mime_String = t, mime_Is = (\<lambda>x. x = t)\<rparr>\<rparr>"

abbreviation image_file :: Artifact where "image_file \<equiv> lxd_file ''application/gzip''"

definition image_list :: "(string \<times> simpleStreamProductEntries) list" where
  "image_list = [(''p'', \<lparr>pr_Version = ''24.04'', pr_Versions = [(''v'', [(''i'', \<lparr>it_Path = ''s.tar.gz'',
     it_Sha256 = Sha256Digest_String (Artifact_Sha256 image_file)\<rparr>)])]\<rparr>)]"

definition image_env :: lxd_env where
  "image_env = \<lparr>le_Parse = (\<lambda>_. Inr \<lparr>u_Scheme = ''https'', u_Host = ''h'', u_Path = ''/b/d/s.tar.gz'', u_RawQuery = []\<rparr>), le_Seek = (\<lambda>_. None),
     le_gzip_tar = (\<lambda>_. Inr ([(''metadata.yaml'', \<lparr>br_data = [], br_err = None\<rparr>), (''rootfs/etc'', \<lparr>br_data = [], br_err = None\<rparr>)], io_EOF)),
     le_index = (\<lambda>_. Inl io_EOF),
     le_download = (\<lambda>_. Inr \<lparr>sd_Updated = ''t'', sd_Format = ''products:1.0'', sd_Datatype = ''image-downloads'', sd_ContentID = ''c'', sd_Products = Some image_list\<rparr>),
     le_metadata = (\<lambda>r _. Inr (r\<lparr>rm_Architecture := ''amd64'', rm_Os := ''ubuntu''\<rparr>)),
     le_instanceTypes = (\<lambda>_. Inl io_EOF), le_instanceInfos = (\<lambda>_. Inl io_EOF), le_instanceIndexes = (\<lambda>_. Inl io_EOF)\<rparr>"

definition image_past :: "(string \<times> Artifact) list" where
  "image_past = [([], annotate_request ID_streams_download [(''stream'', AnyString ''buildd'')]
     (SetRequestPending ID_streams_download [] (lxd_file ''application/json'')))]"

definition image_first :: "go_error option \<times> Artifact \<times> lxd_items" where
  "image_first = ins_InspectArtifact (SimpleStreamsDownloadInspector image_env) [] (lxd_history image_env image_past) image_file"

definition image_second :: "go_error option \<times> Artifact \<times> unit" where
  "image_second = ins_InspectArtifact (RootfsInspector image_env) [] () (fst (snd image_first))"

lemma image_runs:
  "opinion_of (a_ResponseInspection (fst (snd image_second))) ''lxd.rootfs'' = Some Approved"
  "opinion_of (a_ResponseInspection (fst (snd image_second))) ''lxd.simple-streams.download'' = Some Unknown"
  by code_simp+

theorem approved_image_is_listed_witness:
  "listed image_env image_past ''s.tar.gz'' (Sha256Digest_String (Artifact_Sha256 image_file))"
proof -
  obtain e b items where first: "ins_InspectArtifact (SimpleStreamsDownloadInspector image_env) [] (lxd_history image_env image_past) image_file = (e, b, items)"
    by (metis prod_cases3)
  obtain e' c w' where second: "ins_InspectArtifact (RootfsInspector image_env) [] () b = (e', c, w')" by (metis prod_cases3)
  have c: "fst (snd image_second) = c" using first second by (simp add: image_first_def image_second_def)
  have fresh: "map_get (a_ResponseInspection image_file) ''lxd.rootfs'' = None" "map_get (a_ResponseInspection image_file) ''lxd.simple-streams.download'' = None"
    by code_simp+
  have "opinion_of (a_ResponseInspection c) ''lxd.simple-streams.download'' \<noteq> Some Rejected" using image_runs(2) c by simp
  from approved_image_is_listed [OF first second fresh image_runs(1) [unfolded c] this]
  obtain u m path where u: "le_Parse image_env (DownloadURL image_file) = Inr u"
    "take 2 (FindStringSubmatch True downloadImageRequestURL True (u_Path u)) = [m, path]" and
    l: "listed image_env image_past path (Sha256Digest_String (Artifact_Sha256 image_file))" by blast
  have "take 2 (FindStringSubmatch True downloadImageRequestURL True ''/b/d/s.tar.gz'') = [''/b/d/s.tar.gz'', ''s.tar.gz'']" by code_simp
  with u have "path = ''s.tar.gz''" by (auto simp: image_env_def)
  with l show ?thesis by simp
qed

end
