(* ===== verification/Registry.thy ===== *)
theory Registry
  imports Snap_Contract Store_Props Pip_Props Apt_Contract Deb Chisel_Props Git_Contract Git_Trust Registries_Props Lxd_Props
begin

text \<open>
  \<^verbatim>\<open>New\<close> of \<^verbatim>\<open>inspectors/inspectors.go\<close>: the inspectors of a session, all of them, over one state.

  The state has a component for each group of inspectors that keeps one: the cache of verified keys (shared by
  the process), the packages of the store, the APT indexes, the references of git repositories and the images
  of product lists. \<^theory_text>\<open>lift_inspector\<close> makes an inspector of one component work on the whole. The release
  inspector also reads the state when it inspects a request: the registry is that of the state in which it is used.
\<close>

record ('k, 's, 'p, 'g) inspect_env =
  ie_store :: store_env
  ie_snap :: snap_env
  ie_assert :: "('k, 's) assert_env"
  ie_snap_info :: "string \<Rightarrow> snapInfoBody result"
  ie_refresh_request :: "string \<Rightarrow> snapRefreshAction list result"
  ie_refresh_response :: "string \<Rightarrow> snapRefreshItem list result"
  ie_sections :: "string \<Rightarrow> string list option result"
  ie_auth_sessions :: "string \<Rightarrow> string result"
  ie_auth_nonce :: "string \<Rightarrow> string result"
  ie_auth_request_id :: "string \<Rightarrow> string result"
  ie_names :: "string \<Rightarrow> packageInfo list option result"
  ie_api :: api_env
  ie_pip :: pip_env
  ie_apt :: "('p, 'g) apt_env"
  ie_deb :: deb_env
  ie_chisel :: "('p, 'g) chisel_env"
  ie_git :: git_env
  ie_craft :: craft_env
  ie_registry :: registry_env
  ie_lxd :: lxd_env

record 'k inspect_state =
  is_keys :: "'k key_cache"
  is_ids :: store_ids
  is_apt :: apt_state
  is_git :: git_state
  is_items :: lxd_items

definition lift_inspector :: "('w \<Rightarrow> 'v) \<Rightarrow> ('v \<Rightarrow> 'w \<Rightarrow> 'w) \<Rightarrow> 'v Inspector \<Rightarrow> 'w Inspector" where
  "lift_inspector getc putc ins = \<lparr>ins_ID = ins_ID ins, ins_InspectRequest = ins_InspectRequest ins,
     ins_InspectArtifact = (\<lambda>f w a. case ins_InspectArtifact ins f (getc w) a of (e, b, v) \<Rightarrow> (e, b, putc v w))\<rparr>"

abbreviation "on_keys \<equiv> lift_inspector is_keys (\<lambda>v. is_keys_update (\<lambda>_. v))"
abbreviation "on_ids \<equiv> lift_inspector is_ids (\<lambda>v. is_ids_update (\<lambda>_. v))"
abbreviation "on_apt \<equiv> lift_inspector is_apt (\<lambda>v. is_apt_update (\<lambda>_. v))"
abbreviation "on_git \<equiv> lift_inspector is_git (\<lambda>v. is_git_update (\<lambda>_. v))"
abbreviation "on_items \<equiv> lift_inspector is_items (\<lambda>v. is_items_update (\<lambda>_. v))"

definition insList :: "('k, 's, 'p, 'g) inspect_env \<Rightarrow> InspectorsConfig \<Rightarrow> 'k inspect_state \<Rightarrow> 'k inspect_state Inspector list" where
  "insList env cfg w =
     [on_keys (SnapInspector (ie_store env) (ie_snap env) (ie_assert env) (cfg_Snap cfg)),
      on_keys (SnapAssertionInspector (ie_store env) (ie_assert env)),
      SnapInfoInspector (ie_store env) (ie_snap_info env),
      SnapRefreshInspector (ie_store env) (ie_refresh_request env) (ie_refresh_response env),
      SnapSectionsInspector (ie_store env) (ie_sections env),
      SnapAuthSessionsInspector (ie_store env) (ie_auth_sessions env),
      SnapAuthNonceInspector (ie_store env) (ie_auth_nonce env),
      SnapAuthRequestIDInspector (ie_store env) (ie_auth_request_id env),
      SnapNamesInspector (ie_store env) (ie_names env),
      on_ids (StoreInfoAPIInspector (ie_api env) (cfg_Store cfg) (cfg_BldBin cfg)),
      StoreResolveAPIInspector (ie_api env) (cfg_Store cfg),
      StoreTransformsAPIInspector (ie_api env) (cfg_Store cfg),
      StoreAppMediaInspector (ie_api env) (cfg_Store cfg),
      BldBinInspector (ie_api env) (cfg_BldBin cfg),
      SimpleIndexInspector (ie_pip env),
      WheelInspector (ie_pip env),
      SdistInspector (ie_pip env),
      MetadataInspector (ie_pip env),
      on_apt (AptReleaseInspector (ie_apt env) (cfg_Apt cfg) (is_apt w)),
      on_apt (AptPackagesInspector (ie_apt env) (cfg_Apt cfg)),
      on_apt (AptTranslationInspector (ie_apt env) (cfg_Apt cfg)),
      on_apt (AptCommandsInspector (ie_apt env) (cfg_Apt cfg)),
      DebInspector (ie_deb env) (cfg_Apt cfg),
      ChiselReleaseInspector (ie_chisel env) (cfg_Chisel cfg) (cfg_Apt cfg),
      SmartQueryInspector (ie_git env) (cfg_Git cfg),
      on_git (UploadPackInspector (ie_git env) (cfg_Git cfg)),
      GoModuleGitInspector (ie_craft env)] @
     craft_inspectors (ie_craft env) (cfg_Crafts cfg) @
     [CargoIndexInspector (ie_registry env),
      CargoCrateInspector (ie_registry env),
      MavenJarInspector (ie_registry env),
      MavenPomInspector (ie_registry env),
      SimpleStreamsIndexInspector (ie_lxd env),
      on_items (SimpleStreamsDownloadInspector (ie_lxd env)),
      RootfsInspector (ie_lxd env),
      InstanceTypesInspector (ie_lxd env),
      DefaultInspector]"

definition inspectors_New :: "('k, 's, 'p, 'g) inspect_env \<Rightarrow> bool \<Rightarrow> InspectorsConfig \<Rightarrow> 'k inspect_state \<Rightarrow> 'k inspect_state Inspectors" where
  "inspectors_New env permissive cfg w = newInspectors permissive (insList env cfg w)"

section \<open>The contract holds of all of them\<close>

lemma inspector_lift:
  assumes "inspector ins"
  shows "inspector (lift_inspector getc putc ins)"
proof
  fix a f w
  show "request_frame {ins_ID (lift_inspector getc putc ins)} a (snd (ins_InspectRequest (lift_inspector getc putc ins) a))"
    using inspector.request_framed [OF assms] by (simp add: lift_inspector_def)
  show "response_frame {ins_ID (lift_inspector getc putc ins)} a (fst (snd (ins_InspectArtifact (lift_inspector getc putc ins) f w a)))"
    using inspector.response_framed [OF assms, of a f "getc w"] by (simp add: lift_inspector_def split_beta)
qed

lemma ins_ID_lift [simp]: "ins_ID (lift_inspector getc putc ins) = ins_ID ins"
  by (simp add: lift_inspector_def)

lemma ins_IDs [simp]: "map ins_ID (insList env cfg w) = registered_ids"
  by (simp add: insList_def registered_ids_def craft_inspectors_def craft_inspector_def SnapInspector_def SnapAssertionInspector_def SnapInfoInspector_def
      SnapRefreshInspector_def SnapSectionsInspector_def SnapAuthSessionsInspector_def SnapAuthNonceInspector_def SnapAuthRequestIDInspector_def
      SnapNamesInspector_def StoreInfoAPIInspector_def StoreResolveAPIInspector_def StoreTransformsAPIInspector_def StoreAppMediaInspector_def
      BldBinInspector_def SimpleIndexInspector_def WheelInspector_def SdistInspector_def MetadataInspector_def AptReleaseInspector_def
      AptPackagesInspector_def AptTranslationInspector_def AptCommandsInspector_def DebInspector_def ChiselReleaseInspector_def
      SmartQueryInspector_def UploadPackInspector_def GoModuleGitInspector_def CargoIndexInspector_def CargoCrateInspector_def
      MavenJarInspector_def MavenPomInspector_def SimpleStreamsIndexInspector_def SimpleStreamsDownloadInspector_def RootfsInspector_def
      InstanceTypesInspector_def DefaultInspector_def)

lemmas all_inspectors =
  snap.inspector_axioms snap_assertion.inspector_axioms snap_info.inspector_axioms snap_refresh.inspector_axioms snap_sections.inspector_axioms
  snap_auth_sessions.inspector_axioms snap_auth_nonce.inspector_axioms snap_auth_request_id.inspector_axioms snap_names.inspector_axioms
  store_info_api.inspector_axioms store_resolve_api.inspector_axioms store_transforms_api.inspector_axioms store_appmedia.inspector_axioms
  bld_bin.inspector_axioms simple_index.inspector_axioms wheel.inspector_axioms sdist.inspector_axioms pip_metadata.inspector_axioms
  apt_release.inspector_axioms apt_packages.inspector_axioms apt_translations.inspector_axioms apt_commands.inspector_axioms
  deb_inspector.inspector_axioms chisel_release.inspector_axioms smart_query.inspector_axioms upload_pack.inspector_axioms
  gomod.inspector_axioms cargo_index.inspector_axioms cargo_crate.inspector_axioms maven_jar.inspector_axioms maven_pom.inspector_axioms
  streams_index.inspector_axioms streams_download.inspector_axioms rootfs.inspector_axioms instance_types.inspector_axioms default_local.local_inspector_axioms [THEN local_inspector.axioms(1)]

lemma insList_inspectors: "ins \<in> set (insList env cfg w) \<Longrightarrow> inspector ins"
  using craft_inspectors_local [THEN local_inspector.axioms(1)]
  unfolding insList_def by (auto intro: all_inspectors inspector_lift)

lemma last_insList: "last (insList env cfg w) = DefaultInspector"
  by (simp add: insList_def)

lemma insList_registered: "registered (insList env cfg w)"
  unfolding registered_def using insList_inspectors last_insList ins_IDs by blast

lemma New_registry:
  "registry_ok (insmap (inspectors_New env p cfg w)) registered_ids" "insp_ids (inspectors_New env p cfg w) = registered_ids"
  using registered_registry [OF insList_registered] by (simp_all add: inspectors_New_def)

lemma New_lookup: "ins \<in> set (insList env cfg w) \<Longrightarrow> map_get (insmap (inspectors_New env p cfg w)) (ins_ID ins) = Some ins"
  unfolding inspectors_New_def by (intro newInspectors_get) (simp_all add: distinct_registered_ids)

section \<open>Requests that no one recognises\<close>

text \<open>Inspectors that only note a request, since they support no origin yet.\<close>

definition unsupported_ids :: "string list" where
  "unsupported_ids = [''pip.simple-index'', ''pip.wheel'', ''pip.sdist'', ''pip.metadata'', ''go.module.git'', ''cargo.crate'', ''maven.jar'', ''maven.pom'']"

definition never_pending :: "'w Inspector \<Rightarrow> bool" where
  "never_pending ins \<longleftrightarrow> (\<forall>a. opinion_of (a_RequestInspection a) (ins_ID ins) \<noteq> Some Pending \<longrightarrow>
     opinion_of (a_RequestInspection (snd (ins_InspectRequest ins a))) (ins_ID ins) \<noteq> Some Pending)"

lemma run_request_never_pending:
  assumes "registry_ok insm ids" and "map_get insm j = Some jns" and "ins_ID jns = j" and "never_pending jns"
    and "opinion_of (a_RequestInspection a) j \<noteq> Some Pending" and "run_request insm ids a = (None, a')"
  shows "opinion_of (a_RequestInspection a') j \<noteq> Some Pending"
  using assms
proof (induction insm ids a rule: run_request.induct)
  case (2 insm i ids a)
  then obtain ins where ins: "map_get insm i = Some ins" "ins_ID ins = i" "inspector ins" "registry_ok insm ids"
    using registry_okD by blast
  from "2.prems"(6) ins(1) obtain b where b: "ins_InspectRequest ins a = (None, b)" "run_request insm ids b = (None, a')"
    by (auto split: prod.splits option.splits)
  have "opinion_of (a_RequestInspection b) j \<noteq> Some Pending"
  proof (cases "i = j")
    case True
    with ins(1) "2.prems"(2-5) b(1) show ?thesis unfolding never_pending_def by (metis option.inject snd_conv)
  next
    case False
    with inspector.request_framed [OF ins(3), of a] b(1) ins(2) "2.prems"(5) show ?thesis by (simp add: request_frame_def)
  qed
  with "2.IH" [OF ins(1) b(1) [symmetric] refl] ins(4) "2.prems"(2-4) b(2) show ?case by blast
qed simp

lemma gomod_never_pending: "never_pending (GoModuleGitInspector env)"
  by (auto simp: never_pending_def GoModuleGitInspector_def GoModuleGit_InspectRequest_def opinion_of_def Inspection_Annotate_def
      split: sum.splits prod.splits if_splits)

lemma pip_never_pending:
  "never_pending (SimpleIndexInspector penv)" "never_pending (WheelInspector penv)" "never_pending (SdistInspector penv)" "never_pending (MetadataInspector penv)"
  by (auto simp: never_pending_def SimpleIndexInspector_def SimpleIndex_InspectRequest_def WheelInspector_def SdistInspector_def MetadataInspector_def
      pip_request_def opinion_of_def Inspection_Annotate_def split: sum.splits list.splits)

lemma registries_never_pending:
  "never_pending (CargoCrateInspector renv)" "never_pending (MavenJarInspector renv)" "never_pending (MavenPomInspector renv)"
  using crate_request_not_pending maven_request_not_pending
  by (simp_all add: never_pending_def CargoCrateInspector_def MavenJarInspector_def MavenPomInspector_def MavenJar_InspectRequest_def MavenPom_InspectRequest_def)

text \<open>The inspectors behind these ids, in the same order.\<close>

definition unsupported_inspectors :: "('k, 's, 'p, 'g) inspect_env \<Rightarrow> 'k inspect_state Inspector list" where
  "unsupported_inspectors env =
     [SimpleIndexInspector (ie_pip env), WheelInspector (ie_pip env), SdistInspector (ie_pip env), MetadataInspector (ie_pip env),
      GoModuleGitInspector (ie_craft env), CargoCrateInspector (ie_registry env), MavenJarInspector (ie_registry env), MavenPomInspector (ie_registry env)]"

lemma unsupported_inspectors_IDs: "map ins_ID (unsupported_inspectors env) = unsupported_ids"
  by (simp add: unsupported_inspectors_def unsupported_ids_def SimpleIndexInspector_def WheelInspector_def SdistInspector_def MetadataInspector_def
      GoModuleGitInspector_def CargoCrateInspector_def MavenJarInspector_def MavenPomInspector_def)

lemma unsupported_inspectors_facts:
  "\<forall>ins \<in> set (unsupported_inspectors env). never_pending ins" "set (unsupported_inspectors env) \<subseteq> set (insList env cfg w)"
  by (simp_all add: unsupported_inspectors_def pip_never_pending registries_never_pending gomod_never_pending insList_def)

lemma unsupported_never_pending:
  assumes "j \<in> set unsupported_ids"
  shows "\<exists>ins \<in> set (insList env cfg w). ins_ID ins = j \<and> never_pending ins"
proof -
  have "j \<in> ins_ID ` set (unsupported_inspectors env)" using assms unsupported_inspectors_IDs by (metis list.set_map)
  then show ?thesis using unsupported_inspectors_facts by blast
qed

section \<open>Claims\<close>

text \<open>
  C1. In a strict session, with the inspectors the service creates, a file is approved only when one of them
  recognised both sides of the download: it left a pending opinion on the request when the request was
  inspected, and it approved the file. It is neither the default inspector nor one of those for Python
  packages, Go modules, crates, jars and Maven project files, which support no origin.
\<close>

theorem strict_session_approval:
  assumes "a_RequestInspection a0 = []" and "RunRequestInspectors (inspectors_New env False cfg w0) a0 = (None, a)"
    and "a_RequestInspection b = a_RequestInspection a" and "a_ResponseInspection b = []" and "wf_artifact b"
    and "RunArtifactInspectors ienv (inspectors_New env False cfg w) dir w b = (None, c, w')" and "Artifact_Approved c"
  shows "\<exists>j \<in> set registered_ids - set (''default'' # unsupported_ids).
    opinion_of (a_RequestInspection a) j = Some Pending \<and> opinion_of (a_ResponseInspection c) j = Some Approved"
proof -
  have "\<exists>j \<in> set registered_ids. j \<noteq> ''default'' \<and> opinion_of (a_RequestInspection b) j = Some Pending \<and>
      opinion_of (a_ResponseInspection c) j = Some Approved"
    using strict_approval_needs_recognition [OF insList_registered assms(5,4) assms(6) [unfolded inspectors_New_def] assms(7)] .
  then obtain j where j: "j \<in> set registered_ids" "j \<noteq> ''default''" "opinion_of (a_RequestInspection a) j = Some Pending"
    "opinion_of (a_ResponseInspection c) j = Some Approved" using assms(3) by auto
  have "opinion_of (a_RequestInspection a) j \<noteq> Some Pending" if unsupported: "j \<in> set unsupported_ids"
  proof -
    obtain ins where ins: "ins \<in> set (insList env cfg w0)" "ins_ID ins = j" "never_pending ins" using unsupported_never_pending [OF unsupported] by blast
    have "opinion_of (a_RequestInspection a0) j \<noteq> Some Pending" using assms(1) by (simp add: opinion_of_def)
    moreover have "run_request (insmap (inspectors_New env False cfg w0)) registered_ids a0 = (None, a)"
      using assms(2) New_registry(2) by (metis RunRequestInspectors_def)
    ultimately show ?thesis using run_request_never_pending [OF New_registry(1)] New_lookup [OF ins(1)] ins(2,3) by blast
  qed
  with j show ?thesis by auto
qed

text \<open>
  Surroundings in which every request goes to the index of crates and nothing else can be read, and the
  request for its configuration.
\<close>

definition index_url :: "string \<Rightarrow> url result" where
  "index_url _ = Inr \<lparr>u_Scheme = ''https'', u_Host = ''index.crates.io:443'', u_Path = ''/config.json'', u_RawQuery = []\<rparr>"

definition unreadable :: "'b \<Rightarrow> 'r result" where
  "unreadable _ = Inl io_EOF"

definition no_keys :: "(unit, unit) pgp_lib" where
  "no_keys = pgp_lib.make unreadable (\<lambda>_. ([], io_EOF)) (\<lambda>_. None) (\<lambda>_ _ _. Some io_EOF) (\<lambda>_. [])"

definition idle_env :: "(unit, unit, unit, unit) inspect_env" where
  "idle_env = \<lparr>ie_store = store_env.make index_url (\<lambda>_. ''https://index.crates.io:443/config.json''),
     ie_snap = snap_env.make unreadable (\<lambda>_. None) unreadable unreadable,
     ie_assert = assert_env.make no_keys unreadable (\<lambda>_. None) unreadable (),
     ie_snap_info = unreadable, ie_refresh_request = unreadable, ie_refresh_response = unreadable, ie_sections = unreadable,
     ie_auth_sessions = unreadable, ie_auth_nonce = unreadable, ie_auth_request_id = unreadable, ie_names = unreadable,
     ie_api = api_env.make index_url unreadable unreadable unreadable unreadable unreadable unreadable unreadable,
     ie_pip = pip_env.make index_url unreadable unreadable (\<lambda>_. []) (\<lambda>_. ([], io_EOF)) (\<lambda>_. []) None (\<lambda>_. None) (\<lambda>_. None) (\<lambda>_. None) unreadable,
     ie_apt = apt_env.make index_url (\<lambda>_. unreadable) no_keys unreadable unreadable (\<lambda>_ _. ([], None)) (\<lambda>_. None) (\<lambda>_. None),
     ie_deb = deb_env.make index_url (\<lambda>_. ([], io_EOF)) unreadable unreadable unreadable (\<lambda>_. ([], io_EOF)) None (\<lambda>_. None) unreadable id,
     ie_chisel = chisel_env.make no_keys (\<lambda>_. 0) unreadable unreadable id,
     ie_git = git_env.make index_url unreadable (\<lambda>_. None) (\<lambda>_. None) (\<lambda>_. unreadable) (\<lambda>_. None) (\<lambda>_. None) (\<lambda>_. None) (\<lambda>_ _. None) (\<lambda>_ _. None)
       (\<lambda>_. None) (\<lambda>_ _. None) (\<lambda>_ _. None),
     ie_craft = craft_env.make index_url (\<lambda>_. None) unreadable unreadable unreadable unreadable,
     ie_registry = registry_env.make unreadable unreadable (\<lambda>_. Inr ''https://crates.io'') unreadable unreadable unreadable unreadable,
     ie_lxd = lxd_env.make index_url (\<lambda>_. None) unreadable unreadable unreadable (\<lambda>_. unreadable) unreadable unreadable unreadable\<rparr>"

definition idle_state :: "unit inspect_state" where
  "idle_state = \<lparr>is_keys = [], is_ids = [], is_apt = new_apt_state, is_git = new_git_state, is_items = None\<rparr>"

definition json_files :: insp_env where
  "json_files = \<lparr>env_open = (\<lambda>_. Inr ''data''), env_detect = (\<lambda>_. Inr \<lparr>mime_String = ''application/json'', mime_Is = (\<lambda>t. t = ''application/json'')\<rparr>),
     env_seek = (\<lambda>_. None)\<rparr>"

definition config_request :: Artifact where
  "config_request = NewArtifact\<lparr>a_CurrentDownload := (a_CurrentDownload NewArtifact)\<lparr>dl_URL := ''https://index.crates.io:443/config.json''\<rparr>\<rparr>"

abbreviation idle_registry :: "unit inspect_state Inspectors" where
  "idle_registry \<equiv> inspectors_New idle_env False zero_InspectorsConfig idle_state"

definition config_inspected :: Artifact where
  "config_inspected = snd (RunRequestInspectors idle_registry config_request)"

definition config_file :: Artifact where
  "config_file = config_request\<lparr>a_RequestInspection := [(''cargo.index'', \<lparr>in_Opinion = Pending, in_Reason = ''request matches valid URL'',
     in_Annotations = [(''is-config'', AnyBool True), (''crate-name'', AnyString [])]\<rparr>)]\<rparr>"

definition config_typed :: Artifact where
  "config_typed = config_file\<lparr>a_Metadata := (a_Metadata config_file)\<lparr>md_Type := ''application/json''\<rparr>,
     a_MimeType := Some \<lparr>mime_String = ''application/json'', mime_Is = (\<lambda>t. t = ''application/json'')\<rparr>\<rparr>"

definition config_checked :: Artifact where
  "config_checked = fst (snd (CargoIndex_InspectArtifact (ie_registry idle_env) ''data'' idle_state config_typed))"

lemma config_request_runs: "map_prod id a_RequestInspection (RunRequestInspectors idle_registry config_request) = (None, a_RequestInspection config_file)"
  by code_simp

lemma config_request_inspected:
  "RunRequestInspectors idle_registry config_request = (None, config_inspected)" "a_RequestInspection config_file = a_RequestInspection config_inspected"
  using config_request_runs by (simp_all add: config_inspected_def prod_eq_iff)

lemma config_approved:
  "Artifact_Approved config_checked" "ResponseApproved config_checked"
  "fst (CargoIndex_InspectArtifact (ie_registry idle_env) ''data'' idle_state config_typed) = None"
  by code_simp+

lemma config_typed_run: "CargoIndex_InspectArtifact (ie_registry idle_env) ''data'' idle_state config_typed = (None, config_checked, idle_state)"
proof -
  have "snd (snd (CargoIndex_InspectArtifact (ie_registry idle_env) ''data'' idle_state config_typed)) = idle_state"
    by (auto simp: CargoIndex_InspectArtifact_def split: prod.split option.split)
  with config_approved(3) show ?thesis by (simp add: config_checked_def prod_eq_iff)
qed

lemma skip_all: "\<forall>i \<in> set xs. skips p a i \<Longrightarrow> run_artifact env insm p f (xs @ ys) w a = run_artifact env insm p f ys w a"
  by (induction xs) auto

lemma config_skips: "a_RequestInspection a = a_RequestInspection config_file \<Longrightarrow> skips False a i \<longleftrightarrow> i \<noteq> ''default'' \<and> i \<noteq> ''cargo.index''"
  by (auto simp: skips_def config_file_def)

lemma idle_lookup:
  "map_get (insmap idle_registry) ''cargo.index'' = Some (CargoIndexInspector (ie_registry idle_env))" "map_get (insmap idle_registry) ''default'' = Some DefaultInspector"
  using New_lookup [of "CargoIndexInspector (ie_registry idle_env)" idle_env zero_InspectorsConfig idle_state False]
    New_lookup [of DefaultInspector idle_env zero_InspectorsConfig idle_state False]
  by (simp_all add: insList_def CargoIndexInspector_def DefaultInspector_def)

lemma registered_ids_split: "registered_ids = take 32 registered_ids @ ''cargo.index'' # drop 33 (butlast registered_ids) @ [''default'']"
  by (simp add: registered_ids_def)

lemma config_file_runs: "RunArtifactInspectors json_files idle_registry [] idle_state config_file = (None, config_checked, idle_state)"
proof -
  have "response_frame {''cargo.index''} config_typed config_checked"
    using cargo_index.response_framed [of "ie_registry idle_env" config_typed "''data''" idle_state] config_typed_run by (simp add: CargoIndexInspector_def)
  then have same: "a_RequestInspection config_checked = a_RequestInspection config_file" "a_RequestInspection config_typed = a_RequestInspection config_file"
    by (simp_all add: response_frame_def config_typed_def)
  have others: "\<forall>i \<in> set (take 32 registered_ids). i \<noteq> ''default'' \<and> i \<noteq> ''cargo.index''" "\<forall>i \<in> set (drop 33 (butlast registered_ids)). i \<noteq> ''default'' \<and> i \<noteq> ''cargo.index''"
    by (simp_all add: registered_ids_def)
  let ?run = "run_artifact json_files (insmap idle_registry) False ''data''"
  have "?run registered_ids idle_state config_typed = ?run (''cargo.index'' # drop 33 (butlast registered_ids) @ [''default'']) idle_state config_typed"
    using others(1) same(2) by (subst registered_ids_split, intro skip_all) (simp add: config_skips)
  also have "\<dots> = ?run (drop 33 (butlast registered_ids) @ [''default'']) idle_state config_checked"
    using config_typed_run by (simp add: config_skips [OF same(2)] idle_lookup json_files_def) (simp add: CargoIndexInspector_def)
  also have "\<dots> = ?run [''default''] idle_state config_checked"
    using others(2) same(1) by (intro skip_all) (simp add: config_skips)
  also have "\<dots> = (None, config_checked, idle_state)"
    using config_approved(2) by (simp add: config_skips [OF same(1)] idle_lookup json_files_def DefaultInspector_def Default_InspectArtifact_def)
  finally show ?thesis
    by (simp add: RunArtifactInspectors_def New_registry json_files_def config_typed_def) (simp add: inspectors_New_def newInspectors_def)
qed

lemma config_fresh: "a_RequestInspection config_request = []" "a_ResponseInspection config_file = []" "wf_artifact config_file"
  by (simp_all add: config_request_def config_file_def NewArtifact_def wf_artifact_def)

theorem strict_session_approval_witness:
  "\<exists>j \<in> set registered_ids - set (''default'' # unsupported_ids).
    opinion_of (a_RequestInspection config_inspected) j = Some Pending \<and> opinion_of (a_ResponseInspection config_checked) j = Some Approved"
  by (rule strict_session_approval [OF config_fresh(1) config_request_inspected config_fresh(2,3) config_file_runs config_approved(1)])

end
