(* ===== verification/Spec2Isabelle.thy ===== *)
theory Spec2Isabelle
  imports Inspection_Engine Artifact_Props Config_Props Acl Proxy_Auth Secrets_Props Spool Service_Life Dispatcher Control Proxy_Props Upstream Fetch_Main Logs_Props
    Apt_Types Git_Refs Git_Props Snap_Props Snap_Refresh Registry
begin

text \<open>
  The fetch service (\<^verbatim>\<open>src/\<close>, in Go) is a proxy for builds. A build opens a session through the control API and
  fetches its dependencies through the proxy with the credentials of the session. Every request and every
  downloaded file is shown to inspectors, one per kind of dependency; in a strict session a file reaches the
  build only if they approve it, and what was fetched is recorded for a report.

  \<^bold>\<open>The parts and how they interact.\<close> The proxy, the control API and the fetchctl socket send messages to one
  dispatcher, which owns the sessions and answers every message; it starts a goroutine for an inspection and
  for the removal of files. Session timers send the dispatcher the identifiers of sessions that expired. The
  proxy asks the dispatcher for the authentication of a client, the inspection of a request and the
  inspection of a response, and checks addresses against the access rules. Inspections run the inspectors
  of the session in a fixed order; inspectors of one protocol share state (the releases and packages of APT
  repositories, git references, product lists), and all snap inspectors of the process share a cache of keys.

  \<^bold>\<open>Conventions.\<close> A struct is a record and a function of the code a definition of the same name, prefixed where
  two packages use a name. An error is a value of \<^typ>\<open>go_error\<close>; \<^typ>\<open>'a result\<close> is an error or a value. Strings and byte
  slices are lists of 8-bit characters, maps are association lists, in the order in which Go iterates them
  where that order matters. 64-bit integers that can wrap are words. A panic is the error \<^verbatim>\<open>runtime_panic\<close> and a
  recursion without end \<^verbatim>\<open>never_returns\<close>, so both are visible to the theorems; a handler that would block is
  \<^const>\<open>None\<close>. Third-party packages and services (YAML, JSON and archive readers, OpenPGP and TLS, git, the network)
  are arguments of the definitions, collected in records of environments; what a theorem needs of them is an
  assumption of that theorem. What the operating system refuses is an argument too (\<^verbatim>\<open>os_faults\<close>).

  \<^bold>\<open>Shared theories.\<close>
  \<^item> \<^verbatim>\<open>Fetch_Prelude\<close>: errors, maps, strings and paths of Go, with their laws and the collections of rules.
  \<^item> \<^verbatim>\<open>Filesystem\<close> (files, directories, renames and removals, \<^verbatim>\<open>utils.MoveFile\<close>), \<^verbatim>\<open>Base64\<close>, \<^verbatim>\<open>Net_Addr\<close> (addresses and
    networks), \<^verbatim>\<open>Http\<close>, \<^verbatim>\<open>Go_Text\<close>, \<^verbatim>\<open>Go_Url\<close>, \<^verbatim>\<open>Regex\<close> (matching with submatches): what the code uses of the standard
    library.

  \<^bold>\<open>Artifacts and inspections.\<close>
  \<^item> \<^verbatim>\<open>Opinions\<close>, \<^verbatim>\<open>Digests\<close>, \<^verbatim>\<open>Artifact\<close> (\<^verbatim>\<open>metadata/\<close>, \<^verbatim>\<open>inspectors/common\<close>): the opinion of an inspector, digests and their
    JSON forms, the artifact with its inspection maps. \<^verbatim>\<open>Artifact_Props\<close>: the verdict is a function of the opinions,
    and a rejection is final.
  \<^item> \<^verbatim>\<open>Inspection_Engine\<close> (\<^verbatim>\<open>inspectors/inspectors.go\<close>): the registry and its two loops. The locale \<^verbatim>\<open>inspector\<close> states
    the contract of an inspector (it writes no entry but its own); every inspector of the program is an
    interpretation. \<^verbatim>\<open>Pipeline\<close> extends it to inspectors that read the entries of others.
  \<^item> \<^verbatim>\<open>Registry\<close>: the list of inspectors that the service creates, over one state, and what an approval in a strict
    session needs.

  \<^bold>\<open>Inspectors.\<close>
  \<^item> \<^verbatim>\<open>Inspector_Base\<close>, \<^verbatim>\<open>File_Utils\<close>, \<^verbatim>\<open>Openpgp\<close>: MIME types, zip files, keys and clearsigned texts.
  \<^item> APT and Debian packages: \<^verbatim>\<open>Apt_Config\<close>, \<^verbatim>\<open>Apt_Release\<close>, \<^verbatim>\<open>Apt_Packages\<close>, \<^verbatim>\<open>Apt_Indexes\<close>, \<^verbatim>\<open>Deb\<close>. \<^verbatim>\<open>Apt_Contract\<close>, \<^verbatim>\<open>Apt_Trust\<close>,
    \<^verbatim>\<open>Apt_Chain\<close> and \<^verbatim>\<open>Apt_Props\<close> follow an approved package through the lists it is in to a signed release file, in
    every interleaving of downloads; \<^verbatim>\<open>Apt_Types\<close> keeps the state within the types of the code.
  \<^item> git, crafts and Go modules: \<^verbatim>\<open>Git_Protocol\<close> (packet lines and packs, with the bound of their loops), \<^verbatim>\<open>Git\<close>, \<^verbatim>\<open>Craft\<close>.
    \<^verbatim>\<open>Git_Contract\<close>, \<^verbatim>\<open>Git_Trust\<close> and \<^verbatim>\<open>Git_Props\<close>: what an approved response rests on; \<^verbatim>\<open>Git_Refs\<close>: the remembered
    references refine one map.
  \<^item> Snaps: \<^verbatim>\<open>Snap_Store\<close>, \<^verbatim>\<open>Snap_Assertion\<close>, \<^verbatim>\<open>Snap\<close>. \<^verbatim>\<open>Snap_Contract\<close>, \<^verbatim>\<open>Snap_Trust\<close> and \<^verbatim>\<open>Snap_Props\<close>: signatures lead from the
    root key to an approved snap, and when their verification returns; \<^verbatim>\<open>Snap_Refresh\<close>: a refresh response against
    its request.
  \<^item> Python packages (\<^verbatim>\<open>Pip\<close>), the store and packages of binaries (\<^verbatim>\<open>Store_Api\<close>), LXD images (\<^verbatim>\<open>Lxd\<close>), crates and jars
    (\<^verbatim>\<open>Registries\<close>), Chisel releases (\<^verbatim>\<open>Chisel\<close>), each with a theory \<^verbatim>\<open>_Props\<close> on what its approval rests on.

  \<^bold>\<open>Sessions and the service.\<close>
  \<^item> \<^verbatim>\<open>Config\<close>, \<^verbatim>\<open>Config_Props\<close>, \<^verbatim>\<open>Acl\<close> (\<^verbatim>\<open>service/config\<close>, \<^verbatim>\<open>glob\<close>, \<^verbatim>\<open>proxy/acl\<close>); \<^verbatim>\<open>Secrets\<close>, \<^verbatim>\<open>Secrets_Props\<close> (\<^verbatim>\<open>secrets\<close>).
  \<^item> \<^verbatim>\<open>Session\<close>, \<^verbatim>\<open>Session_Props\<close>, \<^verbatim>\<open>Spool\<close> (\<^verbatim>\<open>session\<close>): the table of sessions and its invariant, timers, the files of a
    session.
  \<^item> \<^verbatim>\<open>Service\<close> (messages and handlers); \<^verbatim>\<open>Service_Steps\<close>: the running service as a step relation over the dispatcher
    and the goroutines, with its invariant; \<^verbatim>\<open>Service_Props\<close> and \<^verbatim>\<open>Service_Life\<close>: what clients are told, and the life
    of a session; \<^verbatim>\<open>Dispatcher\<close>: the loop with the idle timer, and \<^verbatim>\<open>Stop\<close>.
  \<^item> \<^verbatim>\<open>Control\<close> (\<^verbatim>\<open>control\<close>): the handlers of the control API, against the locale of a dispatcher that answers.
  \<^item> \<^verbatim>\<open>Proxy_Auth\<close>, \<^verbatim>\<open>Proxy\<close>, \<^verbatim>\<open>Proxy_Props\<close>, \<^verbatim>\<open>Upstream\<close> (\<^verbatim>\<open>proxy\<close>): what reaches a client and an origin, and through which
    upstream proxy; \<^verbatim>\<open>Cert\<close> (\<^verbatim>\<open>proxy/cert.go\<close>): the certificate of the proxy.
  \<^item> \<^verbatim>\<open>Fetchctl\<close> (\<^verbatim>\<open>service/fetchctl\<close>, \<^verbatim>\<open>cmd/fetchctl\<close>): the commands and their server; \<^verbatim>\<open>Fetch_Main\<close> (\<^verbatim>\<open>cmd/fetch\<close>): start, main
    loop, exit status; \<^verbatim>\<open>Logs\<close>, \<^verbatim>\<open>Logs_Props\<close> (\<^verbatim>\<open>logger\<close>, \<^verbatim>\<open>seclog\<close>): the logs and their rotation.

  \<^bold>\<open>Loops and bounds.\<close> Loops are structural recursion or functions with a measure. The two loops that read git
  traffic until a condition holds run with fuel; one round more than there are bytes is enough, and is what
  the definitions use (\<^verbatim>\<open>Git_Protocol\<close>). The recursive verification of assertions may not end and is a partial
  function; \<^verbatim>\<open>Snap_Trust\<close> says when it returns and when it does not.

  \<^bold>\<open>Findings with a theorem.\<close> A session created without an identifier removes the whole spool when it expires
  (\<^verbatim>\<open>Fetchctl\<close>); a failed certificate update is in use (\<^verbatim>\<open>Cert\<close>); a failed write of a configuration is reported as
  success (\<^verbatim>\<open>Config_Props\<close>); an empty line panics the release inspector (\<^verbatim>\<open>Apt_Props\<close>) and a bare digest the wheel
  inspector (\<^verbatim>\<open>Pip_Props\<close>); keys in a cycle keep the verification from returning (\<^verbatim>\<open>Snap_Trust\<close>); responses with
  other statuses than 200 are not inspected (\<^verbatim>\<open>Proxy_Props\<close>); timeouts wrap (\<^verbatim>\<open>Service_Life\<close>); the main loop spins when
  the profiler dies (\<^verbatim>\<open>Fetch_Main\<close>); a percent sign in an identifier changes log lines (\<^verbatim>\<open>Logs_Props\<close>).

  \<^bold>\<open>Not modelled.\<close> What only passes calls to the standard library or to a package: opening and closing of
  sockets and HTTP servers, the routes of the control API, which a third-party router matches, the profiler,
  the wrapper of files, JSON encoder options, and the registration of MIME detectors. Locks and memory
  sharing between goroutines: a step of the service and an inspection of one file are atomic. The log lines
  and security events that handlers write while they work, apart from the functions that write them. The
  text of the two built-in assertions of the snap store, whose decoded form is an argument. Test helpers.
\<close>

end
